(* ===== verification/HAL_Prelude.thy ===== *)
theory HAL_Prelude
  imports Main "HOL-Library.Multiset" "HOL-Library.Char_ord" "HOL-Library.List_Lexorder" "HOL-Library.Product_Lexorder"
begin

text \<open>
  Vocabulary shared by every component of the OCPP HAL: instants and durations of Go's
  \<^verbatim>\<open>time\<close> package, 64-bit integers, the sentinel errors of the stores, and the generic lemmas
  on lists, options and maps that the component proofs use.

  An instant (\<^verbatim>\<open>time.Time\<close>, always UTC in this program) is the number of nanoseconds since
  Go's zero time, so \<^verbatim>\<open>IsZero\<close> is equality with 0, \<^verbatim>\<open>Before\<close> and \<^verbatim>\<open>After\<close> are the order
  of \<open>int\<close>, and \<^verbatim>\<open>Add\<close> is addition. A \<^verbatim>\<open>time.Duration\<close> is an \<^verbatim>\<open>int64\<close>: where the
  source multiplies, negates or subtracts one, the wrap-around is written out with
  \<open>wrap64\<close>.  A nil pointer is \<open>None\<close>. An error result is \<open>Inl\<close>.
\<close>

named_theorems hal_defs \<open>unfolding rules for the operations of the components\<close>

type_synonym gotime = int
type_synonym duration = int

subsection \<open>Signed 64-bit integers\<close>

definition wrap64 :: "int \<Rightarrow> int" where
  "wrap64 x = (x + 2 ^ 63) mod 2 ^ 64 - 2 ^ 63"

definition in_int64 :: "int \<Rightarrow> bool" where
  "in_int64 x \<longleftrightarrow> - (2 ^ 63) \<le> x \<and> x < 2 ^ 63"

lemma wrap64_id [simp]: "in_int64 x \<Longrightarrow> wrap64 x = x"
  by (simp add: wrap64_def in_int64_def)

lemma in_int64_wrap64 [simp]: "in_int64 (wrap64 x)"
proof -
  have "0 \<le> (x + 2 ^ 63) mod 2 ^ 64" and "(x + 2 ^ 63) mod 2 ^ 64 < (2 ^ 64 :: int)"
    by simp_all
  then show ?thesis by (simp add: wrap64_def in_int64_def)
qed

lemma in_int64_diff: "0 \<le> a \<Longrightarrow> a \<le> b \<Longrightarrow> in_int64 b \<Longrightarrow> in_int64 (b - a)"
  by (auto simp: in_int64_def)

lemma wrap64_min: "wrap64 (- (- (2 ^ 63))) = - (2 ^ 63)"
  by (simp add: wrap64_def)

subsection \<open>Instants and durations\<close>

abbreviation duration_second :: duration where "duration_second \<equiv> 1000000000"
abbreviation duration_minute :: duration where "duration_minute \<equiv> 60 * duration_second"

definition time_IsZero :: "gotime \<Rightarrow> bool" where
  "time_IsZero t \<longleftrightarrow> t = 0"

text \<open>\<^verbatim>\<open>Time.Sub\<close> saturates: a difference outside \<^verbatim>\<open>int64\<close> is the least or the greatest
  \<^verbatim>\<open>Duration\<close>.\<close>

definition time_Sub :: "gotime \<Rightarrow> gotime \<Rightarrow> duration" where
  "time_Sub t u = max (- (2 ^ 63)) (min (2 ^ 63 - 1) (t - u))"

text \<open>\<^verbatim>\<open>Time.Truncate(time.Microsecond)\<close> rounds down to a multiple since the zero time.\<close>

definition truncate_us :: "gotime \<Rightarrow> gotime" where
  "truncate_us t = t - t mod 1000"

lemma time_Sub_exact: "in_int64 (t - u) \<Longrightarrow> time_Sub t u = t - u"
  by (auto simp: time_Sub_def in_int64_def)

lemma time_Sub_under: "t - u < - (2 ^ 63) \<Longrightarrow> time_Sub t u = - (2 ^ 63)"
  by (simp add: time_Sub_def)

lemma truncate_us_bounds: "truncate_us t \<le> t \<and> t < truncate_us t + 1000"
  by (simp add: truncate_us_def)

lemma truncate_us_idem [simp]: "truncate_us (truncate_us t) = truncate_us t"
  by (simp add: truncate_us_def)

subsection \<open>Errors\<close>

text \<open>
  The first group are the \<^verbatim>\<open>ErrV1*\<close> values of \<^verbatim>\<open>store/v1.go\<close>, in its order. The second group
  names the other errors the modelled operations return: a failed or zero UUID, a violated
  uniqueness constraint that the operation passes on, a row that a \<^verbatim>\<open>Scan\<close> did not find.
\<close>

datatype v1_error =
    ErrV1CommandNotFound
  | ErrV1OperationNotFound
  | ErrV1CredentialRejected
  | ErrV1TransactionNotFound
  | ErrV1IdempotencyConflict
  | ErrV1MappingNotFound
  | ErrV1MappingConflict
  | ErrV1IdentityConflict
  | ErrV1DeliveryNotReady
  | ErrV1InvalidEvidence
  | ErrV1FactNotFound
  | ErrV1FactNotReconciliable
  | ErrV1FactClaimLost
  | ErrTransactionNotFound
  | ErrGenerateUUID
  | ErrZeroUUID
  | ErrUniqueViolation
  | ErrNoRows
  | ErrEncoding
  | ErrOther string

type_synonym 'a res = "v1_error + 'a"

subsection \<open>Lists, options and maps\<close>

lemma find_SomeD: "find P xs = Some x \<Longrightarrow> x \<in> set xs \<and> P x"
  by (induction xs) (auto split: if_splits)

lemma find_None_iff': "find P xs = None \<longleftrightarrow> (\<forall>x\<in>set xs. \<not> P x)"
  by (induction xs) auto

text \<open>Sorting by an injective key forgets the order in which the elements were collected.\<close>

lemma sort_key_order_irrelevant:
  fixes f :: "'a \<Rightarrow> 'b::linorder"
  assumes "set xs = set ys" and "distinct xs" and "distinct ys" and "inj_on f (set xs)"
  shows "sort_key f xs = sort_key f ys"
proof (rule sort_key_inj_key_eq)
  show "mset xs = mset (sort_key f ys)"
    using assms(1-3) by (simp add: set_eq_iff_mset_eq_distinct [symmetric])
qed (use assms(4) in simp_all)

end
