(* ===== verification/Meter_Evidence.thy ===== *)
theory Meter_Evidence
  imports HAL_Prelude
begin

text \<open>
  The two evidence rules every transaction update goes through: the plausibility of a
  charger-supplied timestamp (\<^verbatim>\<open>store/v1_evidence.go\<close>) and the classification of a raw meter
  register against what the transaction already recorded (\<^verbatim>\<open>store/v1_meter_evidence.go\<close>).
\<close>

definition v1MaxProtocolClockSkew :: duration where
  "v1MaxProtocolClockSkew = 15 * duration_minute"

definition plausibleV1ProtocolTime :: "gotime \<Rightarrow> gotime \<Rightarrow> bool" where
  "plausibleV1ProtocolTime protocolAt receivedAt =
     (if time_IsZero protocolAt \<or> time_IsZero receivedAt then False
      else (let delta = time_Sub protocolAt receivedAt;
                delta = (if delta < 0 then wrap64 (- delta) else delta)
            in delta \<le> v1MaxProtocolClockSkew))"

definition v1MeterQuantizationToleranceWh :: int where
  "v1MeterQuantizationToleranceWh = 1"

datatype v1MeterEvidenceClass =
    v1MeterEvidenceExact
  | v1MeterEvidenceForward
  | v1MeterEvidenceQuantizationNormalized
  | v1MeterEvidenceContradictory

fun evidence_string :: "v1MeterEvidenceClass \<Rightarrow> string" where
  "evidence_string v1MeterEvidenceExact = ''EXACT''"
| "evidence_string v1MeterEvidenceForward = ''FORWARD''"
| "evidence_string v1MeterEvidenceQuantizationNormalized = ''QUANTIZATION_NORMALIZED''"
| "evidence_string v1MeterEvidenceContradictory = ''CONTRADICTORY''"

record v1MeterEvidence =
  ev_Class :: v1MeterEvidenceClass
  ev_EffectiveWh :: int
  ev_AdjustmentWh :: int

definition classifyV1MeterEvidence :: "int \<Rightarrow> int option \<Rightarrow> int \<Rightarrow> v1MeterEvidence res" where
  "classifyV1MeterEvidence meterStartWh latestMeterWh rawMeterWh =
     (if rawMeterWh < meterStartWh then Inl ErrV1InvalidEvidence
      else (case latestMeterWh of
          None \<Rightarrow> Inr \<lparr>ev_Class = v1MeterEvidenceExact, ev_EffectiveWh = rawMeterWh, ev_AdjustmentWh = 0\<rparr>
        | Some latest \<Rightarrow>
            if rawMeterWh = latest
            then Inr \<lparr>ev_Class = v1MeterEvidenceExact, ev_EffectiveWh = rawMeterWh, ev_AdjustmentWh = 0\<rparr>
            else if rawMeterWh > latest
            then Inr \<lparr>ev_Class = v1MeterEvidenceForward, ev_EffectiveWh = rawMeterWh, ev_AdjustmentWh = 0\<rparr>
            else (let adjustment = wrap64 (latest - rawMeterWh) in
                  if adjustment \<le> v1MeterQuantizationToleranceWh
                  then Inr \<lparr>ev_Class = v1MeterEvidenceQuantizationNormalized,
                            ev_EffectiveWh = latest, ev_AdjustmentWh = adjustment\<rparr>
                  else Inl ErrV1InvalidEvidence)))"

subsection \<open>Timestamps\<close>

lemma plausible_within_range:
  assumes "in_int64 (protocolAt - receivedAt)" and "protocolAt - receivedAt \<noteq> - (2 ^ 63)"
  shows "plausibleV1ProtocolTime protocolAt receivedAt \<longleftrightarrow>
    protocolAt \<noteq> 0 \<and> receivedAt \<noteq> 0 \<and> \<bar>protocolAt - receivedAt\<bar> \<le> 15 * duration_minute"
proof -
  have neg: "protocolAt < receivedAt \<Longrightarrow> wrap64 (receivedAt - protocolAt) = receivedAt - protocolAt"
    using assms by (intro wrap64_id) (auto simp: in_int64_def)
  show ?thesis
    using neg
    by (auto simp: plausibleV1ProtocolTime_def time_Sub_exact [OF assms(1)] time_IsZero_def
        v1MaxProtocolClockSkew_def Let_def)
qed

text \<open>
  Within the 292 years that \<^verbatim>\<open>time.Duration\<close> can express, a protocol timestamp is accepted
  exactly when both instants are set and they differ by at most fifteen minutes.
\<close>

theorem plausible_iff_within_skew:
  assumes "in_int64 (protocolAt - receivedAt)" and "protocolAt - receivedAt \<noteq> - (2 ^ 63)"
  shows "plausibleV1ProtocolTime protocolAt receivedAt \<longleftrightarrow>
    \<not> time_IsZero protocolAt \<and> \<not> time_IsZero receivedAt
      \<and> \<bar>protocolAt - receivedAt\<bar> \<le> v1MaxProtocolClockSkew"
  using plausible_within_range [OF assms] by (simp add: time_IsZero_def v1MaxProtocolClockSkew_def)

theorem plausible_iff_within_skew_witness:
  "plausibleV1ProtocolTime 1000000000000 1000000000000 \<and> \<not> plausibleV1ProtocolTime 1 1000000000000"
  using plausible_iff_within_skew [of 1000000000000 1000000000000]
    plausible_iff_within_skew [of 1 1000000000000]
  by (simp add: in_int64_def time_IsZero_def v1MaxProtocolClockSkew_def)

text \<open>
  A charger timestamp more than 292 years before receipt is accepted too. \<^verbatim>\<open>Sub\<close> saturates
  at the least duration, whose negation is itself and hence below every positive bound. The
  comment in the source says such timestamps are rejected.
\<close>

theorem plausible_accepts_ancient:
  assumes "protocolAt \<noteq> 0" and "receivedAt \<noteq> 0" and "protocolAt - receivedAt \<le> - (2 ^ 63)"
  shows "plausibleV1ProtocolTime protocolAt receivedAt"
proof -
  have "time_Sub protocolAt receivedAt = - (2 ^ 63)"
    using assms(3) by (simp add: time_Sub_def)
  then show ?thesis
    using assms(1,2)
    by (simp add: plausibleV1ProtocolTime_def time_IsZero_def wrap64_def v1MaxProtocolClockSkew_def)
qed

text \<open>Receipt in 2026 (second 63902908800 of the Go epoch), protocol time in the year 1.\<close>

theorem plausible_accepts_ancient_witness:
  "plausibleV1ProtocolTime duration_second (63902908800 * duration_second)"
  by (rule plausible_accepts_ancient) simp_all

subsection \<open>Meter registers\<close>

lemma classify_accepted:
  assumes "classifyV1MeterEvidence start latest raw = Inr e"
    and "in_int64 raw" and "0 \<le> start" and "\<forall>l. latest = Some l \<longrightarrow> in_int64 l"
  shows "ev_EffectiveWh e = raw + ev_AdjustmentWh e"
    and "0 \<le> ev_AdjustmentWh e" and "ev_AdjustmentWh e \<le> 1"
    and "start \<le> raw" and "\<forall>l. latest = Some l \<longrightarrow> l \<le> ev_EffectiveWh e"
proof -
  have wrap: "wrap64 (l - raw) = l - raw" if "latest = Some l" "raw < l" "start \<le> raw" for l
    using that assms(2-4) by (intro wrap64_id) (auto simp: in_int64_def)
  show "ev_EffectiveWh e = raw + ev_AdjustmentWh e" "0 \<le> ev_AdjustmentWh e"
    "ev_AdjustmentWh e \<le> 1" "start \<le> raw" "\<forall>l. latest = Some l \<longrightarrow> l \<le> ev_EffectiveWh e"
    using assms(1) wrap
    by (auto simp: classifyV1MeterEvidence_def v1MeterQuantizationToleranceWh_def Let_def
        split: if_splits option.splits)
qed

lemma classify_normalized_iff:
  assumes "in_int64 l" and "in_int64 raw" and "0 \<le> start"
  shows "(\<exists>e. classifyV1MeterEvidence start (Some l) raw = Inr e
            \<and> ev_Class e = v1MeterEvidenceQuantizationNormalized)
         \<longleftrightarrow> start \<le> raw \<and> raw = l - 1"
proof -
  have "raw < l \<Longrightarrow> start \<le> raw \<Longrightarrow> wrap64 (l - raw) = l - raw"
    using assms by (intro wrap64_id) (auto simp: in_int64_def)
  then show ?thesis
    by (auto simp: classifyV1MeterEvidence_def v1MeterQuantizationToleranceWh_def Let_def)
qed

lemma classify_forward:
  "start \<le> raw \<Longrightarrow> (\<forall>l. latest = Some l \<longrightarrow> l \<le> raw)
   \<Longrightarrow> \<exists>e. classifyV1MeterEvidence start latest raw = Inr e
        \<and> ev_EffectiveWh e = raw \<and> ev_AdjustmentWh e = 0"
  by (auto simp: classifyV1MeterEvidence_def split: option.splits)

text \<open>
  The classification accepts a raw register exactly when it is not below the start register
  and not more than one Wh below the latest one; the effective value then never goes below the
  latest recorded value and is the raw value plus an adjustment of 0 or 1 Wh, which is the row
  constraint of the \<^verbatim>\<open>v1_transactions\<close> table.
\<close>

theorem classify_correct:
  assumes "in_int64 raw" and "0 \<le> start" and "\<forall>l. latest = Some l \<longrightarrow> in_int64 l"
  shows "case classifyV1MeterEvidence start latest raw of
      Inl err \<Rightarrow> err = ErrV1InvalidEvidence
        \<and> (raw < start \<or> (\<exists>l. latest = Some l \<and> raw < l - 1))
    | Inr e \<Rightarrow> start \<le> raw \<and> (\<forall>l. latest = Some l \<longrightarrow> l - 1 \<le> raw \<and> l \<le> ev_EffectiveWh e)
        \<and> ev_EffectiveWh e = raw + ev_AdjustmentWh e \<and> ev_AdjustmentWh e \<in> {0, 1}"
proof -
  have wrap: "wrap64 (l - raw) = l - raw" if "latest = Some l" "raw < l" "start \<le> raw" for l
    using that assms by (intro wrap64_id) (auto simp: in_int64_def)
  show ?thesis
    using wrap
    by (auto simp: classifyV1MeterEvidence_def v1MeterQuantizationToleranceWh_def Let_def
        split: option.splits)
qed

theorem classify_correct_witness:
  "classifyV1MeterEvidence 100000 (Some 100185) 100184
     = Inr \<lparr>ev_Class = v1MeterEvidenceQuantizationNormalized, ev_EffectiveWh = 100185, ev_AdjustmentWh = 1\<rparr>
   \<and> (1::int) \<in> {0, 1}"
  using classify_correct [of 100184 100000 "Some 100185"]
  by (simp add: classifyV1MeterEvidence_def in_int64_def wrap64_def v1MeterQuantizationToleranceWh_def)

end
