(* ===== verification/V1_Types.thy ===== *)
theory V1_Types
  imports HAL_Prelude Complex_Main
begin

text \<open>
  The data of \<^verbatim>\<open>store/v1.go\<close> and \<^verbatim>\<open>store/v1_trace.go\<close>: one record per struct, field by field, with a short prefix per
  struct because HOL record fields are global. Pointers are options, \<^verbatim>\<open>int64\<close>, \<^verbatim>\<open>int\<close> and
  counters are \<open>int\<close>, \<^verbatim>\<open>map[string]string\<close> is an association list with distinct keys.
  \<^verbatim>\<open>goany\<close> is the fragment of Go's \<^verbatim>\<open>any\<close> that facts and traces are built from. The identifier
  source \<^verbatim>\<open>uuid.NewRandom\<close> is outside the repository; an operation takes its next result as
  the argument \<open>gen\<close> (\<open>None\<close>: no entropy).
\<close>

type_synonym string_map = "(string \<times> string) list"

datatype goany =
    GNil
  | GBool bool
  | GInt int
  | GFloat rat
  | GString string
  | GTime gotime
  | GStrings "string list"
  | GList "goany list"
  | GMaps "(string \<times> goany) list list"
  | GMap "(string \<times> goany) list"

type_synonym gomap = "(string \<times> goany) list"
type_synonym fact_payload = gomap
type_synonym V1SoCPercent = int

definition string_at :: "string_map \<Rightarrow> string \<Rightarrow> string" where
  "string_at m k = (case map_of m k of None \<Rightarrow> '''' | Some v \<Rightarrow> v)"

definition nil_uuid :: string where
  "nil_uuid = ''00000000-0000-0000-0000-000000000000''"

definition NewSecureUUIDString :: "string option \<Rightarrow> string res" where
  "NewSecureUUIDString gen =
     (case gen of
        None \<Rightarrow> Inl ErrGenerateUUID
      | Some u \<Rightarrow> if u = nil_uuid then Inl ErrZeroUUID else Inr u)"

lemma NewSecureUUIDString_Inr [simp]:
  "NewSecureUUIDString gen = Inr u \<longleftrightarrow> gen = Some u \<and> u \<noteq> nil_uuid"
  by (auto simp: NewSecureUUIDString_def split: option.splits)

subsection \<open>Records\<close>

record V1ChargerOperationInput =
  opin_CMSOperationID :: string
  opin_TraceID :: string
  opin_RequestDigest :: string
  opin_CPOID :: string
  opin_CMSChargerID :: string
  opin_CMSConnectorID :: string
  opin_ChargerOCPPIdentity :: string
  opin_OCPPConnectorNumber :: int
  opin_Kind :: string
  opin_Parameters :: string_map
  opin_ConfigurationKeys :: "string list"
  opin_CorrelationID :: string

record V1ChargerOperation =
  op_HALOperationID :: string
  op_CMSOperationID :: string
  op_TraceID :: string
  op_RequestDigest :: string
  op_CPOID :: string
  op_CMSChargerID :: string
  op_CMSConnectorID :: string
  op_ChargerOCPPIdentity :: string
  op_OCPPConnectorNumber :: int
  op_Kind :: string
  op_Parameters :: string_map
  op_ConfigurationKeys :: "string list"
  op_CorrelationID :: string
  op_State :: string
  op_DeliveryAttempts :: int
  op_OCPPResult :: string
  op_ErrorCategory :: string
  op_CreatedAt :: gotime
  op_UpdatedAt :: gotime
  op_CompletedAt :: "gotime option"

record V1StartCommandInput =
  stin_CMSCommandID :: string
  stin_RequestDigest :: string
  stin_CPOID :: string
  stin_CustomerID :: string
  stin_CorrelationID :: string
  stin_CMSStartIntentID :: string
  stin_CMSChargerID :: string
  stin_CMSConnectorID :: string
  stin_ChargerOCPPIdentity :: string
  stin_OCPPConnectorNumber :: int
  stin_IDTag :: string
  stin_CredentialExpiresAt :: gotime
  stin_CommandExpiresAt :: gotime
  stin_LimitType :: string
  stin_EnergyLimitWh :: "int option"
  stin_EnergyLimitSource :: string
  stin_MaxDurationSeconds :: "int option"
  stin_DurationLimitSource :: string

record V1ConnectorMappingInput =
  cmin_CMSConnectorID :: string
  cmin_OCPPConnectorNumber :: int

record V1MappingInput =
  mapin_CPOID :: string
  mapin_CMSChargerID :: string
  mapin_ChargerOCPPIdentity :: string
  mapin_ExpectedSerial :: string
  mapin_Enabled :: bool
  mapin_Connectors :: "V1ConnectorMappingInput list"
  mapin_CorrelationID :: string
  mapin_RequestDigest :: string

record V1ConnectorMapping =
  cm_CPOID :: string
  cm_CMSChargerID :: string
  cm_CMSConnectorID :: string
  cm_ChargerOCPPIdentity :: string
  cm_OCPPConnectorNumber :: int

record V1ChargerMapping =
  chm_CPOID :: string
  chm_CMSChargerID :: string
  chm_ChargerOCPPIdentity :: string
  chm_ExpectedSerial :: string
  chm_Enabled :: bool
  chm_Connectors :: "V1ConnectorMapping list"

record V1StopCommandInput =
  spin_CMSCommandID :: string
  spin_RequestDigest :: string
  spin_CPOID :: string
  spin_CustomerID :: string
  spin_CorrelationID :: string
  spin_CMSChargingSessionID :: string
  spin_CMSChargerID :: string
  spin_CMSConnectorID :: string
  spin_ChargerOCPPIdentity :: string
  spin_OCPPConnectorNumber :: int
  spin_HALTransactionID :: string
  spin_OCPPTransactionID :: int
  spin_RequestedStopInitiator :: string
  spin_RequestedStopReason :: string
  spin_CommandExpiresAt :: gotime

record V1RemoteCommand =
  cmd_HALCommandID :: string
  cmd_CMSCommandID :: string
  cmd_Kind :: string
  cmd_RequestDigest :: string
  cmd_CPOID :: string
  cmd_CustomerID :: string
  cmd_CorrelationID :: string
  cmd_CMSStartIntentID :: string
  cmd_CMSChargingSessionID :: string
  cmd_CMSChargerID :: string
  cmd_CMSConnectorID :: string
  cmd_ChargerOCPPIdentity :: string
  cmd_OCPPConnectorNumber :: int
  cmd_IDTag :: string
  cmd_CredentialExpiresAt :: "gotime option"
  cmd_CommandExpiresAt :: gotime
  cmd_LimitType :: string
  cmd_EnergyLimitWh :: "int option"
  cmd_EnergyLimitSource :: string
  cmd_MaxDurationSeconds :: "int option"
  cmd_DurationLimitSource :: string
  cmd_RequestedStopInitiator :: string
  cmd_RequestedStopReason :: string
  cmd_HALTransactionID :: string
  cmd_OCPPTransactionID :: "int option"
  cmd_State :: string
  cmd_DeliveryAttempts :: int
  cmd_LastOCPPResult :: string
  cmd_LastErrorCategory :: string
  cmd_LastErrorDetail :: string
  cmd_CreatedAt :: gotime
  cmd_UpdatedAt :: gotime

record V1Credential =
  cred_IDTag :: string
  cred_CMSStartIntentID :: string
  cred_CPOID :: string
  cred_CMSChargerID :: string
  cred_CMSConnectorID :: string
  cred_ChargerOCPPIdentity :: string
  cred_OCPPConnectorNumber :: int
  cred_ExpiresAt :: gotime
  cred_ConsumedAt :: "gotime option"
  cred_HALTransactionID :: string

record V1Transaction =
  tx_HALTransactionID :: string
  tx_CMSStartIntentID :: string
  tx_CMSCommandID :: string
  tx_CPOID :: string
  tx_CustomerID :: string
  tx_CMSChargerID :: string
  tx_CMSConnectorID :: string
  tx_ChargerOCPPIdentity :: string
  tx_OCPPConnectorNumber :: int
  tx_IDTag :: string
  tx_OCPPTransactionID :: int
  tx_ActualStartedAt :: gotime
  tx_ObservedStartedAt :: gotime
  tx_MeterStartWh :: int
  tx_LimitType :: string
  tx_LatestMeterWh :: "int option"
  tx_ConsumedWh :: "int option"
  tx_MeterObservedAt :: "gotime option"
  tx_MeterSequence :: int
  tx_InitialSoCPercent :: "V1SoCPercent option"
  tx_LatestSoCPercent :: "V1SoCPercent option"
  tx_SoCObservedAt :: "gotime option"
  tx_SoCSequence :: int
  tx_EnergyLimitWh :: "int option"
  tx_EnergyLimitSource :: string
  tx_MaxDurationSeconds :: "int option"
  tx_DurationLimitSource :: string
  tx_StopDeadlineAt :: "gotime option"
  tx_StopState :: string
  tx_RequestedStopInitiator :: string
  tx_RequestedStopReason :: string
  tx_OCPPStopReason :: string
  tx_CompletedAt :: "gotime option"
  tx_ObservedCompletedAt :: "gotime option"
  tx_MeterStopWh :: "int option"
  tx_RawMeterStopWh :: "int option"
  tx_MeterStopAdjustmentWh :: "int option"
  tx_MeterStopEvidence :: string
  tx_MeterQuantizationAnomalyCount :: int

record V1MeterTelemetry =
  tel_EnergyWh :: "int option"
  tel_EnergyObservedAt :: "gotime option"
  tel_SoCPercent :: "V1SoCPercent option"
  tel_SoCObservedAt :: "gotime option"

record V1TelemetryUpdateResult =
  telres_EnergyAccepted :: bool
  telres_SoCAccepted :: bool

record V1StopWorkflow =
  wf_HALTransactionID :: string
  wf_RequestedStopInitiator :: string
  wf_RequestedStopReason :: string
  wf_State :: string
  wf_DeliveryAttempts :: int
  wf_LastOCPPResult :: string
  wf_LastErrorCategory :: string
  wf_LastErrorDetail :: string
  wf_CreatedAt :: gotime
  wf_UpdatedAt :: gotime
  wf_CompletedAt :: "gotime option"

record V1Fact =
  fact_FactID :: string
  fact_FactType :: string
  fact_SchemaVersion :: int
  fact_OccurredAt :: gotime
  fact_Producer :: string
  fact_ContentSHA256 :: string
  fact_Payload :: fact_payload
  fact_Status :: string
  fact_Retries :: int
  fact_NextRetryAt :: gotime
  fact_ClaimedUntil :: "gotime option"
  fact_ClaimToken :: string
  fact_DeliveryStatus :: "int option"
  fact_LastError :: string

record V1ConnectorRuntime =
  crt_CPOID :: string
  crt_CMSChargerID :: string
  crt_CMSConnectorID :: string
  crt_ChargerOCPPIdentity :: string
  crt_OCPPConnectorNumber :: int
  crt_Status :: string
  crt_ErrorCode :: string
  crt_Info :: string
  crt_VendorID :: string
  crt_VendorErrorCode :: string
  crt_ObservedAt :: "gotime option"
  crt_StatusSequence :: int
  crt_UpdatedAt :: gotime

record V1ChargerRuntime =
  rt_CPOID :: string
  rt_CMSChargerID :: string
  rt_ChargerOCPPIdentity :: string
  rt_ConnectionState :: string
  rt_ConnectionGeneration :: int
  rt_ConnectionSequence :: int
  rt_ConnectedAt :: "gotime option"
  rt_LastObservedAt :: "gotime option"
  rt_UpdatedAt :: gotime
  rt_Connectors :: "V1ConnectorRuntime list"

record V1BootEvidence =
  boot_PathSerial :: string
  boot_ChargeBoxSerialNumber :: string
  boot_ChargePointSerialNumber :: string
  boot_ChargePointVendor :: string
  boot_ChargePointModel :: string
  boot_FirmwareVersion :: string
  boot_ObservedAt :: gotime

record V1StartMaterialization =
  mat_ChargerOCPPIdentity :: string
  mat_OCPPConnectorNumber :: int
  mat_IDTag :: string
  mat_MeterStartWh :: int
  mat_ActualStartedAt :: gotime
  mat_ObservedAt :: gotime
  mat_OCPPTransactionID :: int

record V1Trace =
  tr_TraceID :: string
  tr_CPOID :: string
  tr_CMSStartIntentID :: string
  tr_CMSChargingSessionID :: string
  tr_CMSCommandID :: string
  tr_CMSChargerOperationID :: string
  tr_HALChargerOperationID :: string
  tr_HALTransactionID :: string
  tr_OCPPTransactionID :: "int option"
  tr_ChargerOCPPIdentity :: string
  tr_OCPPConnectorNumber :: int
  tr_CreatedAt :: gotime

record V1TraceEvent =
  te_EventID :: string
  te_TraceID :: string
  te_Source :: string
  te_Target :: string
  te_Category :: string
  te_Protocol :: string
  te_Phase :: string
  te_Summary :: string
  te_OccurredAt :: gotime
  te_RecordedAt :: gotime
  te_StateBefore :: string
  te_StateAfter :: string
  te_CorrelationID :: string
  te_Data :: goany

record V1TraceEventInput =
  ti_Source :: string
  ti_Target :: string
  ti_Category :: string
  ti_Protocol :: string
  ti_Phase :: string
  ti_Summary :: string
  ti_OccurredAt :: gotime
  ti_StateBefore :: string
  ti_StateAfter :: string
  ti_CorrelationID :: string
  ti_Data :: goany

record V1TriggerMessageFollowOnWindow =
  fw_TraceID :: string
  fw_RequestedMessage :: string
  fw_ChargerOCPPIdentity :: string
  fw_OCPPConnectorNumber :: int
  fw_AcceptedAt :: gotime
  fw_DeadlineAt :: gotime
  fw_State :: string

subsection \<open>Text helpers of the Go standard library, on ASCII\<close>

definition is_space :: "char \<Rightarrow> bool" where
  "is_space c \<longleftrightarrow> c \<in> {CHR '' '', CHR 0x09, CHR 0x0A, CHR 0x0B, CHR 0x0C, CHR 0x0D}"

definition TrimSpace :: "string \<Rightarrow> string" where
  "TrimSpace s = rev (dropWhile is_space (rev (dropWhile is_space s)))"

definition lower_char :: "char \<Rightarrow> char" where
  "lower_char c = (let n = of_char c :: nat in
     if 65 \<le> n \<and> n \<le> 90 then char_of (n + 32) else c)"

definition ToLower :: "string \<Rightarrow> string" where
  "ToLower s = map lower_char s"

definition EqualFold :: "string \<Rightarrow> string \<Rightarrow> bool" where
  "EqualFold s t \<longleftrightarrow> ToLower s = ToLower t"

definition HasPrefix :: "string \<Rightarrow> string \<Rightarrow> bool" where
  "HasPrefix s p \<longleftrightarrow> take (length p) s = p"

fun digits :: "nat \<Rightarrow> string" where
  "digits n = (if n < 10 then [char_of (48 + n)] else digits (n div 10) @ [char_of (48 + n mod 10)])"

declare digits.simps [simp del]

definition FormatInt :: "int \<Rightarrow> string" where
  "FormatInt i = (if i < 0 then ''-'' @ digits (nat (- i)) else digits (nat i))"

text \<open>\<^verbatim>\<open>fmt.Sprintf("%03d", i)\<close>: zero padding to three columns, after a sign.\<close>

definition Sprintf03d :: "int \<Rightarrow> string" where
  "Sprintf03d i = (let sign = (if i < 0 then ''-'' else ''''); ds = digits (nat \<bar>i\<bar>) in
     sign @ replicate (3 - length sign - length ds) (CHR ''0'') @ ds)"

definition TrimRight0 :: "string \<Rightarrow> string" where
  "TrimRight0 s = rev (dropWhile (\<lambda>c. c = CHR ''0'') (rev s))"

text \<open>Go's \<^verbatim>\<open>/\<close> and \<^verbatim>\<open>%\<close> truncate towards zero.\<close>

definition go_div :: "int \<Rightarrow> int \<Rightarrow> int" where
  "go_div a b = sgn a * sgn b * (\<bar>a\<bar> div \<bar>b\<bar>)"

definition go_mod :: "int \<Rightarrow> int \<Rightarrow> int" where
  "go_mod a b = a - b * go_div a b"

text \<open>\<^verbatim>\<open>big.Rat.IsInt\<close> and \<^verbatim>\<open>big.Rat.Num\<close>, on numbers in lowest terms.\<close>

definition rat_IsInt :: "rat \<Rightarrow> bool" where
  "rat_IsInt r \<longleftrightarrow> snd (quotient_of r) = 1"

definition rat_Num :: "rat \<Rightarrow> int" where
  "rat_Num r = fst (quotient_of r)"

definition V1MeterTelemetry_Empty :: "V1MeterTelemetry \<Rightarrow> bool" where
  "V1MeterTelemetry_Empty telemetry \<longleftrightarrow> tel_EnergyWh telemetry = None \<and> tel_SoCPercent telemetry = None"

end
