(* ===== verification/SoC_Percent.thy ===== *)
theory SoC_Percent
  imports V1_Types
begin

text \<open>
  \<^verbatim>\<open>V1SoCPercent\<close> of \<^verbatim>\<open>store/v1.go\<close>: a percentage in thousandths, its printer and its parser.
  \<^verbatim>\<open>big.Rat.SetString\<close> is the argument \<open>setString\<close> of the parser: the number a text denotes,
  or \<open>None\<close> when it is not a number.
\<close>

subsection \<open>State of charge\<close>

definition v1SoCScale :: int where
  "v1SoCScale = 1000"

definition V1SoCPercent_String :: "V1SoCPercent \<Rightarrow> string" where
  "V1SoCPercent_String value =
     (let negative = value < 0;
          abs = (if negative then wrap64 (- value) else value);
          whole = go_div abs v1SoCScale;
          fraction = go_mod abs v1SoCScale;
          text = FormatInt whole;
          text = (if fraction \<noteq> 0 then text @ ''.'' @ TrimRight0 (Sprintf03d fraction) else text)
      in if negative then ''-'' @ text else text)"

definition ParseV1SoCPercent :: "(string \<Rightarrow> rat option) \<Rightarrow> string \<Rightarrow> V1SoCPercent option" where
  "ParseV1SoCPercent setString raw =
     (case setString (TrimSpace raw) of
        None \<Rightarrow> None
      | Some rational \<Rightarrow>
          if rational < 0 \<or> rational > 100 then None
          else (let scaled = rational * of_int v1SoCScale in
                if \<not> rat_IsInt scaled \<or> \<not> in_int64 (rat_Num scaled) then None
                else Some (rat_Num scaled)))"

subsection \<open>The printed form denotes the value\<close>

text \<open>
  \<open>decimal_value\<close> reads an unsigned decimal numeral, digits with an optional fraction: the part
  of the grammar of \<^verbatim>\<open>big.Rat.SetString\<close> that the printed and the stored percentages use.
\<close>

definition is_digit :: "char \<Rightarrow> bool" where
  "is_digit c \<longleftrightarrow> 48 \<le> (of_char c :: nat) \<and> (of_char c :: nat) \<le> 57"

definition digit_value :: "char \<Rightarrow> nat" where
  "digit_value c = (of_char c :: nat) - 48"

definition digits_value :: "string \<Rightarrow> nat" where
  "digits_value s = foldl (\<lambda>a c. 10 * a + digit_value c) 0 s"

definition decimal_value :: "string \<Rightarrow> rat option" where
  "decimal_value s =
     (let w = takeWhile is_digit s; r = dropWhile is_digit s in
      if w = [] then None
      else (case r of
          [] \<Rightarrow> Some (of_nat (digits_value w))
        | c # f \<Rightarrow>
            if c = CHR ''.'' \<and> f \<noteq> [] \<and> list_all is_digit f
            then Some (of_nat (digits_value w) + of_nat (digits_value f) / 10 ^ length f)
            else None))"

lemma digit_char [simp]: "n < 10 \<Longrightarrow> is_digit (char_of (48 + n))" "n < 10 \<Longrightarrow> digit_value (char_of (48 + n)) = n"
  by (simp_all add: is_digit_def digit_value_def)

lemma digits_value_Nil [simp]: "digits_value [] = 0"
  and digits_value_snoc [simp]: "digits_value (s @ [c]) = 10 * digits_value s + digit_value c"
  by (simp_all add: digits_value_def)

lemma digits_all_digits: "list_all is_digit (digits n)"
  by (induction n rule: digits.induct) (subst digits.simps, auto)

lemma digits_not_Nil [simp]: "digits n \<noteq> []"
  by (subst digits.simps) simp

lemma digits_value_digits [simp]: "digits_value (digits n) = n"
proof (induction n rule: digits.induct)
  case (1 n)
  show ?case
  proof (cases "n < 10")
    case True
    then show ?thesis
      using digits_value_snoc [of "[]" "char_of (48 + n)"] by (subst digits.simps) simp
  next
    case False
    with 1 show ?thesis by (subst digits.simps) simp
  qed
qed

lemma digits_value_replicate_0:
  "digits_value (s @ replicate k (CHR ''0'')) = digits_value s * 10 ^ k"
proof (induction k)
  case (Suc k)
  then show ?case
    by (simp add: replicate_append_same [symmetric] append_assoc [symmetric]
        del: append_assoc) (simp add: digit_value_def)
qed simp

lemma digits_value_zeros_prefix:
  "digits_value (replicate k (CHR ''0'') @ s) = digits_value s"
proof (induction s rule: rev_induct)
  case Nil
  then show ?case using digits_value_replicate_0 [of "[]" k] by simp
next
  case (snoc c s)
  then show ?case by (simp add: append_assoc [symmetric] del: append_assoc)
qed

lemma TrimRight0_decomp:
  "\<exists>k. s = TrimRight0 s @ replicate k (CHR ''0'')"
proof -
  let ?p = "\<lambda>c. c = CHR ''0''"
  have "takeWhile ?p (rev s) = replicate (length (takeWhile ?p (rev s))) (CHR ''0'')"
    by (intro replicate_eqI) (auto dest: set_takeWhileD)
  then have "rev (takeWhile ?p (rev s)) = replicate (length (takeWhile ?p (rev s))) (CHR ''0'')"
    by (metis rev_replicate)
  moreover have "s = TrimRight0 s @ rev (takeWhile ?p (rev s))"
    unfolding TrimRight0_def by (metis rev_append rev_rev_ident takeWhile_dropWhile_id)
  ultimately show ?thesis by metis
qed

lemma TrimRight0_value:
  assumes "length s = 3"
  shows "(of_nat (digits_value (TrimRight0 s)) / 10 ^ length (TrimRight0 s) :: rat)
       = of_nat (digits_value s) / 1000"
proof -
  obtain k where k: "s = TrimRight0 s @ replicate k (CHR ''0'')"
    using TrimRight0_decomp by blast
  have len: "length (TrimRight0 s) + k = 3"
    using arg_cong [OF k, of length] assms by simp
  have val: "digits_value s = digits_value (TrimRight0 s) * 10 ^ k"
    using arg_cong [OF k, of digits_value] by (simp add: digits_value_replicate_0)
  have "(1000 :: rat) = 10 ^ length (TrimRight0 s) * 10 ^ k"
    using len by (simp add: power_add [symmetric])
  then show ?thesis by (simp add: val field_simps)
qed

lemma Sprintf03d_nat:
  assumes "0 \<le> f" and "f < 1000"
  shows "length (Sprintf03d f) = 3" and "digits_value (Sprintf03d f) = nat f"
    and "list_all is_digit (Sprintf03d f)"
proof -
  have "length (digits (nat f)) \<le> 3"
  proof -
    have "nat f < 10 \<or> nat f < 100 \<or> nat f < 1000" using assms by linarith
    then show ?thesis
      by (subst digits.simps, subst digits.simps, subst digits.simps) auto
  qed
  then show "length (Sprintf03d f) = 3" "digits_value (Sprintf03d f) = nat f"
    "list_all is_digit (Sprintf03d f)"
    using assms digits_all_digits [of "nat f"]
    by (auto simp: Sprintf03d_def Let_def digits_value_zeros_prefix list_all_iff is_digit_def)
qed

lemma digits_no_space: "list_all is_digit s \<Longrightarrow> list_all (\<lambda>c. \<not> is_space c) s"
  by (auto simp: list_all_iff is_digit_def is_space_def)

lemma TrimSpace_id: "list_all (\<lambda>c. \<not> is_space c) s \<Longrightarrow> TrimSpace s = s"
  by (simp add: TrimSpace_def list_all_iff)
    (metis dropWhile_eq_self_iff hd_in_set list.set_sel(1) rev_is_Nil_conv rev_rev_ident set_rev)

lemma FormatInt_nonneg: "0 \<le> i \<Longrightarrow> FormatInt i = digits (nat i)"
  by (simp add: FormatInt_def)

lemma V1SoCPercent_String_nonneg:
  assumes "0 \<le> v"
  shows "V1SoCPercent_String v =
     (if v mod 1000 = 0 then digits (nat (v div 1000))
      else digits (nat (v div 1000)) @ ''.'' @ TrimRight0 (Sprintf03d (v mod 1000)))"
proof -
  have "go_div v v1SoCScale = v div 1000"
    using assms by (cases "v = 0") (auto simp: go_div_def v1SoCScale_def)
  moreover from this have "go_mod v v1SoCScale = v mod 1000"
    by (simp add: go_mod_def v1SoCScale_def minus_mult_div_eq_mod)
  ultimately show ?thesis
    using assms by (simp add: V1SoCPercent_String_def Let_def FormatInt_nonneg pos_imp_zdiv_nonneg_iff)
qed

lemma takeWhile_digits:
  "list_all is_digit w \<Longrightarrow> takeWhile is_digit (w @ CHR ''.'' # f) = w"
  "list_all is_digit w \<Longrightarrow> dropWhile is_digit (w @ CHR ''.'' # f) = CHR ''.'' # f"
  "list_all is_digit w \<Longrightarrow> takeWhile is_digit w = w"
  "list_all is_digit w \<Longrightarrow> dropWhile is_digit w = []"
  by (auto simp: list_all_iff takeWhile_append2 dropWhile_append2 is_digit_def)

lemma TrimRight0_props:
  assumes "list_all is_digit s" and "digits_value s \<noteq> 0"
  shows "list_all is_digit (TrimRight0 s)" and "TrimRight0 s \<noteq> []"
proof -
  obtain k where k: "s = TrimRight0 s @ replicate k (CHR ''0'')"
    using TrimRight0_decomp by blast
  show "list_all is_digit (TrimRight0 s)"
    using assms(1) k by (metis list_all_append)
  show "TrimRight0 s \<noteq> []"
    using assms(2) k digits_value_replicate_0 [of "[]" k] by (metis append_Nil digits_value_Nil mult_zero_left)
qed

lemma decimal_value_String:
  assumes "0 \<le> v"
  shows "decimal_value (V1SoCPercent_String v) = Some (of_int v / 1000)"
proof (cases "v mod 1000 = 0")
  case True
  obtain k where k: "v = 1000 * k" using True by (auto simp: mod_eq_0_iff_dvd elim: dvdE)
  have "(of_nat (nat (v div 1000)) :: rat) = of_int v / 1000"
    using assms k by (simp add: of_nat_nat)
  with True assms show ?thesis
    by (simp add: V1SoCPercent_String_nonneg decimal_value_def takeWhile_digits digits_all_digits)
next
  case False
  let ?f = "Sprintf03d (v mod 1000)"
  have f: "length ?f = 3" "digits_value ?f = nat (v mod 1000)" "list_all is_digit ?f"
    by (auto intro!: Sprintf03d_nat)
  have pos: "digits_value ?f \<noteq> 0"
    using False f(2) by simp
  have "(of_int v :: rat) = of_int (v div 1000) * 1000 + of_int (v mod 1000)"
    by (metis div_mult_mod_eq of_int_add of_int_mult of_int_numeral)
  then have "(of_int v / 1000 :: rat) = of_int (v div 1000) + of_int (v mod 1000) / 1000"
    by (simp add: field_simps)
  moreover have "(of_nat (nat (v div 1000)) :: rat) = of_int (v div 1000)"
    using assms by (simp add: of_nat_nat pos_imp_zdiv_nonneg_iff)
  moreover have "(of_nat (nat (v mod 1000)) :: rat) = of_int (v mod 1000)"
    by (simp add: of_nat_nat)
  ultimately show ?thesis
    using False assms TrimRight0_value [OF f(1)] f(2) TrimRight0_props [OF f(3) pos]
    by (simp add: V1SoCPercent_String_nonneg decimal_value_def takeWhile_digits digits_all_digits)
qed

lemma String_no_space:
  assumes "0 \<le> v"
  shows "TrimSpace (V1SoCPercent_String v) = V1SoCPercent_String v"
proof (rule TrimSpace_id)
  show "list_all (\<lambda>c. \<not> is_space c) (V1SoCPercent_String v)"
  proof (cases "v mod 1000 = 0")
    case True
    then show ?thesis
      using assms by (simp add: V1SoCPercent_String_nonneg digits_no_space digits_all_digits)
  next
    case False
    have f: "digits_value (Sprintf03d (v mod 1000)) = nat (v mod 1000)" "list_all is_digit (Sprintf03d (v mod 1000))"
      by (auto intro!: Sprintf03d_nat)
    have "digits_value (Sprintf03d (v mod 1000)) \<noteq> 0"
      using False f(1) by simp
    then show ?thesis
      using assms False TrimRight0_props(1) [OF f(2)] digits_no_space digits_all_digits
      by (auto simp: V1SoCPercent_String_nonneg is_space_def)
  qed
qed

lemma scaled_is_int: "rat_IsInt (of_int v)" "rat_Num (of_int v) = v"
  by (simp_all add: rat_IsInt_def rat_Num_def)

text \<open>
  C28: a state of charge between 0 and 100 percent survives printing and parsing: the text of
  \<^verbatim>\<open>V1SoCPercent.String\<close> parses back to the same number of thousandths, whatever decimal reader
  \<^verbatim>\<open>SetString\<close> is, as long as it reads plain decimal numerals.
\<close>

theorem soc_parse_String:
  assumes reads_decimals: "\<And>s r. decimal_value s = Some r \<Longrightarrow> setString s = Some r"
    and "0 \<le> v" and "v \<le> 100000"
  shows "ParseV1SoCPercent setString (V1SoCPercent_String v) = Some v"
proof -
  have "setString (TrimSpace (V1SoCPercent_String v)) = Some (of_int v / 1000)"
    using assms by (simp add: String_no_space decimal_value_String)
  moreover have "\<not> (of_int v / 1000 :: rat) < 0" "\<not> (of_int v / 1000 :: rat) > 100"
    using assms(2,3) by (simp_all add: divide_less_eq less_divide_eq)
  moreover have "in_int64 v" using assms(2,3) by (simp add: in_int64_def)
  ultimately show ?thesis
    by (simp add: ParseV1SoCPercent_def v1SoCScale_def scaled_is_int)
qed

theorem soc_parse_String_witness:
  "ParseV1SoCPercent decimal_value (V1SoCPercent_String 63500) = Some 63500"
  by (rule soc_parse_String) simp_all

end
