(* ===== verification/V1_Core.thy ===== *)
theory V1_Core
  imports Meter_Evidence V1_Types
begin

text \<open>
  The values both stores compute: the rows a request creates, the deadline of a transaction, the
  acceptance of a state-of-charge observation, and the checks and the update of a completion. The
  memory store and the PostgreSQL store write these expressions out separately; the definitions
  here are the expressions, and each store's operations call them where the source has them.
\<close>

subsection \<open>New rows\<close>

definition new_operation :: "gotime \<Rightarrow> string \<Rightarrow> V1ChargerOperationInput \<Rightarrow> V1ChargerOperation" where
  "new_operation now i input = \<lparr>
     op_HALOperationID = i, op_CMSOperationID = opin_CMSOperationID input,
     op_TraceID = opin_TraceID input, op_RequestDigest = opin_RequestDigest input,
     op_CPOID = opin_CPOID input, op_CMSChargerID = opin_CMSChargerID input,
     op_CMSConnectorID = opin_CMSConnectorID input,
     op_ChargerOCPPIdentity = opin_ChargerOCPPIdentity input,
     op_OCPPConnectorNumber = opin_OCPPConnectorNumber input, op_Kind = opin_Kind input,
     op_Parameters = opin_Parameters input, op_ConfigurationKeys = opin_ConfigurationKeys input,
     op_CorrelationID = opin_CorrelationID input, op_State = ''PERSISTED'',
     op_DeliveryAttempts = 0, op_OCPPResult = '''', op_ErrorCategory = '''',
     op_CreatedAt = now, op_UpdatedAt = now, op_CompletedAt = None\<rparr>"

definition new_start_command :: "gotime \<Rightarrow> string \<Rightarrow> V1StartCommandInput \<Rightarrow> V1RemoteCommand" where
  "new_start_command now i input = \<lparr>
     cmd_HALCommandID = i, cmd_CMSCommandID = stin_CMSCommandID input, cmd_Kind = ''START'',
     cmd_RequestDigest = stin_RequestDigest input, cmd_CPOID = stin_CPOID input,
     cmd_CustomerID = '''', cmd_CorrelationID = '''', cmd_CMSStartIntentID = stin_CMSStartIntentID input,
     cmd_CMSChargingSessionID = '''', cmd_CMSChargerID = stin_CMSChargerID input,
     cmd_CMSConnectorID = stin_CMSConnectorID input,
     cmd_ChargerOCPPIdentity = stin_ChargerOCPPIdentity input,
     cmd_OCPPConnectorNumber = stin_OCPPConnectorNumber input, cmd_IDTag = stin_IDTag input,
     cmd_CredentialExpiresAt = Some (stin_CredentialExpiresAt input),
     cmd_CommandExpiresAt = stin_CommandExpiresAt input, cmd_LimitType = stin_LimitType input,
     cmd_EnergyLimitWh = stin_EnergyLimitWh input, cmd_EnergyLimitSource = stin_EnergyLimitSource input,
     cmd_MaxDurationSeconds = stin_MaxDurationSeconds input,
     cmd_DurationLimitSource = stin_DurationLimitSource input,
     cmd_RequestedStopInitiator = '''', cmd_RequestedStopReason = '''', cmd_HALTransactionID = '''',
     cmd_OCPPTransactionID = None, cmd_State = ''PERSISTED'', cmd_DeliveryAttempts = 0,
     cmd_LastOCPPResult = '''', cmd_LastErrorCategory = '''', cmd_LastErrorDetail = '''',
     cmd_CreatedAt = now, cmd_UpdatedAt = now\<rparr>"

definition new_credential :: "V1StartCommandInput \<Rightarrow> V1Credential" where
  "new_credential input = \<lparr>
     cred_IDTag = stin_IDTag input, cred_CMSStartIntentID = stin_CMSStartIntentID input,
     cred_CPOID = stin_CPOID input, cred_CMSChargerID = stin_CMSChargerID input,
     cred_CMSConnectorID = stin_CMSConnectorID input,
     cred_ChargerOCPPIdentity = stin_ChargerOCPPIdentity input,
     cred_OCPPConnectorNumber = stin_OCPPConnectorNumber input,
     cred_ExpiresAt = stin_CredentialExpiresAt input, cred_ConsumedAt = None,
     cred_HALTransactionID = ''''\<rparr>"

definition new_stop_command :: "gotime \<Rightarrow> string \<Rightarrow> V1StopCommandInput \<Rightarrow> V1RemoteCommand" where
  "new_stop_command now i input = \<lparr>
     cmd_HALCommandID = i, cmd_CMSCommandID = spin_CMSCommandID input, cmd_Kind = ''STOP'',
     cmd_RequestDigest = spin_RequestDigest input, cmd_CPOID = spin_CPOID input,
     cmd_CustomerID = '''', cmd_CorrelationID = '''', cmd_CMSStartIntentID = '''',
     cmd_CMSChargingSessionID = spin_CMSChargingSessionID input,
     cmd_CMSChargerID = spin_CMSChargerID input, cmd_CMSConnectorID = spin_CMSConnectorID input,
     cmd_ChargerOCPPIdentity = spin_ChargerOCPPIdentity input,
     cmd_OCPPConnectorNumber = spin_OCPPConnectorNumber input, cmd_IDTag = '''',
     cmd_CredentialExpiresAt = None, cmd_CommandExpiresAt = spin_CommandExpiresAt input,
     cmd_LimitType = '''', cmd_EnergyLimitWh = None, cmd_EnergyLimitSource = '''',
     cmd_MaxDurationSeconds = None, cmd_DurationLimitSource = '''',
     cmd_RequestedStopInitiator = spin_RequestedStopInitiator input,
     cmd_RequestedStopReason = spin_RequestedStopReason input,
     cmd_HALTransactionID = spin_HALTransactionID input,
     cmd_OCPPTransactionID = Some (spin_OCPPTransactionID input), cmd_State = ''PERSISTED'',
     cmd_DeliveryAttempts = 0, cmd_LastOCPPResult = '''', cmd_LastErrorCategory = '''',
     cmd_LastErrorDetail = '''', cmd_CreatedAt = now, cmd_UpdatedAt = now\<rparr>"

text \<open>
  The deadline is \<^verbatim>\<open>ObservedAt\<close> plus \<^verbatim>\<open>time.Duration(seconds) * time.Second\<close>, an
  \<^verbatim>\<open>int64\<close> product.
\<close>

definition stop_deadline :: "gotime \<Rightarrow> int option \<Rightarrow> gotime option" where
  "stop_deadline observedAt maxDurationSeconds =
     map_option (\<lambda>seconds. observedAt + wrap64 (seconds * duration_second)) maxDurationSeconds"

definition new_transaction ::
  "string \<Rightarrow> V1Credential \<Rightarrow> V1RemoteCommand \<Rightarrow> string \<Rightarrow> V1StartMaterialization \<Rightarrow> V1Transaction" where
  "new_transaction halTransactionID credential command customerID input = \<lparr>
     tx_HALTransactionID = halTransactionID, tx_CMSStartIntentID = cred_CMSStartIntentID credential,
     tx_CMSCommandID = cmd_CMSCommandID command, tx_CPOID = cred_CPOID credential,
     tx_CustomerID = customerID, tx_CMSChargerID = cred_CMSChargerID credential,
     tx_CMSConnectorID = cred_CMSConnectorID credential,
     tx_ChargerOCPPIdentity = mat_ChargerOCPPIdentity input,
     tx_OCPPConnectorNumber = mat_OCPPConnectorNumber input, tx_IDTag = mat_IDTag input,
     tx_OCPPTransactionID = mat_OCPPTransactionID input, tx_ActualStartedAt = mat_ActualStartedAt input,
     tx_ObservedStartedAt = mat_ObservedAt input, tx_MeterStartWh = mat_MeterStartWh input,
     tx_LimitType = cmd_LimitType command, tx_LatestMeterWh = None, tx_ConsumedWh = None,
     tx_MeterObservedAt = None, tx_MeterSequence = 0, tx_InitialSoCPercent = None,
     tx_LatestSoCPercent = None, tx_SoCObservedAt = None, tx_SoCSequence = 0,
     tx_EnergyLimitWh = cmd_EnergyLimitWh command, tx_EnergyLimitSource = cmd_EnergyLimitSource command,
     tx_MaxDurationSeconds = cmd_MaxDurationSeconds command,
     tx_DurationLimitSource = cmd_DurationLimitSource command,
     tx_StopDeadlineAt = stop_deadline (mat_ObservedAt input) (cmd_MaxDurationSeconds command),
     tx_StopState = ''NONE'', tx_RequestedStopInitiator = '''', tx_RequestedStopReason = '''',
     tx_OCPPStopReason = '''', tx_CompletedAt = None, tx_ObservedCompletedAt = None,
     tx_MeterStopWh = None, tx_RawMeterStopWh = None, tx_MeterStopAdjustmentWh = None,
     tx_MeterStopEvidence = '''', tx_MeterQuantizationAnomalyCount = 0\<rparr>"

definition invalid_start_evidence :: "V1StartMaterialization \<Rightarrow> bool" where
  "invalid_start_evidence input \<longleftrightarrow>
     mat_MeterStartWh input < 0 \<or> mat_OCPPTransactionID input \<le> 0 \<or> mat_OCPPConnectorNumber input \<le> 0
     \<or> \<not> plausibleV1ProtocolTime (mat_ActualStartedAt input) (mat_ObservedAt input)"

subsection \<open>State of charge and completion\<close>

definition apply_soc :: "V1MeterTelemetry \<Rightarrow> V1Transaction \<Rightarrow> bool \<times> V1Transaction" where
  "apply_soc telemetry transaction =
     (case (tel_SoCPercent telemetry, tel_SoCObservedAt telemetry) of
        (Some soc, Some observed) \<Rightarrow>
          if (case tx_SoCObservedAt transaction of None \<Rightarrow> True | Some t \<Rightarrow> observed > t)
          then (True, transaction\<lparr>
                  tx_InitialSoCPercent := (case tx_InitialSoCPercent transaction of
                      None \<Rightarrow> Some soc | Some i \<Rightarrow> Some i),
                  tx_LatestSoCPercent := Some soc, tx_SoCObservedAt := Some observed,
                  tx_SoCSequence := tx_SoCSequence transaction + 1\<rparr>)
          else (False, transaction)
      | _ \<Rightarrow> (False, transaction))"

definition completion_replay_matches :: "V1Transaction \<Rightarrow> int \<Rightarrow> string \<Rightarrow> gotime \<Rightarrow> bool" where
  "completion_replay_matches tx meterStopWh ocppReason completedAt \<longleftrightarrow>
     (let expectedRaw = (case tx_RawMeterStopWh tx of Some r \<Rightarrow> Some r | None \<Rightarrow> tx_MeterStopWh tx) in
      expectedRaw = Some meterStopWh \<and> tx_OCPPStopReason tx = ocppReason
      \<and> tx_CompletedAt tx = Some completedAt)"

definition completion_inadmissible :: "V1Transaction \<Rightarrow> int \<Rightarrow> gotime \<Rightarrow> gotime \<Rightarrow> bool" where
  "completion_inadmissible tx meterStopWh completedAt observedAt \<longleftrightarrow>
     completedAt < tx_ActualStartedAt tx \<or> observedAt < tx_ObservedStartedAt tx
     \<or> \<not> plausibleV1ProtocolTime completedAt observedAt
     \<or> (case (tx_MeterObservedAt tx, tx_LatestMeterWh tx) of
          (Some t, Some l) \<Rightarrow> t > completedAt \<and> meterStopWh < l
        | _ \<Rightarrow> False)"

definition complete_transaction ::
  "v1MeterEvidence \<Rightarrow> int \<Rightarrow> string \<Rightarrow> gotime \<Rightarrow> gotime \<Rightarrow> V1Transaction \<Rightarrow> V1Transaction" where
  "complete_transaction classification meterStopWh ocppReason completedAt observedAt tx =
     (let effectiveStopWh = ev_EffectiveWh classification in
      tx\<lparr>tx_MeterStopWh := Some effectiveStopWh, tx_RawMeterStopWh := Some meterStopWh,
         tx_MeterStopAdjustmentWh := Some (ev_AdjustmentWh classification),
         tx_MeterStopEvidence := evidence_string (ev_Class classification),
         tx_LatestMeterWh := Some effectiveStopWh,
         tx_ConsumedWh := Some (wrap64 (effectiveStopWh - tx_MeterStartWh tx)),
         tx_MeterObservedAt := (case tx_MeterObservedAt tx of
             None \<Rightarrow> Some completedAt
           | Some t \<Rightarrow> if completedAt > t then Some completedAt else Some t),
         tx_OCPPStopReason := ocppReason, tx_StopState := ''COMPLETED'',
         tx_CompletedAt := Some completedAt, tx_ObservedCompletedAt := Some observedAt\<rparr>)"

subsection \<open>What a well-formed transaction keeps\<close>

text \<open>
  The invariant of a transaction row: the registers are 64-bit, no register is below the start
  register, the consumption is the difference to the latest one, and a completed transaction has
  its stop evidence.
\<close>

definition tx_wf :: "V1Transaction \<Rightarrow> bool" where
  "tx_wf t \<longleftrightarrow> 0 \<le> tx_MeterStartWh t \<and> in_int64 (tx_MeterStartWh t)
     \<and> (case tx_LatestMeterWh t of
          None \<Rightarrow> tx_ConsumedWh t = None
        | Some l \<Rightarrow> tx_MeterStartWh t \<le> l \<and> in_int64 l \<and> tx_ConsumedWh t = Some (l - tx_MeterStartWh t))
     \<and> (case tx_CompletedAt t of
          None \<Rightarrow> tx_MeterStopWh t = None \<and> tx_RawMeterStopWh t = None
        | Some c \<Rightarrow> tx_ActualStartedAt t \<le> c \<and> tx_StopState t = ''COMPLETED''
            \<and> tx_MeterStopWh t = tx_LatestMeterWh t
            \<and> (\<exists>raw adj. tx_RawMeterStopWh t = Some raw \<and> tx_MeterStopAdjustmentWh t = Some adj
                 \<and> adj \<in> {0, 1} \<and> tx_MeterStopWh t = Some (raw + adj)))"

text \<open>
  \<open>tx_advances t t'\<close>: what no update of a transaction may do otherwise. The identity and the
  start evidence are immutable, sequences never go back, the first state of charge is kept, and
  a completed transaction never changes.
\<close>

definition tx_advances :: "V1Transaction \<Rightarrow> V1Transaction \<Rightarrow> bool" where
  "tx_advances t t' \<longleftrightarrow>
     tx_HALTransactionID t' = tx_HALTransactionID t \<and> tx_IDTag t' = tx_IDTag t
     \<and> tx_OCPPTransactionID t' = tx_OCPPTransactionID t
     \<and> tx_ChargerOCPPIdentity t' = tx_ChargerOCPPIdentity t
     \<and> tx_OCPPConnectorNumber t' = tx_OCPPConnectorNumber t
     \<and> tx_CMSStartIntentID t' = tx_CMSStartIntentID t \<and> tx_CMSCommandID t' = tx_CMSCommandID t
     \<and> tx_MeterStartWh t' = tx_MeterStartWh t \<and> tx_ActualStartedAt t' = tx_ActualStartedAt t
     \<and> tx_ObservedStartedAt t' = tx_ObservedStartedAt t
     \<and> tx_StopDeadlineAt t' = tx_StopDeadlineAt t
     \<and> tx_MeterSequence t \<le> tx_MeterSequence t' \<and> tx_SoCSequence t \<le> tx_SoCSequence t'
     \<and> (tx_InitialSoCPercent t \<noteq> None \<longrightarrow> tx_InitialSoCPercent t' = tx_InitialSoCPercent t)
     \<and> (tx_CompletedAt t \<noteq> None \<longrightarrow> t' = t)"

definition meter_le :: "int option \<Rightarrow> int option \<Rightarrow> bool" where
  "meter_le a b \<longleftrightarrow> (case a of None \<Rightarrow> True | Some x \<Rightarrow> (case b of None \<Rightarrow> False | Some y \<Rightarrow> x \<le> y))"

lemma meter_le_refl [simp]: "meter_le a a"
  by (simp add: meter_le_def split: option.splits)

lemma meter_le_trans: "meter_le a b \<Longrightarrow> meter_le b c \<Longrightarrow> meter_le a c"
  by (auto simp: meter_le_def split: option.splits)

lemma tx_advances_refl [simp]: "tx_advances t t"
  by (simp add: tx_advances_def)

lemma tx_advances_trans: "tx_advances a b \<Longrightarrow> tx_advances b c \<Longrightarrow> tx_advances a c"
  by (auto simp: tx_advances_def)

lemma apply_soc_advances: "tx_CompletedAt t = None \<Longrightarrow> tx_advances t (snd (apply_soc telemetry t))"
  by (auto simp: apply_soc_def tx_advances_def split: option.splits)

lemma apply_soc_frame [simp]:
  "tx_LatestMeterWh (snd (apply_soc telemetry t)) = tx_LatestMeterWh t"
  "tx_wf (snd (apply_soc telemetry t)) = tx_wf t"
  "tx_MeterSequence (snd (apply_soc telemetry t)) = tx_MeterSequence t"
  "tx_CompletedAt (snd (apply_soc telemetry t)) = tx_CompletedAt t"
  by (auto simp: apply_soc_def tx_wf_def split: option.splits)

lemma tx_wf_anomaly [simp]: "tx_wf (t\<lparr>tx_MeterQuantizationAnomalyCount := n\<rparr>) = tx_wf t"
  by (simp add: tx_wf_def split: option.splits)

lemma tx_wf_stop_request:
  "tx_CompletedAt t = None \<Longrightarrow> tx_wf (t\<lparr>tx_StopState := st, tx_RequestedStopInitiator := i,
     tx_RequestedStopReason := r\<rparr>) = tx_wf t"
  by (simp add: tx_wf_def split: option.splits)

lemma complete_advances:
  "tx_CompletedAt t = None \<Longrightarrow> tx_advances t (complete_transaction e raw reason c o' t)"
  by (simp add: complete_transaction_def tx_advances_def Let_def)

lemma complete_wf:
  assumes wf: "tx_wf t" and open': "tx_CompletedAt t = None" and "in_int64 raw"
    and "\<not> completion_inadmissible t raw c o'"
    and e: "classifyV1MeterEvidence (tx_MeterStartWh t) (tx_LatestMeterWh t) raw = Inr e"
  shows "tx_wf (complete_transaction e raw reason c o' t)"
    and "meter_le (tx_LatestMeterWh t) (tx_LatestMeterWh (complete_transaction e raw reason c o' t))"
proof -
  have latest: "\<forall>l. tx_LatestMeterWh t = Some l \<longrightarrow> in_int64 l" and start: "0 \<le> tx_MeterStartWh t"
    using wf by (auto simp: tx_wf_def split: option.splits)
  note acc = classify_accepted [OF e assms(3) start latest]
  have "ev_EffectiveWh e = raw \<or> (\<exists>l. tx_LatestMeterWh t = Some l \<and> ev_EffectiveWh e = l)"
    using e by (auto simp: classifyV1MeterEvidence_def Let_def split: if_splits option.splits)
  then have eff: "in_int64 (ev_EffectiveWh e)" using assms(3) latest by auto
  have le: "tx_MeterStartWh t \<le> ev_EffectiveWh e" using acc by linarith
  then have "wrap64 (ev_EffectiveWh e - tx_MeterStartWh t) = ev_EffectiveWh e - tx_MeterStartWh t"
    using eff start by (intro wrap64_id in_int64_diff)
  moreover have "ev_AdjustmentWh e = 0 \<or> ev_AdjustmentWh e = 1" using acc by linarith
  moreover have "tx_ActualStartedAt t \<le> c"
    using assms(4) by (simp add: completion_inadmissible_def)
  ultimately show "tx_wf (complete_transaction e raw reason c o' t)"
    using wf le eff acc(1) by (simp add: tx_wf_def complete_transaction_def Let_def)
  show "meter_le (tx_LatestMeterWh t) (tx_LatestMeterWh (complete_transaction e raw reason c o' t))"
    using acc(5) by (auto simp: meter_le_def complete_transaction_def Let_def split: option.splits)
qed

lemma new_transaction_wf:
  "\<not> invalid_start_evidence input \<Longrightarrow> in_int64 (mat_MeterStartWh input)
   \<Longrightarrow> tx_wf (new_transaction i credential command customer input)"
  by (simp add: tx_wf_def new_transaction_def invalid_start_evidence_def)

end
