(* ===== verification/Operation_Delivery.thy ===== *)
theory Operation_Delivery
  imports V1_Types
begin

text \<open>
  The state-gated physical dispatch of charger operations (\<^verbatim>\<open>ocpp16hal/v1.go\<close>). The HAL talks to
  its durable store through the Go interface \<^verbatim>\<open>v1ChargerOperationRecoveryStore\<close>; here that
  interface is a record of methods over an abstract store state, and the OCPP network is the
  argument \<open>dispatcher\<close>. The locale \<open>operation_store\<close> states what the HAL relies on; inside it
  the central safety fact is proved once: whatever the interleaving of creation, dispatch,
  recovery passes, crashes and restarts, one operation crosses the OCPP boundary at most once.
  The memory store and the PostgreSQL store interpret the locale.
\<close>

record 's v1ChargerOperationRecoveryStore =
  os_Create :: "gotime \<Rightarrow> string option \<Rightarrow> V1ChargerOperationInput \<Rightarrow> 's \<Rightarrow> (V1ChargerOperation \<times> bool) res \<times> 's"
  os_Claim :: "gotime \<Rightarrow> string \<Rightarrow> 's \<Rightarrow> (V1ChargerOperation \<times> bool) res \<times> 's"
  os_Mark :: "gotime \<Rightarrow> string \<Rightarrow> string \<Rightarrow> string \<Rightarrow> string \<Rightarrow> 's \<Rightarrow> V1ChargerOperation res \<times> 's"
  os_Recover :: "gotime \<Rightarrow> 's \<Rightarrow> 's"
  os_List :: "string \<Rightarrow> int \<Rightarrow> 's \<Rightarrow> V1ChargerOperation list"

text \<open>
  \<open>dispatcher op\<close> is the outcome of the OCPP call for \<open>op\<close>. The third component of the result
  says whether the call was made. \<open>n1\<close> and \<open>n2\<close> are the clock readings of the two store calls.
\<close>

definition dispatchClaimedV1ChargerOperation ::
  "'s v1ChargerOperationRecoveryStore \<Rightarrow> (V1ChargerOperation \<Rightarrow> (string \<times> 'c option) res)
   \<Rightarrow> gotime \<Rightarrow> gotime \<Rightarrow> string \<Rightarrow> 's \<Rightarrow> (V1ChargerOperation res \<times> 'c option \<times> bool) \<times> 's" where
  "dispatchClaimedV1ChargerOperation operations dispatcher n1 n2 cmsOperationID s =
     (case os_Claim operations n1 cmsOperationID s of
        (Inl err, s1) \<Rightarrow> ((Inl err, None, False), s1)
      | (Inr (op, claimed), s1) \<Rightarrow>
          if \<not> claimed then ((Inr op, None, False), s1)
          else (let (state, category, result, configuration) =
                  (case dispatcher op of
                     Inl _ \<Rightarrow> (''RECONCILIATION_REQUIRED'', ''delivery_ambiguous'', '''', None)
                   | Inr (result, configuration) \<Rightarrow> (''OCPP_CONFIRMED'', '''', result, configuration));
                  (completed, s2) = os_Mark operations n2 cmsOperationID state result category s1
                in ((completed, configuration, True), s2)))"

definition v1ChargerOperationRecoveryBatch :: int where
  "v1ChargerOperationRecoveryBatch = 100"

text \<open>
  The loop of \<^verbatim>\<open>recoverDispatchableV1ChargerOperations\<close>; \<open>ctxErr op\<close> is the context's error as
  observed before \<open>op\<close> is tried. Returned: the operations whose OCPP call was made, the error of
  an early return, and the state.
\<close>

fun recover_loop ::
  "'s v1ChargerOperationRecoveryStore \<Rightarrow> (V1ChargerOperation \<Rightarrow> (string \<times> 'c option) res)
   \<Rightarrow> (V1ChargerOperation \<Rightarrow> v1_error option) \<Rightarrow> (V1ChargerOperation \<Rightarrow> bool) \<Rightarrow> gotime \<Rightarrow> gotime
   \<Rightarrow> V1ChargerOperation list \<Rightarrow> 's \<Rightarrow> string list \<times> v1_error option \<times> 's" where
  "recover_loop operations dispatcher ctxErr isConnected n1 n2 [] s = ([], None, s)"
| "recover_loop operations dispatcher ctxErr isConnected n1 n2 (operation # pending) s =
     (case ctxErr operation of
        Some err \<Rightarrow> ([], Some err, s)
      | None \<Rightarrow>
          if \<not> isConnected operation
          then recover_loop operations dispatcher ctxErr isConnected n1 n2 pending s
          else (let ((_, _, dispatched), s1) =
                      dispatchClaimedV1ChargerOperation operations dispatcher n1 n2
                        (op_CMSOperationID operation) s;
                    (sent, err, s2) = recover_loop operations dispatcher ctxErr isConnected n1 n2 pending s1
                in ((if dispatched then [op_CMSOperationID operation] else []) @ sent, err, s2)))"

definition recoverDispatchableV1ChargerOperations ::
  "'s v1ChargerOperationRecoveryStore \<Rightarrow> (V1ChargerOperation \<Rightarrow> (string \<times> 'c option) res)
   \<Rightarrow> (V1ChargerOperation \<Rightarrow> v1_error option) \<Rightarrow> (V1ChargerOperation \<Rightarrow> bool) \<Rightarrow> gotime \<Rightarrow> gotime
   \<Rightarrow> string \<Rightarrow> 's \<Rightarrow> string list \<times> v1_error option \<times> 's" where
  "recoverDispatchableV1ChargerOperations operations dispatcher ctxErr isConnected n1 n2 chargerOCPPIdentity s =
     recover_loop operations dispatcher ctxErr isConnected n1 n2
       (os_List operations chargerOCPPIdentity v1ChargerOperationRecoveryBatch s) s"

subsection \<open>Histories of a store\<close>

text \<open>
  What can happen to the store over time, in any order: a CMS request creates an operation; a
  dispatch runs to its end; the process dies after the claim, possibly after the OCPP send, and
  before the result is marked; a recovery pass runs; a restart recovers.
\<close>

datatype 'c op_event =
    OpCreate gotime "string option" V1ChargerOperationInput
  | OpDispatch "V1ChargerOperation \<Rightarrow> (string \<times> 'c option) res" gotime gotime string
  | OpCrash gotime string
  | OpRecoveryPass "V1ChargerOperation \<Rightarrow> (string \<times> 'c option) res" "V1ChargerOperation \<Rightarrow> v1_error option"
      "V1ChargerOperation \<Rightarrow> bool" gotime gotime string
  | OpRestart gotime

text \<open>One event: the operations that may have crossed the OCPP boundary, and the next state.\<close>

fun exec_op :: "'s v1ChargerOperationRecoveryStore \<Rightarrow> 'c op_event \<Rightarrow> 's \<Rightarrow> string list \<times> 's" where
  "exec_op St (OpCreate now gen input) s = ([], snd (os_Create St now gen input s))"
| "exec_op St (OpDispatch dispatcher n1 n2 i) s =
     (let ((_, _, dispatched), s') = dispatchClaimedV1ChargerOperation St dispatcher n1 n2 i s
      in (if dispatched then [i] else [], s'))"
| "exec_op St (OpCrash now i) s =
     (case os_Claim St now i s of
        (Inr (_, True), s') \<Rightarrow> ([i], s')
      | (_, s') \<Rightarrow> ([], s'))"
| "exec_op St (OpRecoveryPass dispatcher ctxErr isConnected n1 n2 identity) s =
     (let (sent, _, s') = recoverDispatchableV1ChargerOperations St dispatcher ctxErr isConnected n1 n2 identity s
      in (sent, s'))"
| "exec_op St (OpRestart now) s = ([], os_Recover St now s)"

fun exec_ops :: "'s v1ChargerOperationRecoveryStore \<Rightarrow> 'c op_event list \<Rightarrow> 's \<Rightarrow> string list \<times> 's" where
  "exec_ops St [] s = ([], s)"
| "exec_ops St (e # es) s =
     (let (sent, s1) = exec_op St e s; (sent', s2) = exec_ops St es s1 in (sent @ sent', s2))"

subsection \<open>The contract of the store\<close>

text \<open>\<open>may_send\<close> is the number of sends the durable state still allows for an operation.\<close>

definition may_send :: "V1ChargerOperation option \<Rightarrow> nat" where
  "may_send o' = (case o' of None \<Rightarrow> 1 | Some op \<Rightarrow> if op_State op = ''PERSISTED'' then 1 else 0)"

definition terminal_operation_states :: "string list" where
  "terminal_operation_states = [''OCPP_CONFIRMED'', ''RECONCILIATION_REQUIRED'']"

locale operation_store =
  fixes St :: "'s v1ChargerOperationRecoveryStore"
    and lookup :: "'s \<Rightarrow> string \<Rightarrow> V1ChargerOperation option"
    and invar :: "'s \<Rightarrow> bool"
  assumes claim_result: "invar s \<Longrightarrow> fst (os_Claim St now i s) =
      (case lookup s i of
         None \<Rightarrow> Inl ErrV1OperationNotFound
       | Some op \<Rightarrow> if op_State op = ''PERSISTED''
           then Inr (op\<lparr>op_State := ''DELIVERY_ATTEMPTED'',
                        op_DeliveryAttempts := op_DeliveryAttempts op + 1, op_UpdatedAt := now\<rparr>, True)
           else Inr (op, False))"
    and claim_lookup: "invar s \<Longrightarrow> lookup (snd (os_Claim St now i s)) =
      (case fst (os_Claim St now i s) of Inr (op, True) \<Rightarrow> (lookup s)(i \<mapsto> op) | _ \<Rightarrow> lookup s)"
    and mark_state: "invar s \<Longrightarrow> map_option op_State (lookup (snd (os_Mark St now i state result category s)) j) =
      (if j = i \<and> map_option op_State (lookup s i) = Some ''DELIVERY_ATTEMPTED'' then Some state
       else map_option op_State (lookup s j))"
    and recover_state: "invar s \<Longrightarrow> map_option op_State (lookup (os_Recover St now s) j) =
      map_option (\<lambda>op. if op_State op = ''DELIVERY_ATTEMPTED'' then ''RECONCILIATION_REQUIRED'' else op_State op)
        (lookup s j)"
    and create_state: "invar s \<Longrightarrow> lookup (snd (os_Create St now gen input s)) j = lookup s j
      \<or> (lookup s j = None \<and> map_option op_State (lookup (snd (os_Create St now gen input s)) j) = Some ''PERSISTED'')"
    and invar_claim: "invar s \<Longrightarrow> invar (snd (os_Claim St now i s))"
    and invar_mark: "invar s \<Longrightarrow> invar (snd (os_Mark St now i state result category s))"
    and invar_recover: "invar s \<Longrightarrow> invar (os_Recover St now s)"
    and invar_create: "invar s \<Longrightarrow> invar (snd (os_Create St now gen input s))"
begin

lemma may_send_state: "map_option op_State a = map_option op_State b \<Longrightarrow> may_send a = may_send b"
  by (cases a; cases b) (auto simp: may_send_def)

lemma may_send_claim:
  assumes "invar s"
  shows "count_list (case fst (os_Claim St now i s) of Inr (_, True) \<Rightarrow> [i] | _ \<Rightarrow> []) j
    + may_send (lookup (snd (os_Claim St now i s)) j) \<le> may_send (lookup s j)"
  using assms by (auto simp: claim_result claim_lookup may_send_def split: option.splits)

lemma may_send_mark:
  assumes "invar s" and "state \<in> set terminal_operation_states"
  shows "may_send (lookup (snd (os_Mark St now i state result category s)) j) \<le> may_send (lookup s j)"
proof (cases "j = i \<and> map_option op_State (lookup s i) = Some ''DELIVERY_ATTEMPTED''")
  case True
  with mark_state [OF assms(1), of now i state result category j] assms(2) show ?thesis
    by (auto simp: may_send_def terminal_operation_states_def split: option.splits)
next
  case False
  with mark_state [OF assms(1), of now i state result category j] show ?thesis
    by (metis may_send_state order_refl)
qed

lemma may_send_recover:
  assumes "invar s"
  shows "may_send (lookup (os_Recover St now s) j) \<le> may_send (lookup s j)"
  using recover_state [OF assms, of now j]
  by (auto simp: may_send_def split: option.splits if_splits)

lemma may_send_create:
  assumes "invar s"
  shows "may_send (lookup (snd (os_Create St now gen input s)) j) \<le> may_send (lookup s j)"
  using create_state [OF assms, of now gen input j]
  by (auto simp: may_send_def split: option.splits)

lemma dispatch_step:
  assumes "invar s"
    and "dispatchClaimedV1ChargerOperation St dispatcher n1 n2 i s = ((r, conf, dispatched), s')"
  shows "invar s'"
    and "count_list (if dispatched then [i] else []) j + may_send (lookup s' j) \<le> may_send (lookup s j)"
proof -
  obtain c s1 where c: "os_Claim St n1 i s = (c, s1)" by (cases "os_Claim St n1 i s")
  have inv1: "invar s1" using invar_claim [OF assms(1), of n1 i] c by simp
  have claim: "count_list (case c of Inr (_, True) \<Rightarrow> [i] | _ \<Rightarrow> []) j + may_send (lookup s1 j) \<le> may_send (lookup s j)"
    using may_send_claim [OF assms(1), where now = n1 and i = i and j = j] c by simp
  have "invar s' \<and> count_list (if dispatched then [i] else []) j + may_send (lookup s' j) \<le> may_send (lookup s j)"
  proof (cases "\<exists>op. c = Inr (op, True)")
    case True
    then obtain op where op: "c = Inr (op, True)" by blast
    then obtain state result category where
      st: "state \<in> set terminal_operation_states" and s': "s' = snd (os_Mark St n2 i state result category s1)"
      and "dispatched"
      using assms(2) c
      by (auto simp: dispatchClaimedV1ChargerOperation_def terminal_operation_states_def split_beta
          split: sum.splits prod.splits)
    with op claim may_send_mark [OF inv1 st, of n2 i result category j] invar_mark [OF inv1]
    show ?thesis by auto
  next
    case False
    with assms(2) c claim inv1 show ?thesis
      by (auto simp: dispatchClaimedV1ChargerOperation_def split: sum.splits prod.splits bool.splits)
  qed
  then show "invar s'" and "count_list (if dispatched then [i] else []) j + may_send (lookup s' j) \<le> may_send (lookup s j)"
    by blast+
qed

lemma recover_loop_step:
  assumes "invar s" and "recover_loop St dispatcher ctxErr isConnected n1 n2 pending s = (sent, err, s')"
  shows "invar s' \<and> count_list sent j + may_send (lookup s' j) \<le> may_send (lookup s j)"
  using assms
proof (induction pending arbitrary: s sent err s')
  case (Cons operation pending)
  obtain r conf d s1 where d: "dispatchClaimedV1ChargerOperation St dispatcher n1 n2 (op_CMSOperationID operation) s
      = ((r, conf, d), s1)"
    by (metis prod.exhaust)
  obtain sent' err' s2 where rest: "recover_loop St dispatcher ctxErr isConnected n1 n2 pending s1 = (sent', err', s2)"
    by (metis prod.exhaust)
  note step = dispatch_step(1) [OF Cons.prems(1) d] dispatch_step(2) [OF Cons.prems(1) d, of j]
  show ?case
  proof (cases "ctxErr operation = None \<and> isConnected operation")
    case True
    then have "sent = (if d then [op_CMSOperationID operation] else []) @ sent'" and "s' = s2"
      using Cons.prems(2) d rest by auto
    with step Cons.IH [OF step(1) rest] show ?thesis by simp
  next
    case False
    with Cons show ?thesis by (auto split: option.splits)
  qed
qed simp

lemma exec_op_step:
  assumes "invar s" and "exec_op St e s = (sent, s')"
  shows "invar s' \<and> count_list sent j + may_send (lookup s' j) \<le> may_send (lookup s j)"
proof (cases e)
  case (OpCreate now gen input)
  with assms may_send_create [OF assms(1)] invar_create [OF assms(1)] show ?thesis by auto
next
  case (OpDispatch dispatcher n1 n2 i)
  obtain r conf d s1 where d: "dispatchClaimedV1ChargerOperation St dispatcher n1 n2 i s = ((r, conf, d), s1)"
    by (metis prod.exhaust)
  with OpDispatch assms(2) dispatch_step(1) [OF assms(1) d] dispatch_step(2) [OF assms(1) d, of j] show ?thesis by auto
next
  case (OpCrash now i)
  with assms may_send_claim [OF assms(1), where now = now and i = i and j = j] invar_claim [OF assms(1), of now i] show ?thesis
    by (cases "os_Claim St now i s") (auto split: sum.splits bool.splits)
next
  case (OpRecoveryPass dispatcher ctxErr isConnected n1 n2 identity)
  then obtain err where "recover_loop St dispatcher ctxErr isConnected n1 n2
      (os_List St identity v1ChargerOperationRecoveryBatch s) s = (sent, err, s')"
    using assms(2) by (auto simp: recoverDispatchableV1ChargerOperations_def split: prod.splits)
  then show ?thesis by (rule recover_loop_step [OF assms(1)])
next
  case (OpRestart now)
  with assms may_send_recover [OF assms(1)] invar_recover [OF assms(1)] show ?thesis by auto
qed

lemma exec_ops_step:
  "invar s \<Longrightarrow> exec_ops St es s = (sent, s') \<Longrightarrow>
   invar s' \<and> count_list sent j + may_send (lookup s' j) \<le> may_send (lookup s j)"
proof (induction es arbitrary: s sent)
  case (Cons e es)
  obtain sent1 s1 where e: "exec_op St e s = (sent1, s1)" by (cases "exec_op St e s")
  obtain sent2 where es: "exec_ops St es s1 = (sent2, s')" and "sent = sent1 @ sent2"
    using Cons.prems(2) e by (auto split: prod.splits)
  with exec_op_step [OF Cons.prems(1) e, of j] Cons.IH [of s1 sent2] show ?case by auto
qed simp

lemma at_most_once: "invar s \<Longrightarrow> count_list (fst (exec_ops St es s)) i \<le> 1"
proof -
  assume "invar s"
  obtain sent s' where es: "exec_ops St es s = (sent, s')" by (cases "exec_ops St es s")
  have "count_list sent i + may_send (lookup s' i) \<le> may_send (lookup s i)"
    using exec_ops_step [OF \<open>invar s\<close> es] by blast
  moreover have "may_send (lookup s i) \<le> 1"
    by (auto simp: may_send_def split: option.splits)
  ultimately show ?thesis using es by simp
qed

lemma no_send_unless_persisted:
  assumes "invar s" and "lookup s i = Some op" and "op_State op \<noteq> ''PERSISTED''"
  shows "i \<notin> set (fst (exec_ops St es s))"
proof -
  obtain sent s' where es: "exec_ops St es s = (sent, s')" by (cases "exec_ops St es s")
  have "count_list sent i + may_send (lookup s' i) \<le> may_send (lookup s i)"
    using exec_ops_step [OF assms(1) es] by blast
  then have "count_list sent i = 0" using assms(2,3) by (simp add: may_send_def)
  then show ?thesis using es by (simp add: count_list_0_iff)
qed

end

end
