(* ===== verification/V1_Memory.thy ===== *)
theory V1_Memory
  imports V1_Core Operation_Delivery
begin

text \<open>
  \<^verbatim>\<open>V1MemoryStore\<close> (\<^verbatim>\<open>store/v1_memory.go\<close>): charger operations, remote commands, start
  credentials and transactions. A Go map is a HOL map; its entries are values, so the copies the
  source makes before it returns an entry are the entry itself. Each method holds the store's
  mutex throughout, so it is one atomic step: a function from the state to a result and the next
  state. Where a method iterates over a map, the argument \<open>order\<close> is the order in which Go
  visits the keys. \<open>now\<close> is \<^verbatim>\<open>time.Now().UTC()\<close>, \<open>gen\<close> the next result of the UUID source.
\<close>

record V1MemoryStore =
  ms_commands :: "string \<rightharpoonup> V1RemoteCommand"
  ms_operations :: "string \<rightharpoonup> V1ChargerOperation"
  ms_credentials :: "string \<rightharpoonup> V1Credential"
  ms_transactions :: "string \<rightharpoonup> V1Transaction"
  ms_traces :: "string \<rightharpoonup> V1Trace"
  ms_traceEvents :: "string \<rightharpoonup> V1TraceEvent list"
  ms_followOnWindows :: "string \<rightharpoonup> V1TriggerMessageFollowOnWindow"

definition NewV1MemoryStore :: V1MemoryStore where
  "NewV1MemoryStore = \<lparr>ms_commands = Map.empty, ms_operations = Map.empty,
     ms_credentials = Map.empty, ms_transactions = Map.empty, ms_traces = Map.empty,
     ms_traceEvents = Map.empty, ms_followOnWindows = Map.empty\<rparr>"

subsection \<open>Charger operations\<close>

definition mem_CreateV1ChargerOperation ::
  "gotime \<Rightarrow> string option \<Rightarrow> V1ChargerOperationInput \<Rightarrow> V1MemoryStore
   \<Rightarrow> (V1ChargerOperation \<times> bool) res \<times> V1MemoryStore" where
  "mem_CreateV1ChargerOperation now gen input s =
     (case ms_operations s (opin_CMSOperationID input) of
        Some existing \<Rightarrow>
          if op_RequestDigest existing \<noteq> opin_RequestDigest input
          then (Inl ErrV1IdempotencyConflict, s)
          else (Inr (existing, True), s)
      | None \<Rightarrow>
          (case NewSecureUUIDString gen of
             Inl err \<Rightarrow> (Inl err, s)
           | Inr i \<Rightarrow> (let op = new_operation now i input in
               (Inr (op, False),
                s\<lparr>ms_operations := (ms_operations s)(opin_CMSOperationID input \<mapsto> op)\<rparr>))))"

definition mem_GetV1ChargerOperation :: "string \<Rightarrow> V1MemoryStore \<Rightarrow> V1ChargerOperation res" where
  "mem_GetV1ChargerOperation i s =
     (case ms_operations s i of Some operation \<Rightarrow> Inr operation | None \<Rightarrow> Inl ErrV1OperationNotFound)"

definition mem_ClaimV1ChargerOperationDelivery ::
  "gotime \<Rightarrow> string \<Rightarrow> V1MemoryStore \<Rightarrow> (V1ChargerOperation \<times> bool) res \<times> V1MemoryStore" where
  "mem_ClaimV1ChargerOperationDelivery now i s =
     (case ms_operations s i of
        None \<Rightarrow> (Inl ErrV1OperationNotFound, s)
      | Some op \<Rightarrow>
          if op_State op \<noteq> ''PERSISTED'' then (Inr (op, False), s)
          else (let op' = op\<lparr>op_State := ''DELIVERY_ATTEMPTED'',
                       op_DeliveryAttempts := op_DeliveryAttempts op + 1, op_UpdatedAt := now\<rparr>
                in (Inr (op', True), s\<lparr>ms_operations := (ms_operations s)(i \<mapsto> op')\<rparr>)))"

definition mem_MarkV1ChargerOperationDelivery ::
  "gotime \<Rightarrow> string \<Rightarrow> string \<Rightarrow> string \<Rightarrow> string \<Rightarrow> V1MemoryStore
   \<Rightarrow> V1ChargerOperation res \<times> V1MemoryStore" where
  "mem_MarkV1ChargerOperationDelivery now i state result category s =
     (case ms_operations s i of
        None \<Rightarrow> (Inl ErrV1OperationNotFound, s)
      | Some op \<Rightarrow>
          if op_State op \<noteq> ''DELIVERY_ATTEMPTED'' then (Inr op, s)
          else (let op1 = op\<lparr>op_State := state, op_OCPPResult := result,
                       op_ErrorCategory := category, op_UpdatedAt := now\<rparr>;
                    op2 = (if state = ''OCPP_CONFIRMED'' \<or> state = ''RECONCILIATION_REQUIRED''
                           then op1\<lparr>op_CompletedAt := Some now\<rparr> else op1)
                in (Inr op2, s\<lparr>ms_operations := (ms_operations s)(i \<mapsto> op2)\<rparr>)))"

definition mem_RecoverV1ChargerOperationDelivery :: "gotime \<Rightarrow> V1MemoryStore \<Rightarrow> V1MemoryStore" where
  "mem_RecoverV1ChargerOperationDelivery now s =
     s\<lparr>ms_operations := (\<lambda>i. map_option (\<lambda>op.
          if op_State op = ''DELIVERY_ATTEMPTED''
          then op\<lparr>op_State := ''RECONCILIATION_REQUIRED'', op_ErrorCategory := ''recovery_ambiguous'',
                  op_UpdatedAt := now, op_CompletedAt := Some now\<rparr>
          else op) (ms_operations s i))\<rparr>"

text \<open>
  The comparison function of \<^verbatim>\<open>slices.SortFunc\<close> orders by creation time, then by identifier,
  byte by byte: the lexicographic order on that pair.
\<close>

definition mem_ListV1DispatchableChargerOperations ::
  "string list \<Rightarrow> string \<Rightarrow> int \<Rightarrow> V1MemoryStore \<Rightarrow> V1ChargerOperation list" where
  "mem_ListV1DispatchableChargerOperations order chargerOCPPIdentity limit s =
     (if limit \<le> 0 then []
      else (let operations = filter (\<lambda>op. op_State op = ''PERSISTED''
                  \<and> (chargerOCPPIdentity = '''' \<or> op_ChargerOCPPIdentity op = chargerOCPPIdentity))
                (List.map_filter (ms_operations s) order);
                operations = sort_key (\<lambda>op. (op_CreatedAt op, op_CMSOperationID op)) operations
            in take (nat limit) operations))"

subsection \<open>Commands and credentials\<close>

definition mem_CreateV1StartCommand ::
  "gotime \<Rightarrow> string option \<Rightarrow> V1StartCommandInput \<Rightarrow> V1MemoryStore
   \<Rightarrow> (V1RemoteCommand \<times> bool) res \<times> V1MemoryStore" where
  "mem_CreateV1StartCommand now gen input s =
     (case ms_commands s (stin_CMSCommandID input) of
        Some existing \<Rightarrow>
          if cmd_RequestDigest existing \<noteq> stin_RequestDigest input
          then (Inl ErrV1IdempotencyConflict, s)
          else (Inr (existing, True), s)
      | None \<Rightarrow>
          (case NewSecureUUIDString gen of
             Inl err \<Rightarrow> (Inl err, s)
           | Inr halCommandID \<Rightarrow> (let command = new_start_command now halCommandID input in
               (Inr (command, False),
                s\<lparr>ms_commands := (ms_commands s)(stin_CMSCommandID input \<mapsto> command),
                  ms_credentials := (ms_credentials s)(stin_IDTag input \<mapsto> new_credential input)\<rparr>))))"

definition mem_CreateV1StopCommand ::
  "gotime \<Rightarrow> string option \<Rightarrow> V1StopCommandInput \<Rightarrow> V1MemoryStore
   \<Rightarrow> (V1RemoteCommand \<times> bool) res \<times> V1MemoryStore" where
  "mem_CreateV1StopCommand now gen input s =
     (case ms_commands s (spin_CMSCommandID input) of
        Some existing \<Rightarrow>
          if cmd_RequestDigest existing \<noteq> spin_RequestDigest input
          then (Inl ErrV1IdempotencyConflict, s)
          else (Inr (existing, True), s)
      | None \<Rightarrow>
          (case NewSecureUUIDString gen of
             Inl err \<Rightarrow> (Inl err, s)
           | Inr halCommandID \<Rightarrow> (let command = new_stop_command now halCommandID input in
               (Inr (command, False),
                s\<lparr>ms_commands := (ms_commands s)(spin_CMSCommandID input \<mapsto> command)\<rparr>))))"

definition mem_GetV1Command :: "string \<Rightarrow> V1MemoryStore \<Rightarrow> V1RemoteCommand res" where
  "mem_GetV1Command i s =
     (case ms_commands s i of Some command \<Rightarrow> Inr command | None \<Rightarrow> Inl ErrV1CommandNotFound)"

definition mem_GetV1Credential :: "string \<Rightarrow> V1MemoryStore \<Rightarrow> V1Credential res" where
  "mem_GetV1Credential idTag s =
     (case ms_credentials s idTag of Some credential \<Rightarrow> Inr credential | None \<Rightarrow> Inl ErrV1CredentialRejected)"

subsection \<open>Transactions\<close>

definition mem_MaterializeV1Start ::
  "string list \<Rightarrow> string option \<Rightarrow> V1StartMaterialization \<Rightarrow> V1MemoryStore
   \<Rightarrow> (V1Transaction \<times> bool) res \<times> V1MemoryStore" where
  "mem_MaterializeV1Start order gen input s =
     (if invalid_start_evidence input then (Inl ErrV1InvalidEvidence, s)
      else (case ms_credentials s (mat_IDTag input) of
        None \<Rightarrow> (Inl ErrV1CredentialRejected, s)
      | Some credential \<Rightarrow>
        if \<not> cred_ExpiresAt credential > mat_ObservedAt input
          \<or> cred_ChargerOCPPIdentity credential \<noteq> mat_ChargerOCPPIdentity input
          \<or> (cred_OCPPConnectorNumber credential \<noteq> 0
             \<and> cred_OCPPConnectorNumber credential \<noteq> mat_OCPPConnectorNumber input)
        then (Inl ErrV1CredentialRejected, s)
        else if cred_HALTransactionID credential \<noteq> '''' then
          (case ms_transactions s (cred_HALTransactionID credential) of
             Some tx \<Rightarrow> if tx_MeterStartWh tx = mat_MeterStartWh input then (Inr (tx, True), s)
                        else (Inl ErrV1CredentialRejected, s)
           | None \<Rightarrow> (Inl ErrV1CredentialRejected, s))
        else
          (case find (\<lambda>c. cmd_Kind c = ''START'' \<and> cmd_IDTag c = mat_IDTag input)
                  (List.map_filter (ms_commands s) order) of
             None \<Rightarrow> (Inl ErrV1CredentialRejected, s)
           | Some command \<Rightarrow>
             if \<not> cmd_CommandExpiresAt command > mat_ObservedAt input
             then (Inl ErrV1CredentialRejected, s)
             else (case NewSecureUUIDString gen of
                Inl err \<Rightarrow> (Inl err, s)
              | Inr halTransactionID \<Rightarrow>
                (let tx = new_transaction halTransactionID credential command '''' input;
                     credential' = credential\<lparr>cred_HALTransactionID := halTransactionID,
                       cred_ConsumedAt := Some (mat_ObservedAt input)\<rparr>;
                     command' = command\<lparr>cmd_HALTransactionID := halTransactionID,
                       cmd_OCPPTransactionID := Some (mat_OCPPTransactionID input),
                       cmd_State := ''MATERIALIZED'', cmd_UpdatedAt := mat_ObservedAt input\<rparr>
                 in (Inr (tx, False),
                     s\<lparr>ms_credentials := (ms_credentials s)(mat_IDTag input \<mapsto> credential'),
                       ms_commands := (ms_commands s)(cmd_CMSCommandID command \<mapsto> command'),
                       ms_transactions := (ms_transactions s)(halTransactionID \<mapsto> tx)\<rparr>))))))"

definition mem_UpdateV1Meter ::
  "string \<Rightarrow> int \<Rightarrow> int \<Rightarrow> gotime \<Rightarrow> V1MemoryStore \<Rightarrow> V1Transaction res \<times> V1MemoryStore" where
  "mem_UpdateV1Meter halTransactionID ocppTransactionID meterWh observedAt s =
     (case ms_transactions s halTransactionID of
        None \<Rightarrow> (Inl ErrV1TransactionNotFound, s)
      | Some tx \<Rightarrow>
        if tx_OCPPTransactionID tx \<noteq> ocppTransactionID \<or> tx_CompletedAt tx \<noteq> None
          \<or> meterWh < tx_MeterStartWh tx
        then (Inl ErrV1TransactionNotFound, s)
        else if (case tx_LatestMeterWh tx of Some l \<Rightarrow> meterWh < l | None \<Rightarrow> False) then
          (case classifyV1MeterEvidence (tx_MeterStartWh tx) (tx_LatestMeterWh tx) meterWh of
             Inl _ \<Rightarrow> (Inl ErrV1InvalidEvidence, s)
           | Inr e \<Rightarrow>
             if ev_Class e \<noteq> v1MeterEvidenceQuantizationNormalized then (Inl ErrV1InvalidEvidence, s)
             else (let tx' = tx\<lparr>tx_MeterQuantizationAnomalyCount := tx_MeterQuantizationAnomalyCount tx + 1\<rparr>
                   in (Inr tx', s\<lparr>ms_transactions := (ms_transactions s)(halTransactionID \<mapsto> tx')\<rparr>)))
        else (let tx' = tx\<lparr>tx_LatestMeterWh := Some meterWh,
                    tx_ConsumedWh := Some (wrap64 (meterWh - tx_MeterStartWh tx)),
                    tx_MeterObservedAt := (case tx_MeterObservedAt tx of
                        None \<Rightarrow> Some observedAt
                      | Some t \<Rightarrow> if observedAt > t then Some observedAt else Some t),
                    tx_MeterSequence := tx_MeterSequence tx + 1\<rparr>
              in (Inr tx', s\<lparr>ms_transactions := (ms_transactions s)(halTransactionID \<mapsto> tx')\<rparr>)))"

text \<open>
  The body of \<^verbatim>\<open>UpdateV1TelemetryForOCPP\<close> for the transaction it found, in its two parts: energy,
  then state of charge. Each part returns whether it accepted the observation.
\<close>

definition mem_apply_energy :: "V1MeterTelemetry \<Rightarrow> V1Transaction \<Rightarrow> bool \<times> V1Transaction" where
  "mem_apply_energy telemetry transaction =
     (case (tel_EnergyWh telemetry, tel_EnergyObservedAt telemetry) of
        (Some meter, Some observed) \<Rightarrow>
          if meter \<ge> tx_MeterStartWh transaction
            \<and> (case tx_LatestMeterWh transaction of None \<Rightarrow> True | Some l \<Rightarrow> meter \<ge> l)
          then (True, transaction\<lparr>
                  tx_LatestMeterWh := Some meter,
                  tx_ConsumedWh := Some (wrap64 (meter - tx_MeterStartWh transaction)),
                  tx_MeterObservedAt := Some (case tx_MeterObservedAt transaction of
                      Some t \<Rightarrow> if observed < t then t else observed | None \<Rightarrow> observed),
                  tx_MeterSequence := tx_MeterSequence transaction + 1\<rparr>)
          else (False, transaction)
      | _ \<Rightarrow> (False, transaction))"

definition mem_UpdateV1TelemetryForOCPP ::
  "string list \<Rightarrow> string \<Rightarrow> int \<Rightarrow> V1MeterTelemetry \<Rightarrow> V1MemoryStore
   \<Rightarrow> (V1Transaction \<times> V1TelemetryUpdateResult) res \<times> V1MemoryStore" where
  "mem_UpdateV1TelemetryForOCPP order identity ocppTransactionID telemetry s =
     (case find (\<lambda>i. case ms_transactions s i of
                 None \<Rightarrow> False
               | Some t \<Rightarrow> tx_ChargerOCPPIdentity t = identity \<and> tx_OCPPTransactionID t = ocppTransactionID)
             order of
        None \<Rightarrow> (Inl ErrV1TransactionNotFound, s)
      | Some i \<Rightarrow>
        (case ms_transactions s i of
           None \<Rightarrow> (Inl ErrV1TransactionNotFound, s)
         | Some transaction \<Rightarrow>
           if tx_CompletedAt transaction \<noteq> None
           then (Inr (transaction, \<lparr>telres_EnergyAccepted = False, telres_SoCAccepted = False\<rparr>), s)
           else (let (energy, t1) = mem_apply_energy telemetry transaction;
                     (soc, t2) = apply_soc telemetry t1
                 in (Inr (t2, \<lparr>telres_EnergyAccepted = energy, telres_SoCAccepted = soc\<rparr>),
                     s\<lparr>ms_transactions := (ms_transactions s)(i \<mapsto> t2)\<rparr>))))"

definition mem_RequestV1Stop ::
  "string \<Rightarrow> string \<Rightarrow> string \<Rightarrow> V1MemoryStore \<Rightarrow> (V1Transaction \<times> bool) res \<times> V1MemoryStore" where
  "mem_RequestV1Stop halTransactionID initiator reason s =
     (case ms_transactions s halTransactionID of
        None \<Rightarrow> (Inl ErrV1TransactionNotFound, s)
      | Some tx \<Rightarrow>
        if tx_CompletedAt tx \<noteq> None then (Inl ErrV1TransactionNotFound, s)
        else if tx_StopState tx \<noteq> ''NONE'' then (Inr (tx, False), s)
        else (let tx' = tx\<lparr>tx_StopState := ''PENDING_DELIVERY'', tx_RequestedStopInitiator := initiator,
                    tx_RequestedStopReason := reason\<rparr>
              in (Inr (tx', True), s\<lparr>ms_transactions := (ms_transactions s)(halTransactionID \<mapsto> tx')\<rparr>)))"

definition mem_CompleteV1Transaction ::
  "string \<Rightarrow> int \<Rightarrow> string \<Rightarrow> gotime \<Rightarrow> gotime \<Rightarrow> V1MemoryStore \<Rightarrow> V1Transaction res \<times> V1MemoryStore" where
  "mem_CompleteV1Transaction halTransactionID meterStopWh ocppReason completedAt observedAt s =
     (case ms_transactions s halTransactionID of
        None \<Rightarrow> (Inl ErrV1TransactionNotFound, s)
      | Some tx \<Rightarrow>
        if tx_CompletedAt tx \<noteq> None then
          (if completion_replay_matches tx meterStopWh ocppReason completedAt then (Inr tx, s)
           else (Inl ErrV1InvalidEvidence, s))
        else if completion_inadmissible tx meterStopWh completedAt observedAt
        then (Inl ErrV1InvalidEvidence, s)
        else (case classifyV1MeterEvidence (tx_MeterStartWh tx) (tx_LatestMeterWh tx) meterStopWh of
            Inl _ \<Rightarrow> (Inl ErrV1InvalidEvidence, s)
          | Inr classification \<Rightarrow>
              (let tx' = complete_transaction classification meterStopWh ocppReason completedAt observedAt tx
               in (Inr tx', s\<lparr>ms_transactions := (ms_transactions s)(halTransactionID \<mapsto> tx')\<rparr>))))"

definition mem_GetV1Transaction :: "string \<Rightarrow> V1MemoryStore \<Rightarrow> V1Transaction res" where
  "mem_GetV1Transaction i s =
     (case ms_transactions s i of Some tx \<Rightarrow> Inr tx | None \<Rightarrow> Inl ErrV1TransactionNotFound)"

definition mem_RequeueV1Fact :: "string \<Rightarrow> string \<Rightarrow> V1MemoryStore \<Rightarrow> unit res \<times> V1MemoryStore" where
  "mem_RequeueV1Fact factID correlationID s = (Inl ErrV1FactNotFound, s)"

subsection \<open>The delivery contract\<close>

text \<open>
  The methods of the store that the HAL's dispatcher uses. \<open>ord s\<close> is the order in which Go visits
  the operations map when it lists it.
\<close>

definition mem_op_store :: "(V1MemoryStore \<Rightarrow> string list) \<Rightarrow> V1MemoryStore v1ChargerOperationRecoveryStore" where
  "mem_op_store ord = \<lparr>os_Create = mem_CreateV1ChargerOperation,
     os_Claim = mem_ClaimV1ChargerOperationDelivery, os_Mark = mem_MarkV1ChargerOperationDelivery,
     os_Recover = mem_RecoverV1ChargerOperationDelivery,
     os_List = (\<lambda>identity limit s. mem_ListV1DispatchableChargerOperations (ord s) identity limit s)\<rparr>"

interpretation mem_ops: operation_store "mem_op_store ord" ms_operations "\<lambda>_. True"
  for ord
proof
  fix s now i
  show "fst (os_Claim (mem_op_store ord) now i s) =
      (case ms_operations s i of
         None \<Rightarrow> Inl ErrV1OperationNotFound
       | Some op \<Rightarrow> if op_State op = ''PERSISTED''
           then Inr (op\<lparr>op_State := ''DELIVERY_ATTEMPTED'',
                        op_DeliveryAttempts := op_DeliveryAttempts op + 1, op_UpdatedAt := now\<rparr>, True)
           else Inr (op, False))"
    by (simp add: mem_op_store_def mem_ClaimV1ChargerOperationDelivery_def Let_def split: option.splits)
  show "ms_operations (snd (os_Claim (mem_op_store ord) now i s)) =
      (case fst (os_Claim (mem_op_store ord) now i s) of Inr (op, True) \<Rightarrow> (ms_operations s)(i \<mapsto> op)
        | _ \<Rightarrow> ms_operations s)"
    by (simp add: mem_op_store_def mem_ClaimV1ChargerOperationDelivery_def Let_def split: option.splits)
qed (auto simp: mem_op_store_def mem_MarkV1ChargerOperationDelivery_def Let_def
    mem_RecoverV1ChargerOperationDelivery_def mem_CreateV1ChargerOperation_def new_operation_def
    option.map_comp split: option.splits sum.splits intro!: option.map_cong)

text \<open>
  On the memory store, for every history of creations, dispatches, recovery passes, crashes
  between claim and result, and restarts, from any state, the OCPP call of one charger operation
  is made at most once.
\<close>

theorem mem_dispatch_at_most_once:
  "count_list (fst (exec_ops (mem_op_store ord) es s)) cmsOperationID \<le> 1"
  by (rule mem_ops.at_most_once) simp

subsection \<open>Listing\<close>

definition ops_keyed :: "V1MemoryStore \<Rightarrow> bool" where
  "ops_keyed s \<longleftrightarrow> (\<forall>k op. ms_operations s k = Some op \<longrightarrow> op_CMSOperationID op = k)"

definition dispatchable :: "string \<Rightarrow> V1MemoryStore \<Rightarrow> V1ChargerOperation set" where
  "dispatchable identity s = {op. (\<exists>k. ms_operations s k = Some op) \<and> op_State op = ''PERSISTED''
     \<and> (identity = '''' \<or> op_ChargerOCPPIdentity op = identity)}"

lemma map_filter_operations:
  assumes "ops_keyed s" and "distinct order"
  shows "distinct (List.map_filter (ms_operations s) order)"
    and "inj_on (\<lambda>op. (op_CreatedAt op, op_CMSOperationID op)) (set (List.map_filter (ms_operations s) order))"
proof -
  have set: "set (List.map_filter (ms_operations s) xs) = {op. \<exists>k\<in>set xs. ms_operations s k = Some op}" for xs
    by (induction xs) (auto simp: List.map_filter_def split: option.splits)
  show "distinct (List.map_filter (ms_operations s) order)"
    using assms(2)
  proof (induction order)
    case (Cons k order)
    show ?case
    proof (cases "ms_operations s k")
      case None
      with Cons show ?thesis by (simp add: List.map_filter_def)
    next
      case (Some op)
      then have "op \<notin> set (List.map_filter (ms_operations s) order)"
        using Cons.prems assms(1) by (auto simp: set ops_keyed_def)
      with Some Cons show ?thesis by (simp add: List.map_filter_def)
    qed
  qed (simp add: List.map_filter_def)
  show "inj_on (\<lambda>op. (op_CreatedAt op, op_CMSOperationID op)) (set (List.map_filter (ms_operations s) order))"
    using assms(1) by (auto simp: set ops_keyed_def inj_on_def)
qed

lemma set_map_filter_operations:
  "set (List.map_filter (ms_operations s) order) = {op. \<exists>k\<in>set order. ms_operations s k = Some op}"
  by (induction order) (auto simp: List.map_filter_def split: option.splits)

text \<open>
  The list of dispatchable operations does not depend on Go's map iteration order. It holds
  stored, still \<^verbatim>\<open>PERSISTED\<close> operations of the asked charger only, never more than the limit, sorted by
  creation time and then identifier, and when it is shorter than the limit it holds all of them.
\<close>

theorem mem_list_dispatchable:
  assumes "ops_keyed s" and "distinct order" and "set order = dom (ms_operations s)"
    and "distinct order'" and "set order' = dom (ms_operations s)" and "0 < limit"
  shows "\<exists>result. mem_ListV1DispatchableChargerOperations order identity limit s = result
    \<and> mem_ListV1DispatchableChargerOperations order' identity limit s = result
    \<and> sorted (map (\<lambda>op. (op_CreatedAt op, op_CMSOperationID op)) result)
    \<and> int (length result) \<le> limit
    \<and> set result \<subseteq> dispatchable identity s
    \<and> (int (length result) < limit \<longrightarrow> set result = dispatchable identity s)"
proof -
  let ?k = "\<lambda>op. (op_CreatedAt op, op_CMSOperationID op)"
  let ?P = "\<lambda>op. op_State op = ''PERSISTED'' \<and> (identity = '''' \<or> op_ChargerOCPPIdentity op = identity)"
  let ?f = "\<lambda>ord. filter ?P (List.map_filter (ms_operations s) ord)"
  let ?result = "take (nat limit) (sort_key ?k (?f order))"
  have "sort_key ?k (?f order) = sort_key ?k (?f order')"
  proof (rule sort_key_order_irrelevant)
    show "inj_on ?k (set (?f order))"
      using map_filter_operations(2) [OF assms(1,2)] by (auto intro: inj_on_subset)
  qed (use assms map_filter_operations(1) in \<open>auto simp: set_map_filter_operations\<close>)
  then have res: "mem_ListV1DispatchableChargerOperations order identity limit s = ?result"
    "mem_ListV1DispatchableChargerOperations order' identity limit s = ?result"
    using assms(6) by (simp_all add: mem_ListV1DispatchableChargerOperations_def)
  have sorted: "sorted (map ?k ?result)"
    by (simp add: take_map [symmetric] sorted_wrt_take)
  have all: "set (?f order) = dispatchable identity s"
    using assms(3) by (auto simp: set_map_filter_operations dispatchable_def)
  have "set ?result \<subseteq> set (sort_key ?k (?f order))" by (rule set_take_subset)
  then have sub: "set ?result \<subseteq> dispatchable identity s" unfolding set_sort all .
  have "set ?result = dispatchable identity s" if "int (length ?result) < limit"
  proof -
    have eq: "?result = sort_key ?k (?f order)" using that by simp
    show ?thesis unfolding eq set_sort all ..
  qed
  moreover have "int (length ?result) \<le> limit" using assms(6) by simp
  ultimately show ?thesis using res sorted sub by (intro exI [of _ ?result] conjI impI) simp_all
qed

text \<open>The theorem at a store with two operations of one charger.\<close>

definition sample_operation :: "string \<Rightarrow> gotime \<Rightarrow> V1ChargerOperation" where
  "sample_operation i now = new_operation now (''hal-'' @ i) \<lparr>opin_CMSOperationID = i, opin_TraceID = '''',
     opin_RequestDigest = ''d'', opin_CPOID = ''cpo'', opin_CMSChargerID = ''c1'', opin_CMSConnectorID = '''',
     opin_ChargerOCPPIdentity = ''CP1'', opin_OCPPConnectorNumber = 0, opin_Kind = ''Reset'',
     opin_Parameters = [], opin_ConfigurationKeys = [], opin_CorrelationID = ''''\<rparr>"

definition sample_op_store :: V1MemoryStore where
  "sample_op_store = NewV1MemoryStore\<lparr>ms_operations :=
     [''a'' \<mapsto> sample_operation ''a'' 20, ''b'' \<mapsto> sample_operation ''b'' 10]\<rparr>"

theorem mem_list_dispatchable_witness:
  "\<exists>result. mem_ListV1DispatchableChargerOperations [''b'', ''a''] ''CP1'' 5 sample_op_store = result
    \<and> map op_CMSOperationID result = [''b'', ''a'']
    \<and> set result = dispatchable ''CP1'' sample_op_store"
proof -
  let ?r = "mem_ListV1DispatchableChargerOperations [''b'', ''a''] ''CP1'' 5 sample_op_store"
  have r: "?r = [sample_operation ''b'' 10, sample_operation ''a'' 20]"
    by (simp add: mem_ListV1DispatchableChargerOperations_def sample_op_store_def sample_operation_def
        new_operation_def NewV1MemoryStore_def List.map_filter_def)
  have "ops_keyed sample_op_store"
    by (simp add: ops_keyed_def sample_op_store_def sample_operation_def new_operation_def NewV1MemoryStore_def)
  then have "int (length ?r) < 5 \<longrightarrow> set ?r = dispatchable ''CP1'' sample_op_store"
    using mem_list_dispatchable [of sample_op_store "[''b'', ''a'']" "[''a'', ''b'']" 5 "''CP1''"]
    by (auto simp: sample_op_store_def NewV1MemoryStore_def)
  then show ?thesis by (simp add: r sample_operation_def new_operation_def)
qed

subsection \<open>Transaction histories\<close>

text \<open>
  One call of a store method that may change the state. Registers reported by a charger are
  \<^verbatim>\<open>int64\<close>; the identifier drawn for a new transaction is not one of a stored transaction.
\<close>

inductive mem_step :: "V1MemoryStore \<Rightarrow> V1MemoryStore \<Rightarrow> bool" where
  create_operation: "mem_step s (snd (mem_CreateV1ChargerOperation now gen input s))"
| claim_operation: "mem_step s (snd (mem_ClaimV1ChargerOperationDelivery now i s))"
| mark_operation: "mem_step s (snd (mem_MarkV1ChargerOperationDelivery now i state result category s))"
| recover_operations: "mem_step s (mem_RecoverV1ChargerOperationDelivery now s)"
| create_start: "mem_step s (snd (mem_CreateV1StartCommand now gen stin s))"
| create_stop: "mem_step s (snd (mem_CreateV1StopCommand now gen spin s))"
| materialize: "\<lbrakk>\<forall>u. gen = Some u \<longrightarrow> ms_transactions s u = None; in_int64 (mat_MeterStartWh mat)\<rbrakk>
    \<Longrightarrow> mem_step s (snd (mem_MaterializeV1Start order gen mat s))"
| update_meter: "in_int64 meterWh \<Longrightarrow> mem_step s (snd (mem_UpdateV1Meter i ocppID meterWh observedAt s))"
| update_telemetry: "\<forall>w. tel_EnergyWh telemetry = Some w \<longrightarrow> in_int64 w
    \<Longrightarrow> mem_step s (snd (mem_UpdateV1TelemetryForOCPP order identity ocppID telemetry s))"
| request_stop: "mem_step s (snd (mem_RequestV1Stop i initiator reason s))"
| complete: "in_int64 meterStopWh
    \<Longrightarrow> mem_step s (snd (mem_CompleteV1Transaction i meterStopWh ocppReason completedAt observedAt s))"

definition txs_wf :: "(string \<rightharpoonup> V1Transaction) \<Rightarrow> bool" where
  "txs_wf m \<longleftrightarrow> (\<forall>i t. m i = Some t \<longrightarrow> tx_wf t \<and> tx_HALTransactionID t = i)"

definition txs_advance :: "(string \<rightharpoonup> V1Transaction) \<Rightarrow> (string \<rightharpoonup> V1Transaction) \<Rightarrow> bool" where
  "txs_advance m m' \<longleftrightarrow> (\<forall>i t. m i = Some t \<longrightarrow>
     (\<exists>t'. m' i = Some t' \<and> tx_advances t t' \<and> meter_le (tx_LatestMeterWh t) (tx_LatestMeterWh t')))"

lemma txs_advance_refl [simp]: "txs_advance m m"
  by (simp add: txs_advance_def)

lemma txs_advance_trans: "txs_advance a b \<Longrightarrow> txs_advance b c \<Longrightarrow> txs_advance a c"
  unfolding txs_advance_def by (meson tx_advances_trans meter_le_trans)

lemma txs_update:
  assumes "txs_wf m" and "m i = Some t" and "tx_wf t'" and "tx_advances t t'"
    and "meter_le (tx_LatestMeterWh t) (tx_LatestMeterWh t')"
  shows "txs_wf (m(i \<mapsto> t')) \<and> txs_advance m (m(i \<mapsto> t'))"
  using assms by (auto simp: txs_wf_def txs_advance_def tx_advances_def)

lemma txs_insert:
  assumes "txs_wf m" and "m i = None" and "tx_wf t" and "tx_HALTransactionID t = i"
  shows "txs_wf (m(i \<mapsto> t)) \<and> txs_advance m (m(i \<mapsto> t))"
  using assms by (auto simp: txs_wf_def txs_advance_def)

lemma higher_register_wf:
  assumes "tx_wf t" and "tx_CompletedAt t = None" and "in_int64 w" and "tx_MeterStartWh t \<le> w"
    and "t' = t\<lparr>tx_LatestMeterWh := Some w, tx_ConsumedWh := Some (wrap64 (w - tx_MeterStartWh t)),
      tx_MeterObservedAt := o', tx_MeterSequence := tx_MeterSequence t + 1\<rparr>"
  shows "tx_wf t' \<and> tx_advances t t'"
  using assms by (auto simp: tx_wf_def tx_advances_def in_int64_diff)

lemma mem_apply_energy_ok:
  assumes "tx_wf t" and "tx_CompletedAt t = None" and "\<forall>w. tel_EnergyWh telemetry = Some w \<longrightarrow> in_int64 w"
  shows "tx_wf (snd (mem_apply_energy telemetry t)) \<and> tx_advances t (snd (mem_apply_energy telemetry t))
    \<and> meter_le (tx_LatestMeterWh t) (tx_LatestMeterWh (snd (mem_apply_energy telemetry t)))
    \<and> tx_CompletedAt (snd (mem_apply_energy telemetry t)) = None"
  using assms higher_register_wf [OF assms(1,2), OF _ _ refl]
  by (auto simp: mem_apply_energy_def meter_le_def split: option.splits)

lemma mem_UpdateV1Meter_step:
  assumes "txs_wf (ms_transactions s)" and "in_int64 meterWh"
    and s'_def: "s' = snd (mem_UpdateV1Meter i ocppID meterWh observedAt s)"
  shows "txs_wf (ms_transactions s') \<and> txs_advance (ms_transactions s) (ms_transactions s')"
proof (cases "ms_transactions s i")
  case None
  with assms show ?thesis by (simp add: s'_def mem_UpdateV1Meter_def)
next
  case (Some t)
  then have t: "tx_wf t" using assms(1) by (auto simp: txs_wf_def)
  have anomaly: "tx_CompletedAt t = None \<Longrightarrow>
    txs_wf ((ms_transactions s)(i \<mapsto> t\<lparr>tx_MeterQuantizationAnomalyCount := n\<rparr>))
    \<and> txs_advance (ms_transactions s) ((ms_transactions s)(i \<mapsto> t\<lparr>tx_MeterQuantizationAnomalyCount := n\<rparr>))" for n
    using t by (intro txs_update [OF assms(1) Some]) (auto simp: tx_advances_def)
  have higher: "\<lbrakk>tx_CompletedAt t = None; tx_MeterStartWh t \<le> meterWh;
      meter_le (tx_LatestMeterWh t) (Some meterWh);
      t' = t\<lparr>tx_LatestMeterWh := Some meterWh, tx_ConsumedWh := Some (wrap64 (meterWh - tx_MeterStartWh t)),
        tx_MeterObservedAt := o', tx_MeterSequence := tx_MeterSequence t + 1\<rparr>\<rbrakk>
    \<Longrightarrow> txs_wf ((ms_transactions s)(i \<mapsto> t')) \<and> txs_advance (ms_transactions s) ((ms_transactions s)(i \<mapsto> t'))" for t' o'
    using higher_register_wf [OF t _ assms(2)] by (intro txs_update [OF assms(1) Some]) auto
  show ?thesis
    using assms(1) Some anomaly higher [OF _ _ _ refl]
    by (auto simp: s'_def mem_UpdateV1Meter_def meter_le_def Let_def split: option.splits sum.splits)
qed

lemma mem_UpdateV1Telemetry_step:
  assumes "txs_wf (ms_transactions s)" and "\<forall>w. tel_EnergyWh telemetry = Some w \<longrightarrow> in_int64 w"
    and s'_def: "s' = snd (mem_UpdateV1TelemetryForOCPP order identity ocppID telemetry s)"
  shows "txs_wf (ms_transactions s') \<and> txs_advance (ms_transactions s) (ms_transactions s')"
proof -
  have "txs_wf ((ms_transactions s)(i \<mapsto> snd (apply_soc telemetry (snd (mem_apply_energy telemetry t)))))
    \<and> txs_advance (ms_transactions s)
        ((ms_transactions s)(i \<mapsto> snd (apply_soc telemetry (snd (mem_apply_energy telemetry t)))))"
    if "ms_transactions s i = Some t" and "tx_CompletedAt t = None" for i t
  proof -
    have "tx_wf t" using that assms(1) by (auto simp: txs_wf_def)
    note e = mem_apply_energy_ok [OF this that(2) assms(2)]
    then have "tx_advances t (snd (apply_soc telemetry (snd (mem_apply_energy telemetry t))))"
      by (meson tx_advances_trans apply_soc_advances)
    with e show ?thesis by (intro txs_update [OF assms(1) that(1)]) simp_all
  qed
  then show ?thesis
    using assms(1) by (auto simp: s'_def mem_UpdateV1TelemetryForOCPP_def split_beta Let_def split: option.splits)
qed

lemma mem_CompleteV1Transaction_step:
  assumes "txs_wf (ms_transactions s)" and "in_int64 meterStopWh"
    and s'_def: "s' = snd (mem_CompleteV1Transaction i meterStopWh ocppReason completedAt observedAt s)"
  shows "txs_wf (ms_transactions s') \<and> txs_advance (ms_transactions s) (ms_transactions s')"
proof -
  have "txs_wf ((ms_transactions s)(i \<mapsto> complete_transaction e meterStopWh ocppReason completedAt observedAt t))
    \<and> txs_advance (ms_transactions s)
        ((ms_transactions s)(i \<mapsto> complete_transaction e meterStopWh ocppReason completedAt observedAt t))"
    if "ms_transactions s i = Some t" and "tx_CompletedAt t = None"
      and "\<not> completion_inadmissible t meterStopWh completedAt observedAt"
      and "classifyV1MeterEvidence (tx_MeterStartWh t) (tx_LatestMeterWh t) meterStopWh = Inr e" for t e
  proof -
    have "tx_wf t" using that assms(1) by (auto simp: txs_wf_def)
    note wf = complete_wf [OF this that(2) assms(2) that(3,4)]
    show ?thesis by (intro txs_update [OF assms(1) that(1)] wf complete_advances that(2))
  qed
  then show ?thesis
    using assms(1) by (auto simp: s'_def mem_CompleteV1Transaction_def Let_def split: option.splits sum.splits)
qed

lemma mem_MaterializeV1Start_step:
  assumes "txs_wf (ms_transactions s)" and "\<forall>u. gen = Some u \<longrightarrow> ms_transactions s u = None"
    and "in_int64 (mat_MeterStartWh mat)"
    and s'_def: "s' = snd (mem_MaterializeV1Start order gen mat s)"
  shows "txs_wf (ms_transactions s') \<and> txs_advance (ms_transactions s) (ms_transactions s')"
proof -
  have "txs_wf ((ms_transactions s)(u \<mapsto> new_transaction u cr cm '''' mat))
    \<and> txs_advance (ms_transactions s) ((ms_transactions s)(u \<mapsto> new_transaction u cr cm '''' mat))"
    if "gen = Some u" and "\<not> invalid_start_evidence mat" for u cr cm
    using assms that by (intro txs_insert new_transaction_wf) (auto simp: new_transaction_def)
  then show ?thesis
    using assms(1) by (auto simp: s'_def mem_MaterializeV1Start_def Let_def split: option.splits sum.splits)
qed

lemma mem_transactions_frame [simp]:
  "ms_transactions (snd (mem_CreateV1ChargerOperation now gen input s)) = ms_transactions s"
  "ms_transactions (snd (mem_ClaimV1ChargerOperationDelivery now i s)) = ms_transactions s"
  "ms_transactions (snd (mem_MarkV1ChargerOperationDelivery now i state result category s)) = ms_transactions s"
  "ms_transactions (mem_RecoverV1ChargerOperationDelivery now s) = ms_transactions s"
  "ms_transactions (snd (mem_CreateV1StartCommand now gen stin s)) = ms_transactions s"
  "ms_transactions (snd (mem_CreateV1StopCommand now gen spin s)) = ms_transactions s"
  by (simp_all add: mem_CreateV1ChargerOperation_def mem_ClaimV1ChargerOperationDelivery_def
    mem_MarkV1ChargerOperationDelivery_def mem_RecoverV1ChargerOperationDelivery_def
    mem_CreateV1StartCommand_def mem_CreateV1StopCommand_def Let_def split: option.splits sum.splits)

lemma mem_step_transactions:
  assumes "mem_step s s'" and "txs_wf (ms_transactions s)"
  shows "txs_wf (ms_transactions s') \<and> txs_advance (ms_transactions s) (ms_transactions s')"
  using assms
proof cases
  case (request_stop i initiator reason)
  have "txs_wf ((ms_transactions s)(i \<mapsto> t'))  \<and> txs_advance (ms_transactions s) ((ms_transactions s)(i \<mapsto> t'))"
    if "ms_transactions s i = Some t" and "tx_CompletedAt t = None"
      and "t' = t\<lparr>tx_StopState := ''PENDING_DELIVERY'', tx_RequestedStopInitiator := initiator,
                    tx_RequestedStopReason := reason\<rparr>" for t t'
    using that assms(2) by (intro txs_update [OF assms(2) that(1)]) (auto simp: tx_wf_stop_request tx_advances_def txs_wf_def)
  with assms(2) request_stop show ?thesis
    by (auto simp: mem_RequestV1Stop_def Let_def split: option.splits)
next
  case (materialize gen mat order)
  then show ?thesis using mem_MaterializeV1Start_step [OF assms(2)] by blast
next
  case (update_meter meterWh i ocppID observedAt)
  then show ?thesis using mem_UpdateV1Meter_step [OF assms(2)] by blast
next
  case (update_telemetry telemetry order identity ocppID)
  then show ?thesis using mem_UpdateV1Telemetry_step [OF assms(2)] by blast
next
  case (complete meterStopWh i ocppReason completedAt observedAt)
  then show ?thesis using mem_CompleteV1Transaction_step [OF assms(2)] by blast
qed (use assms(2) in simp_all)

lemma mem_steps_transactions:
  assumes "mem_step\<^sup>*\<^sup>* s s'" and "txs_wf (ms_transactions s)"
  shows "txs_wf (ms_transactions s') \<and> txs_advance (ms_transactions s) (ms_transactions s')"
  using assms
proof (induction rule: rtranclp_induct)
  case (step y z)
  then show ?case using mem_step_transactions txs_advance_trans by blast
qed simp

subsection \<open>A concrete charging session\<close>

definition sample_start :: V1StartCommandInput where
  "sample_start = \<lparr>stin_CMSCommandID = ''cmd'', stin_RequestDigest = ''digest'', stin_CPOID = ''cpo'',
     stin_CustomerID = ''cust'', stin_CorrelationID = ''corr'', stin_CMSStartIntentID = ''intent'',
     stin_CMSChargerID = ''ch'', stin_CMSConnectorID = ''con'', stin_ChargerOCPPIdentity = ''CP1'',
     stin_OCPPConnectorNumber = 1, stin_IDTag = ''tag'', stin_CredentialExpiresAt = 1000,
     stin_CommandExpiresAt = 1000, stin_LimitType = '''', stin_EnergyLimitWh = None, stin_EnergyLimitSource = '''',
     stin_MaxDurationSeconds = None, stin_DurationLimitSource = ''''\<rparr>"

definition sample_mat :: V1StartMaterialization where
  "sample_mat = \<lparr>mat_ChargerOCPPIdentity = ''CP1'', mat_OCPPConnectorNumber = 1, mat_IDTag = ''tag'',
     mat_MeterStartWh = 500, mat_ActualStartedAt = 100, mat_ObservedAt = 101, mat_OCPPTransactionID = 7\<rparr>"

definition sample_started :: V1MemoryStore where
  "sample_started = snd (mem_MaterializeV1Start [''cmd''] (Some ''tx'') sample_mat
     (snd (mem_CreateV1StartCommand 50 (Some ''hal'') sample_start NewV1MemoryStore)))"

definition sample_metered :: V1MemoryStore where
  "sample_metered = snd (mem_UpdateV1Meter ''tx'' 7 900 200 sample_started)"

definition sample_stopped :: V1MemoryStore where
  "sample_stopped = snd (mem_CompleteV1Transaction ''tx'' 899 ''Local'' 300 301 sample_metered)"

lemmas sample_session_defs = sample_started_def sample_metered_def sample_stopped_def sample_start_def
  sample_mat_def NewV1MemoryStore_def mem_CreateV1StartCommand_def mem_MaterializeV1Start_def
  mem_UpdateV1Meter_def mem_CompleteV1Transaction_def mem_GetV1Transaction_def new_start_command_def
  new_credential_def new_transaction_def stop_deadline_def invalid_start_evidence_def
  plausibleV1ProtocolTime_def v1MaxProtocolClockSkew_def time_IsZero_def time_Sub_def
  NewSecureUUIDString_def nil_uuid_def List.map_filter_def wrap64_def in_int64_def
  completion_inadmissible_def classifyV1MeterEvidence_def v1MeterQuantizationToleranceWh_def
  complete_transaction_def completion_replay_matches_def Let_def

lemma sample_reachable:
  "mem_step\<^sup>*\<^sup>* NewV1MemoryStore sample_started" "mem_step\<^sup>*\<^sup>* sample_started sample_metered"
  "mem_step\<^sup>*\<^sup>* sample_metered sample_stopped"
proof -
  let ?s = "snd (mem_CreateV1StartCommand 50 (Some ''hal'') sample_start NewV1MemoryStore)"
  have "ms_transactions ?s = Map.empty" by (simp add: sample_session_defs)
  then have "mem_step ?s sample_started"
    unfolding sample_started_def
    by (intro mem_step.materialize) (simp_all add: sample_mat_def in_int64_def)
  then show "mem_step\<^sup>*\<^sup>* NewV1MemoryStore sample_started"
    using mem_step.create_start [of NewV1MemoryStore 50 "Some ''hal''" sample_start] by simp
  show "mem_step\<^sup>*\<^sup>* sample_started sample_metered"
    unfolding sample_metered_def by (intro r_into_rtranclp mem_step.update_meter) (simp add: in_int64_def)
  show "mem_step\<^sup>*\<^sup>* sample_metered sample_stopped"
    unfolding sample_stopped_def by (intro r_into_rtranclp mem_step.complete) (simp add: in_int64_def)
qed

text \<open>The values of the session: the stop register 899 Wh is one below the latest, and normalized.\<close>

lemma sample_stopped_tx:
  "\<exists>t. mem_GetV1Transaction ''tx'' sample_stopped = Inr t \<and> tx_MeterStopWh t = Some 900
     \<and> tx_RawMeterStopWh t = Some 899 \<and> tx_ConsumedWh t = Some 400"
  by (simp add: sample_session_defs)

text \<open>
  In every store state that the methods reach from an empty store, a stored transaction is
  filed under its own identifier and well formed: no register below the start register, the
  consumption exactly the difference, and a completed transaction has its full stop evidence with
  an adjustment of at most 1 Wh.
\<close>

theorem mem_reachable_transactions_wf:
  assumes "mem_step\<^sup>*\<^sup>* NewV1MemoryStore s" and "mem_GetV1Transaction i s = Inr t"
  shows "tx_wf t \<and> tx_HALTransactionID t = i"
proof -
  have "txs_wf (ms_transactions s)"
    using mem_steps_transactions [OF assms(1)] by (simp add: txs_wf_def NewV1MemoryStore_def)
  with assms(2) show ?thesis
    by (auto simp: txs_wf_def mem_GetV1Transaction_def split: option.splits)
qed

theorem mem_reachable_transactions_wf_witness:
  "\<exists>t. mem_GetV1Transaction ''tx'' sample_stopped = Inr t \<and> tx_wf t \<and> tx_MeterStopWh t = Some 900"
proof -
  have "mem_step\<^sup>*\<^sup>* NewV1MemoryStore sample_stopped"
    using sample_reachable by (meson rtranclp_trans)
  with sample_stopped_tx mem_reachable_transactions_wf show ?thesis by blast
qed

text \<open>
  Over any continuation of a reachable store, a transaction is never lost; its identity, its
  start evidence and its deadline never change; its sequences and its latest register never go
  back; its first state of charge is kept; and once completed it never changes at all.
\<close>

theorem mem_transactions_monotone:
  assumes "mem_step\<^sup>*\<^sup>* NewV1MemoryStore s" and "mem_step\<^sup>*\<^sup>* s s'" and "mem_GetV1Transaction i s = Inr t"
  shows "\<exists>t'. mem_GetV1Transaction i s' = Inr t' \<and> tx_advances t t'
    \<and> meter_le (tx_LatestMeterWh t) (tx_LatestMeterWh t')"
proof -
  have "txs_wf (ms_transactions s)"
    using mem_steps_transactions [OF assms(1)] by (simp add: txs_wf_def NewV1MemoryStore_def)
  then have "txs_advance (ms_transactions s) (ms_transactions s')"
    using mem_steps_transactions [OF assms(2)] by blast
  with assms(3) show ?thesis
    by (force simp: txs_advance_def mem_GetV1Transaction_def split: option.splits)
qed

theorem mem_transactions_monotone_witness:
  "\<exists>t t'. mem_GetV1Transaction ''tx'' sample_metered = Inr t \<and> tx_LatestMeterWh t = Some 900
     \<and> mem_GetV1Transaction ''tx'' sample_stopped = Inr t' \<and> tx_advances t t'"
proof -
  have r: "mem_step\<^sup>*\<^sup>* NewV1MemoryStore sample_metered"
    using sample_reachable by (meson rtranclp_trans)
  have "\<exists>t. mem_GetV1Transaction ''tx'' sample_metered = Inr t \<and> tx_LatestMeterWh t = Some 900"
    by (simp add: sample_session_defs)
  with mem_transactions_monotone [OF r sample_reachable(3)] show ?thesis by blast
qed

text \<open>
  Completing a transaction is idempotent. After a completion succeeded, the same evidence
  returns the same stored transaction and changes nothing, whatever the later receipt time, and
  evidence that differs in the register, the reason or the completion time is refused.
\<close>

theorem mem_complete_idempotent:
  assumes "mem_CompleteV1Transaction i w reason c obs s = (Inr t, s')"
    and "\<forall>t0. ms_transactions s i = Some t0 \<longrightarrow> tx_CompletedAt t0 = None"
  shows "mem_CompleteV1Transaction i w reason c obs' s' = (Inr t, s')
    \<and> ((w', reason', c') \<noteq> (w, reason, c) \<longrightarrow>
        mem_CompleteV1Transaction i w' reason' c' obs' s' = (Inl ErrV1InvalidEvidence, s'))"
proof -
  obtain t0 e where "ms_transactions s i = Some t0" and "t = complete_transaction e w reason c obs t0"
    and "s' = s\<lparr>ms_transactions := (ms_transactions s)(i \<mapsto> t)\<rparr>"
    using assms by (auto simp: mem_CompleteV1Transaction_def Let_def split: option.splits sum.splits if_splits)
  then have s': "ms_transactions s' i = Some t" and t: "tx_CompletedAt t = Some c" "tx_RawMeterStopWh t = Some w"
    "tx_OCPPStopReason t = reason"
    by (simp_all add: complete_transaction_def Let_def)
  show ?thesis
    by (auto simp: mem_CompleteV1Transaction_def s' t completion_replay_matches_def)
qed

theorem mem_complete_idempotent_witness:
  "\<exists>t. mem_CompleteV1Transaction ''tx'' 899 ''Local'' 300 999 sample_stopped = (Inr t, sample_stopped)
     \<and> mem_CompleteV1Transaction ''tx'' 900 ''Local'' 300 999 sample_stopped = (Inl ErrV1InvalidEvidence, sample_stopped)"
proof -
  have open': "\<forall>t0. ms_transactions sample_metered ''tx'' = Some t0 \<longrightarrow> tx_CompletedAt t0 = None"
    by (simp add: sample_session_defs)
  have "\<exists>t. fst (mem_CompleteV1Transaction ''tx'' 899 ''Local'' 300 301 sample_metered) = Inr t"
    by (simp add: sample_session_defs)
  then obtain t where
    "mem_CompleteV1Transaction ''tx'' 899 ''Local'' 300 301 sample_metered = (Inr t, sample_stopped)"
    unfolding sample_stopped_def by (metis prod.collapse)
  from mem_complete_idempotent [OF this open', of 999 900 "''Local''" 300] show ?thesis by auto
qed

end
