(* ===== verification/SQL_Table.thy ===== *)
theory SQL_Table
  imports HAL_Prelude
begin

text \<open>
  The fragment of SQL that the PostgreSQL store uses, on a table that is the list of its rows in
  insertion order: \<open>sql_row\<close> is a \<^verbatim>\<open>SELECT\<close> by a unique key, \<open>sql_update\<close> an
  \<^verbatim>\<open>UPDATE ... SET f WHERE P\<close>, \<open>sql_count\<close> the \<^verbatim>\<open>RowsAffected\<close> of that update, and appending
  a row an \<^verbatim>\<open>INSERT\<close>. A uniqueness constraint on a column is \<open>distinct (map key t)\<close>.
\<close>

definition sql_row :: "('r \<Rightarrow> 'k) \<Rightarrow> 'k \<Rightarrow> 'r list \<Rightarrow> 'r option" where
  "sql_row key k t = find (\<lambda>r. key r = k) t"

definition sql_update :: "('r \<Rightarrow> bool) \<Rightarrow> ('r \<Rightarrow> 'r) \<Rightarrow> 'r list \<Rightarrow> 'r list" where
  "sql_update P f t = map (\<lambda>r. if P r then f r else r) t"

definition sql_count :: "('r \<Rightarrow> bool) \<Rightarrow> 'r list \<Rightarrow> nat" where
  "sql_count P t = length (filter P t)"

text \<open>
  \<^verbatim>\<open>TIMESTAMPTZ\<close> has microsecond precision, which \<^verbatim>\<open>normalizeV1FactOccurredAt\<close> relies on: an
  instant bound to a statement loses its nanoseconds. \<^verbatim>\<open>NOW()\<close> has none.
\<close>

definition pg_ts :: "gotime \<Rightarrow> gotime" where
  "pg_ts t = truncate_us t"

lemma pg_ts_le: "pg_ts t \<le> t"
  using truncate_us_bounds by (simp add: pg_ts_def)

lemma pg_ts_idem [simp]: "pg_ts (pg_ts t) = pg_ts t"
  by (simp add: pg_ts_def)

lemma sql_row_SomeD: "sql_row key k t = Some r \<Longrightarrow> r \<in> set t \<and> key r = k"
  by (auto simp: sql_row_def dest: find_SomeD)

lemma sql_row_None: "sql_row key k t = None \<longleftrightarrow> k \<notin> key ` set t"
  by (auto simp: sql_row_def find_None_iff')

lemma sql_row_append:
  "sql_row key k (t @ [r]) =
     (case sql_row key k t of Some x \<Rightarrow> Some x | None \<Rightarrow> if key r = k then Some r else None)"
  by (induction t) (auto simp: sql_row_def)

lemma sql_row_Nil [simp]: "sql_row key k [] = None"
  by (simp add: sql_row_def)

lemma sql_row_Cons: "sql_row key k (r # t) = (if key r = k then Some r else sql_row key k t)"
  by (simp add: sql_row_def)

lemma sql_update_Nil [simp]: "sql_update P f [] = []"
  by (simp add: sql_update_def)

lemma length_sql_update [simp]: "length (sql_update P f t) = length t"
  by (simp add: sql_update_def)

lemma set_sql_update: "set (sql_update P f t) = (\<lambda>r. if P r then f r else r) ` set t"
  by (simp add: sql_update_def)

lemma sql_row_update:
  assumes "\<And>r. P r \<Longrightarrow> key (f r) = key r"
  shows "sql_row key k (sql_update P f t) = map_option (\<lambda>r. if P r then f r else r) (sql_row key k t)"
  using assms by (induction t) (auto simp: sql_row_def sql_update_def)

lemma sql_row_update_key:
  assumes "\<And>r. key (f r) = key r"
  shows "sql_row key j (sql_update (\<lambda>r. key r = i \<and> P r) f t) =
    (if j = i then map_option (\<lambda>r. if P r then f r else r) (sql_row key i t) else sql_row key j t)"
  using assms by (induction t) (auto simp: sql_row_def sql_update_def)

lemma sql_update_keys:
  assumes "\<And>r. P r \<Longrightarrow> key (f r) = key r"
  shows "map key (sql_update P f t) = map key t"
  using assms by (induction t) (auto simp: sql_update_def)

lemma sql_update_none: "(\<And>r. r \<in> set t \<Longrightarrow> \<not> P r) \<Longrightarrow> sql_update P f t = t"
  by (induction t) (auto simp: sql_update_def)

lemma sql_count_0: "sql_count P t = 0 \<longleftrightarrow> (\<forall>r\<in>set t. \<not> P r)"
  by (auto simp: sql_count_def filter_empty_conv)

lemma sql_row_unique:
  "distinct (map key t) \<Longrightarrow> r \<in> set t \<Longrightarrow> sql_row key (key r) t = Some r"
  by (induction t) (auto simp: sql_row_def image_iff)

text \<open>A condition that fixes the unique key hits one row at most.\<close>

lemma sql_count_key:
  assumes "distinct (map key t)"
  shows "sql_count (\<lambda>r. key r = k \<and> P r) t =
    (case sql_row key k t of None \<Rightarrow> 0 | Some r \<Rightarrow> if P r then 1 else 0)"
  using assms
proof (induction t)
  case (Cons a t)
  show ?case
  proof (cases "key a = k")
    case True
    with Cons.prems have "sql_row key k t = None" by (auto simp: sql_row_None)
    with True Cons show ?thesis by (simp add: sql_count_def sql_row_Cons)
  next
    case False
    with Cons show ?thesis by (simp add: sql_count_def sql_row_Cons)
  qed
qed (simp add: sql_count_def)

lemma distinct_keys_append:
  "distinct (map key t) \<Longrightarrow> sql_row key (key r) t = None \<Longrightarrow> distinct (map key (t @ [r]))"
  by (simp add: sql_row_None)

end
