(* ===== verification/Outbox.thy ===== *)
theory Outbox
  imports SQL_Table V1_Types
begin

text \<open>
  The leased delivery outbox. \<^verbatim>\<open>v1_fact_outbox\<close> and \<^verbatim>\<open>v1_trace_delivery_outbox\<close> have the same
  delivery columns and are driven by the same two SQL statements: a claim that leases the due
  rows for thirty seconds under a fresh token, and a mark that is fenced by that token. The
  statements are modelled once here, on rows with an arbitrary immutable content; the stores'
  methods call them on their own table. The locale \<open>outbox\<close> is what the delivery workers rely on.

  A NULL claim token is the empty string. \<open>locked i\<close> says that another transaction holds the lock
  of row \<open>i\<close>, so that \<^verbatim>\<open>FOR UPDATE SKIP LOCKED\<close> passes over it. Bound instants have the
  microsecond precision of \<^verbatim>\<open>TIMESTAMPTZ\<close> (\<open>pg_ts\<close>).
\<close>

record 'p outbox_row =
  ob_id :: string
  ob_content :: 'p
  ob_status :: string
  ob_retries :: int
  ob_next_retry_at :: gotime
  ob_claimed_until :: "gotime option"
  ob_claim_token :: string
  ob_delivery_status :: "int option"
  ob_last_error :: string
  ob_sent_at :: "gotime option"
  ob_created_at :: gotime

definition outbox_lease :: duration where
  "outbox_lease = 30 * duration_second"

definition outbox_due :: "gotime \<Rightarrow> 'p outbox_row \<Rightarrow> bool" where
  "outbox_due now r \<longleftrightarrow>
     ((ob_status r = ''PENDING'' \<or> ob_status r = ''RETRY'') \<and> ob_next_retry_at r \<le> now
      \<or> ob_status r = ''DELIVERING'' \<and> (case ob_claimed_until r of None \<Rightarrow> False | Some c \<Rightarrow> c < now))
     \<and> (case ob_claimed_until r of None \<Rightarrow> True | Some c \<Rightarrow> c < now)"

definition outbox_due_ids :: "(string \<Rightarrow> bool) \<Rightarrow> gotime \<Rightarrow> int \<Rightarrow> 'p outbox_row list \<Rightarrow> string list" where
  "outbox_due_ids locked now limit t =
     map ob_id (take (nat limit) (sort_key (\<lambda>r. (ob_next_retry_at r, ob_created_at r))
       (filter (\<lambda>r. outbox_due now r \<and> \<not> locked (ob_id r)) t)))"

definition outbox_lease_row :: "gotime \<Rightarrow> string \<Rightarrow> 'p outbox_row \<Rightarrow> 'p outbox_row" where
  "outbox_lease_row now token r =
     r\<lparr>ob_status := ''DELIVERING'', ob_claimed_until := Some (now + outbox_lease), ob_claim_token := token\<rparr>"

text \<open>The rows that the claim's \<^verbatim>\<open>RETURNING\<close> clause yields, and the table after it.\<close>

definition outbox_claim ::
  "(string \<Rightarrow> bool) \<Rightarrow> gotime \<Rightarrow> int \<Rightarrow> string \<Rightarrow> 'p outbox_row list
   \<Rightarrow> 'p outbox_row list \<times> 'p outbox_row list" where
  "outbox_claim locked now limit token t =
     (let due = outbox_due_ids locked (pg_ts now) limit t;
          t' = sql_update (\<lambda>r. ob_id r \<in> set due) (outbox_lease_row (pg_ts now) token) t
      in (filter (\<lambda>r. ob_id r \<in> set due) t', t'))"

definition delivery_state :: "bool \<Rightarrow> bool \<Rightarrow> string" where
  "delivery_state success terminal =
     (let state = ''RETRY''; state = (if success then ''DELIVERED'' else state)
      in (if terminal then ''RECONCILIATION_REQUIRED'' else state))"

definition outbox_held :: "string \<Rightarrow> string \<Rightarrow> 'p outbox_row \<Rightarrow> bool" where
  "outbox_held i token r \<longleftrightarrow> ob_id r = i \<and> ob_status r = ''DELIVERING''
     \<and> ob_claim_token r \<noteq> '''' \<and> ob_claim_token r = token"

definition outbox_mark ::
  "gotime \<Rightarrow> string \<Rightarrow> string \<Rightarrow> int \<Rightarrow> string \<Rightarrow> string \<Rightarrow> gotime \<Rightarrow> 'p outbox_row list \<Rightarrow> 'p outbox_row list" where
  "outbox_mark now i token statusCode state detail next' t =
     sql_update (outbox_held i token) (\<lambda>r. r\<lparr>ob_status := state,
        ob_retries := (if state = ''DELIVERED'' then ob_retries r else ob_retries r + 1),
        ob_next_retry_at := pg_ts next', ob_claimed_until := None, ob_claim_token := '''',
        ob_delivery_status := Some statusCode, ob_last_error := detail,
        ob_sent_at := (if state = ''DELIVERED'' then Some now else ob_sent_at r)\<rparr>) t"

subsection \<open>What the statements keep\<close>

lemma outbox_due_idsD:
  "i \<in> set (outbox_due_ids locked now limit t) \<Longrightarrow> \<exists>r\<in>set t. ob_id r = i \<and> outbox_due now r \<and> \<not> locked i"
  by (auto simp: outbox_due_ids_def dest!: in_set_takeD)

lemma outbox_claim_ids [simp]: "map ob_id (snd (outbox_claim locked now limit token t)) = map ob_id t"
  by (simp add: outbox_claim_def Let_def sql_update_keys outbox_lease_row_def)

lemma outbox_mark_ids [simp]: "map ob_id (outbox_mark now i token code state detail next' t) = map ob_id t"
  by (simp add: outbox_mark_def sql_update_keys)

lemma outbox_claimed_id:
  "r \<in> set (fst (outbox_claim locked now limit token t)) \<Longrightarrow> ob_id r \<in> set (outbox_due_ids locked (pg_ts now) limit t)"
  by (simp add: outbox_claim_def Let_def)

lemma outbox_claim_row:
  "sql_row ob_id i (snd (outbox_claim locked now limit token t)) =
     map_option (\<lambda>r. if i \<in> set (outbox_due_ids locked (pg_ts now) limit t)
        then outbox_lease_row (pg_ts now) token r else r) (sql_row ob_id i t)"
proof -
  have "sql_row ob_id i (snd (outbox_claim locked now limit token t)) =
     map_option (\<lambda>r. if ob_id r \<in> set (outbox_due_ids locked (pg_ts now) limit t)
        then outbox_lease_row (pg_ts now) token r else r) (sql_row ob_id i t)"
    by (simp add: outbox_claim_def Let_def sql_row_update outbox_lease_row_def)
  then show ?thesis by (cases "sql_row ob_id i t") (auto dest: sql_row_SomeD)
qed

lemma outbox_mark_row:
  "sql_row ob_id j (outbox_mark now i token code state detail next' t) =
     map_option (\<lambda>r. if outbox_held i token r then r\<lparr>ob_status := state,
        ob_retries := (if state = ''DELIVERED'' then ob_retries r else ob_retries r + 1),
        ob_next_retry_at := pg_ts next', ob_claimed_until := None, ob_claim_token := '''',
        ob_delivery_status := Some code, ob_last_error := detail,
        ob_sent_at := (if state = ''DELIVERED'' then Some now else ob_sent_at r)\<rparr> else r)
       (sql_row ob_id j t)"
  by (simp add: outbox_mark_def sql_row_update outbox_held_def)

text \<open>
  \<open>outbox_kept t t'\<close>: no row is lost, its identifier, its content and its creation time are the
  same, its retry counter did not go down, and a delivered row did not change.
\<close>

definition outbox_row_kept :: "'p outbox_row \<Rightarrow> 'p outbox_row \<Rightarrow> bool" where
  "outbox_row_kept r r' \<longleftrightarrow> ob_id r' = ob_id r \<and> ob_content r' = ob_content r
     \<and> ob_created_at r' = ob_created_at r \<and> ob_retries r \<le> ob_retries r'
     \<and> (ob_status r = ''DELIVERED'' \<longrightarrow> r' = r)"

definition outbox_kept :: "'p outbox_row list \<Rightarrow> 'p outbox_row list \<Rightarrow> bool" where
  "outbox_kept t t' \<longleftrightarrow> (\<forall>i r. sql_row ob_id i t = Some r \<longrightarrow>
     (\<exists>r'. sql_row ob_id i t' = Some r' \<and> outbox_row_kept r r'))"

lemma outbox_row_kept_refl [simp]: "outbox_row_kept r r"
  by (simp add: outbox_row_kept_def)

lemma outbox_row_kept_trans: "outbox_row_kept a b \<Longrightarrow> outbox_row_kept b c \<Longrightarrow> outbox_row_kept a c"
  by (auto simp: outbox_row_kept_def)

lemma outbox_kept_refl [simp]: "outbox_kept t t"
  by (simp add: outbox_kept_def)

lemma outbox_kept_trans: "outbox_kept a b \<Longrightarrow> outbox_kept b c \<Longrightarrow> outbox_kept a c"
  unfolding outbox_kept_def by (meson outbox_row_kept_trans)

lemma outbox_kept_append: "outbox_kept t (t @ [r])"
  by (auto simp: outbox_kept_def sql_row_append)

lemma outbox_kept_update:
  assumes "\<And>r. P r \<Longrightarrow> outbox_row_kept r (f r)"
  shows "outbox_kept t (sql_update P f t)"
  using assms by (auto simp: outbox_kept_def sql_row_update outbox_row_kept_def)

lemma outbox_claim_kept:
  assumes "distinct (map ob_id t)"
  shows "outbox_kept t (snd (outbox_claim locked now limit token t))"
proof -
  have "outbox_row_kept r (outbox_lease_row now' token r)"
    if r: "sql_row ob_id i t = Some r" and due: "i \<in> set (outbox_due_ids locked now' limit t)" for i r now'
  proof -
    obtain r' where "r' \<in> set t" and "ob_id r' = i" and "outbox_due now' r'"
      using outbox_due_idsD [OF due] by blast
    moreover have "r' = r" using r sql_row_unique [OF assms \<open>r' \<in> set t\<close>] \<open>ob_id r' = i\<close> by simp
    ultimately have "ob_status r \<noteq> ''DELIVERED''" by (auto simp: outbox_due_def)
    then show ?thesis by (simp add: outbox_row_kept_def outbox_lease_row_def)
  qed
  then show ?thesis by (auto simp: outbox_kept_def outbox_claim_row)
qed

lemma outbox_mark_kept: "outbox_kept t (outbox_mark now i token code state detail next' t)"
  unfolding outbox_mark_def
  by (rule outbox_kept_update) (auto simp: outbox_row_kept_def outbox_held_def)

subsection \<open>The contract of an outbox\<close>

text \<open>
  What the workers do to an outbox over time: claims, and marks of a claimed row. \<open>clm\<close> and
  \<open>mrk\<close> are the store's methods, \<open>did\<close> the identifier of a claimed delivery.
\<close>

datatype outbox_event =
    ObClaim "string \<Rightarrow> bool" gotime int "string option"
  | ObMark gotime string string int bool bool string gotime

type_synonym ('d, 's) outbox_claim_op =
  "(string \<Rightarrow> bool) \<Rightarrow> gotime \<Rightarrow> int \<Rightarrow> string option \<Rightarrow> 's \<Rightarrow> 'd list res \<times> 's"
type_synonym 's outbox_mark_op =
  "gotime \<Rightarrow> string \<Rightarrow> string \<Rightarrow> int \<Rightarrow> bool \<Rightarrow> bool \<Rightarrow> string \<Rightarrow> gotime \<Rightarrow> 's \<Rightarrow> unit res \<times> 's"

text \<open>The deliveries that the claims of a history return, and the state after it.\<close>

fun exec_outbox ::
  "('d, 's) outbox_claim_op \<Rightarrow> 's outbox_mark_op \<Rightarrow> outbox_event list \<Rightarrow> 's \<Rightarrow> 'd list \<times> 's" where
  "exec_outbox clm mrk [] s = ([], s)"
| "exec_outbox clm mrk (ObClaim locked now limit gen # es) s =
     (let (r, s1) = clm locked now limit gen s; (ds, s2) = exec_outbox clm mrk es s1
      in ((case r of Inl _ \<Rightarrow> [] | Inr xs \<Rightarrow> xs) @ ds, s2))"
| "exec_outbox clm mrk (ObMark now i token code success terminal detail next' # es) s =
     exec_outbox clm mrk es (snd (mrk now i token code success terminal detail next' s))"

text \<open>
  \<open>lease_respected\<close>: the events do not end the lease that \<open>token\<close> has on \<open>i\<close> until \<open>until\<close>:
  no claim after that time, and no mark of \<open>i\<close> by the holder of the token.
\<close>

fun lease_respected :: "string \<Rightarrow> string \<Rightarrow> gotime \<Rightarrow> outbox_event \<Rightarrow> bool" where
  "lease_respected i token until (ObClaim locked now limit gen) \<longleftrightarrow> pg_ts now \<le> until"
| "lease_respected i token until (ObMark now j token' code success terminal detail next') \<longleftrightarrow> j \<noteq> i \<or> token' \<noteq> token"

locale outbox =
  fixes rows :: "'s \<Rightarrow> 'p outbox_row list"
    and clm :: "('d, 's) outbox_claim_op"
    and mrk :: "'s outbox_mark_op"
    and did :: "'d \<Rightarrow> string"
    and invar :: "'s \<Rightarrow> bool"
  assumes claim_error: "clm locked now limit gen s = (Inl e, s') \<Longrightarrow> s' = s"
    and claim_ok: "clm locked now limit gen s = (Inr ds, s') \<Longrightarrow>
      ds = [] \<and> s' = s \<or> (\<exists>token. gen = Some token
        \<and> map did ds = map ob_id (fst (outbox_claim locked now limit token (rows s)))
        \<and> rows s' = snd (outbox_claim locked now limit token (rows s)))"
    and mark_rows: "rows (snd (mrk now i token code success terminal detail next' s)) =
      outbox_mark now i token code (delivery_state success terminal) detail next' (rows s)"
    and mark_result: "isl (fst (mrk now i token code success terminal detail next' s))
      \<longleftrightarrow> sql_count (outbox_held i token) (rows s) = 0"
    and distinct_ids: "invar s \<Longrightarrow> distinct (map ob_id (rows s))"
    and invar_claim: "invar s \<Longrightarrow> invar (snd (clm locked now limit gen s))"
    and invar_mark: "invar s \<Longrightarrow> invar (snd (mrk now i token code success terminal detail next' s))"
begin

lemma claim_kept: "invar s \<Longrightarrow> outbox_kept (rows s) (rows (snd (clm locked now limit gen s)))"
proof -
  assume "invar s"
  obtain r s' where c: "clm locked now limit gen s = (r, s')" by (cases "clm locked now limit gen s")
  show ?thesis
  proof (cases r)
    case (Inl e)
    with c claim_error show ?thesis by fastforce
  next
    case (Inr ds)
    with claim_ok [of locked now limit gen s ds s'] c outbox_claim_kept [OF distinct_ids [OF \<open>invar s\<close>]]
    show ?thesis by auto
  qed
qed

lemma exec_kept:
  "invar s \<Longrightarrow> exec_outbox clm mrk es s = (ds, s') \<Longrightarrow> invar s' \<and> outbox_kept (rows s) (rows s')"
proof (induction es arbitrary: s ds)
  case (Cons e es)
  show ?case
  proof (cases e)
    case (ObClaim locked now limit gen)
    then obtain ds' where "exec_outbox clm mrk es (snd (clm locked now limit gen s)) = (ds', s')"
      using Cons.prems(2) by (auto split: prod.splits)
    with Cons.IH invar_claim claim_kept Cons.prems(1) outbox_kept_trans show ?thesis by blast
  next
    case (ObMark now i token code success terminal detail next')
    let ?s = "snd (mrk now i token code success terminal detail next' s)"
    have "outbox_kept (rows s) (rows ?s)" by (simp add: mark_rows outbox_mark_kept)
    moreover have "exec_outbox clm mrk es ?s = (ds, s')" using ObMark Cons.prems(2) by simp
    ultimately show ?thesis using Cons.IH invar_mark Cons.prems(1) outbox_kept_trans by blast
  qed
qed simp

text \<open>A mark that does not hold the lease is refused and changes nothing.\<close>

lemma mark_fenced:
  assumes "\<And>r. r \<in> set (rows s) \<Longrightarrow> ob_id r = i \<Longrightarrow> ob_claim_token r \<noteq> token \<or> ob_status r \<noteq> ''DELIVERING''"
  shows "isl (fst (mrk now i token code success terminal detail next' s))
    \<and> rows (snd (mrk now i token code success terminal detail next' s)) = rows s"
proof -
  have none: "\<not> outbox_held i token r" if "r \<in> set (rows s)" for r
    using assms [OF that] by (auto simp: outbox_held_def)
  then show ?thesis
    by (simp add: mark_result mark_rows sql_count_0 outbox_mark_def sql_update_none)
qed

definition leased :: "string \<Rightarrow> string \<Rightarrow> gotime \<Rightarrow> 's \<Rightarrow> bool" where
  "leased i token until s \<longleftrightarrow> (\<exists>r. sql_row ob_id i (rows s) = Some r \<and> ob_status r = ''DELIVERING''
     \<and> ob_claim_token r = token \<and> ob_claimed_until r = Some until)"

lemma leased_not_due:
  assumes "leased i token until s" and "invar s" and "now \<le> until"
  shows "i \<notin> set (outbox_due_ids locked now limit (rows s))"
proof
  assume "i \<in> set (outbox_due_ids locked now limit (rows s))"
  then obtain r where r: "r \<in> set (rows s)" "ob_id r = i" "outbox_due now r" using outbox_due_idsD by blast
  then have "sql_row ob_id i (rows s) = Some r" using sql_row_unique [OF distinct_ids [OF assms(2)]] by blast
  with assms r show False by (auto simp: leased_def outbox_due_def)
qed

lemma claim_leases:
  assumes "invar s" and "clm locked now limit gen s = (Inr ds, s')" and "i \<in> did ` set ds"
  shows "\<exists>token. gen = Some token \<and> leased i token (pg_ts now + outbox_lease) s'"
proof -
  obtain token where token: "gen = Some token"
    "map did ds = map ob_id (fst (outbox_claim locked now limit token (rows s)))"
    "rows s' = snd (outbox_claim locked now limit token (rows s))"
    using claim_ok [OF assms(2)] assms(3) by auto
  have "i \<in> set (map ob_id (fst (outbox_claim locked now limit token (rows s))))"
    using assms(3) token(2) by (metis set_map)
  then have due: "i \<in> set (outbox_due_ids locked (pg_ts now) limit (rows s))"
    by (auto dest: outbox_claimed_id)
  then obtain r where "sql_row ob_id i (rows s) = Some r"
    using outbox_due_idsD sql_row_unique [OF distinct_ids [OF assms(1)]] by metis
  then have "leased i token (pg_ts now + outbox_lease) s'"
    using due by (simp add: leased_def token(3) outbox_claim_row outbox_lease_row_def)
  with token show ?thesis by blast
qed

lemma lease_step:
  assumes "invar s" and "leased i token until s" and "lease_respected i token until e"
    and "exec_outbox clm mrk [e] s = (ds, s')"
  shows "i \<notin> did ` set ds \<and> leased i token until s' \<and> invar s'"
proof (cases e)
  case (ObClaim locked now limit gen)
  obtain r s1 where c: "clm locked now limit gen s = (r, s1)" by (cases "clm locked now limit gen s")
  then have s': "s' = s1" and ds: "ds = (case r of Inl _ \<Rightarrow> [] | Inr xs \<Rightarrow> xs)"
    using assms(4) ObClaim by auto
  have inv: "invar s1" using invar_claim [OF assms(1), of locked now limit gen] c by simp
  have nd: "i \<notin> set (outbox_due_ids locked (pg_ts now) limit (rows s))"
    using leased_not_due [OF assms(2,1)] assms(3) ObClaim by simp
  consider "ds = []" "s1 = s" | tk where "map did ds = map ob_id (fst (outbox_claim locked now limit tk (rows s)))"
      "rows s1 = snd (outbox_claim locked now limit tk (rows s))"
  proof (cases r)
    case (Inl a)
    then have "s1 = s" using c claim_error by blast
    with Inl ds that(1) show thesis by simp
  next
    case (Inr xs)
    then have "clm locked now limit gen s = (Inr ds, s1)" using c ds by simp
    with claim_ok that show thesis by blast
  qed
  then show ?thesis
  proof cases
    case 1
    with s' inv assms(2) show ?thesis by simp
  next
    case (2 tk)
    have "i \<notin> set (map did ds)" unfolding 2(1) using nd by (auto dest: outbox_claimed_id)
    moreover have "leased i token until s1"
      using assms(2) nd by (auto simp: leased_def 2(2) outbox_claim_row)
    ultimately show ?thesis using s' inv by simp
  qed
next
  case (ObMark now j token' code success terminal detail next')
  then have s': "s' = snd (mrk now j token' code success terminal detail next' s)" "ds = []"
    using assms(4) by simp_all
  then have "leased i token until s'"
    using assms(2,3) ObMark
    by (auto simp: leased_def mark_rows outbox_mark_row outbox_held_def dest: sql_row_SomeD)
  then show ?thesis using s' invar_mark [OF assms(1)] by simp
qed

lemma exec_outbox_Cons:
  "exec_outbox clm mrk (e # es) s =
     (let (ds1, s1) = exec_outbox clm mrk [e] s; (ds2, s2) = exec_outbox clm mrk es s1 in (ds1 @ ds2, s2))"
  by (cases e) (auto split: prod.splits)

lemma lease_kept:
  assumes "invar s" and "leased i token until s" and "\<forall>e\<in>set es. lease_respected i token until e"
  shows "i \<notin> did ` set (fst (exec_outbox clm mrk es s)) \<and> leased i token until (snd (exec_outbox clm mrk es s))"
  using assms
proof (induction es arbitrary: s)
  case (Cons e es)
  obtain ds1 s1 where e: "exec_outbox clm mrk [e] s = (ds1, s1)" by (cases "exec_outbox clm mrk [e] s")
  obtain ds2 s2 where es: "exec_outbox clm mrk es s1 = (ds2, s2)" by (cases "exec_outbox clm mrk es s1")
  have step: "i \<notin> did ` set ds1 \<and> leased i token until s1 \<and> invar s1"
    using lease_step [OF Cons.prems(1,2) _ e] Cons.prems(3) by simp
  with Cons.IH [of s1] Cons.prems(3) es have "i \<notin> did ` set ds2 \<and> leased i token until s2" by simp
  moreover have "exec_outbox clm mrk (e # es) s = (ds1 @ ds2, s2)" using exec_outbox_Cons [of e es s] e es by simp
  ultimately show ?case using step by auto
qed simp

text \<open>
  Exclusive delivery: while the lease runs and its holder has not reported, no other claim gets
  the row, however claims and marks of other workers interleave.
\<close>

lemma claim_exclusive:
  assumes "invar s" and "clm locked now limit (Some token) s = (Inr ds, s')" and "i \<in> did ` set ds"
    and "\<forall>e\<in>set es. lease_respected i token (pg_ts now + outbox_lease) e"
  shows "i \<notin> did ` set (fst (exec_outbox clm mrk es s'))"
proof -
  have "leased i token (pg_ts now + outbox_lease) s'" using claim_leases [OF assms(1-3)] by auto
  moreover have "invar s'" using invar_claim [OF assms(1), of locked now limit "Some token"] assms(2) by simp
  ultimately show ?thesis using lease_kept assms(4) by blast
qed

end

end
