(* ===== verification/PG_Database.thy ===== *)
theory PG_Database
  imports Outbox V1_Core SoC_Percent "HOL-Library.AList"
begin

text \<open>
  The state of \<^verbatim>\<open>PostgresStore\<close>: the tables of the migrations, each the list of its rows, and what
  a call takes from outside. A method of the store is a function from the database to a result and
  the next database; it runs as one transaction, so an error leaves the database as it was.
  A nullable text or UUID column holds the empty string for NULL (\<^verbatim>\<open>nullString\<close>,
  \<^verbatim>\<open>NULLIF\<close> and \<^verbatim>\<open>COALESCE\<close> convert exactly so), other nullable columns are options.

  The environment of a call: \<open>env_now\<close> is \<^verbatim>\<open>NOW()\<close> of its transaction, \<open>env_clock\<close> Go's
  \<^verbatim>\<open>time.Now().UTC()\<close>, \<open>env_uuid k\<close> the k-th identifier it draws, and \<open>env_digest\<close> the
  canonicalization and hashing of a fact (RFC 8785 JSON, SHA-256), which lives outside the repository.
\<close>

record v1ImmutableFactEnvelope =
  im_FactID :: string
  im_FactType :: string
  im_SchemaVersion :: int
  im_OccurredAt :: gotime
  im_Producer :: string
  im_Payload :: fact_payload

record pg_env =
  env_now :: gotime
  env_clock :: gotime
  env_uuid :: "nat \<Rightarrow> string option"
  env_digest :: "v1ImmutableFactEnvelope \<Rightarrow> string res"

subsection \<open>Rows\<close>

record mapping_row =
  mr_CMSChargerID :: string
  mr_CPOID :: string
  mr_ChargerOCPPIdentity :: string
  mr_ExpectedSerial :: string
  mr_Enabled :: bool
  mr_UpdatedAt :: gotime

record mapping_audit_row =
  ma_ID :: string
  ma_CPOID :: string
  ma_CMSChargerID :: string
  ma_CorrelationID :: string
  ma_RequestDigest :: string
  ma_Action :: string

record boot_row =
  br_ChargerOCPPIdentity :: string
  br_Evidence :: V1BootEvidence
  br_SerialConflict :: bool

record runtime_row =
  rr_ChargerOCPPIdentity :: string
  rr_ConnectionState :: string
  rr_ConnectionGeneration :: int
  rr_ConnectionSequence :: int
  rr_ConnectedAt :: "gotime option"
  rr_LastObservedAt :: "gotime option"
  rr_UpdatedAt :: gotime

record connector_runtime_row =
  xr_ChargerOCPPIdentity :: string
  xr_OCPPConnectorNumber :: int
  xr_Status :: string
  xr_ErrorCode :: string
  xr_Info :: string
  xr_VendorID :: string
  xr_VendorErrorCode :: string
  xr_ObservedAt :: "gotime option"
  xr_StatusSequence :: int
  xr_UpdatedAt :: gotime

record command_row =
  cr_Command :: V1RemoteCommand
  cr_ClaimedUntil :: "gotime option"
  cr_StopWorkflowTransactionID :: string

record workflow_row =
  wr_Workflow :: V1StopWorkflow
  wr_ClaimedUntil :: "gotime option"

record fact_content =
  fc_FactType :: string
  fc_AggregateKey :: string
  fc_Sequence :: "int option"
  fc_SchemaVersion :: int
  fc_OccurredAt :: gotime
  fc_Producer :: string
  fc_ContentSHA256 :: string
  fc_Payload :: fact_payload

type_synonym fact_row = "fact_content outbox_row"

record fact_audit_row =
  fa_ID :: string
  fa_FactID :: string
  fa_CorrelationID :: string
  fa_PreviousStatus :: string
  fa_PreviousError :: string

record PostgresStore =
  db_mappings :: "mapping_row list"
  db_connectors :: "V1ConnectorMapping list"
  db_mapping_audit :: "mapping_audit_row list"
  db_boot :: "boot_row list"
  db_runtime :: "runtime_row list"
  db_connector_runtime :: "connector_runtime_row list"
  db_commands :: "command_row list"
  db_credentials :: "V1Credential list"
  db_transactions :: "V1Transaction list"
  db_workflows :: "workflow_row list"
  db_facts :: "fact_row list"
  db_completion_keys :: "(string \<times> string) list"
  db_fact_audit :: "fact_audit_row list"
  db_operations :: "V1ChargerOperation list"

definition empty_db :: PostgresStore where
  "empty_db = \<lparr>db_mappings = [], db_connectors = [], db_mapping_audit = [], db_boot = [], db_runtime = [],
     db_connector_runtime = [], db_commands = [], db_credentials = [], db_transactions = [],
     db_workflows = [], db_facts = [], db_completion_keys = [], db_fact_audit = [], db_operations = []\<rparr>"

text \<open>An environment for concrete runs.\<close>

definition sample_env :: pg_env where
  "sample_env = \<lparr>env_now = 9000, env_clock = 9000,
     env_uuid = (\<lambda>k. Some (if k = 0 then ''u0'' else if k = 1 then ''u1'' else if k = 2 then ''u2'' else ''u3'')),
     env_digest = (\<lambda>_. Inr ''sha'')\<rparr>"

subsection \<open>Loading rows\<close>

abbreviation command_key :: "command_row \<Rightarrow> string" where
  "command_key r \<equiv> cmd_CMSCommandID (cr_Command r)"

abbreviation workflow_key :: "workflow_row \<Rightarrow> string" where
  "workflow_key r \<equiv> wf_HALTransactionID (wr_Workflow r)"

definition getV1CommandWith :: "PostgresStore \<Rightarrow> string \<Rightarrow> V1RemoteCommand res" where
  "getV1CommandWith db cmsCommandID =
     (case sql_row command_key cmsCommandID (db_commands db) of
        None \<Rightarrow> Inl ErrV1CommandNotFound
      | Some r \<Rightarrow> Inr (cr_Command r))"

definition pg_GetV1Command :: "string \<Rightarrow> PostgresStore \<Rightarrow> V1RemoteCommand res" where
  "pg_GetV1Command cmsCommandID db = getV1CommandWith db cmsCommandID"

text \<open>
  The table has no consumption column: \<^verbatim>\<open>getV1TransactionBy\<close> derives it from the registers. The
  state of charge is stored as a decimal with three places and read back with
  \<^verbatim>\<open>ParseV1SoCPercent\<close>; the row holds that decimal in thousandths, as \<^verbatim>\<open>V1SoCPercent\<close> does.
\<close>

definition load_transaction :: "V1Transaction \<Rightarrow> V1Transaction" where
  "load_transaction r = r\<lparr>tx_ConsumedWh := (case tx_LatestMeterWh r of
      None \<Rightarrow> None
    | Some v \<Rightarrow> if v \<ge> tx_MeterStartWh r then Some (wrap64 (v - tx_MeterStartWh r)) else None)\<rparr>"

definition getV1TransactionBy :: "(V1Transaction \<Rightarrow> bool) \<Rightarrow> PostgresStore \<Rightarrow> V1Transaction res" where
  "getV1TransactionBy condition db =
     (case find condition (db_transactions db) of
        None \<Rightarrow> Inl ErrV1TransactionNotFound
      | Some r \<Rightarrow> Inr (load_transaction r))"

definition getV1TransactionByID :: "string \<Rightarrow> PostgresStore \<Rightarrow> V1Transaction res" where
  "getV1TransactionByID i db = getV1TransactionBy (\<lambda>r. tx_HALTransactionID r = i) db"

definition pg_GetV1Transaction :: "string \<Rightarrow> PostgresStore \<Rightarrow> V1Transaction res" where
  "pg_GetV1Transaction i db = getV1TransactionByID i db"

definition pg_GetV1TransactionByStartIntent :: "string \<Rightarrow> PostgresStore \<Rightarrow> V1Transaction res" where
  "pg_GetV1TransactionByStartIntent i db = getV1TransactionBy (\<lambda>r. tx_CMSStartIntentID r = i) db"

definition pg_GetV1TransactionByOCPP :: "string \<Rightarrow> int \<Rightarrow> PostgresStore \<Rightarrow> V1Transaction res" where
  "pg_GetV1TransactionByOCPP identity ocppID db =
     (case find (\<lambda>r. tx_ChargerOCPPIdentity r = identity \<and> tx_OCPPTransactionID r = ocppID) (db_transactions db) of
        None \<Rightarrow> Inl ErrV1TransactionNotFound
      | Some r \<Rightarrow> pg_GetV1Transaction (tx_HALTransactionID r) db)"

definition pg_GetV1Credential :: "string \<Rightarrow> PostgresStore \<Rightarrow> V1Credential res" where
  "pg_GetV1Credential idTag db =
     (case sql_row cred_IDTag idTag (db_credentials db) of
        None \<Rightarrow> Inl ErrV1CredentialRejected
      | Some c \<Rightarrow> Inr c)"

definition pg_AuthorizeV1Credential :: "string \<Rightarrow> string \<Rightarrow> gotime \<Rightarrow> PostgresStore \<Rightarrow> unit res" where
  "pg_AuthorizeV1Credential chargerID idTag now db =
     (case pg_GetV1Credential idTag db of
        Inl err \<Rightarrow> Inl err
      | Inr c \<Rightarrow> if cred_ChargerOCPPIdentity c \<noteq> chargerID
                    \<or> (\<not> cred_ExpiresAt c > now \<and> cred_HALTransactionID c = '''')
                 then Inl ErrV1CredentialRejected else Inr ())"

subsection \<open>Transactions\<close>

text \<open>
  \<open>pg_tx body\<close> is \<^verbatim>\<open>BeginTx\<close>, the body, and \<^verbatim>\<open>Commit\<close>, with the deferred \<^verbatim>\<open>Rollback\<close> on every early
  return. The body works on its own copy and may leave changes there that an error discards.
\<close>

definition pg_tx :: "('s \<Rightarrow> 'a res \<times> 's) \<Rightarrow> 's \<Rightarrow> 'a res \<times> 's" where
  "pg_tx body db =
     (case body db of
        (Inl err, _) \<Rightarrow> (Inl err, db)
      | (Inr x, db') \<Rightarrow> (Inr x, db'))"

lemma pg_tx_cases:
  assumes "pg_tx body db = (r, db')"
  obtains (error) e where "r = Inl e" and "db' = db" | (commit) x where "r = Inr x" and "body db = (Inr x, db')"
  using assms by (cases "body db"; cases "fst (body db)") (auto simp: pg_tx_def)

lemma pg_tx_Inr: "pg_tx body db = (Inr x, db') \<longleftrightarrow> body db = (Inr x, db')"
  by (cases "body db"; cases "fst (body db)") (auto simp: pg_tx_def)

lemma pg_tx_Inl: "fst (pg_tx body db) = Inl e \<Longrightarrow> snd (pg_tx body db) = db"
  by (cases "body db"; cases "fst (body db)") (auto simp: pg_tx_def)

text \<open>
  \<open>tx_bind m f\<close> is the statement \<open>m\<close> of a transaction body followed by \<^verbatim>\<open>if err != nil { return err }\<close>
  and the rest of the body.
\<close>

definition tx_bind :: "'a res \<times> 's \<Rightarrow> ('a \<Rightarrow> 's \<Rightarrow> 'b res \<times> 's) \<Rightarrow> 'b res \<times> 's" where
  "tx_bind m f = (case m of (Inl err, s) \<Rightarrow> (Inl err, s) | (Inr x, s) \<Rightarrow> f x s)"

lemma tx_bind_Inr:
  "tx_bind m f = (Inr y, s') \<longleftrightarrow> (\<exists>x s1. m = (Inr x, s1) \<and> f x s1 = (Inr y, s'))"
  by (cases m; cases "fst m") (auto simp: tx_bind_def)

lemma tx_bind_step [simp]: "tx_bind (Inr x, s) f = f x s" "tx_bind (Inl err, s) f = (Inl err, s)"
  by (simp_all add: tx_bind_def)

text \<open>
  A relation that every committed body establishes and that holds between equal states holds
  across the transaction.
\<close>

lemma pg_tx_rel:
  fixes db :: PostgresStore
  assumes "\<And>x db'. body db = (Inr x, db') \<Longrightarrow> R db db'" and "R db db"
  shows "R db (snd (pg_tx body db))"
  using assms by (cases "body db"; cases "fst (body db)") (auto simp: pg_tx_def)

text \<open>
  \<^verbatim>\<open>retryV1StopLifecycleTransaction\<close>: at most three attempts, a further one only after PostgreSQL
  aborted the previous one for a deadlock (\<^verbatim>\<open>40P01\<close>) or a serialization failure (\<^verbatim>\<open>40001\<close>).
  \<open>ctxErr k\<close> is the context's error before attempt \<open>k\<close>, \<open>fault k\<close> an error of the database
  during attempt \<open>k\<close> that aborts it, \<open>cancel k\<close> the context's error while waiting after it.
\<close>

definition v1StopLifecycleTransactionAttempts :: nat where
  "v1StopLifecycleTransactionAttempts = 3"

definition isRetryableV1StopLifecycleTransactionError :: "v1_error \<Rightarrow> bool" where
  "isRetryableV1StopLifecycleTransactionError err \<longleftrightarrow> err = ErrOther ''40P01'' \<or> err = ErrOther ''40001''"

record lifecycle_faults =
  lf_ctxErr :: "nat \<Rightarrow> v1_error option"
  lf_fault :: "nat \<Rightarrow> v1_error option"
  lf_cancel :: "nat \<Rightarrow> v1_error option"

function retryV1StopLifecycleTransaction ::
  "lifecycle_faults \<Rightarrow> (PostgresStore \<Rightarrow> 'a res \<times> PostgresStore) \<Rightarrow> nat \<Rightarrow> v1_error option
   \<Rightarrow> PostgresStore \<Rightarrow> 'a res \<times> PostgresStore" where
  "retryV1StopLifecycleTransaction F operation attempt lastErr db =
     (if attempt < v1StopLifecycleTransactionAttempts then
        (case lf_ctxErr F attempt of
           Some err \<Rightarrow> (Inl err, db)
         | None \<Rightarrow>
             (case (case lf_fault F attempt of Some err \<Rightarrow> (Inl err, db) | None \<Rightarrow> pg_tx operation db) of
                (Inr x, db') \<Rightarrow> (Inr x, db')
              | (Inl err, db') \<Rightarrow>
                  if \<not> isRetryableV1StopLifecycleTransactionError err
                    \<or> attempt + 1 = v1StopLifecycleTransactionAttempts
                  then (Inl err, db')
                  else (case lf_cancel F attempt of
                      Some cerr \<Rightarrow> (Inl cerr, db')
                    | None \<Rightarrow> retryV1StopLifecycleTransaction F operation (attempt + 1) (Some err) db')))
      else (case lastErr of Some err \<Rightarrow> (Inl err, db) | None \<Rightarrow> (Inl (ErrOther ''no attempt''), db)))"
  by pat_completeness auto
termination
  by (relation "measure (\<lambda>(F, operation, attempt, lastErr, db). v1StopLifecycleTransactionAttempts - attempt)")
    (auto simp: v1StopLifecycleTransactionAttempts_def)

declare retryV1StopLifecycleTransaction.simps [simp del]

definition withV1StopLifecycleTransaction ::
  "lifecycle_faults \<Rightarrow> (PostgresStore \<Rightarrow> 'a res \<times> PostgresStore) \<Rightarrow> PostgresStore \<Rightarrow> 'a res \<times> PostgresStore" where
  "withV1StopLifecycleTransaction F operation db = retryV1StopLifecycleTransaction F operation 0 None db"

text \<open>The call is all or nothing, whatever aborts it and however often it is retried.\<close>

lemma retry_all_or_nothing:
  "retryV1StopLifecycleTransaction F operation attempt lastErr db = (r, db') \<Longrightarrow>
     (\<exists>e. r = Inl e \<and> db' = db) \<or> (\<exists>x. r = Inr x \<and> operation db = (Inr x, db'))"
proof (induction F operation attempt lastErr db rule: retryV1StopLifecycleTransaction.induct)
  case (1 F operation attempt lastErr db)
  show ?case
  proof (cases "attempt < v1StopLifecycleTransactionAttempts \<and> lf_ctxErr F attempt = None")
    case False
    with "1.prems" show ?thesis
      by (subst (asm) retryV1StopLifecycleTransaction.simps) (auto split: option.splits if_splits)
  next
    case True
    obtain r1 db1 where step: "(case lf_fault F attempt of Some err \<Rightarrow> (Inl err, db) | None \<Rightarrow> pg_tx operation db) = (r1, db1)"
      by (metis prod.exhaust)
    have one: "(\<exists>e. r1 = Inl e \<and> db1 = db) \<or> (\<exists>x. r1 = Inr x \<and> operation db = (Inr x, db1))"
      using step by (auto split: option.splits elim: pg_tx_cases)
    show ?thesis
    proof (cases r1)
      case (Inr x)
      with "1.prems" True step one show ?thesis
        by (subst (asm) retryV1StopLifecycleTransaction.simps) auto
    next
      case (Inl e)
      with one have "db1 = db" by auto
      have unfold: "retryV1StopLifecycleTransaction F operation attempt lastErr db =
          (if \<not> isRetryableV1StopLifecycleTransactionError e \<or> attempt + 1 = v1StopLifecycleTransactionAttempts
           then (Inl e, db)
           else (case lf_cancel F attempt of Some cerr \<Rightarrow> (Inl cerr, db)
             | None \<Rightarrow> retryV1StopLifecycleTransaction F operation (attempt + 1) (Some e) db))"
        using True step Inl \<open>db1 = db\<close>
        by (subst retryV1StopLifecycleTransaction.simps) (simp add: Let_def)
      show ?thesis
      proof (cases "isRetryableV1StopLifecycleTransactionError e \<and> attempt + 1 \<noteq> v1StopLifecycleTransactionAttempts
          \<and> lf_cancel F attempt = None")
        case True
        then show ?thesis
          using "1.IH" \<open>attempt < _ \<and> _\<close> step Inl \<open>db1 = db\<close> "1.prems" unfold by simp
      next
        case False
        then show ?thesis using "1.prems" unfold by (auto split: if_splits option.splits)
      qed
    qed
  qed
qed

lemma with_all_or_nothing:
  assumes "withV1StopLifecycleTransaction F operation db = (r, db')"
  obtains (error) e where "r = Inl e" and "db' = db" | (commit) x where "r = Inr x" and "operation db = (Inr x, db')"
  using retry_all_or_nothing assms unfolding withV1StopLifecycleTransaction_def by blast

lemma with_rel:
  assumes "\<And>x db'. operation db = (Inr x, db') \<Longrightarrow> R db db'" and "R db db"
  shows "R db (snd (withV1StopLifecycleTransaction F operation db))"
  using assms by (cases "withV1StopLifecycleTransaction F operation db") (auto elim: with_all_or_nothing)

lemma retry_skip:
  assumes "attempt + 1 < v1StopLifecycleTransactionAttempts" and "lf_ctxErr F attempt = None"
    and "lf_fault F attempt = Some e" and "isRetryableV1StopLifecycleTransactionError e" and "lf_cancel F attempt = None"
  shows "retryV1StopLifecycleTransaction F operation attempt lastErr db =
    retryV1StopLifecycleTransaction F operation (attempt + 1) (Some e) db"
  using assms by (subst retryV1StopLifecycleTransaction.simps) simp

lemma retry_run:
  assumes "attempt < v1StopLifecycleTransactionAttempts" and "lf_ctxErr F attempt = None" and "lf_fault F attempt = None"
    and "\<And>e. fst (operation db) = Inl e \<Longrightarrow> \<not> isRetryableV1StopLifecycleTransactionError e"
  shows "retryV1StopLifecycleTransaction F operation attempt lastErr db = pg_tx operation db"
  using assms by (subst retryV1StopLifecycleTransaction.simps) (auto simp: pg_tx_def split: prod.splits sum.splits)

text \<open>
  The retry loop absorbs transient aborts. When the database aborts the first attempts, two at
  most, with a deadlock or a serialization failure and the context stays live, the call has
  the result and the effect of one undisturbed transaction.
\<close>

theorem lifecycle_retry_transparent:
  assumes "k < v1StopLifecycleTransactionAttempts" and "lf_fault F k = None"
    and "\<forall>j<k. \<exists>e. lf_fault F j = Some e \<and> isRetryableV1StopLifecycleTransactionError e"
    and "\<forall>j\<le>k. lf_ctxErr F j = None" and "\<forall>j<k. lf_cancel F j = None"
    and "\<forall>e. fst (operation db) = Inl e \<longrightarrow> \<not> isRetryableV1StopLifecycleTransactionError e"
  shows "withV1StopLifecycleTransaction F operation db = pg_tx operation db"
proof -
  have run: "retryV1StopLifecycleTransaction F operation k lastErr db = pg_tx operation db" for lastErr
    using assms(1,2,4,6) by (intro retry_run) auto
  have skip: "retryV1StopLifecycleTransaction F operation j lastErr db
      = retryV1StopLifecycleTransaction F operation (Suc j) (lf_fault F j) db" if j: "j < k" for j lastErr
  proof -
    obtain e where "lf_fault F j = Some e" "isRetryableV1StopLifecycleTransactionError e" using assms(3) j by blast
    then show ?thesis using assms(1,4,5) j retry_skip [of j F e operation lastErr db] by simp
  qed
  have "j \<le> k \<Longrightarrow> retryV1StopLifecycleTransaction F operation (k - j) lastErr db = pg_tx operation db" for j lastErr
  proof (induction j arbitrary: lastErr)
    case (Suc j)
    then show ?case using skip [of "k - Suc j" lastErr] by (simp add: Suc_diff_Suc)
  qed (use run in simp)
  from this [of k None] show ?thesis by (simp add: withV1StopLifecycleTransaction_def)
qed

theorem lifecycle_retry_transparent_witness:
  "withV1StopLifecycleTransaction
     \<lparr>lf_ctxErr = \<lambda>_. None, lf_fault = (\<lambda>k. if k < 2 then Some (ErrOther ''40P01'') else None), lf_cancel = \<lambda>_. None\<rparr>
     (\<lambda>db. (Inr (), db\<lparr>db_completion_keys := [(''tx'', '''')]\<rparr>)) empty_db
   = (Inr (), empty_db\<lparr>db_completion_keys := [(''tx'', '''')]\<rparr>)"
  by (subst lifecycle_retry_transparent [where k = 2])
    (auto simp: v1StopLifecycleTransactionAttempts_def isRetryableV1StopLifecycleTransactionError_def pg_tx_def)

end
