(* ===== verification/PG_Facts.thy ===== *)
theory PG_Facts
  imports PG_Database
begin

text \<open>
  The durable fact outbox of \<^verbatim>\<open>store/v1_lifecycle_postgres.go\<close>: how a fact is built, sealed and
  inserted inside the transaction that makes it true, and how the delivery worker claims it,
  reports on it and an operator requeues it. \<open>insertV1FactTx E k\<close> draws the k-th identifier of
  the call.
\<close>

definition v1FactProducer :: string where
  "v1FactProducer = ''ocpp-hal-go-new''"

record V1FactEnvelope =
  fe_FactID :: string
  fe_FactType :: string
  fe_SchemaVersion :: int
  fe_OccurredAt :: gotime
  fe_Producer :: string
  fe_ImmutableContentSHA256 :: string
  fe_Payload :: fact_payload

definition Envelope :: "V1Fact \<Rightarrow> V1FactEnvelope" where
  "Envelope f = \<lparr>fe_FactID = fact_FactID f, fe_FactType = fact_FactType f,
     fe_SchemaVersion = fact_SchemaVersion f, fe_OccurredAt = fact_OccurredAt f,
     fe_Producer = fact_Producer f, fe_ImmutableContentSHA256 = fact_ContentSHA256 f,
     fe_Payload = fact_Payload f\<rparr>"

definition immutableEnvelope :: "V1Fact \<Rightarrow> v1ImmutableFactEnvelope" where
  "immutableEnvelope f = \<lparr>im_FactID = fact_FactID f, im_FactType = fact_FactType f,
     im_SchemaVersion = fact_SchemaVersion f, im_OccurredAt = fact_OccurredAt f,
     im_Producer = fact_Producer f, im_Payload = fact_Payload f\<rparr>"

definition normalizeV1FactOccurredAt :: "gotime \<Rightarrow> gotime" where
  "normalizeV1FactOccurredAt occurredAt = truncate_us occurredAt"

definition sequence_conflict :: "string \<Rightarrow> string \<Rightarrow> int option \<Rightarrow> fact_row list \<Rightarrow> bool" where
  "sequence_conflict factType aggregate sequence t \<longleftrightarrow> sequence \<noteq> None
     \<and> (\<exists>r\<in>set t. fc_FactType (ob_content r) = factType \<and> fc_AggregateKey (ob_content r) = aggregate
          \<and> fc_Sequence (ob_content r) = sequence)"

text \<open>The \<^verbatim>\<open>INSERT ... ON CONFLICT (fact_type,aggregate_key,sequence) DO NOTHING\<close>.\<close>

definition insert_fact_row :: "fact_row \<Rightarrow> PostgresStore \<Rightarrow> unit res \<times> PostgresStore" where
  "insert_fact_row row db =
     (if sequence_conflict (fc_FactType (ob_content row)) (fc_AggregateKey (ob_content row))
           (fc_Sequence (ob_content row)) (db_facts db) then (Inr (), db)
      else if ob_id row \<in> ob_id ` set (db_facts db) then (Inl ErrUniqueViolation, db)
      else (Inr (), db\<lparr>db_facts := db_facts db @ [row]\<rparr>))"

definition new_fact_row ::
  "gotime \<Rightarrow> string \<Rightarrow> string \<Rightarrow> string \<Rightarrow> string \<Rightarrow> int option \<Rightarrow> gotime \<Rightarrow> fact_payload \<Rightarrow> fact_row" where
  "new_fact_row now factID digest factType aggregate sequence occurredAt payload =
     \<lparr>ob_id = factID, ob_content = \<lparr>fc_FactType = factType, fc_AggregateKey = aggregate,
        fc_Sequence = sequence, fc_SchemaVersion = 1, fc_OccurredAt = occurredAt,
        fc_Producer = v1FactProducer, fc_ContentSHA256 = digest, fc_Payload = payload\<rparr>,
      ob_status = ''PENDING'', ob_retries = 0, ob_next_retry_at = occurredAt,
      ob_claimed_until = None, ob_claim_token = '''', ob_delivery_status = None,
      ob_last_error = '''', ob_sent_at = None, ob_created_at = now\<rparr>"

definition insertV1FactTx ::
  "pg_env \<Rightarrow> nat \<Rightarrow> string \<Rightarrow> string \<Rightarrow> int option \<Rightarrow> gotime \<Rightarrow> fact_payload \<Rightarrow> PostgresStore
   \<Rightarrow> unit res \<times> PostgresStore" where
  "insertV1FactTx E k factType aggregate sequence occurredAt payload db =
     (let occurredAt = normalizeV1FactOccurredAt occurredAt in
      case NewSecureUUIDString (env_uuid E k) of
        Inl err \<Rightarrow> (Inl err, db)
      | Inr factID \<Rightarrow>
        (case env_digest E (immutableEnvelope \<lparr>fact_FactID = factID, fact_FactType = factType,
              fact_SchemaVersion = 1, fact_OccurredAt = occurredAt, fact_Producer = v1FactProducer,
              fact_ContentSHA256 = '''', fact_Payload = payload, fact_Status = '''', fact_Retries = 0,
              fact_NextRetryAt = 0, fact_ClaimedUntil = None, fact_ClaimToken = '''',
              fact_DeliveryStatus = None, fact_LastError = ''''\<rparr>) of
           Inl err \<Rightarrow> (Inl err, db)
         | Inr digest \<Rightarrow>
           (let row = new_fact_row (env_now E) factID digest factType aggregate sequence occurredAt payload
            in if factType \<noteq> ''transaction.completed'' then insert_fact_row row db
               else if aggregate \<in> fst ` set (db_completion_keys db) then (Inr (), db)
               else (case insert_fact_row row
                       (db\<lparr>db_completion_keys := db_completion_keys db @ [(aggregate, '''')]\<rparr>) of
                   (Inl err, db2) \<Rightarrow> (Inl err, db2)
                 | (Inr _, db2) \<Rightarrow> (Inr (), db2\<lparr>db_completion_keys :=
                     sql_update (\<lambda>c. fst c = aggregate \<and> snd c = '''') (\<lambda>c. (fst c, factID))
                       (db_completion_keys db2)\<rparr>)))))"

subsection \<open>Fact payloads\<close>

text \<open>A map literal is the list of its entries; \<open>gset\<close> is an assignment to a key.\<close>

definition gset :: "string \<Rightarrow> goany \<Rightarrow> gomap \<Rightarrow> gomap" where
  "gset k v m = AList.update k v m"

definition g_null :: "string \<Rightarrow> goany" where
  "g_null s = (if s = '''' then GNil else GString s)"

definition v1CommandFact :: "V1RemoteCommand \<Rightarrow> fact_payload" where
  "v1CommandFact command =
     (let payload = [
        (''hal_command_id'', GString (cmd_HALCommandID command)),
        (''cms_command_id'', GString (cmd_CMSCommandID command)),
        (''kind'', GString (cmd_Kind command)), (''state'', GString (cmd_State command)),
        (''charger_ocpp_identity'', GString (cmd_ChargerOCPPIdentity command)),
        (''ocpp_connector_number'', GInt (cmd_OCPPConnectorNumber command)),
        (''delivery_attempts'', GInt (cmd_DeliveryAttempts command)),
        (''ocpp_result'', g_null (cmd_LastOCPPResult command)),
        (''last_error_category'', g_null (cmd_LastErrorCategory command)),
        (''last_error_detail'', g_null (cmd_LastErrorDetail command)),
        (''occurred_at'', GTime (cmd_UpdatedAt command))];
      payload = (if cmd_HALTransactionID command \<noteq> ''''
        then gset ''hal_transaction_id'' (GString (cmd_HALTransactionID command)) payload else payload)
      in (case cmd_OCPPTransactionID command of
            None \<Rightarrow> payload
          | Some i \<Rightarrow> gset ''ocpp_transaction_id'' (GInt i) payload))"

definition v1StartedFact :: "V1Transaction \<Rightarrow> string \<Rightarrow> fact_payload" where
  "v1StartedFact t commandID = [
     (''hal_transaction_id'', GString (tx_HALTransactionID t)),
     (''ocpp_transaction_id'', GInt (tx_OCPPTransactionID t)),
     (''hal_command_id'', GString commandID), (''cms_command_id'', GString (tx_CMSCommandID t)),
     (''cms_start_intent_id'', GString (tx_CMSStartIntentID t)), (''cpo_id'', GString (tx_CPOID t)),
     (''cms_charger_id'', GString (tx_CMSChargerID t)), (''cms_connector_id'', GString (tx_CMSConnectorID t)),
     (''charger_ocpp_identity'', GString (tx_ChargerOCPPIdentity t)),
     (''ocpp_connector_number'', GInt (tx_OCPPConnectorNumber t)), (''id_tag'', GString (tx_IDTag t)),
     (''meter_start_wh'', GInt (tx_MeterStartWh t)), (''started_at'', GTime (tx_ActualStartedAt t)),
     (''limit_type'', GString (tx_LimitType t)),
     (''energy_limit_source'', GString (tx_EnergyLimitSource t)),
     (''duration_limit_source'', GString (tx_DurationLimitSource t))]"

text \<open>
  The next three dereference pointers that their callers have just set; \<open>None\<close> is the panic of a
  nil pointer.
\<close>

definition v1MeterFact :: "V1Transaction \<Rightarrow> fact_payload option" where
  "v1MeterFact t = (case (tx_LatestMeterWh t, tx_MeterObservedAt t) of
     (Some latest, Some observed) \<Rightarrow> Some [
       (''hal_transaction_id'', GString (tx_HALTransactionID t)),
       (''ocpp_transaction_id'', GInt (tx_OCPPTransactionID t)),
       (''cms_start_intent_id'', GString (tx_CMSStartIntentID t)),
       (''cms_charger_id'', GString (tx_CMSChargerID t)), (''cms_connector_id'', GString (tx_CMSConnectorID t)),
       (''charger_ocpp_identity'', GString (tx_ChargerOCPPIdentity t)),
       (''ocpp_connector_number'', GInt (tx_OCPPConnectorNumber t)),
       (''meter_sequence'', GInt (tx_MeterSequence t)), (''meter_value_wh'', GInt latest),
       (''consumed_wh'', GInt (wrap64 (latest - tx_MeterStartWh t))), (''meter_observed_at'', GTime observed)]
   | _ \<Rightarrow> None)"

definition v1SoCFact :: "V1Transaction \<Rightarrow> fact_payload option" where
  "v1SoCFact t = (case (tx_LatestSoCPercent t, tx_SoCObservedAt t) of
     (Some soc, Some observed) \<Rightarrow> Some [
       (''hal_transaction_id'', GString (tx_HALTransactionID t)),
       (''ocpp_transaction_id'', GInt (tx_OCPPTransactionID t)),
       (''cms_start_intent_id'', GString (tx_CMSStartIntentID t)),
       (''cms_charger_id'', GString (tx_CMSChargerID t)), (''cms_connector_id'', GString (tx_CMSConnectorID t)),
       (''charger_ocpp_identity'', GString (tx_ChargerOCPPIdentity t)),
       (''ocpp_connector_number'', GInt (tx_OCPPConnectorNumber t)),
       (''soc_sequence'', GInt (tx_SoCSequence t)), (''soc_percent'', GString (V1SoCPercent_String soc)),
       (''soc_observed_at'', GTime observed)]
   | _ \<Rightarrow> None)"

definition v1CompletedFact :: "V1Transaction \<Rightarrow> V1RemoteCommand option \<Rightarrow> fact_payload option" where
  "v1CompletedFact t command = (case (tx_MeterStopWh t, tx_CompletedAt t) of
     (Some meterStop, Some completed) \<Rightarrow>
       (let payload = [
          (''hal_transaction_id'', GString (tx_HALTransactionID t)),
          (''ocpp_transaction_id'', GInt (tx_OCPPTransactionID t)),
          (''hal_command_id'', GNil), (''cms_command_id'', GNil),
          (''cms_start_intent_id'', GString (tx_CMSStartIntentID t)),
          (''cms_charger_id'', GString (tx_CMSChargerID t)), (''cms_connector_id'', GString (tx_CMSConnectorID t)),
          (''charger_ocpp_identity'', GString (tx_ChargerOCPPIdentity t)),
          (''ocpp_connector_number'', GInt (tx_OCPPConnectorNumber t)),
          (''meter_start_wh'', GInt (tx_MeterStartWh t)), (''meter_stop_wh'', GInt meterStop),
          (''stopped_at'', GTime completed), (''limit_type'', GString (tx_LimitType t)),
          (''energy_limit_source'', GString (tx_EnergyLimitSource t)),
          (''duration_limit_source'', GString (tx_DurationLimitSource t)),
          (''ocpp_stop_reason'', g_null (tx_OCPPStopReason t)),
          (''requested_stop_initiator'', GNil), (''requested_stop_reason'', GNil)];
        payload = (case command of None \<Rightarrow> payload
          | Some c \<Rightarrow> gset ''cms_command_id'' (GString (cmd_CMSCommandID c))
                       (gset ''hal_command_id'' (GString (cmd_HALCommandID c)) payload));
        payload = (if tx_RequestedStopInitiator t \<noteq> ''''
          then gset ''requested_stop_initiator'' (GString (tx_RequestedStopInitiator t)) payload else payload);
        payload = (if tx_RequestedStopReason t \<noteq> ''''
          then gset ''requested_stop_reason'' (GString (tx_RequestedStopReason t)) payload else payload)
        in Some (case (tx_RawMeterStopWh t, tx_MeterStopAdjustmentWh t) of
             (Some raw, Some adjustment) \<Rightarrow>
               if tx_MeterStopEvidence t \<noteq> '''' then
                 gset ''meter_stop_evidence'' (GString (tx_MeterStopEvidence t))
                   (gset ''meter_stop_adjustment_wh'' (GInt adjustment)
                     (gset ''raw_meter_stop_wh'' (GInt raw) payload))
               else payload
           | _ \<Rightarrow> payload))
   | _ \<Rightarrow> None)"

definition v1ConnectionFact ::
  "string \<Rightarrow> string \<Rightarrow> string \<Rightarrow> string \<Rightarrow> int \<Rightarrow> int \<Rightarrow> gotime \<Rightarrow> fact_payload" where
  "v1ConnectionFact cpoID cmsChargerID identity state generation sequence observedAt =
     [(''cpo_id'', GString cpoID), (''cms_charger_id'', GString cmsChargerID),
      (''charger_ocpp_identity'', GString identity), (''connection_state'', GString state),
      (''connection_generation'', GInt generation), (''connection_sequence'', GInt sequence),
      (''observed_at'', GTime observedAt)]"

definition v1StatusFact :: "V1ConnectorRuntime \<Rightarrow> fact_payload option" where
  "v1StatusFact runtime = (case crt_ObservedAt runtime of
     None \<Rightarrow> None
   | Some observed \<Rightarrow>
     (let payload = [(''cpo_id'', GString (crt_CPOID runtime)),
          (''cms_charger_id'', GString (crt_CMSChargerID runtime)),
          (''cms_connector_id'', GString (crt_CMSConnectorID runtime)),
          (''charger_ocpp_identity'', GString (crt_ChargerOCPPIdentity runtime)),
          (''ocpp_connector_number'', GInt (crt_OCPPConnectorNumber runtime)),
          (''ocpp_connector_status'', GString (crt_Status runtime)),
          (''connector_status_sequence'', GInt (crt_StatusSequence runtime)), (''observed_at'', GTime observed)];
        opt = (\<lambda>k v m. if v \<noteq> '''' then gset k (GString v) m else m)
      in Some (opt ''vendor_error_code'' (crt_VendorErrorCode runtime) (opt ''vendor_id'' (crt_VendorID runtime)
           (opt ''info'' (crt_Info runtime) (opt ''error_code'' (crt_ErrorCode runtime) payload))))))"

subsection \<open>Delivery\<close>

definition scan_fact :: "fact_row \<Rightarrow> V1Fact" where
  "scan_fact r = \<lparr>fact_FactID = ob_id r, fact_FactType = fc_FactType (ob_content r),
     fact_SchemaVersion = fc_SchemaVersion (ob_content r),
     fact_OccurredAt = normalizeV1FactOccurredAt (fc_OccurredAt (ob_content r)),
     fact_Producer = fc_Producer (ob_content r), fact_ContentSHA256 = fc_ContentSHA256 (ob_content r),
     fact_Payload = fc_Payload (ob_content r), fact_Status = ob_status r, fact_Retries = ob_retries r,
     fact_NextRetryAt = ob_next_retry_at r, fact_ClaimedUntil = ob_claimed_until r,
     fact_ClaimToken = ob_claim_token r, fact_DeliveryStatus = ob_delivery_status r,
     fact_LastError = ob_last_error r\<rparr>"

definition pg_ClaimV1Facts ::
  "(string \<Rightarrow> bool) \<Rightarrow> gotime \<Rightarrow> int \<Rightarrow> string option \<Rightarrow> PostgresStore \<Rightarrow> V1Fact list res \<times> PostgresStore" where
  "pg_ClaimV1Facts locked now limit gen db =
     (if limit < 1 then (Inr [], db)
      else (case NewSecureUUIDString gen of
          Inl err \<Rightarrow> (Inl err, db)
        | Inr claimToken \<Rightarrow>
          (let (rows, t) = outbox_claim locked now limit claimToken (db_facts db)
           in (Inr (map scan_fact rows), db\<lparr>db_facts := t\<rparr>))))"

definition pg_MarkV1FactDelivery ::
  "gotime \<Rightarrow> string \<Rightarrow> string \<Rightarrow> int \<Rightarrow> bool \<Rightarrow> bool \<Rightarrow> string \<Rightarrow> gotime \<Rightarrow> PostgresStore
   \<Rightarrow> unit res \<times> PostgresStore" where
  "pg_MarkV1FactDelivery now factID claimToken statusCode success terminal detail next' db =
     (let state = delivery_state success terminal;
          rows = sql_count (outbox_held factID claimToken) (db_facts db);
          db' = db\<lparr>db_facts := outbox_mark now factID claimToken statusCode state detail next' (db_facts db)\<rparr>
      in (if rows = 0 then Inl ErrV1FactClaimLost else Inr (), db'))"

definition pg_RequeueV1Fact :: "pg_env \<Rightarrow> string \<Rightarrow> string \<Rightarrow> PostgresStore \<Rightarrow> unit res \<times> PostgresStore" where
  "pg_RequeueV1Fact E factID correlationID db =
     (case NewSecureUUIDString (env_uuid E 0) of
        Inl err \<Rightarrow> (Inl err, db)
      | Inr auditID \<Rightarrow>
        pg_tx (\<lambda>db.
          case sql_row ob_id factID (db_facts db) of
            None \<Rightarrow> (Inl ErrV1FactNotFound, db)
          | Some r \<Rightarrow>
              if ob_status r \<noteq> ''RECONCILIATION_REQUIRED'' then (Inl ErrV1FactNotReconciliable, db)
              else if auditID \<in> fa_ID ` set (db_fact_audit db) then (Inl ErrUniqueViolation, db)
              else (Inr (), db\<lparr>
                db_fact_audit := db_fact_audit db @ [\<lparr>fa_ID = auditID, fa_FactID = factID,
                  fa_CorrelationID = correlationID, fa_PreviousStatus = ob_status r,
                  fa_PreviousError = ob_last_error r\<rparr>],
                db_facts := sql_update (\<lambda>r. ob_id r = factID) (\<lambda>r. r\<lparr>ob_status := ''PENDING'',
                  ob_claimed_until := None, ob_claim_token := '''', ob_next_retry_at := env_now E,
                  ob_last_error := ''manual reconciliation requeue requested''\<rparr>) (db_facts db)\<rparr>)) db)"

subsection \<open>The invariant of the outbox\<close>

text \<open>
  Fact identifiers are unique, a sequenced fact occurs once per type, aggregate and sequence, and
  an aggregate has at most one completion fact, none unless its key is reserved.
\<close>

definition is_completion :: "string \<Rightarrow> fact_row \<Rightarrow> bool" where
  "is_completion a r \<longleftrightarrow> fc_FactType (ob_content r) = ''transaction.completed'' \<and> fc_AggregateKey (ob_content r) = a"

definition is_sequenced :: "string \<Rightarrow> string \<Rightarrow> int \<Rightarrow> fact_row \<Rightarrow> bool" where
  "is_sequenced ty a n r \<longleftrightarrow> fc_FactType (ob_content r) = ty \<and> fc_AggregateKey (ob_content r) = a
     \<and> fc_Sequence (ob_content r) = Some n"

definition fact_inv :: "PostgresStore \<Rightarrow> bool" where
  "fact_inv db \<longleftrightarrow> distinct (map ob_id (db_facts db))
     \<and> (\<forall>a. sql_count (is_completion a) (db_facts db) \<le> 1)
     \<and> (\<forall>a. a \<notin> fst ` set (db_completion_keys db) \<longrightarrow> sql_count (is_completion a) (db_facts db) = 0)
     \<and> (\<forall>ty a n. sql_count (is_sequenced ty a n) (db_facts db) \<le> 1)"

text \<open>What every operation of the store does to the outbox.\<close>

definition facts_kept :: "PostgresStore \<Rightarrow> PostgresStore \<Rightarrow> bool" where
  "facts_kept db db' \<longleftrightarrow> fact_inv db \<longrightarrow> fact_inv db' \<and> outbox_kept (db_facts db) (db_facts db')"

lemma facts_kept_refl [simp]: "facts_kept db db"
  by (simp add: facts_kept_def)

lemma facts_kept_trans: "facts_kept a b \<Longrightarrow> facts_kept b c \<Longrightarrow> facts_kept a c"
  unfolding facts_kept_def using outbox_kept_trans by blast

lemma facts_kept_frame:
  "db_facts db' = db_facts db \<Longrightarrow> db_completion_keys db' = db_completion_keys db \<Longrightarrow> facts_kept db db'"
  by (simp add: facts_kept_def fact_inv_def)

lemma sql_count_append [simp]: "sql_count P (t @ [r]) = sql_count P t + (if P r then 1 else 0)"
  by (simp add: sql_count_def)

lemma sql_count_update:
  "(\<And>r. P r \<Longrightarrow> Q (f r) = Q r) \<Longrightarrow> sql_count Q (sql_update P f t) = sql_count Q t"
  by (induction t) (auto simp: sql_count_def sql_update_def)

lemma sequenced_conflict:
  "\<not> sequence_conflict ty a (Some n) t \<Longrightarrow> sql_count (is_sequenced ty a n) t = 0"
  by (auto simp: sequence_conflict_def sql_count_0 is_sequenced_def)

lemma insert_fact_row_kept:
  assumes "insert_fact_row row db = (Inr u, db')" and "fc_FactType (ob_content row) \<noteq> ''transaction.completed''"
  shows "facts_kept db db'"
proof (cases "db' = db")
  case False
  then have db': "db' = db\<lparr>db_facts := db_facts db @ [row]\<rparr>" and new: "ob_id row \<notin> ob_id ` set (db_facts db)"
    and seq: "\<not> sequence_conflict (fc_FactType (ob_content row)) (fc_AggregateKey (ob_content row))
           (fc_Sequence (ob_content row)) (db_facts db)"
    using assms(1) by (auto simp: insert_fact_row_def split: if_splits)
  have "sql_count (is_sequenced ty a n) (db_facts db) = 0" if "is_sequenced ty a n row" for ty a n
    using seq that sequenced_conflict by (auto simp: is_sequenced_def)
  then show ?thesis
    using new assms(2) by (simp add: facts_kept_def fact_inv_def db' outbox_kept_append is_completion_def)
qed simp

lemma new_fact_row_sel [simp]:
  "ob_id (new_fact_row now i d ty a sq at' p) = i"
  "ob_status (new_fact_row now i d ty a sq at' p) = ''PENDING''"
  "fc_FactType (ob_content (new_fact_row now i d ty a sq at' p)) = ty"
  "fc_AggregateKey (ob_content (new_fact_row now i d ty a sq at' p)) = a"
  "fc_Sequence (ob_content (new_fact_row now i d ty a sq at' p)) = sq"
  "fc_Payload (ob_content (new_fact_row now i d ty a sq at' p)) = p"
  by (simp_all add: new_fact_row_def)

lemma link_keys [simp]:
  "fst ` set (sql_update (\<lambda>c. fst c = a \<and> snd c = '''') (\<lambda>c. (fst c, v)) t) = fst ` set t"
proof -
  have "map fst (sql_update (\<lambda>c. fst c = a \<and> snd c = '''') (\<lambda>c. (fst c, v)) t) = map fst t"
    by (rule sql_update_keys) simp
  then show ?thesis by (metis list.set_map)
qed

text \<open>A completion fact goes in only when its key is new, and leaves the key reserved.\<close>

lemma insert_completion_kept:
  assumes "insert_fact_row row (db\<lparr>db_completion_keys := db_completion_keys db @ [(a, '''')]\<rparr>) = (Inr u, db2)"
    and "fc_FactType (ob_content row) = ''transaction.completed''" and "fc_AggregateKey (ob_content row) = a"
    and "a \<notin> fst ` set (db_completion_keys db)"
  shows "facts_kept db (db2\<lparr>db_completion_keys :=
    sql_update (\<lambda>c. fst c = a \<and> snd c = '''') (\<lambda>c. (fst c, v)) (db_completion_keys db2)\<rparr>)"
proof -
  have none: "sql_count (is_completion a) (db_facts db) = 0" if "fact_inv db"
    using that assms(4) unfolding fact_inv_def by blast
  have seq: "sql_count (is_sequenced ty b n) (db_facts db) = 0"
    if "is_sequenced ty b n row" "\<not> sequence_conflict (fc_FactType (ob_content row)) (fc_AggregateKey (ob_content row))
         (fc_Sequence (ob_content row)) (db_facts db)" for ty b n
    using that sequenced_conflict by (auto simp: is_sequenced_def)
  have row: "is_completion b row \<longleftrightarrow> b = a" for b
    using assms(2,3) by (auto simp: is_completion_def)
  show ?thesis
    using assms(1) none seq row
    by (auto simp: insert_fact_row_def facts_kept_def fact_inv_def outbox_kept_append split: if_splits)
qed

lemma insertV1FactTx_kept:
  assumes "insertV1FactTx E k factType aggregate sequence occurredAt payload db = (Inr u, db')"
  shows "facts_kept db db'"
proof -
  obtain i d where "NewSecureUUIDString (env_uuid E k) = Inr i"
    and res: "(let row = new_fact_row (env_now E) i d factType aggregate sequence
                  (normalizeV1FactOccurredAt occurredAt) payload
            in if factType \<noteq> ''transaction.completed'' then insert_fact_row row db
               else if aggregate \<in> fst ` set (db_completion_keys db) then (Inr (), db)
               else (case insert_fact_row row
                       (db\<lparr>db_completion_keys := db_completion_keys db @ [(aggregate, '''')]\<rparr>) of
                   (Inl err, db2) \<Rightarrow> (Inl err, db2)
                 | (Inr _, db2) \<Rightarrow> (Inr (), db2\<lparr>db_completion_keys :=
                     sql_update (\<lambda>c. fst c = aggregate \<and> snd c = '''') (\<lambda>c. (fst c, i))
                       (db_completion_keys db2)\<rparr>))) = (Inr u, db')"
    using assms unfolding insertV1FactTx_def Let_def by (simp split: sum.splits)
  then show ?thesis
    by (auto simp: Let_def split: if_splits sum.splits prod.splits
        intro: insert_fact_row_kept insert_completion_kept)
qed

lemma facts_kept_insert:
  assumes "insertV1FactTx E k factType aggregate sequence occurredAt payload db1 = (Inr u, db')"
    and "db_facts db1 = db_facts db" and "db_completion_keys db1 = db_completion_keys db"
  shows "facts_kept db db'"
  using facts_kept_trans [OF facts_kept_frame insertV1FactTx_kept [OF assms(1)]] assms(2,3) .

lemma insertV1FactTx_frame:
  assumes "insertV1FactTx E k factType aggregate sequence occurredAt payload db = (r, db')"
  shows "\<exists>facts keys. db' = db\<lparr>db_facts := facts, db_completion_keys := keys\<rparr>"
proof -
  have "\<exists>facts keys. db = db\<lparr>db_facts := facts, db_completion_keys := keys\<rparr>"
    by (rule exI [of _ "db_facts db"], rule exI [of _ "db_completion_keys db"]) simp
  moreover have "\<exists>facts keys. db\<lparr>db_facts := f\<rparr> = db\<lparr>db_facts := facts, db_completion_keys := keys\<rparr>" for f
    by (rule exI [of _ f], rule exI [of _ "db_completion_keys db"]) simp
  moreover have "\<exists>facts keys. db\<lparr>db_completion_keys := ks\<rparr> = db\<lparr>db_facts := facts, db_completion_keys := keys\<rparr>" for ks
    by (rule exI [of _ "db_facts db"], rule exI [of _ ks]) simp
  ultimately show ?thesis
    using assms by (auto simp: insertV1FactTx_def insert_fact_row_def Let_def split: sum.splits if_splits)
qed

subsection \<open>Claims and reports\<close>

lemma sql_count_content: "sql_count (\<lambda>r. Q (ob_content r)) t = length (filter Q (map ob_content t))"
  by (simp add: sql_count_def filter_map comp_def)

lemma fact_inv_content:
  assumes "map ob_id (db_facts db') = map ob_id (db_facts db)"
    and "map ob_content (db_facts db') = map ob_content (db_facts db)"
    and "db_completion_keys db' = db_completion_keys db" and "fact_inv db"
  shows "fact_inv db'"
proof -
  have c: "sql_count (is_completion a) t = length (filter (\<lambda>c. fc_FactType c = ''transaction.completed''
      \<and> fc_AggregateKey c = a) (map ob_content t))" for a and t :: "fact_row list"
    unfolding sql_count_content [symmetric] by (simp add: is_completion_def [abs_def])
  have s: "sql_count (is_sequenced ty a n) t = length (filter (\<lambda>c. fc_FactType c = ty
      \<and> fc_AggregateKey c = a \<and> fc_Sequence c = Some n) (map ob_content t))" for ty a n and t :: "fact_row list"
    unfolding sql_count_content [symmetric] by (simp add: is_sequenced_def [abs_def])
  show ?thesis using assms(4) unfolding fact_inv_def c s assms(1-3) by blast
qed

lemma fact_inv_distinct: "fact_inv db \<Longrightarrow> distinct (map ob_id (db_facts db))"
  by (simp add: fact_inv_def)

lemma outbox_contents [simp]:
  "map ob_content (snd (outbox_claim locked now limit token t)) = map ob_content t"
  "map ob_content (outbox_mark now i token code state detail next' t) = map ob_content t"
  by (simp_all add: outbox_claim_def outbox_mark_def Let_def sql_update_keys outbox_lease_row_def)

interpretation pg_facts: outbox db_facts pg_ClaimV1Facts pg_MarkV1FactDelivery fact_FactID fact_inv
proof
  fix locked now limit gen db ds db'
  assume "pg_ClaimV1Facts locked now limit gen db = (Inr ds, db')"
  then show "ds = [] \<and> db' = db \<or> (\<exists>token. gen = Some token
        \<and> map fact_FactID ds = map ob_id (fst (outbox_claim locked now limit token (db_facts db)))
        \<and> db_facts db' = snd (outbox_claim locked now limit token (db_facts db)))"
    by (auto simp: pg_ClaimV1Facts_def Let_def split_beta scan_fact_def split: if_splits sum.splits)
qed (auto simp: pg_ClaimV1Facts_def pg_MarkV1FactDelivery_def Let_def split_beta
    intro: fact_inv_content dest: fact_inv_distinct split: if_splits sum.splits)

lemma outbox_claim_length:
  assumes "distinct (map ob_id t)"
  shows "length (fst (outbox_claim locked now limit token t)) =
    min (nat limit) (length (filter (\<lambda>r. outbox_due (pg_ts now) r \<and> \<not> locked (ob_id r)) t))"
proof -
  let ?ids = "outbox_due_ids locked (pg_ts now) limit t"
  let ?due = "filter (\<lambda>r. outbox_due (pg_ts now) r \<and> \<not> locked (ob_id r)) t"
  have "length (fst (outbox_claim locked now limit token t)) = length (filter (\<lambda>i. i \<in> set ?ids) (map ob_id t))"
    by (simp add: outbox_claim_def Let_def filter_map sql_update_def outbox_lease_row_def comp_def)
  also have "\<dots> = card (set ?ids)"
  proof -
    have "set ?ids \<subseteq> set (map ob_id t)" by (auto dest!: outbox_due_idsD)
    then have "set (filter (\<lambda>i. i \<in> set ?ids) (map ob_id t)) = set ?ids" by auto
    moreover have "distinct (filter (\<lambda>i. i \<in> set ?ids) (map ob_id t))" using assms by simp
    ultimately show ?thesis by (metis distinct_card)
  qed
  also have "\<dots> = length ?ids"
  proof (rule distinct_card)
    have "mset (map ob_id (sort_key (\<lambda>r. (ob_next_retry_at r, ob_created_at r)) ?due)) = mset (map ob_id ?due)"
      by simp
    moreover have "distinct (map ob_id ?due)" using assms by (simp add: distinct_map_filter)
    ultimately have "distinct (map ob_id (sort_key (\<lambda>r. (ob_next_retry_at r, ob_created_at r)) ?due))"
      using mset_eq_imp_distinct_iff by blast
    then show "distinct ?ids" by (simp add: outbox_due_ids_def distinct_take take_map [symmetric])
  qed
  also have "\<dots> = min (nat limit) (length ?due)" by (simp add: outbox_due_ids_def)
  finally show ?thesis .
qed

definition sample_fact_db :: PostgresStore where
  "sample_fact_db = snd (insertV1FactTx sample_env 0 ''transaction.started'' ''tx'' None 5000 [] empty_db)"

lemma sample_fact_db_facts:
  "db_facts sample_fact_db = [new_fact_row 9000 ''u0'' ''sha'' ''transaction.started'' ''tx'' None 5000 []]"
  by (simp add: sample_fact_db_def insertV1FactTx_def sample_env_def NewSecureUUIDString_def nil_uuid_def
      normalizeV1FactOccurredAt_def truncate_us_def insert_fact_row_def sequence_conflict_def empty_db_def Let_def)

lemma sample_fact_inv: "fact_inv sample_fact_db"
  by (simp add: fact_inv_def sample_fact_db_facts sql_count_def is_completion_def is_sequenced_def)

lemma sample_fact_claim:
  "pg_ClaimV1Facts (\<lambda>_. False) 10000 1 (Some ''tok'') sample_fact_db =
     (Inr [scan_fact (outbox_lease_row 10000 ''tok'' (hd (db_facts sample_fact_db)))],
      sample_fact_db\<lparr>db_facts := [outbox_lease_row 10000 ''tok'' (hd (db_facts sample_fact_db))]\<rparr>)"
  by (simp add: pg_ClaimV1Facts_def NewSecureUUIDString_def nil_uuid_def outbox_claim_def outbox_due_ids_def
      sample_fact_db_facts outbox_due_def new_fact_row_def pg_ts_def truncate_us_def sql_update_def
      outbox_lease_row_def Let_def)

text \<open>
  A claim takes work. It returns as many facts as are due and not locked, up to the limit,
  every one of them was due, and each is now leased to this claim for thirty seconds.
\<close>

theorem pg_claim_facts_due:
  assumes "fact_inv db" and "1 \<le> limit" and "token \<noteq> nil_uuid"
  shows "\<exists>facts db'. pg_ClaimV1Facts locked now limit (Some token) db = (Inr facts, db')
    \<and> length facts = min (nat limit)
        (length (filter (\<lambda>r. outbox_due (pg_ts now) r \<and> \<not> locked (ob_id r)) (db_facts db)))
    \<and> (\<forall>f\<in>set facts. fact_Status f = ''DELIVERING'' \<and> fact_ClaimToken f = token
        \<and> fact_ClaimedUntil f = Some (pg_ts now + outbox_lease)
        \<and> (\<exists>r. sql_row ob_id (fact_FactID f) (db_facts db) = Some r \<and> outbox_due (pg_ts now) r))"
proof -
  have d: "distinct (map ob_id (db_facts db))" using assms(1) by (simp add: fact_inv_def)
  let ?c = "outbox_claim locked now limit token (db_facts db)"
  have "pg_ClaimV1Facts locked now limit (Some token) db = (Inr (map scan_fact (fst ?c)), db\<lparr>db_facts := snd ?c\<rparr>)"
    using assms(2,3) by (simp add: pg_ClaimV1Facts_def NewSecureUUIDString_def split_beta)
  moreover have "ob_status r = ''DELIVERING'' \<and> ob_claim_token r = token
      \<and> ob_claimed_until r = Some (pg_ts now + outbox_lease)" if "r \<in> set (fst ?c)" for r
    using that by (auto simp: outbox_claim_def Let_def set_sql_update outbox_lease_row_def)
  moreover have "\<exists>r'. sql_row ob_id (ob_id r) (db_facts db) = Some r' \<and> outbox_due (pg_ts now) r'"
    if "r \<in> set (fst ?c)" for r
    using outbox_due_idsD [OF outbox_claimed_id [OF that]] sql_row_unique [OF d] by metis
  ultimately show ?thesis using outbox_claim_length [OF d] by (auto simp: scan_fact_def)
qed

theorem pg_claim_facts_due_witness:
  "\<exists>facts db'. pg_ClaimV1Facts (\<lambda>_. False) 10000 1 (Some ''tok'') sample_fact_db = (Inr facts, db')
     \<and> length facts = 1 \<and> (\<forall>f\<in>set facts. fact_ClaimToken f = ''tok'')"
proof -
  have "filter (\<lambda>r. outbox_due (pg_ts 10000) r \<and> \<not> False) (db_facts sample_fact_db) = db_facts sample_fact_db"
    by (simp add: sample_fact_db_facts outbox_due_def new_fact_row_def pg_ts_def truncate_us_def)
  then show ?thesis
    using pg_claim_facts_due [OF sample_fact_inv, of 1 "''tok''" "\<lambda>_. False" 10000]
    by (auto simp: nil_uuid_def sample_fact_db_facts)
qed

text \<open>
  Exclusive delivery. While the lease of a claimed fact runs and its holder has not reported,
  no other claim returns the fact, whatever claims and reports happen in between.
\<close>

theorem pg_fact_claim_exclusive:
  assumes "fact_inv db" and "pg_ClaimV1Facts locked now limit (Some token) db = (Inr facts, db')"
    and "f \<in> set facts"
    and "\<forall>e\<in>set es. lease_respected (fact_FactID f) token (pg_ts now + outbox_lease) e"
  shows "fact_FactID f \<notin> fact_FactID ` set (fst (exec_outbox pg_ClaimV1Facts pg_MarkV1FactDelivery es db'))"
  using pg_facts.claim_exclusive [OF assms(1,2) _ assms(4)] assms(3) by blast

theorem pg_fact_claim_exclusive_witness:
  "\<exists>f db'. pg_ClaimV1Facts (\<lambda>_. False) 10000 1 (Some ''tok'') sample_fact_db = (Inr [f], db') \<and> fact_FactID f = ''u0''
     \<and> ''u0'' \<notin> fact_FactID ` set (fst (exec_outbox pg_ClaimV1Facts pg_MarkV1FactDelivery
           [ObMark 11000 ''u0'' ''late'' 204 True False '''' 11000,
            ObClaim (\<lambda>_. False) 20000000 9 (Some ''other'')] db'))"
proof -
  let ?es = "[ObMark 11000 ''u0'' ''late'' 204 True False '''' 11000, ObClaim (\<lambda>_. False) 20000000 9 (Some ''other'')]"
  have "\<forall>e\<in>set ?es. lease_respected ''u0'' ''tok'' (pg_ts 10000 + outbox_lease) e"
    by (simp add: outbox_lease_def pg_ts_def truncate_us_def)
  moreover have "fact_FactID (scan_fact (outbox_lease_row 10000 ''tok'' (hd (db_facts sample_fact_db)))) = ''u0''"
    by (simp add: scan_fact_def outbox_lease_row_def sample_fact_db_facts)
  ultimately show ?thesis
    using pg_fact_claim_exclusive [OF sample_fact_inv sample_fact_claim, of _ ?es]
    by (auto simp: sample_fact_claim)
qed

text \<open>
  The claim token fences late reports. Once a claim holds a fact, a report under any other
  token is refused and changes nothing; the holder's report is recorded with exactly the state,
  the status code and the retry count that the contract names.
\<close>

theorem pg_fact_mark_fenced:
  assumes "fact_inv db" and "pg_ClaimV1Facts locked now limit (Some token) db = (Inr facts, db')"
    and "f \<in> set facts" and "token \<noteq> ''''" and "token' \<noteq> token"
  shows "pg_MarkV1FactDelivery n (fact_FactID f) token' code success terminal detail next' db'
      = (Inl ErrV1FactClaimLost, db')
    \<and> (\<exists>db2 r. pg_MarkV1FactDelivery n (fact_FactID f) token code success terminal detail next' db' = (Inr (), db2)
        \<and> sql_row ob_id (fact_FactID f) (db_facts db2) = Some r
        \<and> ob_status r = delivery_state success terminal \<and> ob_delivery_status r = Some code
        \<and> ob_claim_token r = '''' \<and> ob_claimed_until r = None
        \<and> ob_retries r = fact_Retries f + (if success \<and> \<not> terminal then 0 else 1))"
proof -
  let ?c = "outbox_claim locked now limit token (db_facts db)"
  have db': "db' = db\<lparr>db_facts := snd ?c\<rparr>" and facts: "facts = map scan_fact (fst ?c)"
    using assms(2,3) by (auto simp: pg_ClaimV1Facts_def split_beta split: if_splits sum.splits)
  have "fact_inv db'" using pg_facts.invar_claim [OF assms(1), of locked now limit "Some token"] assms(2) by simp
  then have d: "distinct (map ob_id (db_facts db'))" by (simp add: fact_inv_def)
  obtain r where r: "f = scan_fact r" "r \<in> set (db_facts db')" "ob_status r = ''DELIVERING''" "ob_claim_token r = token"
    using assms(3) facts by (auto simp: db' outbox_claim_def Let_def set_sql_update outbox_lease_row_def)
  then have row: "sql_row ob_id (fact_FactID f) (db_facts db') = Some r"
    using sql_row_unique [OF d] by (simp add: scan_fact_def)
  have other: "\<not> outbox_held (fact_FactID f) token' r'" if "r' \<in> set (db_facts db')" for r'
    using that row sql_row_unique [OF d that] r(4) assms(5) by (auto simp: outbox_held_def)
  then have "pg_MarkV1FactDelivery n (fact_FactID f) token' code success terminal detail next' db'
      = (Inl ErrV1FactClaimLost, db')"
    by (simp add: pg_MarkV1FactDelivery_def Let_def sql_count_0 outbox_mark_def sql_update_none)
  moreover have held: "outbox_held (fact_FactID f) token r" using r assms(4) by (simp add: outbox_held_def scan_fact_def)
  then have "sql_count (outbox_held (fact_FactID f) token) (db_facts db') \<noteq> 0" using r(2) by (auto simp: sql_count_0)
  ultimately show ?thesis
    using row held r(1)
    by (simp add: pg_MarkV1FactDelivery_def Let_def outbox_mark_row delivery_state_def scan_fact_def)
qed

theorem pg_fact_mark_fenced_witness:
  "\<exists>f db'. pg_ClaimV1Facts (\<lambda>_. False) 10000 1 (Some ''tok'') sample_fact_db = (Inr [f], db')
     \<and> pg_MarkV1FactDelivery 11000 (fact_FactID f) ''stale'' 204 True False '''' 11000 db' = (Inl ErrV1FactClaimLost, db')
     \<and> fst (pg_MarkV1FactDelivery 11000 (fact_FactID f) ''tok'' 204 True False '''' 11000 db') = Inr ()"
  using pg_fact_mark_fenced [OF sample_fact_inv sample_fact_claim, where token' = "''stale''" and code = 204 and success = True
      and terminal = False and detail = "''''" and next' = 11000 and n = 11000]
  by (auto simp: sample_fact_claim)

lemma pg_RequeueV1Fact_kept: "facts_kept db (snd (pg_RequeueV1Fact E factID correlationID db))"
proof -
  have "facts_kept db (db\<lparr>db_fact_audit := audit, db_facts := sql_update (\<lambda>r. ob_id r = factID)
      (\<lambda>r. r\<lparr>ob_status := ''PENDING'', ob_claimed_until := None, ob_claim_token := '''',
        ob_next_retry_at := env_now E, ob_last_error := ''manual reconciliation requeue requested''\<rparr>) (db_facts db)\<rparr>)"
    (is "facts_kept db ?db'")
    if "sql_row ob_id factID (db_facts db) = Some r" "ob_status r = ''RECONCILIATION_REQUIRED''" for audit r
  proof -
    have "fact_inv db \<Longrightarrow> fact_inv ?db'"
      by (rule fact_inv_content) (simp_all add: sql_update_keys)
    moreover have "r' = r" if "sql_row ob_id i (db_facts db) = Some r'" and "ob_id r' = factID" for i r'
    proof -
      have "i = factID" using sql_row_SomeD [OF that(1)] that(2) by simp
      with that(1) \<open>sql_row ob_id factID (db_facts db) = Some r\<close> show ?thesis by simp
    qed
    then have "outbox_kept (db_facts db) (db_facts ?db')"
      using that by (auto simp: outbox_kept_def sql_row_update outbox_row_kept_def)
    ultimately show ?thesis by (simp add: facts_kept_def)
  qed
  then show ?thesis
    unfolding pg_RequeueV1Fact_def by (auto intro!: pg_tx_rel [where R = facts_kept] split: sum.splits option.splits if_splits)
qed

end
