(* ===== verification/PG_Commands.thy ===== *)
theory PG_Commands
  imports PG_Facts
begin

text \<open>
  The START half of the durable lifecycle (\<^verbatim>\<open>store/v1_postgres.go\<close>): a CMS command is stored with
  its one-time credential, claimed, marked as attempted before it crosses the OCPP boundary, marked
  with the charger's answer, recovered after a crash, and materialized into a transaction when the
  charger reports StartTransaction with the credential. The \<^verbatim>\<open>CHECK\<close> constraints of the
  migrations are the errors \<open>check_violation\<close>.
\<close>

definition check_violation :: v1_error where
  "check_violation = ErrOther ''23514''"

definition start_command_check :: "V1StartCommandInput \<Rightarrow> bool" where
  "start_command_check input \<longleftrightarrow> stin_OCPPConnectorNumber input \<ge> 0
     \<and> stin_LimitType input \<in> {''AUTO'', ''ENERGY'', ''TIME'', ''MONEY''}
     \<and> (case stin_EnergyLimitWh input of
          None \<Rightarrow> stin_EnergyLimitSource input = ''NONE''
        | Some w \<Rightarrow> w > 0 \<and> stin_EnergyLimitSource input \<in> {''CUSTOMER_ENERGY'', ''CUSTOMER_MONEY'', ''WALLET''})
     \<and> (case stin_MaxDurationSeconds input of
          None \<Rightarrow> stin_DurationLimitSource input = ''NONE''
        | Some d \<Rightarrow> d > 0 \<and> stin_DurationLimitSource input \<in> {''CUSTOMER_TIME'', ''CUSTOMER_MONEY'', ''WALLET''})"

definition start_command_row :: "gotime \<Rightarrow> string \<Rightarrow> V1StartCommandInput \<Rightarrow> command_row" where
  "start_command_row now commandID input = \<lparr>
     cr_Command = (new_start_command now commandID input)\<lparr>
       cmd_CustomerID := stin_CustomerID input, cmd_CorrelationID := stin_CorrelationID input,
       cmd_CredentialExpiresAt := Some (pg_ts (stin_CredentialExpiresAt input)),
       cmd_CommandExpiresAt := pg_ts (stin_CommandExpiresAt input)\<rparr>,
     cr_ClaimedUntil = None, cr_StopWorkflowTransactionID = ''''\<rparr>"

text \<open>
  \<open>insert_command\<close> is \<^verbatim>\<open>INSERT ... ON CONFLICT (cms_command_id) DO NOTHING\<close>; the result is
  \<^verbatim>\<open>RowsAffected\<close>. Besides the arbiter the table has a primary key and, among START commands, a
  unique start intent.
\<close>

definition insert_command :: "command_row \<Rightarrow> PostgresStore \<Rightarrow> nat res \<times> PostgresStore" where
  "insert_command row db =
     (let c = cr_Command row in
      if command_key row \<in> command_key ` set (db_commands db) then (Inr 0, db)
      else if cmd_HALCommandID c \<in> (\<lambda>r. cmd_HALCommandID (cr_Command r)) ` set (db_commands db)
        \<or> (cmd_Kind c = ''START'' \<and> (\<exists>r\<in>set (db_commands db). cmd_Kind (cr_Command r) = ''START''
             \<and> cmd_CMSStartIntentID (cr_Command r) = cmd_CMSStartIntentID c))
      then (Inl ErrUniqueViolation, db)
      else (Inr 1, db\<lparr>db_commands := db_commands db @ [row]\<rparr>))"

definition insert_credential :: "V1Credential \<Rightarrow> PostgresStore \<Rightarrow> unit res \<times> PostgresStore" where
  "insert_credential c db =
     (if cred_IDTag c \<in> cred_IDTag ` set (db_credentials db)
        \<or> cred_CMSStartIntentID c \<in> cred_CMSStartIntentID ` set (db_credentials db)
      then (Inl ErrUniqueViolation, db)
      else (Inr (), db\<lparr>db_credentials := db_credentials db @ [c]\<rparr>))"

text \<open>The transaction of \<^verbatim>\<open>CreateV1StartCommand\<close>; \<open>Some command\<close> is the existing command of a replay.\<close>

definition create_start_tx :: "pg_env \<Rightarrow> V1StartCommandInput \<Rightarrow> PostgresStore \<Rightarrow> V1RemoteCommand option res \<times> PostgresStore" where
  "create_start_tx E input db =
     (case NewSecureUUIDString (env_uuid E 0) of
        Inl err \<Rightarrow> (Inl err, db)
      | Inr commandID \<Rightarrow>
        if \<not> start_command_check input then (Inl check_violation, db)
        else (case insert_command (start_command_row (env_now E) commandID input) db of
            (Inl err, db1) \<Rightarrow> (Inl (if err = ErrUniqueViolation then ErrV1IdempotencyConflict else err), db1)
          | (Inr rows, db1) \<Rightarrow>
              if rows = 0 then
                (case getV1CommandWith db1 (stin_CMSCommandID input) of
                   Inl err \<Rightarrow> (Inl err, db1)
                 | Inr command \<Rightarrow>
                     if cmd_RequestDigest command \<noteq> stin_RequestDigest input
                     then (Inl ErrV1IdempotencyConflict, db1) else (Inr (Some command), db1))
              else tx_bind (insert_credential
                     ((new_credential input)\<lparr>cred_ExpiresAt := pg_ts (stin_CredentialExpiresAt input)\<rparr>) db1)
                     (\<lambda>_ db2. (Inr None, db2))))"

definition pg_CreateV1StartCommand ::
  "pg_env \<Rightarrow> V1StartCommandInput \<Rightarrow> PostgresStore \<Rightarrow> (V1RemoteCommand \<times> bool) res \<times> PostgresStore" where
  "pg_CreateV1StartCommand E input db =
     tx_bind (pg_tx (create_start_tx E input) db) (\<lambda>replay db'.
       case replay of
         Some command \<Rightarrow> (Inr (command, True), db')
       | None \<Rightarrow> (case pg_GetV1Command (stin_CMSCommandID input) db' of
             Inl err \<Rightarrow> (Inl err, db')
           | Inr command \<Rightarrow> (Inr (command, False), db')))"

subsection \<open>Delivery of a START command\<close>

text \<open>\<open>start_in i state\<close> is the guard \<^verbatim>\<open>cms_command_id=$1 AND kind='START' AND state=...\<close>.\<close>

definition start_in :: "string \<Rightarrow> string \<Rightarrow> command_row \<Rightarrow> bool" where
  "start_in i state r \<longleftrightarrow> command_key r = i \<and> cmd_Kind (cr_Command r) = ''START'' \<and> cmd_State (cr_Command r) = state"

definition command_update :: "gotime \<Rightarrow> string \<Rightarrow> gotime option \<Rightarrow> command_row \<Rightarrow> command_row" where
  "command_update now state until r = r\<lparr>
     cr_Command := (cr_Command r)\<lparr>cmd_State := state, cmd_UpdatedAt := now\<rparr>, cr_ClaimedUntil := until\<rparr>"

definition pg_ClaimV1StartDelivery ::
  "gotime \<Rightarrow> string \<Rightarrow> PostgresStore \<Rightarrow> (V1RemoteCommand \<times> bool) res \<times> PostgresStore" where
  "pg_ClaimV1StartDelivery now cmsCommandID db =
     (let rows = sql_count (start_in cmsCommandID ''PERSISTED'') (db_commands db);
          db' = db\<lparr>db_commands := sql_update (start_in cmsCommandID ''PERSISTED'')
                  (command_update now ''PENDING_DELIVERY'' (Some (now + 30 * duration_second))) (db_commands db)\<rparr>
      in (case pg_GetV1Command cmsCommandID db' of
            Inl err \<Rightarrow> (Inl err, db')
          | Inr command \<Rightarrow> (Inr (command, rows = 1), db')))"

definition pg_BeginV1CommandDelivery :: "gotime \<Rightarrow> string \<Rightarrow> PostgresStore \<Rightarrow> V1RemoteCommand res \<times> PostgresStore" where
  "pg_BeginV1CommandDelivery now cmsCommandID db =
     (let attempt = (\<lambda>r. command_update now ''DELIVERY_ATTEMPTED'' (Some (now + 2 * duration_minute))
             (r\<lparr>cr_Command := (cr_Command r)\<lparr>cmd_DeliveryAttempts := cmd_DeliveryAttempts (cr_Command r) + 1\<rparr>\<rparr>));
          db' = db\<lparr>db_commands := sql_update (start_in cmsCommandID ''PENDING_DELIVERY'') attempt (db_commands db)\<rparr>
      in (pg_GetV1Command cmsCommandID db', db'))"

text \<open>\<open>delivery_outcome\<close> is the switch on the OCPP status in both \<^verbatim>\<open>Mark...Delivery\<close> methods.\<close>

definition delivery_outcome :: "string \<Rightarrow> string \<times> string" where
  "delivery_outcome status =
     (if status = ''Accepted'' then (''OCPP_ACCEPTED'', '''')
      else if status = ''AMBIGUOUS'' then (''AMBIGUOUS'', ''delivery'')
      else if status = ''Rejected'' then (''OCPP_REJECTED'', ''ocpp'')
      else (''DELIVERY_ATTEMPTED'', ''''))"

definition mark_command :: "gotime \<Rightarrow> string \<Rightarrow> string \<Rightarrow> string \<Rightarrow> string \<Rightarrow> command_row \<Rightarrow> command_row" where
  "mark_command now state result category detail r =
     command_update now state None (r\<lparr>cr_Command := (cr_Command r)\<lparr>cmd_LastOCPPResult := result,
       cmd_LastErrorCategory := category, cmd_LastErrorDetail := detail\<rparr>\<rparr>)"

definition pg_MarkV1CommandDelivery ::
  "pg_env \<Rightarrow> string \<Rightarrow> string \<Rightarrow> string \<Rightarrow> string \<Rightarrow> PostgresStore \<Rightarrow> V1RemoteCommand res \<times> PostgresStore" where
  "pg_MarkV1CommandDelivery E i status result detail =
     pg_tx (\<lambda>db.
       let (state, category) = delivery_outcome status;
           live = (\<lambda>r. command_key r = i \<and> cmd_State (cr_Command r) \<notin> {''MATERIALIZED'', ''SUPERSEDED''});
           rows = sql_count live (db_commands db);
           db1 = db\<lparr>db_commands := sql_update live (mark_command (env_now E) state result category detail) (db_commands db)\<rparr>
       in (case getV1CommandWith db1 i of
             Inl err \<Rightarrow> (Inl err, db1)
           | Inr command \<Rightarrow>
               if rows = 1 then
                 tx_bind (insertV1FactTx E 0 ''command.updated'' (cmd_HALCommandID command) None
                            (cmd_UpdatedAt command) (v1CommandFact command) db1)
                   (\<lambda>_ db2. (Inr command, db2))
               else (Inr command, db1)))"

text \<open>The second update of a recovery sees the first, which moves rows out of its reach.\<close>

definition pg_RecoverV1CommandDelivery :: "gotime \<Rightarrow> PostgresStore \<Rightarrow> PostgresStore" where
  "pg_RecoverV1CommandDelivery now db =
     db\<lparr>db_commands :=
       sql_update (\<lambda>r. cmd_Kind (cr_Command r) = ''START'' \<and> cmd_State (cr_Command r) = ''DELIVERY_ATTEMPTED'')
         (\<lambda>r. command_update now ''AMBIGUOUS'' None (r\<lparr>cr_Command := (cr_Command r)\<lparr>
            cmd_LastErrorCategory := ''recovery'',
            cmd_LastErrorDetail := ''process interruption after durable delivery attempt''\<rparr>\<rparr>))
         (sql_update (\<lambda>r. cmd_Kind (cr_Command r) = ''START'' \<and> cmd_State (cr_Command r) = ''PENDING_DELIVERY'')
           (command_update now ''PERSISTED'' None) (db_commands db))\<rparr>"

subsection \<open>Materialization\<close>

definition start_row :: "V1Transaction \<Rightarrow> V1Transaction" where
  "start_row t = t\<lparr>tx_ActualStartedAt := pg_ts (tx_ActualStartedAt t),
     tx_ObservedStartedAt := pg_ts (tx_ObservedStartedAt t),
     tx_StopDeadlineAt := map_option pg_ts (tx_StopDeadlineAt t)\<rparr>"

definition insert_transaction :: "V1Transaction \<Rightarrow> PostgresStore \<Rightarrow> unit res \<times> PostgresStore" where
  "insert_transaction t db =
     (if \<exists>r\<in>set (db_transactions db). tx_HALTransactionID r = tx_HALTransactionID t
        \<or> tx_CMSStartIntentID r = tx_CMSStartIntentID t \<or> tx_CMSCommandID r = tx_CMSCommandID t
        \<or> tx_OCPPTransactionID r = tx_OCPPTransactionID t
      then (Inl ErrUniqueViolation, db)
      else (Inr (), db\<lparr>db_transactions := db_transactions db @ [t]\<rparr>))"

definition consume_credential :: "string \<Rightarrow> gotime \<Rightarrow> string \<Rightarrow> PostgresStore \<Rightarrow> unit res \<times> PostgresStore" where
  "consume_credential idTag observedAt halID db =
     (if \<exists>c\<in>set (db_credentials db). cred_IDTag c \<noteq> idTag \<and> cred_HALTransactionID c = halID
      then (Inl ErrUniqueViolation, db)
      else (Inr (), db\<lparr>db_credentials := sql_update (\<lambda>c. cred_IDTag c = idTag)
              (\<lambda>c. c\<lparr>cred_ConsumedAt := Some (pg_ts observedAt), cred_HALTransactionID := halID\<rparr>)
              (db_credentials db)\<rparr>))"

definition materialized_command :: "V1RemoteCommand \<Rightarrow> V1Credential \<Rightarrow> string \<Rightarrow> V1StartMaterialization \<Rightarrow> V1RemoteCommand" where
  "materialized_command command c halID input = \<lparr>
     cmd_HALCommandID = cmd_HALCommandID command, cmd_CMSCommandID = cmd_CMSCommandID command, cmd_Kind = ''START'',
     cmd_RequestDigest = '''', cmd_CPOID = '''', cmd_CustomerID = '''', cmd_CorrelationID = '''',
     cmd_CMSStartIntentID = '''', cmd_CMSChargingSessionID = '''', cmd_CMSChargerID = '''', cmd_CMSConnectorID = '''',
     cmd_ChargerOCPPIdentity = cred_ChargerOCPPIdentity c, cmd_OCPPConnectorNumber = cred_OCPPConnectorNumber c,
     cmd_IDTag = '''', cmd_CredentialExpiresAt = None, cmd_CommandExpiresAt = 0, cmd_LimitType = '''',
     cmd_EnergyLimitWh = None, cmd_EnergyLimitSource = '''', cmd_MaxDurationSeconds = None,
     cmd_DurationLimitSource = '''', cmd_RequestedStopInitiator = '''', cmd_RequestedStopReason = '''',
     cmd_HALTransactionID = halID, cmd_OCPPTransactionID = Some (mat_OCPPTransactionID input),
     cmd_State = ''MATERIALIZED'', cmd_DeliveryAttempts = 0, cmd_LastOCPPResult = '''', cmd_LastErrorCategory = '''',
     cmd_LastErrorDetail = '''', cmd_CreatedAt = 0, cmd_UpdatedAt = mat_ObservedAt input\<rparr>"

definition materialized_transaction ::
  "string \<Rightarrow> V1Credential \<Rightarrow> V1RemoteCommand \<Rightarrow> V1StartMaterialization \<Rightarrow> V1Transaction" where
  "materialized_transaction halID c command input =
     (new_transaction halID c command (cmd_CustomerID command) input)\<lparr>
       tx_ChargerOCPPIdentity := cred_ChargerOCPPIdentity c,
       tx_OCPPConnectorNumber := cred_OCPPConnectorNumber c, tx_IDTag := cred_IDTag c\<rparr>"

text \<open>
  What the transaction writes once the credential and the command are accepted: the transaction
  row, the consumed credential, the materialized command and the two facts.
\<close>

definition materialize_writes ::
  "pg_env \<Rightarrow> string \<Rightarrow> V1Credential \<Rightarrow> V1RemoteCommand \<Rightarrow> V1StartMaterialization \<Rightarrow> PostgresStore
   \<Rightarrow> unit res \<times> PostgresStore" where
  "materialize_writes E halID c command input db =
     (let materialized = materialized_transaction halID c command input in
      case insert_transaction (start_row materialized) db of
        (Inl err, db1) \<Rightarrow> (Inl (if err = ErrUniqueViolation then ErrV1CredentialRejected else err), db1)
      | (Inr _, db1) \<Rightarrow>
        tx_bind (consume_credential (mat_IDTag input) (mat_ObservedAt input) halID db1) (\<lambda>_ db2.
          let db3 = db2\<lparr>db_commands := sql_update (\<lambda>r. command_key r = cmd_CMSCommandID command)
                (\<lambda>r. r\<lparr>cr_Command := (cr_Command r)\<lparr>cmd_State := ''MATERIALIZED'', cmd_HALTransactionID := halID,
                   cmd_OCPPTransactionID := Some (mat_OCPPTransactionID input), cmd_UpdatedAt := env_now E\<rparr>\<rparr>)
                (db_commands db2)\<rparr>
          in tx_bind (insertV1FactTx E 1 ''transaction.started'' halID None (mat_ObservedAt input)
                        (v1StartedFact materialized (cmd_HALCommandID command)) db3)
               (\<lambda>_ db4. insertV1FactTx E 2 ''command.updated'' (cmd_HALCommandID command) None (mat_ObservedAt input)
                  (v1CommandFact (materialized_command command c halID input)) db4)))"

definition materialize_tx ::
  "pg_env \<Rightarrow> V1StartMaterialization \<Rightarrow> PostgresStore \<Rightarrow> (V1Transaction + string) res \<times> PostgresStore" where
  "materialize_tx E input db =
     (case sql_row cred_IDTag (mat_IDTag input) (db_credentials db) of
        None \<Rightarrow> (Inl ErrV1CredentialRejected, db)
      | Some c \<Rightarrow>
        if cred_HALTransactionID c \<noteq> '''' then
          (case getV1TransactionByID (cred_HALTransactionID c) db of
             Inl err \<Rightarrow> (Inl err, db)
           | Inr t \<Rightarrow>
               if tx_ChargerOCPPIdentity t = mat_ChargerOCPPIdentity input
                 \<and> tx_OCPPConnectorNumber t = mat_OCPPConnectorNumber input
                 \<and> tx_IDTag t = mat_IDTag input \<and> tx_MeterStartWh t = mat_MeterStartWh input
               then (Inr (Inl t), db) else (Inl ErrV1CredentialRejected, db))
        else if \<not> cred_ExpiresAt c > mat_ObservedAt input
          \<or> cred_ChargerOCPPIdentity c \<noteq> mat_ChargerOCPPIdentity input
          \<or> cred_OCPPConnectorNumber c \<noteq> mat_OCPPConnectorNumber input
        then (Inl ErrV1CredentialRejected, db)
        else (case find (\<lambda>r. cmd_Kind (cr_Command r) = ''START'' \<and> cmd_IDTag (cr_Command r) = mat_IDTag input)
                     (db_commands db) of
            None \<Rightarrow> (Inl ErrNoRows, db)
          | Some r \<Rightarrow>
              if \<not> cmd_CommandExpiresAt (cr_Command r) > mat_ObservedAt input then (Inl ErrV1CredentialRejected, db)
              else (case NewSecureUUIDString (env_uuid E 0) of
                  Inl err \<Rightarrow> (Inl err, db)
                | Inr halID \<Rightarrow>
                    tx_bind (materialize_writes E halID c (cr_Command r) input db)
                      (\<lambda>_ db'. (Inr (Inr halID), db')))))"

definition pg_MaterializeV1Start ::
  "pg_env \<Rightarrow> V1StartMaterialization \<Rightarrow> PostgresStore \<Rightarrow> (V1Transaction \<times> bool) res \<times> PostgresStore" where
  "pg_MaterializeV1Start E input db =
     (if invalid_start_evidence input then (Inl ErrV1InvalidEvidence, db)
      else tx_bind (pg_tx (materialize_tx E input) db) (\<lambda>out db'.
        case out of
          Inl t \<Rightarrow> (Inr (t, True), db')
        | Inr halID \<Rightarrow> (case pg_GetV1Transaction halID db' of
              Inl err \<Rightarrow> (Inl err, db')
            | Inr t \<Rightarrow> (Inr (t, False), db'))))"

end
