(* ===== verification/PG_Stops.thy ===== *)
theory PG_Stops
  imports PG_Commands
begin

text \<open>
  The STOP half and the running transaction (\<^verbatim>\<open>store/v1_lifecycle_postgres.go\<close>,
  \<^verbatim>\<open>store/v1_stop_lifecycle_locking.go\<close>): the one stop workflow of a transaction, its delivery,
  the CMS stop command attached to it, the meter and state-of-charge telemetry that can create
  the workflow when a limit is reached, and the completion that settles all of them.
\<close>

subsection \<open>The stop workflow\<close>

definition lockV1StopLifecycleRows :: "string \<Rightarrow> PostgresStore \<Rightarrow> (V1Transaction \<times> V1StopWorkflow option) res" where
  "lockV1StopLifecycleRows halTransactionID db =
     (case getV1TransactionByID halTransactionID db of
        Inl err \<Rightarrow> Inl err
      | Inr transaction \<Rightarrow> Inr (transaction,
          map_option wr_Workflow (sql_row workflow_key halTransactionID (db_workflows db))))"

definition new_workflow :: "gotime \<Rightarrow> string \<Rightarrow> string \<Rightarrow> string \<Rightarrow> V1StopWorkflow" where
  "new_workflow now halID initiator reason = \<lparr>
     wf_HALTransactionID = halID, wf_RequestedStopInitiator = initiator, wf_RequestedStopReason = reason,
     wf_State = ''PERSISTED'', wf_DeliveryAttempts = 0, wf_LastOCPPResult = '''', wf_LastErrorCategory = '''',
     wf_LastErrorDetail = '''', wf_CreatedAt = now, wf_UpdatedAt = now, wf_CompletedAt = None\<rparr>"

definition stop_initiators :: "string list" where
  "stop_initiators = [''CUSTOMER'', ''CPO'', ''ENERGY_LIMIT'', ''TIME_LIMIT'', ''MONEY_LIMIT'', ''WALLET_LIMIT'',
     ''SYSTEM_RECOVERY'']"

text \<open>The workflow that the method returns for a new row carries zero times.\<close>

definition ensureV1StopWorkflowTx ::
  "pg_env \<Rightarrow> V1Transaction \<Rightarrow> string \<Rightarrow> string \<Rightarrow> PostgresStore \<Rightarrow> (V1StopWorkflow \<times> bool) res \<times> PostgresStore" where
  "ensureV1StopWorkflowTx E t initiator reason db =
     (case sql_row workflow_key (tx_HALTransactionID t) (db_workflows db) of
        Some w \<Rightarrow> (Inr (wr_Workflow w, False), db)
      | None \<Rightarrow>
          if tx_CompletedAt t \<noteq> None then (Inl ErrV1TransactionNotFound, db)
          else if initiator \<notin> set stop_initiators then (Inl check_violation, db)
          else (Inr (new_workflow 0 (tx_HALTransactionID t) initiator reason, True),
            db\<lparr>db_workflows := db_workflows db @ [\<lparr>wr_Workflow = new_workflow (env_now E) (tx_HALTransactionID t) initiator reason,
                 wr_ClaimedUntil = None\<rparr>],
               db_transactions := sql_update (\<lambda>r. tx_HALTransactionID r = tx_HALTransactionID t)
                 (\<lambda>r. r\<lparr>tx_StopState := ''PERSISTED'', tx_RequestedStopInitiator := initiator,
                        tx_RequestedStopReason := reason\<rparr>) (db_transactions db)\<rparr>))"

definition pg_EnsureV1StopWorkflow ::
  "lifecycle_faults \<Rightarrow> pg_env \<Rightarrow> string \<Rightarrow> string \<Rightarrow> string \<Rightarrow> PostgresStore
   \<Rightarrow> (V1StopWorkflow \<times> bool) res \<times> PostgresStore" where
  "pg_EnsureV1StopWorkflow F E halID initiator reason =
     withV1StopLifecycleTransaction F (\<lambda>db.
       case lockV1StopLifecycleRows halID db of
         Inl err \<Rightarrow> (Inl err, db)
       | Inr (transaction, _) \<Rightarrow> ensureV1StopWorkflowTx E transaction initiator reason db)"

definition pg_RequestV1Stop ::
  "lifecycle_faults \<Rightarrow> pg_env \<Rightarrow> string \<Rightarrow> string \<Rightarrow> string \<Rightarrow> PostgresStore
   \<Rightarrow> (V1Transaction \<times> bool) res \<times> PostgresStore" where
  "pg_RequestV1Stop F E halID initiator reason db =
     tx_bind (pg_EnsureV1StopWorkflow F E halID initiator reason db) (\<lambda>(_, created) db'.
       case pg_GetV1Transaction halID db' of
         Inl err \<Rightarrow> (Inl err, db')
       | Inr t \<Rightarrow> (Inr (t, created), db'))"

definition pg_GetV1StopWorkflow :: "string \<Rightarrow> PostgresStore \<Rightarrow> V1StopWorkflow res" where
  "pg_GetV1StopWorkflow halID db =
     (case sql_row workflow_key halID (db_workflows db) of
        None \<Rightarrow> Inl ErrV1TransactionNotFound
      | Some w \<Rightarrow> Inr (wr_Workflow w))"

subsection \<open>Delivery of a stop\<close>

definition workflow_in :: "string \<Rightarrow> string \<Rightarrow> workflow_row \<Rightarrow> bool" where
  "workflow_in i state r \<longleftrightarrow> workflow_key r = i \<and> wf_State (wr_Workflow r) = state"

definition workflow_update :: "gotime \<Rightarrow> string \<Rightarrow> gotime option \<Rightarrow> workflow_row \<Rightarrow> workflow_row" where
  "workflow_update now state until r = r\<lparr>
     wr_Workflow := (wr_Workflow r)\<lparr>wf_State := state, wf_UpdatedAt := now\<rparr>, wr_ClaimedUntil := until\<rparr>"

text \<open>\<open>workflow_ready\<close>: the transaction is open and its workflow is in the given state.\<close>

definition workflow_ready :: "string \<Rightarrow> V1Transaction \<times> V1StopWorkflow option \<Rightarrow> bool" where
  "workflow_ready state rows \<longleftrightarrow> tx_CompletedAt (fst rows) = None
     \<and> (case snd rows of None \<Rightarrow> False | Some w \<Rightarrow> wf_State w = state)"

definition pg_ClaimV1StopDelivery ::
  "lifecycle_faults \<Rightarrow> gotime \<Rightarrow> string \<Rightarrow> PostgresStore \<Rightarrow> (V1StopWorkflow \<times> bool) res \<times> PostgresStore" where
  "pg_ClaimV1StopDelivery F now halID db =
     tx_bind (withV1StopLifecycleTransaction F (\<lambda>db.
         case lockV1StopLifecycleRows halID db of
           Inl err \<Rightarrow> (Inl err, db)
         | Inr rows \<Rightarrow>
             if \<not> workflow_ready ''PERSISTED'' rows then (Inr False, db)
             else (Inr (sql_count (workflow_in halID ''PERSISTED'') (db_workflows db) = 1),
               db\<lparr>db_workflows := sql_update (workflow_in halID ''PERSISTED'')
                  (workflow_update now ''PENDING_DELIVERY'' (Some (now + 30 * duration_second))) (db_workflows db)\<rparr>)) db)
       (\<lambda>claimed db'. case pg_GetV1StopWorkflow halID db' of
           Inl err \<Rightarrow> (Inl err, db')
         | Inr workflow \<Rightarrow> (Inr (workflow, claimed), db'))"

definition pg_BeginV1StopDelivery ::
  "lifecycle_faults \<Rightarrow> gotime \<Rightarrow> string \<Rightarrow> PostgresStore \<Rightarrow> V1StopWorkflow res \<times> PostgresStore" where
  "pg_BeginV1StopDelivery F now halID db =
     tx_bind (withV1StopLifecycleTransaction F (\<lambda>db.
         case lockV1StopLifecycleRows halID db of
           Inl err \<Rightarrow> (Inl err, db)
         | Inr rows \<Rightarrow>
             if \<not> workflow_ready ''PENDING_DELIVERY'' rows then (Inr (), db)
             else (Inr (), db\<lparr>db_workflows := sql_update (workflow_in halID ''PENDING_DELIVERY'')
                  (\<lambda>r. workflow_update now ''DELIVERY_ATTEMPTED'' (Some (now + 2 * duration_minute))
                    (r\<lparr>wr_Workflow := (wr_Workflow r)\<lparr>wf_DeliveryAttempts := wf_DeliveryAttempts (wr_Workflow r) + 1\<rparr>\<rparr>))
                  (db_workflows db)\<rparr>)) db)
       (\<lambda>_ db'. (pg_GetV1StopWorkflow halID db', db'))"

definition mark_workflow :: "gotime \<Rightarrow> string \<Rightarrow> string \<Rightarrow> string \<Rightarrow> string \<Rightarrow> workflow_row \<Rightarrow> workflow_row" where
  "mark_workflow now state result category detail r =
     workflow_update now state None (r\<lparr>wr_Workflow := (wr_Workflow r)\<lparr>wf_LastOCPPResult := result,
       wf_LastErrorCategory := category, wf_LastErrorDetail := detail\<rparr>\<rparr>)"

text \<open>The loop over the commands that the update returned; one identifier per fact.\<close>

fun insert_command_facts :: "pg_env \<Rightarrow> nat \<Rightarrow> string list \<Rightarrow> PostgresStore \<Rightarrow> unit res \<times> PostgresStore" where
  "insert_command_facts E k [] db = (Inr (), db)"
| "insert_command_facts E k (commandID # commandIDs) db =
     (case getV1CommandWith db commandID of
        Inl err \<Rightarrow> (Inl err, db)
      | Inr command \<Rightarrow>
          tx_bind (insertV1FactTx E k ''command.updated'' (cmd_HALCommandID command) None (cmd_UpdatedAt command)
                     (v1CommandFact command) db)
            (\<lambda>_ db'. insert_command_facts E (Suc k) commandIDs db'))"

definition stop_command_live :: "string \<Rightarrow> command_row \<Rightarrow> bool" where
  "stop_command_live halID r \<longleftrightarrow> cr_StopWorkflowTransactionID r = halID \<and> halID \<noteq> ''''
     \<and> cmd_State (cr_Command r) \<notin> {''SUPERSEDED'', ''MATERIALIZED''}"

definition mark_stop_tx ::
  "pg_env \<Rightarrow> string \<Rightarrow> string \<Rightarrow> string \<Rightarrow> string \<Rightarrow> string \<Rightarrow> PostgresStore \<Rightarrow> unit res \<times> PostgresStore" where
  "mark_stop_tx E halID state category result detail db =
     (case lockV1StopLifecycleRows halID db of
        Inl err \<Rightarrow> (Inl err, db)
      | Inr (transaction, workflow) \<Rightarrow>
          if tx_CompletedAt transaction \<noteq> None
            \<or> (case workflow of None \<Rightarrow> True | Some w \<Rightarrow> wf_State w \<in> {''COMPLETED'', ''SUPERSEDED''})
          then (Inr (), db)
          else (let live = (\<lambda>r. stop_command_live halID r \<and> cmd_Kind (cr_Command r) = ''STOP'');
                    db1 = db\<lparr>
                      db_workflows := sql_update (\<lambda>r. workflow_key r = halID
                          \<and> wf_State (wr_Workflow r) \<notin> {''COMPLETED'', ''SUPERSEDED''})
                        (mark_workflow (env_now E) state result category detail) (db_workflows db),
                      db_transactions := sql_update (\<lambda>r. tx_HALTransactionID r = halID \<and> tx_CompletedAt r = None)
                        (\<lambda>r. r\<lparr>tx_StopState := state\<rparr>) (db_transactions db),
                      db_commands := sql_update live (mark_command (env_now E) state result category detail)
                        (db_commands db)\<rparr>
                in insert_command_facts E 0 (map command_key (filter live (db_commands db))) db1))"

definition pg_MarkV1StopDelivery ::
  "lifecycle_faults \<Rightarrow> pg_env \<Rightarrow> string \<Rightarrow> string \<Rightarrow> string \<Rightarrow> string \<Rightarrow> PostgresStore
   \<Rightarrow> V1StopWorkflow res \<times> PostgresStore" where
  "pg_MarkV1StopDelivery F E halID status result detail db =
     (let (state, category) = delivery_outcome status in
      tx_bind (withV1StopLifecycleTransaction F (mark_stop_tx E halID state category result detail) db)
        (\<lambda>_ db'. (pg_GetV1StopWorkflow halID db', db')))"

definition pg_RecoverV1StopDelivery :: "gotime \<Rightarrow> PostgresStore \<Rightarrow> PostgresStore" where
  "pg_RecoverV1StopDelivery now db =
     db\<lparr>db_workflows :=
       sql_update (\<lambda>r. wf_State (wr_Workflow r) = ''DELIVERY_ATTEMPTED'')
         (\<lambda>r. workflow_update now ''AMBIGUOUS'' None (r\<lparr>wr_Workflow := (wr_Workflow r)\<lparr>
            wf_LastErrorCategory := ''recovery'',
            wf_LastErrorDetail := ''process interruption after durable delivery attempt''\<rparr>\<rparr>))
         (sql_update (\<lambda>r. wf_State (wr_Workflow r) = ''PENDING_DELIVERY'')
           (workflow_update now ''PERSISTED'' None) (db_workflows db))\<rparr>"

definition pg_ListV1DispatchableStops :: "int \<Rightarrow> PostgresStore \<Rightarrow> V1StopWorkflow list" where
  "pg_ListV1DispatchableStops limit db =
     (if limit \<le> 0 then []
      else take (nat limit) (sort_key (\<lambda>w. (wf_CreatedAt w, wf_HALTransactionID w))
        (map wr_Workflow (filter (\<lambda>r. wf_State (wr_Workflow r) = ''PERSISTED''
           \<and> (\<exists>t\<in>set (db_transactions db). tx_HALTransactionID t = workflow_key r \<and> tx_CompletedAt t = None))
           (db_workflows db)))))"

definition overdue :: "gotime \<Rightarrow> V1Transaction \<Rightarrow> bool" where
  "overdue now t \<longleftrightarrow> tx_CompletedAt t = None \<and> (case tx_StopDeadlineAt t of None \<Rightarrow> False | Some d \<Rightarrow> d \<le> pg_ts now)"

fun load_transactions :: "string list \<Rightarrow> PostgresStore \<Rightarrow> V1Transaction list res" where
  "load_transactions [] db = Inr []"
| "load_transactions (i # is) db =
     (case pg_GetV1Transaction i db of
        Inl err \<Rightarrow> Inl err
      | Inr t \<Rightarrow> (case load_transactions is db of Inl err \<Rightarrow> Inl err | Inr ts \<Rightarrow> Inr (t # ts)))"

definition pg_ListV1OverdueTransactions :: "gotime \<Rightarrow> nat \<Rightarrow> PostgresStore \<Rightarrow> V1Transaction list res" where
  "pg_ListV1OverdueTransactions now limit db =
     load_transactions (map tx_HALTransactionID
       (take limit (sort_key (\<lambda>t. case tx_StopDeadlineAt t of None \<Rightarrow> 0 | Some d \<Rightarrow> d) (filter (overdue now) (db_transactions db))))) db"

subsection \<open>The CMS stop command\<close>

definition stop_command_row :: "gotime \<Rightarrow> string \<Rightarrow> V1StopCommandInput \<Rightarrow> string \<Rightarrow> command_row" where
  "stop_command_row now commandID input workflowID = \<lparr>
     cr_Command = (new_stop_command now commandID input)\<lparr>
       cmd_CustomerID := spin_CustomerID input, cmd_CorrelationID := spin_CorrelationID input,
       cmd_CommandExpiresAt := pg_ts (spin_CommandExpiresAt input), cmd_LimitType := ''AUTO'',
       cmd_EnergyLimitSource := ''NONE'', cmd_DurationLimitSource := ''NONE''\<rparr>,
     cr_ClaimedUntil = None, cr_StopWorkflowTransactionID = workflowID\<rparr>"

definition stop_input_matches :: "V1StopCommandInput \<Rightarrow> V1Transaction \<Rightarrow> bool" where
  "stop_input_matches input t \<longleftrightarrow> tx_CompletedAt t = None
     \<and> tx_OCPPTransactionID t = spin_OCPPTransactionID input \<and> tx_CPOID t = spin_CPOID input
     \<and> tx_CMSChargerID t = spin_CMSChargerID input \<and> tx_CMSConnectorID t = spin_CMSConnectorID input
     \<and> tx_ChargerOCPPIdentity t = spin_ChargerOCPPIdentity input
     \<and> tx_OCPPConnectorNumber t = spin_OCPPConnectorNumber input"

definition create_stop_tx ::
  "pg_env \<Rightarrow> V1StopCommandInput \<Rightarrow> PostgresStore \<Rightarrow> (V1RemoteCommand \<times> bool) res \<times> PostgresStore" where
  "create_stop_tx E input db =
     (case lockV1StopLifecycleRows (spin_HALTransactionID input) db of
        Inl err \<Rightarrow> (Inl err, db)
      | Inr (transaction, _) \<Rightarrow>
        if \<not> stop_input_matches input transaction then (Inl ErrV1TransactionNotFound, db)
        else tx_bind (ensureV1StopWorkflowTx E transaction (spin_RequestedStopInitiator input)
                        (spin_RequestedStopReason input) db) (\<lambda>(workflow, _) db1.
          case NewSecureUUIDString (env_uuid E 0) of
            Inl err \<Rightarrow> (Inl err, db1)
          | Inr commandID \<Rightarrow>
            if spin_OCPPConnectorNumber input < 0 then (Inl check_violation, db1)
            else tx_bind (insert_command (stop_command_row (env_now E) commandID input (wf_HALTransactionID workflow)) db1)
              (\<lambda>count db2.
                case getV1CommandWith db2 (spin_CMSCommandID input) of
                  Inl err \<Rightarrow> (Inl err, db2)
                | Inr command \<Rightarrow>
                  if count = 0 then
                    (if cmd_RequestDigest command \<noteq> spin_RequestDigest input
                     then (Inl ErrV1IdempotencyConflict, db2) else (Inr (command, True), db2))
                  else tx_bind (insertV1FactTx E 1 ''command.updated'' (cmd_HALCommandID command) None (env_clock E)
                                  (v1CommandFact command) db2)
                         (\<lambda>_ db3. (Inr (command, False), db3)))))"

definition pg_CreateV1StopCommand ::
  "lifecycle_faults \<Rightarrow> pg_env \<Rightarrow> V1StopCommandInput \<Rightarrow> PostgresStore
   \<Rightarrow> (V1RemoteCommand \<times> bool) res \<times> PostgresStore" where
  "pg_CreateV1StopCommand F E input = withV1StopLifecycleTransaction F (create_stop_tx E input)"

subsection \<open>Telemetry\<close>

definition pg_accept_energy :: "int \<Rightarrow> gotime \<Rightarrow> V1Transaction \<Rightarrow> V1Transaction" where
  "pg_accept_energy meterWh observedAt row =
     (let observedAt = (case tx_MeterObservedAt row of
            None \<Rightarrow> observedAt | Some previous \<Rightarrow> if observedAt < previous then previous else observedAt)
      in row\<lparr>tx_LatestMeterWh := Some meterWh, tx_MeterObservedAt := Some (pg_ts observedAt),
             tx_MeterSequence := tx_MeterSequence row + 1\<rparr>)"

definition pg_apply_energy :: "V1MeterTelemetry \<Rightarrow> V1Transaction \<Rightarrow> bool \<times> V1Transaction" where
  "pg_apply_energy telemetry row =
     (case (tel_EnergyWh telemetry, tel_EnergyObservedAt telemetry) of
        (Some meterWh, Some observedAt) \<Rightarrow>
          if tx_CompletedAt row = None \<and> meterWh \<ge> tx_MeterStartWh row then
            (case tx_LatestMeterWh row of
               Some latest \<Rightarrow>
                 if meterWh < latest then
                   (case classifyV1MeterEvidence (tx_MeterStartWh row) (Some latest) meterWh of
                      Inl _ \<Rightarrow> (False, row)
                    | Inr classification \<Rightarrow>
                        if ev_Class classification \<noteq> v1MeterEvidenceQuantizationNormalized then (False, row)
                        else (True, pg_accept_energy meterWh observedAt
                          (row\<lparr>tx_MeterQuantizationAnomalyCount := tx_MeterQuantizationAnomalyCount row + 1\<rparr>)))
                 else (True, pg_accept_energy meterWh observedAt row)
             | None \<Rightarrow> (True, pg_accept_energy meterWh observedAt row))
          else (False, row)
      | _ \<Rightarrow> (False, row))"

text \<open>The columns are \<^verbatim>\<open>NUMERIC(6,3)\<close> between 0 and 100.\<close>

definition pg_apply_soc :: "V1MeterTelemetry \<Rightarrow> V1Transaction \<Rightarrow> (bool \<times> V1Transaction) res" where
  "pg_apply_soc telemetry row =
     (case (tel_SoCPercent telemetry, tel_SoCObservedAt telemetry) of
        (Some soc, Some observedAt) \<Rightarrow>
          if tx_CompletedAt row = None
            \<and> (case tx_SoCObservedAt row of None \<Rightarrow> True | Some previous \<Rightarrow> observedAt > previous)
          then (if soc < 0 \<or> soc > 100000 then Inl check_violation
                else Inr (True, row\<lparr>
                  tx_InitialSoCPercent := (case tx_InitialSoCPercent row of None \<Rightarrow> Some soc | Some i \<Rightarrow> Some i),
                  tx_LatestSoCPercent := Some soc, tx_SoCObservedAt := Some (pg_ts observedAt),
                  tx_SoCSequence := tx_SoCSequence row + 1\<rparr>))
          else Inr (False, row)
      | _ \<Rightarrow> Inr (False, row))"

definition v1EnergyStopCause :: "string \<Rightarrow> string \<Rightarrow> string \<times> string" where
  "v1EnergyStopCause source legacyLimitType =
     (if source = ''CUSTOMER_MONEY'' \<or> (source = '''' \<and> legacyLimitType = ''MONEY'')
      then (''MONEY_LIMIT'', ''money_limit_reached'')
      else if source = ''WALLET'' \<or> (source = '''' \<and> legacyLimitType = ''AUTO'')
      then (''WALLET_LIMIT'', ''wallet_limit_reached'')
      else (''ENERGY_LIMIT'', ''energy_limit_reached''))"

definition energy_limit_reached :: "V1Transaction \<Rightarrow> bool" where
  "energy_limit_reached t = (case (tx_EnergyLimitWh t, tx_LatestMeterWh t) of
     (Some limit, Some latest) \<Rightarrow> wrap64 (latest - tx_MeterStartWh t) \<ge> limit
   | _ \<Rightarrow> False)"

text \<open>\<open>insert_seq_fact\<close> dereferences the payload and its time; a nil pointer panics.\<close>

definition insert_seq_fact ::
  "pg_env \<Rightarrow> nat \<Rightarrow> string \<Rightarrow> string \<Rightarrow> int \<Rightarrow> gotime option \<Rightarrow> fact_payload option \<Rightarrow> PostgresStore
   \<Rightarrow> unit res \<times> PostgresStore" where
  "insert_seq_fact E k factType halID seq at' payload db =
     (case (at', payload) of
        (Some t, Some p) \<Rightarrow> insertV1FactTx E k factType halID (Some seq) t p db
      | _ \<Rightarrow> (Inl (ErrOther ''nil pointer''), db))"

definition telemetry_facts :: "pg_env \<Rightarrow> bool \<Rightarrow> bool \<Rightarrow> V1Transaction \<Rightarrow> PostgresStore \<Rightarrow> unit res \<times> PostgresStore" where
  "telemetry_facts E energyAccepted socAccepted current db =
     tx_bind (if energyAccepted then
         tx_bind (if energy_limit_reached current then
             (let (initiator, reason) = v1EnergyStopCause (tx_EnergyLimitSource current) (tx_LimitType current)
              in tx_bind (ensureV1StopWorkflowTx E current initiator reason db) (\<lambda>_ db1. (Inr (), db1)))
           else (Inr (), db))
           (\<lambda>_ db1. insert_seq_fact E 0 ''transaction.meter'' (tx_HALTransactionID current) (tx_MeterSequence current)
              (tx_MeterObservedAt current) (v1MeterFact current) db1)
       else (Inr (), db))
       (\<lambda>_ db2. if socAccepted then
           insert_seq_fact E 1 ''transaction.soc'' (tx_HALTransactionID current) (tx_SoCSequence current)
             (tx_SoCObservedAt current) (v1SoCFact current) db2
         else (Inr (), db2))"

definition telemetry_tx ::
  "pg_env \<Rightarrow> string \<Rightarrow> int \<Rightarrow> V1MeterTelemetry \<Rightarrow> PostgresStore
   \<Rightarrow> (V1Transaction \<times> V1TelemetryUpdateResult) res \<times> PostgresStore" where
  "telemetry_tx E identity ocppID telemetry db =
     (case find (\<lambda>r. tx_ChargerOCPPIdentity r = identity \<and> tx_OCPPTransactionID r = ocppID) (db_transactions db) of
        None \<Rightarrow> (Inl ErrV1TransactionNotFound, db)
      | Some row \<Rightarrow>
        (let (energyAccepted, row1) = pg_apply_energy telemetry row; halID = tx_HALTransactionID row in
         case pg_apply_soc telemetry row1 of
           Inl err \<Rightarrow> (Inl err, db)
         | Inr (socAccepted, row2) \<Rightarrow>
           (let db1 = db\<lparr>db_transactions := sql_update (\<lambda>r. tx_HALTransactionID r = halID) (\<lambda>_. row2) (db_transactions db)\<rparr>
            in case getV1TransactionByID halID db1 of
                 Inl err \<Rightarrow> (Inl err, db1)
               | Inr current \<Rightarrow>
                   tx_bind (telemetry_facts E energyAccepted socAccepted current db1)
                     (\<lambda>_ db2. (Inr (current, \<lparr>telres_EnergyAccepted = energyAccepted,
                        telres_SoCAccepted = socAccepted\<rparr>), db2)))))"

definition pg_UpdateV1TelemetryForOCPP ::
  "pg_env \<Rightarrow> string \<Rightarrow> int \<Rightarrow> V1MeterTelemetry \<Rightarrow> PostgresStore
   \<Rightarrow> (V1Transaction \<times> V1TelemetryUpdateResult) res \<times> PostgresStore" where
  "pg_UpdateV1TelemetryForOCPP E identity ocppID telemetry db =
     (if V1MeterTelemetry_Empty telemetry then (Inl ErrV1InvalidEvidence, db)
      else pg_tx (telemetry_tx E identity ocppID telemetry) db)"

definition pg_UpdateV1Meter ::
  "pg_env \<Rightarrow> string \<Rightarrow> int \<Rightarrow> int \<Rightarrow> gotime \<Rightarrow> PostgresStore \<Rightarrow> V1Transaction res \<times> PostgresStore" where
  "pg_UpdateV1Meter E halID ocppID meterWh observedAt db =
     (case pg_GetV1Transaction halID db of
        Inl err \<Rightarrow> (Inl err, db)
      | Inr t \<Rightarrow>
          if tx_OCPPTransactionID t \<noteq> ocppID then (Inl ErrV1TransactionNotFound, db)
          else tx_bind (pg_UpdateV1TelemetryForOCPP E (tx_ChargerOCPPIdentity t) ocppID
                 \<lparr>tel_EnergyWh = Some meterWh, tel_EnergyObservedAt = Some observedAt,
                  tel_SoCPercent = None, tel_SoCObservedAt = None\<rparr> db)
                 (\<lambda>(updated, _) db'. (Inr updated, db')))"

subsection \<open>Completion\<close>

definition pg_complete_row ::
  "v1MeterEvidence \<Rightarrow> int \<Rightarrow> string \<Rightarrow> gotime \<Rightarrow> gotime \<Rightarrow> V1Transaction \<Rightarrow> V1Transaction" where
  "pg_complete_row classification meterStopWh ocppReason completedAt observedAt row =
     (let effectiveStopWh = ev_EffectiveWh classification;
          meterObservedAt = (case tx_MeterObservedAt row of
            None \<Rightarrow> completedAt | Some t \<Rightarrow> if completedAt < t then t else completedAt)
      in row\<lparr>tx_MeterStopWh := Some effectiveStopWh, tx_RawMeterStopWh := Some meterStopWh,
           tx_MeterStopAdjustmentWh := Some (ev_AdjustmentWh classification),
           tx_MeterStopEvidence := evidence_string (ev_Class classification),
           tx_LatestMeterWh := Some effectiveStopWh, tx_MeterObservedAt := Some (pg_ts meterObservedAt),
           tx_OCPPStopReason := ocppReason, tx_CompletedAt := Some (pg_ts completedAt),
           tx_ObservedCompletedAt := Some (pg_ts observedAt), tx_StopState := ''COMPLETED''\<rparr>)"

definition getV1CompletionCommandTx :: "string \<Rightarrow> PostgresStore \<Rightarrow> V1RemoteCommand option res" where
  "getV1CompletionCommandTx halTransactionID db =
     (case sort_key (\<lambda>c. (cmd_CreatedAt c, cmd_HALCommandID c)) (map cr_Command (filter (\<lambda>r. cmd_Kind (cr_Command r) = ''STOP''
             \<and> cr_StopWorkflowTransactionID r = halTransactionID \<and> halTransactionID \<noteq> '''') (db_commands db))) of
        [] \<Rightarrow> Inr None
      | c # _ \<Rightarrow> (case getV1CommandWith db (cmd_CMSCommandID c) of Inl err \<Rightarrow> Inl err | Inr command \<Rightarrow> Inr (Some command)))"

definition complete_writes :: "gotime \<Rightarrow> string \<Rightarrow> gotime \<Rightarrow> V1Transaction \<Rightarrow> PostgresStore \<Rightarrow> PostgresStore" where
  "complete_writes now halID completedAt row db = db\<lparr>
     db_transactions := sql_update (\<lambda>r. tx_HALTransactionID r = halID) (\<lambda>_. row) (db_transactions db),
     db_workflows := sql_update (\<lambda>r. workflow_key r = halID \<and> wf_State (wr_Workflow r) \<noteq> ''COMPLETED'')
       (\<lambda>r. workflow_update now ''COMPLETED'' None
          (r\<lparr>wr_Workflow := (wr_Workflow r)\<lparr>wf_CompletedAt := Some (pg_ts completedAt)\<rparr>\<rparr>)) (db_workflows db),
     db_commands := sql_update (stop_command_live halID)
       (\<lambda>r. r\<lparr>cr_Command := (cr_Command r)\<lparr>cmd_State := ''SUPERSEDED'', cmd_UpdatedAt := now\<rparr>\<rparr>) (db_commands db)\<rparr>"

definition complete_tx ::
  "pg_env \<Rightarrow> string \<Rightarrow> int \<Rightarrow> string \<Rightarrow> gotime \<Rightarrow> gotime \<Rightarrow> PostgresStore \<Rightarrow> V1Transaction res \<times> PostgresStore" where
  "complete_tx E halID meterStopWh ocppReason completedAt observedAt db =
     (case lockV1StopLifecycleRows halID db of
        Inl err \<Rightarrow> (Inl err, db)
      | Inr (transaction, _) \<Rightarrow>
        if tx_CompletedAt transaction \<noteq> None then
          (if completion_replay_matches transaction meterStopWh ocppReason completedAt
           then (Inr transaction, db) else (Inl ErrV1InvalidEvidence, db))
        else if completion_inadmissible transaction meterStopWh completedAt observedAt then (Inl ErrV1InvalidEvidence, db)
        else (case classifyV1MeterEvidence (tx_MeterStartWh transaction) (tx_LatestMeterWh transaction) meterStopWh of
            Inl _ \<Rightarrow> (Inl ErrV1InvalidEvidence, db)
          | Inr classification \<Rightarrow>
            (let db1 = complete_writes (env_now E) halID completedAt
                   (pg_complete_row classification meterStopWh ocppReason completedAt observedAt transaction) db
             in case getV1TransactionByID halID db1 of
                  Inl err \<Rightarrow> (Inl err, db1)
                | Inr completed \<Rightarrow>
                    (case getV1CompletionCommandTx halID db1 of
                       Inl err \<Rightarrow> (Inl err, db1)
                     | Inr command \<Rightarrow>
                         (case v1CompletedFact completed command of
                            None \<Rightarrow> (Inl (ErrOther ''nil pointer''), db1)
                          | Some payload \<Rightarrow>
                              tx_bind (insertV1FactTx E 0 ''transaction.completed'' halID None observedAt payload db1)
                                (\<lambda>_ db2. (Inr completed, db2)))))))"

definition pg_CompleteV1Transaction ::
  "lifecycle_faults \<Rightarrow> pg_env \<Rightarrow> string \<Rightarrow> int \<Rightarrow> string \<Rightarrow> gotime \<Rightarrow> gotime \<Rightarrow> PostgresStore
   \<Rightarrow> V1Transaction res \<times> PostgresStore" where
  "pg_CompleteV1Transaction F E halID meterStopWh ocppReason completedAt observedAt =
     withV1StopLifecycleTransaction F (complete_tx E halID meterStopWh ocppReason completedAt observedAt)"

end
