(* ===== verification/PG_Lifecycle.thy ===== *)
theory PG_Lifecycle
  imports PG_Stops
begin

text \<open>
  The invariant of the charging lifecycle on PostgreSQL and its preservation by every operation of
  \<open>PG_Commands\<close> and \<open>PG_Stops\<close>: rows are unique and well formed, a credential stands for one
  transaction, a completed transaction has exactly one completion fact and a settled workflow, and
  an open transaction that reached its energy limit has a durable stop workflow.
\<close>

lemma in_sql_updateE:
  assumes "x \<in> set (sql_update P f t)"
  obtains r where "r \<in> set t" and "x = (if P r then f r else r)"
  using assms unfolding set_sql_update by (elim imageE) blast

abbreviation tx_ids :: "PostgresStore \<Rightarrow> string set" where
  "tx_ids db \<equiv> tx_HALTransactionID ` set (db_transactions db)"

abbreviation completion_keys :: "PostgresStore \<Rightarrow> string set" where
  "completion_keys db \<equiv> fst ` set (db_completion_keys db)"

definition keys_inv :: "PostgresStore \<Rightarrow> bool" where
  "keys_inv db \<longleftrightarrow> distinct (map tx_HALTransactionID (db_transactions db))
     \<and> distinct (map tx_OCPPTransactionID (db_transactions db))
     \<and> distinct (map cred_IDTag (db_credentials db)) \<and> distinct (map command_key (db_commands db))
     \<and> distinct (map workflow_key (db_workflows db))"

definition tx_ok :: "PostgresStore \<Rightarrow> V1Transaction \<Rightarrow> bool" where
  "tx_ok db t \<longleftrightarrow> tx_wf (load_transaction t) \<and> pg_ts (tx_ActualStartedAt t) = tx_ActualStartedAt t
     \<and> tx_HALTransactionID t \<noteq> ''''
     \<and> (\<exists>c\<in>set (db_credentials db). cred_IDTag c = tx_IDTag t \<and> cred_HALTransactionID c = tx_HALTransactionID t)
     \<and> (tx_HALTransactionID t \<in> completion_keys db \<longleftrightarrow> tx_CompletedAt t \<noteq> None)
     \<and> (tx_CompletedAt t \<noteq> None \<longrightarrow> (\<forall>w\<in>set (db_workflows db).
          workflow_key w = tx_HALTransactionID t \<longrightarrow> wf_State (wr_Workflow w) = ''COMPLETED''))"

definition life_core :: "PostgresStore \<Rightarrow> bool" where
  "life_core db \<longleftrightarrow> keys_inv db \<and> (\<forall>t\<in>set (db_transactions db). tx_ok db t)
     \<and> (\<forall>c\<in>set (db_credentials db). cred_HALTransactionID c \<noteq> '''' \<longrightarrow> cred_HALTransactionID c \<in> tx_ids db)
     \<and> workflow_key ` set (db_workflows db) \<subseteq> tx_ids db
     \<and> completion_keys db \<subseteq> tx_ids db
     \<and> (\<forall>a\<in>completion_keys db. sql_count (is_completion a) (db_facts db) = 1)"

definition limit_inv :: "PostgresStore \<Rightarrow> bool" where
  "limit_inv db \<longleftrightarrow> (\<forall>t\<in>set (db_transactions db). tx_CompletedAt t = None \<and> energy_limit_reached t
     \<longrightarrow> tx_HALTransactionID t \<in> workflow_key ` set (db_workflows db))"

definition life_inv :: "PostgresStore \<Rightarrow> bool" where
  "life_inv db \<longleftrightarrow> fact_inv db \<and> life_core db \<and> limit_inv db"

definition tx_progress :: "PostgresStore \<Rightarrow> PostgresStore \<Rightarrow> bool" where
  "tx_progress db db' \<longleftrightarrow> (\<forall>t\<in>set (db_transactions db). \<exists>t'\<in>set (db_transactions db').
     tx_advances (load_transaction t) (load_transaction t'))"

text \<open>What an operation keeps of the lifecycle.\<close>

definition life_kept :: "PostgresStore \<Rightarrow> PostgresStore \<Rightarrow> bool" where
  "life_kept db db' \<longleftrightarrow> (life_inv db \<longrightarrow> life_inv db' \<and> tx_progress db db' \<and> outbox_kept (db_facts db) (db_facts db'))"

lemma tx_progress_refl [simp]: "tx_progress db db"
  by (auto simp: tx_progress_def intro!: bexI)

lemma tx_progress_same: "db_transactions db' = db_transactions db \<Longrightarrow> tx_progress db db'"
  by (auto simp: tx_progress_def intro!: bexI)

lemma tx_progress_trans: "tx_progress a b \<Longrightarrow> tx_progress b c \<Longrightarrow> tx_progress a c"
  unfolding tx_progress_def using tx_advances_trans by blast

lemma life_kept_refl [simp]: "life_kept db db"
  by (simp add: life_kept_def)

lemma life_kept_trans: "life_kept a b \<Longrightarrow> life_kept b c \<Longrightarrow> life_kept a c"
  unfolding life_kept_def using tx_progress_trans outbox_kept_trans by blast

lemma load_sel [simp]:
  "tx_HALTransactionID (load_transaction t) = tx_HALTransactionID t"
  "tx_CompletedAt (load_transaction t) = tx_CompletedAt t"
  "tx_LatestMeterWh (load_transaction t) = tx_LatestMeterWh t"
  "tx_MeterStartWh (load_transaction t) = tx_MeterStartWh t"
  "tx_OCPPTransactionID (load_transaction t) = tx_OCPPTransactionID t"
  "tx_ChargerOCPPIdentity (load_transaction t) = tx_ChargerOCPPIdentity t"
  "tx_IDTag (load_transaction t) = tx_IDTag t"
  "tx_EnergyLimitWh (load_transaction t) = tx_EnergyLimitWh t"
  "tx_ActualStartedAt (load_transaction t) = tx_ActualStartedAt t"
  "tx_StopState (load_transaction t) = tx_StopState t"
  "load_transaction (load_transaction t) = load_transaction t"
  by (simp_all add: load_transaction_def split: option.splits)

lemma load_limit [simp]: "energy_limit_reached (load_transaction t) = energy_limit_reached t"
  by (simp add: energy_limit_reached_def split: option.splits)

lemma load_advances: "tx_advances a b \<Longrightarrow> tx_advances (load_transaction a) (load_transaction b)"
  by (auto simp: tx_advances_def load_transaction_def)

subsection \<open>Facts do not disturb the lifecycle\<close>

lemma life_core_frame:
  assumes "db_transactions db' = db_transactions db" and "db_credentials db' = db_credentials db"
    and "map command_key (db_commands db') = map command_key (db_commands db)"
    and "db_workflows db' = db_workflows db" and "db_completion_keys db' = db_completion_keys db"
    and "\<And>a. sql_count (is_completion a) (db_facts db') = sql_count (is_completion a) (db_facts db)"
  shows "life_core db' = life_core db" and "limit_inv db' = limit_inv db"
  using assms(6) by (simp_all add: life_core_def keys_inv_def tx_ok_def limit_inv_def assms(1-5))

lemma insert_other_fact:
  assumes "insertV1FactTx E k factType aggregate sequence occurredAt payload db = (Inr u, db')"
    and "factType \<noteq> ''transaction.completed''"
  shows "\<exists>facts. db' = db\<lparr>db_facts := facts\<rparr>
    \<and> (\<forall>a. sql_count (is_completion a) facts = sql_count (is_completion a) (db_facts db))"
proof -
  obtain i d where "insert_fact_row (new_fact_row (env_now E) i d factType aggregate sequence
      (normalizeV1FactOccurredAt occurredAt) payload) db = (Inr u, db')"
    using assms unfolding insertV1FactTx_def Let_def by (auto split: sum.splits)
  then have "db' = db \<or> db' = db\<lparr>db_facts := db_facts db @ [new_fact_row (env_now E) i d factType aggregate sequence
      (normalizeV1FactOccurredAt occurredAt) payload]\<rparr>"
    by (auto simp: insert_fact_row_def split: if_splits)
  then show ?thesis
    by (elim disjE; intro exI [of _ "db_facts db'"]) (use assms(2) in \<open>simp_all add: is_completion_def\<close>)
qed

lemma life_fact:
  assumes "insertV1FactTx E k factType aggregate sequence occurredAt payload db = (Inr u, db')"
    and "factType \<noteq> ''transaction.completed''"
  shows "life_kept db db'" and "db_transactions db' = db_transactions db"
    and "life_core db' = life_core db" and "limit_inv db' = limit_inv db" and "db_workflows db' = db_workflows db"
    and "db_commands db' = db_commands db"
proof -
  obtain facts where db': "db' = db\<lparr>db_facts := facts\<rparr>"
    and c: "\<And>a. sql_count (is_completion a) facts = sql_count (is_completion a) (db_facts db)"
    using insert_other_fact [OF assms] by blast
  show core: "life_core db' = life_core db" "limit_inv db' = limit_inv db"
    by (intro life_core_frame; simp add: db' c)+
  show "db_transactions db' = db_transactions db" "db_workflows db' = db_workflows db" "db_commands db' = db_commands db"
    by (simp_all add: db')
  show "life_kept db db'"
    using insertV1FactTx_kept [OF assms(1)] core db'
    by (auto simp: life_kept_def life_inv_def facts_kept_def intro: tx_progress_same)
qed

text \<open>An operation that touches none of the lifecycle tables and only adds facts.\<close>

lemma life_kept_frame:
  assumes "facts_kept db db'" and "db_transactions db' = db_transactions db" and "db_credentials db' = db_credentials db"
    and "map command_key (db_commands db') = map command_key (db_commands db)"
    and "db_workflows db' = db_workflows db" and "db_completion_keys db' = db_completion_keys db"
    and "\<And>a. sql_count (is_completion a) (db_facts db') = sql_count (is_completion a) (db_facts db)"
  shows "life_kept db db'"
  using life_core_frame [OF assms(2-7)] assms(1,2)
  by (auto simp: life_kept_def life_inv_def facts_kept_def intro: tx_progress_same)

lemma life_kept_commands:
  assumes "map command_key cs = map command_key (db_commands db)"
  shows "life_kept db (db\<lparr>db_commands := cs\<rparr>)"
  by (rule life_kept_frame) (simp_all add: assms facts_kept_frame)

subsection \<open>Updating one transaction row\<close>

lemma sql_update_tx_ids: "(\<And>r. P r \<Longrightarrow> tx_advances r (f r)) \<Longrightarrow>
   map tx_HALTransactionID (sql_update P f ts) = map tx_HALTransactionID ts"
  by (rule sql_update_keys) (simp add: tx_advances_def)

lemma update_tx:
  assumes core: "life_core db" and P: "\<And>r. r \<in> set (db_transactions db) \<Longrightarrow> P r \<Longrightarrow> tx_CompletedAt r = None
      \<and> tx_CompletedAt (f r) = None \<and> tx_advances r (f r) \<and> tx_wf (load_transaction (f r))"
  shows "life_core (db\<lparr>db_transactions := sql_update P f (db_transactions db)\<rparr>)"
    and "tx_progress db (db\<lparr>db_transactions := sql_update P f (db_transactions db)\<rparr>)"
proof -
  let ?ts = "db_transactions db"
  let ?ts' = "sql_update P f ?ts"
  have keys: "map tx_HALTransactionID ?ts' = map tx_HALTransactionID ?ts"
    "map tx_OCPPTransactionID ?ts' = map tx_OCPPTransactionID ?ts"
    using P unfolding sql_update_def by (simp_all add: tx_advances_def)
  then have ids: "tx_HALTransactionID ` set ?ts' = tx_HALTransactionID ` set ?ts" by (metis list.set_map)
  have ok: "tx_ok db' t'" if mem: "t' \<in> set ?ts'" and "db' = db\<lparr>db_transactions := ?ts'\<rparr>" for t' db'
  proof -
    obtain r where r: "r \<in> set ?ts" "t' = (if P r then f r else r)" using mem by (rule in_sql_updateE)
    have "tx_ok db r" using core r by (auto simp: life_core_def)
    then show ?thesis using r that P [OF r(1)] by (auto simp: tx_ok_def tx_advances_def)
  qed
  show "life_core (db\<lparr>db_transactions := ?ts'\<rparr>)"
    using core ok [OF _ refl] by (simp add: life_core_def keys_inv_def keys ids)
  have "\<exists>t'\<in>set ?ts'. tx_advances (load_transaction t) (load_transaction t')" if "t \<in> set ?ts" for t
    using that P [OF that] load_advances
    by (intro bexI [of _ "if P t then f t else t"]) (auto simp: set_sql_update)
  then show "tx_progress db (db\<lparr>db_transactions := ?ts'\<rparr>)" by (simp add: tx_progress_def)
qed

lemma update_workflows:
  assumes core: "life_core db" and P: "\<And>r. P r \<Longrightarrow> workflow_key (f r) = workflow_key r \<and> wf_State (wr_Workflow r) \<noteq> ''COMPLETED''"
  shows "life_core (db\<lparr>db_workflows := sql_update P f (db_workflows db)\<rparr>)"
    and "limit_inv db \<Longrightarrow> limit_inv (db\<lparr>db_workflows := sql_update P f (db_workflows db)\<rparr>)"
proof -
  let ?ws' = "sql_update P f (db_workflows db)"
  have keys: "map workflow_key ?ws' = map workflow_key (db_workflows db)"
    by (rule sql_update_keys) (use P in blast)
  then have ids: "workflow_key ` set ?ws' = workflow_key ` set (db_workflows db)" by (metis list.set_map)
  have "wf_State (wr_Workflow w) = ''COMPLETED''" if mem: "w \<in> set ?ws'" and that: "workflow_key w = tx_HALTransactionID t"
    "t \<in> set (db_transactions db)" "tx_CompletedAt t \<noteq> None" for w t
  proof -
    obtain r where r: "r \<in> set (db_workflows db)" "w = (if P r then f r else r)" using mem by (rule in_sql_updateE)
    have "tx_ok db t" using core that by (auto simp: life_core_def)
    moreover have "workflow_key r = tx_HALTransactionID t" using r that(1) P [of r] by (cases "P r") auto
    ultimately have "wf_State (wr_Workflow r) = ''COMPLETED''" using r that by (auto simp: tx_ok_def)
    then show ?thesis using r P [of r] by (cases "P r") auto
  qed
  with core show "life_core (db\<lparr>db_workflows := ?ws'\<rparr>)"
    by (auto simp: life_core_def keys_inv_def keys ids tx_ok_def)
  show "limit_inv (db\<lparr>db_workflows := ?ws'\<rparr>)" if "limit_inv db"
    using that by (simp add: limit_inv_def ids)
qed

lemma life_kept_workflows:
  assumes "\<And>r. P r \<Longrightarrow> workflow_key (f r) = workflow_key r \<and> wf_State (wr_Workflow r) \<noteq> ''COMPLETED''"
  shows "life_kept db (db\<lparr>db_workflows := sql_update P f (db_workflows db)\<rparr>)"
proof -
  have "facts_kept db (db\<lparr>db_workflows := sql_update P f (db_workflows db)\<rparr>)" by (rule facts_kept_frame) simp_all
  then show ?thesis
    using update_workflows [of db P f] assms
    by (auto simp: life_kept_def life_inv_def facts_kept_def intro: tx_progress_same)
qed

subsection \<open>START commands\<close>

lemma command_update_key [simp]:
  "command_key (command_update now state until r) = command_key r"
  "command_key (mark_command now state result category detail r) = command_key r"
  "workflow_key (workflow_update now state until w) = workflow_key w"
  "workflow_key (mark_workflow now state result category detail w) = workflow_key w"
  by (simp_all add: command_update_def mark_command_def workflow_update_def mark_workflow_def)

lemma ClaimV1Start_state: "snd (pg_ClaimV1StartDelivery now i db) =
   db\<lparr>db_commands := sql_update (start_in i ''PERSISTED'')
      (command_update now ''PENDING_DELIVERY'' (Some (now + 30 * duration_second))) (db_commands db)\<rparr>"
  by (simp add: pg_ClaimV1StartDelivery_def Let_def split: sum.splits)

lemma ClaimV1Start_kept: "life_kept db (snd (pg_ClaimV1StartDelivery now i db))"
  unfolding ClaimV1Start_state by (intro life_kept_commands sql_update_keys) simp

lemma BeginV1Command_kept: "life_kept db (snd (pg_BeginV1CommandDelivery now i db))"
  unfolding pg_BeginV1CommandDelivery_def Let_def
  by simp (intro life_kept_commands sql_update_keys, simp)

lemma RecoverV1Command_kept: "life_kept db (pg_RecoverV1CommandDelivery now db)"
  unfolding pg_RecoverV1CommandDelivery_def
  by (intro life_kept_commands) (simp add: sql_update_keys)

lemma MarkV1Command_kept: "life_kept db (snd (pg_MarkV1CommandDelivery E i status result detail db))"
  unfolding pg_MarkV1CommandDelivery_def
proof (rule pg_tx_rel)
  fix x db'
  let ?live = "\<lambda>r. command_key r = i \<and> cmd_State (cr_Command r) \<notin> {''MATERIALIZED'', ''SUPERSEDED''}"
  obtain state category where oc: "delivery_outcome status = (state, category)" by force
  define db1 where "db1 = db\<lparr>db_commands := sql_update ?live (mark_command (env_now E) state result category detail)
    (db_commands db)\<rparr>"
  assume "(let (state, category) = delivery_outcome status; live = ?live; rows = sql_count live (db_commands db);
      db1 = db\<lparr>db_commands := sql_update live (mark_command (env_now E) state result category detail) (db_commands db)\<rparr>
    in case getV1CommandWith db1 i of Inl err \<Rightarrow> (Inl err, db1)
       | Inr command \<Rightarrow> if rows = 1
           then tx_bind (insertV1FactTx E 0 ''command.updated'' (cmd_HALCommandID command) None (cmd_UpdatedAt command)
             (v1CommandFact command) db1) (\<lambda>_ db2. (Inr command, db2))
           else (Inr command, db1)) = (Inr x, db')"
  then have "db' = db1 \<or> (\<exists>a t p u. insertV1FactTx E 0 ''command.updated'' a None t p db1 = (Inr u, db'))"
    by (auto simp: oc db1_def Let_def tx_bind_Inr split: sum.splits if_splits)
  moreover have "life_kept db db1"
    unfolding db1_def by (intro life_kept_commands sql_update_keys) simp
  ultimately show "life_kept db db'"
    by (auto dest!: life_fact(1) intro: life_kept_trans)
qed simp

lemma insert_command_Inr:
  assumes "insert_command row db = (Inr n, db')"
  obtains (exists) "n = 0" and "db' = db" and "command_key row \<in> command_key ` set (db_commands db)"
  | (new) "n = 1" and "db' = db\<lparr>db_commands := db_commands db @ [row]\<rparr>"
      and "command_key row \<notin> command_key ` set (db_commands db)"
  using assms by (auto simp: insert_command_def Let_def split: if_splits)

lemma insert_credential_Inr:
  assumes "insert_credential c db = (Inr u, db')"
  shows "db' = db\<lparr>db_credentials := db_credentials db @ [c]\<rparr> \<and> cred_IDTag c \<notin> cred_IDTag ` set (db_credentials db)"
  using assms by (auto simp: insert_credential_def split: if_splits)

lemma insert_credential_kept:
  assumes "insert_credential c db = (Inr u, db')" and "cred_HALTransactionID c = ''''"
  shows "life_kept db db'"
proof -
  have db': "db' = db\<lparr>db_credentials := db_credentials db @ [c]\<rparr>" "cred_IDTag c \<notin> cred_IDTag ` set (db_credentials db)"
    using insert_credential_Inr [OF assms(1)] by auto
  then have "facts_kept db db'" by (intro facts_kept_frame) simp_all
  moreover have "life_core db'" if "life_core db"
    using that db'(2) assms(2) by (auto simp: db'(1) life_core_def keys_inv_def tx_ok_def)
  moreover have "limit_inv db' = limit_inv db" by (simp add: limit_inv_def db'(1))
  ultimately show ?thesis
    by (auto simp: life_kept_def life_inv_def facts_kept_def db'(1) intro: tx_progress_same)
qed

lemma insert_command_kept: "insert_command row db = (Inr n, db') \<Longrightarrow> life_kept db db'"
proof (erule insert_command_Inr)
  assume new: "db' = db\<lparr>db_commands := db_commands db @ [row]\<rparr>" "command_key row \<notin> command_key ` set (db_commands db)"
  then have "facts_kept db db'" by (intro facts_kept_frame) simp_all
  moreover have "life_core db'" if "life_core db"
    using that new(2) by (auto simp: new(1) life_core_def keys_inv_def tx_ok_def)
  moreover have "limit_inv db' = limit_inv db" by (simp add: limit_inv_def new(1))
  ultimately show ?thesis
    by (auto simp: life_kept_def life_inv_def facts_kept_def new(1) intro: tx_progress_same)
qed simp

lemma create_start_tx_kept:
  assumes "create_start_tx E input db = (Inr x, db')"
  shows "life_kept db db'"
proof -
  obtain i where "NewSecureUUIDString (env_uuid E 0) = Inr i"
    using assms by (auto simp: create_start_tx_def split: sum.splits)
  then obtain n db1 where ins: "insert_command (start_command_row (env_now E) i input) db = (Inr n, db1)"
    and rest: "db' = db1 \<or> (\<exists>u. insert_credential
      ((new_credential input)\<lparr>cred_ExpiresAt := pg_ts (stin_CredentialExpiresAt input)\<rparr>) db1 = (Inr u, db'))"
    using assms
    by (cases "insert_command (start_command_row (env_now E) i input) db";
        cases "fst (insert_command (start_command_row (env_now E) i input) db)")
      (auto simp: create_start_tx_def tx_bind_Inr split: if_splits sum.splits)
  have "life_kept db1 db'"
    using rest insert_credential_kept by (auto simp: new_credential_def)
  with insert_command_kept [OF ins] show ?thesis by (rule life_kept_trans)
qed

lemma CreateV1Start_state: "snd (pg_CreateV1StartCommand E input db) = snd (pg_tx (create_start_tx E input) db)"
  by (cases "pg_tx (create_start_tx E input) db"; cases "fst (pg_tx (create_start_tx E input) db)")
    (auto simp: pg_CreateV1StartCommand_def tx_bind_def split: option.splits sum.splits)

lemma CreateV1Start_kept: "life_kept db (snd (pg_CreateV1StartCommand E input db))"
  unfolding CreateV1Start_state by (rule pg_tx_rel) (auto intro: create_start_tx_kept)

subsection \<open>Materialization\<close>

text \<open>
  What the HAL can rely on from outside: an identifier of \<^verbatim>\<open>uuid.NewRandom\<close> is never empty, and
  registers are 64-bit.
\<close>

definition env_ok :: "pg_env \<Rightarrow> bool" where
  "env_ok E \<longleftrightarrow> (\<forall>k. env_uuid E k \<noteq> Some '''')"

lemma start_row_ok:
  assumes "\<not> invalid_start_evidence input" and "in_int64 (mat_MeterStartWh input)"
  shows "tx_wf (load_transaction (start_row (materialized_transaction halID c command input)))"
    and "pg_ts (tx_ActualStartedAt (start_row t)) = tx_ActualStartedAt (start_row t)"
  using assms by (simp_all add: start_row_def materialized_transaction_def new_transaction_def load_transaction_def
      tx_wf_def invalid_start_evidence_def)

lemma start_row_sel [simp]:
  "tx_HALTransactionID (start_row (materialized_transaction halID c command input)) = halID"
  "tx_IDTag (start_row (materialized_transaction halID c command input)) = cred_IDTag c"
  "tx_CompletedAt (start_row (materialized_transaction halID c command input)) = None"
  "energy_limit_reached (start_row (materialized_transaction halID c command input)) = False"
  by (simp_all add: start_row_def materialized_transaction_def new_transaction_def energy_limit_reached_def split: option.splits)

lemma insert_transaction_Inr:
  assumes "insert_transaction t db = (Inr u, db')"
  shows "db' = db\<lparr>db_transactions := db_transactions db @ [t]\<rparr>" and "tx_HALTransactionID t \<notin> tx_ids db"
    and "tx_OCPPTransactionID t \<notin> tx_OCPPTransactionID ` set (db_transactions db)"
  using assms by (auto simp: insert_transaction_def split: if_splits)

text \<open>The new transaction and the credential it consumes keep the invariant together.\<close>

lemma materialize_rows:
  assumes inv: "life_inv db" and cred: "sql_row cred_IDTag tag (db_credentials db) = Some c" "cred_HALTransactionID c = ''''"
    and row: "tx_HALTransactionID row \<notin> tx_ids db" "tx_OCPPTransactionID row \<notin> tx_OCPPTransactionID ` set (db_transactions db)"
      "tx_wf (load_transaction row)" "pg_ts (tx_ActualStartedAt row) = tx_ActualStartedAt row" "tx_HALTransactionID row \<noteq> ''''"
      "tx_IDTag row = cred_IDTag c" "tx_CompletedAt row = None" "\<not> energy_limit_reached row"
    and keys: "map command_key cs = map command_key (db_commands db)"
    and db': "db' = db\<lparr>db_transactions := db_transactions db @ [row],
      db_credentials := sql_update (\<lambda>c. cred_IDTag c = tag) (\<lambda>c. c\<lparr>cred_ConsumedAt := at', cred_HALTransactionID := tx_HALTransactionID row\<rparr>)
        (db_credentials db), db_commands := cs\<rparr>"
  shows "life_inv db' \<and> tx_progress db db'"
proof -
  let ?cs = "sql_update (\<lambda>c. cred_IDTag c = tag)
      (\<lambda>c. c\<lparr>cred_ConsumedAt := at', cred_HALTransactionID := tx_HALTransactionID row\<rparr>) (db_credentials db)"
  have core: "life_core db" and lim: "limit_inv db" and f: "fact_inv db" using inv by (auto simp: life_inv_def)
  have c: "c \<in> set (db_credentials db)" "cred_IDTag c = tag" using sql_row_SomeD [OF cred(1)] by auto
  have dist: "distinct (map cred_IDTag (db_credentials db))" using core by (simp add: life_core_def keys_inv_def)
  have tags: "map cred_IDTag ?cs = map cred_IDTag (db_credentials db)" by (rule sql_update_keys) simp
  have uniq: "d = c" if "d \<in> set (db_credentials db)" "cred_IDTag d = tag" for d
    using sql_row_unique [OF dist that(1)] that(2) cred(1) by simp
  have old: "tx_ok db' t" if "t \<in> set (db_transactions db)" for t
  proof -
    have ok: "tx_ok db t" using core that by (simp add: life_core_def)
    then obtain d where d: "d \<in> set (db_credentials db)" "cred_IDTag d = tx_IDTag t" "cred_HALTransactionID d = tx_HALTransactionID t"
      "tx_HALTransactionID t \<noteq> ''''" by (auto simp: tx_ok_def)
    then have "cred_IDTag d \<noteq> tag" using uniq [of d] cred(2) by auto
    then have "d \<in> set ?cs" using d(1) by (auto simp: set_sql_update)
    then show ?thesis using ok d by (auto simp: tx_ok_def db')
  qed
  have "c\<lparr>cred_ConsumedAt := at', cred_HALTransactionID := tx_HALTransactionID row\<rparr> \<in> set ?cs"
    unfolding set_sql_update using c by force
  then have "\<exists>d\<in>set ?cs. cred_IDTag d = tx_IDTag row \<and> cred_HALTransactionID d = tx_HALTransactionID row"
    by (rule rev_bexI) (simp add: row(6))
  moreover have "tx_HALTransactionID row \<notin> completion_keys db" using core row(1) by (auto simp: life_core_def)
  ultimately have new: "tx_ok db' row" using row(3-5,7) by (simp add: tx_ok_def db')

  have consumed: "cred_HALTransactionID d \<in> tx_ids db'" if mem: "d \<in> set ?cs" and ne: "cred_HALTransactionID d \<noteq> ''''" for d
  proof -
    obtain r where "r \<in> set (db_credentials db)" "d = (if cred_IDTag r = tag
       then r\<lparr>cred_ConsumedAt := at', cred_HALTransactionID := tx_HALTransactionID row\<rparr> else r)"
      using mem by (rule in_sql_updateE)
    then show ?thesis using core ne by (cases "cred_IDTag r = tag") (auto simp: life_core_def db')
  qed
  have "life_core db'"
    unfolding life_core_def
  proof (intro conjI)
    show "keys_inv db'" using core row(1,2) by (simp add: life_core_def keys_inv_def db' tags keys)
  qed (use core old new consumed in \<open>auto simp: life_core_def db'\<close>)
  moreover have "limit_inv db'" using lim row(8) by (auto simp: limit_inv_def db')
  moreover have "fact_inv db'" using f by (simp add: fact_inv_def db')
  moreover have "tx_progress db db'" by (force simp: tx_progress_def db')
  ultimately show ?thesis by (simp add: life_inv_def)
qed

lemma materialize_writes_kept:
  assumes run: "materialize_writes E halID c command input db = (Inr u, db')"
    and cred: "sql_row cred_IDTag (mat_IDTag input) (db_credentials db) = Some c" "cred_HALTransactionID c = ''''"
    and input: "\<not> invalid_start_evidence input" "in_int64 (mat_MeterStartWh input)" and "halID \<noteq> ''''"
  shows "life_kept db db'"
proof -
  let ?row = "start_row (materialized_transaction halID c command input)"
  define cs where "cs = sql_update (\<lambda>r. command_key r = cmd_CMSCommandID command)
      (\<lambda>r. r\<lparr>cr_Command := (cr_Command r)\<lparr>cmd_State := ''MATERIALIZED'', cmd_HALTransactionID := halID,
         cmd_OCPPTransactionID := Some (mat_OCPPTransactionID input), cmd_UpdatedAt := env_now E\<rparr>\<rparr>) (db_commands db)"
  define db3 where "db3 = db\<lparr>db_transactions := db_transactions db @ [?row],
      db_credentials := sql_update (\<lambda>c. cred_IDTag c = mat_IDTag input)
        (\<lambda>c. c\<lparr>cred_ConsumedAt := Some (pg_ts (mat_ObservedAt input)), cred_HALTransactionID := halID\<rparr>) (db_credentials db),
      db_commands := cs\<rparr>"
  obtain v where ins: "insert_transaction ?row db = (Inr v, db\<lparr>db_transactions := db_transactions db @ [?row]\<rparr>)"
    using run insert_transaction_Inr(1) by (auto simp: materialize_writes_def Let_def split: sum.splits prod.splits)
  then obtain db4 p1 p2 where facts: "insertV1FactTx E 1 ''transaction.started'' halID None (mat_ObservedAt input) p1 db3 = (Inr (), db4)"
    "insertV1FactTx E 2 ''command.updated'' (cmd_HALCommandID command) None (mat_ObservedAt input) p2 db4 = (Inr u, db')"
    using run by (auto simp: materialize_writes_def Let_def tx_bind_Inr consume_credential_def db3_def cs_def split: if_splits)
  have "life_kept db db3"
    unfolding life_kept_def
  proof
    assume inv: "life_inv db"
    have cs: "map command_key cs = map command_key (db_commands db)" unfolding cs_def by (rule sql_update_keys) simp
    have "life_inv db3 \<and> tx_progress db db3"
      using insert_transaction_Inr(2,3) [OF ins] start_row_ok [OF input] \<open>halID \<noteq> ''''\<close> cs
      by (intro materialize_rows [OF inv cred, where row = ?row]) (simp_all add: db3_def)
    then show "life_inv db3 \<and> tx_progress db db3 \<and> outbox_kept (db_facts db) (db_facts db3)"
      by (simp add: db3_def)
  qed
  moreover have "life_kept db3 db4" "life_kept db4 db'"
    using life_fact(1) [OF facts(1)] life_fact(1) [OF facts(2)] by simp_all
  ultimately show ?thesis by (meson life_kept_trans)
qed

lemma materialize_tx_kept:
  assumes "materialize_tx E input db = (Inr out, db')" and "env_ok E"
    and "\<not> invalid_start_evidence input" "in_int64 (mat_MeterStartWh input)"
  shows "life_kept db db'"
proof (cases "db' = db")
  case False
  obtain c where c: "sql_row cred_IDTag (mat_IDTag input) (db_credentials db) = Some c"
    using assms(1) by (auto simp: materialize_tx_def split: option.splits)
  have "cred_HALTransactionID c = ''''"
    using assms(1) False c by (auto simp: materialize_tx_def split: if_splits sum.splits)
  moreover obtain halID command u where "env_uuid E 0 = Some halID"
    "materialize_writes E halID c command input db = (Inr u, db')"
    using assms(1) False c
    by (auto simp: materialize_tx_def tx_bind_Inr NewSecureUUIDString_def split: if_splits sum.splits option.splits)
  ultimately show ?thesis
    using assms(2-4) c by (intro materialize_writes_kept) (auto simp: env_ok_def)
qed simp

lemma MaterializeV1Start_state:
  "snd (pg_MaterializeV1Start E input db) =
     (if invalid_start_evidence input then db else snd (pg_tx (materialize_tx E input) db))"
  by (cases "pg_tx (materialize_tx E input) db"; cases "fst (pg_tx (materialize_tx E input) db)")
    (auto simp: pg_MaterializeV1Start_def tx_bind_def split: sum.splits)

lemma MaterializeV1Start_kept:
  assumes "env_ok E" and "in_int64 (mat_MeterStartWh input)"
  shows "life_kept db (snd (pg_MaterializeV1Start E input db))"
proof (cases "invalid_start_evidence input")
  case False
  then show ?thesis
    unfolding MaterializeV1Start_state using assms materialize_tx_kept by (simp add: pg_tx_rel)
qed (simp add: MaterializeV1Start_state)

subsection \<open>Stop workflows\<close>

lemma life_core_row:
  assumes "life_core db" and "r \<in> set (db_transactions db)" and "t \<in> set (db_transactions db)"
    and "tx_HALTransactionID r = tx_HALTransactionID t"
  shows "r = t"
proof -
  have "distinct (map tx_HALTransactionID (db_transactions db))" using assms(1) by (simp add: life_core_def keys_inv_def)
  then show ?thesis using assms(2-4) by (auto simp: distinct_map dest: inj_onD)
qed

lemma getV1TransactionByID_Inr:
  assumes "getV1TransactionByID i db = Inr t"
  obtains row where "row \<in> set (db_transactions db)" and "tx_HALTransactionID row = i" and "t = load_transaction row"
  using assms by (auto simp: getV1TransactionByID_def getV1TransactionBy_def split: option.splits dest!: find_SomeD)

lemma getV1TransactionByID_row:
  assumes "life_core db" and "row \<in> set (db_transactions db)"
  shows "getV1TransactionByID (tx_HALTransactionID row) db = Inr (load_transaction row)"
proof -
  have "distinct (map tx_HALTransactionID (db_transactions db))" using assms(1) by (simp add: life_core_def keys_inv_def)
  from sql_row_unique [OF this assms(2)] show ?thesis
    by (simp add: getV1TransactionByID_def getV1TransactionBy_def sql_row_def)
qed

lemma add_workflow:
  assumes core: "life_core db" and "row \<in> set (db_transactions db)" and "tx_CompletedAt row = None"
    and "workflow_key w = tx_HALTransactionID row" and "workflow_key w \<notin> workflow_key ` set (db_workflows db)"
  shows "life_core (db\<lparr>db_workflows := db_workflows db @ [w]\<rparr>)"
proof -
  have "tx_HALTransactionID t \<noteq> workflow_key w" if "t \<in> set (db_transactions db)" "tx_CompletedAt t \<noteq> None" for t
    using life_core_row [OF core that(1) assms(2)] assms(3,4) that(2) by auto
  then show ?thesis
    using core assms(2,4,5) by (auto simp: life_core_def keys_inv_def tx_ok_def)
qed

definition limit_inv_but :: "string \<Rightarrow> PostgresStore \<Rightarrow> bool" where
  "limit_inv_but i db \<longleftrightarrow> (\<forall>t\<in>set (db_transactions db). tx_HALTransactionID t \<noteq> i \<and> tx_CompletedAt t = None
     \<and> energy_limit_reached t \<longrightarrow> tx_HALTransactionID t \<in> workflow_key ` set (db_workflows db))"

lemma limit_inv_but: "limit_inv db \<Longrightarrow> limit_inv_but i db"
  by (simp add: limit_inv_def limit_inv_but_def)

text \<open>
  Ensuring a workflow: afterwards it is there, the transaction is only moved to a stop request,
  and whatever the energy of that transaction the limit invariant holds again.
\<close>

lemma ensure_ok:
  assumes run: "ensureV1StopWorkflowTx E t initiator reason db = (Inr out, db')"
    and core: "life_core db" and row: "row \<in> set (db_transactions db)" "t = load_transaction row"
  shows "life_core db'" and "tx_progress db db'" and "db_facts db' = db_facts db"
    and "db_completion_keys db' = db_completion_keys db" and "db_commands db' = db_commands db"
    and "tx_HALTransactionID t \<in> workflow_key ` set (db_workflows db')"
    and "limit_inv_but (tx_HALTransactionID t) db \<Longrightarrow> limit_inv db'"
proof -
  let ?i = "tx_HALTransactionID t"
  let ?f = "\<lambda>r. r\<lparr>tx_StopState := ''PERSISTED'', tx_RequestedStopInitiator := initiator, tx_RequestedStopReason := reason\<rparr>"
  let ?ts = "sql_update (\<lambda>r. tx_HALTransactionID r = ?i) ?f (db_transactions db)"
  let ?w = "\<lparr>wr_Workflow = new_workflow (env_now E) ?i initiator reason, wr_ClaimedUntil = None\<rparr>"
  have "life_core db' \<and> tx_progress db db' \<and> db_facts db' = db_facts db \<and> db_completion_keys db' = db_completion_keys db
    \<and> db_commands db' = db_commands db \<and> ?i \<in> workflow_key ` set (db_workflows db')
    \<and> (limit_inv_but ?i db \<longrightarrow> limit_inv db')"
  proof (cases "sql_row workflow_key ?i (db_workflows db)")
    case (Some w)
    then have "db' = db" and "?i \<in> workflow_key ` set (db_workflows db)"
      using run sql_row_SomeD [OF Some] by (auto simp: ensureV1StopWorkflowTx_def intro: rev_image_eqI)
    then show ?thesis using core by (auto simp: limit_inv_but_def limit_inv_def)
  next
    case None
    then have open': "tx_CompletedAt row = None"
      and db': "db' = db\<lparr>db_transactions := ?ts, db_workflows := db_workflows db @ [?w]\<rparr>"
      using run row(2) by (auto simp: ensureV1StopWorkflowTx_def split: if_splits)
    have upd: "tx_CompletedAt r = None \<and> tx_CompletedAt (?f r) = None \<and> tx_advances r (?f r) \<and> tx_wf (load_transaction (?f r))"
      if "r \<in> set (db_transactions db)" "tx_HALTransactionID r = ?i" for r
    proof -
      have "r = row" using life_core_row [OF core that(1) row(1)] that(2) row(2) by simp
      moreover have "tx_wf (load_transaction row)" using core row(1) by (auto simp: life_core_def tx_ok_def)
      moreover have "load_transaction (?f row) = ?f (load_transaction row)"
        by (simp add: load_transaction_def split: option.splits)
      ultimately show ?thesis using open' by (simp add: tx_wf_stop_request tx_advances_def)
    qed
    note u = update_tx [OF core upd]
    let ?db1 = "db\<lparr>db_transactions := ?ts\<rparr>"
    have "?f row \<in> set ?ts" using row by (auto simp: set_sql_update)
    then have "life_core (?db1\<lparr>db_workflows := db_workflows ?db1 @ [?w]\<rparr>)"
      using None open' row(2) by (intro add_workflow [OF u(1), where row = "?f row"]) (auto simp: sql_row_None new_workflow_def)
    moreover have "limit_inv db'" if lim: "limit_inv_but ?i db"
      unfolding limit_inv_def
    proof (intro ballI impI)
      fix t' assume t': "t' \<in> set (db_transactions db')" "tx_CompletedAt t' = None \<and> energy_limit_reached t'"
      then obtain r where "r \<in> set (db_transactions db)" "t' = (if tx_HALTransactionID r = ?i then ?f r else r)"
        by (auto simp: db' elim: in_sql_updateE)
      then show "tx_HALTransactionID t' \<in> workflow_key ` set (db_workflows db')"
        using lim t'(2) by (cases "tx_HALTransactionID r = ?i") (auto simp: db' limit_inv_but_def new_workflow_def)
    qed
    ultimately show ?thesis
      using u(2) by (simp add: db' tx_progress_def new_workflow_def)
  qed
  then show "life_core db'" and "tx_progress db db'" and "db_facts db' = db_facts db"
    and "db_completion_keys db' = db_completion_keys db" and "db_commands db' = db_commands db"
    and "?i \<in> workflow_key ` set (db_workflows db')" and "limit_inv_but ?i db \<Longrightarrow> limit_inv db'"
    by blast+
qed

lemma ensure_kept:
  assumes "ensureV1StopWorkflowTx E t initiator reason db = (Inr out, db')" and "getV1TransactionByID i db = Inr t"
  shows "life_kept db db'"
  unfolding life_kept_def
proof
  assume inv: "life_inv db"
  obtain row where row: "row \<in> set (db_transactions db)" "t = load_transaction row"
    using assms(2) by (rule getV1TransactionByID_Inr)
  have core: "life_core db" using inv by (simp add: life_inv_def)
  note e = ensure_ok [OF assms(1) core row]
  have "facts_kept db db'" using e(3,4) by (rule facts_kept_frame)
  then show "life_inv db' \<and> tx_progress db db' \<and> outbox_kept (db_facts db) (db_facts db')"
    using e(1,2,7) inv limit_inv_but by (auto simp: life_inv_def facts_kept_def)
qed

lemma lockRows_Inr:
  assumes "lockV1StopLifecycleRows i db = Inr (t, w)"
  shows "getV1TransactionByID i db = Inr t" and "w = map_option wr_Workflow (sql_row workflow_key i (db_workflows db))"
  using assms by (auto simp: lockV1StopLifecycleRows_def split: sum.splits)

lemma EnsureV1StopWorkflow_kept: "life_kept db (snd (pg_EnsureV1StopWorkflow F E i initiator reason db))"
  unfolding pg_EnsureV1StopWorkflow_def
  by (rule with_rel) (auto split: sum.splits dest!: lockRows_Inr(1) intro: ensure_kept)

lemma RequestV1Stop_state:
  "snd (pg_RequestV1Stop F E i initiator reason db) = snd (pg_EnsureV1StopWorkflow F E i initiator reason db)"
  by (cases "pg_EnsureV1StopWorkflow F E i initiator reason db"; cases "fst (pg_EnsureV1StopWorkflow F E i initiator reason db)")
    (auto simp: pg_RequestV1Stop_def tx_bind_def split: sum.splits)

lemma tx_bind_state:
  assumes "\<And>x s. snd (f x s) = s"
  shows "snd (tx_bind m f) = snd m"
  using assms by (cases m; cases "fst m") (auto simp: tx_bind_def)

lemma ClaimV1StopDelivery_kept: "life_kept db (snd (pg_ClaimV1StopDelivery F now i db))"
  unfolding pg_ClaimV1StopDelivery_def
proof (subst tx_bind_state)
  show "life_kept db (snd (withV1StopLifecycleTransaction F (\<lambda>db.
         case lockV1StopLifecycleRows i db of
           Inl err \<Rightarrow> (Inl err, db)
         | Inr rows \<Rightarrow>
             if \<not> workflow_ready ''PERSISTED'' rows then (Inr False, db)
             else (Inr (sql_count (workflow_in i ''PERSISTED'') (db_workflows db) = 1),
               db\<lparr>db_workflows := sql_update (workflow_in i ''PERSISTED'')
                  (workflow_update now ''PENDING_DELIVERY'' (Some (now + 30 * duration_second))) (db_workflows db)\<rparr>)) db))"
    by (rule with_rel) (auto simp: workflow_in_def split: sum.splits if_splits intro!: life_kept_workflows)
qed (simp split: sum.splits)

lemma BeginV1StopDelivery_kept: "life_kept db (snd (pg_BeginV1StopDelivery F now i db))"
  unfolding pg_BeginV1StopDelivery_def
proof (subst tx_bind_state)
  show "life_kept db (snd (withV1StopLifecycleTransaction F (\<lambda>db.
         case lockV1StopLifecycleRows i db of
           Inl err \<Rightarrow> (Inl err, db)
         | Inr rows \<Rightarrow>
             if \<not> workflow_ready ''PENDING_DELIVERY'' rows then (Inr (), db)
             else (Inr (), db\<lparr>db_workflows := sql_update (workflow_in i ''PENDING_DELIVERY'')
                  (\<lambda>r. workflow_update now ''DELIVERY_ATTEMPTED'' (Some (now + 2 * duration_minute))
                    (r\<lparr>wr_Workflow := (wr_Workflow r)\<lparr>wf_DeliveryAttempts := wf_DeliveryAttempts (wr_Workflow r) + 1\<rparr>\<rparr>))
                  (db_workflows db)\<rparr>)) db))"
    by (rule with_rel) (auto simp: workflow_in_def split: sum.splits if_splits intro!: life_kept_workflows)
qed simp

lemma RecoverV1StopDelivery_kept: "life_kept db (pg_RecoverV1StopDelivery now db)"
proof -
  let ?db1 = "db\<lparr>db_workflows := sql_update (\<lambda>r. wf_State (wr_Workflow r) = ''PENDING_DELIVERY'')
           (workflow_update now ''PERSISTED'' None) (db_workflows db)\<rparr>"
  let ?db2 = "?db1\<lparr>db_workflows := sql_update (\<lambda>r. wf_State (wr_Workflow r) = ''DELIVERY_ATTEMPTED'')
         (\<lambda>r. workflow_update now ''AMBIGUOUS'' None (r\<lparr>wr_Workflow := (wr_Workflow r)\<lparr>
            wf_LastErrorCategory := ''recovery'',
            wf_LastErrorDetail := ''process interruption after durable delivery attempt''\<rparr>\<rparr>)) (db_workflows ?db1)\<rparr>"
  have "life_kept db ?db1" and "life_kept ?db1 ?db2" by (intro life_kept_workflows; simp)+
  then have "life_kept db ?db2" by (rule life_kept_trans)
  then show ?thesis by (simp add: pg_RecoverV1StopDelivery_def)
qed

lemma insert_command_facts_kept: "insert_command_facts E k ids db = (Inr u, db') \<Longrightarrow> life_kept db db'"
proof (induction E k ids db rule: insert_command_facts.induct)
  case (2 E k i ids db)
  then obtain command v db1 where c: "getV1CommandWith db i = Inr command"
    "insertV1FactTx E k ''command.updated'' (cmd_HALCommandID command) None (cmd_UpdatedAt command) (v1CommandFact command) db
      = (Inr v, db1)" "insert_command_facts E (Suc k) ids db1 = (Inr u, db')"
    by (auto simp: tx_bind_Inr split: sum.splits)
  have "life_kept db db1" using life_fact(1) [OF c(2)] by simp
  with "2.IH" [OF c(1,3)] show ?case by (rule life_kept_trans [rotated])
qed simp

text \<open>The three updates of a reported stop, before its facts.\<close>

lemma mark_rows_kept:
  assumes keys: "map command_key cs = map command_key (db_commands db)"
    and db1: "db1 = db\<lparr>
      db_workflows := sql_update (\<lambda>r. workflow_key r = i \<and> wf_State (wr_Workflow r) \<notin> {''COMPLETED'', ''SUPERSEDED''})
        (mark_workflow now state result category detail) (db_workflows db),
      db_transactions := sql_update (\<lambda>r. tx_HALTransactionID r = i \<and> tx_CompletedAt r = None)
        (\<lambda>r. r\<lparr>tx_StopState := state\<rparr>) (db_transactions db),
      db_commands := cs\<rparr>"
  shows "life_kept db db1"
  unfolding life_kept_def
proof
  assume inv: "life_inv db"
  let ?f = "\<lambda>r. r\<lparr>tx_StopState := state\<rparr>"
  let ?dbt = "db\<lparr>db_transactions := sql_update (\<lambda>r. tx_HALTransactionID r = i \<and> tx_CompletedAt r = None) ?f (db_transactions db)\<rparr>"
  let ?dbw = "?dbt\<lparr>db_workflows := sql_update (\<lambda>r. workflow_key r = i \<and> wf_State (wr_Workflow r) \<notin> {''COMPLETED'', ''SUPERSEDED''})
        (mark_workflow now state result category detail) (db_workflows ?dbt)\<rparr>"
  have core: "life_core db" and lim: "limit_inv db" using inv by (simp_all add: life_inv_def)
  have "tx_CompletedAt r = None \<and> tx_CompletedAt (?f r) = None \<and> tx_advances r (?f r) \<and> tx_wf (load_transaction (?f r))"
    if "r \<in> set (db_transactions db)" "tx_HALTransactionID r = i \<and> tx_CompletedAt r = None" for r
  proof -
    have "tx_wf (load_transaction r)" using core that(1) by (auto simp: life_core_def tx_ok_def)
    moreover have "load_transaction (?f r) = ?f (load_transaction r)"
      by (simp add: load_transaction_def split: option.splits)
    moreover have "tx_wf (?f (load_transaction r)) = tx_wf (load_transaction r)"
      using that(2) by (simp add: tx_wf_def split: option.splits)
    ultimately show ?thesis using that(2) by (simp add: tx_advances_def)
  qed
  note u = update_tx [OF core this]
  have "limit_inv ?dbt"
    unfolding limit_inv_def
  proof (intro ballI impI)
    fix t assume t: "t \<in> set (db_transactions ?dbt)" "tx_CompletedAt t = None \<and> energy_limit_reached t"
    then obtain r where "r \<in> set (db_transactions db)" "t = (if tx_HALTransactionID r = i \<and> tx_CompletedAt r = None then ?f r else r)"
      by (auto elim: in_sql_updateE)
    then have "tx_HALTransactionID t \<in> workflow_key ` set (db_workflows db)"
      using lim t(2) unfolding limit_inv_def by (cases "tx_HALTransactionID r = i \<and> tx_CompletedAt r = None") (auto simp: energy_limit_reached_def split: option.splits)
    then show "tx_HALTransactionID t \<in> workflow_key ` set (db_workflows ?dbt)" by simp
  qed
  then have w: "life_core ?dbw" "limit_inv ?dbw" using u(1) by (intro update_workflows; simp)+
  have db1': "db1 = ?dbw\<lparr>db_commands := cs\<rparr>" by (simp add: db1)
  have "life_core db1 = life_core ?dbw" "limit_inv db1 = limit_inv ?dbw"
    unfolding db1' by (intro life_core_frame; simp add: keys)+
  moreover have "fact_inv db1" using inv by (simp add: db1 life_inv_def fact_inv_def)
  moreover have "tx_progress db db1" using u(2) by (simp add: db1 tx_progress_def)
  ultimately show "life_inv db1 \<and> tx_progress db db1 \<and> outbox_kept (db_facts db) (db_facts db1)"
    using w by (simp add: life_inv_def db1)
qed

lemma mark_stop_tx_kept:
  assumes "mark_stop_tx E i state category result detail db = (Inr u, db')"
  shows "life_kept db db'"
proof (cases "db' = db")
  case False
  let ?live = "\<lambda>r. stop_command_live i r \<and> cmd_Kind (cr_Command r) = ''STOP''"
  define db1 where "db1 = db\<lparr>
      db_workflows := sql_update (\<lambda>r. workflow_key r = i \<and> wf_State (wr_Workflow r) \<notin> {''COMPLETED'', ''SUPERSEDED''})
        (mark_workflow (env_now E) state result category detail) (db_workflows db),
      db_transactions := sql_update (\<lambda>r. tx_HALTransactionID r = i \<and> tx_CompletedAt r = None)
        (\<lambda>r. r\<lparr>tx_StopState := state\<rparr>) (db_transactions db),
      db_commands := sql_update ?live (mark_command (env_now E) state result category detail) (db_commands db)\<rparr>"
  have "insert_command_facts E 0 (map command_key (filter ?live (db_commands db))) db1 = (Inr u, db')"
    using assms False by (auto simp: mark_stop_tx_def db1_def Let_def split: sum.splits if_splits)
  then have "life_kept db1 db'" by (rule insert_command_facts_kept)
  moreover have "life_kept db db1"
    by (rule mark_rows_kept [OF _ db1_def]) (simp add: sql_update_keys)
  ultimately show ?thesis by (rule life_kept_trans [rotated])
qed simp

lemma MarkV1StopDelivery_kept: "life_kept db (snd (pg_MarkV1StopDelivery F E i status result detail db))"
  unfolding pg_MarkV1StopDelivery_def
  by (simp add: split_beta Let_def tx_bind_state) (rule with_rel, auto intro: mark_stop_tx_kept)

lemma create_stop_tx_Inr:
  assumes "create_stop_tx E input db = (Inr out, db')"
  obtains t w wf created db1 i n db2
  where "lockV1StopLifecycleRows (spin_HALTransactionID input) db = Inr (t, w)"
    and "ensureV1StopWorkflowTx E t (spin_RequestedStopInitiator input) (spin_RequestedStopReason input) db
      = (Inr (wf, created), db1)"
    and "insert_command (stop_command_row (env_now E) i input (wf_HALTransactionID wf)) db1 = (Inr n, db2)"
    and "db' = db2 \<or> (\<exists>a t p u. insertV1FactTx E 1 ''command.updated'' a None t p db2 = (Inr u, db'))"
proof -
  obtain t w where lock: "lockV1StopLifecycleRows (spin_HALTransactionID input) db = Inr (t, w)"
    using assms by (auto simp: create_stop_tx_def split: sum.splits)
  obtain wf created db1 where e: "ensureV1StopWorkflowTx E t (spin_RequestedStopInitiator input) (spin_RequestedStopReason input) db
      = (Inr (wf, created), db1)"
    using assms lock by (auto simp: create_stop_tx_def tx_bind_Inr simp del: NewSecureUUIDString_Inr split: if_splits)
  obtain i where i: "NewSecureUUIDString (env_uuid E 0) = Inr i"
    using assms lock e by (auto simp: create_stop_tx_def tx_bind_Inr simp del: NewSecureUUIDString_Inr split: if_splits sum.splits)
  obtain n db2 where ins: "insert_command (stop_command_row (env_now E) i input (wf_HALTransactionID wf)) db1 = (Inr n, db2)"
    using assms lock e i by (auto simp: create_stop_tx_def tx_bind_Inr simp del: NewSecureUUIDString_Inr split: if_splits)
  have "db' = db2 \<or> (\<exists>a t p u. insertV1FactTx E 1 ''command.updated'' a None t p db2 = (Inr u, db'))"
    using assms lock e i ins by (auto simp: create_stop_tx_def tx_bind_Inr simp del: NewSecureUUIDString_Inr split: if_splits sum.splits)
  with lock e ins show thesis by (rule that)
qed

lemma create_stop_tx_kept:
  assumes "create_stop_tx E input db = (Inr out, db')"
  shows "life_kept db db'"
  using assms
proof (rule create_stop_tx_Inr)
  fix t w wf created db1 i n db2
  assume lock: "lockV1StopLifecycleRows (spin_HALTransactionID input) db = Inr (t, w)"
    and e: "ensureV1StopWorkflowTx E t (spin_RequestedStopInitiator input) (spin_RequestedStopReason input) db
      = (Inr (wf, created), db1)"
    and ins: "insert_command (stop_command_row (env_now E) i input (wf_HALTransactionID wf)) db1 = (Inr n, db2)"
    and "db' = db2 \<or> (\<exists>a t p u. insertV1FactTx E 1 ''command.updated'' a None t p db2 = (Inr u, db'))"
  then have "life_kept db2 db'" by (auto dest!: life_fact(1))
  with insert_command_kept [OF ins] ensure_kept [OF e lockRows_Inr(1) [OF lock]] show ?thesis
    by (meson life_kept_trans)
qed

lemma CreateV1StopCommand_kept: "life_kept db (snd (pg_CreateV1StopCommand F E input db))"
  unfolding pg_CreateV1StopCommand_def by (rule with_rel) (auto intro: create_stop_tx_kept)

subsection \<open>Telemetry\<close>

lemma load_wf_open:
  assumes "tx_CompletedAt t = None"
  shows "tx_wf (load_transaction t) \<longleftrightarrow> 0 \<le> tx_MeterStartWh t \<and> in_int64 (tx_MeterStartWh t)
    \<and> tx_MeterStopWh t = None \<and> tx_RawMeterStopWh t = None
    \<and> (case tx_LatestMeterWh t of None \<Rightarrow> True | Some l \<Rightarrow> tx_MeterStartWh t \<le> l \<and> in_int64 l)"
  using assms by (auto simp: tx_wf_def load_transaction_def in_int64_diff split: option.splits)

lemma pg_apply_energy_ok:
  assumes "pg_apply_energy telemetry row = (accepted, row1)" and "tx_wf (load_transaction row)"
    and "\<forall>w. tel_EnergyWh telemetry = Some w \<longrightarrow> in_int64 w"
  shows "tx_advances row row1" and "tx_wf (load_transaction row1)" and "tx_CompletedAt row1 = tx_CompletedAt row"
    and "tx_CompletedAt row \<noteq> None \<Longrightarrow> row1 = row \<and> \<not> accepted" and "\<not> accepted \<Longrightarrow> row1 = row"
proof -
  have acc: "tx_advances row (pg_accept_energy w o' (row\<lparr>tx_MeterQuantizationAnomalyCount := n\<rparr>))
      \<and> tx_wf (load_transaction (pg_accept_energy w o' (row\<lparr>tx_MeterQuantizationAnomalyCount := n\<rparr>)))
      \<and> tx_CompletedAt (pg_accept_energy w o' (row\<lparr>tx_MeterQuantizationAnomalyCount := n\<rparr>)) = None"
    if "tx_CompletedAt row = None" "tx_MeterStartWh row \<le> w" "in_int64 w" for w o' n
    using that assms(2) by (simp add: load_wf_open pg_accept_energy_def Let_def tx_advances_def)
  have acc0: "tx_advances row (pg_accept_energy w o' row) \<and> tx_wf (load_transaction (pg_accept_energy w o' row))
      \<and> tx_CompletedAt (pg_accept_energy w o' row) = None"
    if "tx_CompletedAt row = None" "tx_MeterStartWh row \<le> w" "in_int64 w" for w o'
    using that assms(2) by (simp add: load_wf_open pg_accept_energy_def Let_def tx_advances_def)
  have "row1 = row \<and> \<not> accepted \<or> accepted \<and> tx_CompletedAt row = None \<and> (\<exists>w o' n. tx_MeterStartWh row \<le> w \<and> in_int64 w
      \<and> (row1 = pg_accept_energy w o' row \<or> row1 = pg_accept_energy w o' (row\<lparr>tx_MeterQuantizationAnomalyCount := n\<rparr>)))"
    using assms(1,3) unfolding pg_apply_energy_def
    by (auto split: option.splits if_splits sum.splits)
  then show "tx_advances row row1" and "tx_wf (load_transaction row1)" and "tx_CompletedAt row1 = tx_CompletedAt row"
    and "tx_CompletedAt row \<noteq> None \<Longrightarrow> row1 = row \<and> \<not> accepted" and "\<not> accepted \<Longrightarrow> row1 = row"
    using acc acc0 assms(2) by auto
qed

lemma pg_apply_soc_ok:
  assumes "pg_apply_soc telemetry row = Inr (accepted, row2)" and "tx_wf (load_transaction row)"
  shows "tx_advances row row2" and "tx_wf (load_transaction row2)" and "tx_CompletedAt row2 = tx_CompletedAt row"
    and "tx_CompletedAt row \<noteq> None \<Longrightarrow> row2 = row \<and> \<not> accepted"
    and "energy_limit_reached row2 = energy_limit_reached row" and "tx_HALTransactionID row2 = tx_HALTransactionID row"
proof -
  have "row2 = row \<and> \<not> accepted \<or> tx_CompletedAt row = None \<and> (\<exists>i l o'. (tx_InitialSoCPercent row \<noteq> None \<longrightarrow> i = tx_InitialSoCPercent row)
      \<and> row2 = row\<lparr>tx_InitialSoCPercent := i, tx_LatestSoCPercent := l, tx_SoCObservedAt := o', tx_SoCSequence := tx_SoCSequence row + 1\<rparr>)"
    using assms(1) unfolding pg_apply_soc_def by (auto split: option.splits if_splits)
  then show "tx_advances row row2" and "tx_wf (load_transaction row2)" and "tx_CompletedAt row2 = tx_CompletedAt row"
    and "tx_CompletedAt row \<noteq> None \<Longrightarrow> row2 = row \<and> \<not> accepted"
    and "energy_limit_reached row2 = energy_limit_reached row" and "tx_HALTransactionID row2 = tx_HALTransactionID row"
    using assms(2) by (auto simp: load_wf_open tx_advances_def energy_limit_reached_def split: option.splits)
qed

lemma insert_seq_fact_Inr:
  assumes "insert_seq_fact E k factType i seq at' payload db = (Inr u, db')"
  obtains t p where "insertV1FactTx E k factType i (Some seq) t p db = (Inr u, db')"
  using assms by (auto simp: insert_seq_fact_def split: option.splits)

text \<open>
  The facts of an accepted reading; when the reading reached the limit, the workflow is ensured
  first, so the limit invariant holds at the end whatever the reading was.
\<close>

lemma telemetry_facts_ok:
  assumes run: "telemetry_facts E energyAccepted socAccepted (load_transaction row) db = (Inr u, db')"
    and core: "life_core db" and facts: "fact_inv db" and row: "row \<in> set (db_transactions db)"
    and lim: "limit_inv_but (tx_HALTransactionID row) db" "\<not> energyAccepted \<or> \<not> energy_limit_reached row \<Longrightarrow> limit_inv db"
  shows "life_inv db' \<and> tx_progress db db' \<and> outbox_kept (db_facts db) (db_facts db')"
proof -
  let ?t = "load_transaction row"
  have "\<exists>db1. life_inv db1 \<and> tx_progress db db1 \<and> db_facts db1 = db_facts db \<and> life_kept db1 db'"
  proof (cases "energyAccepted \<and> energy_limit_reached row")
    case True
    obtain initiator reason where "v1EnergyStopCause (tx_EnergyLimitSource ?t) (tx_LimitType ?t) = (initiator, reason)" by force
    with True run obtain out db1 db2 where e: "ensureV1StopWorkflowTx E ?t initiator reason db = (Inr out, db1)"
      and m: "insert_seq_fact E 0 ''transaction.meter'' (tx_HALTransactionID ?t) (tx_MeterSequence ?t)
          (tx_MeterObservedAt ?t) (v1MeterFact ?t) db1 = (Inr (), db2)"
      and s: "(if socAccepted then insert_seq_fact E 1 ''transaction.soc'' (tx_HALTransactionID ?t) (tx_SoCSequence ?t)
             (tx_SoCObservedAt ?t) (v1SoCFact ?t) db2 else (Inr (), db2)) = (Inr u, db')"
      by (auto simp: telemetry_facts_def tx_bind_Inr)
    note ok = ensure_ok [OF e core row refl]
    have "life_inv db1" using ok(1,3,4,7) lim(1) facts by (simp add: life_inv_def fact_inv_def)
    moreover have "life_kept db1 db2" using m by (auto elim!: insert_seq_fact_Inr dest!: life_fact(1))
    moreover have "life_kept db2 db'" using s by (auto elim!: insert_seq_fact_Inr dest!: life_fact(1) split: if_splits)
    ultimately show ?thesis using ok(2,3) life_kept_trans by blast
  next
    case False
    then have "life_inv db" using core facts lim(2) by (auto simp: life_inv_def)
    moreover have "life_kept db db'"
      using run False by (auto simp: telemetry_facts_def tx_bind_Inr split: if_splits elim!: insert_seq_fact_Inr
          dest!: life_fact(1) intro: life_kept_trans)
    ultimately show ?thesis using tx_progress_refl by blast
  qed
  then show ?thesis using tx_progress_trans by (force simp: life_kept_def)
qed

text \<open>
  The row a reading finds, the row it becomes, the store with that row written, and the facts
  that follow.
\<close>

lemma telemetry_rows:
  assumes run: "telemetry_tx E identity ocppID telemetry db = (Inr (t, acc), db')" and core: "life_core db"
    and tel: "\<forall>w. tel_EnergyWh telemetry = Some w \<longrightarrow> in_int64 w"
  obtains row row2 db1 where "row \<in> set (db_transactions db)" "tx_ChargerOCPPIdentity row = identity" "tx_OCPPTransactionID row = ocppID"
    and "tx_advances row row2" "t = load_transaction row2" "tx_CompletedAt row2 = tx_CompletedAt row"
    and "db1 = db\<lparr>db_transactions := sql_update (\<lambda>r. tx_HALTransactionID r = tx_HALTransactionID row) (\<lambda>_. row2) (db_transactions db)\<rparr>"
    and "row2 \<in> set (db_transactions db1)" "life_core db1" "tx_progress db db1"
    and "telemetry_facts E (telres_EnergyAccepted acc) (telres_SoCAccepted acc) t db1 = (Inr (), db')"
    and "\<not> telres_EnergyAccepted acc \<Longrightarrow> energy_limit_reached row2 = energy_limit_reached row"
    and "tx_CompletedAt row \<noteq> None \<Longrightarrow> row2 = row \<and> \<not> telres_EnergyAccepted acc \<and> \<not> telres_SoCAccepted acc \<and> db1 = db"
proof -
  obtain row where f: "find (\<lambda>r. tx_ChargerOCPPIdentity r = identity \<and> tx_OCPPTransactionID r = ocppID) (db_transactions db) = Some row"
    using run by (auto simp: telemetry_tx_def split: option.splits)
  then have row: "row \<in> set (db_transactions db)" "tx_ChargerOCPPIdentity row = identity" "tx_OCPPTransactionID row = ocppID"
    by (auto dest: find_SomeD)
  obtain ea row1 where e: "pg_apply_energy telemetry row = (ea, row1)" by force
  obtain sa row2 where s: "pg_apply_soc telemetry row1 = Inr (sa, row2)"
    using run f e by (auto simp: telemetry_tx_def Let_def split: sum.splits)
  let ?P = "\<lambda>r. tx_HALTransactionID r = tx_HALTransactionID row"
  define db1 where "db1 = db\<lparr>db_transactions := sql_update ?P (\<lambda>_. row2) (db_transactions db)\<rparr>"
  have "tx_wf (load_transaction row)" using core row by (auto simp: life_core_def tx_ok_def)
  note e' = pg_apply_energy_ok [OF e this tel]
  note s' = pg_apply_soc_ok [OF s e'(2)]
  have adv: "tx_advances row row2" using e'(1) s'(1) by (rule tx_advances_trans)
  have only: "r = row" if "r \<in> set (db_transactions db)" "?P r" for r using life_core_row [OF core that(1) row(1) that(2)] .
  have row2: "row2 \<in> set (db_transactions db1)" using row(1) by (force simp: db1_def set_sql_update)
  have closed: "row2 = row \<and> \<not> ea \<and> \<not> sa \<and> db1 = db" if "tx_CompletedAt row \<noteq> None"
  proof -
    have same: "row2 = row" "\<not> ea" "\<not> sa" using that e'(4) s'(4) by auto
    then have "sql_update ?P (\<lambda>_. row2) (db_transactions db) = db_transactions db"
      unfolding sql_update_def by (intro map_idI) (use only in auto)
    then show ?thesis using same by (simp add: db1_def)
  qed
  have "life_core db1 \<and> tx_progress db db1"
  proof (cases "tx_CompletedAt row = None")
    case True
    then show ?thesis unfolding db1_def by (intro conjI update_tx [OF core]; use only adv s' e' in auto)
  qed (use closed core in simp)
  then have core1: "life_core db1" "tx_progress db db1" by simp_all
  have "tx_HALTransactionID row2 = tx_HALTransactionID row" using adv by (simp add: tx_advances_def)
  then have "getV1TransactionByID (tx_HALTransactionID row) db1 = Inr (load_transaction row2)"
    using getV1TransactionByID_row [OF core1(1) row2] by simp
  then have t: "t = load_transaction row2" "acc = \<lparr>telres_EnergyAccepted = ea, telres_SoCAccepted = sa\<rparr>"
    "telemetry_facts E ea sa t db1 = (Inr (), db')"
    using run f e s by (auto simp: telemetry_tx_def Let_def db1_def tx_bind_Inr)
  show thesis
    by (rule that [OF row adv t(1) _ db1_def row2 core1]) (use t e'(3,5) s'(3,5) closed in auto)
qed

lemma telemetry_tx_kept:
  assumes run: "telemetry_tx E identity ocppID telemetry db = (Inr out, db')"
    and tel: "\<forall>w. tel_EnergyWh telemetry = Some w \<longrightarrow> in_int64 w"
  shows "life_kept db db'"
  unfolding life_kept_def
proof
  assume inv: "life_inv db"
  then have core: "life_core db" and lim: "limit_inv db" and facts: "fact_inv db" by (simp_all add: life_inv_def)
  obtain t acc where out: "out = (t, acc)" by force
  show "life_inv db' \<and> tx_progress db db' \<and> outbox_kept (db_facts db) (db_facts db')"
  proof (rule telemetry_rows [OF run [unfolded out] core tel])
    fix row row2 db1
    assume row: "row \<in> set (db_transactions db)" and adv: "tx_advances row row2" and t: "t = load_transaction row2"
      and comp: "tx_CompletedAt row2 = tx_CompletedAt row"
      and db1: "db1 = db\<lparr>db_transactions := sql_update (\<lambda>r. tx_HALTransactionID r = tx_HALTransactionID row) (\<lambda>_. row2) (db_transactions db)\<rparr>"
      and row2: "row2 \<in> set (db_transactions db1)" and core1: "life_core db1" "tx_progress db db1"
      and run1: "telemetry_facts E (telres_EnergyAccepted acc) (telres_SoCAccepted acc) t db1 = (Inr (), db')"
      and kept: "\<not> telres_EnergyAccepted acc \<Longrightarrow> energy_limit_reached row2 = energy_limit_reached row"
    have id: "tx_HALTransactionID row2 = tx_HALTransactionID row" using adv by (simp add: tx_advances_def)
    have others: "tx_HALTransactionID t' \<in> workflow_key ` set (db_workflows db1)"
      if "t' \<in> set (db_transactions db1)" "tx_CompletedAt t' = None" "energy_limit_reached t'" "t' \<noteq> row2" for t'
    proof -
      have "t' \<in> set (db_transactions db)" using that(1,4) by (auto simp: db1 elim!: in_sql_updateE split: if_splits)
      then show ?thesis using lim that(2,3) by (simp add: limit_inv_def db1)
    qed
    have "life_inv db' \<and> tx_progress db1 db' \<and> outbox_kept (db_facts db1) (db_facts db')"
    proof (rule telemetry_facts_ok [OF run1 [unfolded t] core1(1) _ row2])
      show "fact_inv db1" using facts by (simp add: fact_inv_def db1)
      show "limit_inv_but (tx_HALTransactionID row2) db1" using others by (auto simp: limit_inv_but_def)
      show "limit_inv db1" if quiet: "\<not> telres_EnergyAccepted acc \<or> \<not> energy_limit_reached row2"
        unfolding limit_inv_def
      proof (intro ballI impI, elim conjE)
        fix t' assume t': "t' \<in> set (db_transactions db1)" "tx_CompletedAt t' = None" "energy_limit_reached t'"
        show "tx_HALTransactionID t' \<in> workflow_key ` set (db_workflows db1)"
        proof (cases "t' = row2")
          case True
          then have "energy_limit_reached row" using t'(3) quiet kept by simp
          then show ?thesis using True t'(2) lim row comp id by (simp add: limit_inv_def db1)
        qed (rule others [OF t'])
      qed
    qed
    then show ?thesis using core1(2) tx_progress_trans by (auto simp: db1)
  qed
qed

lemma UpdateV1Telemetry_kept:
  assumes "\<forall>w. tel_EnergyWh telemetry = Some w \<longrightarrow> in_int64 w"
  shows "life_kept db (snd (pg_UpdateV1TelemetryForOCPP E identity ocppID telemetry db))"
  using telemetry_tx_kept [OF _ assms] by (auto simp: pg_UpdateV1TelemetryForOCPP_def intro: pg_tx_rel)

lemma UpdateV1Meter_kept:
  assumes "in_int64 meterWh"
  shows "life_kept db (snd (pg_UpdateV1Meter E i ocppID meterWh observedAt db))"
  using assms UpdateV1Telemetry_kept
  by (auto simp: pg_UpdateV1Meter_def tx_bind_state split_beta split: sum.splits)

subsection \<open>Completion\<close>

lemma pg_ts_aligned: "pg_ts a = a \<Longrightarrow> a \<le> c \<Longrightarrow> a \<le> pg_ts c"
proof -
  assume "pg_ts a = a" and "a \<le> c"
  then have "a = 1000 * (a div 1000)" and "a div 1000 \<le> c div 1000"
    by (simp_all add: pg_ts_def truncate_us_def minus_mod_eq_mult_div zdiv_mono1)
  then show "a \<le> pg_ts c" by (simp add: pg_ts_def truncate_us_def minus_mod_eq_mult_div)
qed

lemma pg_complete_row_ok:
  assumes "tx_wf (load_transaction row)" and "tx_CompletedAt row = None" and "in_int64 raw"
    and "\<not> completion_inadmissible (load_transaction row) raw c o'"
    and "classifyV1MeterEvidence (tx_MeterStartWh row) (tx_LatestMeterWh row) raw = Inr e"
    and "pg_ts (tx_ActualStartedAt row) = tx_ActualStartedAt row"
  shows "tx_wf (load_transaction (pg_complete_row e raw reason c o' (load_transaction row)))"
    and "tx_advances row (pg_complete_row e raw reason c o' (load_transaction row))"
    and "tx_CompletedAt (pg_complete_row e raw reason c o' (load_transaction row)) = Some (pg_ts c)"
    and "tx_HALTransactionID (pg_complete_row e raw reason c o' (load_transaction row)) = tx_HALTransactionID row"
proof -
  let ?r = "load_transaction row"
  have base: "tx_wf (complete_transaction e raw reason c o' ?r)"
    using assms by (intro complete_wf(1)) simp_all
  have "tx_ActualStartedAt row \<le> c" using assms(4) by (simp add: completion_inadmissible_def)
  then have "tx_ActualStartedAt row \<le> pg_ts c" using assms(6) by (rule pg_ts_aligned [rotated])
  then show "tx_wf (load_transaction (pg_complete_row e raw reason c o' ?r))"
    using base by (auto simp: tx_wf_def complete_transaction_def pg_complete_row_def load_transaction_def Let_def
        split: option.splits)
  show "tx_advances row (pg_complete_row e raw reason c o' ?r)"
    using assms(2) by (simp add: pg_complete_row_def tx_advances_def Let_def load_transaction_def)
  show "tx_CompletedAt (pg_complete_row e raw reason c o' ?r) = Some (pg_ts c)"
    and "tx_HALTransactionID (pg_complete_row e raw reason c o' ?r) = tx_HALTransactionID row"
    by (simp_all add: pg_complete_row_def Let_def)
qed

lemma insert_completion_fact:
  assumes "insertV1FactTx E k ''transaction.completed'' a None at' payload db = (Inr u, db')"
    and "a \<notin> completion_keys db"
  obtains row keys where "db' = db\<lparr>db_facts := db_facts db @ [row], db_completion_keys := keys\<rparr>"
    and "fst ` set keys = insert a (completion_keys db)" and "\<And>b. is_completion b row \<longleftrightarrow> b = a"
proof -
  obtain i d where run: "(case insert_fact_row (new_fact_row (env_now E) i d ''transaction.completed'' a None (normalizeV1FactOccurredAt at') payload)
                       (db\<lparr>db_completion_keys := db_completion_keys db @ [(a, '''')]\<rparr>) of
                   (Inl err, db2) \<Rightarrow> (Inl err, db2)
                 | (Inr _, db2) \<Rightarrow> (Inr (), db2\<lparr>db_completion_keys :=
                     sql_update (\<lambda>c. fst c = a \<and> snd c = '''') (\<lambda>c. (fst c, i)) (db_completion_keys db2)\<rparr>)) = (Inr u, db')"
    using assms unfolding insertV1FactTx_def Let_def by (simp split: sum.splits)
  let ?row = "new_fact_row (env_now E) i d ''transaction.completed'' a None (normalizeV1FactOccurredAt at') payload"
  let ?keys = "sql_update (\<lambda>c. fst c = a \<and> snd c = '''') (\<lambda>c. (fst c, i)) (db_completion_keys db @ [(a, '''')])"
  show thesis
  proof (rule that [of ?keys ?row])
    show "db' = db\<lparr>db_facts := db_facts db @ [?row], db_completion_keys := ?keys\<rparr>"
      using run by (auto simp: insert_fact_row_def sequence_conflict_def split: if_splits)
    show "fst ` set ?keys = insert a (completion_keys db)" by simp
    show "\<And>b. is_completion b ?row \<longleftrightarrow> b = a" by (auto simp: is_completion_def)
  qed
qed

text \<open>The rows of a completion together with its fact.\<close>

lemma complete_rows:
  assumes inv: "life_inv db" and row: "row \<in> set (db_transactions db)" "tx_CompletedAt row = None"
    and row': "tx_wf (load_transaction row')" "tx_advances row row'" "tx_CompletedAt row' \<noteq> None"
    and keys: "fst ` set keys = insert (tx_HALTransactionID row) (completion_keys db)"
    and fact: "\<And>b. is_completion b fr \<longleftrightarrow> b = tx_HALTransactionID row" and fi: "fact_inv db'"
    and db': "db' = (complete_writes now (tx_HALTransactionID row) c row' db)\<lparr>db_facts := db_facts db @ [fr], db_completion_keys := keys\<rparr>"
  shows "life_inv db' \<and> tx_progress db db'"
proof -
  let ?i = "tx_HALTransactionID row"
  have core: "life_core db" and lim: "limit_inv db" and f: "fact_inv db" using inv by (simp_all add: life_inv_def)
  have id: "tx_HALTransactionID row' = ?i" "tx_OCPPTransactionID row' = tx_OCPPTransactionID row" "tx_IDTag row' = tx_IDTag row"
    "tx_ActualStartedAt row' = tx_ActualStartedAt row"
    using row'(2) by (simp_all add: tx_advances_def)
  have only: "r = row" if "r \<in> set (db_transactions db)" "tx_HALTransactionID r = ?i" for r
    using life_core_row [OF core that(1) row(1) that(2)] .
  have ts: "db_transactions db' = sql_update (\<lambda>r. tx_HALTransactionID r = ?i) (\<lambda>_. row') (db_transactions db)"
    by (simp add: db' complete_writes_def)
  have tkeys: "map tx_HALTransactionID (db_transactions db') = map tx_HALTransactionID (db_transactions db)"
    "map tx_OCPPTransactionID (db_transactions db') = map tx_OCPPTransactionID (db_transactions db)"
    unfolding ts sql_update_def using only id by auto
  then have tids: "tx_ids db' = tx_ids db" by (metis list.set_map)
  have wkeys: "map workflow_key (db_workflows db') = map workflow_key (db_workflows db)"
    and ckeys: "map command_key (db_commands db') = map command_key (db_commands db)"
    by (simp_all add: db' complete_writes_def sql_update_keys)
  then have wids: "workflow_key ` set (db_workflows db') = workflow_key ` set (db_workflows db)" by (metis list.set_map)
  have done': "wf_State (wr_Workflow w) = ''COMPLETED''" if mem: "w \<in> set (db_workflows db')"
    and k: "workflow_key w = ?i \<or> w \<in> set (db_workflows db) \<and> wf_State (wr_Workflow w) = ''COMPLETED''" for w
  proof -
    from mem have "w \<in> set (sql_update (\<lambda>r. workflow_key r = ?i \<and> wf_State (wr_Workflow r) \<noteq> ''COMPLETED'')
       (\<lambda>r. workflow_update now ''COMPLETED'' None (r\<lparr>wr_Workflow := (wr_Workflow r)\<lparr>wf_CompletedAt := Some (pg_ts c)\<rparr>\<rparr>)) (db_workflows db))"
      by (simp add: db' complete_writes_def)
    then show ?thesis using k by (elim in_sql_updateE) (auto simp: workflow_update_def split: if_splits)
  qed
  have wother: "w \<in> set (db_workflows db)" if "w \<in> set (db_workflows db')" "workflow_key w \<noteq> ?i" for w
    using that by (auto simp: db' complete_writes_def elim!: in_sql_updateE split: if_splits)
  have creds: "db_credentials db' = db_credentials db" by (simp add: db' complete_writes_def)
  have ck: "completion_keys db' = insert ?i (completion_keys db)" using keys by (simp add: db')
  have ok: "tx_ok db' t" if mem: "t \<in> set (db_transactions db')" for t
  proof (cases "t = row'")
    case True
    have "tx_ok db row" using core row(1) by (simp add: life_core_def)
    then show ?thesis using True row' id done' by (auto simp: tx_ok_def creds ck)
  next
    case False
    then have t: "t \<in> set (db_transactions db)" "tx_HALTransactionID t \<noteq> ?i"
      using mem unfolding ts by (auto elim!: in_sql_updateE split: if_splits)
    then have "tx_ok db t" using core by (simp add: life_core_def)
    then show ?thesis using t(2) wother by (auto simp: tx_ok_def creds ck)
  qed
  have "tx_ok db row" using core row(1) by (simp add: life_core_def)
  then have "?i \<notin> completion_keys db" using row(2) by (simp add: tx_ok_def)
  then have "sql_count (is_completion ?i) (db_facts db) = 0" using f by (simp add: fact_inv_def)
  then have counts: "sql_count (is_completion a) (db_facts db') = 1" if "a \<in> completion_keys db'" for a
  proof (cases "a = ?i")
    case False
    then have "a \<in> completion_keys db" using that ck by auto
    then have "sql_count (is_completion a) (db_facts db) = 1" using core unfolding life_core_def by blast
    then show ?thesis using False fact by (simp add: db')
  qed (use fact in \<open>simp add: db'\<close>)
  have "life_core db'"
    unfolding life_core_def
  proof (intro conjI ballI counts ok)
    show "keys_inv db'" using core by (simp add: life_core_def keys_inv_def tkeys wkeys ckeys creds)
  qed (use core row(1) in \<open>auto simp: life_core_def tids wids creds ck\<close>)
  moreover have "limit_inv db'"
    unfolding limit_inv_def
  proof (intro ballI impI)
    fix t assume t: "t \<in> set (db_transactions db')" "tx_CompletedAt t = None \<and> energy_limit_reached t"
    then have "t \<in> set (db_transactions db)" using row'(3) unfolding ts by (auto elim!: in_sql_updateE split: if_splits)
    then show "tx_HALTransactionID t \<in> workflow_key ` set (db_workflows db')" using lim t(2) wids by (simp add: limit_inv_def)
  qed
  moreover have "tx_progress db db'"
    unfolding tx_progress_def
  proof
    fix t assume t: "t \<in> set (db_transactions db)"
    have "(if tx_HALTransactionID t = ?i then row' else t) \<in> set (db_transactions db')"
      unfolding ts set_sql_update using t by (intro image_eqI [of _ _ t]) simp_all
    moreover have "tx_advances (load_transaction t) (load_transaction (if tx_HALTransactionID t = ?i then row' else t))"
      using only [OF t] load_advances [OF row'(2)] by auto
    ultimately show "\<exists>t'\<in>set (db_transactions db'). tx_advances (load_transaction t) (load_transaction t')" by blast
  qed
  ultimately show ?thesis using fi by (simp add: life_inv_def)
qed

lemma complete_tx_kept:
  assumes run: "complete_tx E i raw reason c o' db = (Inr t, db')" and "in_int64 raw"
  shows "life_kept db db'"
  unfolding life_kept_def
proof
  assume inv: "life_inv db"
  show "life_inv db' \<and> tx_progress db db' \<and> outbox_kept (db_facts db) (db_facts db')"
  proof (cases "db' = db")
    case False
    obtain r w where lock: "lockV1StopLifecycleRows i db = Inr (r, w)"
      using run by (auto simp: complete_tx_def split: sum.splits)
    then obtain row where row: "row \<in> set (db_transactions db)" "tx_HALTransactionID row = i" "r = load_transaction row"
      using lockRows_Inr(1) getV1TransactionByID_Inr by metis
    have open': "tx_CompletedAt row = None" and adm: "\<not> completion_inadmissible r raw c o'"
      using run False lock row(3) by (auto simp: complete_tx_def split: if_splits)
    then obtain e where e: "classifyV1MeterEvidence (tx_MeterStartWh row) (tx_LatestMeterWh row) raw = Inr e"
      using run lock row(3) by (auto simp: complete_tx_def split: sum.splits)
    let ?row' = "pg_complete_row e raw reason c o' r"
    let ?db1 = "complete_writes (env_now E) i c ?row' db"
    have core: "life_core db" using inv by (simp add: life_inv_def)
    then have ok: "tx_ok db row" using row(1) by (simp add: life_core_def)
    then have row': "tx_wf (load_transaction ?row')" "tx_advances row ?row'" "tx_CompletedAt ?row' \<noteq> None"
      using pg_complete_row_ok [OF _ open' assms(2) _ e] adm row(3) by (simp_all add: tx_ok_def)
    obtain p u where ins: "insertV1FactTx E 0 ''transaction.completed'' i None o' p ?db1 = (Inr u, db')"
      using run lock row(3) open' adm e
      by (auto simp: complete_tx_def Let_def tx_bind_Inr split: sum.splits option.splits)
    have "i \<notin> completion_keys ?db1" using ok open' row(2) by (simp add: tx_ok_def complete_writes_def)
    then obtain fr keys where db': "db' = ?db1\<lparr>db_facts := db_facts ?db1 @ [fr], db_completion_keys := keys\<rparr>"
      and keys: "fst ` set keys = insert i (completion_keys ?db1)" and fr: "\<And>b. is_completion b fr \<longleftrightarrow> b = i"
      by (rule insert_completion_fact [OF ins]) blast
    have kept: "facts_kept db db'"
      using facts_kept_trans [OF facts_kept_frame insertV1FactTx_kept [OF ins]] by (simp add: complete_writes_def)
    then have f: "fact_inv db'" "outbox_kept (db_facts db) (db_facts db')"
      using inv by (simp_all add: facts_kept_def life_inv_def)
    have "life_inv db' \<and> tx_progress db db'"
      using keys fr f(1) db' row(2)
      by (intro complete_rows [OF inv row(1) open' row']) (simp_all add: complete_writes_def)
    then show ?thesis using f(2) by simp
  qed (use inv in simp)
qed

lemma CompleteV1Transaction_kept:
  assumes "in_int64 raw"
  shows "life_kept db (snd (pg_CompleteV1Transaction F E i raw reason c o' db))"
  unfolding pg_CompleteV1Transaction_def by (rule with_rel) (use complete_tx_kept assms in auto)

end
