(* ===== verification/PG_Mapping.thy ===== *)
theory PG_Mapping
  imports PG_Database
begin

text \<open>
  Charger enrolment (\<^verbatim>\<open>store/v1_postgres.go\<close>): the binding of CMS chargers and connectors to OCPP
  identities, its validation for requests and for connecting chargers, and boot evidence. The
  constraints of the migrations are branches: a uniqueness violation (\<^verbatim>\<open>23505\<close>) or a check
  violation (\<^verbatim>\<open>23514\<close>).
\<close>

definition serial_check :: "string \<Rightarrow> bool" where
  "serial_check s \<longleftrightarrow> s = '''' \<or> length s \<le> 100 \<and> (\<forall>c\<in>set s. \<not> is_space c \<and> c \<noteq> CHR ''/'')"

fun sync_connectors :: "V1MappingInput \<Rightarrow> V1ConnectorMappingInput list \<Rightarrow> V1ConnectorMapping list
   \<Rightarrow> V1ConnectorMapping list res" where
  "sync_connectors input [] t = Inr t"
| "sync_connectors input (connector # rest) t =
     (case sql_row cm_CMSConnectorID (cmin_CMSConnectorID connector) t of
        Some old \<Rightarrow>
          if cm_CMSChargerID old \<noteq> mapin_CMSChargerID input \<or> cm_CPOID old \<noteq> mapin_CPOID input
            \<or> cm_OCPPConnectorNumber old \<noteq> cmin_OCPPConnectorNumber connector
          then Inl ErrV1MappingConflict
          else sync_connectors input rest t
      | None \<Rightarrow>
          if cmin_OCPPConnectorNumber connector < 0 then Inl (ErrOther ''23514'')
          else if \<exists>c\<in>set t. cm_ChargerOCPPIdentity c = mapin_ChargerOCPPIdentity input
              \<and> cm_OCPPConnectorNumber c = cmin_OCPPConnectorNumber connector
          then Inl ErrV1MappingConflict
          else sync_connectors input rest (t @ [\<lparr>cm_CPOID = mapin_CPOID input,
            cm_CMSChargerID = mapin_CMSChargerID input, cm_CMSConnectorID = cmin_CMSConnectorID connector,
            cm_ChargerOCPPIdentity = mapin_ChargerOCPPIdentity input,
            cm_OCPPConnectorNumber = cmin_OCPPConnectorNumber connector\<rparr>]))"

definition loadV1Mapping :: "string \<Rightarrow> PostgresStore \<Rightarrow> V1ChargerMapping res" where
  "loadV1Mapping cmsChargerID db =
     (case sql_row mr_CMSChargerID cmsChargerID (db_mappings db) of
        None \<Rightarrow> Inl ErrV1MappingNotFound
      | Some m \<Rightarrow> Inr \<lparr>chm_CPOID = mr_CPOID m, chm_CMSChargerID = mr_CMSChargerID m,
          chm_ChargerOCPPIdentity = mr_ChargerOCPPIdentity m, chm_ExpectedSerial = mr_ExpectedSerial m,
          chm_Enabled = mr_Enabled m,
          chm_Connectors = sort_key cm_OCPPConnectorNumber
            (filter (\<lambda>c. cm_CMSChargerID c = cmsChargerID) (db_connectors db))\<rparr>)"

text \<open>\<^verbatim>\<open>INSERT INTO v1_charger_runtime ... ON CONFLICT DO NOTHING\<close>, with the column defaults.\<close>

definition seed_runtime :: "gotime \<Rightarrow> string \<Rightarrow> PostgresStore \<Rightarrow> PostgresStore" where
  "seed_runtime now identity db =
     (if identity \<in> rr_ChargerOCPPIdentity ` set (db_runtime db) then db
      else db\<lparr>db_runtime := db_runtime db @ [\<lparr>rr_ChargerOCPPIdentity = identity,
             rr_ConnectionState = ''UNKNOWN'', rr_ConnectionGeneration = 0, rr_ConnectionSequence = 0,
             rr_ConnectedAt = None, rr_LastObservedAt = None, rr_UpdatedAt = now\<rparr>]\<rparr>)"

definition audit_mapping ::
  "pg_env \<Rightarrow> V1MappingInput \<Rightarrow> string \<Rightarrow> PostgresStore \<Rightarrow> unit res \<times> PostgresStore" where
  "audit_mapping E input action db =
     (case NewSecureUUIDString (env_uuid E 0) of
        Inl idErr \<Rightarrow> (Inl idErr, db)
      | Inr auditID \<Rightarrow>
          if auditID \<in> ma_ID ` set (db_mapping_audit db) then (Inl ErrUniqueViolation, db)
          else (Inr (), db\<lparr>db_mapping_audit := db_mapping_audit db @ [\<lparr>ma_ID = auditID, ma_CPOID = mapin_CPOID input,
             ma_CMSChargerID = mapin_CMSChargerID input, ma_CorrelationID = mapin_CorrelationID input,
             ma_RequestDigest = mapin_RequestDigest input, ma_Action = action\<rparr>]\<rparr>))"

definition new_mapping :: "pg_env \<Rightarrow> V1MappingInput \<Rightarrow> mapping_row" where
  "new_mapping E input = \<lparr>mr_CMSChargerID = mapin_CMSChargerID input,
     mr_CPOID = mapin_CPOID input, mr_ChargerOCPPIdentity = mapin_ChargerOCPPIdentity input,
     mr_ExpectedSerial = mapin_ExpectedSerial input, mr_Enabled = mapin_Enabled input,
     mr_UpdatedAt = env_now E\<rparr>"

definition touch_mapping :: "pg_env \<Rightarrow> V1MappingInput \<Rightarrow> mapping_row \<Rightarrow> mapping_row" where
  "touch_mapping E input m = m\<lparr>mr_Enabled := mapin_Enabled input,
     mr_ExpectedSerial := mapin_ExpectedSerial input, mr_UpdatedAt := env_now E\<rparr>"

definition insert_mapping :: "pg_env \<Rightarrow> V1MappingInput \<Rightarrow> PostgresStore \<Rightarrow> unit res \<times> PostgresStore" where
  "insert_mapping E input db =
     (if mapin_ChargerOCPPIdentity input \<in> mr_ChargerOCPPIdentity ` set (db_mappings db)
      then (Inl ErrV1MappingConflict, db)
      else if \<not> serial_check (mapin_ExpectedSerial input) then (Inl (ErrOther ''23514''), db)
      else (Inr (), db\<lparr>db_mappings := db_mappings db @ [new_mapping E input]\<rparr>))"

definition update_mapping :: "pg_env \<Rightarrow> V1MappingInput \<Rightarrow> PostgresStore \<Rightarrow> unit res \<times> PostgresStore" where
  "update_mapping E input db =
     (if \<not> serial_check (mapin_ExpectedSerial input) then (Inl (ErrOther ''23514''), db)
      else (Inr (), db\<lparr>db_mappings := sql_update (\<lambda>m. mr_CMSChargerID m = mapin_CMSChargerID input)
             (touch_mapping E input) (db_mappings db)\<rparr>))"

text \<open>The body of the transaction of \<^verbatim>\<open>SyncV1Mapping\<close>; its result is \<^verbatim>\<open>created\<close>.\<close>

definition sync_mapping_tx :: "pg_env \<Rightarrow> V1MappingInput \<Rightarrow> PostgresStore \<Rightarrow> bool res \<times> PostgresStore" where
  "sync_mapping_tx E input db =
     (let existing = sql_row mr_CMSChargerID (mapin_CMSChargerID input) (db_mappings db);
          created = (existing = None)
      in if (case existing of None \<Rightarrow> False | Some m \<Rightarrow>
              mr_ChargerOCPPIdentity m \<noteq> mapin_ChargerOCPPIdentity input \<or> mr_CPOID m \<noteq> mapin_CPOID input)
         then (Inl ErrV1MappingConflict, db)
         else (case (if created then insert_mapping E input db else (Inr (), db)) of
             (Inl err, db1) \<Rightarrow> (Inl err, db1)
           | (Inr _, db1) \<Rightarrow>
             (case sync_connectors input (mapin_Connectors input) (db_connectors db1) of
                Inl err \<Rightarrow> (Inl err, db1)
              | Inr connectors \<Rightarrow>
                (case (if \<not> created then update_mapping E input (db1\<lparr>db_connectors := connectors\<rparr>)
                       else (Inr (), db1\<lparr>db_connectors := connectors\<rparr>)) of
                   (Inl err, db2) \<Rightarrow> (Inl err, db2)
                 | (Inr _, db2) \<Rightarrow>
                   (let db3 = seed_runtime (env_now E) (mapin_ChargerOCPPIdentity input) db2;
                        action = (if created then ''ENROLLED'' else ''ENABLEMENT_CHANGED'')
                    in if (case existing of None \<Rightarrow> True | Some m \<Rightarrow> mr_Enabled m \<noteq> mapin_Enabled input)
                       then (case audit_mapping E input action db3 of
                           (Inl err, db4) \<Rightarrow> (Inl err, db4)
                         | (Inr _, db4) \<Rightarrow> (Inr created, db4))
                       else (Inr created, db3))))))"

definition pg_SyncV1Mapping ::
  "pg_env \<Rightarrow> V1MappingInput \<Rightarrow> PostgresStore \<Rightarrow> (V1ChargerMapping \<times> bool) res \<times> PostgresStore" where
  "pg_SyncV1Mapping E input db =
     (case pg_tx (sync_mapping_tx E input) db of
        (Inl err, db') \<Rightarrow> (Inl err, db')
      | (Inr created, db') \<Rightarrow>
          (case loadV1Mapping (mapin_CMSChargerID input) db' of
             Inl err \<Rightarrow> (Inl err, db')
           | Inr mapping \<Rightarrow> (Inr (mapping, \<not> created), db')))"

definition pg_ValidateV1Mapping ::
  "string \<Rightarrow> string \<Rightarrow> string \<Rightarrow> string \<Rightarrow> int \<Rightarrow> PostgresStore \<Rightarrow> unit res" where
  "pg_ValidateV1Mapping cpoID cmsChargerID cmsConnectorID identity connector db =
     (case find (\<lambda>m. mr_CPOID m = cpoID \<and> mr_CMSChargerID m = cmsChargerID
            \<and> mr_ChargerOCPPIdentity m = identity
            \<and> (\<exists>c\<in>set (db_connectors db). cm_CMSChargerID c = mr_CMSChargerID m
                 \<and> cm_CMSConnectorID c = cmsConnectorID \<and> cm_ChargerOCPPIdentity c = identity
                 \<and> cm_OCPPConnectorNumber c = connector)) (db_mappings db) of
        None \<Rightarrow> Inl ErrV1MappingNotFound
      | Some m \<Rightarrow> if \<not> mr_Enabled m then Inl ErrV1CredentialRejected else Inr ())"

definition pg_ValidateV1ChargerAdmission :: "string \<Rightarrow> string \<Rightarrow> PostgresStore \<Rightarrow> unit res" where
  "pg_ValidateV1ChargerAdmission identity presentedSerial db =
     (case sql_row mr_ChargerOCPPIdentity identity (db_mappings db) of
        None \<Rightarrow> Inl ErrV1MappingNotFound
      | Some m \<Rightarrow>
          if \<not> mr_Enabled m then Inl ErrV1CredentialRejected
          else if mr_ExpectedSerial m \<noteq> '''' \<and> presentedSerial \<noteq> '''' \<and> mr_ExpectedSerial m \<noteq> presentedSerial
          then Inl ErrV1IdentityConflict
          else Inr ())"

definition pg_RecordV1BootEvidence :: "string \<Rightarrow> V1BootEvidence \<Rightarrow> PostgresStore \<Rightarrow> unit res \<times> PostgresStore" where
  "pg_RecordV1BootEvidence identity evidence db =
     (case sql_row mr_ChargerOCPPIdentity identity (db_mappings db) of
        None \<Rightarrow> (Inl ErrV1MappingNotFound, db)
      | Some m \<Rightarrow>
        (let expectedSerial = mr_ExpectedSerial m;
             differs = (\<lambda>presented. expectedSerial \<noteq> '''' \<and> presented \<noteq> '''' \<and> presented \<noteq> expectedSerial);
             serialConflict = (differs (boot_PathSerial evidence)
               \<or> differs (boot_ChargePointSerialNumber evidence) \<or> differs (boot_ChargeBoxSerialNumber evidence));
             row = \<lparr>br_ChargerOCPPIdentity = identity,
               br_Evidence = evidence\<lparr>boot_ObservedAt := pg_ts (boot_ObservedAt evidence)\<rparr>, br_SerialConflict = serialConflict\<rparr>
         in if identity \<in> br_ChargerOCPPIdentity ` set (db_boot db)
            then (Inr (), db\<lparr>db_boot := sql_update (\<lambda>r. br_ChargerOCPPIdentity r = identity) (\<lambda>_. row) (db_boot db)\<rparr>)
            else (Inr (), db\<lparr>db_boot := db_boot db @ [row]\<rparr>)))"

subsection \<open>Invariant\<close>

text \<open>
  A CMS charger has one binding and an OCPP identity belongs to one charger; a connector
  identifier and a connector number of an identity are used once; a connector repeats the binding
  of its charger; and every enrolled identity has a runtime row.
\<close>

definition connector_slot :: "V1ConnectorMapping \<Rightarrow> string \<times> int" where
  "connector_slot c = (cm_ChargerOCPPIdentity c, cm_OCPPConnectorNumber c)"

definition connector_bound :: "mapping_row list \<Rightarrow> V1ConnectorMapping \<Rightarrow> bool" where
  "connector_bound ms c \<longleftrightarrow> (\<exists>m\<in>set ms. mr_CMSChargerID m = cm_CMSChargerID c \<and> mr_CPOID m = cm_CPOID c
     \<and> mr_ChargerOCPPIdentity m = cm_ChargerOCPPIdentity c)"

definition runtime_identities :: "PostgresStore \<Rightarrow> string set" where
  "runtime_identities db = rr_ChargerOCPPIdentity ` set (db_runtime db)"

definition mapping_inv :: "PostgresStore \<Rightarrow> bool" where
  "mapping_inv db \<longleftrightarrow> distinct (map mr_CMSChargerID (db_mappings db))
     \<and> distinct (map mr_ChargerOCPPIdentity (db_mappings db))
     \<and> distinct (map cm_CMSConnectorID (db_connectors db)) \<and> distinct (map connector_slot (db_connectors db))
     \<and> (\<forall>c\<in>set (db_connectors db). connector_bound (db_mappings db) c)
     \<and> mr_ChargerOCPPIdentity ` set (db_mappings db) \<subseteq> runtime_identities db"

text \<open>No enrolment undoes another: bindings are immutable and connectors stay.\<close>

definition mapping_kept :: "PostgresStore \<Rightarrow> PostgresStore \<Rightarrow> bool" where
  "mapping_kept db db' \<longleftrightarrow> set (db_connectors db) \<subseteq> set (db_connectors db')
     \<and> (\<forall>i m. sql_row mr_CMSChargerID i (db_mappings db) = Some m \<longrightarrow>
          (\<exists>m'. sql_row mr_CMSChargerID i (db_mappings db') = Some m' \<and> mr_CPOID m' = mr_CPOID m
             \<and> mr_ChargerOCPPIdentity m' = mr_ChargerOCPPIdentity m))"

lemma sync_connectors_ok:
  assumes "sync_connectors input cs t = Inr t'"
  shows "(\<exists>new. t' = t @ new \<and> (\<forall>c\<in>set new. cm_CPOID c = mapin_CPOID input
        \<and> cm_CMSChargerID c = mapin_CMSChargerID input \<and> cm_ChargerOCPPIdentity c = mapin_ChargerOCPPIdentity input))
    \<and> (distinct (map cm_CMSConnectorID t) \<longrightarrow> distinct (map cm_CMSConnectorID t'))
    \<and> (distinct (map connector_slot t) \<longrightarrow> distinct (map connector_slot t'))
    \<and> (\<forall>ci\<in>set cs. \<exists>c\<in>set t'. cm_CMSConnectorID c = cmin_CMSConnectorID ci \<and> cm_CPOID c = mapin_CPOID input
        \<and> cm_CMSChargerID c = mapin_CMSChargerID input \<and> cm_OCPPConnectorNumber c = cmin_OCPPConnectorNumber ci)"
  using assms
proof (induction cs arbitrary: t)
  case (Cons ci cs)
  show ?case
  proof (cases "sql_row cm_CMSConnectorID (cmin_CMSConnectorID ci) t")
    case (Some old)
    then have "old \<in> set t" "cm_CMSConnectorID old = cmin_CMSConnectorID ci" by (auto dest: sql_row_SomeD)
    with Some Cons.prems Cons.IH [of t] show ?thesis by (fastforce split: if_splits)
  next
    case None
    define c where "c = \<lparr>cm_CPOID = mapin_CPOID input,
            cm_CMSChargerID = mapin_CMSChargerID input, cm_CMSConnectorID = cmin_CMSConnectorID ci,
            cm_ChargerOCPPIdentity = mapin_ChargerOCPPIdentity input,
            cm_OCPPConnectorNumber = cmin_OCPPConnectorNumber ci\<rparr>"
    have rest: "sync_connectors input cs (t @ [c]) = Inr t'"
      and slot: "\<not> (\<exists>x\<in>set t. cm_ChargerOCPPIdentity x = mapin_ChargerOCPPIdentity input
              \<and> cm_OCPPConnectorNumber x = cmin_OCPPConnectorNumber ci)"
      using None Cons.prems by (simp_all add: c_def split: if_splits)
    note IH = Cons.IH [OF rest]
    have "cm_CMSConnectorID c \<notin> cm_CMSConnectorID ` set t"
      using None by (simp add: sql_row_None c_def)
    moreover have "connector_slot c \<notin> connector_slot ` set t"
      using slot by (auto simp: connector_slot_def c_def)
    moreover obtain new where "t' = (t @ [c]) @ new" "\<forall>c\<in>set new. cm_CPOID c = mapin_CPOID input
        \<and> cm_CMSChargerID c = mapin_CMSChargerID input \<and> cm_ChargerOCPPIdentity c = mapin_ChargerOCPPIdentity input"
      using IH by blast
    moreover have "c \<in> set t'" using calculation by simp
    ultimately show ?thesis using IH
      by (intro conjI exI [of _ "c # new"]) (auto simp: c_def)
  qed
qed simp

lemma seed_runtime_frame [simp]:
  "db_mappings (seed_runtime now i db) = db_mappings db" "db_connectors (seed_runtime now i db) = db_connectors db"
  "db_facts (seed_runtime now i db) = db_facts db" "db_completion_keys (seed_runtime now i db) = db_completion_keys db"
  "runtime_identities (seed_runtime now i db) = insert i (runtime_identities db)"
  by (auto simp: seed_runtime_def runtime_identities_def)

lemma runtime_identities_frame [simp]:
  "runtime_identities (db\<lparr>db_mapping_audit := a\<rparr>) = runtime_identities db"
  "runtime_identities (db\<lparr>db_mappings := ms\<rparr>) = runtime_identities db"
  "runtime_identities (db\<lparr>db_connectors := cs\<rparr>) = runtime_identities db"
  by (simp_all add: runtime_identities_def)

lemma audit_mapping_frame:
  "audit_mapping E input action db = (r, db') \<Longrightarrow> \<exists>audit. db' = db\<lparr>db_mapping_audit := audit\<rparr>"
proof -
  assume a: "audit_mapping E input action db = (r, db')"
  have "db = db\<lparr>db_mapping_audit := db_mapping_audit db\<rparr>" by simp
  then have "\<exists>audit. db = db\<lparr>db_mapping_audit := audit\<rparr>" by blast
  with a show ?thesis by (auto simp: audit_mapping_def split: sum.splits if_splits)
qed

lemma mapping_row_sel [simp]:
  "mr_CMSChargerID (new_mapping E input) = mapin_CMSChargerID input"
  "mr_CPOID (new_mapping E input) = mapin_CPOID input"
  "mr_ChargerOCPPIdentity (new_mapping E input) = mapin_ChargerOCPPIdentity input"
  "mr_ExpectedSerial (new_mapping E input) = mapin_ExpectedSerial input"
  "mr_Enabled (new_mapping E input) = mapin_Enabled input"
  "mr_CMSChargerID (touch_mapping E input m) = mr_CMSChargerID m"
  "mr_CPOID (touch_mapping E input m) = mr_CPOID m"
  "mr_ChargerOCPPIdentity (touch_mapping E input m) = mr_ChargerOCPPIdentity m"
  "mr_ExpectedSerial (touch_mapping E input m) = mapin_ExpectedSerial input"
  "mr_Enabled (touch_mapping E input m) = mapin_Enabled input"
  by (simp_all add: new_mapping_def touch_mapping_def)

text \<open>The tables after a committed synchronization.\<close>

lemma sync_mapping_tx_ok:
  assumes "sync_mapping_tx E input db = (Inr created, db')"
  shows "sync_connectors input (mapin_Connectors input) (db_connectors db) = Inr (db_connectors db')
    \<and> runtime_identities db' = insert (mapin_ChargerOCPPIdentity input) (runtime_identities db)
    \<and> (created \<and> sql_row mr_CMSChargerID (mapin_CMSChargerID input) (db_mappings db) = None
         \<and> mapin_ChargerOCPPIdentity input \<notin> mr_ChargerOCPPIdentity ` set (db_mappings db)
         \<and> db_mappings db' = db_mappings db @ [new_mapping E input]
       \<or> \<not> created \<and> (\<exists>m. sql_row mr_CMSChargerID (mapin_CMSChargerID input) (db_mappings db) = Some m
             \<and> mr_ChargerOCPPIdentity m = mapin_ChargerOCPPIdentity input \<and> mr_CPOID m = mapin_CPOID input)
         \<and> db_mappings db' = sql_update (\<lambda>m. mr_CMSChargerID m = mapin_CMSChargerID input) (touch_mapping E input) (db_mappings db))"
proof (cases "sql_row mr_CMSChargerID (mapin_CMSChargerID input) (db_mappings db)")
  case None
  with assms show ?thesis
    by (auto simp: sync_mapping_tx_def insert_mapping_def Let_def
        split: if_splits sum.splits prod.splits dest!: audit_mapping_frame)
next
  case (Some m)
  with assms show ?thesis
    by (auto simp: sync_mapping_tx_def update_mapping_def Let_def
        split: if_splits sum.splits prod.splits dest!: audit_mapping_frame)
qed

lemma sync_mapping_tx_row:
  assumes "sync_mapping_tx E input db = (Inr created, db')"
  shows "\<exists>m. sql_row mr_CMSChargerID (mapin_CMSChargerID input) (db_mappings db') = Some m
    \<and> mr_CMSChargerID m = mapin_CMSChargerID input \<and> mr_CPOID m = mapin_CPOID input
    \<and> mr_ChargerOCPPIdentity m = mapin_ChargerOCPPIdentity input
    \<and> mr_ExpectedSerial m = mapin_ExpectedSerial input \<and> mr_Enabled m = mapin_Enabled input"
proof (cases created)
  case True
  then show ?thesis using sync_mapping_tx_ok [OF assms] by (auto simp: sql_row_append)
next
  case False
  then obtain m where m: "sql_row mr_CMSChargerID (mapin_CMSChargerID input) (db_mappings db) = Some m"
      "mr_ChargerOCPPIdentity m = mapin_ChargerOCPPIdentity input" "mr_CPOID m = mapin_CPOID input"
      "db_mappings db' = sql_update (\<lambda>m. mr_CMSChargerID m = mapin_CMSChargerID input) (touch_mapping E input) (db_mappings db)"
    using sync_mapping_tx_ok [OF assms] by (auto simp del: not_None_eq)
  have "mr_CMSChargerID m = mapin_CMSChargerID input" using sql_row_SomeD [OF m(1)] by blast
  with m show ?thesis by (intro exI [of _ "touch_mapping E input m"]) (simp add: sql_row_update)
qed

lemma sync_mapping_tx_kept:
  assumes "sync_mapping_tx E input db = (Inr created, db')"
  shows "mapping_kept db db'"
proof -
  note ok = sync_mapping_tx_ok [OF assms]
  then have "set (db_connectors db) \<subseteq> set (db_connectors db')" using sync_connectors_ok by fastforce
  moreover have "\<exists>m'. sql_row mr_CMSChargerID i (db_mappings db') = Some m' \<and> mr_CPOID m' = mr_CPOID m
      \<and> mr_ChargerOCPPIdentity m' = mr_ChargerOCPPIdentity m"
    if "sql_row mr_CMSChargerID i (db_mappings db) = Some m" for i m
    using ok that by (auto simp: sql_row_append sql_row_update)
  ultimately show ?thesis by (simp add: mapping_kept_def)
qed

lemma sync_mapping_tx_inv:
  assumes "sync_mapping_tx E input db = (Inr created, db')" and inv: "mapping_inv db"
  shows "mapping_inv db'"
proof -
  note ok = sync_mapping_tx_ok [OF assms(1)]
  then have c: "sync_connectors input (mapin_Connectors input) (db_connectors db) = Inr (db_connectors db')" by blast
  obtain m where m: "m \<in> set (db_mappings db')" "mr_CMSChargerID m = mapin_CMSChargerID input" "mr_CPOID m = mapin_CPOID input"
      "mr_ChargerOCPPIdentity m = mapin_ChargerOCPPIdentity input"
    using sync_mapping_tx_row [OF assms(1)] by (auto dest: sql_row_SomeD)
  have keys: "distinct (map mr_CMSChargerID (db_mappings db')) \<and> distinct (map mr_ChargerOCPPIdentity (db_mappings db'))"
    using inv ok by (auto simp: mapping_inv_def sql_update_keys sql_row_None)
  have ids: "mr_ChargerOCPPIdentity ` set (db_mappings db')
      \<subseteq> insert (mapin_ChargerOCPPIdentity input) (mr_ChargerOCPPIdentity ` set (db_mappings db))"
    using ok by (auto simp: set_sql_update)
  have bound: "connector_bound (db_mappings db') c" if b: "connector_bound (db_mappings db) c" for c
  proof -
    obtain x where x: "x \<in> set (db_mappings db)" "mr_CMSChargerID x = cm_CMSChargerID c" "mr_CPOID x = cm_CPOID c"
        "mr_ChargerOCPPIdentity x = cm_ChargerOCPPIdentity c"
      using b unfolding connector_bound_def by blast
    then have "x \<in> set (db_mappings db') \<or> touch_mapping E input x \<in> set (db_mappings db')"
      using ok by (auto simp: set_sql_update)
    moreover have "mr_CMSChargerID (touch_mapping E input x) = cm_CMSChargerID c"
      "mr_CPOID (touch_mapping E input x) = cm_CPOID c"
      "mr_ChargerOCPPIdentity (touch_mapping E input x) = cm_ChargerOCPPIdentity c" using x by simp_all
    ultimately show ?thesis using x unfolding connector_bound_def by blast
  qed
  have "\<forall>c\<in>set (db_connectors db'). connector_bound (db_mappings db') c"
  proof
    fix x assume "x \<in> set (db_connectors db')"
    then consider "x \<in> set (db_connectors db)" | "cm_CPOID x = mapin_CPOID input" "cm_CMSChargerID x = mapin_CMSChargerID input"
        "cm_ChargerOCPPIdentity x = mapin_ChargerOCPPIdentity input"
      using sync_connectors_ok [OF c] by fastforce
    then show "connector_bound (db_mappings db') x"
      by cases (use inv bound m in \<open>auto simp: mapping_inv_def connector_bound_def\<close>)
  qed
  moreover have "mr_ChargerOCPPIdentity ` set (db_mappings db') \<subseteq> runtime_identities db'"
    using ids ok inv unfolding mapping_inv_def by blast
  moreover have "distinct (map cm_CMSConnectorID (db_connectors db'))" "distinct (map connector_slot (db_connectors db'))"
    using sync_connectors_ok [OF c] inv by (simp_all add: mapping_inv_def)
  ultimately show ?thesis using keys by (simp add: mapping_inv_def)
qed


definition sample_mapping :: V1MappingInput where
  "sample_mapping = \<lparr>mapin_CPOID = ''cpo'', mapin_CMSChargerID = ''ch'', mapin_ChargerOCPPIdentity = ''CP1'',
     mapin_ExpectedSerial = ''SN1'', mapin_Enabled = True,
     mapin_Connectors = [\<lparr>cmin_CMSConnectorID = ''con'', cmin_OCPPConnectorNumber = 1\<rparr>],
     mapin_CorrelationID = ''corr'', mapin_RequestDigest = ''d''\<rparr>"

definition sample_enrolled :: PostgresStore where
  "sample_enrolled = snd (pg_SyncV1Mapping sample_env sample_mapping empty_db)"

lemma sample_sync: "\<exists>m. pg_SyncV1Mapping sample_env sample_mapping empty_db = (Inr (m, False), sample_enrolled)"
  by (simp add: sample_enrolled_def pg_SyncV1Mapping_def pg_tx_def sync_mapping_tx_def sample_mapping_def sample_env_def
      empty_db_def insert_mapping_def serial_check_def is_space_def sql_row_def seed_runtime_def audit_mapping_def
      NewSecureUUIDString_def nil_uuid_def loadV1Mapping_def new_mapping_def Let_def)

lemma mapping_inv_empty: "mapping_inv empty_db"
  by (simp add: mapping_inv_def empty_db_def)


end
