(* ===== verification/PG_Runtime.thy ===== *)
theory PG_Runtime
  imports PG_Facts PG_Mapping
begin

text \<open>
  Connection and connector state (\<^verbatim>\<open>store/v1_postgres.go\<close>): the durable runtime rows that connection
  callbacks update under a generation fence, and the facts that report every change to the CMS.
\<close>

definition admitted_mapping :: "string \<Rightarrow> PostgresStore \<Rightarrow> mapping_row res" where
  "admitted_mapping identity db =
     (case sql_row mr_ChargerOCPPIdentity identity (db_mappings db) of
        None \<Rightarrow> Inl ErrV1MappingNotFound
      | Some m \<Rightarrow> if \<not> mr_Enabled m then Inl ErrV1CredentialRejected else Inr m)"

text \<open>
  The upsert of \<^verbatim>\<open>RecordV1ChargerConnection\<close>: \<open>None\<close> when its condition refuses the row
  (\<^verbatim>\<open>RowsAffected\<close> 0).
\<close>

definition connection_accepted :: "string \<Rightarrow> int \<Rightarrow> runtime_row \<Rightarrow> bool" where
  "connection_accepted state generation r \<longleftrightarrow> generation > rr_ConnectionGeneration r
     \<or> generation = rr_ConnectionGeneration r \<and> rr_ConnectionState r = ''ONLINE'' \<and> state = ''OFFLINE''"

definition connection_update :: "string \<Rightarrow> int \<Rightarrow> gotime \<Rightarrow> runtime_row \<Rightarrow> runtime_row" where
  "connection_update state generation t r = r\<lparr>rr_ConnectionState := state, rr_ConnectionGeneration := generation,
     rr_ConnectionSequence := rr_ConnectionSequence r + 1,
     rr_ConnectedAt := (if state = ''ONLINE'' then Some t else rr_ConnectedAt r),
     rr_LastObservedAt := Some t, rr_UpdatedAt := t\<rparr>"

definition upsert_connection ::
  "string \<Rightarrow> string \<Rightarrow> int \<Rightarrow> gotime \<Rightarrow> PostgresStore \<Rightarrow> PostgresStore option" where
  "upsert_connection identity state generation t db =
     (case sql_row rr_ChargerOCPPIdentity identity (db_runtime db) of
        None \<Rightarrow> Some (db\<lparr>db_runtime := db_runtime db @ [\<lparr>rr_ChargerOCPPIdentity = identity,
            rr_ConnectionState = state, rr_ConnectionGeneration = generation, rr_ConnectionSequence = 1,
            rr_ConnectedAt = (if state = ''ONLINE'' then Some t else None),
            rr_LastObservedAt = Some t, rr_UpdatedAt = t\<rparr>]\<rparr>)
      | Some r \<Rightarrow>
          if connection_accepted state generation r
          then Some (db\<lparr>db_runtime := sql_update (\<lambda>r. rr_ChargerOCPPIdentity r = identity)
                 (connection_update state generation t) (db_runtime db)\<rparr>)
          else None)"

definition pg_RecordV1ChargerConnection ::
  "pg_env \<Rightarrow> string \<Rightarrow> int \<Rightarrow> bool \<Rightarrow> gotime \<Rightarrow> PostgresStore \<Rightarrow> unit res \<times> PostgresStore" where
  "pg_RecordV1ChargerConnection E identity generation online t db =
     (let state = (if online then ''ONLINE'' else ''OFFLINE'') in
      pg_tx (\<lambda>db.
        case admitted_mapping identity db of
          Inl err \<Rightarrow> (Inl err, db)
        | Inr m \<Rightarrow>
          (case upsert_connection identity state generation (pg_ts t) db of
             None \<Rightarrow> (Inr (), db)
           | Some db1 \<Rightarrow>
             (case sql_row rr_ChargerOCPPIdentity identity (db_runtime db1) of
                None \<Rightarrow> (Inl ErrNoRows, db1)
              | Some r \<Rightarrow>
                insertV1FactTx E 0 ''charger.connection.updated'' identity (Some (rr_ConnectionSequence r)) t
                  (v1ConnectionFact (mr_CPOID m) (mr_CMSChargerID m) identity state generation
                    (rr_ConnectionSequence r) t) db1))) db)"

definition renewable :: "int \<Rightarrow> gotime \<Rightarrow> runtime_row \<Rightarrow> bool" where
  "renewable generation t r \<longleftrightarrow> rr_ConnectionGeneration r = generation \<and> rr_ConnectionState r = ''ONLINE''
     \<and> (case rr_LastObservedAt r of None \<Rightarrow> False | Some o' \<Rightarrow> o' < t)"

definition pg_RenewCurrentV1ChargerConnection ::
  "pg_env \<Rightarrow> string \<Rightarrow> int \<Rightarrow> gotime \<Rightarrow> PostgresStore \<Rightarrow> unit res \<times> PostgresStore" where
  "pg_RenewCurrentV1ChargerConnection E identity generation t db =
     pg_tx (\<lambda>db.
        case admitted_mapping identity db of
          Inl err \<Rightarrow> (Inl err, db)
        | Inr m \<Rightarrow>
          (case find (\<lambda>r. rr_ChargerOCPPIdentity r = identity \<and> renewable generation (pg_ts t) r) (db_runtime db) of
             None \<Rightarrow> (Inr (), db)
           | Some r \<Rightarrow>
             (let sequence = rr_ConnectionSequence r + 1;
                  db1 = db\<lparr>db_runtime := sql_update
                    (\<lambda>r. rr_ChargerOCPPIdentity r = identity \<and> renewable generation (pg_ts t) r)
                    (\<lambda>r. r\<lparr>rr_LastObservedAt := Some (pg_ts t), rr_UpdatedAt := pg_ts t,
                       rr_ConnectionSequence := rr_ConnectionSequence r + 1\<rparr>) (db_runtime db)\<rparr>
              in insertV1FactTx E 0 ''charger.connection.updated'' identity (Some sequence) t
                   (v1ConnectionFact (mr_CPOID m) (mr_CMSChargerID m) identity ''ONLINE'' generation sequence t) db1))) db"

definition connector_key :: "connector_runtime_row \<Rightarrow> string \<times> int" where
  "connector_key r = (xr_ChargerOCPPIdentity r, xr_OCPPConnectorNumber r)"

definition upsert_connector :: "gotime \<Rightarrow> V1ConnectorRuntime \<Rightarrow> gotime \<Rightarrow> PostgresStore \<Rightarrow> PostgresStore" where
  "upsert_connector now r observed db =
     (let k = (crt_ChargerOCPPIdentity r, crt_OCPPConnectorNumber r) in
      if k \<in> connector_key ` set (db_connector_runtime db)
      then db\<lparr>db_connector_runtime := sql_update (\<lambda>x. connector_key x = k) (\<lambda>x. x\<lparr>xr_Status := crt_Status r,
             xr_ErrorCode := crt_ErrorCode r, xr_Info := crt_Info r, xr_VendorID := crt_VendorID r,
             xr_VendorErrorCode := crt_VendorErrorCode r, xr_ObservedAt := Some (pg_ts observed),
             xr_StatusSequence := xr_StatusSequence x + 1, xr_UpdatedAt := now\<rparr>) (db_connector_runtime db)\<rparr>
      else db\<lparr>db_connector_runtime := db_connector_runtime db @ [\<lparr>xr_ChargerOCPPIdentity = crt_ChargerOCPPIdentity r,
             xr_OCPPConnectorNumber = crt_OCPPConnectorNumber r, xr_Status = crt_Status r,
             xr_ErrorCode = crt_ErrorCode r, xr_Info = crt_Info r, xr_VendorID = crt_VendorID r,
             xr_VendorErrorCode = crt_VendorErrorCode r, xr_ObservedAt = Some (pg_ts observed),
             xr_StatusSequence = 1, xr_UpdatedAt = now\<rparr>]\<rparr>)"

definition pg_RecordV1ConnectorStatus :: "pg_env \<Rightarrow> V1ConnectorRuntime \<Rightarrow> PostgresStore \<Rightarrow> unit res \<times> PostgresStore" where
  "pg_RecordV1ConnectorStatus E r db =
     (let observed = (case crt_ObservedAt r of None \<Rightarrow> env_clock E | Some t \<Rightarrow> t);
          identity = crt_ChargerOCPPIdentity r; number = crt_OCPPConnectorNumber r
      in pg_tx (\<lambda>db.
        case find (\<lambda>m. mr_ChargerOCPPIdentity m = identity
               \<and> (\<exists>c\<in>set (db_connectors db). cm_CMSChargerID c = mr_CMSChargerID m
                    \<and> connector_slot c = (identity, number))) (db_mappings db) of
          None \<Rightarrow> (Inl ErrV1MappingNotFound, db)
        | Some m \<Rightarrow>
          if \<not> mr_Enabled m then (Inl ErrV1CredentialRejected, db)
          else (let db1 = upsert_connector (env_now E) r observed db in
            case find (\<lambda>c. connector_slot c = (identity, number)) (db_connectors db1) of
              None \<Rightarrow> (Inl ErrNoRows, db1)
            | Some c \<Rightarrow>
              (case sql_row connector_key (identity, number) (db_connector_runtime db1) of
                 None \<Rightarrow> (Inl ErrNoRows, db1)
               | Some x \<Rightarrow>
                 (case v1StatusFact (r\<lparr>crt_CPOID := cm_CPOID c, crt_CMSChargerID := cm_CMSChargerID c,
                        crt_CMSConnectorID := cm_CMSConnectorID c, crt_StatusSequence := xr_StatusSequence x,
                        crt_ObservedAt := Some observed\<rparr>) of
                    None \<Rightarrow> (Inl (ErrOther ''panic''), db1)
                  | Some payload \<Rightarrow>
                    insertV1FactTx E 0 ''connector.status.updated'' (cm_CMSConnectorID c)
                      (Some (xr_StatusSequence x)) observed payload db1)))) db)"

subsection \<open>Reads\<close>

definition load_connector :: "gotime \<Rightarrow> PostgresStore \<Rightarrow> mapping_row \<Rightarrow> V1ConnectorMapping \<Rightarrow> V1ConnectorRuntime" where
  "load_connector updatedDefault db m c =
     (let x = sql_row connector_key (connector_slot c) (db_connector_runtime db);
          col = (\<lambda>f. case x of None \<Rightarrow> '''' | Some r \<Rightarrow> f r)
      in \<lparr>crt_CPOID = mr_CPOID m, crt_CMSChargerID = mr_CMSChargerID m, crt_CMSConnectorID = cm_CMSConnectorID c,
          crt_ChargerOCPPIdentity = cm_ChargerOCPPIdentity c, crt_OCPPConnectorNumber = cm_OCPPConnectorNumber c,
          crt_Status = col xr_Status, crt_ErrorCode = col xr_ErrorCode, crt_Info = col xr_Info,
          crt_VendorID = col xr_VendorID, crt_VendorErrorCode = col xr_VendorErrorCode,
          crt_ObservedAt = (case x of None \<Rightarrow> None | Some r \<Rightarrow> xr_ObservedAt r),
          crt_StatusSequence = (case x of None \<Rightarrow> 0 | Some r \<Rightarrow> xr_StatusSequence r),
          crt_UpdatedAt = (case x of None \<Rightarrow> updatedDefault | Some r \<Rightarrow> xr_UpdatedAt r)\<rparr>)"

definition pg_GetV1ChargerRuntime :: "string \<Rightarrow> PostgresStore \<Rightarrow> V1ChargerRuntime res" where
  "pg_GetV1ChargerRuntime identity db =
     (case (sql_row rr_ChargerOCPPIdentity identity (db_runtime db),
            sql_row mr_ChargerOCPPIdentity identity (db_mappings db)) of
        (Some r, Some m) \<Rightarrow> Inr \<lparr>rt_CPOID = mr_CPOID m, rt_CMSChargerID = mr_CMSChargerID m,
          rt_ChargerOCPPIdentity = rr_ChargerOCPPIdentity r, rt_ConnectionState = rr_ConnectionState r,
          rt_ConnectionGeneration = rr_ConnectionGeneration r, rt_ConnectionSequence = rr_ConnectionSequence r,
          rt_ConnectedAt = rr_ConnectedAt r, rt_LastObservedAt = rr_LastObservedAt r, rt_UpdatedAt = rr_UpdatedAt r,
          rt_Connectors = sort_key crt_OCPPConnectorNumber (List.map_filter
            (\<lambda>c. case sql_row mr_CMSChargerID (cm_CMSChargerID c) (db_mappings db) of
                None \<Rightarrow> None | Some cm \<Rightarrow> Some (load_connector (mr_UpdatedAt cm) db cm c))
            (filter (\<lambda>c. cm_ChargerOCPPIdentity c = identity) (db_connectors db)))\<rparr>
      | _ \<Rightarrow> Inl ErrV1MappingNotFound)"

text \<open>\<open>updated c\<close> is the \<^verbatim>\<open>updated_at\<close> column of the connector mapping, which nothing else reads.\<close>

definition pg_GetV1ConnectorRuntime ::
  "(V1ConnectorMapping \<Rightarrow> gotime) \<Rightarrow> string \<Rightarrow> PostgresStore \<Rightarrow> V1ConnectorRuntime res" where
  "pg_GetV1ConnectorRuntime updated i db =
     (case sql_row cm_CMSConnectorID i (db_connectors db) of
        None \<Rightarrow> Inl ErrV1MappingNotFound
      | Some c \<Rightarrow>
        (case sql_row mr_CMSChargerID (cm_CMSChargerID c) (db_mappings db) of
           None \<Rightarrow> Inl ErrV1MappingNotFound
         | Some m \<Rightarrow> Inr (load_connector (updated c) db m c)))"

subsection \<open>Restart\<close>

fun insert_reset_facts ::
  "pg_env \<Rightarrow> nat \<Rightarrow> (mapping_row \<times> runtime_row) list \<Rightarrow> PostgresStore \<Rightarrow> unit res \<times> PostgresStore" where
  "insert_reset_facts E k [] db = (Inr (), db)"
| "insert_reset_facts E k ((m, r) # changed) db =
     (case insertV1FactTx E k ''charger.connection.updated'' (rr_ChargerOCPPIdentity r)
             (Some (rr_ConnectionSequence r)) (rr_UpdatedAt r)
             (v1ConnectionFact (mr_CPOID m) (mr_CMSChargerID m) (rr_ChargerOCPPIdentity r) ''UNKNOWN''
                (rr_ConnectionGeneration r) (rr_ConnectionSequence r) (rr_UpdatedAt r)) db of
        (Inl err, db') \<Rightarrow> (Inl err, db')
      | (Inr _, db') \<Rightarrow> insert_reset_facts E (k + 1) changed db')"

definition mapped :: "PostgresStore \<Rightarrow> runtime_row \<Rightarrow> bool" where
  "mapped db r \<longleftrightarrow> rr_ChargerOCPPIdentity r \<in> mr_ChargerOCPPIdentity ` set (db_mappings db)"

definition reset_row :: "gotime \<Rightarrow> runtime_row \<Rightarrow> runtime_row" where
  "reset_row now r = r\<lparr>rr_ConnectionState := ''UNKNOWN'', rr_ConnectionSequence := rr_ConnectionSequence r + 1,
     rr_UpdatedAt := now\<rparr>"

definition pg_ResetV1ConnectionRuntime :: "pg_env \<Rightarrow> PostgresStore \<Rightarrow> unit res \<times> PostgresStore" where
  "pg_ResetV1ConnectionRuntime E db =
     pg_tx (\<lambda>db.
       let t1 = sql_update (\<lambda>r. mapped db r \<and> rr_ConnectionGeneration r \<noteq> 0)
                  (\<lambda>r. r\<lparr>rr_ConnectionGeneration := 0\<rparr>) (db_runtime db);
           known = (\<lambda>r. mapped db r \<and> rr_ConnectionState r \<noteq> ''UNKNOWN'');
           t2 = sql_update known (reset_row (env_now E)) t1;
           changed = List.map_filter (\<lambda>r. map_option (\<lambda>m. (m, reset_row (env_now E) r))
             (sql_row mr_ChargerOCPPIdentity (rr_ChargerOCPPIdentity r) (db_mappings db))) (filter known t1)
       in insert_reset_facts E 0 changed (db\<lparr>db_runtime := t2\<rparr>)) db"

subsection \<open>Every change is reported\<close>

text \<open>
  The runtime invariant: one row per identity, and a connection fact never carries a sequence
  beyond that of its row. It is what keeps \<^verbatim>\<open>ON CONFLICT DO NOTHING\<close> from swallowing a change.
\<close>

definition is_connection_fact :: "fact_row \<Rightarrow> bool" where
  "is_connection_fact f \<longleftrightarrow> fc_FactType (ob_content f) = ''charger.connection.updated''"

definition runtime_inv :: "PostgresStore \<Rightarrow> bool" where
  "runtime_inv db \<longleftrightarrow> distinct (map rr_ChargerOCPPIdentity (db_runtime db))
     \<and> (\<forall>f\<in>set (db_facts db). is_connection_fact f \<longrightarrow>
          (\<exists>n r. fc_Sequence (ob_content f) = Some n
             \<and> sql_row rr_ChargerOCPPIdentity (fc_AggregateKey (ob_content f)) (db_runtime db) = Some r
             \<and> n \<le> rr_ConnectionSequence r))"

text \<open>A sequenced fact whose number is new is appended as one pending row.\<close>

lemma insertV1FactTx_append:
  assumes "insertV1FactTx E k factType aggregate (Some n) occurredAt payload db = (Inr u, db')"
    and "factType \<noteq> ''transaction.completed''" and "\<not> sequence_conflict factType aggregate (Some n) (db_facts db)"
  shows "\<exists>f. db' = db\<lparr>db_facts := db_facts db @ [f]\<rparr> \<and> ob_status f = ''PENDING''
    \<and> fc_FactType (ob_content f) = factType \<and> fc_AggregateKey (ob_content f) = aggregate
    \<and> fc_Sequence (ob_content f) = Some n \<and> fc_Payload (ob_content f) = payload"
proof -
  obtain i d where "insert_fact_row (new_fact_row (env_now E) i d factType aggregate (Some n)
      (normalizeV1FactOccurredAt occurredAt) payload) db = (Inr u, db')"
    using assms(1,2) by (auto simp: insertV1FactTx_def Let_def split: sum.splits)
  then show ?thesis
    using assms(3) by (auto simp: insert_fact_row_def split: if_splits)
qed

lemma connection_sequence_new:
  assumes "runtime_inv db" and "sql_row rr_ChargerOCPPIdentity identity (db_runtime db) = Some r"
    and "rr_ConnectionSequence r < n"
  shows "\<not> sequence_conflict ''charger.connection.updated'' identity (Some n) (db_facts db)"
  using assms unfolding runtime_inv_def sequence_conflict_def is_connection_fact_def by fastforce

lemma connection_sequence_first:
  assumes "runtime_inv db" and "sql_row rr_ChargerOCPPIdentity identity (db_runtime db) = None"
  shows "\<not> sequence_conflict ''charger.connection.updated'' identity (Some n) (db_facts db)"
  using assms unfolding runtime_inv_def sequence_conflict_def is_connection_fact_def by fastforce

lemma sql_row_update_id:
  assumes "\<And>r. key (f r) = key r"
  shows "sql_row key j (sql_update (\<lambda>r. key r = i) f t) =
    (if j = i then map_option f (sql_row key i t) else sql_row key j t)"
  using assms by (induction t) (auto simp: sql_row_def sql_update_def)

text \<open>
  Connection callbacks are fenced by their generation, and what is stored is reported. A
  callback of an older generation, or a repeated one, changes nothing. An accepted one moves the row
  to the reported state with the next sequence number and, in the same transaction, adds exactly one
  pending fact with that sequence number and state.
\<close>

theorem pg_connection_fenced:
  assumes "runtime_inv db" and "sql_row rr_ChargerOCPPIdentity identity (db_runtime db) = Some r"
    and "pg_RecordV1ChargerConnection E identity generation online t db = (Inr (), db')"
  shows "(let state = (if online then ''ONLINE'' else ''OFFLINE'') in
    if generation > rr_ConnectionGeneration r
       \<or> generation = rr_ConnectionGeneration r \<and> rr_ConnectionState r = ''ONLINE'' \<and> \<not> online
    then (\<exists>r' f. sql_row rr_ChargerOCPPIdentity identity (db_runtime db') = Some r'
        \<and> rr_ConnectionState r' = state \<and> rr_ConnectionGeneration r' = generation
        \<and> rr_ConnectionSequence r' = rr_ConnectionSequence r + 1
        \<and> db_facts db' = db_facts db @ [f] \<and> ob_status f = ''PENDING'' \<and> is_connection_fact f
        \<and> fc_AggregateKey (ob_content f) = identity \<and> fc_Sequence (ob_content f) = Some (rr_ConnectionSequence r')
        \<and> map_of (fc_Payload (ob_content f)) ''connection_state'' = Some (GString state))
    else db' = db)"
proof -
  define state where "state = (if online then ''ONLINE'' else ''OFFLINE'')"
  have cond: "connection_accepted state generation r \<longleftrightarrow> generation > rr_ConnectionGeneration r
       \<or> generation = rr_ConnectionGeneration r \<and> rr_ConnectionState r = ''ONLINE'' \<and> \<not> online"
    by (auto simp: connection_accepted_def state_def)
  let ?db1 = "db\<lparr>db_runtime := sql_update (\<lambda>r. rr_ChargerOCPPIdentity r = identity)
                 (connection_update state generation (pg_ts t)) (db_runtime db)\<rparr>"
  let ?r = "connection_update state generation (pg_ts t) r"
  have row: "sql_row rr_ChargerOCPPIdentity identity (db_runtime ?db1) = Some ?r"
    using assms(2) by (simp add: sql_row_update_id connection_update_def)
  show ?thesis
  proof (cases "connection_accepted state generation r")
    case False
    then show ?thesis
      using assms(2,3) cond
      by (auto simp: pg_RecordV1ChargerConnection_def upsert_connection_def state_def [symmetric] pg_tx_def Let_def
          split: sum.splits)
  next
    case True
    obtain m where m: "admitted_mapping identity db = Inr m"
      using assms(3) by (auto simp: pg_RecordV1ChargerConnection_def pg_tx_def Let_def split: sum.splits)
    have seq: "rr_ConnectionSequence ?r = rr_ConnectionSequence r + 1" by (simp add: connection_update_def)
    have "pg_tx (\<lambda>db. insertV1FactTx E 0 ''charger.connection.updated'' identity (Some (rr_ConnectionSequence r + 1)) t
        (v1ConnectionFact (mr_CPOID m) (mr_CMSChargerID m) identity state generation
                    (rr_ConnectionSequence r + 1) t) ?db1) db = (Inr (), db')"
      using assms(3) True row assms(2) m seq
      by (simp add: pg_RecordV1ChargerConnection_def upsert_connection_def state_def [symmetric] pg_tx_def Let_def)
    then have "insertV1FactTx E 0 ''charger.connection.updated'' identity (Some (rr_ConnectionSequence r + 1)) t
        (v1ConnectionFact (mr_CPOID m) (mr_CMSChargerID m) identity state generation
                    (rr_ConnectionSequence r + 1) t) ?db1 = (Inr (), db')"
      by (auto elim: pg_tx_cases)
    then have "\<exists>f. db' = ?db1\<lparr>db_facts := db_facts ?db1 @ [f]\<rparr> \<and> ob_status f = ''PENDING''
        \<and> fc_FactType (ob_content f) = ''charger.connection.updated'' \<and> fc_AggregateKey (ob_content f) = identity
        \<and> fc_Sequence (ob_content f) = Some (rr_ConnectionSequence r + 1)
        \<and> fc_Payload (ob_content f) = v1ConnectionFact (mr_CPOID m) (mr_CMSChargerID m) identity state generation
                    (rr_ConnectionSequence r + 1) t"
      by (rule insertV1FactTx_append) (use connection_sequence_new [OF assms(1,2)] in simp_all)
    with True cond row show ?thesis
      by (auto simp: state_def [symmetric] is_connection_fact_def v1ConnectionFact_def connection_update_def [of _ _ _ r])
  qed
qed

definition sample_runtime_inv_row :: runtime_row where
  "sample_runtime_inv_row = \<lparr>rr_ChargerOCPPIdentity = ''CP1'', rr_ConnectionState = ''UNKNOWN'',
     rr_ConnectionGeneration = 0, rr_ConnectionSequence = 0, rr_ConnectedAt = None, rr_LastObservedAt = None,
     rr_UpdatedAt = 9000\<rparr>"

lemma sample_enrolled_runtime:
  "db_runtime sample_enrolled = [sample_runtime_inv_row]" "db_facts sample_enrolled = []"
  "db_completion_keys sample_enrolled = []"
  "db_mappings sample_enrolled = [new_mapping sample_env sample_mapping]"
  by (simp_all add: sample_enrolled_def pg_SyncV1Mapping_def pg_tx_def sync_mapping_tx_def sample_mapping_def sample_env_def
      empty_db_def insert_mapping_def serial_check_def is_space_def sql_row_def seed_runtime_def audit_mapping_def
      NewSecureUUIDString_def nil_uuid_def loadV1Mapping_def new_mapping_def sample_runtime_inv_row_def Let_def)

lemma sample_runtime_inv: "runtime_inv sample_enrolled"
  by (simp add: runtime_inv_def sample_enrolled_runtime)

definition sample_online :: PostgresStore where
  "sample_online = snd (pg_RecordV1ChargerConnection sample_env ''CP1'' 1 True 9500 sample_enrolled)"

lemma sample_online_run:
  "pg_RecordV1ChargerConnection sample_env ''CP1'' 1 True 9500 sample_enrolled = (Inr (), sample_online)"
  by (simp add: sample_online_def pg_RecordV1ChargerConnection_def pg_tx_def admitted_mapping_def sample_enrolled_runtime
      upsert_connection_def connection_accepted_def sql_row_def sql_update_def connection_update_def insertV1FactTx_def
      NewSecureUUIDString_def nil_uuid_def sample_env_def insert_fact_row_def sequence_conflict_def
      sample_runtime_inv_row_def sample_mapping_def Let_def)

theorem pg_connection_fenced_witness:
  "\<exists>r' f. sql_row rr_ChargerOCPPIdentity ''CP1'' (db_runtime sample_online) = Some r'
     \<and> rr_ConnectionState r' = ''ONLINE'' \<and> rr_ConnectionSequence r' = 1 \<and> db_facts sample_online = [f]"
proof -
  have row: "sql_row rr_ChargerOCPPIdentity ''CP1'' (db_runtime sample_enrolled) = Some sample_runtime_inv_row"
    by (simp add: sample_enrolled_runtime sql_row_def sample_runtime_inv_row_def)
  from pg_connection_fenced [OF sample_runtime_inv row sample_online_run] show ?thesis
    by (fastforce simp: sample_runtime_inv_row_def sample_enrolled_runtime Let_def)
qed

subsection \<open>Preservation\<close>

lemma insertV1FactTx_contents:
  assumes "insertV1FactTx E k factType aggregate sequence occurredAt payload db = (Inr u, db')" and "f \<in> set (db_facts db')"
  shows "f \<in> set (db_facts db) \<or> fc_FactType (ob_content f) = factType
    \<and> fc_AggregateKey (ob_content f) = aggregate \<and> fc_Sequence (ob_content f) = sequence"
  using assms
  by (auto simp: insertV1FactTx_def insert_fact_row_def Let_def split: sum.splits if_splits)

lemma runtime_inv_frame:
  assumes "runtime_inv db" and "db_runtime db' = db_runtime db"
    and "\<And>f. f \<in> set (db_facts db') \<Longrightarrow> is_connection_fact f \<Longrightarrow> \<exists>g\<in>set (db_facts db). ob_content g = ob_content f"
  shows "runtime_inv db'"
proof -
  have "\<exists>n r. fc_Sequence (ob_content f) = Some n
      \<and> sql_row rr_ChargerOCPPIdentity (fc_AggregateKey (ob_content f)) (db_runtime db) = Some r
      \<and> n \<le> rr_ConnectionSequence r" if f: "f \<in> set (db_facts db')" "is_connection_fact f" for f
  proof -
    obtain g where "g \<in> set (db_facts db)" "ob_content g = ob_content f" using assms(3) [OF f] by blast
    then show ?thesis
      using f(2) assms(1) unfolding runtime_inv_def is_connection_fact_def by metis
  qed
  then show ?thesis using assms(1,2) by (simp add: runtime_inv_def)
qed

definition runtime_extends :: "string \<Rightarrow> runtime_row list \<Rightarrow> runtime_row list \<Rightarrow> bool" where
  "runtime_extends identity t t' \<longleftrightarrow>
     (map rr_ChargerOCPPIdentity t' = map rr_ChargerOCPPIdentity t
      \<or> identity \<notin> rr_ChargerOCPPIdentity ` set t
        \<and> map rr_ChargerOCPPIdentity t' = map rr_ChargerOCPPIdentity t @ [identity])
     \<and> (\<forall>i r. sql_row rr_ChargerOCPPIdentity i t = Some r \<longrightarrow>
          (\<exists>r'. sql_row rr_ChargerOCPPIdentity i t' = Some r' \<and> rr_ConnectionSequence r \<le> rr_ConnectionSequence r'))"

text \<open>Changing a row and reporting its new sequence, as all three operations do.\<close>

lemma report_runtime_inv:
  assumes "runtime_inv db" and "runtime_extends identity (db_runtime db) rows"
    and "sql_row rr_ChargerOCPPIdentity identity rows = Some r'"
    and "insertV1FactTx E k ''charger.connection.updated'' identity (Some (rr_ConnectionSequence r')) t payload
      (db\<lparr>db_runtime := rows\<rparr>) = (Inr u, db')"
  shows "runtime_inv db'"
proof -
  have base: "runtime_inv (db\<lparr>db_runtime := rows\<rparr>)"
  proof -
    have "distinct (map rr_ChargerOCPPIdentity rows)"
      using assms(1,2) by (auto simp: runtime_inv_def runtime_extends_def)
    moreover have "\<exists>m r. fc_Sequence (ob_content g) = Some m
        \<and> sql_row rr_ChargerOCPPIdentity (fc_AggregateKey (ob_content g)) rows = Some r \<and> m \<le> rr_ConnectionSequence r"
      if "g \<in> set (db_facts db)" "is_connection_fact g" for g
      using that assms(1,2) unfolding runtime_inv_def runtime_extends_def by (meson order_trans)
    ultimately show ?thesis by (simp add: runtime_inv_def)
  qed
  obtain facts keys where db': "db' = (db\<lparr>db_runtime := rows\<rparr>)\<lparr>db_facts := facts, db_completion_keys := keys\<rparr>"
    using insertV1FactTx_frame [OF assms(4)] by blast
  have "\<exists>n r. fc_Sequence (ob_content f) = Some n
      \<and> sql_row rr_ChargerOCPPIdentity (fc_AggregateKey (ob_content f)) rows = Some r \<and> n \<le> rr_ConnectionSequence r"
    if "f \<in> set (db_facts db')" "is_connection_fact f" for f
    using insertV1FactTx_contents [OF assms(4) that(1)] that(2) base assms(3) by (auto simp: runtime_inv_def)
  then show ?thesis using base by (auto simp: runtime_inv_def db')
qed

lemma runtime_extends_update:
  assumes "\<And>r. rr_ChargerOCPPIdentity (f r) = rr_ChargerOCPPIdentity r"
    and "\<And>r. rr_ConnectionSequence r \<le> rr_ConnectionSequence (f r)"
  shows "runtime_extends identity t (sql_update P f t)"
  using assms by (auto simp: runtime_extends_def sql_update_keys sql_row_update)

lemma upsert_connection_extends:
  assumes "upsert_connection identity state generation t db = Some db1"
  shows "\<exists>rows. db1 = db\<lparr>db_runtime := rows\<rparr> \<and> runtime_extends identity (db_runtime db) rows"
proof (cases "sql_row rr_ChargerOCPPIdentity identity (db_runtime db)")
  case None
  then have "identity \<notin> rr_ChargerOCPPIdentity ` set (db_runtime db)" by (simp add: sql_row_None)
  with None assms show ?thesis by (auto simp: upsert_connection_def runtime_extends_def sql_row_append)
next
  case (Some r)
  with assms show ?thesis
    by (auto simp: upsert_connection_def connection_update_def split: if_splits intro!: runtime_extends_update)
qed

lemma pg_RecordV1ChargerConnection_inv:
  assumes "runtime_inv db"
  shows "runtime_inv (snd (pg_RecordV1ChargerConnection E identity generation online t db))"
  unfolding pg_RecordV1ChargerConnection_def Let_def
  by (rule pg_tx_rel [where R = "\<lambda>_. runtime_inv"])
    (use assms in \<open>auto dest!: upsert_connection_extends intro: report_runtime_inv split: sum.splits option.splits\<close>)

lemma pg_RenewCurrentV1ChargerConnection_inv:
  assumes "runtime_inv db"
  shows "runtime_inv (snd (pg_RenewCurrentV1ChargerConnection E identity generation t db))"
proof -
  let ?P = "\<lambda>r. rr_ChargerOCPPIdentity r = identity \<and> renewable generation (pg_ts t) r"
  let ?f = "\<lambda>r. r\<lparr>rr_LastObservedAt := Some (pg_ts t), rr_UpdatedAt := pg_ts t,
     rr_ConnectionSequence := rr_ConnectionSequence r + 1\<rparr>"
  have "runtime_inv db'" if r: "find ?P (db_runtime db) = Some r"
    and i: "insertV1FactTx E 0 ''charger.connection.updated'' identity (Some (rr_ConnectionSequence r + 1)) t payload
      (db\<lparr>db_runtime := sql_update ?P ?f (db_runtime db)\<rparr>) = (Inr u, db')" for r payload u db'
  proof (rule report_runtime_inv [OF assms, where r' = "?f r"])
    show "runtime_extends identity (db_runtime db) (sql_update ?P ?f (db_runtime db))"
      by (rule runtime_extends_update) simp_all
    have "r \<in> set (db_runtime db)" "?P r" using find_SomeD [OF r] by auto
    then have "sql_row rr_ChargerOCPPIdentity identity (db_runtime db) = Some r"
      using assms sql_row_unique [of rr_ChargerOCPPIdentity "db_runtime db" r] by (simp add: runtime_inv_def)
    with \<open>?P r\<close> show "sql_row rr_ChargerOCPPIdentity identity (sql_update ?P ?f (db_runtime db)) = Some (?f r)"
      by (simp add: sql_row_update)
  qed (use i in simp)
  then show ?thesis
    unfolding pg_RenewCurrentV1ChargerConnection_def Let_def
    by (intro pg_tx_rel [where R = "\<lambda>_. runtime_inv"]) (use assms in \<open>auto split: sum.splits option.splits\<close>)
qed

lemma insert_reset_facts_ok:
  assumes "insert_reset_facts E k changed db = (Inr u, db')" and "runtime_inv db"
    and "\<forall>(m, r)\<in>set changed. sql_row rr_ChargerOCPPIdentity (rr_ChargerOCPPIdentity r) (db_runtime db) = Some r"
  shows "runtime_inv db' \<and> db_runtime db' = db_runtime db \<and> db_mappings db' = db_mappings db"
  using assms
proof (induction changed arbitrary: k db)
  case (Cons c changed)
  obtain m r where c: "c = (m, r)" by (cases c)
  let ?p = "v1ConnectionFact (mr_CPOID m) (mr_CMSChargerID m) (rr_ChargerOCPPIdentity r) ''UNKNOWN''
                (rr_ConnectionGeneration r) (rr_ConnectionSequence r) (rr_UpdatedAt r)"
  obtain u1 db1 where i: "insertV1FactTx E k ''charger.connection.updated'' (rr_ChargerOCPPIdentity r)
             (Some (rr_ConnectionSequence r)) (rr_UpdatedAt r) ?p db = (Inr u1, db1)"
    and rest: "insert_reset_facts E (k + 1) changed db1 = (Inr u, db')"
    using Cons.prems(1) c by (auto split: prod.splits sum.splits)
  obtain facts keys where db1: "db1 = db\<lparr>db_facts := facts, db_completion_keys := keys\<rparr>"
    using insertV1FactTx_frame [OF i] by blast
  have "runtime_extends (rr_ChargerOCPPIdentity r) (db_runtime db) (db_runtime db)" by (simp add: runtime_extends_def)
  then have "runtime_inv db1"
    by (rule report_runtime_inv [OF Cons.prems(2)]) (use Cons.prems(3) c i in auto)
  with Cons.IH [OF rest] Cons.prems(3) show ?case by (simp add: db1)
qed simp

lemma reset_tables:
  assumes "distinct (map rr_ChargerOCPPIdentity t)"
    and "t1 = sql_update (\<lambda>r. mapped db r \<and> rr_ConnectionGeneration r \<noteq> 0) (\<lambda>r. r\<lparr>rr_ConnectionGeneration := 0\<rparr>) t"
    and "t2 = sql_update (\<lambda>r. mapped db r \<and> rr_ConnectionState r \<noteq> ''UNKNOWN'') (reset_row now) t1"
  shows "\<forall>r\<in>set t2. mapped db r \<longrightarrow> rr_ConnectionState r = ''UNKNOWN'' \<and> rr_ConnectionGeneration r = 0"
    and "runtime_extends i t t2"
    and "\<forall>r\<in>set t1. mapped db r \<and> rr_ConnectionState r \<noteq> ''UNKNOWN'' \<longrightarrow>
      sql_row rr_ChargerOCPPIdentity (rr_ChargerOCPPIdentity (reset_row now r)) t2 = Some (reset_row now r)"
proof -
  have map1: "map rr_ChargerOCPPIdentity t1 = map rr_ChargerOCPPIdentity t"
    unfolding assms(2) by (rule sql_update_keys) simp
  then have d1: "distinct (map rr_ChargerOCPPIdentity t1)" using assms(1) by simp
  show "\<forall>r\<in>set t2. mapped db r \<longrightarrow> rr_ConnectionState r = ''UNKNOWN'' \<and> rr_ConnectionGeneration r = 0"
    by (auto simp: assms(2,3) set_sql_update mapped_def reset_row_def)
  have map2: "map rr_ChargerOCPPIdentity t2 = map rr_ChargerOCPPIdentity t1"
    unfolding assms(3) by (rule sql_update_keys) (simp add: reset_row_def)
  show "runtime_extends i t t2"
    unfolding runtime_extends_def using map1 map2
    by (auto simp: assms(2,3) sql_row_update reset_row_def)
  show "\<forall>r\<in>set t1. mapped db r \<and> rr_ConnectionState r \<noteq> ''UNKNOWN'' \<longrightarrow>
      sql_row rr_ChargerOCPPIdentity (rr_ChargerOCPPIdentity (reset_row now r)) t2 = Some (reset_row now r)"
    using sql_row_unique [OF d1] by (simp add: assms(3) sql_row_update reset_row_def)
qed

lemma runtime_inv_extends:
  assumes "runtime_inv db" and "runtime_extends i (db_runtime db) rows"
    and "map rr_ChargerOCPPIdentity rows = map rr_ChargerOCPPIdentity (db_runtime db)"
  shows "runtime_inv (db\<lparr>db_runtime := rows\<rparr>)"
proof -
  have "\<exists>n r. fc_Sequence (ob_content f) = Some n
      \<and> sql_row rr_ChargerOCPPIdentity (fc_AggregateKey (ob_content f)) rows = Some r \<and> n \<le> rr_ConnectionSequence r"
    if "f \<in> set (db_facts db)" "is_connection_fact f" for f
    using that assms(1,2) unfolding runtime_inv_def runtime_extends_def by (meson order_trans)
  with assms(1,3) show ?thesis by (simp add: runtime_inv_def)
qed

lemma reset_runtime_ok:
  assumes "runtime_inv db" and "pg_ResetV1ConnectionRuntime E db = (Inr u, db')"
  shows "runtime_inv db'" and "db_mappings db' = db_mappings db"
    and "\<forall>r\<in>set (db_runtime db'). mapped db' r \<longrightarrow> rr_ConnectionState r = ''UNKNOWN'' \<and> rr_ConnectionGeneration r = 0"
    and "runtime_extends '''' (db_runtime db) (db_runtime db')"
proof -
  define t1 where "t1 = sql_update (\<lambda>r. mapped db r \<and> rr_ConnectionGeneration r \<noteq> 0)
    (\<lambda>r. r\<lparr>rr_ConnectionGeneration := 0\<rparr>) (db_runtime db)"
  define t2 where "t2 = sql_update (\<lambda>r. mapped db r \<and> rr_ConnectionState r \<noteq> ''UNKNOWN'') (reset_row (env_now E)) t1"
  define changed where "changed = List.map_filter (\<lambda>r. map_option (\<lambda>m. (m, reset_row (env_now E) r))
             (sql_row mr_ChargerOCPPIdentity (rr_ChargerOCPPIdentity r) (db_mappings db)))
             (filter (\<lambda>r. mapped db r \<and> rr_ConnectionState r \<noteq> ''UNKNOWN'') t1)"
  have d: "distinct (map rr_ChargerOCPPIdentity (db_runtime db))" using assms(1) by (simp add: runtime_inv_def)
  note rt = reset_tables [OF d t1_def t2_def]
  have run: "insert_reset_facts E 0 changed (db\<lparr>db_runtime := t2\<rparr>) = (Inr u, db')"
    using assms(2) by (simp add: pg_ResetV1ConnectionRuntime_def Let_def pg_tx_Inr t1_def t2_def changed_def)
  have "map rr_ChargerOCPPIdentity t2 = map rr_ChargerOCPPIdentity (db_runtime db)"
    by (simp add: t1_def t2_def sql_update_keys reset_row_def)
  then have inv: "runtime_inv (db\<lparr>db_runtime := t2\<rparr>)" by (rule runtime_inv_extends [OF assms(1) rt(2)])
  have "\<forall>(m, r)\<in>set changed. sql_row rr_ChargerOCPPIdentity (rr_ChargerOCPPIdentity r) (db_runtime (db\<lparr>db_runtime := t2\<rparr>)) = Some r"
    using rt(3) by (auto simp: changed_def map_filter_def)
  with insert_reset_facts_ok [OF run inv] have "runtime_inv db'" "db_runtime db' = t2" "db_mappings db' = db_mappings db" by auto
  with rt(1) rt(2) [of "''''"] show "runtime_inv db'" "db_mappings db' = db_mappings db"
    "\<forall>r\<in>set (db_runtime db'). mapped db' r \<longrightarrow> rr_ConnectionState r = ''UNKNOWN'' \<and> rr_ConnectionGeneration r = 0"
    "runtime_extends '''' (db_runtime db) (db_runtime db')"
    by (simp_all add: mapped_def)
qed

text \<open>
  A restart resets the fence without losing the order. After a successful reset every enrolled
  charger is \<^verbatim>\<open>UNKNOWN\<close> with generation 0, so the first connection of the new process, of any
  positive generation, is accepted; no sequence number went back, and the runtime invariant holds.
\<close>

theorem pg_reset_runtime:
  assumes "runtime_inv db" and "pg_ResetV1ConnectionRuntime E db = (Inr (), db')"
  shows "runtime_inv db' \<and> db_mappings db' = db_mappings db
    \<and> (\<forall>r\<in>set (db_runtime db'). rr_ChargerOCPPIdentity r \<in> mr_ChargerOCPPIdentity ` set (db_mappings db') \<longrightarrow>
        rr_ConnectionState r = ''UNKNOWN'' \<and> (\<forall>generation>0. connection_accepted ''ONLINE'' generation r))
    \<and> (\<forall>i r. sql_row rr_ChargerOCPPIdentity i (db_runtime db) = Some r \<longrightarrow>
        (\<exists>r'. sql_row rr_ChargerOCPPIdentity i (db_runtime db') = Some r'
           \<and> rr_ConnectionSequence r \<le> rr_ConnectionSequence r'))"
  using reset_runtime_ok [OF assms]
  by (simp add: connection_accepted_def mapped_def runtime_extends_def)

lemma sample_online_inv: "runtime_inv sample_online"
  using pg_RecordV1ChargerConnection_inv [OF sample_runtime_inv] unfolding sample_online_def .

theorem pg_reset_runtime_witness:
  "\<exists>db'. pg_ResetV1ConnectionRuntime (sample_env\<lparr>env_uuid := \<lambda>_. Some ''r0''\<rparr>) sample_online = (Inr (), db')
     \<and> (\<forall>r\<in>set (db_runtime db'). rr_ConnectionState r = ''UNKNOWN'')"
proof -
  let ?E = "sample_env\<lparr>env_uuid := \<lambda>_. Some ''r0''\<rparr>"
  have rows: "db_mappings sample_online = [new_mapping sample_env sample_mapping]"
    "db_runtime sample_online = [connection_update ''ONLINE'' 1 9000 sample_runtime_inv_row]"
    "map ob_id (db_facts sample_online) = [''u0'']"
    "map (fc_Sequence \<circ> ob_content) (db_facts sample_online) = [Some 1]"
    by (simp_all add: sample_online_def pg_RecordV1ChargerConnection_def pg_tx_def admitted_mapping_def sample_enrolled_runtime
      upsert_connection_def connection_accepted_def sql_row_def sql_update_def connection_update_def insertV1FactTx_def
      NewSecureUUIDString_def nil_uuid_def sample_env_def insert_fact_row_def sequence_conflict_def pg_ts_def truncate_us_def
      sample_runtime_inv_row_def sample_mapping_def Let_def)
  then obtain f where f: "db_facts sample_online = [f]" "ob_id f = ''u0''" "fc_Sequence (ob_content f) = Some 1" by auto
  have "\<exists>db'. pg_ResetV1ConnectionRuntime ?E sample_online = (Inr (), db')"
    by (simp add: pg_ResetV1ConnectionRuntime_def pg_tx_def rows f mapped_def sql_row_def sql_update_def connection_update_def
      reset_row_def insertV1FactTx_def NewSecureUUIDString_def nil_uuid_def sample_env_def insert_fact_row_def sequence_conflict_def
      sample_runtime_inv_row_def sample_mapping_def List.map_filter_simps Let_def)
  then obtain db' where db': "pg_ResetV1ConnectionRuntime ?E sample_online = (Inr (), db')" by blast
  note res = pg_reset_runtime [OF sample_online_inv db']
  have "\<forall>r\<in>set (db_runtime db'). rr_ChargerOCPPIdentity r = ''CP1''"
    using db' by (auto simp: pg_ResetV1ConnectionRuntime_def pg_tx_def rows f mapped_def sql_row_def sql_update_def connection_update_def
      reset_row_def insertV1FactTx_def NewSecureUUIDString_def nil_uuid_def sample_env_def insert_fact_row_def sequence_conflict_def
      sample_runtime_inv_row_def sample_mapping_def List.map_filter_simps Let_def)
  with res db' show ?thesis by (auto simp: rows sample_mapping_def)
qed

lemma pg_ResetV1ConnectionRuntime_inv:
  assumes "runtime_inv db"
  shows "runtime_inv (snd (pg_ResetV1ConnectionRuntime E db))"
proof (cases "pg_ResetV1ConnectionRuntime E db")
  case (Pair r db')
  show ?thesis
  proof (cases r)
    case (Inl e)
    then have "fst (pg_ResetV1ConnectionRuntime E db) = Inl e" using Pair by simp
    then have "snd (pg_ResetV1ConnectionRuntime E db) = db"
      unfolding pg_ResetV1ConnectionRuntime_def by (rule pg_tx_Inl)
    with assms show ?thesis by simp
  next
    case (Inr u)
    with Pair reset_runtime_ok(1) [OF assms] show ?thesis by simp
  qed
qed

subsection \<open>The outbox\<close>

lemma insert_reset_facts_kept:
  "insert_reset_facts E k changed db = (Inr u, db') \<Longrightarrow> facts_kept db db'"
proof (induction changed arbitrary: k db)
  case (Cons c changed)
  then show ?case
    by (cases c) (auto split: prod.splits sum.splits intro: facts_kept_trans dest: insertV1FactTx_kept)
qed simp

lemma pg_runtime_facts_kept:
  "facts_kept db (snd (pg_RecordV1ChargerConnection E identity generation online t db))"
  "facts_kept db (snd (pg_RenewCurrentV1ChargerConnection E identity generation t db))"
  "facts_kept db (snd (pg_RecordV1ConnectorStatus E r db))"
  "facts_kept db (snd (pg_ResetV1ConnectionRuntime E db))"
proof -
  show "facts_kept db (snd (pg_RecordV1ChargerConnection E identity generation online t db))"
    unfolding pg_RecordV1ChargerConnection_def Let_def
    by (rule pg_tx_rel [where R = facts_kept])
      (auto dest!: upsert_connection_extends intro: facts_kept_insert split: sum.splits option.splits)
  show "facts_kept db (snd (pg_RenewCurrentV1ChargerConnection E identity generation t db))"
    unfolding pg_RenewCurrentV1ChargerConnection_def Let_def
    by (rule pg_tx_rel [where R = facts_kept])
      (auto intro: facts_kept_insert split: sum.splits option.splits)
  show "facts_kept db (snd (pg_RecordV1ConnectorStatus E r db))"
    unfolding pg_RecordV1ConnectorStatus_def Let_def
    by (rule pg_tx_rel [where R = facts_kept])
      (auto simp: upsert_connector_def Let_def intro: facts_kept_insert split: sum.splits option.splits if_splits)
  have "facts_kept db db'" if "insert_reset_facts E 0 changed (db\<lparr>db_runtime := t\<rparr>) = (Inr u, db')" for changed t u db'
    by (rule facts_kept_trans [OF facts_kept_frame insert_reset_facts_kept [OF that]]) simp_all
  then show "facts_kept db (snd (pg_ResetV1ConnectionRuntime E db))"
    unfolding pg_ResetV1ConnectionRuntime_def Let_def by (intro pg_tx_rel [where R = facts_kept]) auto
qed

end
