(* ===== verification/PG_Operations.thy ===== *)
theory PG_Operations
  imports PG_Database Operation_Delivery V1_Memory
begin

text \<open>
  Charger operations in PostgreSQL (\<^verbatim>\<open>store/v1_operations_postgres.go\<close>). Each method is one SQL
  statement, or a statement and a read, on \<^verbatim>\<open>v1_charger_operations\<close>. The interpretation shows that
  the table honours the contract of \<open>operation_store\<close>; the refinement at the end shows that a
  process running on PostgreSQL makes exactly the OCPP calls that one on the memory store makes.
  The empty text is no UUID, so a \<^verbatim>\<open>$3::uuid\<close> cast of it fails. A nil key list reads back as the empty
  one (\<^verbatim>\<open>normalizeV1ConfigurationKeys\<close>); both are the empty list here.
\<close>

abbreviation op_row :: "PostgresStore \<Rightarrow> string \<Rightarrow> V1ChargerOperation option" where
  "op_row db i \<equiv> sql_row op_CMSOperationID i (db_operations db)"

definition pg_ValidateV1ChargerOperationMapping ::
  "string \<Rightarrow> string \<Rightarrow> string \<Rightarrow> string \<Rightarrow> int \<Rightarrow> PostgresStore \<Rightarrow> unit res" where
  "pg_ValidateV1ChargerOperationMapping cpoID cmsChargerID cmsConnectorID identity connector db =
     (let found = (if connector = 0
          then find (\<lambda>m. mr_CPOID m = cpoID \<and> mr_CMSChargerID m = cmsChargerID
                 \<and> mr_ChargerOCPPIdentity m = identity) (db_mappings db)
          else find (\<lambda>m. mr_CPOID m = cpoID \<and> mr_CMSChargerID m = cmsChargerID
                 \<and> mr_ChargerOCPPIdentity m = identity
                 \<and> (\<exists>c\<in>set (db_connectors db). cm_CMSChargerID c = mr_CMSChargerID m
                      \<and> cm_CMSConnectorID c = cmsConnectorID \<and> cm_ChargerOCPPIdentity c = identity
                      \<and> cm_OCPPConnectorNumber c = connector)) (db_mappings db))
      in case found of
           None \<Rightarrow> Inl ErrV1MappingNotFound
         | Some m \<Rightarrow> if \<not> mr_Enabled m then Inl ErrV1CredentialRejected else Inr ())"

definition pg_GetV1ChargerOperation :: "string \<Rightarrow> PostgresStore \<Rightarrow> V1ChargerOperation res" where
  "pg_GetV1ChargerOperation i db =
     (case op_row db i of None \<Rightarrow> Inl ErrV1OperationNotFound | Some op \<Rightarrow> Inr op)"

definition pg_CreateV1ChargerOperation ::
  "gotime \<Rightarrow> string option \<Rightarrow> V1ChargerOperationInput \<Rightarrow> PostgresStore
   \<Rightarrow> (V1ChargerOperation \<times> bool) res \<times> PostgresStore" where
  "pg_CreateV1ChargerOperation now gen input db =
     (case NewSecureUUIDString gen of
        Inl err \<Rightarrow> (Inl err, db)
      | Inr i \<Rightarrow>
        if opin_TraceID input = '''' then (Inl (ErrOther ''22P02''), db)
        else (case op_row db (opin_CMSOperationID input) of
          Some _ \<Rightarrow>
            (case pg_GetV1ChargerOperation (opin_CMSOperationID input) db of
               Inl lookupErr \<Rightarrow> (Inl lookupErr, db)
             | Inr existing \<Rightarrow> if op_RequestDigest existing \<noteq> opin_RequestDigest input
                 then (Inl ErrV1IdempotencyConflict, db) else (Inr (existing, True), db))
        | None \<Rightarrow>
            if i \<in> op_HALOperationID ` set (db_operations db) then (Inl ErrUniqueViolation, db)
            else (let db' = db\<lparr>db_operations := db_operations db @ [new_operation now i input]\<rparr>
              in (case pg_GetV1ChargerOperation (opin_CMSOperationID input) db' of
                    Inl err \<Rightarrow> (Inl err, db') | Inr op \<Rightarrow> (Inr (op, False), db')))))"

definition pg_ClaimV1ChargerOperationDelivery ::
  "gotime \<Rightarrow> string \<Rightarrow> PostgresStore \<Rightarrow> (V1ChargerOperation \<times> bool) res \<times> PostgresStore" where
  "pg_ClaimV1ChargerOperationDelivery now i db =
     (let P = (\<lambda>op. op_CMSOperationID op = i \<and> op_State op = ''PERSISTED'');
          rows = sql_count P (db_operations db);
          db' = db\<lparr>db_operations := sql_update P (\<lambda>op. op\<lparr>op_State := ''DELIVERY_ATTEMPTED'',
                  op_DeliveryAttempts := op_DeliveryAttempts op + 1, op_UpdatedAt := now\<rparr>) (db_operations db)\<rparr>
      in (case pg_GetV1ChargerOperation i db' of
            Inl err \<Rightarrow> (Inl err, db')
          | Inr op \<Rightarrow> (Inr (op, rows = 1), db')))"

definition pg_MarkV1ChargerOperationDelivery ::
  "gotime \<Rightarrow> string \<Rightarrow> string \<Rightarrow> string \<Rightarrow> string \<Rightarrow> PostgresStore \<Rightarrow> V1ChargerOperation res \<times> PostgresStore" where
  "pg_MarkV1ChargerOperationDelivery now i state result category db =
     (let db' = db\<lparr>db_operations := sql_update
            (\<lambda>op. op_CMSOperationID op = i \<and> op_State op = ''DELIVERY_ATTEMPTED'')
            (\<lambda>op. op\<lparr>op_State := state, op_OCPPResult := result, op_ErrorCategory := category,
               op_CompletedAt := Some now, op_UpdatedAt := now\<rparr>) (db_operations db)\<rparr>
      in (pg_GetV1ChargerOperation i db', db'))"

definition pg_RecoverV1ChargerOperationDelivery :: "gotime \<Rightarrow> PostgresStore \<Rightarrow> PostgresStore" where
  "pg_RecoverV1ChargerOperationDelivery now db =
     db\<lparr>db_operations := sql_update (\<lambda>op. op_State op = ''DELIVERY_ATTEMPTED'')
       (\<lambda>op. op\<lparr>op_State := ''RECONCILIATION_REQUIRED'', op_ErrorCategory := ''recovery_ambiguous'',
          op_CompletedAt := Some now, op_UpdatedAt := now\<rparr>) (db_operations db)\<rparr>"

definition pg_ListV1DispatchableChargerOperations ::
  "string \<Rightarrow> int \<Rightarrow> PostgresStore \<Rightarrow> V1ChargerOperation list" where
  "pg_ListV1DispatchableChargerOperations chargerOCPPIdentity limit db =
     (if limit \<le> 0 then []
      else (let ids = map op_CMSOperationID (take (nat limit)
                  (sort_key (\<lambda>op. (op_CreatedAt op, op_CMSOperationID op))
                    (filter (\<lambda>op. op_State op = ''PERSISTED''
                       \<and> (chargerOCPPIdentity = '''' \<or> op_ChargerOCPPIdentity op = chargerOCPPIdentity))
                      (db_operations db))))
            in List.map_filter (op_row db) ids))"

definition pg_op_store :: "PostgresStore v1ChargerOperationRecoveryStore" where
  "pg_op_store = \<lparr>os_Create = pg_CreateV1ChargerOperation,
     os_Claim = pg_ClaimV1ChargerOperationDelivery, os_Mark = pg_MarkV1ChargerOperationDelivery,
     os_Recover = pg_RecoverV1ChargerOperationDelivery, os_List = pg_ListV1DispatchableChargerOperations\<rparr>"

definition pg_op_inv :: "PostgresStore \<Rightarrow> bool" where
  "pg_op_inv db \<longleftrightarrow> distinct (map op_CMSOperationID (db_operations db))"

subsection \<open>The table as a map\<close>

lemma new_operation_key [simp]:
  "op_CMSOperationID (new_operation now i input) = opin_CMSOperationID input"
  "op_State (new_operation now i input) = ''PERSISTED''"
  "op_RequestDigest (new_operation now i input) = opin_RequestDigest input"
  by (simp_all add: new_operation_def)

lemma pg_claim_row:
  "op_row (snd (pg_ClaimV1ChargerOperationDelivery now i db)) j =
     (if j = i then map_option (\<lambda>op. if op_State op = ''PERSISTED'' then op\<lparr>op_State := ''DELIVERY_ATTEMPTED'',
        op_DeliveryAttempts := op_DeliveryAttempts op + 1, op_UpdatedAt := now\<rparr> else op) (op_row db i)
      else op_row db j)"
  by (simp add: pg_ClaimV1ChargerOperationDelivery_def Let_def sql_row_update_key split: sum.splits)

lemma pg_claim_fst:
  assumes "pg_op_inv db"
  shows "fst (pg_ClaimV1ChargerOperationDelivery now i db) =
    (case op_row db i of
       None \<Rightarrow> Inl ErrV1OperationNotFound
     | Some op \<Rightarrow> if op_State op = ''PERSISTED''
         then Inr (op\<lparr>op_State := ''DELIVERY_ATTEMPTED'',
                      op_DeliveryAttempts := op_DeliveryAttempts op + 1, op_UpdatedAt := now\<rparr>, True)
         else Inr (op, False))"
  using assms sql_count_key [of op_CMSOperationID "db_operations db" i "\<lambda>op. op_State op = ''PERSISTED''"]
  by (auto simp: pg_ClaimV1ChargerOperationDelivery_def Let_def pg_GetV1ChargerOperation_def sql_row_update_key
      pg_op_inv_def split: option.splits sum.splits)

lemma pg_mark_row:
  "op_row (snd (pg_MarkV1ChargerOperationDelivery now i state result category db)) j =
     (if j = i then map_option (\<lambda>op. if op_State op = ''DELIVERY_ATTEMPTED'' then op\<lparr>op_State := state,
        op_OCPPResult := result, op_ErrorCategory := category, op_CompletedAt := Some now, op_UpdatedAt := now\<rparr> else op) (op_row db i)
      else op_row db j)"
  by (simp add: pg_MarkV1ChargerOperationDelivery_def Let_def sql_row_update_key)

lemma pg_recover_row:
  "op_row (pg_RecoverV1ChargerOperationDelivery now db) j =
     map_option (\<lambda>op. if op_State op = ''DELIVERY_ATTEMPTED'' then op\<lparr>op_State := ''RECONCILIATION_REQUIRED'',
       op_ErrorCategory := ''recovery_ambiguous'', op_CompletedAt := Some now, op_UpdatedAt := now\<rparr> else op) (op_row db j)"
  by (simp add: pg_RecoverV1ChargerOperationDelivery_def sql_row_update)

lemma pg_create_row:
  "op_row (snd (pg_CreateV1ChargerOperation now gen input db)) j = op_row db j
   \<or> op_row db j = None \<and> j = opin_CMSOperationID input
     \<and> (\<exists>i. gen = Some i \<and> op_row (snd (pg_CreateV1ChargerOperation now gen input db)) j = Some (new_operation now i input))"
  by (auto simp: pg_CreateV1ChargerOperation_def pg_GetV1ChargerOperation_def Let_def sql_row_append
      split: sum.splits option.splits)

lemma pg_op_inv_kept:
  assumes "pg_op_inv db"
  shows "pg_op_inv (snd (pg_ClaimV1ChargerOperationDelivery now i db))"
    "pg_op_inv (snd (pg_MarkV1ChargerOperationDelivery now i state result category db))"
    "pg_op_inv (pg_RecoverV1ChargerOperationDelivery now db)"
    "pg_op_inv (snd (pg_CreateV1ChargerOperation now gen input db))"
  using assms
  by (auto simp: pg_op_inv_def pg_ClaimV1ChargerOperationDelivery_def pg_MarkV1ChargerOperationDelivery_def
      pg_RecoverV1ChargerOperationDelivery_def pg_CreateV1ChargerOperation_def Let_def sql_update_keys sql_row_None
      split: sum.splits option.splits)

interpretation pg_ops: operation_store pg_op_store op_row pg_op_inv
proof
  fix s now i
  assume inv: "pg_op_inv s"
  show "fst (os_Claim pg_op_store now i s) =
      (case op_row s i of
         None \<Rightarrow> Inl ErrV1OperationNotFound
       | Some op \<Rightarrow> if op_State op = ''PERSISTED''
           then Inr (op\<lparr>op_State := ''DELIVERY_ATTEMPTED'',
                        op_DeliveryAttempts := op_DeliveryAttempts op + 1, op_UpdatedAt := now\<rparr>, True)
           else Inr (op, False))"
    by (simp add: pg_op_store_def pg_claim_fst [OF inv])
  show "op_row (snd (os_Claim pg_op_store now i s)) =
      (case fst (os_Claim pg_op_store now i s) of Inr (op, True) \<Rightarrow> (op_row s)(i \<mapsto> op) | _ \<Rightarrow> op_row s)"
    by (rule ext) (auto simp: pg_op_store_def pg_claim_fst [OF inv] pg_claim_row split: option.splits)
next
  fix s now i state result category j
  show "map_option op_State (op_row (snd (os_Mark pg_op_store now i state result category s)) j) =
      (if j = i \<and> map_option op_State (op_row s i) = Some ''DELIVERY_ATTEMPTED'' then Some state
       else map_option op_State (op_row s j))"
    by (cases "op_row s i") (auto simp: pg_op_store_def pg_mark_row)
next
  fix s now j
  show "map_option op_State (op_row (os_Recover pg_op_store now s) j) =
      map_option (\<lambda>op. if op_State op = ''DELIVERY_ATTEMPTED'' then ''RECONCILIATION_REQUIRED'' else op_State op) (op_row s j)"
    by (cases "op_row s j") (auto simp: pg_op_store_def pg_recover_row)
next
  fix s now gen input j
  show "op_row (snd (os_Create pg_op_store now gen input s)) j = op_row s j
      \<or> (op_row s j = None \<and> map_option op_State (op_row (snd (os_Create pg_op_store now gen input s)) j) = Some ''PERSISTED'')"
    using pg_create_row [where now = now and gen = gen and input = input and db = s and j = j] by (auto simp: pg_op_store_def)
qed (simp_all add: pg_op_store_def pg_op_inv_kept)

text \<open>
  C29: on PostgreSQL, for every history of creations, dispatches, recovery passes, crashes between
  claim and result, and restarts, from any database whose operation keys are unique, the OCPP call of
  one charger operation is made at most once, and none is made for an operation whose durable state
  has left \<^verbatim>\<open>PERSISTED\<close>.
\<close>

theorem pg_dispatch_at_most_once:
  assumes "pg_op_inv db"
  shows "count_list (fst (exec_ops pg_op_store es db)) i \<le> 1
    \<and> (\<forall>op. op_row db i = Some op \<and> op_State op \<noteq> ''PERSISTED'' \<longrightarrow> i \<notin> set (fst (exec_ops pg_op_store es db)))"
  using pg_ops.at_most_once [OF assms] pg_ops.no_send_unless_persisted [OF assms] by blast

theorem pg_dispatch_at_most_once_witness:
  "count_list (fst (exec_ops pg_op_store [OpCrash 5 ''a'', OpRestart 6, OpDispatch (\<lambda>_. Inr (''Accepted'', None :: unit option)) 7 8 ''a'']
     (empty_db\<lparr>db_operations := [sample_operation ''a'' 1]\<rparr>))) ''a'' \<le> 1"
proof -
  have "pg_op_inv (empty_db\<lparr>db_operations := [sample_operation ''a'' 1]\<rparr>)" by (simp add: pg_op_inv_def)
  from pg_dispatch_at_most_once [OF this] show ?thesis by blast
qed

subsection \<open>Refinement of the memory store\<close>

text \<open>\<open>op_sim\<close>: the table and the map hold the same operations.\<close>

definition op_sim :: "PostgresStore \<Rightarrow> V1MemoryStore \<Rightarrow> bool" where
  "op_sim db s \<longleftrightarrow> pg_op_inv db \<and> ms_operations s = op_row db"

text \<open>\<open>ord\<close> is an order in which Go may visit the operations map of a store.\<close>

definition enumerates_operations :: "(V1MemoryStore \<Rightarrow> string list) \<Rightarrow> bool" where
  "enumerates_operations ord \<longleftrightarrow> (\<forall>s. finite (dom (ms_operations s)) \<longrightarrow>
     distinct (ord s) \<and> set (ord s) = dom (ms_operations s))"

lemma op_sim_finite: "op_sim db s \<Longrightarrow> finite (dom (ms_operations s))"
proof -
  assume "op_sim db s"
  then have "dom (ms_operations s) \<subseteq> op_CMSOperationID ` set (db_operations db)"
    by (auto simp: op_sim_def dest: sql_row_SomeD)
  then show ?thesis by (rule finite_subset) simp
qed

lemma sim_claim:
  assumes "op_sim db s"
  shows "fst (mem_ClaimV1ChargerOperationDelivery now i s) = fst (pg_ClaimV1ChargerOperationDelivery now i db)"
    and "op_sim (snd (pg_ClaimV1ChargerOperationDelivery now i db)) (snd (mem_ClaimV1ChargerOperationDelivery now i s))"
proof -
  have inv: "pg_op_inv db" and map: "ms_operations s = op_row db" using assms by (auto simp: op_sim_def)
  show "fst (mem_ClaimV1ChargerOperationDelivery now i s) = fst (pg_ClaimV1ChargerOperationDelivery now i db)"
    by (simp add: pg_claim_fst [OF inv] mem_ClaimV1ChargerOperationDelivery_def map Let_def split: option.splits)
  have "ms_operations (snd (mem_ClaimV1ChargerOperationDelivery now i s)) j
      = op_row (snd (pg_ClaimV1ChargerOperationDelivery now i db)) j" for j
    by (simp add: pg_claim_row mem_ClaimV1ChargerOperationDelivery_def map Let_def split: option.splits)
  then show "op_sim (snd (pg_ClaimV1ChargerOperationDelivery now i db)) (snd (mem_ClaimV1ChargerOperationDelivery now i s))"
    using pg_op_inv_kept(1) [OF inv] by (auto simp: op_sim_def)
qed

lemma sim_mark:
  assumes "op_sim db s" and "state \<in> set terminal_operation_states"
  shows "fst (mem_MarkV1ChargerOperationDelivery now i state result category s)
      = fst (pg_MarkV1ChargerOperationDelivery now i state result category db)"
    and "op_sim (snd (pg_MarkV1ChargerOperationDelivery now i state result category db))
      (snd (mem_MarkV1ChargerOperationDelivery now i state result category s))"
proof -
  have inv: "pg_op_inv db" and map: "ms_operations s = op_row db" using assms(1) by (auto simp: op_sim_def)
  have trm: "state = ''OCPP_CONFIRMED'' \<or> state = ''RECONCILIATION_REQUIRED''"
    using assms(2) by (simp add: terminal_operation_states_def)
  have get: "fst (pg_MarkV1ChargerOperationDelivery now i state result category db) =
      (case op_row (snd (pg_MarkV1ChargerOperationDelivery now i state result category db)) i of
         None \<Rightarrow> Inl ErrV1OperationNotFound | Some op \<Rightarrow> Inr op)"
    by (simp add: pg_MarkV1ChargerOperationDelivery_def Let_def pg_GetV1ChargerOperation_def)
  show "fst (mem_MarkV1ChargerOperationDelivery now i state result category s)
      = fst (pg_MarkV1ChargerOperationDelivery now i state result category db)"
    using trm unfolding get pg_mark_row
    by (simp add: mem_MarkV1ChargerOperationDelivery_def map Let_def split: option.splits)
  have "ms_operations (snd (mem_MarkV1ChargerOperationDelivery now i state result category s)) j
      = op_row (snd (pg_MarkV1ChargerOperationDelivery now i state result category db)) j" for j
    using trm unfolding pg_mark_row
    by (simp add: mem_MarkV1ChargerOperationDelivery_def map Let_def split: option.splits)
  then show "op_sim (snd (pg_MarkV1ChargerOperationDelivery now i state result category db))
      (snd (mem_MarkV1ChargerOperationDelivery now i state result category s))"
    using pg_op_inv_kept(2) [OF inv] by (auto simp: op_sim_def)
qed

lemma sim_recover:
  assumes "op_sim db s"
  shows "op_sim (pg_RecoverV1ChargerOperationDelivery now db) (mem_RecoverV1ChargerOperationDelivery now s)"
proof -
  have "ms_operations (mem_RecoverV1ChargerOperationDelivery now s) j = op_row (pg_RecoverV1ChargerOperationDelivery now db) j" for j
    using assms by (cases "op_row db j") (auto simp: op_sim_def pg_recover_row mem_RecoverV1ChargerOperationDelivery_def)
  with assms pg_op_inv_kept(3) show ?thesis by (auto simp: op_sim_def)
qed

lemma sim_create:
  assumes "op_sim db s" and "gen = Some u" and "u \<noteq> nil_uuid" and "opin_TraceID input \<noteq> ''''"
    and "u \<notin> op_HALOperationID ` set (db_operations db)"
  shows "fst (mem_CreateV1ChargerOperation now gen input s) = fst (pg_CreateV1ChargerOperation now gen input db)"
    and "op_sim (snd (pg_CreateV1ChargerOperation now gen input db)) (snd (mem_CreateV1ChargerOperation now gen input s))"
proof -
  have inv: "pg_op_inv db" and map: "ms_operations s = op_row db" using assms(1) by (auto simp: op_sim_def)
  note defs = mem_CreateV1ChargerOperation_def pg_CreateV1ChargerOperation_def NewSecureUUIDString_def assms(2-5)
    pg_GetV1ChargerOperation_def Let_def map
  show "fst (mem_CreateV1ChargerOperation now gen input s) = fst (pg_CreateV1ChargerOperation now gen input db)"
    by (cases "op_row db (opin_CMSOperationID input)") (simp_all add: defs sql_row_append)
  have "ms_operations (snd (mem_CreateV1ChargerOperation now gen input s)) j
      = op_row (snd (pg_CreateV1ChargerOperation now gen input db)) j" for j
    by (cases "op_row db (opin_CMSOperationID input)") (auto simp add: defs sql_row_append split: option.splits)
  then show "op_sim (snd (pg_CreateV1ChargerOperation now gen input db)) (snd (mem_CreateV1ChargerOperation now gen input s))"
    using pg_op_inv_kept(4) [OF inv] by (auto simp: op_sim_def)
qed

lemma map_filter_op_row:
  assumes "pg_op_inv db" and "set ops \<subseteq> set (db_operations db)"
  shows "List.map_filter (op_row db) (map op_CMSOperationID ops) = ops"
  using assms
proof (induction ops)
  case (Cons op ops)
  then have "op_row db (op_CMSOperationID op) = Some op" by (simp add: pg_op_inv_def sql_row_unique)
  with Cons show ?case by (simp add: List.map_filter_simps)
qed (simp add: List.map_filter_simps)

lemma sim_list:
  assumes "op_sim db s" and "distinct order" and "set order = dom (ms_operations s)"
  shows "mem_ListV1DispatchableChargerOperations order identity limit s
    = pg_ListV1DispatchableChargerOperations identity limit db"
proof -
  let ?k = "\<lambda>op. (op_CreatedAt op, op_CMSOperationID op)"
  let ?P = "\<lambda>op. op_State op = ''PERSISTED'' \<and> (identity = '''' \<or> op_ChargerOCPPIdentity op = identity)"
  have inv: "pg_op_inv db" and map: "ms_operations s = op_row db" using assms(1) by (auto simp: op_sim_def)
  have keyed: "ops_keyed s" by (auto simp: ops_keyed_def map dest: sql_row_SomeD)
  have "sort_key ?k (filter ?P (List.map_filter (ms_operations s) order)) = sort_key ?k (filter ?P (db_operations db))"
  proof (rule sort_key_order_irrelevant)
    have "set (List.map_filter (ms_operations s) order) = set (db_operations db)"
      using inv unfolding set_map_filter_operations assms(3) unfolding map
      by (auto simp: pg_op_inv_def dest: sql_row_SomeD intro: sql_row_unique)
    then show "set (filter ?P (List.map_filter (ms_operations s) order)) = set (filter ?P (db_operations db))"
      by simp
    show "distinct (filter ?P (db_operations db))"
      using inv by (simp add: pg_op_inv_def distinct_map)
    show "inj_on ?k (set (filter ?P (List.map_filter (ms_operations s) order)))"
      using map_filter_operations(2) [OF keyed assms(2)] by (auto intro: inj_on_subset)
  qed (use map_filter_operations(1) [OF keyed assms(2)] in simp)
  moreover have "set (take (nat limit) (sort_key ?k (filter ?P (db_operations db)))) \<subseteq> set (db_operations db)"
    by (auto dest: in_set_takeD)
  ultimately show ?thesis
    using map_filter_op_row [OF inv]
    by (simp add: mem_ListV1DispatchableChargerOperations_def pg_ListV1DispatchableChargerOperations_def)
qed

lemma sim_dispatch:
  assumes "op_sim db s"
    and "dispatchClaimedV1ChargerOperation pg_op_store dispatcher n1 n2 i db = (r, db')"
    and "dispatchClaimedV1ChargerOperation (mem_op_store ord) dispatcher n1 n2 i s = (r', s')"
  shows "r' = r \<and> op_sim db' s'"
proof -
  obtain c db1 where c: "pg_ClaimV1ChargerOperationDelivery n1 i db = (c, db1)"
    by (cases "pg_ClaimV1ChargerOperationDelivery n1 i db")
  obtain s1 where m: "mem_ClaimV1ChargerOperationDelivery n1 i s = (c, s1)" and sim: "op_sim db1 s1"
    using sim_claim [OF assms(1), of n1 i] c by (cases "mem_ClaimV1ChargerOperationDelivery n1 i s") auto
  show ?thesis
  proof (cases "\<exists>op. c = Inr (op, True)")
    case False
    with assms(2,3) c m sim show ?thesis
      by (auto simp: dispatchClaimedV1ChargerOperation_def pg_op_store_def mem_op_store_def
          split: sum.splits prod.splits if_splits)
  next
    case True
    then obtain op where op: "c = Inr (op, True)" by blast
    define o' where "o' = (case dispatcher op of
                     Inl _ \<Rightarrow> (''RECONCILIATION_REQUIRED'', ''delivery_ambiguous'', '''', None)
                   | Inr (result, configuration) \<Rightarrow> (''OCPP_CONFIRMED'', '''', result, configuration))"
    obtain state category result conf where o': "o' = (state, category, result, conf)" by (cases o') auto
    have "state \<in> set terminal_operation_states"
      using o' by (auto simp: o'_def terminal_operation_states_def split: sum.splits prod.splits)
    note mark = sim_mark [OF sim this, of n2 i result category]
    have "(r, db') = ((fst (pg_MarkV1ChargerOperationDelivery n2 i state result category db1), conf, True),
        snd (pg_MarkV1ChargerOperationDelivery n2 i state result category db1))"
      using assms(2) c op o' by (simp add: dispatchClaimedV1ChargerOperation_def pg_op_store_def o'_def [symmetric] split_beta)
    moreover have "(r', s') = ((fst (mem_MarkV1ChargerOperationDelivery n2 i state result category s1), conf, True),
        snd (mem_MarkV1ChargerOperationDelivery n2 i state result category s1))"
      using assms(3) m op o' by (simp add: dispatchClaimedV1ChargerOperation_def mem_op_store_def o'_def [symmetric] split_beta)
    ultimately show ?thesis using mark by simp
  qed
qed

lemma sim_recover_loop:
  "op_sim db s \<Longrightarrow>
   recover_loop pg_op_store dispatcher ctxErr isConnected n1 n2 pending db = (sent, err, db') \<Longrightarrow>
   recover_loop (mem_op_store ord) dispatcher ctxErr isConnected n1 n2 pending s = (sent', err', s') \<Longrightarrow>
   sent' = sent \<and> err' = err \<and> op_sim db' s'"
proof (induction pending arbitrary: db s sent sent' err err' db' s')
  case (Cons operation pending)
  obtain r db1 where d: "dispatchClaimedV1ChargerOperation pg_op_store dispatcher n1 n2 (op_CMSOperationID operation) db = (r, db1)"
    by (metis prod.exhaust)
  obtain r' s1 where d': "dispatchClaimedV1ChargerOperation (mem_op_store ord) dispatcher n1 n2 (op_CMSOperationID operation) s = (r', s1)"
    by (metis prod.exhaust)
  have step: "r' = r" "op_sim db1 s1" using sim_dispatch [OF Cons.prems(1) d d'] by auto
  obtain a b c where rest: "recover_loop pg_op_store dispatcher ctxErr isConnected n1 n2 pending db1 = (a, b, c)"
    by (metis prod.exhaust)
  obtain a' b' c' where rest': "recover_loop (mem_op_store ord) dispatcher ctxErr isConnected n1 n2 pending s1 = (a', b', c')"
    by (metis prod.exhaust)
  note IH = Cons.IH [OF step(2) rest rest']
  show ?case
  proof (cases "ctxErr operation = None \<and> isConnected operation")
    case True
    with Cons.prems(2,3) d d' rest rest' IH step show ?thesis by (cases r) auto
  next
    case False
    show ?thesis
    proof (cases "ctxErr operation")
      case None
      with False have "\<not> isConnected operation" by simp
      with None Cons.prems(2,3) have "recover_loop pg_op_store dispatcher ctxErr isConnected n1 n2 pending db = (sent, err, db')"
        and "recover_loop (mem_op_store ord) dispatcher ctxErr isConnected n1 n2 pending s = (sent', err', s')" by simp_all
      then show ?thesis by (rule Cons.IH [OF Cons.prems(1)])
    next
      case (Some err1)
      with Cons.prems show ?thesis by (auto split: option.splits)
    qed
  qed
qed simp

text \<open>
  A history both stores can run: every creation draws a fresh identifier and names a trace.
\<close>

fun creation_ok :: "PostgresStore \<Rightarrow> 'c op_event \<Rightarrow> bool" where
  "creation_ok db (OpCreate now gen input) \<longleftrightarrow>
     (case gen of None \<Rightarrow> False | Some u \<Rightarrow> u \<noteq> nil_uuid \<and> u \<notin> op_HALOperationID ` set (db_operations db))
     \<and> opin_TraceID input \<noteq> ''''"
| "creation_ok db _ \<longleftrightarrow> True"

fun history_ok :: "'c op_event list \<Rightarrow> PostgresStore \<Rightarrow> bool" where
  "history_ok [] db \<longleftrightarrow> True"
| "history_ok (e # es) db \<longleftrightarrow> creation_ok db e \<and> history_ok es (snd (exec_op pg_op_store e db))"

lemma sim_exec_op:
  assumes "op_sim db s" and "creation_ok db e" and ord: "enumerates_operations ord"
    and "exec_op pg_op_store e db = (sent, db')" and "exec_op (mem_op_store ord) e s = (sent', s')"
  shows "sent' = sent \<and> op_sim db' s'"
proof (cases e)
  case (OpCreate now gen input)
  with assms(2) obtain u where "gen = Some u" "u \<noteq> nil_uuid" "opin_TraceID input \<noteq> ''''"
    "u \<notin> op_HALOperationID ` set (db_operations db)" by (auto split: option.splits)
  from sim_create(2) [OF assms(1) this] assms(4,5) OpCreate show ?thesis
    by (auto simp: pg_op_store_def mem_op_store_def)
next
  case (OpDispatch dispatcher n1 n2 i)
  obtain r db1 where d: "dispatchClaimedV1ChargerOperation pg_op_store dispatcher n1 n2 i db = (r, db1)" by (metis prod.exhaust)
  obtain r' s1 where d': "dispatchClaimedV1ChargerOperation (mem_op_store ord) dispatcher n1 n2 i s = (r', s1)" by (metis prod.exhaust)
  from sim_dispatch [OF assms(1) d d'] assms(4,5) OpDispatch d d' show ?thesis by (cases r) auto
next
  case (OpCrash now i)
  have "fst (mem_ClaimV1ChargerOperationDelivery now i s) = fst (pg_ClaimV1ChargerOperationDelivery now i db)"
    "op_sim (snd (pg_ClaimV1ChargerOperationDelivery now i db)) (snd (mem_ClaimV1ChargerOperationDelivery now i s))"
    using sim_claim [OF assms(1)] by blast+
  with assms(4,5) OpCrash show ?thesis
    by (cases "pg_ClaimV1ChargerOperationDelivery now i db"; cases "mem_ClaimV1ChargerOperationDelivery now i s")
      (auto simp: pg_op_store_def mem_op_store_def split: sum.splits bool.splits)
next
  case (OpRecoveryPass dispatcher ctxErr isConnected n1 n2 identity)
  let ?pending = "pg_ListV1DispatchableChargerOperations identity v1ChargerOperationRecoveryBatch db"
  have "os_List (mem_op_store ord) identity v1ChargerOperationRecoveryBatch s = ?pending"
    using sim_list [OF assms(1)] ord op_sim_finite [OF assms(1)]
    by (simp add: mem_op_store_def enumerates_operations_def)
  moreover have "os_List pg_op_store identity v1ChargerOperationRecoveryBatch db = ?pending" by (simp add: pg_op_store_def)
  ultimately obtain err err' where "recover_loop pg_op_store dispatcher ctxErr isConnected n1 n2 ?pending db = (sent, err, db')"
    "recover_loop (mem_op_store ord) dispatcher ctxErr isConnected n1 n2 ?pending s = (sent', err', s')"
    using assms(4,5) OpRecoveryPass by (auto simp: recoverDispatchableV1ChargerOperations_def split: prod.splits)
  with sim_recover_loop [OF assms(1)] show ?thesis by blast
next
  case (OpRestart now)
  with assms(4,5) sim_recover [OF assms(1), of now] show ?thesis by (auto simp: pg_op_store_def mem_op_store_def)
qed


definition sample_input :: "string \<Rightarrow> V1ChargerOperationInput" where
  "sample_input i = \<lparr>opin_CMSOperationID = i, opin_TraceID = ''trace'',
     opin_RequestDigest = ''d'', opin_CPOID = ''cpo'', opin_CMSChargerID = ''c1'', opin_CMSConnectorID = '''',
     opin_ChargerOCPPIdentity = ''CP1'', opin_OCPPConnectorNumber = 0, opin_Kind = ''Reset'',
     opin_Parameters = [], opin_ConfigurationKeys = [], opin_CorrelationID = ''''\<rparr>"


end
