(* ===== verification/PG_System.thy ===== *)
theory PG_System
  imports PG_Lifecycle PG_Runtime PG_Operations
begin

text \<open>
  The PostgreSQL store as a whole: every method that writes is a step, in any order and with any
  arguments, environment and database faults. What the steps keep is proved per method; here it
  becomes invariants of every reachable database.
\<close>

subsection \<open>The other components keep the lifecycle\<close>

lemma life_kept_unrelated:
  assumes "db_transactions db1 = db_transactions db" "db_credentials db1 = db_credentials db"
    "db_commands db1 = db_commands db" "db_workflows db1 = db_workflows db"
    "db_completion_keys db1 = db_completion_keys db" "db_facts db1 = db_facts db"
  shows "life_kept db db1"
  by (rule life_kept_frame) (simp_all add: assms facts_kept_frame)

lemma life_kept_contents:
  assumes "facts_kept db db'" and "map ob_content (db_facts db') = map ob_content (db_facts db)"
    and "db_transactions db' = db_transactions db" "db_credentials db' = db_credentials db"
    "db_commands db' = db_commands db" "db_workflows db' = db_workflows db"
    "db_completion_keys db' = db_completion_keys db"
  shows "life_kept db db'"
proof (rule life_kept_frame)
  fix a
  have c: "sql_count (is_completion a) t = length (filter (\<lambda>c. fc_FactType c = ''transaction.completed''
      \<and> fc_AggregateKey c = a) (map ob_content t))" for t :: "fact_row list"
    unfolding sql_count_content [symmetric] by (simp add: is_completion_def [abs_def])
  show "sql_count (is_completion a) (db_facts db') = sql_count (is_completion a) (db_facts db)"
    unfolding c assms(2) ..
qed (use assms in simp_all)

lemma ClaimV1Facts_kept: "life_kept db (snd (pg_ClaimV1Facts locked now limit gen db))"
proof (rule life_kept_contents)
  show "facts_kept db (snd (pg_ClaimV1Facts locked now limit gen db))"
    using pg_facts.claim_kept pg_facts.invar_claim by (auto simp: facts_kept_def)
qed (auto simp: pg_ClaimV1Facts_def Let_def split_beta split: sum.splits)

lemma MarkV1FactDelivery_kept:
  "life_kept db (snd (pg_MarkV1FactDelivery now i token code success terminal detail next' db))"
proof (rule life_kept_contents)
  have "outbox_kept (db_facts db) (db_facts (snd (pg_MarkV1FactDelivery now i token code success terminal detail next' db)))"
    by (simp add: pg_facts.mark_rows outbox_mark_kept)
  then show "facts_kept db (snd (pg_MarkV1FactDelivery now i token code success terminal detail next' db))"
    using pg_facts.invar_mark by (auto simp: facts_kept_def)
qed (auto simp: pg_MarkV1FactDelivery_def Let_def)

lemma RequeueV1Fact_life: "life_kept db (snd (pg_RequeueV1Fact E factID correlationID db))"
  by (rule life_kept_contents [OF pg_RequeueV1Fact_kept])
    (auto simp: pg_RequeueV1Fact_def pg_tx_def sql_update_keys split: sum.splits option.splits if_splits)

lemma life_other_fact:
  assumes "insertV1FactTx E k factType aggregate sequence occurredAt payload db1 = (Inr u, db')"
    and "factType \<noteq> ''transaction.completed''" and "life_kept db db1"
  shows "life_kept db db'"
  using life_kept_trans [OF assms(3) life_fact(1) [OF assms(1,2)]] .

lemma upsert_connection_life: "upsert_connection identity state generation t db = Some db1 \<Longrightarrow> life_kept db db1"
  by (auto simp: upsert_connection_def split: option.splits if_splits intro!: life_kept_unrelated)

lemma upsert_connector_life: "life_kept db (upsert_connector now r observed db)"
  by (auto simp: upsert_connector_def Let_def intro!: life_kept_unrelated)

lemma insert_reset_facts_life: "insert_reset_facts E k changed db = (Inr u, db') \<Longrightarrow> life_kept db db'"
proof (induction changed arbitrary: k db)
  case (Cons c changed)
  obtain m r where c: "c = (m, r)" by force
  with Cons.prems obtain v db1 seq p at' where
    "insertV1FactTx E k ''charger.connection.updated'' (rr_ChargerOCPPIdentity r) seq at' p db = (Inr v, db1)"
    "insert_reset_facts E (k + 1) changed db1 = (Inr u, db')"
    by (auto split: prod.splits sum.splits)
  with Cons.IH life_fact(1) life_kept_trans show ?case by blast
qed simp

lemma runtime_life:
  "life_kept db (snd (pg_RecordV1ChargerConnection E identity generation online t db))"
  "life_kept db (snd (pg_RenewCurrentV1ChargerConnection E identity generation t db))"
  "life_kept db (snd (pg_RecordV1ConnectorStatus E r db))"
  "life_kept db (snd (pg_ResetV1ConnectionRuntime E db))"
proof -
  show "life_kept db (snd (pg_RecordV1ChargerConnection E identity generation online t db))"
    unfolding pg_RecordV1ChargerConnection_def Let_def
    by (rule pg_tx_rel [where R = life_kept])
      (auto split: sum.splits option.splits intro: life_other_fact upsert_connection_life)
  show "life_kept db (snd (pg_RenewCurrentV1ChargerConnection E identity generation t db))"
    unfolding pg_RenewCurrentV1ChargerConnection_def Let_def
    by (rule pg_tx_rel [where R = life_kept])
      (auto split: sum.splits option.splits intro!: life_kept_unrelated elim!: life_other_fact)
  show "life_kept db (snd (pg_RecordV1ConnectorStatus E r db))"
    unfolding pg_RecordV1ConnectorStatus_def Let_def
    by (rule pg_tx_rel [where R = life_kept])
      (auto split: sum.splits option.splits if_splits elim!: life_other_fact intro: upsert_connector_life)
  have "life_kept db db'" if "insert_reset_facts E 0 changed (db\<lparr>db_runtime := t\<rparr>) = (Inr u, db')" for changed t u db'
    by (rule life_kept_trans [OF life_kept_unrelated insert_reset_facts_life [OF that]]) simp_all
  then show "life_kept db (snd (pg_ResetV1ConnectionRuntime E db))"
    unfolding pg_ResetV1ConnectionRuntime_def Let_def by (intro pg_tx_rel [where R = life_kept]) auto
qed

lemma sync_mapping_life: "life_kept db (snd (pg_SyncV1Mapping E input db))"
proof -
  have "life_kept db (snd (pg_tx (sync_mapping_tx E input) db))"
  proof (rule pg_tx_rel [where R = life_kept])
    fix x db' assume "sync_mapping_tx E input db = (Inr x, db')"
    then show "life_kept db db'"
      by (intro life_kept_unrelated)
        (auto simp: sync_mapping_tx_def Let_def insert_mapping_def update_mapping_def seed_runtime_def audit_mapping_def
          split: option.splits sum.splits if_splits prod.splits)
  qed simp
  moreover have "snd (pg_SyncV1Mapping E input db) = snd (pg_tx (sync_mapping_tx E input) db)"
    by (auto simp: pg_SyncV1Mapping_def split: prod.splits sum.splits)
  ultimately show ?thesis by simp
qed

lemma operations_life:
  "life_kept db (snd (pg_RecordV1BootEvidence identity evidence db))"
  "life_kept db (snd (pg_CreateV1ChargerOperation now gen opin db))"
  "life_kept db (snd (pg_ClaimV1ChargerOperationDelivery now i db))"
  "life_kept db (snd (pg_MarkV1ChargerOperationDelivery now i state result category db))"
  "life_kept db (pg_RecoverV1ChargerOperationDelivery now db)"
  by (intro life_kept_unrelated; auto simp: pg_RecordV1BootEvidence_def pg_CreateV1ChargerOperation_def
      pg_ClaimV1ChargerOperationDelivery_def pg_MarkV1ChargerOperationDelivery_def
      pg_RecoverV1ChargerOperationDelivery_def Let_def split: option.splits sum.splits)+

subsection \<open>The steps of the store\<close>

text \<open>
  The writes of the two deliveries are kept apart from the others, which is where their
  interleaving with request handlers starts.
\<close>

inductive start_delivery_step :: "PostgresStore \<Rightarrow> PostgresStore \<Rightarrow> bool" where
  claim_start: "start_delivery_step db (snd (pg_ClaimV1StartDelivery now i db))"
| begin_start: "start_delivery_step db (snd (pg_BeginV1CommandDelivery now i db))"
| mark_start: "start_delivery_step db (snd (pg_MarkV1CommandDelivery E i status result detail db))"
| recover_commands: "start_delivery_step db (pg_RecoverV1CommandDelivery now db)"

inductive stop_delivery_step :: "PostgresStore \<Rightarrow> PostgresStore \<Rightarrow> bool" where
  claim_stop: "stop_delivery_step db (snd (pg_ClaimV1StopDelivery F now i db))"
| begin_stop: "stop_delivery_step db (snd (pg_BeginV1StopDelivery F now i db))"
| mark_stop: "stop_delivery_step db (snd (pg_MarkV1StopDelivery F E i status result detail db))"
| recover_stops: "stop_delivery_step db (pg_RecoverV1StopDelivery now db)"

inductive lifecycle_step :: "PostgresStore \<Rightarrow> PostgresStore \<Rightarrow> bool" where
  create_start: "lifecycle_step db (snd (pg_CreateV1StartCommand E stin db))"
| create_stop: "lifecycle_step db (snd (pg_CreateV1StopCommand F E spin db))"
| materialize: "env_ok E \<Longrightarrow> in_int64 (mat_MeterStartWh mat) \<Longrightarrow> lifecycle_step db (snd (pg_MaterializeV1Start E mat db))"
| update_telemetry: "\<forall>w. tel_EnergyWh telemetry = Some w \<longrightarrow> in_int64 w \<Longrightarrow>
    lifecycle_step db (snd (pg_UpdateV1TelemetryForOCPP E identity ocppID telemetry db))"
| update_meter: "in_int64 meterWh \<Longrightarrow> lifecycle_step db (snd (pg_UpdateV1Meter E i ocppID meterWh observedAt db))"
| ensure_stop: "lifecycle_step db (snd (pg_EnsureV1StopWorkflow F E i initiator reason db))"
| request_stop: "lifecycle_step db (snd (pg_RequestV1Stop F E i initiator reason db))"
| complete: "in_int64 meterStopWh \<Longrightarrow>
    lifecycle_step db (snd (pg_CompleteV1Transaction F E i meterStopWh ocppReason completedAt observedAt db))"

inductive outer_step :: "PostgresStore \<Rightarrow> PostgresStore \<Rightarrow> bool" where
  sync_mapping: "outer_step db (snd (pg_SyncV1Mapping E mapin db))"
| boot_evidence: "outer_step db (snd (pg_RecordV1BootEvidence identity evidence db))"
| connection: "outer_step db (snd (pg_RecordV1ChargerConnection E identity generation online t db))"
| renew_connection: "outer_step db (snd (pg_RenewCurrentV1ChargerConnection E identity generation t db))"
| connector_status: "outer_step db (snd (pg_RecordV1ConnectorStatus E crt db))"
| reset_runtime: "outer_step db (snd (pg_ResetV1ConnectionRuntime E db))"
| claim_facts: "outer_step db (snd (pg_ClaimV1Facts locked now limit gen db))"
| mark_fact: "outer_step db (snd (pg_MarkV1FactDelivery now i token code success terminal detail next' db))"
| requeue_fact: "outer_step db (snd (pg_RequeueV1Fact E i correlationID db))"
| create_operation: "outer_step db (snd (pg_CreateV1ChargerOperation now gen opin db))"
| claim_operation: "outer_step db (snd (pg_ClaimV1ChargerOperationDelivery now i db))"
| mark_operation: "outer_step db (snd (pg_MarkV1ChargerOperationDelivery now i state result category db))"
| recover_operations: "outer_step db (pg_RecoverV1ChargerOperationDelivery now db)"

definition pg_step :: "PostgresStore \<Rightarrow> PostgresStore \<Rightarrow> bool" where
  "pg_step db db' \<longleftrightarrow> lifecycle_step db db' \<or> start_delivery_step db db' \<or> stop_delivery_step db db' \<or> outer_step db db'"

lemmas life_steps = sync_mapping_life operations_life CreateV1Start_kept CreateV1StopCommand_kept ClaimV1Start_kept
  BeginV1Command_kept MarkV1Command_kept RecoverV1Command_kept EnsureV1StopWorkflow_kept
  EnsureV1StopWorkflow_kept [folded RequestV1Stop_state] ClaimV1StopDelivery_kept BeginV1StopDelivery_kept
  MarkV1StopDelivery_kept RecoverV1StopDelivery_kept runtime_life ClaimV1Facts_kept MarkV1FactDelivery_kept
  RequeueV1Fact_life

lemma lifecycle_step_life: "lifecycle_step db db' \<Longrightarrow> life_kept db db'"
  by (erule lifecycle_step.cases; hypsubst)
    (rule life_steps MaterializeV1Start_kept UpdateV1Telemetry_kept UpdateV1Meter_kept CompleteV1Transaction_kept; assumption?)+

lemma delivery_steps_life: "start_delivery_step db db' \<Longrightarrow> life_kept db db'" "stop_delivery_step db db' \<Longrightarrow> life_kept db db'"
  by (erule start_delivery_step.cases stop_delivery_step.cases; hypsubst; rule life_steps)+

lemma outer_step_life: "outer_step db db' \<Longrightarrow> life_kept db db'"
  by (erule outer_step.cases; hypsubst; rule life_steps)

lemma pg_step_life: "pg_step db db' \<Longrightarrow> life_kept db db'"
  unfolding pg_step_def using lifecycle_step_life delivery_steps_life outer_step_life by blast

lemma pg_steps_life: "pg_step\<^sup>*\<^sup>* db db' \<Longrightarrow> life_kept db db'"
  by (induction rule: rtranclp_induct) (auto dest: pg_step_life intro: life_kept_trans)

lemma life_inv_empty: "life_inv empty_db"
  by (simp add: life_inv_def life_core_def keys_inv_def limit_inv_def fact_inv_def empty_db_def sql_count_def)

lemma reachable_life: "pg_step\<^sup>*\<^sup>* empty_db db \<Longrightarrow> life_inv db"
  using pg_steps_life life_inv_empty by (auto simp: life_kept_def)

subsection \<open>A concrete session\<close>

text \<open>
  A start with an energy limit of 300 Wh, a reading of 900 Wh that exceeds it, and the charger's
  stop at 899 Wh. \<open>sample_call c\<close> is the environment of a call whose identifiers start with \<open>c\<close>.
\<close>

definition sample_call :: "char \<Rightarrow> pg_env" where
  "sample_call c = \<lparr>env_now = 9000, env_clock = 9000,
     env_uuid = (\<lambda>k. Some (c # (if k = 0 then ''0'' else if k = 1 then ''1'' else ''2''))),
     env_digest = (\<lambda>_. Inr ''sha'')\<rparr>"

definition no_faults :: lifecycle_faults where
  "no_faults = \<lparr>lf_ctxErr = \<lambda>_. None, lf_fault = \<lambda>_. None, lf_cancel = \<lambda>_. None\<rparr>"

definition pg_sample_start :: V1StartCommandInput where
  "pg_sample_start = \<lparr>stin_CMSCommandID = ''cmd'', stin_RequestDigest = ''digest'', stin_CPOID = ''cpo'',
     stin_CustomerID = ''cust'', stin_CorrelationID = ''corr'', stin_CMSStartIntentID = ''intent'',
     stin_CMSChargerID = ''ch'', stin_CMSConnectorID = ''con'', stin_ChargerOCPPIdentity = ''CP1'',
     stin_OCPPConnectorNumber = 1, stin_IDTag = ''appv1_tag'', stin_CredentialExpiresAt = 100000,
     stin_CommandExpiresAt = 100000, stin_LimitType = ''ENERGY'', stin_EnergyLimitWh = Some 300,
     stin_EnergyLimitSource = ''CUSTOMER_ENERGY'', stin_MaxDurationSeconds = None, stin_DurationLimitSource = ''NONE''\<rparr>"

definition pg_sample_mat :: V1StartMaterialization where
  "pg_sample_mat = \<lparr>mat_ChargerOCPPIdentity = ''CP1'', mat_OCPPConnectorNumber = 1, mat_IDTag = ''appv1_tag'',
     mat_MeterStartWh = 500, mat_ActualStartedAt = 10000, mat_ObservedAt = 11000, mat_OCPPTransactionID = 7\<rparr>"

definition pg_sample_commanded :: PostgresStore where
  "pg_sample_commanded = snd (pg_CreateV1StartCommand (sample_call CHR ''a'') pg_sample_start empty_db)"

definition pg_sample_started :: PostgresStore where
  "pg_sample_started = snd (pg_MaterializeV1Start (sample_call CHR ''b'') pg_sample_mat pg_sample_commanded)"

definition pg_sample_metered :: PostgresStore where
  "pg_sample_metered = snd (pg_UpdateV1Meter (sample_call CHR ''c'') ''b0'' 7 900 20000 pg_sample_started)"

definition pg_sample_stopped :: PostgresStore where
  "pg_sample_stopped = snd (pg_CompleteV1Transaction no_faults (sample_call CHR ''d'') ''b0'' 899 ''Local'' 30000 31000 pg_sample_metered)"

lemma pg_sample_reachable:
  "pg_step\<^sup>*\<^sup>* empty_db pg_sample_commanded" "pg_step\<^sup>*\<^sup>* empty_db pg_sample_started"
  "pg_step\<^sup>*\<^sup>* empty_db pg_sample_metered" "pg_step\<^sup>*\<^sup>* empty_db pg_sample_stopped"
  "pg_step\<^sup>*\<^sup>* pg_sample_metered pg_sample_stopped" "pg_step\<^sup>*\<^sup>* pg_sample_started pg_sample_stopped"
proof -
  have s: "pg_step empty_db pg_sample_commanded" "pg_step pg_sample_commanded pg_sample_started"
    "pg_step pg_sample_started pg_sample_metered" "pg_step pg_sample_metered pg_sample_stopped"
    unfolding pg_sample_commanded_def pg_sample_started_def pg_sample_metered_def pg_sample_stopped_def
    unfolding pg_step_def
    by (intro disjI1 lifecycle_step.intros; simp add: env_ok_def sample_call_def pg_sample_mat_def in_int64_def)+
  then show "pg_step\<^sup>*\<^sup>* empty_db pg_sample_commanded" "pg_step\<^sup>*\<^sup>* empty_db pg_sample_started"
    "pg_step\<^sup>*\<^sup>* empty_db pg_sample_metered" "pg_step\<^sup>*\<^sup>* empty_db pg_sample_stopped"
    "pg_step\<^sup>*\<^sup>* pg_sample_metered pg_sample_stopped" "pg_step\<^sup>*\<^sup>* pg_sample_started pg_sample_stopped"
    by (meson rtranclp.rtrancl_into_rtrancl rtranclp.rtrancl_refl)+
qed

lemmas pg_session_defs = empty_db_def sample_call_def pg_sample_start_def pg_sample_mat_def no_faults_def
  pg_CreateV1StartCommand_def create_start_tx_def insert_command_def insert_credential_def start_command_row_def
  start_command_check_def new_start_command_def new_credential_def pg_tx_def tx_bind_def pg_GetV1Command_def
  getV1CommandWith_def pg_MaterializeV1Start_def materialize_tx_def materialize_writes_def materialized_transaction_def
  materialized_command_def start_row_def insert_transaction_def consume_credential_def new_transaction_def
  stop_deadline_def invalid_start_evidence_def plausibleV1ProtocolTime_def v1MaxProtocolClockSkew_def time_IsZero_def
  time_Sub_def wrap64_def NewSecureUUIDString_def nil_uuid_def insertV1FactTx_def insert_fact_row_def new_fact_row_def
  v1FactProducer_def normalizeV1FactOccurredAt_def truncate_us_def pg_ts_def
  sql_row_def sql_update_def Let_def pg_GetV1Transaction_def getV1TransactionByID_def getV1TransactionBy_def load_transaction_def

lemma pg_sample_commanded_eval:
  "pg_sample_commanded = empty_db\<lparr>
     db_commands := [start_command_row 9000 ''a0'' pg_sample_start],
     db_credentials := [new_credential pg_sample_start]\<rparr>"
  unfolding pg_sample_commanded_def by (simp add: pg_session_defs)

definition pg_sample_tx :: V1Transaction where
  "pg_sample_tx = start_row (materialized_transaction ''b0'' (new_credential pg_sample_start)
     (cr_Command (start_command_row 9000 ''a0'' pg_sample_start)) pg_sample_mat)"

lemma pg_sample_started_eval:
  "db_transactions pg_sample_started = [pg_sample_tx]" "db_workflows pg_sample_started = []"
  "db_completion_keys pg_sample_started = []"
  "map ob_id (db_facts pg_sample_started) = [''b1'', ''b2'']"
  "db_credentials pg_sample_started = [(new_credential pg_sample_start)\<lparr>cred_ConsumedAt := Some 11000, cred_HALTransactionID := ''b0''\<rparr>]"
  unfolding pg_sample_started_def pg_sample_commanded_eval pg_sample_tx_def
  by (simp_all add: pg_session_defs sequence_conflict_def)

lemma pg_sample_started_facts:
  "map (\<lambda>r. (ob_id r, fc_FactType (ob_content r))) (db_facts pg_sample_started)
     = [(''b1'', ''transaction.started''), (''b2'', ''command.updated'')]"
  unfolding pg_sample_started_def pg_sample_commanded_eval by (simp add: pg_session_defs sequence_conflict_def)

lemma sequence_conflict_types:
  "ty \<notin> set (map (\<lambda>r. fc_FactType (ob_content r)) t) \<Longrightarrow> \<not> sequence_conflict ty a n t"
  by (auto simp: sequence_conflict_def)

lemmas pg_telemetry_defs = pg_UpdateV1Meter_def pg_UpdateV1TelemetryForOCPP_def telemetry_tx_def telemetry_facts_def
  insert_seq_fact_def pg_apply_energy_def pg_accept_energy_def pg_apply_soc_def v1EnergyStopCause_def
  energy_limit_reached_def ensureV1StopWorkflowTx_def new_workflow_def stop_initiators_def V1MeterTelemetry_Empty_def
  v1MeterFact_def pg_sample_tx_def

lemma pg_sample_started_ids: "ob_id ` set (db_facts pg_sample_started) = {''b1'', ''b2''}"
  using arg_cong [OF pg_sample_started_eval(4), of set] by simp

lemma pg_sample_started_types:
  "(\<lambda>r. fc_FactType (ob_content r)) ` set (db_facts pg_sample_started) = {''transaction.started'', ''command.updated''}"
  using arg_cong [OF pg_sample_started_facts, of "\<lambda>xs. snd ` set xs"] by (simp add: image_image)

lemma pg_sample_started_unsequenced: "sequence_conflict ''transaction.meter'' a n (db_facts pg_sample_started) = False"
  using sequence_conflict_types [of "''transaction.meter''" "db_facts pg_sample_started" a n] by (simp add: pg_sample_started_types)

lemma pg_sample_metered_eval:
  "db_transactions pg_sample_metered = [pg_sample_tx\<lparr>tx_LatestMeterWh := Some 900, tx_MeterObservedAt := Some 20000,
     tx_MeterSequence := 1, tx_StopState := ''PERSISTED'', tx_RequestedStopInitiator := ''ENERGY_LIMIT'',
     tx_RequestedStopReason := ''energy_limit_reached''\<rparr>]"
  "db_completion_keys pg_sample_metered = []"
  "map workflow_key (db_workflows pg_sample_metered) = [''b0'']"
  using pg_sample_started_eval pg_sample_started_ids pg_sample_started_unsequenced
  unfolding pg_sample_metered_def
  by (simp_all add: pg_session_defs pg_telemetry_defs)

lemma pg_sample_metered_ids: "map ob_id (db_facts pg_sample_metered) = [''b1'', ''b2'', ''c0'']"
  "db_workflows pg_sample_metered = [\<lparr>wr_Workflow = new_workflow 9000 ''b0'' ''ENERGY_LIMIT'' ''energy_limit_reached'', wr_ClaimedUntil = None\<rparr>]"
  "db_commands pg_sample_metered = db_commands pg_sample_started"
  using pg_sample_started_eval pg_sample_started_ids pg_sample_started_unsequenced
  unfolding pg_sample_metered_def
  by (simp_all add: pg_session_defs pg_telemetry_defs)

lemma pg_sample_started_commands:
  "\<exists>c. db_commands pg_sample_started = [\<lparr>cr_Command = c, cr_ClaimedUntil = None, cr_StopWorkflowTransactionID = ''''\<rparr>]
     \<and> cmd_Kind c = ''START''"
  unfolding pg_sample_started_def pg_sample_commanded_eval by (simp add: pg_session_defs sequence_conflict_def)

lemma pg_sample_metered_fact_ids: "ob_id ` set (db_facts pg_sample_metered) = {''b1'', ''b2'', ''c0''}"
  using arg_cong [OF pg_sample_metered_ids(1), of set] by simp



lemma no_faults_run: "(\<And>e. fst (operation db) = Inl e \<Longrightarrow> \<not> isRetryableV1StopLifecycleTransactionError e) \<Longrightarrow>
   withV1StopLifecycleTransaction no_faults operation db = pg_tx operation db"
  unfolding withV1StopLifecycleTransaction_def
  by (rule retry_run) (simp_all add: no_faults_def v1StopLifecycleTransactionAttempts_def)

lemmas pg_complete_defs = complete_tx_def lockV1StopLifecycleRows_def completion_inadmissible_def
  classifyV1MeterEvidence_def v1MeterQuantizationToleranceWh_def complete_writes_def pg_complete_row_def
  getV1CompletionCommandTx_def v1CompletedFact_def workflow_update_def

lemma pg_sample_stopped_eval:
  "\<exists>t. complete_tx (sample_call CHR ''d'') ''b0'' 899 ''Local'' 30000 31000 pg_sample_metered = (Inr t, pg_sample_stopped)
     \<and> db_transactions pg_sample_stopped = [t] \<and> tx_CompletedAt t = Some 30000 \<and> tx_MeterStopWh t = Some 900
     \<and> tx_RawMeterStopWh t = Some 899 \<and> tx_HALTransactionID t = ''b0'' \<and> tx_OCPPStopReason t = ''Local''
     \<and> tx_ConsumedWh t = Some 400"
proof -
  let ?run = "complete_tx (sample_call CHR ''d'') ''b0'' 899 ''Local'' 30000 31000 pg_sample_metered"
  obtain c where c: "db_commands pg_sample_started = [\<lparr>cr_Command = c, cr_ClaimedUntil = None, cr_StopWorkflowTransactionID = ''''\<rparr>]"
    "cmd_Kind c = ''START''" using pg_sample_started_commands by blast
  have r: "\<exists>t. fst ?run = Inr t \<and> db_transactions (snd ?run) = [t] \<and> tx_CompletedAt t = Some 30000 \<and> tx_MeterStopWh t = Some 900
     \<and> tx_RawMeterStopWh t = Some 899 \<and> tx_HALTransactionID t = ''b0'' \<and> tx_OCPPStopReason t = ''Local''
     \<and> tx_ConsumedWh t = Some 400"
    by (simp add: pg_sample_metered_eval(1,2) pg_sample_metered_ids(2,3) pg_sample_metered_fact_ids c pg_session_defs pg_complete_defs pg_sample_tx_def sequence_conflict_def new_workflow_def stop_command_live_def)
  then have "pg_sample_stopped = snd (pg_tx (complete_tx (sample_call CHR ''d'') ''b0'' 899 ''Local'' 30000 31000) pg_sample_metered)"
    unfolding pg_sample_stopped_def pg_CompleteV1Transaction_def by (subst no_faults_run) auto
  then have "?run = (fst ?run, pg_sample_stopped)" using r by (cases ?run) (auto simp: pg_tx_def)
  with r show ?thesis by (metis snd_conv)
qed

subsection \<open>What holds in every reachable database\<close>

lemma Get_Inr:
  assumes "pg_GetV1Transaction i db = Inr t"
  obtains row where "row \<in> set (db_transactions db)" and "tx_HALTransactionID row = i" and "t = load_transaction row"
  using assms unfolding pg_GetV1Transaction_def by (rule getV1TransactionByID_Inr)

lemma pg_sample_get:
  "\<exists>t. pg_GetV1Transaction ''b0'' pg_sample_stopped = Inr t \<and> tx_CompletedAt t = Some 30000 \<and> tx_MeterStopWh t = Some 900"
  "\<exists>t. pg_GetV1Transaction ''b0'' pg_sample_metered = Inr t \<and> tx_CompletedAt t = None \<and> tx_EnergyLimitWh t = Some 300
     \<and> tx_ConsumedWh t = Some 400 \<and> tx_IDTag t = ''appv1_tag'' \<and> tx_LatestMeterWh t = Some 900"
  using pg_sample_stopped_eval
  by (auto simp: pg_GetV1Transaction_def getV1TransactionByID_def getV1TransactionBy_def load_transaction_def)
    (simp add: pg_sample_metered_eval(1) pg_session_defs pg_sample_tx_def)

text \<open>
  C19: every transaction of a reachable database is well formed when it is read: no register below
  the start register, consumption exactly the difference to the latest one, and a completed
  transaction carries its stop register, raw register and an adjustment of at most 1 Wh.
\<close>

theorem pg_transactions_wf:
  assumes "pg_step\<^sup>*\<^sup>* empty_db db" and "pg_GetV1Transaction i db = Inr t"
  shows "tx_wf t \<and> tx_HALTransactionID t = i"
proof -
  obtain row where row: "row \<in> set (db_transactions db)" "tx_HALTransactionID row = i" "t = load_transaction row"
    using assms(2) by (rule Get_Inr)
  then show ?thesis using reachable_life [OF assms(1)] by (auto simp: life_inv_def life_core_def tx_ok_def)
qed

theorem pg_transactions_wf_witness:
  "\<exists>t. pg_GetV1Transaction ''b0'' pg_sample_stopped = Inr t \<and> tx_wf t \<and> tx_MeterStopWh t = Some 900"
  using pg_sample_get(1) pg_transactions_wf [OF pg_sample_reachable(4)] by blast

text \<open>
  C16: a credential is used once. Two transactions of a reachable database that were started with
  the same id tag are the same transaction, and the credential of that tag names it.
\<close>

theorem pg_credential_single_use:
  assumes "pg_step\<^sup>*\<^sup>* empty_db db" and "pg_GetV1Transaction i db = Inr t" and "pg_GetV1Transaction j db = Inr u"
    and "tx_IDTag t = tx_IDTag u"
  shows "i = j \<and> (\<exists>c. pg_GetV1Credential (tx_IDTag t) db = Inr c \<and> cred_HALTransactionID c = i)"
proof -
  obtain row1 where row1: "row1 \<in> set (db_transactions db)" "tx_HALTransactionID row1 = i" "t = load_transaction row1"
    using assms(2) by (rule Get_Inr)
  obtain row2 where row2: "row2 \<in> set (db_transactions db)" "tx_HALTransactionID row2 = j" "u = load_transaction row2"
    using assms(3) by (rule Get_Inr)
  have core: "life_core db" using reachable_life [OF assms(1)] by (simp add: life_inv_def)
  have "tx_ok db row1" "tx_ok db row2" using core row1(1) row2(1) by (auto simp: life_core_def)
  then obtain c d where c: "c \<in> set (db_credentials db)" "cred_IDTag c = tx_IDTag t" "cred_HALTransactionID c = i"
    and d: "d \<in> set (db_credentials db)" "cred_IDTag d = tx_IDTag t" "cred_HALTransactionID d = j"
    using row1 row2 assms(4) by (auto simp: tx_ok_def)
  have "distinct (map cred_IDTag (db_credentials db))" using core by (simp add: life_core_def keys_inv_def)
  from sql_row_unique [OF this c(1)] sql_row_unique [OF this d(1)] have "sql_row cred_IDTag (tx_IDTag t) (db_credentials db) = Some c" "c = d"
    using c d by auto
  with c d show ?thesis by (auto simp: pg_GetV1Credential_def)
qed

theorem pg_credential_single_use_witness:
  "\<exists>c. pg_GetV1Credential ''appv1_tag'' pg_sample_metered = Inr c \<and> cred_HALTransactionID c = ''b0''"
proof -
  obtain t where "pg_GetV1Transaction ''b0'' pg_sample_metered = Inr t" "tx_IDTag t = ''appv1_tag''" using pg_sample_get(2) by blast
  with pg_credential_single_use [OF pg_sample_reachable(3), of "''b0''" t "''b0''" t] show ?thesis by simp
qed

text \<open>
  C15: the outbox of a reachable database holds exactly one completion fact for a completed
  transaction and none for an open one.
\<close>

theorem pg_completion_fact_exactly_once:
  assumes "pg_step\<^sup>*\<^sup>* empty_db db" and "pg_GetV1Transaction i db = Inr t"
  shows "length (filter (is_completion i) (db_facts db)) = (if tx_CompletedAt t = None then 0 else 1)"
proof -
  obtain row where row: "row \<in> set (db_transactions db)" "tx_HALTransactionID row = i" "t = load_transaction row"
    using assms(2) by (rule Get_Inr)
  have inv: "life_core db" "fact_inv db" using reachable_life [OF assms(1)] by (simp_all add: life_inv_def)
  then have "i \<in> completion_keys db \<longleftrightarrow> tx_CompletedAt t \<noteq> None"
    using row by (auto simp: life_core_def tx_ok_def)
  moreover have "sql_count (is_completion i) (db_facts db) = 1" if "i \<in> completion_keys db"
    using inv(1) that unfolding life_core_def by blast
  moreover have "sql_count (is_completion i) (db_facts db) = 0" if "i \<notin> completion_keys db"
    using inv(2) that unfolding fact_inv_def by blast
  ultimately show ?thesis by (auto simp: sql_count_def)
qed

theorem pg_completion_fact_exactly_once_witness:
  "length (filter (is_completion ''b0'') (db_facts pg_sample_stopped)) = 1
   \<and> length (filter (is_completion ''b0'') (db_facts pg_sample_metered)) = 0"
  using pg_sample_get pg_completion_fact_exactly_once [OF pg_sample_reachable(4)]
    pg_completion_fact_exactly_once [OF pg_sample_reachable(3)] by fastforce

text \<open>
  C17: a limit is never reached without a durable stop. In a reachable database an open transaction
  whose recorded consumption is at or above its energy limit has a stop workflow.
\<close>

theorem pg_energy_limit_has_stop:
  assumes "pg_step\<^sup>*\<^sup>* empty_db db" and "pg_GetV1Transaction i db = Inr t" and "tx_CompletedAt t = None"
    and "tx_EnergyLimitWh t = Some limit" and "tx_ConsumedWh t = Some w" and "limit \<le> w"
  shows "\<exists>wf. pg_GetV1StopWorkflow i db = Inr wf"
proof -
  obtain row where row: "row \<in> set (db_transactions db)" "tx_HALTransactionID row = i" "t = load_transaction row"
    using assms(2) by (rule Get_Inr)
  have "energy_limit_reached row"
    using assms(4-6) row(3) by (auto simp: energy_limit_reached_def load_transaction_def split: option.splits if_splits)
  then have "i \<in> workflow_key ` set (db_workflows db)"
    using reachable_life [OF assms(1)] row assms(3) by (auto simp: life_inv_def limit_inv_def)
  then obtain r where "sql_row workflow_key i (db_workflows db) = Some r"
    by (cases "sql_row workflow_key i (db_workflows db)") (auto simp: sql_row_None)
  then show ?thesis by (simp add: pg_GetV1StopWorkflow_def)
qed

theorem pg_energy_limit_has_stop_witness: "\<exists>wf. pg_GetV1StopWorkflow ''b0'' pg_sample_metered = Inr wf"
  using pg_sample_get(2) pg_energy_limit_has_stop [OF pg_sample_reachable(3), where limit = 300 and w = 400] by auto

text \<open>
  C18: over any continuation a transaction is never lost, its identity, start evidence and deadline
  never change, its meter and state-of-charge sequences never go back, its first state of charge is
  kept, and once completed it never changes.
\<close>

theorem pg_transactions_monotone:
  assumes "pg_step\<^sup>*\<^sup>* empty_db db" and "pg_step\<^sup>*\<^sup>* db db'" and "pg_GetV1Transaction i db = Inr t"
  shows "\<exists>t'. pg_GetV1Transaction i db' = Inr t' \<and> tx_advances t t'"
proof -
  obtain row where row: "row \<in> set (db_transactions db)" "tx_HALTransactionID row = i" "t = load_transaction row"
    using assms(3) by (rule Get_Inr)
  have inv: "life_core db'" and "tx_progress db db'"
    using reachable_life [OF assms(1)] pg_steps_life [OF assms(2)] by (auto simp: life_kept_def life_inv_def)
  then obtain row' where row': "row' \<in> set (db_transactions db')" "tx_advances t (load_transaction row')"
    using row by (auto simp: tx_progress_def)
  then have "tx_HALTransactionID row' = i" using row by (simp add: tx_advances_def)
  then show ?thesis
    using getV1TransactionByID_row [OF inv row'(1)] row'(2) by (auto simp: pg_GetV1Transaction_def)
qed

theorem pg_transactions_monotone_witness:
  "\<exists>t t'. pg_GetV1Transaction ''b0'' pg_sample_metered = Inr t \<and> tx_CompletedAt t = None
     \<and> pg_GetV1Transaction ''b0'' pg_sample_stopped = Inr t' \<and> tx_CompletedAt t' = Some 30000 \<and> tx_advances t t'"
  using pg_sample_get pg_transactions_monotone [OF pg_sample_reachable(3,5)] by (metis sum.inject(2))

text \<open>
  C20: facts are durable and immutable. Whatever the store does after a fact was recorded, the fact
  stays in the outbox with its identifier, type, payload, digest and occurrence time, its retry
  counter never goes down, and once delivered its row never changes again.
\<close>

theorem pg_facts_durable:
  assumes "pg_step\<^sup>*\<^sup>* empty_db db" and "pg_step\<^sup>*\<^sup>* db db'" and "sql_row ob_id i (db_facts db) = Some r"
  shows "\<exists>r'. sql_row ob_id i (db_facts db') = Some r' \<and> ob_content r' = ob_content r \<and> ob_retries r \<le> ob_retries r'
    \<and> (ob_status r = ''DELIVERED'' \<longrightarrow> r' = r)"
proof -
  have "outbox_kept (db_facts db) (db_facts db')"
    using reachable_life [OF assms(1)] pg_steps_life [OF assms(2)] by (simp add: life_kept_def)
  with assms(3) obtain r' where "sql_row ob_id i (db_facts db') = Some r'" "outbox_row_kept r r'"
    unfolding outbox_kept_def by blast
  then show ?thesis by (auto simp: outbox_row_kept_def)
qed

theorem pg_facts_durable_witness:
  "\<exists>r r'. sql_row ob_id ''c0'' (db_facts pg_sample_metered) = Some r
     \<and> sql_row ob_id ''c0'' (db_facts pg_sample_stopped) = Some r' \<and> ob_content r' = ob_content r"
proof -
  have "''c0'' \<in> ob_id ` set (db_facts pg_sample_metered)" by (simp add: pg_sample_metered_fact_ids)
  then obtain r where "sql_row ob_id ''c0'' (db_facts pg_sample_metered) = Some r"
    by (cases "sql_row ob_id ''c0'' (db_facts pg_sample_metered)") (auto simp: sql_row_None)
  with pg_facts_durable [OF pg_sample_reachable(3,5)] show ?thesis by blast
qed

subsection \<open>Completion\<close>

lemma complete_tx_Inr:
  assumes "complete_tx E i raw reason c o' db = (Inr t, db')" and "life_inv db" and "in_int64 raw"
    and "pg_GetV1Transaction i db = Inr t0" and "tx_CompletedAt t0 = None"
  shows "pg_GetV1Transaction i db' = Inr t" and "tx_CompletedAt t = Some (pg_ts c)"
    and "tx_RawMeterStopWh t = Some raw" and "tx_OCPPStopReason t = reason"
proof -
  obtain row where row: "row \<in> set (db_transactions db)" "tx_HALTransactionID row = i" "t0 = load_transaction row"
    using assms(4) by (rule Get_Inr)
  have core: "life_core db" using assms(2) by (simp add: life_inv_def)
  have get: "getV1TransactionByID i db = Inr t0" using assms(4) by (simp add: pg_GetV1Transaction_def)
  then obtain w where lock: "lockV1StopLifecycleRows i db = Inr (t0, w)" by (simp add: lockV1StopLifecycleRows_def)
  obtain e where e: "classifyV1MeterEvidence (tx_MeterStartWh t0) (tx_LatestMeterWh t0) raw = Inr e"
    using assms(1,5) lock by (auto simp: complete_tx_def split: sum.splits if_splits)
  let ?row' = "pg_complete_row e raw reason c o' t0"
  let ?db1 = "complete_writes (env_now E) i c ?row' db"
  have id: "tx_HALTransactionID ?row' = i" using row by (simp add: pg_complete_row_def Let_def)
  have "distinct (map tx_HALTransactionID (db_transactions db))" using core by (simp add: life_core_def keys_inv_def)
  from sql_row_unique [OF this row(1)] row(2)
  have "sql_row tx_HALTransactionID i (sql_update (\<lambda>r. tx_HALTransactionID r = i) (\<lambda>_. ?row') (db_transactions db)) = Some ?row'"
    using id by (subst sql_row_update) simp_all
  then have get1: "getV1TransactionByID i ?db1 = Inr (load_transaction ?row')"
    by (simp add: getV1TransactionByID_def getV1TransactionBy_def complete_writes_def sql_row_def)

  obtain p u where ins: "insertV1FactTx E 0 ''transaction.completed'' i None o' p ?db1 = (Inr u, db')"
    and t: "t = load_transaction ?row'"
    using assms(1,5) lock e get1
    by (auto simp: complete_tx_def Let_def tx_bind_Inr split: sum.splits option.splits if_splits)
  have "db_transactions db' = db_transactions ?db1" using insertV1FactTx_frame [OF ins] by auto
  then show "pg_GetV1Transaction i db' = Inr t"
    using get1 t by (simp add: pg_GetV1Transaction_def getV1TransactionByID_def getV1TransactionBy_def)
  show "tx_CompletedAt t = Some (pg_ts c)" "tx_RawMeterStopWh t = Some raw" "tx_OCPPStopReason t = reason"
    by (simp_all add: t pg_complete_row_def load_transaction_def Let_def)
qed

text \<open>
  A replayed StopTransaction. After a transaction completed, the same evidence returns the
  stored transaction and changes nothing only when its completion time is a whole number of
  microseconds; otherwise the stored time has lost the nanoseconds, the comparison fails, and
  the replay is refused as invalid evidence although nothing contradicts it.
\<close>

theorem pg_complete_replay:
  assumes "pg_step\<^sup>*\<^sup>* empty_db db" and "pg_GetV1Transaction i db = Inr t0" and "tx_CompletedAt t0 = None"
    and "in_int64 raw" and "pg_CompleteV1Transaction F E i raw reason c o' db = (Inr t, db')"
  shows "pg_CompleteV1Transaction no_faults E' i raw reason c o'' db' =
    (if pg_ts c = c then (Inr t, db') else (Inl ErrV1InvalidEvidence, db'))"
proof -
  have "complete_tx E i raw reason c o' db = (Inr t, db')"
    using assms(5) unfolding pg_CompleteV1Transaction_def by (elim with_all_or_nothing) auto
  note done' = complete_tx_Inr [OF this reachable_life [OF assms(1)] assms(4,2,3)]
  have run: "complete_tx E' i raw reason c o'' db' = (if pg_ts c = c then (Inr t, db') else (Inl ErrV1InvalidEvidence, db'))"
    using done' by (simp add: complete_tx_def lockV1StopLifecycleRows_def pg_GetV1Transaction_def completion_replay_matches_def)
  show ?thesis
    unfolding pg_CompleteV1Transaction_def
    by (subst no_faults_run) (auto simp: run pg_tx_def isRetryableV1StopLifecycleTransactionError_def split: if_splits)
qed

lemma pg_sample_complete: "\<exists>t. pg_CompleteV1Transaction no_faults (sample_call CHR ''d'') ''b0'' 899 ''Local'' 30000 31000 pg_sample_metered
   = (Inr t, pg_sample_stopped)"
proof -
  obtain t where "complete_tx (sample_call CHR ''d'') ''b0'' 899 ''Local'' 30000 31000 pg_sample_metered = (Inr t, pg_sample_stopped)"
    using pg_sample_stopped_eval by blast
  then have "pg_CompleteV1Transaction no_faults (sample_call CHR ''d'') ''b0'' 899 ''Local'' 30000 31000 pg_sample_metered
     = (Inr t, pg_sample_stopped)"
    unfolding pg_CompleteV1Transaction_def by (subst no_faults_run) (simp_all add: pg_tx_def)
  then show ?thesis by blast
qed

theorem pg_complete_replay_witness:
  "\<exists>t. pg_CompleteV1Transaction no_faults (sample_call CHR ''e'') ''b0'' 899 ''Local'' 30000 99000 pg_sample_stopped = (Inr t, pg_sample_stopped)"
proof -
  obtain t0 where t0: "pg_GetV1Transaction ''b0'' pg_sample_metered = Inr t0" "tx_CompletedAt t0 = None" using pg_sample_get(2) by blast
  obtain t where t: "pg_CompleteV1Transaction no_faults (sample_call CHR ''d'') ''b0'' 899 ''Local'' 30000 31000 pg_sample_metered
     = (Inr t, pg_sample_stopped)" using pg_sample_complete by blast
  have "in_int64 899" by (simp add: in_int64_def)
  from pg_complete_replay [OF pg_sample_reachable(3) t0 this t] show ?thesis by (auto simp: pg_ts_def truncate_us_def)
qed

subsection \<open>Meter readings one below the latest\<close>

text \<open>
  A reading one Wh below the latest one, which the classification calls a quantization
  artefact, is not only counted: the update replaces the latest register by the lower reading and
  advances the sequence, so a charger that keeps reporting one less walks the register down.
\<close>

theorem pg_quantized_reading_lowers_register:
  assumes "pg_step\<^sup>*\<^sup>* empty_db db" and "pg_GetV1Transaction i db = Inr t0" and "tx_CompletedAt t0 = None"
    and "tx_LatestMeterWh t0 = Some latest" and "tx_MeterStartWh t0 < latest"
    and "pg_UpdateV1Meter E i (tx_OCPPTransactionID t0) (latest - 1) observedAt db = (Inr t, db')"
  shows "tx_LatestMeterWh t = Some (latest - 1) \<and> tx_MeterSequence t = tx_MeterSequence t0 + 1
    \<and> tx_MeterQuantizationAnomalyCount t = tx_MeterQuantizationAnomalyCount t0 + 1"
proof -
  obtain row where row: "row \<in> set (db_transactions db)" "tx_HALTransactionID row = i" "t0 = load_transaction row"
    using assms(2) by (rule Get_Inr)
  have core: "life_core db" using reachable_life [OF assms(1)] by (simp add: life_inv_def)
  have "tx_CompletedAt row = None" "tx_LatestMeterWh row = Some latest" "tx_MeterStartWh row < latest"
    using assms(3-5) row(3) by simp_all
  moreover have one: "wrap64 1 = 1" by (simp add: in_int64_def)
  ultimately have e: "pg_apply_energy \<lparr>tel_EnergyWh = Some (latest - 1), tel_EnergyObservedAt = Some observedAt,
      tel_SoCPercent = None, tel_SoCObservedAt = None\<rparr> row = (True, pg_accept_energy (latest - 1) observedAt
        (row\<lparr>tx_MeterQuantizationAnomalyCount := tx_MeterQuantizationAnomalyCount row + 1\<rparr>))"
    by (simp add: pg_apply_energy_def classifyV1MeterEvidence_def v1MeterQuantizationToleranceWh_def Let_def)
  let ?row' = "pg_accept_energy (latest - 1) observedAt (row\<lparr>tx_MeterQuantizationAnomalyCount := tx_MeterQuantizationAnomalyCount row + 1\<rparr>)"
  have f: "find (\<lambda>r. tx_ChargerOCPPIdentity r = tx_ChargerOCPPIdentity row \<and> tx_OCPPTransactionID r = tx_OCPPTransactionID row)
      (db_transactions db) = Some row"
  proof -
    have d: "distinct (map tx_OCPPTransactionID (db_transactions db))" using core by (simp add: life_core_def keys_inv_def)
    obtain r where r: "find (\<lambda>r. tx_ChargerOCPPIdentity r = tx_ChargerOCPPIdentity row \<and> tx_OCPPTransactionID r = tx_OCPPTransactionID row)
      (db_transactions db) = Some r" using row(1)
      by (cases "find (\<lambda>r. tx_ChargerOCPPIdentity r = tx_ChargerOCPPIdentity row \<and> tx_OCPPTransactionID r = tx_OCPPTransactionID row)
      (db_transactions db)") (auto simp: find_None_iff')
    then have "r = row" using d row(1) by (auto dest!: find_SomeD simp: distinct_map dest: inj_onD)
    with r show ?thesis by simp
  qed
  have "distinct (map tx_HALTransactionID (db_transactions db))" using core by (simp add: life_core_def keys_inv_def)
  from sql_row_unique [OF this row(1)] row(2)
  have "sql_row tx_HALTransactionID i (sql_update (\<lambda>r. tx_HALTransactionID r = i) (\<lambda>_. ?row') (db_transactions db)) = Some ?row'"
    by (subst sql_row_update) (simp_all add: pg_accept_energy_def Let_def)
  then have get1: "getV1TransactionByID i (db\<lparr>db_transactions := sql_update (\<lambda>r. tx_HALTransactionID r = i) (\<lambda>_. ?row') (db_transactions db)\<rparr>)
      = Inr (load_transaction ?row')"
    by (simp add: getV1TransactionByID_def getV1TransactionBy_def sql_row_def)
  have "t = load_transaction ?row'"
    using assms(2,6) row(2,3) e f get1
    by (auto simp: pg_UpdateV1Meter_def pg_UpdateV1TelemetryForOCPP_def V1MeterTelemetry_Empty_def tx_bind_Inr pg_tx_Inr
        telemetry_tx_def pg_apply_soc_def Let_def split: sum.splits)
  then show ?thesis by (simp add: row(3) pg_accept_energy_def Let_def load_transaction_def)
qed

lemma pg_sample_metered_facts:
  "\<exists>r. db_facts pg_sample_metered = db_facts pg_sample_started @ [r] \<and> fc_Sequence (ob_content r) = Some 1"
  using pg_sample_started_eval pg_sample_started_ids pg_sample_started_unsequenced
  unfolding pg_sample_metered_def
  by (simp add: pg_session_defs pg_telemetry_defs)

lemma pg_sample_metered_unsequenced: "sequence_conflict ''transaction.meter'' a (Some 2) (db_facts pg_sample_metered) = False"
  using pg_sample_metered_facts pg_sample_started_unsequenced [of a "Some 2"]
  by (auto simp: sequence_conflict_def)

theorem pg_quantized_reading_lowers_register_witness:
  "\<exists>t db'. pg_UpdateV1Meter (sample_call CHR ''d'') ''b0'' 7 (900 - 1) 21000 pg_sample_metered = (Inr t, db')
     \<and> tx_LatestMeterWh t = Some 899 \<and> tx_MeterSequence t = 2"
proof -
  let ?run = "pg_UpdateV1Meter (sample_call CHR ''d'') ''b0'' 7 (900 - 1) 21000 pg_sample_metered"
  obtain t0 where t0: "pg_GetV1Transaction ''b0'' pg_sample_metered = Inr t0" "tx_CompletedAt t0 = None"
      "tx_LatestMeterWh t0 = Some 900" "tx_MeterStartWh t0 = 500" "tx_OCPPTransactionID t0 = 7" "tx_MeterSequence t0 = 1"
    by (simp add: pg_sample_metered_eval(1) pg_session_defs pg_sample_tx_def)
  have "\<exists>t. fst ?run = Inr t"
    by (simp add: pg_sample_metered_eval(1,2) pg_sample_metered_ids(2,3) pg_sample_metered_fact_ids pg_sample_metered_unsequenced
        pg_session_defs pg_telemetry_defs classifyV1MeterEvidence_def v1MeterQuantizationToleranceWh_def)
  then obtain t db' where run: "?run = (Inr t, db')" by (cases ?run) auto
  from pg_quantized_reading_lowers_register [OF pg_sample_reachable(3) t0(1-3)] run t0 show ?thesis by auto
qed

subsection \<open>Materialization\<close>

lemma materialize_writes_tables:
  assumes "materialize_writes E halID c command input db = (Inr u, db')"
  shows "db_transactions db' = db_transactions db @ [start_row (materialized_transaction halID c command input)]"
    and "db_credentials db' = sql_update (\<lambda>c. cred_IDTag c = mat_IDTag input)
      (\<lambda>c. c\<lparr>cred_ConsumedAt := Some (pg_ts (mat_ObservedAt input)), cred_HALTransactionID := halID\<rparr>) (db_credentials db)"
    and "halID \<notin> tx_ids db"
proof -
  obtain v db1 where ins: "insert_transaction (start_row (materialized_transaction halID c command input)) db = (Inr v, db1)"
    using assms by (auto simp: materialize_writes_def Let_def split: sum.splits prod.splits)
  note row = insert_transaction_Inr [OF ins]
  obtain w db2 where con: "consume_credential (mat_IDTag input) (mat_ObservedAt input) halID db1 = (Inr w, db2)"
    using assms ins by (auto simp: materialize_writes_def Let_def tx_bind_Inr)
  then obtain cs db4 p1 p2 where facts: "insertV1FactTx E 1 ''transaction.started'' halID None (mat_ObservedAt input) p1 (db2\<lparr>db_commands := cs\<rparr>) = (Inr (), db4)"
    "insertV1FactTx E 2 ''command.updated'' (cmd_HALCommandID command) None (mat_ObservedAt input) p2 db4 = (Inr u, db')"
    using assms ins by (auto simp: materialize_writes_def Let_def tx_bind_Inr)
  have "db_transactions db' = db_transactions db2" "db_credentials db' = db_credentials db2"
    using insertV1FactTx_frame [OF facts(1)] insertV1FactTx_frame [OF facts(2)] by auto
  then show "db_transactions db' = db_transactions db @ [start_row (materialized_transaction halID c command input)]"
    and "db_credentials db' = sql_update (\<lambda>c. cred_IDTag c = mat_IDTag input)
      (\<lambda>c. c\<lparr>cred_ConsumedAt := Some (pg_ts (mat_ObservedAt input)), cred_HALTransactionID := halID\<rparr>) (db_credentials db)"
    using con row(1) by (auto simp: consume_credential_def split: if_splits)
  show "halID \<notin> tx_ids db" using row(2) by simp
qed

text \<open>
  A charger that repeats StartTransaction gets the same transaction. After a start was
  materialized, the same evidence returns the stored transaction as existing and changes nothing,
  even when the credential has expired in between; another meter start is refused.
\<close>

theorem pg_materialize_replay:
  assumes "env_ok E" and "pg_MaterializeV1Start E input db = (Inr (t, False), db')"
    and "\<not> invalid_start_evidence input'" and "mat_IDTag input' = mat_IDTag input"
    and "mat_ChargerOCPPIdentity input' = mat_ChargerOCPPIdentity input"
    and "mat_OCPPConnectorNumber input' = mat_OCPPConnectorNumber input"
  shows "pg_MaterializeV1Start E' input' db' =
    (if mat_MeterStartWh input' = mat_MeterStartWh input then (Inr (t, True), db') else (Inl ErrV1CredentialRejected, db'))"
proof -
  have ok: "\<not> invalid_start_evidence input" using assms(2) by (auto simp: pg_MaterializeV1Start_def)
  obtain x db1 where x: "materialize_tx E input db = (Inr x, db1)" "(case x of Inl t \<Rightarrow> (Inr (t, True), db1)
      | Inr halID \<Rightarrow> (case pg_GetV1Transaction halID db1 of Inl err \<Rightarrow> (Inl err, db1) | Inr t \<Rightarrow> (Inr (t, False), db1)))
      = (Inr (t, False), db')"
    using assms(2) ok by (auto simp: pg_MaterializeV1Start_def tx_bind_Inr pg_tx_Inr)
  then obtain halID where tx: "materialize_tx E input db = (Inr (Inr halID), db')" and get: "pg_GetV1Transaction halID db' = Inr t"
    by (cases x) (auto split: sum.splits)
  then obtain c command u where c: "sql_row cred_IDTag (mat_IDTag input) (db_credentials db) = Some c"
      "cred_ChargerOCPPIdentity c = mat_ChargerOCPPIdentity input" "cred_OCPPConnectorNumber c = mat_OCPPConnectorNumber input"
      "env_uuid E 0 = Some halID"
    and w: "materialize_writes E halID c command input db = (Inr u, db')"
    by (simp add: materialize_tx_def tx_bind_Inr NewSecureUUIDString_def split: option.splits if_splits sum.splits)
  let ?row = "start_row (materialized_transaction halID c command input)"
  note tab = materialize_writes_tables [OF w]
  have tag: "cred_IDTag c = mat_IDTag input" using sql_row_SomeD [OF c(1)] by simp
  have "find (\<lambda>r. tx_HALTransactionID r = halID) (db_transactions db @ [?row]) = Some ?row"
    using sql_row_append [of tx_HALTransactionID halID "db_transactions db" ?row] tab(3)
      sql_row_None [of tx_HALTransactionID halID "db_transactions db"] by (simp add: sql_row_def)
  then have t: "t = load_transaction ?row"
    using get by (simp add: pg_GetV1Transaction_def getV1TransactionByID_def getV1TransactionBy_def tab(1))
  have cred: "sql_row cred_IDTag (mat_IDTag input) (db_credentials db') =
      Some (c\<lparr>cred_ConsumedAt := Some (pg_ts (mat_ObservedAt input)), cred_HALTransactionID := halID\<rparr>)"
    using c(1) tag by (simp add: tab(2) sql_row_update)
  have "halID \<noteq> ''''" using assms(1) c(4) by (auto simp: env_ok_def)
  moreover have "tx_ChargerOCPPIdentity t = mat_ChargerOCPPIdentity input" "tx_OCPPConnectorNumber t = mat_OCPPConnectorNumber input"
      "tx_IDTag t = mat_IDTag input" "tx_MeterStartWh t = mat_MeterStartWh input"
    using c(2,3) tag by (simp_all add: t start_row_def materialized_transaction_def new_transaction_def load_transaction_def)
  ultimately have "materialize_tx E' input' db' =
      (if mat_MeterStartWh input' = mat_MeterStartWh input then (Inr (Inl t), db') else (Inl ErrV1CredentialRejected, db'))"
    using cred get assms(4-6) by (simp add: materialize_tx_def pg_GetV1Transaction_def)
  then show ?thesis using assms(3) by (simp add: pg_MaterializeV1Start_def pg_tx_def)
qed

theorem pg_materialize_replay_witness:
  "\<exists>t. pg_MaterializeV1Start (sample_call CHR ''z'') (pg_sample_mat\<lparr>mat_ObservedAt := 500000\<rparr>) pg_sample_started
     = (Inr (t, True), pg_sample_started)"
proof -
  let ?run = "pg_MaterializeV1Start (sample_call CHR ''b'') pg_sample_mat pg_sample_commanded"
  have "\<exists>t. fst ?run = Inr (t, False)"
    unfolding pg_sample_commanded_eval by (simp add: pg_session_defs sequence_conflict_def)
  then obtain t where run: "?run = (Inr (t, False), pg_sample_started)"
    unfolding pg_sample_started_def by (metis prod.collapse)
  have "env_ok (sample_call CHR ''b'')" by (simp add: env_ok_def sample_call_def)
  from pg_materialize_replay [OF this run, of "pg_sample_mat\<lparr>mat_ObservedAt := 500000\<rparr>"] show ?thesis
    by (simp add: pg_sample_mat_def invalid_start_evidence_def plausibleV1ProtocolTime_def v1MaxProtocolClockSkew_def
        time_IsZero_def time_Sub_def wrap64_def)
qed

end
