(* ===== verification/Two_Phase.thy ===== *)
theory Two_Phase
  imports HAL_Prelude
begin

text \<open>
  The two-phase delivery protocol that RemoteStart commands and RemoteStop workflows share. A
  request handler claims a row (\<^verbatim>\<open>PERSISTED\<close> to \<^verbatim>\<open>PENDING_DELIVERY\<close>), marks it as attempted
  before it crosses the OCPP network boundary (\<^verbatim>\<open>DELIVERY_ATTEMPTED\<close>), sends, and marks the
  answer. A restart gives the claimed rows back and makes the attempted ones \<^verbatim>\<open>AMBIGUOUS\<close>.

  \<open>delivery_step\<close> interleaves any number of handlers, call by call, with each other, with every
  other write to the store and with restarts that kill all handlers. Its state is the store, the
  live handlers with their phases, and the log of what was sent. The locale \<open>two_phase\<close> states
  what the handlers rely on; the consequences are proved once for both kinds of rows.
\<close>

record ('e, 's) two_phase_store =
  tp_Claim :: "'e \<Rightarrow> string \<Rightarrow> 's \<Rightarrow> bool res \<times> 's"
  tp_Begin :: "'e \<Rightarrow> string \<Rightarrow> 's \<Rightarrow> unit res \<times> 's"
  tp_Mark :: "'e \<Rightarrow> string \<Rightarrow> string \<Rightarrow> 's \<Rightarrow> unit res \<times> 's"
  tp_Recover :: "'e \<Rightarrow> 's \<Rightarrow> 's"

datatype phase = Claimed | Begun | Answered

type_synonym 's delivery = "'s \<times> (string \<times> phase) multiset \<times> string list"

text \<open>
  \<open>skip\<close> is a handler that decides after \<open>begin\<close> not to send and only marks; \<open>other\<close> is
  every write that is not part of this delivery.
\<close>

inductive delivery_step :: "('e, 's) two_phase_store \<Rightarrow> ('s \<Rightarrow> 's \<Rightarrow> bool) \<Rightarrow> 's delivery \<Rightarrow> 's delivery \<Rightarrow> bool"
  for St :: "('e, 's) two_phase_store" and other :: "'s \<Rightarrow> 's \<Rightarrow> bool" where
  claim: "tp_Claim St e i s = (r, s') \<Longrightarrow>
    delivery_step St other (s, hs, log) (s', if r = Inr True then add_mset (i, Claimed) hs else hs, log)"
| begin_ok: "tp_Begin St e i s = (Inr (), s') \<Longrightarrow>
    delivery_step St other (s, add_mset (i, Claimed) hs, log) (s', add_mset (i, Begun) hs, log)"
| begin_error: "tp_Begin St e i s = (Inl err, s') \<Longrightarrow>
    delivery_step St other (s, add_mset (i, Claimed) hs, log) (s', hs, log)"
| send: "delivery_step St other (s, add_mset (i, Begun) hs, log) (s, add_mset (i, Answered) hs, log @ [i])"
| skip: "delivery_step St other (s, add_mset (i, Begun) hs, log) (s, add_mset (i, Answered) hs, log)"
| mark: "tp_Mark St e i status s = (r, s') \<Longrightarrow>
    delivery_step St other (s, add_mset (i, Answered) hs, log) (s', hs, log)"
| abandon: "delivery_step St other (s, add_mset (i, p) hs, log) (s, hs, log)"
| other: "other s s' \<Longrightarrow> delivery_step St other (s, hs, log) (s', hs, log)"
| restart: "delivery_step St other (s, hs, log) (tp_Recover St e s, {#}, log)"

text \<open>\<open>settled\<close>: the row is past the point from which it could still be claimed.\<close>

definition settled :: "string option \<Rightarrow> bool" where
  "settled st \<longleftrightarrow> st \<notin> {None, Some ''PERSISTED'', Some ''PENDING_DELIVERY''}"

definition recovered_state :: "string \<Rightarrow> string" where
  "recovered_state st = (if st = ''PENDING_DELIVERY'' then ''PERSISTED''
     else if st = ''DELIVERY_ATTEMPTED'' then ''AMBIGUOUS'' else st)"

text \<open>\<open>row_moves a b\<close>: what a write outside the delivery may do to a row.\<close>

definition row_moves :: "string option \<Rightarrow> string option \<Rightarrow> bool" where
  "row_moves a b \<longleftrightarrow> b = a \<or> (a = None \<and> b = Some ''PERSISTED'') \<or> settled b"

lemma row_moves_refl [simp]: "row_moves a a"
  by (simp add: row_moves_def)

lemma row_moves_trans: "row_moves a b \<Longrightarrow> row_moves b c \<Longrightarrow> row_moves a c"
  by (auto simp: row_moves_def settled_def)

text \<open>The sends that the handlers of a row may still make.\<close>

definition live_sends :: "string \<Rightarrow> (string \<times> phase) multiset \<Rightarrow> nat" where
  "live_sends i hs = count hs (i, Claimed) + count hs (i, Begun)"

text \<open>
  \<open>row_ok st c b n\<close> relates the state of a row to its claimed handlers \<open>c\<close>, its begun handlers
  \<open>b\<close> and its sends \<open>n\<close>.
\<close>

definition row_ok :: "string option \<Rightarrow> nat \<Rightarrow> nat \<Rightarrow> nat \<Rightarrow> bool" where
  "row_ok st c b n \<longleftrightarrow> c + b + n \<le> 1 \<and> (\<not> settled st \<longrightarrow> b + n = 0) \<and> (c > 0 \<longrightarrow> st \<notin> {None, Some ''PERSISTED''})"

lemma row_ok_claim: "row_ok (Some ''PERSISTED'') c b n \<Longrightarrow> row_ok (Some ''PENDING_DELIVERY'') (Suc c) b n"
  by (simp add: row_ok_def settled_def)

lemma row_ok_begin: "row_ok st (Suc c) b n \<Longrightarrow> settled st' \<Longrightarrow> row_ok st' c (Suc b) n"
  by (auto simp: row_ok_def settled_def)

lemma row_ok_claimed_settled: "row_ok st (Suc c) b n \<Longrightarrow> st \<noteq> Some ''PENDING_DELIVERY'' \<Longrightarrow> settled st"
  by (auto simp: row_ok_def settled_def)

lemma row_ok_send: "row_ok st c (Suc b) n \<Longrightarrow> row_ok st c b (Suc n)"
  by (simp add: row_ok_def)

lemma row_ok_drop: "row_ok st c b n \<Longrightarrow> c' \<le> c \<Longrightarrow> b' \<le> b \<Longrightarrow> row_ok st c' b' n"
  by (auto simp: row_ok_def)

lemma row_ok_moves: "row_ok st c b n \<Longrightarrow> row_moves st st' \<Longrightarrow> row_ok st' c b n"
  by (auto simp: row_ok_def row_moves_def settled_def)

lemma row_ok_recover: "row_ok st c b n \<Longrightarrow> row_ok (map_option recovered_state st) 0 0 n"
  by (cases st) (auto simp: row_ok_def settled_def recovered_state_def)

lemma settled_attempted [simp]: "settled (Some ''DELIVERY_ATTEMPTED'')"
  by (simp add: settled_def)

definition delivery_ok :: "('s \<Rightarrow> bool) \<Rightarrow> ('s \<Rightarrow> string \<Rightarrow> string option) \<Rightarrow> 's delivery \<Rightarrow> bool" where
  "delivery_ok invar state d \<longleftrightarrow> (case d of (s, hs, log) \<Rightarrow> invar s
     \<and> (\<forall>j. row_ok (state s j) (count hs (j, Claimed)) (count hs (j, Begun)) (count_list log j)))"

definition delivery_over :: "('s \<Rightarrow> bool) \<Rightarrow> ('s \<Rightarrow> string \<Rightarrow> string option) \<Rightarrow> string \<Rightarrow> 's delivery \<Rightarrow> bool" where
  "delivery_over invar state i d \<longleftrightarrow> (case d of (s, hs, log) \<Rightarrow> invar s \<and> settled (state s i) \<and> live_sends i hs = 0)"

locale two_phase =
  fixes St :: "('e, 's) two_phase_store"
    and other :: "'s \<Rightarrow> 's \<Rightarrow> bool"
    and state :: "'s \<Rightarrow> string \<Rightarrow> string option"
    and invar :: "'s \<Rightarrow> bool"
  assumes claim_state: "invar s \<Longrightarrow> tp_Claim St e i s = (r, s') \<Longrightarrow>
      state s' j = state s j \<and> r \<noteq> Inr True
      \<or> j \<noteq> i \<and> state s' j = state s j
      \<or> j = i \<and> state s i = Some ''PERSISTED'' \<and> state s' i = Some ''PENDING_DELIVERY''"
    and begin_state: "invar s \<Longrightarrow> tp_Begin St e i s = (u, s') \<Longrightarrow>
      state s' j = state s j \<and> (j = i \<and> u = Inr () \<longrightarrow> state s j \<noteq> Some ''PENDING_DELIVERY'')
      \<or> j = i \<and> state s i = Some ''PENDING_DELIVERY'' \<and> state s' i = Some ''DELIVERY_ATTEMPTED''"
    and mark_state: "invar s \<Longrightarrow> tp_Mark St e i status s = (u, s') \<Longrightarrow>
      state s' j = state s j \<or> j = i \<and> settled (state s' j)"
    and recover_state: "state (tp_Recover St e s) j = map_option recovered_state (state s j)"
    and other_state: "invar s \<Longrightarrow> other s s' \<Longrightarrow> row_moves (state s j) (state s' j)"
    and invar_claim: "invar s \<Longrightarrow> tp_Claim St e i s = (r, s') \<Longrightarrow> invar s'"
    and invar_begin: "invar s \<Longrightarrow> tp_Begin St e i s = (u, s') \<Longrightarrow> invar s'"
    and invar_mark: "invar s \<Longrightarrow> tp_Mark St e i status s = (u, s') \<Longrightarrow> invar s'"
    and invar_recover: "invar s \<Longrightarrow> invar (tp_Recover St e s)"
    and invar_other: "invar s \<Longrightarrow> other s s' \<Longrightarrow> invar s'"
begin

lemma delivery_okD:
  "delivery_ok invar state (s, hs, log) \<Longrightarrow> invar s"
  "delivery_ok invar state (s, hs, log) \<Longrightarrow> row_ok (state s j) (count hs (j, Claimed)) (count hs (j, Begun)) (count_list log j)"
  by (simp_all add: delivery_ok_def)

lemma delivery_okI:
  "invar s \<Longrightarrow> (\<And>j. row_ok (state s j) (count hs (j, Claimed)) (count hs (j, Begun)) (count_list log j)) \<Longrightarrow>
   delivery_ok invar state (s, hs, log)"
  by (simp add: delivery_ok_def)

lemma claim_moves: "invar s \<Longrightarrow> tp_Claim St e i s = (r, s') \<Longrightarrow> r \<noteq> Inr True \<or> j \<noteq> i \<Longrightarrow>
    row_ok (state s j) c b n \<Longrightarrow> row_ok (state s' j) c b n"
  using claim_state [of s e i r s' j] by (auto simp: row_ok_def settled_def)

lemma begin_moves: "invar s \<Longrightarrow> tp_Begin St e i s = (u, s') \<Longrightarrow> row_moves (state s j) (state s' j)"
  using begin_state [of s e i u s' j] by (auto simp: row_moves_def)

lemma step_ok:
  assumes "delivery_step St other d d'" and "delivery_ok invar state d"
  shows "delivery_ok invar state d'"
  using assms
proof (induction rule: delivery_step.induct)
  case (claim e i s r s' hs log)
  note okd = delivery_okD [OF claim.prems]
  show ?case
  proof (intro delivery_okI)
    show "invar s'" using claim.hyps okd(1) invar_claim by blast
    fix j
    have "row_ok (state s' i) (Suc (count hs (i, Claimed))) (count hs (i, Begun)) (count_list log i)" if "r = Inr True"
      using claim_state [OF okd(1) claim.hyps, of i] that okd(2) [of i] row_ok_claim by auto
    then show "row_ok (state s' j) (count (if r = Inr True then add_mset (i, Claimed) hs else hs) (j, Claimed))
        (count (if r = Inr True then add_mset (i, Claimed) hs else hs) (j, Begun)) (count_list log j)"
      using claim_moves [OF okd(1) claim.hyps, of j] okd(2) [of j] by (cases "r = Inr True \<and> j = i") auto
  qed
next
  case (begin_ok e i s s' hs log)
  note okd = delivery_okD [OF begin_ok.prems]
  show ?case
  proof (intro delivery_okI)
    show "invar s'" using begin_ok.hyps okd(1) invar_begin by blast
    fix j
    have i: "row_ok (state s i) (Suc (count hs (i, Claimed))) (count hs (i, Begun)) (count_list log i)" using okd(2) [of i] by simp
    then have "settled (state s' i)"
      using begin_state [OF okd(1) begin_ok.hyps, of i] row_ok_claimed_settled by auto
    then show "row_ok (state s' j) (count (add_mset (i, Begun) hs) (j, Claimed)) (count (add_mset (i, Begun) hs) (j, Begun)) (count_list log j)"
      using row_ok_begin [OF i] row_ok_moves [OF okd(2) begin_moves [OF okd(1) begin_ok.hyps], of j] by (cases "j = i") simp_all
  qed
next
  case (begin_error e i s err s' hs log)
  note okd = delivery_okD [OF begin_error.prems]
  show ?case
  proof (intro delivery_okI)
    show "invar s'" using begin_error.hyps okd(1) invar_begin by blast
    show "row_ok (state s' j) (count hs (j, Claimed)) (count hs (j, Begun)) (count_list log j)" for j
      by (rule row_ok_drop [OF row_ok_moves [OF okd(2) begin_moves [OF okd(1) begin_error.hyps]]]) simp_all
  qed
next
  case (send s i hs log)
  note okd = delivery_okD [OF send.prems]
  show ?case
  proof (intro delivery_okI okd(1))
    show "row_ok (state s j) (count (add_mset (i, Answered) hs) (j, Claimed)) (count (add_mset (i, Answered) hs) (j, Begun))
        (count_list (log @ [i]) j)" for j
      using okd(2) [of j] row_ok_send by (cases "j = i") simp_all
  qed
next
  case (skip s i hs log)
  note okd = delivery_okD [OF skip.prems]
  show ?case by (rule delivery_okI [OF okd(1)]) (rule row_ok_drop [OF okd(2)]; simp)
next
  case (mark e i status s r s' hs log)
  note okd = delivery_okD [OF mark.prems]
  show ?case
  proof (intro delivery_okI)
    show "invar s'" using mark.hyps okd(1) invar_mark by blast
    show "row_ok (state s' j) (count hs (j, Claimed)) (count hs (j, Begun)) (count_list log j)" for j
      using mark_state [OF okd(1) mark.hyps, of j] okd(2) [of j] row_ok_moves
      by (auto simp: row_moves_def)
  qed
next
  case (abandon s i p hs log)
  note okd = delivery_okD [OF abandon.prems]
  show ?case by (rule delivery_okI [OF okd(1)]) (rule row_ok_drop [OF okd(2)]; simp)
next
  case (other s s' hs log)
  note okd = delivery_okD [OF other.prems]
  show ?case
    by (rule delivery_okI [OF invar_other [OF okd(1) other.hyps]]) (rule row_ok_moves [OF okd(2) other_state [OF okd(1) other.hyps]])
next
  case (restart s hs log e)
  note okd = delivery_okD [OF restart.prems]
  show ?case
    by (rule delivery_okI [OF invar_recover [OF okd(1)]]) (simp add: recover_state row_ok_recover [OF okd(2)])
qed

lemma steps_ok: "(delivery_step St other)\<^sup>*\<^sup>* d d' \<Longrightarrow> delivery_ok invar state d \<Longrightarrow> delivery_ok invar state d'"
  by (induction rule: rtranclp_induct) (auto intro: step_ok)

lemma initial_ok: "invar s \<Longrightarrow> delivery_ok invar state (s, {#}, [])"
  by (simp add: delivery_ok_def row_ok_def)

text \<open>From a store without handlers nothing is ever sent twice.\<close>

lemma sent_at_most_once:
  assumes "invar s" and "(delivery_step St other)\<^sup>*\<^sup>* (s, {#}, []) (s', hs, log)"
  shows "count_list log i \<le> 1" and "count_list log i = 1 \<Longrightarrow> settled (state s' i)"
proof -
  have "delivery_ok invar state (s', hs, log)" using steps_ok [OF assms(2)] initial_ok [OF assms(1)] by simp
  then have "row_ok (state s' i) (count hs (i, Claimed)) (count hs (i, Begun)) (count_list log i)" by (simp add: delivery_ok_def)
  then show "count_list log i \<le> 1" and "count_list log i = 1 \<Longrightarrow> settled (state s' i)" by (auto simp: row_ok_def)
qed

text \<open>A settled row without a live handler is never sent again.\<close>

lemma over_step: "delivery_step St other d d' \<Longrightarrow> delivery_over invar state i d \<Longrightarrow> delivery_over invar state i d' \<and> count_list (snd (snd d')) i = count_list (snd (snd d)) i"
proof (induction rule: delivery_step.induct)
  case (claim e j s r s' hs log)
  then show ?case using claim_state [of s e j r s' i] invar_claim by (auto simp: delivery_over_def live_sends_def settled_def)
next
  case (begin_ok e j s s' hs log)
  then show ?case using begin_state [of s e j "Inr ()" s' i] invar_begin by (auto simp: delivery_over_def live_sends_def settled_def split: if_splits)
next
  case (begin_error e j s err s' hs log)
  then show ?case using begin_state [of s e j "Inl err" s' i] invar_begin by (auto simp: delivery_over_def live_sends_def settled_def split: if_splits)
next
  case (mark e j status s r s' hs log)
  then show ?case using mark_state [of s e j status r s' i] invar_mark by (auto simp: delivery_over_def live_sends_def split: if_splits)
next
  case (other s s' hs log)
  then show ?case using other_state [of s s' i] invar_other by (auto simp: delivery_over_def live_sends_def row_moves_def settled_def)
next
  case (restart s hs log e)
  then show ?case using recover_state [of e s i] invar_recover
    by (auto simp: delivery_over_def live_sends_def settled_def recovered_state_def)
qed (auto simp: delivery_over_def live_sends_def split: if_splits)

lemma over_final: "(delivery_step St other)\<^sup>*\<^sup>* d d' \<Longrightarrow> delivery_over invar state i d \<Longrightarrow> delivery_over invar state i d' \<and> count_list (snd (snd d')) i = count_list (snd (snd d)) i"
  by (induction rule: rtranclp_induct) (use over_step in force)+

text \<open>No step removes a row.\<close>

lemma step_present:
  "delivery_step St other d d' \<Longrightarrow> invar (fst d) \<Longrightarrow> state (fst d) i \<noteq> None \<Longrightarrow> invar (fst d') \<and> state (fst d') i \<noteq> None"
proof (induction rule: delivery_step.induct)
  case (claim e j s r s' hs wire)
  then show ?case using claim_state [of s e j r s' i] invar_claim by auto
next
  case (begin_ok e j s s' hs wire)
  then show ?case using begin_state [of s e j "Inr ()" s' i] invar_begin by auto
next
  case (begin_error e j s err s' hs wire)
  then show ?case using begin_state [of s e j "Inl err" s' i] invar_begin by auto
next
  case (mark e j status s r s' hs wire)
  then show ?case using mark_state [of s e j status r s' i] invar_mark by (auto simp: settled_def)
next
  case (other s s' hs wire)
  then show ?case using other_state [of s s' i] invar_other by (auto simp: row_moves_def settled_def)
qed (auto simp: recover_state invar_recover)

lemma steps_present:
  "(delivery_step St other)\<^sup>*\<^sup>* d d' \<Longrightarrow> invar (fst d) \<Longrightarrow> state (fst d) i \<noteq> None \<Longrightarrow> invar (fst d') \<and> state (fst d') i \<noteq> None"
  by (induction rule: rtranclp_induct) (use step_present in blast)+

lemma steps_invar: "(delivery_step St other)\<^sup>*\<^sup>* (s, hs, wire) (s', hs', wire') \<Longrightarrow> invar s \<Longrightarrow> invar s'"
proof (induction "(s', hs', wire')" arbitrary: s' hs' wire' rule: rtranclp_induct)
  case (step d)
  obtain s1 hs1 w1 where d: "d = (s1, hs1, w1)" by (cases d)
  have "invar s1" using step.hyps(3) [OF d step.prems] .
  with step.hyps(2) d show ?case
    by (auto elim!: delivery_step.cases intro: invar_claim invar_begin invar_mark invar_recover invar_other)
qed simp

end

end
