(* ===== verification/Remote_Rows.thy ===== *)
theory Remote_Rows
  imports PG_System Two_Phase
begin

text \<open>
  The delivery state of START commands and of stop workflows as every method of the PostgreSQL
  store changes it: the facts with which both deliveries interpret the two-phase protocol.
\<close>

definition start_state :: "PostgresStore \<Rightarrow> string \<Rightarrow> string option" where
  "start_state db i = (case sql_row command_key i (db_commands db) of
     None \<Rightarrow> None
   | Some r \<Rightarrow> if cmd_Kind (cr_Command r) = ''START'' then Some (cmd_State (cr_Command r)) else None)"

definition stop_state :: "PostgresStore \<Rightarrow> string \<Rightarrow> string option" where
  "stop_state db i = map_option (\<lambda>r. wf_State (wr_Workflow r)) (sql_row workflow_key i (db_workflows db))"

definition rows_move :: "PostgresStore \<Rightarrow> PostgresStore \<Rightarrow> bool" where
  "rows_move db db' \<longleftrightarrow> (\<forall>i. row_moves (start_state db i) (start_state db' i) \<and> row_moves (stop_state db i) (stop_state db' i))"

lemma rows_move_refl [simp]: "rows_move db db"
  by (simp add: rows_move_def)

lemma rows_move_trans: "rows_move a b \<Longrightarrow> rows_move b c \<Longrightarrow> rows_move a c"
  unfolding rows_move_def using row_moves_trans by blast

lemma rows_move_frame:
  "db_commands db' = db_commands db \<Longrightarrow> db_workflows db' = db_workflows db \<Longrightarrow> rows_move db db'"
  by (simp add: rows_move_def start_state_def stop_state_def)

lemma rows_move_fact:
  assumes "insertV1FactTx E k factType aggregate sequence occurredAt payload db = (r, db')"
  shows "rows_move db db'"
  using insertV1FactTx_frame [OF assms] by (auto intro: rows_move_frame)

subsection \<open>Updates of the two tables\<close>

lemma start_state_update:
  assumes "\<And>r. P r \<Longrightarrow> command_key (f r) = command_key r \<and> cmd_Kind (cr_Command (f r)) = cmd_Kind (cr_Command r)"
  shows "start_state (db\<lparr>db_commands := sql_update P f (db_commands db)\<rparr>) i =
    (case sql_row command_key i (db_commands db) of
       None \<Rightarrow> None
     | Some r \<Rightarrow> if cmd_Kind (cr_Command r) = ''START''
         then Some (cmd_State (cr_Command (if P r then f r else r))) else None)"
  using assms by (auto simp: start_state_def sql_row_update split: option.splits)

lemma stop_state_update:
  assumes "\<And>r. P r \<Longrightarrow> workflow_key (f r) = workflow_key r"
  shows "stop_state (db\<lparr>db_workflows := sql_update P f (db_workflows db)\<rparr>) i =
    map_option (\<lambda>r. wf_State (wr_Workflow (if P r then f r else r))) (sql_row workflow_key i (db_workflows db))"
  using assms by (simp add: stop_state_def sql_row_update option.map_comp o_def)

lemma state_frame [simp]:
  "start_state (db\<lparr>db_workflows := ws\<rparr>) = start_state db" "start_state (db\<lparr>db_transactions := ts\<rparr>) = start_state db"
  "start_state (db\<lparr>db_credentials := cs\<rparr>) = start_state db" "start_state (db\<lparr>db_facts := fs\<rparr>) = start_state db"
  "stop_state (db\<lparr>db_commands := cms\<rparr>) = stop_state db" "stop_state (db\<lparr>db_transactions := ts\<rparr>) = stop_state db"
  "stop_state (db\<lparr>db_credentials := cs\<rparr>) = stop_state db" "stop_state (db\<lparr>db_facts := fs\<rparr>) = stop_state db"
  by (simp_all add: start_state_def [abs_def] stop_state_def [abs_def])

lemma rows_move_commands:
  assumes "\<And>r. P r \<Longrightarrow> command_key (f r) = command_key r \<and> cmd_Kind (cr_Command (f r)) = cmd_Kind (cr_Command r)
      \<and> settled (Some (cmd_State (cr_Command (f r))))"
  shows "rows_move db (db\<lparr>db_commands := sql_update P f (db_commands db)\<rparr>)"
proof -
  have "row_moves (start_state db i) (start_state (db\<lparr>db_commands := sql_update P f (db_commands db)\<rparr>) i)" for i
    using assms by (subst start_state_update) (auto simp: start_state_def row_moves_def split: option.splits)
  then show ?thesis by (simp add: rows_move_def)
qed

lemma rows_move_workflows:
  assumes "\<And>r. P r \<Longrightarrow> workflow_key (f r) = workflow_key r \<and> settled (Some (wf_State (wr_Workflow (f r))))"
  shows "rows_move db (db\<lparr>db_workflows := sql_update P f (db_workflows db)\<rparr>)"
proof -
  have "row_moves (stop_state db i) (stop_state (db\<lparr>db_workflows := sql_update P f (db_workflows db)\<rparr>) i)" for i
    using assms by (subst stop_state_update; cases "sql_row workflow_key i (db_workflows db)")
      (auto simp: stop_state_def row_moves_def)
  then show ?thesis by (simp add: rows_move_def)
qed

lemma rows_move_insert_command:
  assumes "insert_command row db = (Inr n, db')" and "cmd_State (cr_Command row) = ''PERSISTED''"
  shows "rows_move db db'"
  using assms(1)
proof (cases rule: insert_command_Inr)
  case new
  then have "sql_row command_key (command_key row) (db_commands db) = None" by (simp add: sql_row_None)
  then have "row_moves (start_state db i) (start_state db' i)" for i
    using new(2) assms(2) by (auto simp: start_state_def sql_row_append row_moves_def split: option.splits)
  then show ?thesis using new(2) by (simp add: rows_move_def)
qed simp

lemma rows_move_ensure:
  assumes "ensureV1StopWorkflowTx E t initiator reason db = (Inr out, db')"
  shows "rows_move db db'"
  using assms
  by (auto simp: ensureV1StopWorkflowTx_def rows_move_def start_state_def stop_state_def sql_row_append new_workflow_def
      row_moves_def split: option.splits if_splits)

subsection \<open>The lifecycle\<close>

lemma create_start_moves: "rows_move db (snd (pg_CreateV1StartCommand E stin db))"
  unfolding CreateV1Start_state
proof (rule pg_tx_rel)
  fix x db' assume run: "create_start_tx E stin db = (Inr x, db')"
  then obtain i n db1 where i: "insert_command (start_command_row (env_now E) i stin) db = (Inr n, db1)"
    and "db' = db1 \<or> (\<exists>c u. insert_credential c db1 = (Inr u, db'))"
    by (auto simp: create_start_tx_def tx_bind_Inr simp del: NewSecureUUIDString_Inr split: sum.splits if_splits prod.splits)
  then have "rows_move db1 db'" by (auto simp: insert_credential_def split: if_splits intro: rows_move_frame)
  moreover have "rows_move db db1"
    by (rule rows_move_insert_command [OF i]) (simp add: start_command_row_def new_start_command_def)
  ultimately show "rows_move db db'" by (rule rows_move_trans [rotated])
qed simp

lemma create_stop_moves: "rows_move db (snd (pg_CreateV1StopCommand F E spin db))"
  unfolding pg_CreateV1StopCommand_def
proof (rule with_rel)
  fix x db' assume "create_stop_tx E spin db = (Inr x, db')"
  then show "rows_move db db'"
  proof (rule create_stop_tx_Inr)
    fix t w wf created db1 i n db2
    assume e: "ensureV1StopWorkflowTx E t (spin_RequestedStopInitiator spin) (spin_RequestedStopReason spin) db
        = (Inr (wf, created), db1)"
      and ins: "insert_command (stop_command_row (env_now E) i spin (wf_HALTransactionID wf)) db1 = (Inr n, db2)"
      and f: "db' = db2 \<or> (\<exists>a t p u. insertV1FactTx E 1 ''command.updated'' a None t p db2 = (Inr u, db'))"
    have "rows_move db1 db2"
      by (rule rows_move_insert_command [OF ins]) (simp add: stop_command_row_def new_stop_command_def)
    moreover have "rows_move db2 db'" using f by (auto dest: rows_move_fact)
    ultimately show ?thesis using rows_move_ensure [OF e] rows_move_trans by blast
  qed
qed simp

lemma materialize_moves: "rows_move db (snd (pg_MaterializeV1Start E mat db))"
proof -
  have writes: "rows_move db db'" if run: "materialize_writes E halID c command mat db = (Inr u, db')" for halID c command u db'
  proof -
    let ?set = "\<lambda>r. r\<lparr>cr_Command := (cr_Command r)\<lparr>cmd_State := ''MATERIALIZED'', cmd_HALTransactionID := halID,
        cmd_OCPPTransactionID := Some (mat_OCPPTransactionID mat), cmd_UpdatedAt := env_now E\<rparr>\<rparr>"
    obtain v1 v2 db1 db2 where s: "insert_transaction (start_row (materialized_transaction halID c command mat)) db = (Inr v1, db1)"
      "consume_credential (mat_IDTag mat) (mat_ObservedAt mat) halID db1 = (Inr v2, db2)"
      using run by (auto simp: materialize_writes_def Let_def tx_bind_Inr split: sum.splits prod.splits)
    define db3 where "db3 = db2\<lparr>db_commands := sql_update (\<lambda>r. command_key r = cmd_CMSCommandID command) ?set (db_commands db2)\<rparr>"
    obtain v p1 p2 db4 where f: "insertV1FactTx E 1 ''transaction.started'' halID None (mat_ObservedAt mat) p1 db3 = (Inr v, db4)"
        "insertV1FactTx E 2 ''command.updated'' (cmd_HALCommandID command) None (mat_ObservedAt mat) p2 db4 = (Inr u, db')"
      using run s by (auto simp: materialize_writes_def Let_def tx_bind_Inr db3_def)
    have "rows_move db db1" "rows_move db1 db2" using s
      by (auto simp: insert_transaction_def consume_credential_def split: if_splits intro: rows_move_frame)
    moreover have "rows_move db2 db3" unfolding db3_def by (rule rows_move_commands) (simp add: settled_def)
    ultimately show ?thesis using rows_move_fact [OF f(1)] rows_move_fact [OF f(2)] rows_move_trans by meson
  qed
  have "rows_move db (snd (pg_tx (materialize_tx E mat) db))"
    by (rule pg_tx_rel [where R = rows_move]) (auto simp: materialize_tx_def tx_bind_Inr simp del: NewSecureUUIDString_Inr
        split: option.splits if_splits sum.splits intro: writes)
  then show ?thesis by (simp add: MaterializeV1Start_state)
qed

lemma telemetry_moves: "rows_move db (snd (pg_UpdateV1TelemetryForOCPP E identity ocppID telemetry db))"
proof -
  have seq: "rows_move a b" if "insert_seq_fact E k ty i n at' p a = (Inr u, b)" for a b k ty i n at' p u
    using that by (rule insert_seq_fact_Inr) (rule rows_move_fact)
  have facts: "rows_move db1 db'" if run: "telemetry_facts E ea sa t db1 = (Inr u, db')" for db1 db' ea sa t u
  proof -
    obtain db2 where one: "(if ea then
         tx_bind (if energy_limit_reached t then
             (let (initiator, reason) = v1EnergyStopCause (tx_EnergyLimitSource t) (tx_LimitType t)
              in tx_bind (ensureV1StopWorkflowTx E t initiator reason db1) (\<lambda>_ db1. (Inr (), db1)))
           else (Inr (), db1))
           (\<lambda>_ db1. insert_seq_fact E 0 ''transaction.meter'' (tx_HALTransactionID t) (tx_MeterSequence t)
              (tx_MeterObservedAt t) (v1MeterFact t) db1)
       else (Inr (), db1)) = (Inr (), db2)"
      and two: "rows_move db2 db'"
      using run by (auto simp: telemetry_facts_def tx_bind_Inr split: if_splits dest: seq)
    have "rows_move db1 db2"
      using one by (auto simp: tx_bind_Inr split_beta split: if_splits dest!: seq rows_move_ensure intro: rows_move_trans)
    then show ?thesis using two by (rule rows_move_trans)
  qed
  have "rows_move db db'" if run: "telemetry_tx E identity ocppID telemetry db = (Inr out, db')" for out db'
  proof -
    obtain row where f: "find (\<lambda>r. tx_ChargerOCPPIdentity r = identity \<and> tx_OCPPTransactionID r = ocppID) (db_transactions db) = Some row"
      using run by (auto simp: telemetry_tx_def split: option.splits)
    obtain ea row1 where e: "pg_apply_energy telemetry row = (ea, row1)" by force
    obtain sa row2 where s: "pg_apply_soc telemetry row1 = Inr (sa, row2)"
      using run f e by (auto simp: telemetry_tx_def Let_def split: sum.splits)
    obtain ts t u where "telemetry_facts E ea sa t (db\<lparr>db_transactions := ts\<rparr>) = (Inr u, db')"
      using run f e s by (auto simp: telemetry_tx_def Let_def tx_bind_Inr split: sum.splits)
    then have "rows_move (db\<lparr>db_transactions := ts\<rparr>) db'" by (rule facts)
    then show ?thesis by (rule rows_move_trans [OF rows_move_frame, rotated 2]) simp_all
  qed
  then show ?thesis by (auto simp: pg_UpdateV1TelemetryForOCPP_def intro: pg_tx_rel)
qed

lemma meter_moves: "rows_move db (snd (pg_UpdateV1Meter E i ocppID meterWh observedAt db))"
  using telemetry_moves by (auto simp: pg_UpdateV1Meter_def tx_bind_state split_beta split: sum.splits)

lemma ensure_moves: "rows_move db (snd (pg_EnsureV1StopWorkflow F E i initiator reason db))"
  unfolding pg_EnsureV1StopWorkflow_def
  by (rule with_rel) (auto split: sum.splits intro: rows_move_ensure)

lemma complete_moves: "rows_move db (snd (pg_CompleteV1Transaction F E i meterStopWh ocppReason completedAt observedAt db))"
  unfolding pg_CompleteV1Transaction_def
proof (rule with_rel)
  fix x db' assume run: "complete_tx E i meterStopWh ocppReason completedAt observedAt db = (Inr x, db')"
  have writes: "rows_move db (complete_writes now i completedAt row db)" for now row
  proof -
    let ?w = "db\<lparr>db_workflows := sql_update (\<lambda>r. workflow_key r = i \<and> wf_State (wr_Workflow r) \<noteq> ''COMPLETED'')
       (\<lambda>r. workflow_update now ''COMPLETED'' None
          (r\<lparr>wr_Workflow := (wr_Workflow r)\<lparr>wf_CompletedAt := Some (pg_ts completedAt)\<rparr>\<rparr>)) (db_workflows db)\<rparr>"
    let ?c = "?w\<lparr>db_commands := sql_update (stop_command_live i)
       (\<lambda>r. r\<lparr>cr_Command := (cr_Command r)\<lparr>cmd_State := ''SUPERSEDED'', cmd_UpdatedAt := now\<rparr>\<rparr>) (db_commands ?w)\<rparr>"
    have "rows_move db ?w" by (rule rows_move_workflows) (simp add: workflow_update_def settled_def)
    moreover have "rows_move ?w ?c" by (rule rows_move_commands) (simp add: settled_def)
    moreover have "rows_move ?c (complete_writes now i completedAt row db)"
      by (rule rows_move_frame) (simp_all add: complete_writes_def)
    ultimately show ?thesis using rows_move_trans by blast
  qed
  have "db' = db \<or> (\<exists>now row r p. insertV1FactTx E 0 ''transaction.completed'' i None observedAt p
      (complete_writes now i completedAt row db) = (r, db'))"
    using run by (auto simp: complete_tx_def Let_def tx_bind_Inr split: sum.splits if_splits option.splits; blast)
  then show "rows_move db db'" using writes rows_move_fact rows_move_trans by (elim disjE) (simp, blast)
qed simp

lemma lifecycle_step_moves: "lifecycle_step db db' \<Longrightarrow> rows_move db db'"
  by (erule lifecycle_step.cases; hypsubst)
    (rule create_start_moves create_stop_moves materialize_moves telemetry_moves meter_moves ensure_moves
      ensure_moves [folded RequestV1Stop_state] complete_moves)+

subsection \<open>The writes outside the lifecycle\<close>

lemma rows_move_other_fact:
  assumes "insertV1FactTx E k factType aggregate sequence occurredAt payload db1 = (Inr u, db')" and "rows_move db db1"
  shows "rows_move db db'"
  using rows_move_trans [OF assms(2) rows_move_fact [OF assms(1)]] .

lemma reset_facts_moves: "insert_reset_facts E k changed db = (Inr u, db') \<Longrightarrow> rows_move db db'"
proof (induction changed arbitrary: k db)
  case (Cons c changed)
  obtain m r where c: "c = (m, r)" by force
  with Cons.prems obtain v db1 seq p at' where
    "insertV1FactTx E k ''charger.connection.updated'' (rr_ChargerOCPPIdentity r) seq at' p db = (Inr v, db1)"
    "insert_reset_facts E (k + 1) changed db1 = (Inr u, db')"
    by (auto split: prod.splits sum.splits)
  with Cons.IH rows_move_fact rows_move_trans show ?case by blast
qed simp

lemma runtime_moves:
  "rows_move db (snd (pg_RecordV1ChargerConnection E identity generation online t db))"
  "rows_move db (snd (pg_RenewCurrentV1ChargerConnection E identity generation t db))"
  "rows_move db (snd (pg_RecordV1ConnectorStatus E r db))"
  "rows_move db (snd (pg_ResetV1ConnectionRuntime E db))"
proof -
  have conn: "upsert_connection identity state generation t db = Some db1 \<Longrightarrow> rows_move db db1" for identity state generation t db1
    by (auto simp: upsert_connection_def split: option.splits if_splits intro!: rows_move_frame)
  have con: "rows_move db (upsert_connector now r observed db)" for now observed
    by (auto simp: upsert_connector_def Let_def intro!: rows_move_frame)
  show "rows_move db (snd (pg_RecordV1ChargerConnection E identity generation online t db))"
    unfolding pg_RecordV1ChargerConnection_def Let_def
    by (rule pg_tx_rel [where R = rows_move]) (auto split: sum.splits option.splits intro: rows_move_other_fact conn)
  show "rows_move db (snd (pg_RenewCurrentV1ChargerConnection E identity generation t db))"
    unfolding pg_RenewCurrentV1ChargerConnection_def Let_def
    by (rule pg_tx_rel [where R = rows_move])
      (auto split: sum.splits option.splits intro!: rows_move_frame elim!: rows_move_other_fact)
  show "rows_move db (snd (pg_RecordV1ConnectorStatus E r db))"
    unfolding pg_RecordV1ConnectorStatus_def Let_def
    by (rule pg_tx_rel [where R = rows_move])
      (auto split: sum.splits option.splits if_splits elim!: rows_move_other_fact intro: con)
  have "rows_move db db'" if "insert_reset_facts E 0 changed (db\<lparr>db_runtime := t\<rparr>) = (Inr u, db')" for changed t u db'
    by (rule rows_move_trans [OF rows_move_frame reset_facts_moves [OF that]]) simp_all
  then show "rows_move db (snd (pg_ResetV1ConnectionRuntime E db))"
    unfolding pg_ResetV1ConnectionRuntime_def Let_def by (intro pg_tx_rel [where R = rows_move]) auto
qed

lemma sync_mapping_moves: "rows_move db (snd (pg_SyncV1Mapping E input db))"
proof -
  have "rows_move db (snd (pg_tx (sync_mapping_tx E input) db))"
  proof (rule pg_tx_rel [where R = rows_move])
    fix x db' assume "sync_mapping_tx E input db = (Inr x, db')"
    then show "rows_move db db'"
      by (intro rows_move_frame)
        (auto simp: sync_mapping_tx_def Let_def insert_mapping_def update_mapping_def seed_runtime_def audit_mapping_def
          split: option.splits sum.splits if_splits prod.splits)
  qed simp
  moreover have "snd (pg_SyncV1Mapping E input db) = snd (pg_tx (sync_mapping_tx E input) db)"
    by (auto simp: pg_SyncV1Mapping_def split: prod.splits sum.splits)
  ultimately show ?thesis by simp
qed

lemma facts_moves:
  "rows_move db (snd (pg_ClaimV1Facts locked now limit gen db))"
  "rows_move db (snd (pg_MarkV1FactDelivery now i token code success terminal detail next' db))"
  "rows_move db (snd (pg_RequeueV1Fact E factID correlationID db))"
  by (intro rows_move_frame; auto simp: pg_ClaimV1Facts_def pg_MarkV1FactDelivery_def pg_RequeueV1Fact_def pg_tx_def
      Let_def split_beta split: sum.splits option.splits if_splits)+

lemma operations_moves:
  "rows_move db (snd (pg_RecordV1BootEvidence identity evidence db))"
  "rows_move db (snd (pg_CreateV1ChargerOperation now gen opin db))"
  "rows_move db (snd (pg_ClaimV1ChargerOperationDelivery now i db))"
  "rows_move db (snd (pg_MarkV1ChargerOperationDelivery now i state result category db))"
  "rows_move db (pg_RecoverV1ChargerOperationDelivery now db)"
  by (intro rows_move_frame; auto simp: pg_RecordV1BootEvidence_def pg_CreateV1ChargerOperation_def
      pg_ClaimV1ChargerOperationDelivery_def pg_MarkV1ChargerOperationDelivery_def
      pg_RecoverV1ChargerOperationDelivery_def Let_def split: option.splits sum.splits)+

lemma outer_step_moves: "outer_step db db' \<Longrightarrow> rows_move db db'"
  by (erule outer_step.cases; hypsubst; rule runtime_moves sync_mapping_moves facts_moves operations_moves)

subsection \<open>The two deliveries\<close>

lemma start_state_guarded:
  assumes "\<And>r. command_key (f r) = command_key r \<and> cmd_Kind (cr_Command (f r)) = cmd_Kind (cr_Command r)
      \<and> cmd_State (cr_Command (f r)) = b"
  shows "start_state (db\<lparr>db_commands := sql_update (start_in i a) f (db_commands db)\<rparr>) j =
    (if j = i \<and> start_state db i = Some a then Some b else start_state db j)"
proof -
  have eq: "start_state (db\<lparr>db_commands := sql_update (start_in i a) f (db_commands db)\<rparr>) j =
      (case sql_row command_key j (db_commands db) of None \<Rightarrow> None
       | Some r \<Rightarrow> if cmd_Kind (cr_Command r) = ''START'' then Some (cmd_State (cr_Command (if start_in i a r then f r else r))) else None)"
    by (rule start_state_update) (use assms in blast)
  show ?thesis
  proof (cases "sql_row command_key j (db_commands db)")
    case (Some r)
    then have "command_key r = j" by (rule sql_row_SomeD [THEN conjunct2])
    with Some show ?thesis unfolding eq by (auto simp: assms start_state_def start_in_def)
  qed (unfold eq, auto simp: start_state_def)
qed

lemma ClaimV1Start_states:
  assumes "pg_ClaimV1StartDelivery now i db = (r, db')"
  shows "start_state db' j = (if j = i \<and> start_state db i = Some ''PERSISTED'' then Some ''PENDING_DELIVERY'' else start_state db j)"
    and "db_workflows db' = db_workflows db"
proof -
  have db': "db' = db\<lparr>db_commands := sql_update (start_in i ''PERSISTED'')
      (command_update now ''PENDING_DELIVERY'' (Some (now + 30 * duration_second))) (db_commands db)\<rparr>"
    using ClaimV1Start_state [of now i db] assms by simp
  then show "db_workflows db' = db_workflows db" by simp
  show "start_state db' j = (if j = i \<and> start_state db i = Some ''PERSISTED'' then Some ''PENDING_DELIVERY'' else start_state db j)"
    unfolding db' by (rule start_state_guarded) (simp add: command_update_def)
qed

lemma BeginV1Command_states:
  assumes "pg_BeginV1CommandDelivery now i db = (r, db')"
  shows "start_state db' j = (if j = i \<and> start_state db i = Some ''PENDING_DELIVERY'' then Some ''DELIVERY_ATTEMPTED'' else start_state db j)"
    and "db_workflows db' = db_workflows db"
proof -
  let ?f = "\<lambda>r. command_update now ''DELIVERY_ATTEMPTED'' (Some (now + 2 * duration_minute))
             (r\<lparr>cr_Command := (cr_Command r)\<lparr>cmd_DeliveryAttempts := cmd_DeliveryAttempts (cr_Command r) + 1\<rparr>\<rparr>)"
  have db': "db' = db\<lparr>db_commands := sql_update (start_in i ''PENDING_DELIVERY'') ?f (db_commands db)\<rparr>"
    using assms by (auto simp: pg_BeginV1CommandDelivery_def Let_def)
  then show "db_workflows db' = db_workflows db" by simp
  show "start_state db' j = (if j = i \<and> start_state db i = Some ''PENDING_DELIVERY'' then Some ''DELIVERY_ATTEMPTED'' else start_state db j)"
    unfolding db' by (rule start_state_guarded) (simp add: command_update_def)
qed

lemma delivery_outcome_settled: "delivery_outcome status = (state, category) \<Longrightarrow> settled (Some state)"
  by (auto simp: delivery_outcome_def settled_def split: if_splits)

lemma MarkV1Command_states:
  assumes "pg_MarkV1CommandDelivery E i status result detail db = (r, db')"
  shows "start_state db' j = start_state db j \<or> j = i \<and> settled (start_state db' j)"
    and "db_workflows db' = db_workflows db"
proof -
  obtain state category where oc: "delivery_outcome status = (state, category)" by force
  define P where "P = (\<lambda>r. command_key r = i \<and> cmd_State (cr_Command r) \<notin> {''MATERIALIZED'', ''SUPERSEDED''})"
  define db1 where "db1 = db\<lparr>db_commands := sql_update P (mark_command (env_now E) state result category detail) (db_commands db)\<rparr>"
  have "db' = db \<or> db' = db1 \<or> (\<exists>a t p r. insertV1FactTx E 0 ''command.updated'' a None t p db1 = (r, db'))"
    using assms oc unfolding pg_MarkV1CommandDelivery_def pg_tx_def P_def [symmetric]
    by (auto simp: Let_def db1_def [symmetric] P_def [symmetric] tx_bind_def split: sum.splits prod.splits if_splits)
  then have "db' = db \<or> db_commands db' = db_commands db1 \<and> db_workflows db' = db_workflows db1"
    using insertV1FactTx_frame by fastforce
  moreover have "start_state db1 j = start_state db j \<or> j = i \<and> settled (start_state db1 j)"
  proof -
    have eq: "start_state db1 j = (case sql_row command_key j (db_commands db) of None \<Rightarrow> None
      | Some r \<Rightarrow> if cmd_Kind (cr_Command r) = ''START'' then Some (cmd_State (cr_Command
          (if P r then mark_command (env_now E) state result category detail r else r))) else None)"
      unfolding db1_def by (rule start_state_update) (simp add: mark_command_def command_update_def)
    show ?thesis
      using sql_row_SomeD [of command_key j "db_commands db"] delivery_outcome_settled [OF oc]
      by (simp only: eq) (auto simp: P_def mark_command_def command_update_def start_state_def split: option.splits)
  qed
  ultimately show "start_state db' j = start_state db j \<or> j = i \<and> settled (start_state db' j)" "db_workflows db' = db_workflows db"
    by (auto simp: start_state_def [abs_def] db1_def)
qed

lemma RecoverV1Command_states:
  "start_state (pg_RecoverV1CommandDelivery now db) j = map_option recovered_state (start_state db j)"
  by (auto simp: start_state_def pg_RecoverV1CommandDelivery_def sql_row_update command_update_def recovered_state_def
      split: option.splits)

lemma start_delivery_keeps_stops: "start_delivery_step db db' \<Longrightarrow> stop_state db' = stop_state db"
proof (induction rule: start_delivery_step.induct)
  case (mark_start db E i status result detail)
  then show ?case
    using MarkV1Command_states(2) [of E i status result detail db "fst (pg_MarkV1CommandDelivery E i status result detail db)"]
    by (simp add: stop_state_def [abs_def])
qed (simp_all add: stop_state_def [abs_def] ClaimV1Start_state pg_BeginV1CommandDelivery_def Let_def pg_RecoverV1CommandDelivery_def)

lemma stop_state_guarded:
  assumes "\<And>r. workflow_key (f r) = workflow_key r \<and> wf_State (wr_Workflow (f r)) = b"
  shows "stop_state (db\<lparr>db_workflows := sql_update (workflow_in i a) f (db_workflows db)\<rparr>) j =
    (if j = i \<and> stop_state db i = Some a then Some b else stop_state db j)"
proof -
  have eq: "stop_state (db\<lparr>db_workflows := sql_update (workflow_in i a) f (db_workflows db)\<rparr>) j =
      map_option (\<lambda>r. wf_State (wr_Workflow (if workflow_in i a r then f r else r))) (sql_row workflow_key j (db_workflows db))"
    by (rule stop_state_update) (use assms in blast)
  show ?thesis
  proof (cases "sql_row workflow_key j (db_workflows db)")
    case (Some r)
    then have "workflow_key r = j" by (rule sql_row_SomeD [THEN conjunct2])
    moreover have "wf_State (wr_Workflow (f r)) = b" using assms by blast
    moreover have "stop_state db j = Some (wf_State (wr_Workflow r))" using Some by (simp add: stop_state_def)
    ultimately show ?thesis unfolding eq Some by (auto simp: workflow_in_def)
  next
    case None
    then have "stop_state db j = None" by (simp add: stop_state_def)
    with None show ?thesis unfolding eq None by auto
  qed
qed

lemma lockRows_state:
  assumes "lockV1StopLifecycleRows i db = Inr rows"
  shows "workflow_ready a rows \<longleftrightarrow> tx_CompletedAt (fst rows) = None \<and> stop_state db i = Some a"
  using lockRows_Inr [of i db "fst rows" "snd rows"] assms
  by (auto simp: workflow_ready_def stop_state_def split: option.splits)

lemma ClaimV1Stop_states:
  assumes "pg_ClaimV1StopDelivery F now i db = (r, db')"
  shows "stop_state db' j = stop_state db j \<and> (\<forall>w. r \<noteq> Inr (w, True))
      \<or> j \<noteq> i \<and> stop_state db' j = stop_state db j
      \<or> j = i \<and> stop_state db i = Some ''PERSISTED'' \<and> stop_state db' i = Some ''PENDING_DELIVERY''"
    and "db_commands db' = db_commands db"
proof -
  let ?op = "\<lambda>db. case lockV1StopLifecycleRows i db of
           Inl err \<Rightarrow> (Inl err, db)
         | Inr rows \<Rightarrow>
             if \<not> workflow_ready ''PERSISTED'' rows then (Inr False, db)
             else (Inr (sql_count (workflow_in i ''PERSISTED'') (db_workflows db) = 1),
               db\<lparr>db_workflows := sql_update (workflow_in i ''PERSISTED'')
                  (workflow_update now ''PENDING_DELIVERY'' (Some (now + 30 * duration_second))) (db_workflows db)\<rparr>)"
  have "\<exists>r0. withV1StopLifecycleTransaction F ?op db = (r0, db') \<and> ((\<exists>w. r = Inr (w, True)) \<longrightarrow> r0 = Inr True)"
    using assms unfolding pg_ClaimV1StopDelivery_def
    by (cases "withV1StopLifecycleTransaction F ?op db"; cases "fst (withV1StopLifecycleTransaction F ?op db)")
      (auto simp: tx_bind_def split: sum.splits)
  then obtain r0 where w: "withV1StopLifecycleTransaction F ?op db = (r0, db')" and r0: "(\<exists>w. r = Inr (w, True)) \<longrightarrow> r0 = Inr True"
    by blast
  have "db' = db \<and> (\<forall>w. r \<noteq> Inr (w, True)) \<or> stop_state db i = Some ''PERSISTED'' \<and>
      db' = db\<lparr>db_workflows := sql_update (workflow_in i ''PERSISTED'')
                  (workflow_update now ''PENDING_DELIVERY'' (Some (now + 30 * duration_second))) (db_workflows db)\<rparr>"
    using w
  proof (cases rule: with_all_or_nothing)
    case (commit x)
    then show ?thesis using r0 by (auto simp: lockRows_state split: sum.splits if_splits)
  qed (use r0 in auto)
  then show "stop_state db' j = stop_state db j \<and> (\<forall>w. r \<noteq> Inr (w, True))
      \<or> j \<noteq> i \<and> stop_state db' j = stop_state db j
      \<or> j = i \<and> stop_state db i = Some ''PERSISTED'' \<and> stop_state db' i = Some ''PENDING_DELIVERY''"
    and "db_commands db' = db_commands db"
    by (auto simp: stop_state_guarded workflow_update_def)
qed

lemma completed_workflow:
  assumes "life_inv db" and "getV1TransactionByID i db = Inr t" and "tx_CompletedAt t \<noteq> None"
  shows "stop_state db i \<in> {None, Some ''COMPLETED''}"
proof -
  obtain row where row: "row \<in> set (db_transactions db)" "t = load_transaction row" "tx_HALTransactionID row = i"
    using assms(2) by (auto simp: getV1TransactionByID_def getV1TransactionBy_def sql_row_def
        dest!: find_SomeD split: option.splits if_splits)
  have "tx_ok db row" using assms(1) row(1) by (auto simp: life_inv_def life_core_def)
  then have "\<forall>w\<in>set (db_workflows db). workflow_key w = i \<longrightarrow> wf_State (wr_Workflow w) = ''COMPLETED''"
    using assms(3) row(2,3) by (simp add: tx_ok_def)
  then show ?thesis
    by (cases "sql_row workflow_key i (db_workflows db)") (auto simp: stop_state_def dest!: sql_row_SomeD)
qed

lemma BeginV1Stop_states:
  assumes "pg_BeginV1StopDelivery F now i db = (r, db')" and "life_inv db"
  shows "stop_state db' j = stop_state db j \<and> (j = i \<and> (\<exists>w. r = Inr w) \<longrightarrow> stop_state db j \<noteq> Some ''PENDING_DELIVERY'')
      \<or> j = i \<and> stop_state db i = Some ''PENDING_DELIVERY'' \<and> stop_state db' i = Some ''DELIVERY_ATTEMPTED''"
    and "db_commands db' = db_commands db"
proof -
  let ?op = "\<lambda>db. case lockV1StopLifecycleRows i db of
           Inl err \<Rightarrow> (Inl err, db)
         | Inr rows \<Rightarrow>
             if \<not> workflow_ready ''PENDING_DELIVERY'' rows then (Inr (), db)
             else (Inr (), db\<lparr>db_workflows := sql_update (workflow_in i ''PENDING_DELIVERY'')
                  (\<lambda>r. workflow_update now ''DELIVERY_ATTEMPTED'' (Some (now + 2 * duration_minute))
                    (r\<lparr>wr_Workflow := (wr_Workflow r)\<lparr>wf_DeliveryAttempts := wf_DeliveryAttempts (wr_Workflow r) + 1\<rparr>\<rparr>))
                  (db_workflows db)\<rparr>)"
  have r0: "\<exists>r0. withV1StopLifecycleTransaction F ?op db = (r0, db') \<and> (r0 = Inr () \<or> (\<exists>e. r = Inl e))"
    using assms(1) unfolding pg_BeginV1StopDelivery_def
    by (cases "withV1StopLifecycleTransaction F ?op db"; cases "fst (withV1StopLifecycleTransaction F ?op db)")
      (auto simp: tx_bind_def)
  then obtain r0 where w: "withV1StopLifecycleTransaction F ?op db = (r0, db')" and r: "r0 = Inr () \<or> (\<exists>e. r = Inl e)" by blast
  have "db' = db \<and> ((\<exists>w. r = Inr w) \<longrightarrow> stop_state db i \<noteq> Some ''PENDING_DELIVERY'') \<or> stop_state db i = Some ''PENDING_DELIVERY'' \<and>
      db' = db\<lparr>db_workflows := sql_update (workflow_in i ''PENDING_DELIVERY'')
                  (\<lambda>r. workflow_update now ''DELIVERY_ATTEMPTED'' (Some (now + 2 * duration_minute))
                    (r\<lparr>wr_Workflow := (wr_Workflow r)\<lparr>wf_DeliveryAttempts := wf_DeliveryAttempts (wr_Workflow r) + 1\<rparr>\<rparr>))
                  (db_workflows db)\<rparr>"
    using w
  proof (cases rule: with_all_or_nothing)
    case (commit x)
    then obtain rows where lock: "lockV1StopLifecycleRows i db = Inr rows" by (auto split: sum.splits)
    have "getV1TransactionByID i db = Inr (fst rows)" using lockRows_Inr(1) [of i db "fst rows" "snd rows"] lock by simp
    note done' = completed_workflow [OF assms(2) this]
    show ?thesis using commit lock done' by (auto simp: lockRows_state [OF lock] split: if_splits)
  qed (use r in auto)
  then show "stop_state db' j = stop_state db j \<and> (j = i \<and> (\<exists>w. r = Inr w) \<longrightarrow> stop_state db j \<noteq> Some ''PENDING_DELIVERY'')
      \<or> j = i \<and> stop_state db i = Some ''PENDING_DELIVERY'' \<and> stop_state db' i = Some ''DELIVERY_ATTEMPTED''"
    and "db_commands db' = db_commands db"
    by (auto simp: stop_state_guarded workflow_update_def)
qed

lemma MarkV1Stop_states:
  assumes "pg_MarkV1StopDelivery F E i status result detail db = (r, db')"
  shows "stop_state db' j = stop_state db j \<or> j = i \<and> settled (stop_state db' j)"
    and "start_state db' = start_state db"
proof -
  obtain state category where oc: "delivery_outcome status = (state, category)" by force
  let ?live = "\<lambda>r. stop_command_live i r \<and> cmd_Kind (cr_Command r) = ''STOP''"
  define P where "P = (\<lambda>r. workflow_key r = i \<and> wf_State (wr_Workflow r) \<notin> {''COMPLETED'', ''SUPERSEDED''})"
  let ?ws = "sql_update P (mark_workflow (env_now E) state result category detail) (db_workflows db)"
  let ?cs = "sql_update ?live (mark_command (env_now E) state result category detail) (db_commands db)"
  have facts: "insert_command_facts E k ids db1 = (Inr u, db2) \<Longrightarrow> db_workflows db2 = db_workflows db1 \<and> db_commands db2 = db_commands db1"
    for k ids db1 u db2
  proof (induction E k ids db1 rule: insert_command_facts.induct)
    case (2 E k i ids db1)
    then show ?case using insertV1FactTx_frame by (fastforce simp: tx_bind_Inr split: sum.splits)
  qed simp
  have "db' = db \<or> (\<exists>u. mark_stop_tx E i state category result detail db = (Inr u, db'))"
    using assms oc unfolding pg_MarkV1StopDelivery_def
    by (cases "withV1StopLifecycleTransaction F (mark_stop_tx E i state category result detail) db")
      (auto simp: tx_bind_def split: sum.splits elim!: with_all_or_nothing)
  then have tables: "db' = db \<or> db_workflows db' = ?ws \<and> db_commands db' = ?cs"
    by (auto simp: mark_stop_tx_def Let_def P_def split: sum.splits if_splits dest!: facts)
  have ws: "stop_state (db\<lparr>db_workflows := ?ws\<rparr>) j = map_option (\<lambda>r. wf_State (wr_Workflow
      (if P r then mark_workflow (env_now E) state result category detail r else r))) (sql_row workflow_key j (db_workflows db))"
    by (rule stop_state_update) simp
  have "stop_state (db\<lparr>db_workflows := ?ws\<rparr>) j = stop_state db j \<or> j = i \<and> settled (stop_state (db\<lparr>db_workflows := ?ws\<rparr>) j)"
    using delivery_outcome_settled [OF oc] unfolding ws
    by (cases "sql_row workflow_key j (db_workflows db)")
      (auto simp: P_def stop_state_def mark_workflow_def workflow_update_def dest!: sql_row_SomeD)
  with tables show "stop_state db' j = stop_state db j \<or> j = i \<and> settled (stop_state db' j)"
    by (elim disjE) (auto simp: stop_state_def)
  have cs: "start_state (db\<lparr>db_commands := ?cs\<rparr>) k = (case sql_row command_key k (db_commands db) of None \<Rightarrow> None
     | Some r \<Rightarrow> if cmd_Kind (cr_Command r) = ''START'' then Some (cmd_State (cr_Command
         (if ?live r then mark_command (env_now E) state result category detail r else r))) else None)" for k
    by (rule start_state_update) (simp add: mark_command_def command_update_def)
  have "start_state (db\<lparr>db_commands := ?cs\<rparr>) = start_state db"
    by (rule ext, unfold cs) (auto simp: start_state_def split: option.splits)
  with tables show "start_state db' = start_state db"
    by (elim disjE) (simp_all add: start_state_def [abs_def])
qed

lemma RecoverV1Stop_states:
  "stop_state (pg_RecoverV1StopDelivery now db) j = map_option recovered_state (stop_state db j)"
  by (cases "sql_row workflow_key j (db_workflows db)")
    (auto simp: stop_state_def pg_RecoverV1StopDelivery_def sql_row_update workflow_update_def recovered_state_def)

lemma stop_delivery_keeps_starts: "stop_delivery_step db db' \<Longrightarrow> start_state db' = start_state db"
proof (induction rule: stop_delivery_step.induct)
  case (claim_stop db F now i)
  then show ?case
    using ClaimV1Stop_states(2) [of F now i db "fst (pg_ClaimV1StopDelivery F now i db)"] by (simp add: start_state_def [abs_def])
next
  case (begin_stop db F now i)
  have "db_commands (snd (pg_BeginV1StopDelivery F now i db)) = db_commands db"
    unfolding pg_BeginV1StopDelivery_def
    by (subst tx_bind_state, simp, rule with_rel) (auto split: sum.splits if_splits)
  then show ?case by (simp add: start_state_def [abs_def])
next
  case (mark_stop db F E i status result detail)
  then show ?case
    using MarkV1Stop_states(2) [of F E i status result detail db "fst (pg_MarkV1StopDelivery F E i status result detail db)"] by simp
qed (simp add: start_state_def [abs_def] pg_RecoverV1StopDelivery_def)

end
