(* ===== verification/Remote_Dispatch.thy ===== *)
theory Remote_Dispatch
  imports Remote_Rows
begin

text \<open>
  The two request handlers that cross the OCPP network boundary: the delivery part of
  \<^verbatim>\<open>v1Start\<close> (\<^verbatim>\<open>httpapi/v1.go\<close>) and \<^verbatim>\<open>DispatchV1Stop\<close> (\<^verbatim>\<open>ocpp16hal/v1.go\<close>), with the loops that
  call the latter. Both are the uninterrupted runs of handlers of the two-phase protocol, which
  both stores interpret; the interleavings with anything else are those of \<open>delivery_step\<close>.
  Diagnostic traces are separate tables that no lifecycle method reads; they are left out here.
\<close>

text \<open>The environment of one delivery: one entry per store call, and the arguments of the mark.\<close>

record delivery_env =
  de_claim :: pg_env
  de_begin :: pg_env
  de_mark :: pg_env
  de_claimFaults :: lifecycle_faults
  de_beginFaults :: lifecycle_faults
  de_markFaults :: lifecycle_faults

subsection \<open>START\<close>

text \<open>
  \<open>remoteStart charger idTag connector\<close> is \<^verbatim>\<open>h.RemoteStartTransaction\<close>: the charger's status, or
  an error when no status is known. The second component of the result lists the commands that
  were sent.
\<close>

definition v1Start_deliver ::
  "delivery_env \<Rightarrow> (string \<Rightarrow> string \<Rightarrow> int \<Rightarrow> string res) \<Rightarrow> V1StartCommandInput \<Rightarrow> PostgresStore
   \<Rightarrow> (V1RemoteCommand res \<times> string list) \<times> PostgresStore" where
  "v1Start_deliver D remoteStart req db =
     (let cmsCommandID = stin_CMSCommandID req in
      case pg_ClaimV1StartDelivery (env_now (de_claim D)) cmsCommandID db of
        (Inl err, db1) \<Rightarrow> ((Inl err, []), db1)
      | (Inr (command, claimed), db1) \<Rightarrow>
          if \<not> claimed then ((Inr command, []), db1)
          else (case pg_BeginV1CommandDelivery (env_now (de_begin D)) cmsCommandID db1 of
              (Inl err, db2) \<Rightarrow> ((Inl err, []), db2)
            | (Inr _, db2) \<Rightarrow>
                (let (r, db3) = (case remoteStart (stin_ChargerOCPPIdentity req) (stin_IDTag req) (stin_OCPPConnectorNumber req) of
                     Inl _ \<Rightarrow> pg_MarkV1CommandDelivery (de_mark D) cmsCommandID ''AMBIGUOUS'' '''' ''remote start result unavailable'' db2
                   | Inr status \<Rightarrow> pg_MarkV1CommandDelivery (de_mark D) cmsCommandID status status '''' db2)
                 in ((r, [cmsCommandID]), db3))))"

subsection \<open>STOP\<close>

definition DispatchV1Stop ::
  "delivery_env \<Rightarrow> (string \<Rightarrow> int \<Rightarrow> string res) \<Rightarrow> string \<Rightarrow> PostgresStore
   \<Rightarrow> (V1StopWorkflow res \<times> string list) \<times> PostgresStore" where
  "DispatchV1Stop D remoteStop halTransactionID db =
     (case pg_ClaimV1StopDelivery (de_claimFaults D) (env_now (de_claim D)) halTransactionID db of
        (Inl err, db1) \<Rightarrow> ((Inl err, []), db1)
      | (Inr (workflow, claimed), db1) \<Rightarrow>
          if \<not> claimed then ((Inr workflow, []), db1)
          else (case pg_BeginV1StopDelivery (de_beginFaults D) (env_now (de_begin D)) halTransactionID db1 of
              (Inl err, db2) \<Rightarrow> ((Inl err, []), db2)
            | (Inr _, db2) \<Rightarrow>
                (case pg_GetV1Transaction halTransactionID db2 of
                   Inl err \<Rightarrow> ((Inl err, []), db2)
                 | Inr transaction \<Rightarrow>
                     if tx_CompletedAt transaction \<noteq> None then
                       (let (r, db3) = pg_MarkV1StopDelivery (de_markFaults D) (de_mark D) halTransactionID
                              ''AMBIGUOUS'' '''' ''transaction completed before dispatch'' db2
                        in ((r, []), db3))
                     else (let (r, db3) = (case remoteStop (tx_ChargerOCPPIdentity transaction) (tx_OCPPTransactionID transaction) of
                              Inl _ \<Rightarrow> pg_MarkV1StopDelivery (de_markFaults D) (de_mark D) halTransactionID
                                ''AMBIGUOUS'' '''' ''remote stop result unavailable'' db2
                            | Inr status \<Rightarrow> pg_MarkV1StopDelivery (de_markFaults D) (de_mark D) halTransactionID status status '''' db2)
                           in ((r, [halTransactionID]), db3)))))"

text \<open>The loops log an error of one workflow and go on with the next; \<open>D\<close> gives each call its environment.\<close>

fun dispatch_stops ::
  "(string \<Rightarrow> delivery_env) \<Rightarrow> (string \<Rightarrow> int \<Rightarrow> string res) \<Rightarrow> string list \<Rightarrow> PostgresStore \<Rightarrow> string list \<times> PostgresStore" where
  "dispatch_stops D remoteStop [] db = ([], db)"
| "dispatch_stops D remoteStop (i # is) db =
     (let ((_, sent), db1) = DispatchV1Stop (D i) remoteStop i db;
          (sent', db2) = dispatch_stops D remoteStop is db1
      in (sent @ sent', db2))"

definition DispatchPendingV1Stops ::
  "(string \<Rightarrow> delivery_env) \<Rightarrow> (string \<Rightarrow> int \<Rightarrow> string res) \<Rightarrow> PostgresStore \<Rightarrow> string list \<times> PostgresStore" where
  "DispatchPendingV1Stops D remoteStop db =
     dispatch_stops D remoteStop (map wf_HALTransactionID (pg_ListV1DispatchableStops 100 db)) db"

definition v1DeadlineStopCause :: "string \<Rightarrow> string \<Rightarrow> string \<times> string" where
  "v1DeadlineStopCause source legacyLimitType =
     (if source = ''CUSTOMER_MONEY'' \<or> (source = '''' \<and> legacyLimitType = ''MONEY'')
      then (''MONEY_LIMIT'', ''money_limit_reached'')
      else if source = ''WALLET'' \<or> (source = '''' \<and> legacyLimitType = ''AUTO'')
      then (''WALLET_LIMIT'', ''wallet_limit_reached'')
      else (''TIME_LIMIT'', ''time_limit_reached''))"

text \<open>
  Durable projections of the physical connection that failed are kept by the HAL and retried;
  \<^verbatim>\<open>h.pendingRuntime\<close> is the association list \<open>pending\<close> by charger identity, whose order stands for
  the order in which Go iterates the map.
\<close>

record pendingRuntimeProjection =
  pr_identity :: string
  pr_generation :: int
  pr_online :: bool
  pr_observedAt :: gotime

type_synonym runtime_queue = "(string \<times> pendingRuntimeProjection) list"

definition persistRuntimeProjection ::
  "pg_env \<Rightarrow> pendingRuntimeProjection \<Rightarrow> runtime_queue \<times> PostgresStore \<Rightarrow> runtime_queue \<times> PostgresStore" where
  "persistRuntimeProjection E observation st =
     (case pg_RecordV1ChargerConnection E (pr_identity observation) (pr_generation observation) (pr_online observation)
             (pr_observedAt observation) (snd st) of
        (Inl err, db') \<Rightarrow>
          if err \<in> {ErrV1MappingNotFound, ErrV1CredentialRejected}
          then (filter (\<lambda>p. fst p \<noteq> pr_identity observation) (fst st), db')
          else ((pr_identity observation, observation) # filter (\<lambda>p. fst p \<noteq> pr_identity observation) (fst st), db')
      | (Inr _, db') \<Rightarrow> (filter (\<lambda>p. fst p \<noteq> pr_identity observation) (fst st), db'))"

definition retryRuntimeProjections ::
  "(string \<Rightarrow> pg_env) \<Rightarrow> runtime_queue \<times> PostgresStore \<Rightarrow> runtime_queue \<times> PostgresStore" where
  "retryRuntimeProjections Es st =
     fold (\<lambda>observation. persistRuntimeProjection (Es (pr_identity observation)) observation) (map snd (fst st)) st"

fun enforce_deadlines ::
  "(string \<Rightarrow> lifecycle_faults) \<Rightarrow> (string \<Rightarrow> pg_env) \<Rightarrow> (string \<Rightarrow> delivery_env) \<Rightarrow> (string \<Rightarrow> int \<Rightarrow> string res)
   \<Rightarrow> V1Transaction list \<Rightarrow> PostgresStore \<Rightarrow> (v1_error option \<times> string list) \<times> PostgresStore" where
  "enforce_deadlines F E D remoteStop [] db = ((None, []), db)"
| "enforce_deadlines F E D remoteStop (transaction # transactions) db =
     (let halID = tx_HALTransactionID transaction;
          (initiator, reason) = v1DeadlineStopCause (tx_DurationLimitSource transaction) (tx_LimitType transaction)
      in case pg_EnsureV1StopWorkflow (F halID) (E halID) halID initiator reason db of
           (Inl err, db1) \<Rightarrow> ((Some err, []), db1)
         | (Inr _, db1) \<Rightarrow>
             (let ((_, sent), db2) = DispatchV1Stop (D halID) remoteStop halID db1;
                  ((err, sent'), db3) = enforce_deadlines F E D remoteStop transactions db2
              in ((err, sent @ sent'), db3)))"

text \<open>
  \<^verbatim>\<open>EnforceV1Deadlines\<close>; \<open>D\<close> serves the dispatches of the loop and \<open>D'\<close> those of the final pass
  over the pending stops.
\<close>

record enforce_env =
  en_now :: gotime
  en_runtime :: "string \<Rightarrow> pg_env"
  en_faults :: "string \<Rightarrow> lifecycle_faults"
  en_ensure :: "string \<Rightarrow> pg_env"
  en_dispatch :: "string \<Rightarrow> delivery_env"
  en_pending :: "string \<Rightarrow> delivery_env"

definition EnforceV1Deadlines ::
  "enforce_env \<Rightarrow> (string \<Rightarrow> int \<Rightarrow> string res) \<Rightarrow> runtime_queue \<times> PostgresStore
   \<Rightarrow> (v1_error option \<times> string list) \<times> runtime_queue \<times> PostgresStore" where
  "EnforceV1Deadlines N remoteStop st =
     (let (queue, db) = retryRuntimeProjections (en_runtime N) st in
      case pg_ListV1OverdueTransactions (en_now N) 100 db of
        Inl err \<Rightarrow> ((Some err, []), queue, db)
      | Inr transactions \<Rightarrow>
          (case enforce_deadlines (en_faults N) (en_ensure N) (en_dispatch N) remoteStop transactions db of
             ((Some err, sent), db1) \<Rightarrow> ((Some err, sent), queue, db1)
           | ((None, sent), db1) \<Rightarrow>
               (let (sent', db2) = DispatchPendingV1Stops (en_pending N) remoteStop db1
                in ((None, sent @ sent'), queue, db2))))"

text \<open>
  \<^verbatim>\<open>RecoverV1Lifecycle\<close> at startup; its first stop dispatches use \<open>D\<close>. The charger operations
  recover with the method of their own component.
\<close>

definition RecoverV1Lifecycle ::
  "gotime \<Rightarrow> (string \<Rightarrow> delivery_env) \<Rightarrow> enforce_env \<Rightarrow> (string \<Rightarrow> int \<Rightarrow> string res) \<Rightarrow> runtime_queue \<times> PostgresStore
   \<Rightarrow> (v1_error option \<times> string list) \<times> runtime_queue \<times> PostgresStore" where
  "RecoverV1Lifecycle now D N remoteStop st =
     (let (queue, db) = st;
          db1 = pg_RecoverV1ChargerOperationDelivery now (pg_RecoverV1StopDelivery now (pg_RecoverV1CommandDelivery now db));
          (sent, db2) = DispatchPendingV1Stops D remoteStop db1;
          ((err, sent'), queue', db3) = EnforceV1Deadlines N remoteStop (queue, db2)
      in ((err, sent @ sent'), queue', db3))"

subsection \<open>Both deliveries follow the protocol\<close>

record mark_env =
  me_delivery :: delivery_env
  me_result :: string
  me_detail :: string

definition start_store :: "(mark_env, PostgresStore) two_phase_store" where
  "start_store = \<lparr>
     tp_Claim = (\<lambda>e i db. case pg_ClaimV1StartDelivery (env_now (de_claim (me_delivery e))) i db of
        (Inl err, db') \<Rightarrow> (Inl err, db') | (Inr (_, claimed), db') \<Rightarrow> (Inr claimed, db')),
     tp_Begin = (\<lambda>e i db. case pg_BeginV1CommandDelivery (env_now (de_begin (me_delivery e))) i db of
        (Inl err, db') \<Rightarrow> (Inl err, db') | (Inr _, db') \<Rightarrow> (Inr (), db')),
     tp_Mark = (\<lambda>e i status db. case pg_MarkV1CommandDelivery (de_mark (me_delivery e)) i status (me_result e) (me_detail e) db of
        (Inl err, db') \<Rightarrow> (Inl err, db') | (Inr _, db') \<Rightarrow> (Inr (), db')),
     tp_Recover = (\<lambda>e. pg_RecoverV1CommandDelivery (env_now (de_claim (me_delivery e))))\<rparr>"

definition stop_store :: "(mark_env, PostgresStore) two_phase_store" where
  "stop_store = \<lparr>
     tp_Claim = (\<lambda>e i db. case pg_ClaimV1StopDelivery (de_claimFaults (me_delivery e)) (env_now (de_claim (me_delivery e))) i db of
        (Inl err, db') \<Rightarrow> (Inl err, db') | (Inr (_, claimed), db') \<Rightarrow> (Inr claimed, db')),
     tp_Begin = (\<lambda>e i db. case pg_BeginV1StopDelivery (de_beginFaults (me_delivery e)) (env_now (de_begin (me_delivery e))) i db of
        (Inl err, db') \<Rightarrow> (Inl err, db') | (Inr _, db') \<Rightarrow> (Inr (), db')),
     tp_Mark = (\<lambda>e i status db. case pg_MarkV1StopDelivery (de_markFaults (me_delivery e)) (de_mark (me_delivery e)) i status
          (me_result e) (me_detail e) db of
        (Inl err, db') \<Rightarrow> (Inl err, db') | (Inr _, db') \<Rightarrow> (Inr (), db')),
     tp_Recover = (\<lambda>e. pg_RecoverV1StopDelivery (env_now (de_claim (me_delivery e))))\<rparr>"

definition beside_start :: "PostgresStore \<Rightarrow> PostgresStore \<Rightarrow> bool" where
  "beside_start db db' \<longleftrightarrow> lifecycle_step db db' \<or> stop_delivery_step db db' \<or> outer_step db db'"

definition beside_stop :: "PostgresStore \<Rightarrow> PostgresStore \<Rightarrow> bool" where
  "beside_stop db db' \<longleftrightarrow> lifecycle_step db db' \<or> start_delivery_step db db' \<or> outer_step db db'"

lemma life_kept_inv: "life_kept db db' \<Longrightarrow> life_inv db \<Longrightarrow> life_inv db'"
  by (simp add: life_kept_def)

lemma ClaimV1Start_claimed:
  assumes "life_inv db" and "pg_ClaimV1StartDelivery now i db = (Inr (c, True), db')"
  shows "start_state db i = Some ''PERSISTED''"
proof -
  have "distinct (map command_key (db_commands db))"
    using assms(1) by (simp add: life_inv_def life_core_def keys_inv_def)
  from sql_count_key [OF this, of i "\<lambda>r. cmd_Kind (cr_Command r) = ''START'' \<and> cmd_State (cr_Command r) = ''PERSISTED''"]
  have "sql_count (start_in i ''PERSISTED'') (db_commands db) = (case sql_row command_key i (db_commands db) of None \<Rightarrow> 0
      | Some r \<Rightarrow> if cmd_Kind (cr_Command r) = ''START'' \<and> cmd_State (cr_Command r) = ''PERSISTED'' then 1 else 0)"
    by (simp add: start_in_def [abs_def])
  moreover have "sql_count (start_in i ''PERSISTED'') (db_commands db) = 1"
    using assms(2) by (auto simp: pg_ClaimV1StartDelivery_def Let_def split: sum.splits)
  ultimately show ?thesis by (auto simp: start_state_def split: option.splits if_splits)
qed

interpretation start_delivery: two_phase start_store beside_start start_state life_inv
proof
  fix s s' e i j r u status
  assume inv: "life_inv s"
  show "start_state s' j = start_state s j \<and> r \<noteq> Inr True
      \<or> j \<noteq> i \<and> start_state s' j = start_state s j
      \<or> j = i \<and> start_state s i = Some ''PERSISTED'' \<and> start_state s' i = Some ''PENDING_DELIVERY''"
    if "tp_Claim start_store e i s = (r, s')"
  proof -
    obtain c db' where c: "pg_ClaimV1StartDelivery (env_now (de_claim (me_delivery e))) i s = (c, db')" by force
    with that have s': "s' = db'" and r: "r = Inr True \<Longrightarrow> \<exists>w. c = Inr (w, True)"
      by (auto simp: start_store_def split: sum.splits)
    then show ?thesis using ClaimV1Start_states(1) [OF c, of j] ClaimV1Start_claimed [OF inv] c by auto
  qed
  show "start_state s' j = start_state s j \<and> (j = i \<and> u = Inr () \<longrightarrow> start_state s j \<noteq> Some ''PENDING_DELIVERY'')
      \<or> j = i \<and> start_state s i = Some ''PENDING_DELIVERY'' \<and> start_state s' i = Some ''DELIVERY_ATTEMPTED''"
    if b: "tp_Begin start_store e i s = (u, s')"
  proof -
    obtain c where "pg_BeginV1CommandDelivery (env_now (de_begin (me_delivery e))) i s = (c, s')"
      using b by (auto simp: start_store_def split: prod.splits sum.splits)
    from BeginV1Command_states(1) [OF this, of j] show ?thesis by auto
  qed
  show "start_state s' j = start_state s j \<or> j = i \<and> settled (start_state s' j)"
    if b: "tp_Mark start_store e i status s = (u, s')"
  proof -
    obtain c where "pg_MarkV1CommandDelivery (de_mark (me_delivery e)) i status (me_result e) (me_detail e) s = (c, s')"
      using b by (auto simp: start_store_def split: prod.splits sum.splits)
    from MarkV1Command_states(1) [OF this, of j] show ?thesis .
  qed
  show "row_moves (start_state s j) (start_state s' j)" if "beside_start s s'"
    using that lifecycle_step_moves outer_step_moves stop_delivery_keeps_starts by (auto simp: beside_start_def rows_move_def)
  show "life_inv s'" if "tp_Claim start_store e i s = (r, s')"
    using that inv life_kept_inv ClaimV1Start_kept [of s "env_now (de_claim (me_delivery e))" i]
    by (auto simp: start_store_def split: prod.splits sum.splits)
  show "life_inv s'" if "tp_Begin start_store e i s = (u, s')"
    using that inv life_kept_inv BeginV1Command_kept [of s "env_now (de_begin (me_delivery e))" i]
    by (auto simp: start_store_def split: prod.splits sum.splits)
  show "life_inv s'" if "tp_Mark start_store e i status s = (u, s')"
    using that inv life_kept_inv MarkV1Command_kept [of s "de_mark (me_delivery e)" i status "me_result e" "me_detail e"]
    by (auto simp: start_store_def split: prod.splits sum.splits)
  show "life_inv (tp_Recover start_store e s)"
    using life_kept_inv [OF RecoverV1Command_kept inv] by (simp add: start_store_def)
  show "life_inv s'" if "beside_start s s'"
    using that life_kept_inv [OF pg_step_life inv] by (auto simp: beside_start_def pg_step_def)
qed (simp add: start_store_def RecoverV1Command_states)

interpretation stop_delivery: two_phase stop_store beside_stop stop_state life_inv
proof
  fix s s' e i j r u status
  assume inv: "life_inv s"
  show "stop_state s' j = stop_state s j \<and> r \<noteq> Inr True
      \<or> j \<noteq> i \<and> stop_state s' j = stop_state s j
      \<or> j = i \<and> stop_state s i = Some ''PERSISTED'' \<and> stop_state s' i = Some ''PENDING_DELIVERY''"
    if "tp_Claim stop_store e i s = (r, s')"
  proof -
    obtain c db' where c: "pg_ClaimV1StopDelivery (de_claimFaults (me_delivery e)) (env_now (de_claim (me_delivery e))) i s = (c, db')"
      by force
    with that have s': "s' = db'" and r: "r = Inr True \<Longrightarrow> \<exists>w. c = Inr (w, True)"
      by (auto simp: stop_store_def split: sum.splits)
    then show ?thesis using ClaimV1Stop_states(1) [OF c, of j] by auto
  qed
  show "stop_state s' j = stop_state s j \<and> (j = i \<and> u = Inr () \<longrightarrow> stop_state s j \<noteq> Some ''PENDING_DELIVERY'')
      \<or> j = i \<and> stop_state s i = Some ''PENDING_DELIVERY'' \<and> stop_state s' i = Some ''DELIVERY_ATTEMPTED''"
    if "tp_Begin stop_store e i s = (u, s')"
  proof -
    obtain c db' where c: "pg_BeginV1StopDelivery (de_beginFaults (me_delivery e)) (env_now (de_begin (me_delivery e))) i s = (c, db')"
      by force
    with that have s': "s' = db'" and r: "u = Inr () \<Longrightarrow> \<exists>w. c = Inr w" by (auto simp: stop_store_def split: sum.splits)
    then show ?thesis using BeginV1Stop_states(1) [OF c inv, of j] by auto
  qed
  show "stop_state s' j = stop_state s j \<or> j = i \<and> settled (stop_state s' j)"
    if b: "tp_Mark stop_store e i status s = (u, s')"
  proof -
    obtain c where "pg_MarkV1StopDelivery (de_markFaults (me_delivery e)) (de_mark (me_delivery e)) i status (me_result e) (me_detail e) s = (c, s')"
      using b by (auto simp: stop_store_def split: prod.splits sum.splits)
    from MarkV1Stop_states(1) [OF this, of j] show ?thesis .
  qed
  show "row_moves (stop_state s j) (stop_state s' j)" if "beside_stop s s'"
    using that lifecycle_step_moves outer_step_moves start_delivery_keeps_stops by (auto simp: beside_stop_def rows_move_def)
  show "life_inv s'" if "tp_Claim stop_store e i s = (r, s')"
    using that inv life_kept_inv ClaimV1StopDelivery_kept [of s "de_claimFaults (me_delivery e)" "env_now (de_claim (me_delivery e))" i]
    by (auto simp: stop_store_def split: prod.splits sum.splits)
  show "life_inv s'" if "tp_Begin stop_store e i s = (u, s')"
    using that inv life_kept_inv BeginV1StopDelivery_kept [of s "de_beginFaults (me_delivery e)" "env_now (de_begin (me_delivery e))" i]
    by (auto simp: stop_store_def split: prod.splits sum.splits)
  show "life_inv s'" if "tp_Mark stop_store e i status s = (u, s')"
    using that inv life_kept_inv MarkV1StopDelivery_kept [of s "de_markFaults (me_delivery e)" "de_mark (me_delivery e)" i status "me_result e" "me_detail e"]
    by (auto simp: stop_store_def split: prod.splits sum.splits)
  show "life_inv (tp_Recover stop_store e s)"
    using life_kept_inv [OF RecoverV1StopDelivery_kept inv] by (simp add: stop_store_def)
  show "life_inv s'" if "beside_stop s s'"
    using that life_kept_inv [OF pg_step_life inv] by (auto simp: beside_stop_def pg_step_def)
qed (simp add: stop_store_def RecoverV1Stop_states)

subsection \<open>The handlers are runs of the protocol\<close>

abbreviation start_steps :: "PostgresStore delivery \<Rightarrow> PostgresStore delivery \<Rightarrow> bool" where
  "start_steps \<equiv> (delivery_step start_store beside_start)\<^sup>*\<^sup>*"

abbreviation stop_steps :: "PostgresStore delivery \<Rightarrow> PostgresStore delivery \<Rightarrow> bool" where
  "stop_steps \<equiv> (delivery_step stop_store beside_stop)\<^sup>*\<^sup>*"

lemma claimed_run:
  assumes "tp_Claim St e i s = (Inr True, s1)" and "tp_Begin St e i s1 = (Inr (), s2)" and "tp_Mark St e' i status s2 = (r, s3)"
  shows "(delivery_step St other)\<^sup>*\<^sup>* (s, hs, wire) (s3, hs, wire @ [i])" and "(delivery_step St other)\<^sup>*\<^sup>* (s, hs, wire) (s3, hs, wire)"
    and "(delivery_step St other)\<^sup>*\<^sup>* (s, hs, wire) (s2, hs, wire)"
proof -
  have c: "delivery_step St other (s, hs, wire) (s1, add_mset (i, Claimed) hs, wire)"
    using delivery_step.claim [OF assms(1)] by simp
  note b = delivery_step.begin_ok [OF assms(2)] and m = delivery_step.mark [OF assms(3)]
  have cb: "(delivery_step St other)\<^sup>*\<^sup>* (s, hs, wire) (s2, add_mset (i, Begun) hs, wire)"
    using c b by (meson rtranclp.rtrancl_into_rtrancl rtranclp.rtrancl_refl)
  show "(delivery_step St other)\<^sup>*\<^sup>* (s, hs, wire) (s3, hs, wire @ [i])"
    using cb delivery_step.send m by (meson rtranclp.rtrancl_into_rtrancl)
  show "(delivery_step St other)\<^sup>*\<^sup>* (s, hs, wire) (s3, hs, wire)"
    using cb delivery_step.skip m by (meson rtranclp.rtrancl_into_rtrancl)
  show "(delivery_step St other)\<^sup>*\<^sup>* (s, hs, wire) (s2, hs, wire)"
    using cb delivery_step.abandon by (meson rtranclp.rtrancl_into_rtrancl)
qed

lemma unclaimed_run:
  assumes "tp_Claim St e i s = (r, s1)" and "r \<noteq> Inr True"
  shows "(delivery_step St other)\<^sup>*\<^sup>* (s, hs, wire) (s1, hs, wire)"
  using delivery_step.claim [OF assms(1), of other hs wire] assms(2) by simp

lemma unbegun_run:
  assumes "tp_Claim St e i s = (Inr True, s1)" and "tp_Begin St e i s1 = (Inl err, s2)"
  shows "(delivery_step St other)\<^sup>*\<^sup>* (s, hs, wire) (s2, hs, wire)"
proof -
  have "delivery_step St other (s, hs, wire) (s1, add_mset (i, Claimed) hs, wire)"
    using delivery_step.claim [OF assms(1)] by simp
  moreover have "delivery_step St other (s1, add_mset (i, Claimed) hs, wire) (s2, hs, wire)"
    by (rule delivery_step.begin_error [OF assms(2)])
  ultimately show ?thesis by (meson rtranclp.rtrancl_into_rtrancl rtranclp.rtrancl_refl)
qed

lemma v1Start_deliver_run:
  assumes "v1Start_deliver D remoteStart req db = ((r, sent), db')"
  shows "start_steps (db, hs, wire) (db', hs, wire @ sent)"
proof -
  let ?i = "stin_CMSCommandID req"
  define e where "e result detail = \<lparr>me_delivery = D, me_result = result, me_detail = detail\<rparr>" for result detail
  obtain c db1 where c: "pg_ClaimV1StartDelivery (env_now (de_claim D)) ?i db = (c, db1)" by force
  obtain b db2 where b: "pg_BeginV1CommandDelivery (env_now (de_begin D)) ?i db1 = (b, db2)" by force
  have claim: "tp_Claim start_store (e x y) ?i db = (case c of Inl err \<Rightarrow> Inl err | Inr (_, claimed) \<Rightarrow> Inr claimed, db1)" for x y
    using c by (simp add: start_store_def e_def split: sum.splits prod.splits)
  have "begin": "tp_Begin start_store (e x y) ?i db1 = (case b of Inl err \<Rightarrow> Inl err | Inr _ \<Rightarrow> Inr (), db2)" for x y
    using b by (simp add: start_store_def e_def split: sum.splits)
  have mark: "\<exists>u. tp_Mark start_store (e x y) ?i status db2 = (u, s)"
    if "pg_MarkV1CommandDelivery (de_mark D) ?i status x y db2 = (v, s)" for status x y v s
    using that by (cases v) (auto simp: start_store_def e_def)
  consider (unclaimed) "\<forall>w. c \<noteq> Inr (w, True)" | (unbegun) w err where "c = Inr (w, True)" "b = Inl err"
    | (sent) w v where "c = Inr (w, True)" "b = Inr v" by (cases b) auto
  then show ?thesis
  proof cases
    case unclaimed
    then have "sent = [] \<and> db' = db1" using assms c by (auto simp: v1Start_deliver_def Let_def split: sum.splits if_splits)
    moreover have "(case c of Inl err \<Rightarrow> Inl err | Inr (_, claimed) \<Rightarrow> Inr claimed) \<noteq> Inr True"
      using unclaimed by (auto split: sum.splits)
    ultimately show ?thesis using unclaimed_run [OF claim] by simp
  next
    case unbegun
    then have "sent = [] \<and> db' = db2" using assms c b by (auto simp: v1Start_deliver_def Let_def)
    then show ?thesis using unbegun_run [of start_store "e [] []" ?i db db1 err db2] claim "begin" unbegun by simp
  next
    case sent
    then obtain status x y where "pg_MarkV1CommandDelivery (de_mark D) ?i status x y db2 = (r, db')" and wire: "sent = [?i]"
      using assms c b by (auto simp: v1Start_deliver_def Let_def split: sum.splits prod.splits)
    then obtain u where "tp_Mark start_store (e x y) ?i status db2 = (u, db')" using mark by blast
    then show ?thesis
      using claimed_run(1) [of start_store "e x y" ?i db db1 db2] claim "begin" sent wire by simp
  qed
qed

lemma DispatchV1Stop_run:
  assumes "DispatchV1Stop D remoteStop i db = ((r, sent), db')"
  shows "stop_steps (db, hs, wire) (db', hs, wire @ sent)"
proof -
  define e where "e result detail = \<lparr>me_delivery = D, me_result = result, me_detail = detail\<rparr>" for result detail
  obtain c db1 where c: "pg_ClaimV1StopDelivery (de_claimFaults D) (env_now (de_claim D)) i db = (c, db1)" by force
  obtain b db2 where b: "pg_BeginV1StopDelivery (de_beginFaults D) (env_now (de_begin D)) i db1 = (b, db2)" by force
  have claim: "tp_Claim stop_store (e x y) i db = (case c of Inl err \<Rightarrow> Inl err | Inr (_, claimed) \<Rightarrow> Inr claimed, db1)" for x y
    using c by (simp add: stop_store_def e_def split: sum.splits prod.splits)
  have "begin": "tp_Begin stop_store (e x y) i db1 = (case b of Inl err \<Rightarrow> Inl err | Inr _ \<Rightarrow> Inr (), db2)" for x y
    using b by (simp add: stop_store_def e_def split: sum.splits)
  have mark: "\<exists>u. tp_Mark stop_store (e x y) i status db2 = (u, s)"
    if "pg_MarkV1StopDelivery (de_markFaults D) (de_mark D) i status x y db2 = (v, s)" for status x y v s
    using that by (cases v) (auto simp: stop_store_def e_def)
  consider (unclaimed) "\<forall>w. c \<noteq> Inr (w, True)" | (unbegun) w err where "c = Inr (w, True)" "b = Inl err"
    | (begun) w v where "c = Inr (w, True)" "b = Inr v" by (cases b) auto
  then show ?thesis
  proof cases
    case unclaimed
    then have "sent = [] \<and> db' = db1" using assms c by (auto simp: DispatchV1Stop_def split: sum.splits if_splits)
    moreover have "(case c of Inl err \<Rightarrow> Inl err | Inr (_, claimed) \<Rightarrow> Inr claimed) \<noteq> Inr True"
      using unclaimed by (auto split: sum.splits)
    ultimately show ?thesis using unclaimed_run [OF claim] by simp
  next
    case unbegun
    then have "sent = [] \<and> db' = db2" using assms c b by (auto simp: DispatchV1Stop_def)
    then show ?thesis using unbegun_run [of stop_store "e [] []" i db db1 err db2] claim "begin" unbegun by simp
  next
    case begun
    then have "sent = [] \<and> db' = db2 \<or> (\<exists>status x y. pg_MarkV1StopDelivery (de_markFaults D) (de_mark D) i status x y db2 = (r, db')
        \<and> (sent = [i] \<or> sent = []))"
      using assms c b by (auto simp: DispatchV1Stop_def Let_def split: sum.splits prod.splits if_splits)
    then show ?thesis
    proof (elim disjE exE conjE)
      assume "sent = []" "db' = db2"
      moreover obtain u s where "tp_Mark stop_store (e [] []) i [] db2 = (u, s)" by force
      ultimately show ?thesis using claimed_run(3) [of stop_store "e [] []" i db db1 db2] claim "begin" begun by simp
    next
      fix status x y assume m: "pg_MarkV1StopDelivery (de_markFaults D) (de_mark D) i status x y db2 = (r, db')" and s: "sent = [i]"
      obtain u where "tp_Mark stop_store (e x y) i status db2 = (u, db')" using mark [OF m] by blast
      then show ?thesis using claimed_run(1) [of stop_store "e x y" i db db1 db2] claim "begin" begun s by simp
    next
      fix status x y assume m: "pg_MarkV1StopDelivery (de_markFaults D) (de_mark D) i status x y db2 = (r, db')" and s: "sent = []"
      obtain u where "tp_Mark stop_store (e x y) i status db2 = (u, db')" using mark [OF m] by blast
      then show ?thesis using claimed_run(2) [of stop_store "e x y" i db db1 db2] claim "begin" begun s by simp
    qed
  qed
qed

lemma beside_stop_step: "beside_stop db db' \<Longrightarrow> stop_steps (db, hs, wire) (db', hs, wire)"
  by (intro r_into_rtranclp delivery_step.other)

lemma dispatch_stops_run: "dispatch_stops D remoteStop is db = (sent, db') \<Longrightarrow> stop_steps (db, hs, wire) (db', hs, wire @ sent)"
proof (induction "is" arbitrary: db sent wire)
  case (Cons i "is")
  obtain r s1 db1 where d: "DispatchV1Stop (D i) remoteStop i db = ((r, s1), db1)" by (metis prod.exhaust)
  obtain s2 where "dispatch_stops D remoteStop is db1 = (s2, db')" and sent: "sent = s1 @ s2"
    using Cons.prems d by (auto split: prod.splits)
  with Cons.IH [of db1 s2 "wire @ s1"] DispatchV1Stop_run [OF d, of hs wire] show ?case by simp
qed simp

lemma persist_step: "outer_step (snd st) (snd (persistRuntimeProjection E observation st))"
proof -
  have "snd (persistRuntimeProjection E observation st) = snd (pg_RecordV1ChargerConnection E (pr_identity observation)
      (pr_generation observation) (pr_online observation) (pr_observedAt observation) (snd st))"
    by (auto simp: persistRuntimeProjection_def split: prod.splits sum.splits)
  then show ?thesis using outer_step.connection by simp
qed

lemma retry_projections_run: "stop_steps (snd st, hs, wire) (snd (retryRuntimeProjections Es st), hs, wire)"
proof -
  have "stop_steps (snd st, hs, wire)
      (snd (fold (\<lambda>observation. persistRuntimeProjection (Es (pr_identity observation)) observation) obs st), hs, wire)" for obs
  proof (induction obs arbitrary: st)
    case (Cons o' obs)
    have "stop_steps (snd st, hs, wire) (snd (persistRuntimeProjection (Es (pr_identity o')) o' st), hs, wire)"
      using persist_step by (intro beside_stop_step) (simp add: beside_stop_def)
    from rtranclp_trans [OF this Cons.IH] show ?case by simp
  qed simp
  then show ?thesis by (simp add: retryRuntimeProjections_def)
qed

lemma enforce_deadlines_run:
  "enforce_deadlines F E D remoteStop ts db = ((err, sent), db') \<Longrightarrow> stop_steps (db, hs, wire) (db', hs, wire @ sent)"
proof (induction ts arbitrary: db sent wire)
  case (Cons t ts)
  let ?i = "tx_HALTransactionID t"
  obtain initiator reason where cause: "v1DeadlineStopCause (tx_DurationLimitSource t) (tx_LimitType t) = (initiator, reason)" by force
  obtain c db1 where c: "pg_EnsureV1StopWorkflow (F ?i) (E ?i) ?i initiator reason db = (c, db1)" by force
  have "beside_stop db db1" using lifecycle_step.ensure_stop [of db "F ?i" "E ?i" ?i initiator reason] c by (simp add: beside_stop_def)
  note one = beside_stop_step [OF this, of hs wire]
  show ?case
  proof (cases c)
    case (Inl x)
    then show ?thesis using Cons.prems cause c one by (auto simp: Let_def)
  next
    case (Inr x)
    obtain r s1 db2 where d: "DispatchV1Stop (D ?i) remoteStop ?i db1 = ((r, s1), db2)" by (metis prod.exhaust)
    obtain s2 where rest: "enforce_deadlines F E D remoteStop ts db2 = ((err, s2), db')" and sent: "sent = s1 @ s2"
      using Cons.prems cause c Inr d by (auto simp: Let_def split: prod.splits)
    show ?thesis
      using one DispatchV1Stop_run [OF d, of hs wire] Cons.IH [OF rest, of "wire @ s1"] sent by simp
  qed
qed simp

lemma EnforceV1Deadlines_run:
  assumes "EnforceV1Deadlines N remoteStop st = ((err, sent), queue', db')"
  shows "stop_steps (snd st, hs, wire) (db', hs, wire @ sent)"
proof -
  obtain queue db where q: "retryRuntimeProjections (en_runtime N) st = (queue, db)" by force
  note start = retry_projections_run [of st hs wire "en_runtime N", unfolded q snd_conv]
  show ?thesis
  proof (cases "pg_ListV1OverdueTransactions (en_now N) 100 db")
    case (Inl e)
    then show ?thesis using assms q start by (auto simp: EnforceV1Deadlines_def)
  next
    case (Inr ts)
    obtain o' s1 db1 where l: "enforce_deadlines (en_faults N) (en_ensure N) (en_dispatch N) remoteStop ts db = ((o', s1), db1)"
      by (metis prod.exhaust)
    note mid = enforce_deadlines_run [OF l, of hs wire]
    show ?thesis
    proof (cases o')
      case (Some e)
      then show ?thesis using assms q Inr l start mid by (auto simp: EnforceV1Deadlines_def)
    next
      case None
      obtain s2 db2 where p: "DispatchPendingV1Stops (en_pending N) remoteStop db1 = (s2, db2)" by force
      have "stop_steps (db1, hs, wire @ s1) (db2, hs, (wire @ s1) @ s2)"
        using dispatch_stops_run p unfolding DispatchPendingV1Stops_def by blast
      then show ?thesis using assms q Inr l None p start mid by (auto simp: EnforceV1Deadlines_def)
    qed
  qed
qed

subsection \<open>The outcome of a dispatched stop\<close>

lemma getTransaction_frame:
  "db_transactions db' = db_transactions db \<Longrightarrow> getV1TransactionByID i db' = getV1TransactionByID i db"
  by (simp add: getV1TransactionByID_def getV1TransactionBy_def)

lemma pg_Get_is_getByID: "pg_GetV1Transaction i db = getV1TransactionByID i db"
  by (simp add: pg_GetV1Transaction_def getV1TransactionByID_def)

lemma delivery_transactions:
  "db_transactions (snd (pg_ClaimV1StopDelivery F now i db)) = db_transactions db"
  "db_transactions (snd (pg_BeginV1StopDelivery F now i db)) = db_transactions db"
proof -
  show "db_transactions (snd (pg_ClaimV1StopDelivery F now i db)) = db_transactions db"
    unfolding pg_ClaimV1StopDelivery_def
    by (subst tx_bind_state, simp split: sum.splits, rule with_rel) (auto split: sum.splits if_splits)
  show "db_transactions (snd (pg_BeginV1StopDelivery F now i db)) = db_transactions db"
    unfolding pg_BeginV1StopDelivery_def
    by (subst tx_bind_state, simp, rule with_rel) (auto split: sum.splits if_splits)
qed

lemma insert_command_facts_workflows:
  "insert_command_facts E k ids db = (Inr u, db') \<Longrightarrow> db_workflows db' = db_workflows db"
proof (induction E k ids db rule: insert_command_facts.induct)
  case (2 E k i ids db)
  then show ?case using insertV1FactTx_frame by (fastforce simp: tx_bind_Inr split: sum.splits)
qed simp

lemma MarkV1Stop_open:
  assumes "pg_MarkV1StopDelivery F E i status result detail db = (Inr w, db')"
    and "pg_GetV1Transaction i db = Inr t" and "tx_CompletedAt t = None" and "stop_state db i = Some ''DELIVERY_ATTEMPTED''"
  shows "wf_State w = fst (delivery_outcome status)" and "stop_state db' i = Some (wf_State w)"
proof -
  obtain state category where oc: "delivery_outcome status = (state, category)" by force
  obtain r where r: "sql_row workflow_key i (db_workflows db) = Some r" "wf_State (wr_Workflow r) = ''DELIVERY_ATTEMPTED''"
    using assms(4) by (auto simp: stop_state_def)
  have lock: "lockV1StopLifecycleRows i db = Inr (t, Some (wr_Workflow r))"
    using assms(2) r by (simp add: lockV1StopLifecycleRows_def pg_Get_is_getByID)
  have get: "pg_GetV1StopWorkflow i db' = Inr w"
    and "\<exists>u. withV1StopLifecycleTransaction F (mark_stop_tx E i state category result detail) db = (Inr u, db')"
    using assms(1) oc
    by (cases "withV1StopLifecycleTransaction F (mark_stop_tx E i state category result detail) db";
        auto simp: pg_MarkV1StopDelivery_def tx_bind_def split: sum.splits)+
  then have "\<exists>u. mark_stop_tx E i state category result detail db = (Inr u, db')"
    by (auto elim: with_all_or_nothing)
  then have ws: "db_workflows db' = sql_update (\<lambda>r. workflow_key r = i \<and> wf_State (wr_Workflow r) \<notin> {''COMPLETED'', ''SUPERSEDED''})
      (mark_workflow (env_now E) state result category detail) (db_workflows db)"
    using lock assms(3) r(2) by (auto simp: mark_stop_tx_def Let_def dest!: insert_command_facts_workflows)
  have "sql_row workflow_key i (db_workflows db') = Some (mark_workflow (env_now E) state result category detail r)"
    unfolding ws using r sql_row_SomeD [OF r(1)] by (simp add: sql_row_update)
  with get oc show "wf_State w = fst (delivery_outcome status)" and "stop_state db' i = Some (wf_State w)"
    by (auto simp: pg_GetV1StopWorkflow_def stop_state_def mark_workflow_def workflow_update_def)
qed

lemma DispatchV1Stop_sent:
  assumes "DispatchV1Stop D remoteStop i db = ((Inr w, [i]), db')" and "life_inv db"
  obtains t where "pg_GetV1Transaction i db = Inr t" and "tx_CompletedAt t = None" and "stop_state db i = Some ''PERSISTED''"
    and "wf_State w = fst (delivery_outcome (case remoteStop (tx_ChargerOCPPIdentity t) (tx_OCPPTransactionID t) of
          Inl _ \<Rightarrow> ''AMBIGUOUS'' | Inr status \<Rightarrow> status))"
    and "stop_state db' i = Some (wf_State w)"
proof -
  obtain c v db1 db2 where c: "pg_ClaimV1StopDelivery (de_claimFaults D) (env_now (de_claim D)) i db = (Inr (c, True), db1)"
    and b: "pg_BeginV1StopDelivery (de_beginFaults D) (env_now (de_begin D)) i db1 = (Inr v, db2)"
    using assms(1) by (auto simp: DispatchV1Stop_def split: prod.splits sum.splits if_splits)
  then obtain t status result detail where t: "pg_GetV1Transaction i db2 = Inr t" "tx_CompletedAt t = None"
    and m: "pg_MarkV1StopDelivery (de_markFaults D) (de_mark D) i status result detail db2 = (Inr w, db')"
    and st: "status = (case remoteStop (tx_ChargerOCPPIdentity t) (tx_OCPPTransactionID t) of Inl _ \<Rightarrow> ''AMBIGUOUS'' | Inr status \<Rightarrow> status)"
    using assms(1) by (auto simp: DispatchV1Stop_def Let_def split: prod.splits sum.splits if_splits)
  have pers: "stop_state db i = Some ''PERSISTED''" "stop_state db1 i = Some ''PENDING_DELIVERY''"
    using ClaimV1Stop_states(1) [OF c, of i] by auto
  have inv1: "life_inv db1"
    using life_kept_inv [OF ClaimV1StopDelivery_kept assms(2), of "de_claimFaults D" "env_now (de_claim D)" i] c by simp
  have att: "stop_state db2 i = Some ''DELIVERY_ATTEMPTED''"
    using BeginV1Stop_states(1) [OF b inv1, of i] pers(2) by auto
  have "db_transactions db2 = db_transactions db"
    using delivery_transactions(1) [of "de_claimFaults D" "env_now (de_claim D)" i db]
      delivery_transactions(2) [of "de_beginFaults D" "env_now (de_begin D)" i db1] c b by simp
  then have "pg_GetV1Transaction i db = Inr t"
    using t(1) by (simp add: pg_Get_is_getByID getTransaction_frame [of db2 db])
  with MarkV1Stop_open [OF m t att] t(2) pers(1) st show thesis by (intro that) auto
qed

subsection \<open>An undisturbed dispatch\<close>

lemma no_faults_commit: "operation db = (Inr x, db') \<Longrightarrow> withV1StopLifecycleTransaction no_faults operation db = (Inr x, db')"
  by (subst no_faults_run) (simp_all add: pg_tx_def)

lemma stop_row:
  assumes "stop_state db i = Some a"
  obtains r where "sql_row workflow_key i (db_workflows db) = Some r" "wf_State (wr_Workflow r) = a" "workflow_key r = i"
proof -
  obtain r where r: "sql_row workflow_key i (db_workflows db) = Some r" "wf_State (wr_Workflow r) = a"
    using assms by (auto simp: stop_state_def)
  then show thesis using sql_row_SomeD [OF r(1)] that by blast
qed

lemma GetV1StopWorkflow_present: "stop_state db i \<noteq> None \<Longrightarrow> \<exists>w. pg_GetV1StopWorkflow i db = Inr w"
  by (auto simp: stop_state_def pg_GetV1StopWorkflow_def)

lemma stop_lock:
  assumes "pg_GetV1Transaction i db = Inr t" and "stop_state db i = Some a"
  obtains w where "lockV1StopLifecycleRows i db = Inr (t, Some w)" and "wf_State w = a"
  using assms by (auto simp: lockV1StopLifecycleRows_def pg_Get_is_getByID elim: stop_row)

lemma undisturbed_claim:
  assumes t: "pg_GetV1Transaction i db = Inr t" "tx_CompletedAt t = None" and st: "stop_state db i = Some ''PERSISTED''" and inv: "life_inv db"
  obtains w db1 where "pg_ClaimV1StopDelivery no_faults now i db = (Inr (w, True), db1)"
proof -
  let ?op = "\<lambda>db. case lockV1StopLifecycleRows i db of
           Inl err \<Rightarrow> (Inl err, db)
         | Inr rows \<Rightarrow>
             if \<not> workflow_ready ''PERSISTED'' rows then (Inr False, db)
             else (Inr (sql_count (workflow_in i ''PERSISTED'') (db_workflows db) = 1),
               db\<lparr>db_workflows := sql_update (workflow_in i ''PERSISTED'')
                  (workflow_update now ''PENDING_DELIVERY'' (Some (now + 30 * duration_second))) (db_workflows db)\<rparr>)"
  let ?db1 = "db\<lparr>db_workflows := sql_update (workflow_in i ''PERSISTED'')
                  (workflow_update now ''PENDING_DELIVERY'' (Some (now + 30 * duration_second))) (db_workflows db)\<rparr>"
  obtain w where lock: "lockV1StopLifecycleRows i db = Inr (t, Some w)" "wf_State w = ''PERSISTED''" using stop_lock [OF t(1) st] .
  obtain r where r: "sql_row workflow_key i (db_workflows db) = Some r" "wf_State (wr_Workflow r) = ''PERSISTED''"
    using stop_row [OF st] .
  have "distinct (map workflow_key (db_workflows db))" using inv by (simp add: life_inv_def life_core_def keys_inv_def)
  from sql_count_key [OF this, of i "\<lambda>r. wf_State (wr_Workflow r) = ''PERSISTED''"] r
  have "sql_count (workflow_in i ''PERSISTED'') (db_workflows db) = 1" by (simp add: workflow_in_def [abs_def])
  then have "?op db = (Inr True, ?db1)" using lock t(2) by (simp add: workflow_ready_def)
  then have run: "withV1StopLifecycleTransaction no_faults ?op db = (Inr True, ?db1)" by (rule no_faults_commit)
  have "stop_state ?db1 i = Some ''PENDING_DELIVERY''" by (subst stop_state_guarded) (simp_all add: workflow_update_def st)
  then obtain w' where "pg_GetV1StopWorkflow i ?db1 = Inr w'" using GetV1StopWorkflow_present by blast
  with run show thesis by (intro that [of w' ?db1]) (simp add: pg_ClaimV1StopDelivery_def tx_bind_def)
qed

lemma undisturbed_begin:
  assumes t: "pg_GetV1Transaction i db = Inr t" "tx_CompletedAt t = None" and st: "stop_state db i = Some ''PENDING_DELIVERY''"
  obtains w db1 where "pg_BeginV1StopDelivery no_faults now i db = (Inr w, db1)"
proof -
  let ?f = "\<lambda>r. workflow_update now ''DELIVERY_ATTEMPTED'' (Some (now + 2 * duration_minute))
                    (r\<lparr>wr_Workflow := (wr_Workflow r)\<lparr>wf_DeliveryAttempts := wf_DeliveryAttempts (wr_Workflow r) + 1\<rparr>\<rparr>)"
  let ?op = "\<lambda>db. case lockV1StopLifecycleRows i db of
           Inl err \<Rightarrow> (Inl err, db)
         | Inr rows \<Rightarrow>
             if \<not> workflow_ready ''PENDING_DELIVERY'' rows then (Inr (), db)
             else (Inr (), db\<lparr>db_workflows := sql_update (workflow_in i ''PENDING_DELIVERY'') ?f (db_workflows db)\<rparr>)"
  let ?db1 = "db\<lparr>db_workflows := sql_update (workflow_in i ''PENDING_DELIVERY'') ?f (db_workflows db)\<rparr>"
  obtain w where lock: "lockV1StopLifecycleRows i db = Inr (t, Some w)" "wf_State w = ''PENDING_DELIVERY''" using stop_lock [OF t(1) st] .
  then have "?op db = (Inr (), ?db1)" using t(2) by (simp add: workflow_ready_def)
  then have run: "withV1StopLifecycleTransaction no_faults ?op db = (Inr (), ?db1)" by (rule no_faults_commit)
  have "stop_state ?db1 i = Some ''DELIVERY_ATTEMPTED''" by (subst stop_state_guarded) (simp_all add: workflow_update_def st)
  then obtain w' where "pg_GetV1StopWorkflow i ?db1 = Inr w'" using GetV1StopWorkflow_present by blast
  with run show thesis by (intro that [of w' ?db1]) (simp add: pg_BeginV1StopDelivery_def tx_bind_def)
qed

lemma undisturbed_mark:
  assumes t: "pg_GetV1Transaction i db = Inr t" "tx_CompletedAt t = None" and st: "stop_state db i = Some ''DELIVERY_ATTEMPTED''"
    and none: "\<forall>r\<in>set (db_commands db). cr_StopWorkflowTransactionID r \<noteq> i"
  obtains w db1 where "pg_MarkV1StopDelivery no_faults E i status result detail db = (Inr w, db1)"
proof -
  obtain state category where oc: "delivery_outcome status = (state, category)" by force
  obtain w where lock: "lockV1StopLifecycleRows i db = Inr (t, Some w)" "wf_State w = ''DELIVERY_ATTEMPTED''" using stop_lock [OF t(1) st] .
  have nolive: "filter (\<lambda>r. stop_command_live i r \<and> cmd_Kind (cr_Command r) = ''STOP'') (db_commands db) = []"
    using none by (auto simp: filter_empty_conv stop_command_live_def)
  obtain db1 where op: "mark_stop_tx E i state category result detail db = (Inr (), db1)"
    using lock t(2) nolive by (simp add: mark_stop_tx_def Let_def)
  then have run: "withV1StopLifecycleTransaction no_faults (mark_stop_tx E i state category result detail) db = (Inr (), db1)"
    by (rule no_faults_commit)
  obtain r db2 where m: "pg_MarkV1StopDelivery no_faults E i status result detail db = (r, db2)" by force
  have "db2 = db1" using m run oc by (auto simp: pg_MarkV1StopDelivery_def tx_bind_def)
  moreover have "stop_state db2 i \<noteq> None" using MarkV1Stop_states(1) [OF m, of i] st by (auto simp: settled_def)
  ultimately obtain w' where "pg_GetV1StopWorkflow i db1 = Inr w'" using GetV1StopWorkflow_present by blast
  with run oc show thesis by (intro that [of w' db1]) (simp add: pg_MarkV1StopDelivery_def tx_bind_def)
qed

lemma DispatchV1Stop_undisturbed:
  assumes faults: "de_claimFaults D = no_faults" "de_beginFaults D = no_faults" "de_markFaults D = no_faults"
    and t: "pg_GetV1Transaction i db = Inr t" "tx_CompletedAt t = None" and st: "stop_state db i = Some ''PERSISTED''"
    and inv: "life_inv db" and none: "\<forall>r\<in>set (db_commands db). cr_StopWorkflowTransactionID r \<noteq> i"
  obtains w db' where "DispatchV1Stop D remoteStop i db = ((Inr w, [i]), db')"
proof -
  obtain c db1 where c: "pg_ClaimV1StopDelivery no_faults (env_now (de_claim D)) i db = (Inr (c, True), db1)"
    using undisturbed_claim [OF t st inv] .
  have t1: "pg_GetV1Transaction i db1 = Inr t"
    using t(1) delivery_transactions(1) [of no_faults "env_now (de_claim D)" i db] c
    by (simp add: pg_Get_is_getByID getTransaction_frame [of db1 db])
  have st1: "stop_state db1 i = Some ''PENDING_DELIVERY''" using ClaimV1Stop_states(1) [OF c, of i] by auto
  obtain b db2 where b: "pg_BeginV1StopDelivery no_faults (env_now (de_begin D)) i db1 = (Inr b, db2)"
    using undisturbed_begin [OF t1 t(2) st1] .
  have inv1: "life_inv db1" using life_kept_inv [OF ClaimV1StopDelivery_kept inv, of no_faults "env_now (de_claim D)" i] c by simp
  have t2: "pg_GetV1Transaction i db2 = Inr t"
    using t1 delivery_transactions(2) [of no_faults "env_now (de_begin D)" i db1] b
    by (simp add: pg_Get_is_getByID getTransaction_frame [of db2 db1])
  have st2: "stop_state db2 i = Some ''DELIVERY_ATTEMPTED''" using BeginV1Stop_states(1) [OF b inv1, of i] st1 by auto
  have "db_commands db2 = db_commands db" using ClaimV1Stop_states(2) [OF c] BeginV1Stop_states(2) [OF b inv1] by simp
  then have none2: "\<forall>r\<in>set (db_commands db2). cr_StopWorkflowTransactionID r \<noteq> i" using none by simp
  obtain status result detail where call: "(case remoteStop (tx_ChargerOCPPIdentity t) (tx_OCPPTransactionID t) of
        Inl _ \<Rightarrow> pg_MarkV1StopDelivery (de_markFaults D) (de_mark D) i ''AMBIGUOUS'' '''' ''remote stop result unavailable'' db2
      | Inr status \<Rightarrow> pg_MarkV1StopDelivery (de_markFaults D) (de_mark D) i status status '''' db2)
      = pg_MarkV1StopDelivery (de_markFaults D) (de_mark D) i status result detail db2"
    by (cases "remoteStop (tx_ChargerOCPPIdentity t) (tx_OCPPTransactionID t)") auto
  obtain w db3 where "pg_MarkV1StopDelivery no_faults (de_mark D) i status result detail db2 = (Inr w, db3)"
    using undisturbed_mark [OF t2 t(2) st2 none2] .
  then have "pg_MarkV1StopDelivery (de_markFaults D) (de_mark D) i status result detail db2 = (Inr w, db3)" using faults(3) by simp
  then show thesis
    by (intro that [of w db3]) (simp add: DispatchV1Stop_def faults(1,2) c b t2 t(2) call)
qed

subsection \<open>A concrete delivery\<close>

text \<open>The start of the sample session, and its stop after the reading that reached the limit.\<close>

definition sample_delivery :: "delivery_env" where
  "sample_delivery = \<lparr>de_claim = sample_call CHR ''e'', de_begin = sample_call CHR ''f'', de_mark = sample_call CHR ''g'',
     de_claimFaults = no_faults, de_beginFaults = no_faults, de_markFaults = no_faults\<rparr>"

lemma sample_start_sent:
  "\<exists>c db'. v1Start_deliver sample_delivery (\<lambda>_ _ _. Inr ''Accepted'') pg_sample_start pg_sample_commanded = ((Inr c, [''cmd'']), db')"
  unfolding pg_sample_commanded_eval
  by (simp add: v1Start_deliver_def sample_delivery_def pg_ClaimV1StartDelivery_def pg_BeginV1CommandDelivery_def
      pg_MarkV1CommandDelivery_def delivery_outcome_def sql_count_def start_in_def command_update_def mark_command_def pg_session_defs)

lemma sample_stop_ready:
  "pg_GetV1Transaction ''b0'' pg_sample_metered = Inr (load_transaction (hd (db_transactions pg_sample_metered)))"
  "tx_CompletedAt (load_transaction (hd (db_transactions pg_sample_metered))) = None"
  "stop_state pg_sample_metered ''b0'' = Some ''PERSISTED''"
  "\<forall>r\<in>set (db_commands pg_sample_metered). cr_StopWorkflowTransactionID r \<noteq> ''b0''"
proof -
  show "pg_GetV1Transaction ''b0'' pg_sample_metered = Inr (load_transaction (hd (db_transactions pg_sample_metered)))"
    "tx_CompletedAt (load_transaction (hd (db_transactions pg_sample_metered))) = None"
    by (simp_all add: pg_GetV1Transaction_def getV1TransactionByID_def getV1TransactionBy_def pg_sample_metered_eval(1)
        pg_sample_tx_def materialized_transaction_def start_row_def new_transaction_def)
  show "stop_state pg_sample_metered ''b0'' = Some ''PERSISTED''"
    by (simp add: stop_state_def pg_sample_metered_ids(2) sql_row_def new_workflow_def)
  show "\<forall>r\<in>set (db_commands pg_sample_metered). cr_StopWorkflowTransactionID r \<noteq> ''b0''"
    using pg_sample_started_commands pg_sample_metered_ids(3) by auto
qed

lemma sample_stop_sent:
  obtains w db' where "DispatchV1Stop sample_delivery (\<lambda>_ _. r) ''b0'' pg_sample_metered = ((Inr w, [''b0'']), db')"
proof -
  have f: "de_claimFaults sample_delivery = no_faults" "de_beginFaults sample_delivery = no_faults" "de_markFaults sample_delivery = no_faults"
    by (simp_all add: sample_delivery_def)
  show thesis
    using DispatchV1Stop_undisturbed [OF f sample_stop_ready(1-3) reachable_life [OF pg_sample_reachable(3)] sample_stop_ready(4)] that .
qed

lemma sample_lifecycle: "lifecycle_step empty_db pg_sample_commanded" "lifecycle_step pg_sample_commanded pg_sample_started"
  "lifecycle_step pg_sample_started pg_sample_metered"
  unfolding pg_sample_commanded_def pg_sample_started_def pg_sample_metered_def
  by (intro lifecycle_step.intros; simp add: env_ok_def sample_call_def pg_sample_mat_def in_int64_def)+

text \<open>A start with a limit of five seconds, and the deadline worker ten seconds later.\<close>

definition pg_timed_commanded :: PostgresStore where
  "pg_timed_commanded = snd (pg_CreateV1StartCommand (sample_call CHR ''a'')
     (pg_sample_start\<lparr>stin_MaxDurationSeconds := Some 5, stin_DurationLimitSource := ''CUSTOMER_TIME''\<rparr>) empty_db)"

definition pg_timed_started :: PostgresStore where
  "pg_timed_started = snd (pg_MaterializeV1Start (sample_call CHR ''b'') pg_sample_mat pg_timed_commanded)"

definition sample_enforce :: enforce_env where
  "sample_enforce = \<lparr>en_now = 10 * duration_second, en_runtime = \<lambda>_. sample_call CHR ''h'', en_faults = \<lambda>_. no_faults,
     en_ensure = \<lambda>_. sample_call CHR ''i'', en_dispatch = \<lambda>_. sample_delivery, en_pending = \<lambda>_. sample_delivery\<rparr>"

lemma pg_timed_reachable: "pg_step\<^sup>*\<^sup>* empty_db pg_timed_started"
proof -
  have "pg_step empty_db pg_timed_commanded" "pg_step pg_timed_commanded pg_timed_started"
    unfolding pg_timed_commanded_def pg_timed_started_def pg_step_def
    by (intro disjI1 lifecycle_step.intros; simp add: env_ok_def sample_call_def pg_sample_mat_def in_int64_def)+
  then show ?thesis by (meson rtranclp.rtrancl_into_rtrancl rtranclp.rtrancl_refl)
qed

lemma pg_timed_eval:
  "\<exists>t. db_transactions pg_timed_started = [t] \<and> tx_HALTransactionID t = ''b0'' \<and> tx_CompletedAt t = None
     \<and> tx_StopDeadlineAt t = Some (11000 + 5 * duration_second) \<and> tx_DurationLimitSource t = ''CUSTOMER_TIME''"
  "db_workflows pg_timed_started = []"
  "\<forall>r\<in>set (db_commands pg_timed_started). cr_StopWorkflowTransactionID r = ''''"
  unfolding pg_timed_started_def pg_timed_commanded_def
  by (simp_all add: pg_session_defs sequence_conflict_def)

lemma sample_retry [simp]: "retryRuntimeProjections Es ([], db) = ([], db)"
  by (simp add: retryRuntimeProjections_def)

lemma sample_overdue: "\<exists>t. pg_ListV1OverdueTransactions (en_now sample_enforce) 100 pg_timed_started = Inr [t]
   \<and> tx_HALTransactionID t = ''b0'' \<and> tx_DurationLimitSource t = ''CUSTOMER_TIME''"
  using pg_timed_eval(1)
  by (auto simp: pg_ListV1OverdueTransactions_def sample_enforce_def overdue_def pg_ts_def truncate_us_def pg_GetV1Transaction_def
      getV1TransactionByID_def getV1TransactionBy_def load_transaction_def)

lemma sample_enforced:
  "\<exists>sent queue db. EnforceV1Deadlines sample_enforce remoteStop ([], pg_timed_started) = ((None, sent), queue, db)"
proof -
  obtain t where t: "pg_ListV1OverdueTransactions (en_now sample_enforce) 100 pg_timed_started = Inr [t]" "tx_HALTransactionID t = ''b0''"
    "tx_DurationLimitSource t = ''CUSTOMER_TIME''" using sample_overdue by blast
  let ?op = "\<lambda>db. case lockV1StopLifecycleRows ''b0'' db of Inl err \<Rightarrow> (Inl err, db)
       | Inr (transaction, _) \<Rightarrow> ensureV1StopWorkflowTx (sample_call CHR ''i'') transaction ''TIME_LIMIT'' ''time_limit_reached'' db"
  have "\<exists>x db1. ?op pg_timed_started = (Inr x, db1)"
    using pg_timed_eval(1,2) by (auto simp: lockV1StopLifecycleRows_def ensureV1StopWorkflowTx_def stop_initiators_def
        getV1TransactionByID_def getV1TransactionBy_def load_transaction_def)
  then obtain x db1 where op: "?op pg_timed_started = (Inr x, db1)" by blast
  have e: "pg_EnsureV1StopWorkflow no_faults (sample_call CHR ''i'') ''b0'' ''TIME_LIMIT'' ''time_limit_reached'' pg_timed_started
      = (Inr x, db1)" unfolding pg_EnsureV1StopWorkflow_def by (rule no_faults_commit, rule op)
  have "\<exists>sent db2. enforce_deadlines (en_faults sample_enforce) (en_ensure sample_enforce) (en_dispatch sample_enforce) remoteStop [t] pg_timed_started
      = ((None, sent), db2)"
    using t e by (auto simp: sample_enforce_def v1DeadlineStopCause_def Let_def split: prod.splits)
  then show ?thesis using t(1) by (auto simp: EnforceV1Deadlines_def split: prod.splits)
qed

subsection \<open>Properties\<close>

text \<open>
  C2: a RemoteStart is sent at most once. From an empty database, whatever requests, charger
  messages, workers, stop dispatches and restarts interleave with any number of concurrent start
  handlers, one CMS command crosses the OCPP boundary at most once, and once it did its row is
  past every state from which it could be claimed again.
\<close>

theorem start_sent_at_most_once:
  assumes "start_steps (empty_db, {#}, []) (db, hs, wire)"
  shows "count_list wire i \<le> 1 \<and> (count_list wire i = 1 \<longrightarrow> settled (start_state db i))"
  using start_delivery.sent_at_most_once [OF life_inv_empty assms] by blast

theorem start_sent_at_most_once_witness:
  "\<exists>db. start_steps (empty_db, {#}, []) (db, {#}, [''cmd'']) \<and> settled (start_state db ''cmd'')"
proof -
  obtain c db where run: "v1Start_deliver sample_delivery (\<lambda>_ _ _. Inr ''Accepted'') pg_sample_start pg_sample_commanded = ((Inr c, [''cmd'']), db)"
    using sample_start_sent by blast
  have "delivery_step start_store beside_start (empty_db, {#}, []) (pg_sample_commanded, {#}, [])"
    using sample_lifecycle(1) by (intro delivery_step.other) (simp add: beside_start_def)
  moreover have "start_steps (pg_sample_commanded, {#}, []) (db, {#}, [''cmd''])" using v1Start_deliver_run [OF run, of "{#}" "[]"] by simp
  ultimately have "start_steps (empty_db, {#}, []) (db, {#}, [''cmd''])" by (rule converse_rtranclp_into_rtranclp)
  with start_sent_at_most_once [OF this, of "''cmd''"] show ?thesis by auto
qed

text \<open>
  C1: a RemoteStop is sent at most once per transaction, whether the stop was requested by the
  CMS, by an energy limit or by a deadline, and whoever dispatches it.
\<close>

theorem stop_sent_at_most_once:
  assumes "stop_steps (empty_db, {#}, []) (db, hs, wire)"
  shows "count_list wire i \<le> 1 \<and> (count_list wire i = 1 \<longrightarrow> settled (stop_state db i))"
  using stop_delivery.sent_at_most_once [OF life_inv_empty assms] by blast

theorem stop_sent_at_most_once_witness:
  "\<exists>db. stop_steps (empty_db, {#}, []) (db, {#}, [''b0'']) \<and> settled (stop_state db ''b0'')"
proof -
  obtain w db where run: "DispatchV1Stop sample_delivery (\<lambda>_ _. Inr ''Accepted'') ''b0'' pg_sample_metered = ((Inr w, [''b0'']), db)"
    by (rule sample_stop_sent)
  have "stop_steps (empty_db, {#}, []) (pg_sample_metered, {#}, [])"
    using sample_lifecycle by (intro rtranclp_trans [OF beside_stop_step rtranclp_trans [OF beside_stop_step beside_stop_step]])
      (auto simp: beside_stop_def)
  moreover have "stop_steps (pg_sample_metered, {#}, []) (db, {#}, [''b0''])" using DispatchV1Stop_run [OF run, of "{#}" "[]"] by simp
  ultimately have "stop_steps (empty_db, {#}, []) (db, {#}, [''b0''])" by (rule rtranclp_trans)
  with stop_sent_at_most_once [OF this, of "''b0''"] show ?thesis by auto
qed

text \<open>
  The delivery part of \<^verbatim>\<open>v1Start\<close> is a run of the two-phase protocol, whatever the charger
  answers, and the run sends what the handler reports as sent.
\<close>

theorem v1Start_deliver_refines:
  assumes "v1Start_deliver D remoteStart req db = ((r, sent), db')"
  shows "start_steps (db, hs, wire) (db', hs, wire @ sent)"
  using assms by (rule v1Start_deliver_run)

theorem v1Start_deliver_refines_witness:
  "\<exists>db. start_steps (pg_sample_commanded, {#}, []) (db, {#}, [''cmd''])"
  using sample_start_sent v1Start_deliver_refines [of sample_delivery _ _ _ _ "[''cmd'']" _ "{#}" "[]"] by force

text \<open>
  The deadline worker is a run of the stop protocol: the retried projections, the ensured
  workflows, every dispatch of the loop and the final pass over the pending stops.
\<close>

theorem EnforceV1Deadlines_refines:
  assumes "EnforceV1Deadlines N remoteStop (queue, db) = ((err, sent), queue', db')"
  shows "stop_steps (db, hs, wire) (db', hs, wire @ sent)"
  using EnforceV1Deadlines_run [OF assms, of hs wire] by simp

theorem EnforceV1Deadlines_refines_witness:
  "\<exists>sent queue db. EnforceV1Deadlines sample_enforce (\<lambda>_ _. Inr ''Accepted'') ([], pg_timed_started) = ((None, sent), queue, db)
    \<and> stop_steps (pg_timed_started, {#}, []) (db, {#}, sent)"
proof -
  obtain sent queue db where run: "EnforceV1Deadlines sample_enforce (\<lambda>_ _. Inr ''Accepted'') ([], pg_timed_started) = ((None, sent), queue, db)"
    using sample_enforced by blast
  with EnforceV1Deadlines_refines [OF run, of "{#}" "[]"] show ?thesis by simp
qed

lemma EnsureV1Stop_present:
  assumes "pg_EnsureV1StopWorkflow F E i initiator reason db = (Inr x, db')"
  shows "stop_state db' i \<noteq> None"
  using assms unfolding pg_EnsureV1StopWorkflow_def
proof (cases rule: with_all_or_nothing)
  case (commit y)
  then obtain t w where lock: "lockV1StopLifecycleRows i db = Inr (t, w)" by (auto split: sum.splits)
  then have "tx_HALTransactionID t = i"
    using lockRows_Inr(1) [OF lock]
    by (auto simp: getV1TransactionByID_def getV1TransactionBy_def dest!: find_SomeD split: option.splits)
  with commit lock show ?thesis
    by (auto simp: ensureV1StopWorkflowTx_def stop_state_def sql_row_append new_workflow_def split: option.splits if_splits)
qed simp

lemma enforce_deadlines_present:
  assumes "enforce_deadlines F E D remoteStop ts db = ((None, sent), db')" and "life_inv db" and "t \<in> set ts"
  shows "stop_state db' (tx_HALTransactionID t) \<noteq> None"
  using assms
proof (induction ts arbitrary: db sent)
  case (Cons u ts)
  let ?i = "tx_HALTransactionID u"
  obtain initiator reason where cause: "v1DeadlineStopCause (tx_DurationLimitSource u) (tx_LimitType u) = (initiator, reason)" by force
  obtain x db1 where c: "pg_EnsureV1StopWorkflow (F ?i) (E ?i) ?i initiator reason db = (Inr x, db1)"
    using Cons.prems(1) cause by (auto simp: Let_def split: prod.splits sum.splits)
  obtain r s1 db2 where d: "DispatchV1Stop (D ?i) remoteStop ?i db1 = ((r, s1), db2)" by (metis prod.exhaust)
  obtain s2 where rest: "enforce_deadlines F E D remoteStop ts db2 = ((None, s2), db')"
    using Cons.prems(1) cause c d by (auto simp: Let_def split: prod.splits)
  have inv1: "life_inv db1"
    using life_kept_inv [OF EnsureV1StopWorkflow_kept Cons.prems(2), of "F ?i" "E ?i" ?i initiator reason] c by simp
  have inv2: "life_inv db2" using stop_delivery.steps_invar [OF DispatchV1Stop_run [OF d] inv1] .
  have "stop_state db1 ?i \<noteq> None" using EnsureV1Stop_present [OF c] .
  then have "stop_state db2 ?i \<noteq> None" using stop_delivery.steps_present [OF DispatchV1Stop_run [OF d]] inv1 by simp
  then have "stop_state db' ?i \<noteq> None" using stop_delivery.steps_present [OF enforce_deadlines_run [OF rest]] inv2 by simp
  then show ?case using Cons.IH [OF rest inv2] Cons.prems(3) by auto
qed simp

text \<open>
  C4: an enforced deadline has a durable stop. When the deadline worker returns without an error,
  every overdue open transaction of its batch has a stop workflow, which no later step removes.
\<close>

theorem enforced_deadline_has_stop:
  assumes "EnforceV1Deadlines N remoteStop (queue, db) = ((None, sent), queue', db')" and "pg_step\<^sup>*\<^sup>* empty_db db"
    and "pg_ListV1OverdueTransactions (en_now N) 100 (snd (retryRuntimeProjections (en_runtime N) (queue, db))) = Inr ts"
    and "t \<in> set ts"
  shows "stop_state db' (tx_HALTransactionID t) \<noteq> None"
proof -
  obtain queue1 db1 where q: "retryRuntimeProjections (en_runtime N) (queue, db) = (queue1, db1)" by force
  have inv1: "life_inv db1"
    using stop_delivery.steps_invar [OF retry_projections_run [of "(queue, db)" "{#}" "[]" "en_runtime N"]] reachable_life [OF assms(2)] q by simp
  obtain s1 db2 where l: "enforce_deadlines (en_faults N) (en_ensure N) (en_dispatch N) remoteStop ts db1 = ((None, s1), db2)"
    using assms(1,3) q by (auto simp: EnforceV1Deadlines_def split: prod.splits option.splits)
  obtain s2 where p: "DispatchPendingV1Stops (en_pending N) remoteStop db2 = (s2, db')"
    using assms(1,3) q l by (auto simp: EnforceV1Deadlines_def split: prod.splits)
  have inv2: "life_inv db2" using stop_delivery.steps_invar [OF enforce_deadlines_run [OF l] inv1] .
  have "stop_state db2 (tx_HALTransactionID t) \<noteq> None" using enforce_deadlines_present [OF l inv1 assms(4)] .
  then show ?thesis
    using stop_delivery.steps_present [OF dispatch_stops_run [OF p [unfolded DispatchPendingV1Stops_def]]] inv2 by simp
qed

theorem enforced_deadline_has_stop_witness:
  "\<exists>sent queue db. EnforceV1Deadlines sample_enforce (\<lambda>_ _. Inr ''Accepted'') ([], pg_timed_started) = ((None, sent), queue, db)
    \<and> stop_state db ''b0'' \<noteq> None"
proof -
  obtain sent queue db where run: "EnforceV1Deadlines sample_enforce (\<lambda>_ _. Inr ''Accepted'') ([], pg_timed_started) = ((None, sent), queue, db)"
    using sample_enforced by blast
  obtain t where t: "pg_ListV1OverdueTransactions (en_now sample_enforce) 100 pg_timed_started = Inr [t]" "tx_HALTransactionID t = ''b0''"
    using sample_overdue by blast
  from enforced_deadline_has_stop [OF run pg_timed_reachable, of "[t]" t] t run show ?thesis by auto
qed

text \<open>
  What a dispatched stop leaves behind. When \<^verbatim>\<open>DispatchV1Stop\<close> called the charger and returned
  a workflow, that workflow was \<^verbatim>\<open>PERSISTED\<close> for an open transaction, and its durable state is the
  outcome of the charger's answer: accepted, rejected, or ambiguous when there is none.
\<close>

theorem DispatchV1Stop_outcome:
  assumes "DispatchV1Stop D remoteStop i db = ((Inr w, [i]), db')" and "pg_step\<^sup>*\<^sup>* empty_db db"
  shows "stop_state db i = Some ''PERSISTED'' \<and> stop_state db' i = Some (wf_State w)
    \<and> (\<exists>t. pg_GetV1Transaction i db = Inr t \<and> tx_CompletedAt t = None
        \<and> wf_State w = fst (delivery_outcome (case remoteStop (tx_ChargerOCPPIdentity t) (tx_OCPPTransactionID t) of
             Inl _ \<Rightarrow> ''AMBIGUOUS'' | Inr status \<Rightarrow> status)))"
  using assms(1) reachable_life [OF assms(2)] by (rule DispatchV1Stop_sent) blast

theorem DispatchV1Stop_outcome_witness:
  "\<exists>w db. DispatchV1Stop sample_delivery (\<lambda>_ _. Inr ''Accepted'') ''b0'' pg_sample_metered = ((Inr w, [''b0'']), db)
    \<and> stop_state db ''b0'' = Some ''OCPP_ACCEPTED''"
proof -
  obtain w db where run: "DispatchV1Stop sample_delivery (\<lambda>_ _. Inr ''Accepted'') ''b0'' pg_sample_metered = ((Inr w, [''b0'']), db)"
    by (rule sample_stop_sent)
  with DispatchV1Stop_outcome [OF run pg_sample_reachable(3)] show ?thesis by (auto simp: delivery_outcome_def)
qed

text \<open>
  A stop whose charger could not be reached is lost. When the RemoteStop call fails, the
  workflow becomes \<^verbatim>\<open>AMBIGUOUS\<close> and no later step, restart or worker sends it again, so the
  transaction keeps charging until the charger ends it.
\<close>

theorem unanswered_stop_never_resent:
  assumes "DispatchV1Stop D (\<lambda>_ _. Inl err) i db = ((Inr w, [i]), db')" and "pg_step\<^sup>*\<^sup>* empty_db db"
    and "stop_steps (db', {#}, wire) (db'', hs, wire')"
  shows "wf_State w = ''AMBIGUOUS'' \<and> stop_state db' i = Some ''AMBIGUOUS'' \<and> count_list wire' i = count_list wire i"
  using assms(1) reachable_life [OF assms(2)]
proof (rule DispatchV1Stop_sent)
  fix t assume *: "wf_State w = fst (delivery_outcome (case Inl err of Inl _ \<Rightarrow> ''AMBIGUOUS'' | Inr status \<Rightarrow> status))"
    "stop_state db' i = Some (wf_State w)"
  then have "wf_State w = ''AMBIGUOUS''" by (simp add: delivery_outcome_def)
  moreover have "life_inv db'" using stop_delivery.steps_invar [OF DispatchV1Stop_run [OF assms(1)] reachable_life [OF assms(2)]] .
  ultimately have "delivery_over life_inv stop_state i (db', {#}, wire)"
    using * by (simp add: delivery_over_def settled_def live_sends_def)
  from stop_delivery.over_final [OF assms(3) this] * \<open>wf_State w = ''AMBIGUOUS''\<close> show ?thesis by simp
qed

theorem unanswered_stop_never_resent_witness:
  "\<exists>w db. DispatchV1Stop sample_delivery (\<lambda>_ _. Inl (ErrOther ''offline'')) ''b0'' pg_sample_metered = ((Inr w, [''b0'']), db)
    \<and> stop_state db ''b0'' = Some ''AMBIGUOUS''"
proof -
  obtain w db where run: "DispatchV1Stop sample_delivery (\<lambda>_ _. Inl (ErrOther ''offline'')) ''b0'' pg_sample_metered = ((Inr w, [''b0'']), db)"
    by (rule sample_stop_sent)
  with unanswered_stop_never_resent [OF run pg_sample_reachable(3) rtranclp.rtrancl_refl] show ?thesis by auto
qed



end
