(* ===== verification/Trace_Evidence.thy ===== *)
theory Trace_Evidence
  imports V1_Types
begin

text \<open>
  The persistence boundary for diagnostic data (\<^verbatim>\<open>store/v1_trace.go\<close>): what a caller annotates to
  a trace event is reduced to a fixed set of fields before it becomes durable. A Go map is an
  association list with distinct keys, so \<^verbatim>\<open>len\<close> is its length; a type assertion is a case on the
  constructors of \<open>goany\<close>. The RFC 3339 text of an instant is parsed and printed by the standard
  library: \<open>canon s\<close> is the canonical UTC text of \<open>s\<close>, \<open>None\<close> when \<open>s\<close> is not one.
\<close>

definition any_at :: "gomap \<Rightarrow> string \<Rightarrow> goany" where
  "any_at m k = (case map_of m k of None \<Rightarrow> GNil | Some v \<Rightarrow> v)"

definition V1TriggerMessageAction :: "string \<Rightarrow> bool" where
  "V1TriggerMessageAction action \<longleftrightarrow> action \<in> {''BootNotification'', ''DiagnosticsStatusNotification'',
     ''FirmwareStatusNotification'', ''Heartbeat'', ''MeterValues'', ''StatusNotification''}"

definition V1TriggerMessageConnectorScoped :: "string \<Rightarrow> bool" where
  "V1TriggerMessageConnectorScoped action \<longleftrightarrow> action = ''MeterValues'' \<or> action = ''StatusNotification''"

definition v1OperationAction :: "string \<Rightarrow> bool" where
  "v1OperationAction action \<longleftrightarrow> action \<in> {''Reset'', ''UnlockConnector'', ''ChangeAvailability'', ''ClearCache'',
     ''ChangeConfiguration'', ''TriggerMessage'', ''GetConfiguration''}"

text \<open>The text and the number come back with their validity; \<open>None\<close> is a false second result.\<close>

definition v1SafeText :: "goany \<Rightarrow> nat \<Rightarrow> string option" where
  "v1SafeText value maximum =
     (case value of
        GString s \<Rightarrow> (let text = TrimSpace s in if text \<noteq> '''' \<and> length text \<le> maximum then Some text else None)
      | _ \<Rightarrow> None)"

definition v1SafeConnector :: "goany \<Rightarrow> int option" where
  "v1SafeConnector value =
     (case value of
        GInt number \<Rightarrow> if number \<ge> 0 \<and> number \<le> 999 then Some number else None
      | GFloat number \<Rightarrow> if number \<ge> 0 \<and> number \<le> 999 \<and> number = of_int \<lfloor>number\<rfloor> then Some \<lfloor>number\<rfloor> else None
      | _ \<Rightarrow> None)"

fun those_texts :: "nat \<Rightarrow> goany list \<Rightarrow> string list option" where
  "those_texts itemMaximum [] = Some []"
| "those_texts itemMaximum (item # items) =
     (case v1SafeText item itemMaximum of
        None \<Rightarrow> None
      | Some text \<Rightarrow> map_option ((#) text) (those_texts itemMaximum items))"

definition v1SafeStringList :: "goany \<Rightarrow> nat \<Rightarrow> nat \<Rightarrow> string list option" where
  "v1SafeStringList value maximum itemMaximum =
     (case (case value of GList items \<Rightarrow> Some items | GStrings ss \<Rightarrow> Some (map GString ss) | _ \<Rightarrow> None) of
        None \<Rightarrow> None
      | Some items \<Rightarrow> if length items > maximum then None else those_texts itemMaximum items)"

definition safe_configuration_item :: "goany \<Rightarrow> gomap option" where
  "safe_configuration_item raw =
     (case raw of
        GMap item \<Rightarrow>
          if length item < 2 \<or> length item > 3 then None
          else (case (v1SafeText (any_at item ''key'') 100, any_at item ''redacted'') of
              (Some key, GBool redacted) \<Rightarrow>
                (let safe = [(''key'', GString key), (''redacted'', GBool redacted)] in
                 case map_of item ''value'' of
                   None \<Rightarrow> Some safe
                 | Some value \<Rightarrow>
                     if redacted then None
                     else (case value of
                         GString text \<Rightarrow> if length text > 500 then None else Some (safe @ [(''value'', GString text)])
                       | _ \<Rightarrow> None))
            | _ \<Rightarrow> None)
      | _ \<Rightarrow> None)"

fun those_items :: "goany list \<Rightarrow> gomap list option" where
  "those_items [] = Some []"
| "those_items (raw # items) =
     (case safe_configuration_item raw of
        None \<Rightarrow> None
      | Some safe \<Rightarrow> map_option ((#) safe) (those_items items))"

definition v1SafeConfigurationResult :: "gomap \<Rightarrow> gomap option" where
  "v1SafeConfigurationResult payload =
     (case any_at payload ''configuration_keys'' of
        GList items \<Rightarrow>
          if length items > 64 then None
          else (case (those_items items, v1SafeStringList (any_at payload ''unknown_keys'') 64 100) of
              (Some keys, Some unknown) \<Rightarrow>
                if length payload \<noteq> 2 then None
                else Some [(''configuration_keys'', GMaps keys), (''unknown_keys'', GStrings unknown)]
            | _ \<Rightarrow> None)
      | _ \<Rightarrow> None)"

definition v1SafeOperationPayload :: "string \<Rightarrow> string \<Rightarrow> gomap \<Rightarrow> gomap option" where
  "v1SafeOperationPayload action messageType payload =
     (if messageType = ''CALLERROR'' then
        (case v1SafeText (any_at payload ''error_code'') 64 of
           Some code \<Rightarrow> if length payload = 1 then Some [(''error_code'', GString code)] else None | None \<Rightarrow> None)
      else if messageType = ''CALLRESULT'' then
        (if action = ''GetConfiguration'' then v1SafeConfigurationResult payload
         else (case v1SafeText (any_at payload ''status'') 64 of
           Some status \<Rightarrow> if length payload = 1 then Some [(''status'', GString status)] else None | None \<Rightarrow> None))
      else if action = ''Reset'' then
        (case v1SafeText (any_at payload ''type'') 16 of
           Some value \<Rightarrow> if value \<in> {''Soft'', ''Hard''} \<and> length payload = 1 then Some [(''type'', GString value)] else None
         | None \<Rightarrow> None)
      else if action = ''UnlockConnector'' then
        (case v1SafeConnector (any_at payload ''connectorId'') of
           Some connector \<Rightarrow> if length payload = 1 then Some [(''connectorId'', GInt connector)] else None | None \<Rightarrow> None)
      else if action = ''ChangeAvailability'' then
        (case (v1SafeConnector (any_at payload ''connectorId''), v1SafeText (any_at payload ''type'') 16) of
           (Some connector, Some value) \<Rightarrow>
             if value \<in> {''Operative'', ''Inoperative''} \<and> length payload = 2
             then Some [(''connectorId'', GInt connector), (''type'', GString value)] else None
         | _ \<Rightarrow> None)
      else if action = ''ClearCache'' then (if length payload = 0 then Some [] else None)
      else if action = ''ChangeConfiguration'' then
        (case (v1SafeText (any_at payload ''key'') 100, any_at payload ''redacted'') of
           (Some key, GBool True) \<Rightarrow> if length payload = 2 then Some [(''key'', GString key), (''redacted'', GBool True)] else None
         | _ \<Rightarrow> None)
      else if action = ''TriggerMessage'' then
        (case (v1SafeText (any_at payload ''requestedMessage'') 64,
               case map_of payload ''connectorId'' of None \<Rightarrow> Some [] | Some connector \<Rightarrow>
                 map_option (\<lambda>number. [(''connectorId'', GInt number)]) (v1SafeConnector connector)) of
           (Some message, Some connector) \<Rightarrow>
             if length payload = 1 \<or> length payload = 2 then Some ((''requestedMessage'', GString message) # connector) else None
         | _ \<Rightarrow> None)
      else if action = ''GetConfiguration'' then
        (case v1SafeStringList (any_at payload ''configuration_keys'') 64 100 of
           Some keys \<Rightarrow> if length payload = 1 then Some [(''configuration_keys'', GStrings keys)] else None | None \<Rightarrow> None)
      else None)"

definition sanitizeV1OperationEvidence :: "gomap \<Rightarrow> gomap" where
  "sanitizeV1OperationEvidence input =
     (case (v1SafeText (any_at input ''unique_id'') 128, v1SafeText (any_at input ''action'') 64,
            any_at input ''message_type'', any_at input ''payload'') of
        (Some uniqueID, Some action, GString messageType, GMap payload) \<Rightarrow>
          if \<not> v1OperationAction action \<or> messageType \<notin> {''CALL'', ''CALLRESULT'', ''CALLERROR''} then []
          else (case v1SafeOperationPayload action messageType payload of
              None \<Rightarrow> []
            | Some safePayload \<Rightarrow> [(''unique_id'', GString uniqueID), (''action'', GString action),
                (''message_type'', GString messageType), (''payload'', GMap safePayload)])
      | _ \<Rightarrow> [])"

definition with_connector :: "string \<Rightarrow> gomap \<Rightarrow> gomap \<Rightarrow> gomap" where
  "with_connector expected input safe =
     (if V1TriggerMessageConnectorScoped expected then
        (case v1SafeConnector (any_at input ''connector_number'') of
           Some connector \<Rightarrow>
             if connector < 1 \<or> length input \<noteq> 5 then [] else safe @ [(''connector_number'', GInt connector)]
         | None \<Rightarrow> [])
      else if length input \<noteq> 4 then [] else safe)"

definition sanitizeV1TriggerMessageFollowOn :: "gomap \<Rightarrow> gomap" where
  "sanitizeV1TriggerMessageFollowOn input =
     (case (any_at input ''follow_on'', v1SafeText (any_at input ''expected_message'') 64,
            v1SafeText (any_at input ''observed_action'') 64, v1SafeText (any_at input ''charger_ocpp_identity'') 255) of
        (GBool True, Some expected, Some observed, Some identity) \<Rightarrow>
          if expected \<noteq> observed \<or> \<not> V1TriggerMessageAction expected then []
          else with_connector expected input [(''expected_message'', GString expected), (''observed_action'', GString observed),
                 (''charger_ocpp_identity'', GString identity)]
      | _ \<Rightarrow> [])"

definition sanitizeV1TriggerMessageFollowOnClosure :: "(string \<Rightarrow> string option) \<Rightarrow> gomap \<Rightarrow> gomap" where
  "sanitizeV1TriggerMessageFollowOnClosure canon input =
     (case (any_at input ''follow_on_closed'', v1SafeText (any_at input ''expected_message'') 64,
            v1SafeText (any_at input ''charger_ocpp_identity'') 255,
            case any_at input ''accepted_at'' of GString acceptedAt \<Rightarrow> canon acceptedAt | _ \<Rightarrow> None) of
        (GBool True, Some expected, Some identity, Some acceptedAt) \<Rightarrow>
          if \<not> V1TriggerMessageAction expected then []
          else with_connector expected input [(''expected_message'', GString expected), (''charger_ocpp_identity'', GString identity),
                 (''accepted_at'', GString acceptedAt)]
      | _ \<Rightarrow> [])"

definition trace_fields :: "string list" where
  "trace_fields = [''action'', ''result'', ''status'', ''transaction_id'', ''connector_id'', ''meter_wh'', ''reason'',
     ''error_class'', ''unique_id'', ''message_type'', ''direction'', ''payload'']"

definition sanitizeV1TraceData :: "(string \<Rightarrow> string option) \<Rightarrow> goany \<Rightarrow> gomap" where
  "sanitizeV1TraceData canon data =
     (case data of
        GMap input \<Rightarrow>
          if map_of input ''follow_on'' \<noteq> None then sanitizeV1TriggerMessageFollowOn input
          else if map_of input ''follow_on_closed'' \<noteq> None then sanitizeV1TriggerMessageFollowOnClosure canon input
          else if map_of input ''message_type'' \<noteq> None then sanitizeV1OperationEvidence input
          else List.map_filter (\<lambda>key. map_option (Pair key) (map_of input key)) trace_fields
      | _ \<Rightarrow> [])"

definition validV1AcceptedTriggerMessageTrace :: "(string \<Rightarrow> string option) \<Rightarrow> V1TraceEventInput \<Rightarrow> string \<Rightarrow> bool" where
  "validV1AcceptedTriggerMessageTrace canon input requestedMessage \<longleftrightarrow>
     V1TriggerMessageAction requestedMessage \<and> \<not> time_IsZero (ti_OccurredAt input) \<and> ti_Category input = ''CHARGER_OPERATION_OCPP''
     \<and> (let safe = sanitizeV1TraceData canon (ti_Data input);
            payload = (case any_at safe ''payload'' of GMap p \<Rightarrow> p | _ \<Rightarrow> [])
        in any_at safe ''action'' = GString ''TriggerMessage'' \<and> any_at safe ''message_type'' = GString ''CALLRESULT''
           \<and> any_at payload ''status'' = GString ''Accepted'')"

subsection \<open>What becomes durable\<close>

definition durable_fields :: "string list" where
  "durable_fields = trace_fields @ [''expected_message'', ''observed_action'', ''charger_ocpp_identity'', ''accepted_at'',
     ''connector_number'']"

lemma map_filter_fields:
  "map fst (List.map_filter (\<lambda>key. map_option (Pair key) (map_of input key)) ks) = filter (\<lambda>k. map_of input k \<noteq> None) ks"
  by (induction ks) (auto simp: List.map_filter_simps split: option.splits)

lemma with_connector_fields:
  "with_connector expected input safe = [] \<or> with_connector expected input safe = safe
   \<or> (\<exists>n. with_connector expected input safe = safe @ [(''connector_number'', GInt n)])"
  by (auto simp: with_connector_def split: option.splits)

lemma follow_on_fields:
  "map fst (sanitizeV1TriggerMessageFollowOn input) \<in> {[], [''expected_message'', ''observed_action'', ''charger_ocpp_identity''],
     [''expected_message'', ''observed_action'', ''charger_ocpp_identity'', ''connector_number'']}"
proof -
  have "sanitizeV1TriggerMessageFollowOn input = [] \<or> (\<exists>e a b c. sanitizeV1TriggerMessageFollowOn input = with_connector e input
      [(''expected_message'', GString a), (''observed_action'', GString b), (''charger_ocpp_identity'', GString c)])"
    by (auto simp: sanitizeV1TriggerMessageFollowOn_def split: goany.splits option.splits bool.splits)
  then show ?thesis using with_connector_fields by (elim disjE exE) fastforce+
qed

lemma closure_fields:
  "map fst (sanitizeV1TriggerMessageFollowOnClosure canon input) \<in> {[], [''expected_message'', ''charger_ocpp_identity'', ''accepted_at''],
     [''expected_message'', ''charger_ocpp_identity'', ''accepted_at'', ''connector_number'']}"
proof -
  have "sanitizeV1TriggerMessageFollowOnClosure canon input = [] \<or> (\<exists>e a b c. sanitizeV1TriggerMessageFollowOnClosure canon input = with_connector e input
      [(''expected_message'', GString a), (''charger_ocpp_identity'', GString b), (''accepted_at'', GString c)])"
    by (auto simp: sanitizeV1TriggerMessageFollowOnClosure_def split: goany.splits option.splits bool.splits)
  then show ?thesis using with_connector_fields by (elim disjE exE) fastforce+
qed

lemma evidence_cases:
  obtains "sanitizeV1OperationEvidence input = []"
  | u a m p p' where "sanitizeV1OperationEvidence input = [(''unique_id'', GString u), (''action'', GString a),
      (''message_type'', GString m), (''payload'', GMap p)]" and "v1OperationAction a"
      and "m \<in> {''CALL'', ''CALLRESULT'', ''CALLERROR''}" and "v1SafeOperationPayload a m p' = Some p"
proof (cases "sanitizeV1OperationEvidence input = []")
  case False
  then have "\<exists>u a m p p'. sanitizeV1OperationEvidence input = [(''unique_id'', GString u), (''action'', GString a),
      (''message_type'', GString m), (''payload'', GMap p)] \<and> v1OperationAction a
      \<and> m \<in> {''CALL'', ''CALLRESULT'', ''CALLERROR''} \<and> v1SafeOperationPayload a m p' = Some p"
    by (auto simp: sanitizeV1OperationEvidence_def split: option.splits goany.splits if_splits)
  then show ?thesis using that(2) by blast
qed (rule that(1))


text \<open>The fields of the payload of one OCPP message of a charger operation.\<close>

definition payload_fields :: "string \<Rightarrow> string \<Rightarrow> string set" where
  "payload_fields action messageType =
     (if messageType = ''CALLERROR'' then {''error_code''}
      else if messageType = ''CALLRESULT'' then
        (if action = ''GetConfiguration'' then {''configuration_keys'', ''unknown_keys''} else {''status''})
      else if action = ''Reset'' then {''type''}
      else if action = ''UnlockConnector'' then {''connectorId''}
      else if action = ''ChangeAvailability'' then {''connectorId'', ''type''}
      else if action = ''ChangeConfiguration'' then {''key'', ''redacted''}
      else if action = ''TriggerMessage'' then {''requestedMessage'', ''connectorId''}
      else if action = ''GetConfiguration'' then {''configuration_keys''}
      else {})"

definition item_redacted :: "gomap \<Rightarrow> bool" where
  "item_redacted item \<longleftrightarrow> fst ` set item \<subseteq> {''key'', ''redacted'', ''value''}
     \<and> (any_at item ''redacted'' = GBool False \<or> map_of item ''value'' = None)"

lemma safe_item: "safe_configuration_item raw = Some item \<Longrightarrow> item_redacted item"
  by (auto simp: safe_configuration_item_def item_redacted_def any_at_def Let_def
      split: goany.splits option.splits if_splits)

lemma those_items_redacted: "those_items raws = Some items \<Longrightarrow> item \<in> set items \<Longrightarrow> item_redacted item"
  by (induction raws arbitrary: items) (auto simp: safe_item split: option.splits)

lemma safe_result:
  assumes "v1SafeConfigurationResult p' = Some p"
  shows "fst ` set p = {''configuration_keys'', ''unknown_keys''}"
    and "any_at p ''configuration_keys'' = GMaps items \<Longrightarrow> item \<in> set items \<Longrightarrow> item_redacted item"
  using assms by (auto simp: v1SafeConfigurationResult_def any_at_def those_items_redacted split: goany.splits option.splits if_splits)

lemma safe_payload_fields:
  assumes "v1SafeOperationPayload a m p' = Some p" and "m \<in> {''CALL'', ''CALLRESULT'', ''CALLERROR''}"
  shows "fst ` set p \<subseteq> payload_fields a m"
  using assms safe_result(1) [of p' p]
  by (auto simp: v1SafeOperationPayload_def payload_fields_def split: if_splits option.splits goany.splits bool.splits)

lemma safe_payload_items:
  assumes "v1SafeOperationPayload a m p' = Some p" and "any_at p ''configuration_keys'' = GMaps items" and "item \<in> set items"
  shows "item_redacted item"
  using assms safe_result(2) [of p' p items item]
  by (auto simp: v1SafeOperationPayload_def any_at_def split: if_splits option.splits goany.splits bool.splits)

text \<open>
  The durable evidence of a charger operation carries no secrets. It is empty or names the
  message and a payload with only the fields of that message: a configuration change is kept
  without its value, and a configuration value only when it is not redacted.
\<close>

theorem operation_evidence_safe:
  "sanitizeV1OperationEvidence input = [] \<or>
   (\<exists>u a m p. sanitizeV1OperationEvidence input = [(''unique_id'', GString u), (''action'', GString a),
       (''message_type'', GString m), (''payload'', GMap p)]
     \<and> fst ` set p \<subseteq> payload_fields a m
     \<and> (case any_at p ''configuration_keys'' of GMaps items \<Rightarrow> list_all item_redacted items | _ \<Rightarrow> True))"
proof (cases rule: evidence_cases [of input])
  case (2 u a m p p')
  have "fst ` set p \<subseteq> payload_fields a m" using safe_payload_fields [OF 2(4,3)] .
  moreover have "list_all item_redacted items" if "any_at p ''configuration_keys'' = GMaps items" for items
    using safe_payload_items [OF 2(4) that] by (simp add: list_all_iff)
  ultimately show ?thesis using 2(1) by (auto split: goany.split)
qed simp

text \<open>
  A payload without a message type is not reduced. Data that has a \<^verbatim>\<open>payload\<close> but no
  \<^verbatim>\<open>message_type\<close> takes the plain branch, which keeps the payload as it is, whatever it holds.
\<close>

theorem sanitize_keeps_raw_payload:
  "sanitizeV1TraceData canon (GMap [(''action'', a), (''payload'', x)]) = [(''action'', a), (''payload'', x)]"
  by (simp add: sanitizeV1TraceData_def trace_fields_def List.map_filter_simps)

end
