(* ===== verification/HAL_Identity.thy ===== *)
theory HAL_Identity
  imports PG_Mapping "HOL-Library.AList" "HOL-Library.Word" "HOL-Library.Sublist"
begin

text \<open>
  Who is connected (\<^verbatim>\<open>ocpp16hal/connections.go\<close>, \<^verbatim>\<open>ocpp16hal/v1_admission.go\<close>): the tracker of
  physical connections with its generations, the admission of a charger by its URL path, the map
  from wire identities to canonical ones, and the rotation that picks the charger whose persisted
  operations are recovered next. A Go map is an association list with distinct keys; where the
  code iterates over one, the order of the list stands for Go's order.
\<close>

subsection \<open>Physical connections\<close>

record connectionRecord =
  cn_ChargerID :: string
  cn_Key :: string
  cn_Generation :: "64 word"
  cn_RemoteAddr :: string
  cn_ConnectedAt :: gotime

record connectionTracker =
  ct_next :: "64 word"
  ct_active :: "(string \<times> connectionRecord) list"

definition newConnectionTracker :: connectionTracker where
  "newConnectionTracker = \<lparr>ct_next = 0, ct_active = []\<rparr>"

definition register_connection ::
  "gotime \<Rightarrow> string \<Rightarrow> string \<Rightarrow> string \<Rightarrow> connectionTracker \<Rightarrow> (connectionRecord \<times> connectionRecord option) \<times> connectionTracker" where
  "register_connection now chargerID key remoteAddr t =
     (let next = ct_next t + 1;
          rec = \<lparr>cn_ChargerID = chargerID, cn_Key = key, cn_Generation = next, cn_RemoteAddr = remoteAddr, cn_ConnectedAt = now\<rparr>
      in ((rec, map_of (ct_active t) chargerID),
          t\<lparr>ct_next := next, ct_active := AList.update chargerID rec (ct_active t)\<rparr>))"

definition unregisterIfCurrent ::
  "string \<Rightarrow> string \<Rightarrow> connectionTracker \<Rightarrow> (bool \<times> connectionRecord option) \<times> connectionTracker" where
  "unregisterIfCurrent chargerID key t =
     (case map_of (ct_active t) chargerID of
        None \<Rightarrow> ((False, None), t)
      | Some current \<Rightarrow>
          if cn_Key current \<noteq> key then ((False, Some current), t)
          else ((True, Some current), t\<lparr>ct_active := AList.delete chargerID (ct_active t)\<rparr>))"

definition current_connection :: "string \<Rightarrow> connectionTracker \<Rightarrow> connectionRecord option" where
  "current_connection chargerID t = map_of (ct_active t) chargerID"

definition identities :: "connectionTracker \<Rightarrow> string list" where
  "identities t = sort (map fst (ct_active t))"

definition connectionGenerationCurrent :: "string \<Rightarrow> int \<Rightarrow> connectionTracker \<Rightarrow> bool" where
  "connectionGenerationCurrent identity generation t =
     (case current_connection identity t of None \<Rightarrow> False | Some c \<Rightarrow> sint (cn_Generation c) = generation)"

text \<open>\<open>n\<close> is \<^verbatim>\<open>h.operationRecoveryNext\<close>, an \<^verbatim>\<open>uint64\<close> that wraps.\<close>

definition nextV1ChargerOperationRecoveryIdentity :: "connectionTracker \<Rightarrow> 64 word \<Rightarrow> string option \<times> 64 word" where
  "nextV1ChargerOperationRecoveryIdentity t n =
     (let ids = identities t in
      if ids = [] then (None, n)
      else (Some (ids ! unat (n mod of_nat (length ids))), n + 1))"

subsection \<open>Admission\<close>

definition TrimPrefix :: "string \<Rightarrow> string \<Rightarrow> string" where
  "TrimPrefix p s = (if prefix p s then drop (length p) s else s)"

definition Contains :: "string \<Rightarrow> string \<Rightarrow> bool" where
  "Contains s sub \<longleftrightarrow> list_ex (prefix sub) (suffixes s)"

fun Split :: "char \<Rightarrow> string \<Rightarrow> string list" where
  "Split c [] = [[]]"
| "Split c (x # xs) = (if x = c then [] # Split c xs else (x # hd (Split c xs)) # tl (Split c xs))"

definition ContainsAny :: "string \<Rightarrow> string \<Rightarrow> bool" where
  "ContainsAny s chars \<longleftrightarrow> list_ex (\<lambda>x. x \<in> set chars) s"

text \<open>\<open>request\<close> is the escaped path of the upgrade request, \<open>None\<close> without one.\<close>

definition parseChargerIdentityPath :: "string option \<Rightarrow> string \<Rightarrow> (string \<times> string) option" where
  "parseChargerIdentityPath request wireIdentity =
     (case request of
        None \<Rightarrow> None
      | Some escapedPath \<Rightarrow>
          (let path = TrimPrefix ''/'' escapedPath; parts = Split (CHR ''/'') path in
           if path = '''' \<or> Contains path ''//'' then None
           else if length parts \<noteq> 1 \<and> length parts \<noteq> 2 then None
           else if list_ex (\<lambda>part. part = '''' \<or> ContainsAny part ''?#%'') parts then None
           else if parts ! (length parts - 1) \<noteq> wireIdentity then None
           else Some (parts ! 0, if length parts = 2 then parts ! 1 else '''')))"

type_synonym wired = "(string \<times> string) list"

definition rememberWireIdentity :: "string \<Rightarrow> string \<Rightarrow> wired \<Rightarrow> bool \<times> wired" where
  "rememberWireIdentity wireIdentity canonical W =
     (case map_of W wireIdentity of
        Some previous \<Rightarrow> if previous \<noteq> canonical then (False, W) else (True, AList.update wireIdentity canonical W)
      | None \<Rightarrow> (True, AList.update wireIdentity canonical W))"

definition canonicalIdentity :: "wired \<Rightarrow> string \<Rightarrow> string" where
  "canonicalIdentity W wireIdentity = (case map_of W wireIdentity of Some c \<Rightarrow> c | None \<Rightarrow> wireIdentity)"

definition wireIdentityFor :: "wired \<Rightarrow> string \<Rightarrow> string" where
  "wireIdentityFor W canonical = (case find (\<lambda>p. snd p = canonical) W of Some p \<Rightarrow> fst p | None \<Rightarrow> canonical)"

definition forgetWireIdentity :: "string \<Rightarrow> wired \<Rightarrow> wired" where
  "forgetWireIdentity wireIdentity W = AList.delete wireIdentity W"

definition validateIncomingCharger :: "string \<Rightarrow> string option \<Rightarrow> PostgresStore \<Rightarrow> wired \<Rightarrow> bool \<times> wired" where
  "validateIncomingCharger chargePointID request db W =
     (case parseChargerIdentityPath request chargePointID of
        None \<Rightarrow> (False, W)
      | Some (identity, serial) \<Rightarrow>
          (case pg_ValidateV1ChargerAdmission identity serial db of
             Inl _ \<Rightarrow> (False, W)
           | Inr _ \<Rightarrow> rememberWireIdentity chargePointID identity W))"

subsection \<open>The path\<close>

lemma Split_not_Nil [simp]: "Split c s \<noteq> []"
  by (cases "(c, s)" rule: Split.cases) auto

lemma Split_single: "c \<notin> set s \<Longrightarrow> Split c s = [s]"
  by (induction s) auto

lemma Split_cons: "c \<notin> set a \<Longrightarrow> Split c (a @ c # b) = a # Split c b"
  by (induction a) auto

lemma Split_decomp: "\<exists>a. c \<notin> set a \<and> (s = a \<and> Split c s = [a] \<or> (\<exists>b. s = a @ c # b \<and> Split c s = a # Split c b))"
proof (cases "c \<in> set s")
  case True
  then obtain a b where "s = a @ c # b" "c \<notin> set a" using split_list_first by metis
  then show ?thesis using Split_cons by blast
qed (use Split_single in blast)

lemma Split_1: "Split c s = [a] \<longleftrightarrow> s = a \<and> c \<notin> set a"
proof
  assume *: "Split c s = [a]"
  obtain a' where "c \<notin> set a'" "s = a' \<and> Split c s = [a'] \<or> (\<exists>b. s = a' @ c # b \<and> Split c s = a' # Split c b)"
    using Split_decomp [of c s] by blast
  with * show "s = a \<and> c \<notin> set a" using Split_not_Nil [of c] by (auto dest: sym)
qed (simp add: Split_single)

lemma Split_2: "Split c s = [a, b] \<longleftrightarrow> s = a @ c # b \<and> c \<notin> set a \<and> c \<notin> set b"
proof
  assume *: "Split c s = [a, b]"
  obtain a' where "c \<notin> set a'" "s = a' \<and> Split c s = [a'] \<or> (\<exists>b. s = a' @ c # b \<and> Split c s = a' # Split c b)"
    using Split_decomp [of c s] by blast
  with * show "s = a @ c # b \<and> c \<notin> set a \<and> c \<notin> set b" using Split_1 [of c _ b] by (auto dest: sym)
qed (auto simp: Split_cons Split_single)

lemma Contains_iff: "Contains s sub \<longleftrightarrow> (\<exists>u v. s = u @ sub @ v)"
proof -
  have "Contains s sub \<longleftrightarrow> (\<exists>x. suffix x s \<and> prefix sub x)" by (auto simp: Contains_def list_ex_iff)
  also have "\<dots> \<longleftrightarrow> (\<exists>u v. s = u @ sub @ v)" unfolding suffix_def prefix_def by blast
  finally show ?thesis .
qed

text \<open>A segment that a path may carry.\<close>

definition path_segment :: "string \<Rightarrow> bool" where
  "path_segment s \<longleftrightarrow> s \<noteq> '''' \<and> set s \<inter> set ''/?#%'' = {}"

lemma no_double_slash:
  assumes "count_list s (CHR ''/'') \<le> 1"
  shows "\<not> Contains s ''//''"
  using assms by (auto simp: Contains_iff)

text \<open>
  The charger path is read exactly. A request is admitted to the mapping check precisely when
  its path, after one leading slash, is \<^verbatim>\<open>identity\<close> or \<^verbatim>\<open>identity/serial\<close> with non-empty segments free
  of \<^verbatim>\<open>/\<close>, \<^verbatim>\<open>?\<close>, \<^verbatim>\<open>#\<close> and \<^verbatim>\<open>%\<close> whose last one is the identity on the wire.
\<close>

theorem parseChargerIdentityPath_exact:
  "parseChargerIdentityPath (Some path) wireIdentity = Some (identity, serial) \<longleftrightarrow>
     path_segment identity
     \<and> (serial = '''' \<and> wireIdentity = identity \<and> TrimPrefix ''/'' path = identity
        \<or> path_segment serial \<and> wireIdentity = serial \<and> TrimPrefix ''/'' path = identity @ ''/'' @ serial)"
proof -
  let ?p = "TrimPrefix ''/'' path"
  have seg: "path_segment s \<longleftrightarrow> CHR ''/'' \<notin> set s \<and> s \<noteq> '''' \<and> \<not> ContainsAny s ''?#%''" for s
    by (auto simp: path_segment_def ContainsAny_def list_ex_iff)
  have 2: "length xs = 2 \<longleftrightarrow> (\<exists>a b. xs = [a, b])" for xs :: "string list"
    by (cases xs; cases "tl xs") auto
  have 1: "length xs = 1 \<longleftrightarrow> (\<exists>a. xs = [a])" for xs :: "string list"
    by (cases xs) auto
  consider (one) a where "Split (CHR ''/'') ?p = [a]" | (two) a b where "Split (CHR ''/'') ?p = [a, b]"
    | (more) "length (Split (CHR ''/'') ?p) \<noteq> 1" "length (Split (CHR ''/'') ?p) \<noteq> 2"
    using 1 2 by blast
  then show ?thesis
  proof cases
    case one
    then have p: "?p = a" "CHR ''/'' \<notin> set a" by (simp_all add: Split_1)
    then have "\<not> Contains a ''//''" by (intro no_double_slash) (simp add: count_list_0_iff)
    then show ?thesis using one p by (auto simp: parseChargerIdentityPath_def Let_def seg)
  next
    case two
    then have p: "?p = a @ CHR ''/'' # b" "CHR ''/'' \<notin> set a" "CHR ''/'' \<notin> set b" by (simp_all add: Split_2)
    then have "\<not> Contains (a @ CHR ''/'' # b) ''//''" by (intro no_double_slash) (simp add: count_list_0_iff)
    then have lhs: "parseChargerIdentityPath (Some path) wireIdentity =
        (if path_segment a \<and> path_segment b \<and> wireIdentity = b then Some (a, b) else None)"
      using two p by (simp add: parseChargerIdentityPath_def Let_def seg)
    have two_segments: "path_segment identity \<and> path_segment serial \<and> ?p = identity @ ''/'' @ serial
        \<longleftrightarrow> path_segment identity \<and> path_segment serial \<and> identity = a \<and> serial = b"
    proof (cases "path_segment identity \<and> path_segment serial")
      case True
      then have "?p = identity @ ''/'' @ serial \<longleftrightarrow> Split (CHR ''/'') ?p = [identity, serial]" by (simp add: seg Split_2)
      then show ?thesis using two by auto
    qed auto
    have "path_segment identity \<Longrightarrow> ?p \<noteq> identity" using p(1) by (auto simp: seg)
    then show ?thesis using two_segments unfolding lhs by auto
  next
    case more
    have "\<not> (path_segment identity \<and> (serial = '''' \<and> ?p = identity \<or> path_segment serial \<and> ?p = identity @ ''/'' @ serial))"
    proof
      assume "path_segment identity \<and> (serial = '''' \<and> ?p = identity \<or> path_segment serial \<and> ?p = identity @ ''/'' @ serial)"
      then have "Split (CHR ''/'') ?p = [identity] \<or> Split (CHR ''/'') ?p = [identity, serial]"
        by (auto simp: seg Split_1 Split_2)
      then show False using more by auto
    qed
    then show ?thesis using more by (auto simp: parseChargerIdentityPath_def Let_def)
  qed
qed

subsection \<open>Connections\<close>

text \<open>
  The specification of the tracker: the key of the last connection of each charger that was not
  ended by its own disconnect. A disconnect of a superseded connection does nothing.
\<close>

datatype connection_event =
    Connected gotime string string string
  | Disconnected string string

fun apply_connection :: "connection_event \<Rightarrow> connectionTracker \<Rightarrow> connectionTracker" where
  "apply_connection (Connected now chargerID key remoteAddr) t = snd (register_connection now chargerID key remoteAddr t)"
| "apply_connection (Disconnected chargerID key) t = snd (unregisterIfCurrent chargerID key t)"

fun connection_spec :: "connection_event \<Rightarrow> (string \<rightharpoonup> string) \<Rightarrow> (string \<rightharpoonup> string)" where
  "connection_spec (Connected now chargerID key remoteAddr) m = m(chargerID \<mapsto> key)"
| "connection_spec (Disconnected chargerID key) m = (if m chargerID = Some key then m(chargerID := None) else m)"

definition tracker_keys :: "connectionTracker \<Rightarrow> (string \<rightharpoonup> string)" where
  "tracker_keys t = (\<lambda>c. map_option cn_Key (current_connection c t))"

lemma apply_connection_keys:
  "tracker_keys (apply_connection e t) = connection_spec e (tracker_keys t)"
  by (cases e) (auto simp: tracker_keys_def current_connection_def register_connection_def unregisterIfCurrent_def
      update_conv' delete_conv' Let_def split: option.splits)

lemma apply_connection_distinct:
  "distinct (map fst (ct_active t)) \<Longrightarrow> distinct (map fst (ct_active (apply_connection e t)))"
  by (cases e) (auto simp: register_connection_def unregisterIfCurrent_def Let_def distinct_update distinct_delete split: option.splits)

lemma fold_connection_keys:
  "tracker_keys (fold apply_connection es t) = fold connection_spec es (tracker_keys t)"
  by (induction es arbitrary: t) (simp_all add: apply_connection_keys)

lemma fold_connection_distinct:
  "distinct (map fst (ct_active t)) \<Longrightarrow> distinct (map fst (ct_active (fold apply_connection es t)))"
  by (induction es arbitrary: t) (simp_all add: apply_connection_distinct)

lemma identities_keys: "set (identities t) = dom (tracker_keys t)"
proof -
  have "dom (tracker_keys t) = dom (map_of (ct_active t))" by (auto simp: tracker_keys_def current_connection_def)
  then show ?thesis by (simp add: identities_def dom_map_of_conv_image_fst)
qed

text \<open>
  C33: the tracker knows who is connected. After any sequence of connects and disconnects the
  active key of every charger is the one the specification gives, and the list the recovery
  worker rotates over is the strictly sorted list of exactly the connected chargers.
\<close>

theorem tracker_refines_spec:
  "tracker_keys (fold apply_connection es newConnectionTracker) = fold connection_spec es Map.empty
   \<and> sorted_wrt (<) (identities (fold apply_connection es newConnectionTracker))
   \<and> set (identities (fold apply_connection es newConnectionTracker)) = dom (fold connection_spec es Map.empty)"
proof -
  let ?t = "fold apply_connection es newConnectionTracker"
  have "tracker_keys newConnectionTracker = Map.empty"
    by (simp add: tracker_keys_def current_connection_def newConnectionTracker_def)
  then have keys: "tracker_keys ?t = fold connection_spec es Map.empty" by (simp add: fold_connection_keys)
  have "distinct (map fst (ct_active ?t))" by (rule fold_connection_distinct) (simp add: newConnectionTracker_def)
  then have "sorted_wrt (<) (identities ?t)" by (simp add: identities_def strict_sorted_iff)
  with keys identities_keys [of ?t] show ?thesis by simp
qed

subsection \<open>Rotation\<close>

primrec recovery_passes :: "connectionTracker \<Rightarrow> nat \<Rightarrow> 64 word \<Rightarrow> string option list" where
  "recovery_passes t 0 n = []"
| "recovery_passes t (Suc k) n =
     (let (identity, n') = nextV1ChargerOperationRecoveryIdentity t n in identity # recovery_passes t k n')"

lemma recovery_passes_map:
  assumes "identities t \<noteq> []" and "unat n + k < 2 ^ 64" and "length (identities t) < 2 ^ 64"
  shows "recovery_passes t k n = map (\<lambda>j. Some (identities t ! ((unat n + j) mod length (identities t)))) [0..<k]"
  using assms(2)
proof (induction k arbitrary: n)
  case (Suc k)
  let ?ids = "identities t"
  have n: "unat (n + 1) = Suc (unat n)" using Suc.prems by (simp add: unat_word_ariths)
  have l: "unat (of_nat (length ?ids) :: 64 word) = length ?ids" using assms(3) by (simp add: unat_of_nat take_bit_nat_eq_self)
  have "unat (n mod of_nat (length ?ids)) = unat n mod length ?ids" by (simp add: unat_mod l)
  moreover have "recovery_passes t k (n + 1) = map (\<lambda>j. Some (?ids ! ((unat n + Suc j) mod length ?ids))) [0..<k]"
    using Suc.IH [of "n + 1"] Suc.prems n by simp
  moreover have "[0..<Suc k] = 0 # map Suc [0..<k]" by (simp add: map_Suc_upt upt_conv_Cons)
  ultimately show ?case using assms(1) by (simp add: nextV1ChargerOperationRecoveryIdentity_def Let_def)
qed simp

lemma mod_shift_image: "m > 0 \<Longrightarrow> (\<lambda>j. (a + j) mod m) ` {0..<m} = {0..<m::nat}"
proof (rule endo_inj_surj)
  assume "m > 0"
  have "x = y" if "x < m" "y < m" "(a + x) mod m = (a + y) mod m" "x \<le> y" for x y
  proof -
    have "m dvd (a + y) - (a + x)" using that(3,4) mod_eq_dvd_iff_nat [of "a + x" "a + y" m] by simp
    then have "m dvd y - x" by simp
    moreover have "y - x < m" using that(2) by simp
    ultimately show ?thesis using that(4) nat_dvd_not_less by fastforce
  qed
  then show "inj_on (\<lambda>j. (a + j) mod m) {0..<m}"
    by (intro inj_onI) (metis atLeastLessThan_iff nat_le_linear)
qed auto

text \<open>
  The recovery worker starves no charger. While the set of connected chargers does not
  change, any run of as many passes as there are chargers visits each of them, wherever the
  rotation stood, as long as the 64-bit counter does not wrap in between.
\<close>

theorem recovery_rotation_fair:
  assumes "identities t \<noteq> []" and "unat n + length (identities t) < 2 ^ 64"
  shows "set (recovery_passes t (length (identities t)) n) = Some ` set (identities t)"
proof -
  let ?ids = "identities t" and ?f = "\<lambda>j. (unat n + j) mod length (identities t)"
  have "set (recovery_passes t (length ?ids) n) = (\<lambda>j. Some (?ids ! j)) ` ?f ` {0..<length ?ids}"
    using assms by (subst recovery_passes_map) (auto simp: image_image)
  also have "\<dots> = (\<lambda>j. Some (?ids ! j)) ` {0..<length ?ids}"
    using assms(1) by (subst mod_shift_image) auto
  also have "\<dots> = Some ` set ?ids" by (force simp: set_conv_nth image_iff)
  finally show ?thesis .
qed

definition sample_tracker :: connectionTracker where
  "sample_tracker = fold apply_connection
     [Connected 1 ''CP2'' ''k1'' ''a'', Connected 2 ''CP1'' ''k2'' ''b'', Connected 3 ''CP2'' ''k3'' ''c'', Disconnected ''CP2'' ''k1'']
     newConnectionTracker"

lemma sample_tracker_identities: "identities sample_tracker = [''CP1'', ''CP2'']"
  by (simp add: sample_tracker_def register_connection_def unregisterIfCurrent_def newConnectionTracker_def identities_def Let_def
      less_eq_list_code less_eq_char_def)

theorem recovery_rotation_fair_witness:
  "set (recovery_passes sample_tracker (length [''CP1'', ''CP2'']) 7) = {Some ''CP1'', Some ''CP2''}"
  using recovery_rotation_fair [of sample_tracker 7] by (simp add: sample_tracker_identities del: recovery_passes.simps)

subsection \<open>Wire identities\<close>

lemma rememberWireIdentity_True:
  assumes "rememberWireIdentity wireIdentity canonical W = (True, W')"
  shows "map_of W' = (map_of W)(wireIdentity \<mapsto> canonical)" and "map_of W wireIdentity \<in> {None, Some canonical}"
    and "W' = AList.update wireIdentity canonical W"
  using assms by (auto simp: rememberWireIdentity_def update_conv' split: option.splits if_splits)


text \<open>
  The wire identities of a running HAL: admissions and disconnects, which also forget the wire
  identity of a connection that was superseded.
\<close>

inductive wired_step :: "wired \<Rightarrow> wired \<Rightarrow> bool" where
  admit: "wired_step W (snd (validateIncomingCharger wireIdentity request db W))"
| forget: "wired_step W (forgetWireIdentity wireIdentity W)"

lemma wired_distinct: "wired_step\<^sup>*\<^sup>* [] W \<Longrightarrow> distinct (map fst W)"
proof (induction rule: rtranclp_induct)
  case (step W W')
  from step.hyps(2) step.IH show ?case
    by (cases rule: wired_step.cases)
      (auto simp: validateIncomingCharger_def rememberWireIdentity_def forgetWireIdentity_def distinct_update distinct_delete
        split: option.splits sum.splits prod.splits)
qed simp

text \<open>
  An outbound call reaches the charger it is meant for. For every connected canonical
  identity the wire identity that the HAL addresses stands for that identity.
\<close>

theorem wire_identity_roundtrip:
  assumes "wired_step\<^sup>*\<^sup>* [] W" and "canonical \<in> snd ` set W"
  shows "canonicalIdentity W (wireIdentityFor W canonical) = canonical"
proof -
  obtain p where p: "find (\<lambda>p. snd p = canonical) W = Some p"
    using assms(2) by (cases "find (\<lambda>p. snd p = canonical) W") (auto simp: find_None_iff')
  then have "p \<in> set W" "snd p = canonical" by (auto dest: find_SomeD)
  then have "map_of W (fst p) = Some canonical" using wired_distinct [OF assms(1)] by (cases p) (auto simp: map_of_eq_Some_iff)
  with p show ?thesis by (simp add: wireIdentityFor_def canonicalIdentity_def)
qed

text \<open>Two enrolled chargers; the serial of the second is the identity of the first.\<close>

definition twin_mapping :: "string \<Rightarrow> string \<Rightarrow> mapping_row" where
  "twin_mapping identity serial = (hd (db_mappings sample_enrolled))\<lparr>mr_ChargerOCPPIdentity := identity, mr_ExpectedSerial := serial, mr_Enabled := True\<rparr>"

definition twin_db :: PostgresStore where
  "twin_db = empty_db\<lparr>db_mappings := [twin_mapping ''CP1'' ''S1'', twin_mapping ''CP2'' ''CP1'']\<rparr>"

definition twin_wired :: wired where
  "twin_wired = snd (validateIncomingCharger ''CP1'' (Some ''/CP2/CP1'') twin_db
     (snd (validateIncomingCharger ''S1'' (Some ''/CP1/S1'') twin_db [])))"

lemma twin_paths:
  "parseChargerIdentityPath (Some ''/CP1/S1'') ''S1'' = Some (''CP1'', ''S1'')"
  "parseChargerIdentityPath (Some ''/CP2/CP1'') ''CP1'' = Some (''CP2'', ''CP1'')"
  by (simp_all add: parseChargerIdentityPath_def TrimPrefix_def Contains_def ContainsAny_def)

lemma twin_admitted:
  "validateIncomingCharger ''S1'' (Some ''/CP1/S1'') twin_db [] = (True, [(''S1'', ''CP1'')])"
  "validateIncomingCharger ''CP1'' (Some ''/CP2/CP1'') twin_db [(''S1'', ''CP1'')] = (True, [(''S1'', ''CP1''), (''CP1'', ''CP2'')])"
  by (simp_all add: validateIncomingCharger_def twin_paths pg_ValidateV1ChargerAdmission_def twin_db_def twin_mapping_def
      sql_row_def rememberWireIdentity_def)

lemma twin_wired_eval: "twin_wired = [(''S1'', ''CP1''), (''CP1'', ''CP2'')]"
  by (simp add: twin_wired_def twin_admitted)

lemma twin_reachable: "wired_step\<^sup>*\<^sup>* [] twin_wired"
  unfolding twin_wired_def by (meson wired_step.admit rtranclp.rtrancl_into_rtrancl rtranclp.rtrancl_refl)


theorem wire_identity_roundtrip_witness:
  "canonicalIdentity twin_wired (wireIdentityFor twin_wired ''CP2'') = ''CP2''"
  using wire_identity_roundtrip [OF twin_reachable, of "''CP2''"] by (simp add: twin_wired_eval)

text \<open>
  Resolving an identity twice can change the charger. The message handlers resolve the wire
  identity and pass the result to handlers that resolve it again; when one charger's serial is
  another charger's identity, both are admitted and what the first one reports is attributed to
  the second.
\<close>

theorem canonical_twice_misattributes:
  "wired_step\<^sup>*\<^sup>* [] twin_wired \<and> canonicalIdentity twin_wired ''S1'' = ''CP1''
   \<and> canonicalIdentity twin_wired (canonicalIdentity twin_wired ''S1'') = ''CP2''"
  using twin_reachable by (simp add: twin_wired_eval canonicalIdentity_def)

end
