(* ===== verification/Operation_Requests.thy ===== *)
theory Operation_Requests
  imports Trace_Evidence HAL_Identity Operation_Delivery
begin

text \<open>
  A charger operation from the HTTP request to the wire (\<^verbatim>\<open>httpapi/v1_operations.go\<close>,
  \<^verbatim>\<open>ocpp16hal/operation_observer.go\<close>): its validation, the typed OCPP request it becomes, the
  outcome of the call, and the observer that ties the operation to the CALL the library created
  and turns what it sees into public-safe evidence. The OCPP library is \<open>send\<close>; JSON decoding and
  UUID parsing are parameters too.
\<close>

subsection \<open>Validation\<close>

record v1ChargerOperationRequest =
  oreq_CMSOperationID :: string
  oreq_TraceID :: string
  oreq_CPOID :: string
  oreq_CMSChargerID :: string
  oreq_CMSConnectorID :: string
  oreq_ChargerOCPPIdentity :: string
  oreq_OCPPConnectorNumber :: int
  oreq_Kind :: string
  oreq_Parameters :: string_map
  oreq_ConfigurationKeys :: "string list"

text \<open>\<open>uuidParse s\<close> is the canonical text of the UUID that \<^verbatim>\<open>uuid.Parse\<close> reads from \<open>s\<close>.\<close>

definition validUUID :: "(string \<Rightarrow> string option) \<Rightarrow> string \<Rightarrow> bool" where
  "validUUID uuidParse value = (case uuidParse value of None \<Rightarrow> False | Some parsed \<Rightarrow> parsed \<noteq> nil_uuid \<and> parsed = value)"

definition v1TriggerMessageAllowlist :: "string list" where
  "v1TriggerMessageAllowlist = [''BootNotification'', ''DiagnosticsStatusNotification'', ''FirmwareStatusNotification'',
     ''Heartbeat'', ''MeterValues'', ''StatusNotification'']"

definition key_char :: "char \<Rightarrow> bool" where
  "key_char r \<longleftrightarrow> (let n = of_char r :: nat in
     97 \<le> n \<and> n \<le> 122 \<or> 65 \<le> n \<and> n \<le> 90 \<or> 48 \<le> n \<and> n \<le> 57 \<or> r = CHR ''_'' \<or> r = CHR ''-'' \<or> r = CHR ''.'')"

definition validV1ConfigurationKey :: "string \<Rightarrow> bool" where
  "validV1ConfigurationKey value \<longleftrightarrow> 1 \<le> length value \<and> length value \<le> 100 \<and> list_all key_char value"

definition printableV1ConfigurationValue :: "string \<Rightarrow> bool" where
  "printableV1ConfigurationValue value \<longleftrightarrow> list_all (\<lambda>r. let n = of_char r :: nat in 32 \<le> n \<and> n \<le> 126) value"

definition v1HALOwnedConfigurationKey :: "string \<Rightarrow> bool" where
  "v1HALOwnedConfigurationKey key \<longleftrightarrow> ToLower key \<in> {''heartbeatinterval'', ''metervalueinterval'', ''metervaluesampleinterval'',
     ''authorizeremotetxrequests'', ''localauthorizeoffline'', ''localpreauthorize'', ''authorizationcacheenabled'',
     ''allowofflinetxforunknownid'', ''stoptransactiononinvalidid'', ''chargepointauthenable'', ''freevendenabled''}"

definition v1SensitiveConfigurationKey :: "string \<Rightarrow> bool" where
  "v1SensitiveConfigurationKey key \<longleftrightarrow> (let key = ToLower key in
     Contains key ''password'' \<or> Contains key ''secret'' \<or> Contains key ''token'' \<or> Contains key ''privatekey''
     \<or> Contains key ''certificate'' \<or> key = ''authorizationkey'')"

definition validV1ConfigurationChange :: "string_map \<Rightarrow> bool" where
  "validV1ConfigurationChange parameters \<longleftrightarrow> length parameters = 2
     \<and> (let key = TrimSpace (string_at parameters ''key''); value = string_at parameters ''value'' in
        validV1ConfigurationKey key \<and> length value \<le> 500 \<and> printableV1ConfigurationValue value
        \<and> \<not> v1HALOwnedConfigurationKey key \<and> \<not> v1SensitiveConfigurationKey key)"

definition validV1ChargerOperation :: "(string \<Rightarrow> string option) \<Rightarrow> v1ChargerOperationRequest \<Rightarrow> bool" where
  "validV1ChargerOperation uuidParse request \<longleftrightarrow>
     validUUID uuidParse (oreq_CMSOperationID request) \<and> validUUID uuidParse (oreq_TraceID request)
     \<and> validUUID uuidParse (oreq_CPOID request) \<and> validUUID uuidParse (oreq_CMSChargerID request)
     \<and> TrimSpace (oreq_ChargerOCPPIdentity request) \<noteq> '''' \<and> length (oreq_ChargerOCPPIdentity request) \<le> 255
     \<and> oreq_OCPPConnectorNumber request \<ge> 0
     \<and> \<not> (oreq_OCPPConnectorNumber request = 0 \<and> oreq_CMSConnectorID request \<noteq> '''')
     \<and> \<not> (oreq_OCPPConnectorNumber request > 0 \<and> \<not> validUUID uuidParse (oreq_CMSConnectorID request))
     \<and> (let kind = oreq_Kind request; parameters = oreq_Parameters request; connector = oreq_OCPPConnectorNumber request in
        if kind = ''RESET'' then connector = 0 \<and> (string_at parameters ''type'' = ''SOFT'' \<or> string_at parameters ''type'' = ''HARD'')
        else if kind = ''UNLOCK_CONNECTOR'' then connector > 0 \<and> length parameters = 0
        else if kind = ''CHANGE_AVAILABILITY'' then
          string_at parameters ''type'' = ''OPERATIVE'' \<or> string_at parameters ''type'' = ''INOPERATIVE''
        else if kind = ''CLEAR_CACHE'' then connector = 0 \<and> length parameters = 0
        else if kind = ''CHANGE_CONFIGURATION'' then connector = 0 \<and> validV1ConfigurationChange parameters
        else if kind = ''TRIGGER_MESSAGE'' then
          string_at parameters ''requested_message'' \<in> set v1TriggerMessageAllowlist \<and> length parameters = 1
        else if kind = ''GET_CONFIGURATION'' then
          connector = 0 \<and> length parameters = 0 \<and> length (oreq_ConfigurationKeys request) \<le> 64
          \<and> list_all validV1ConfigurationKey (oreq_ConfigurationKeys request)
        else False)"

definition shouldDispatchV1ChargerOperation :: "bool \<Rightarrow> V1ChargerOperation option \<Rightarrow> bool" where
  "shouldDispatchV1ChargerOperation duplicate operation \<longleftrightarrow>
     \<not> duplicate \<or> (case operation of None \<Rightarrow> False | Some op \<Rightarrow> op_State op = ''PERSISTED'')"

subsection \<open>The OCPP call\<close>

datatype ocpp_request =
    ResetRequest string
  | UnlockConnectorRequest int
  | ChangeAvailabilityRequest int string
  | ClearCacheRequest
  | ChangeConfigurationRequest string string
  | TriggerMessageRequest string "int option"
  | GetConfigurationRequest "string list"

record ConfigurationKey =
  ck_Key :: string
  ck_Readonly :: bool
  ck_Value :: "string option"

record GetConfigurationConfirmation =
  gc_ConfigurationKey :: "ConfigurationKey list"
  gc_UnknownKey :: "string list"

datatype ocpp_confirmation = StatusConfirmation string | ConfigurationConfirmation GetConfigurationConfirmation

text \<open>
  How a call of the library ends for the caller: it does not accept the request, its callback runs
  with a confirmation or an error, or the context ends first.
\<close>

datatype 'c ocpp_outcome = SendFailed v1_error | Answered "v1_error option" "'c option" | CtxDone v1_error

definition operation_request :: "V1ChargerOperation \<Rightarrow> ocpp_request option" where
  "operation_request operation =
     (let kind = op_Kind operation; parameters = op_Parameters operation; connector = op_OCPPConnectorNumber operation in
      if kind = ''RESET'' then Some (ResetRequest (if string_at parameters ''type'' = ''SOFT'' then ''Soft'' else ''Hard''))
      else if kind = ''UNLOCK_CONNECTOR'' then Some (UnlockConnectorRequest connector)
      else if kind = ''CHANGE_AVAILABILITY'' then
        Some (ChangeAvailabilityRequest connector (if string_at parameters ''type'' = ''INOPERATIVE'' then ''Inoperative'' else ''Operative''))
      else if kind = ''CLEAR_CACHE'' then Some ClearCacheRequest
      else if kind = ''CHANGE_CONFIGURATION'' then
        Some (ChangeConfigurationRequest (string_at parameters ''key'') (string_at parameters ''value''))
      else if kind = ''TRIGGER_MESSAGE'' then
        Some (TriggerMessageRequest (string_at parameters ''requested_message'') (if connector > 0 then Some connector else None))
      else if kind = ''GET_CONFIGURATION'' then Some (GetConfigurationRequest (op_ConfigurationKeys operation))
      else None)"

subsection \<open>The observer\<close>

definition operationAction :: "string \<Rightarrow> string" where
  "operationAction kind =
     (if kind = ''RESET'' then ''Reset'' else if kind = ''UNLOCK_CONNECTOR'' then ''UnlockConnector''
      else if kind = ''CHANGE_AVAILABILITY'' then ''ChangeAvailability'' else if kind = ''CLEAR_CACHE'' then ''ClearCache''
      else if kind = ''CHANGE_CONFIGURATION'' then ''ChangeConfiguration'' else if kind = ''TRIGGER_MESSAGE'' then ''TriggerMessage''
      else if kind = ''GET_CONFIGURATION'' then ''GetConfiguration'' else '''')"

text \<open>\<^verbatim>\<open>strings.Title\<close> on ASCII: a letter that no letter, digit or underscore precedes becomes upper case.\<close>

definition upper_char :: "char \<Rightarrow> char" where
  "upper_char c = (let n = of_char c :: nat in if 97 \<le> n \<and> n \<le> 122 then char_of (n - 32) else c)"

definition word_char :: "char \<Rightarrow> bool" where
  "word_char c \<longleftrightarrow> (let n = of_char c :: nat in 97 \<le> n \<and> n \<le> 122 \<or> 65 \<le> n \<and> n \<le> 90 \<or> 48 \<le> n \<and> n \<le> 57 \<or> c = CHR ''_'')"

fun title_from :: "bool \<Rightarrow> string \<Rightarrow> string" where
  "title_from separated [] = []"
| "title_from separated (c # cs) = (if separated then upper_char c else c) # title_from (\<not> word_char c) cs"

definition Title :: "string \<Rightarrow> string" where
  "Title s = title_from True s"

definition safeOperationCall :: "V1ChargerOperation \<Rightarrow> gomap" where
  "safeOperationCall op =
     (let kind = op_Kind op; parameters = op_Parameters op; connector = op_OCPPConnectorNumber op in
      if kind = ''RESET'' then [(''type'', GString (Title (ToLower (string_at parameters ''type''))))]
      else if kind = ''UNLOCK_CONNECTOR'' then [(''connectorId'', GInt connector)]
      else if kind = ''CHANGE_AVAILABILITY'' then
        [(''connectorId'', GInt connector), (''type'', GString (Title (ToLower (string_at parameters ''type''))))]
      else if kind = ''CLEAR_CACHE'' then []
      else if kind = ''CHANGE_CONFIGURATION'' then [(''key'', GString (string_at parameters ''key'')), (''redacted'', GBool True)]
      else if kind = ''TRIGGER_MESSAGE'' then
        (''requestedMessage'', GString (string_at parameters ''requested_message''))
          # (if connector > 0 then [(''connectorId'', GInt connector)] else [])
      else if kind = ''GET_CONFIGURATION'' then [(''configuration_keys'', GList (map GString (op_ConfigurationKeys op)))]
      else [])"

definition sensitiveConfigurationKey :: "string \<Rightarrow> bool" where
  "sensitiveConfigurationKey key \<longleftrightarrow> (let key = ToLower key in
     Contains key ''password'' \<or> Contains key ''secret'' \<or> Contains key ''token'' \<or> Contains key ''privatekey''
     \<or> Contains key ''certificate'' \<or> key = ''authorizationkey'')"

definition safe_response_item :: "goany \<Rightarrow> goany" where
  "safe_response_item raw =
     (let item = (case raw of GMap m \<Rightarrow> m | _ \<Rightarrow> []);
          key = (case any_at item ''key'' of GString s \<Rightarrow> s | _ \<Rightarrow> '''')
      in if sensitiveConfigurationKey key then GMap [(''key'', GString key), (''redacted'', GBool True)]
         else GMap [(''key'', GString key), (''value'', any_at item ''value''), (''redacted'', GBool False)])"

definition safeOperationResponse :: "string \<Rightarrow> string \<Rightarrow> gomap \<Rightarrow> gomap" where
  "safeOperationResponse action messageType payload =
     (if messageType = ''CALLERROR'' then [(''error_code'', any_at payload ''error_code'')]
      else if action = ''GetConfiguration'' then
        (let keys = (case any_at payload ''configurationKey'' of GList ks \<Rightarrow> ks | _ \<Rightarrow> []);
             unknown = (case any_at payload ''unknownKey'' of GList us \<Rightarrow> us | _ \<Rightarrow> [])
         in [(''configuration_keys'', GList (map safe_response_item keys)), (''unknown_keys'', GList unknown)])
      else [(''status'', any_at payload ''status'')])"

definition operationDirection :: "string \<Rightarrow> string" where
  "operationDirection messageType = (if messageType = ''CALL'' then ''OUTBOUND'' else ''INBOUND'')"

record observedOperation =
  oo_traceID :: string
  oo_cmsOperationID :: string
  oo_halOperationID :: string
  oo_chargerID :: string
  oo_action :: string
  oo_uniqueID :: string
  oo_requestedMessage :: string
  oo_connector :: int
  oo_sentPayload :: gomap

text \<open>A request is identified by its address, a non-zero number; nothing is registered under 0.\<close>

record operationObserver =
  obs_byRequest :: "(nat \<times> observedOperation) list"
  obs_byUnique :: "(string \<times> observedOperation) list"

definition observer_register :: "nat \<Rightarrow> V1ChargerOperation \<Rightarrow> operationObserver \<Rightarrow> operationObserver" where
  "observer_register key operation o' =
     (if op_TraceID operation = '''' \<or> key = 0 then o'
      else o'\<lparr>obs_byRequest := AList.update key \<lparr>oo_traceID = op_TraceID operation, oo_cmsOperationID = op_CMSOperationID operation,
        oo_halOperationID = op_HALOperationID operation, oo_chargerID = op_ChargerOCPPIdentity operation,
        oo_action = operationAction (op_Kind operation), oo_uniqueID = '''',
        oo_requestedMessage = string_at (op_Parameters operation) ''requested_message'',
        oo_connector = op_OCPPConnectorNumber operation, oo_sentPayload = safeOperationCall operation\<rparr> (obs_byRequest o')\<rparr>)"

definition observer_bind :: "nat \<Rightarrow> string \<Rightarrow> operationObserver \<Rightarrow> operationObserver" where
  "observer_bind key uniqueID o' =
     (if uniqueID = '''' \<or> key = 0 then o'
      else (case map_of (obs_byRequest o') key of
          None \<Rightarrow> o'
        | Some entry \<Rightarrow> o'\<lparr>obs_byRequest := AList.delete key (obs_byRequest o'),
            obs_byUnique := AList.update uniqueID (entry\<lparr>oo_uniqueID := uniqueID\<rparr>) (obs_byUnique o')\<rparr>))"

definition operation_event :: "observedOperation \<Rightarrow> string \<Rightarrow> gomap \<Rightarrow> gotime \<Rightarrow> V1TraceEventInput" where
  "operation_event entry messageType payload occurredAt = \<lparr>
     ti_Source = ''HAL'', ti_Target = ''CMS'', ti_Category = ''CHARGER_OPERATION_OCPP'', ti_Protocol = ''OCPP1.6'',
     ti_Phase = ''STARTING'', ti_Summary = ''CPO operation OCPP '' @ messageType, ti_OccurredAt = occurredAt,
     ti_StateBefore = '''', ti_StateAfter = '''', ti_CorrelationID = '''',
     ti_Data = GMap [(''unique_id'', GString (oo_uniqueID entry)), (''action'', GString (oo_action entry)),
       (''message_type'', GString messageType), (''direction'', GString (operationDirection messageType)),
       (''payload'', GMap payload)]\<rparr>"

text \<open>
  What the observer hands to the trace store: the trace, the event, and the requested message when
  the event also opens a follow-on window.
\<close>

type_synonym observed_event = "string \<times> V1TraceEventInput \<times> string option"

definition observer_sent :: "gotime \<Rightarrow> string \<Rightarrow> operationObserver \<Rightarrow> observed_event option" where
  "observer_sent now uniqueID o' =
     (case map_of (obs_byUnique o') uniqueID of
        None \<Rightarrow> None
      | Some entry \<Rightarrow> Some (oo_traceID entry, operation_event entry ''CALL'' (oo_sentPayload entry) now, None))"

definition observer_received ::
  "gotime \<Rightarrow> string \<Rightarrow> string \<Rightarrow> gomap \<Rightarrow> operationObserver \<Rightarrow> observed_event option \<times> operationObserver" where
  "observer_received now uniqueID messageType payload o' =
     (case map_of (obs_byUnique o') uniqueID of
        None \<Rightarrow> (None, o')
      | Some entry \<Rightarrow>
          (let safePayload = safeOperationResponse (oo_action entry) messageType payload;
               accepted = oo_action entry = ''TriggerMessage'' \<and> messageType = ''CALLRESULT''
                 \<and> any_at safePayload ''status'' = GString ''Accepted'' \<and> V1TriggerMessageAction (oo_requestedMessage entry)
           in (Some (oo_traceID entry, operation_event entry messageType safePayload now,
                 if accepted then Some (oo_requestedMessage entry) else None),
               o'\<lparr>obs_byUnique := AList.delete uniqueID (obs_byUnique o')\<rparr>)))"

definition observer_forget :: "string \<Rightarrow> operationObserver \<Rightarrow> operationObserver" where
  "observer_forget uniqueID o' = o'\<lparr>obs_byUnique := AList.delete uniqueID (obs_byUnique o')\<rparr>"

definition forgetTrace :: "string \<Rightarrow> operationObserver \<Rightarrow> operationObserver" where
  "forgetTrace traceID o' = o'\<lparr>
     obs_byRequest := filter (\<lambda>p. oo_traceID (snd p) \<noteq> traceID) (obs_byRequest o'),
     obs_byUnique := filter (\<lambda>p. oo_traceID (snd p) \<noteq> traceID) (obs_byUnique o')\<rparr>"

definition forgetCharger :: "string \<Rightarrow> operationObserver \<Rightarrow> operationObserver" where
  "forgetCharger chargerID o' = o'\<lparr>obs_byUnique := filter (\<lambda>p. oo_chargerID (snd p) \<noteq> chargerID) (obs_byUnique o')\<rparr>"

subsection \<open>Frames\<close>

text \<open>
  \<open>decode raw\<close> is the JSON array of a frame, with integers as \<open>GInt\<close>. Decoding \<^verbatim>\<open>null\<close> into a Go
  variable leaves its zero value.
\<close>

definition parseOCPPFrame :: "(string \<Rightarrow> goany list option) \<Rightarrow> string \<Rightarrow> (string \<times> string \<times> gomap) option" where
  "parseOCPPFrame decode raw =
     (case decode raw of
        None \<Rightarrow> None
      | Some frame \<Rightarrow>
          if length frame < 3 then None
          else (case (case frame ! 0 of GInt k \<Rightarrow> Some k | GNil \<Rightarrow> Some 0 | _ \<Rightarrow> None,
                      case frame ! 1 of GString u \<Rightarrow> Some u | GNil \<Rightarrow> Some '''' | _ \<Rightarrow> None) of
              (Some kind, Some unique) \<Rightarrow>
                if kind = 2 \<and> length frame = 4 then Some (unique, ''CALL'', [])
                else if kind = 3 \<and> length frame = 3 then
                  (case frame ! 2 of GMap payload \<Rightarrow> Some (unique, ''CALLRESULT'', payload)
                   | GNil \<Rightarrow> Some (unique, ''CALLRESULT'', []) | _ \<Rightarrow> None)
                else if kind = 4 \<and> length frame = 5 then
                  (case frame ! 2 of GString code \<Rightarrow> Some (unique, ''CALLERROR'', [(''error_code'', GString code)])
                   | GNil \<Rightarrow> Some (unique, ''CALLERROR'', [(''error_code'', GString '''')]) | _ \<Rightarrow> None)
                else None
            | _ \<Rightarrow> None))"

subsection \<open>Dispatch\<close>

text \<open>The third component lists the requests handed to the library, with the wire identity.\<close>

definition DispatchChargerOperation ::
  "wired \<Rightarrow> (string \<Rightarrow> ocpp_request \<Rightarrow> ocpp_confirmation ocpp_outcome) \<Rightarrow> nat \<Rightarrow> V1ChargerOperation \<Rightarrow> operationObserver
   \<Rightarrow> (string \<times> GetConfigurationConfirmation option) res \<times> (string \<times> ocpp_request) list \<times> operationObserver" where
  "DispatchChargerOperation W send key operation o' =
     (case operation_request operation of
        None \<Rightarrow> (Inl (ErrOther ''unsupported charger operation''), [], o')
      | Some request \<Rightarrow>
          (let chargerID = wireIdentityFor W (op_ChargerOCPPIdentity operation);
               o1 = observer_register key operation o'
           in case send chargerID request of
                SendFailed err \<Rightarrow> (Inl err, [(chargerID, request)], o1)
              | Answered (Some err) _ \<Rightarrow> (Inl err, [(chargerID, request)], o1)
              | Answered None None \<Rightarrow> (Inl (ErrOther ''nil charger operation confirmation''), [(chargerID, request)], o1)
              | Answered None (Some (StatusConfirmation status)) \<Rightarrow> (Inr (status, None), [(chargerID, request)], o1)
              | Answered None (Some (ConfigurationConfirmation conf)) \<Rightarrow> (Inr ('''', Some conf), [(chargerID, request)], o1)
              | CtxDone err \<Rightarrow> (Inl err, [(chargerID, request)], forgetTrace (op_TraceID operation) o1)))"

subsection \<open>A valid request on the wire\<close>

text \<open>The durable operation that holds what a request asked for.\<close>

definition carries :: "v1ChargerOperationRequest \<Rightarrow> V1ChargerOperation \<Rightarrow> bool" where
  "carries r op \<longleftrightarrow> op_Kind op = oreq_Kind r \<and> op_Parameters op = oreq_Parameters r
     \<and> op_OCPPConnectorNumber op = oreq_OCPPConnectorNumber r \<and> op_ConfigurationKeys op = oreq_ConfigurationKeys r
     \<and> op_TraceID op = oreq_TraceID r"

definition operation_kinds :: "string list" where
  "operation_kinds = [''RESET'', ''UNLOCK_CONNECTOR'', ''CHANGE_AVAILABILITY'', ''CLEAR_CACHE'', ''CHANGE_CONFIGURATION'',
     ''TRIGGER_MESSAGE'', ''GET_CONFIGURATION'']"

lemma valid_kind: "validV1ChargerOperation uuidParse r \<Longrightarrow> oreq_Kind r \<in> set operation_kinds"
  by (auto simp: validV1ChargerOperation_def operation_kinds_def Let_def split: if_splits)

lemma valid_kind_cases:
  assumes "validV1ChargerOperation uuidParse r"
  obtains (reset) "oreq_Kind r = ''RESET''" "string_at (oreq_Parameters r) ''type'' = ''SOFT'' \<or> string_at (oreq_Parameters r) ''type'' = ''HARD''"
  | (unlock) "oreq_Kind r = ''UNLOCK_CONNECTOR''"
  | (availability) "oreq_Kind r = ''CHANGE_AVAILABILITY''"
      "string_at (oreq_Parameters r) ''type'' = ''OPERATIVE'' \<or> string_at (oreq_Parameters r) ''type'' = ''INOPERATIVE''"
  | (cache) "oreq_Kind r = ''CLEAR_CACHE''"
  | (change) "oreq_Kind r = ''CHANGE_CONFIGURATION''" "validV1ConfigurationChange (oreq_Parameters r)"
  | (trigger) "oreq_Kind r = ''TRIGGER_MESSAGE''" "string_at (oreq_Parameters r) ''requested_message'' \<in> set v1TriggerMessageAllowlist"
  | (get) "oreq_Kind r = ''GET_CONFIGURATION''" "length (oreq_ConfigurationKeys r) \<le> 64"
      "list_all validV1ConfigurationKey (oreq_ConfigurationKeys r)"
  using valid_kind [OF assms] assms
  by (auto simp: operation_kinds_def validV1ChargerOperation_def Let_def)

lemma valid_connector: "validV1ChargerOperation uuidParse r \<Longrightarrow> 0 \<le> oreq_OCPPConnectorNumber r"
  by (simp add: validV1ChargerOperation_def)

lemma valid_trace: "validV1ChargerOperation uuidParse r \<Longrightarrow> uuidParse '''' = None \<Longrightarrow> oreq_TraceID r \<noteq> ''''"
  by (auto simp: validV1ChargerOperation_def validUUID_def)

definition protected_configuration_key :: "string \<Rightarrow> bool" where
  "protected_configuration_key key \<longleftrightarrow> v1HALOwnedConfigurationKey (TrimSpace key) \<or> v1SensitiveConfigurationKey (TrimSpace key)"

definition request_action :: "ocpp_request \<Rightarrow> string" where
  "request_action request =
     (case request of ResetRequest _ \<Rightarrow> ''Reset'' | UnlockConnectorRequest _ \<Rightarrow> ''UnlockConnector''
      | ChangeAvailabilityRequest _ _ \<Rightarrow> ''ChangeAvailability'' | ClearCacheRequest \<Rightarrow> ''ClearCache''
      | ChangeConfigurationRequest _ _ \<Rightarrow> ''ChangeConfiguration'' | TriggerMessageRequest _ _ \<Rightarrow> ''TriggerMessage''
      | GetConfigurationRequest _ \<Rightarrow> ''GetConfiguration'')"

definition request_protected :: "ocpp_request \<Rightarrow> bool" where
  "request_protected request = (case request of ChangeConfigurationRequest key _ \<Rightarrow> protected_configuration_key key | _ \<Rightarrow> False)"

lemma valid_operation_request:
  assumes "validV1ChargerOperation uuidParse r" and "carries r op"
  shows "\<exists>request. operation_request op = Some request \<and> request_action request = operationAction (oreq_Kind r)
     \<and> \<not> request_protected request"
  using assms(1)
proof (cases rule: valid_kind_cases)
  case change
  then show ?thesis using assms(2)
    by (simp add: operation_request_def carries_def request_action_def operationAction_def request_protected_def
        protected_configuration_key_def validV1ConfigurationChange_def Let_def)
qed (use assms(2) in \<open>simp_all add: operation_request_def carries_def request_action_def operationAction_def
    request_protected_def Let_def\<close>)

lemma dispatch_sends:
  assumes "operation_request op = Some request"
  shows "fst (snd (DispatchChargerOperation W send key op o')) = [(wireIdentityFor W (op_ChargerOCPPIdentity op), request)]"
  using assms by (auto simp: DispatchChargerOperation_def Let_def split: ocpp_outcome.splits option.splits ocpp_confirmation.splits)

text \<open>
  A valid charger operation becomes exactly one OCPP request. When the HTTP validation
  accepts a request, dispatching the operation that holds it hands one request to the OCPP
  library, to the charger's wire identity and with the action of its kind, and that request never
  changes a sensitive configuration key or one the HAL owns.
\<close>

theorem valid_operation_dispatched:
  assumes "validV1ChargerOperation uuidParse r" and "carries r op"
  shows "\<exists>request. fst (snd (DispatchChargerOperation W send key op o')) = [(wireIdentityFor W (op_ChargerOCPPIdentity op), request)]
     \<and> request_action request = operationAction (oreq_Kind r) \<and> \<not> request_protected request"
  using valid_operation_request [OF assms] dispatch_sends by blast

definition sample_request :: v1ChargerOperationRequest where
  "sample_request = \<lparr>oreq_CMSOperationID = ''o'', oreq_TraceID = ''t'', oreq_CPOID = ''p'', oreq_CMSChargerID = ''c'',
     oreq_CMSConnectorID = '''', oreq_ChargerOCPPIdentity = ''CP1'', oreq_OCPPConnectorNumber = 0,
     oreq_Kind = ''CHANGE_CONFIGURATION'', oreq_Parameters = [(''key'', ''LightIntensity''), (''value'', ''50'')],
     oreq_ConfigurationKeys = []\<rparr>"

definition sample_operation :: V1ChargerOperation where
  "sample_operation = \<lparr>op_HALOperationID = ''h'', op_CMSOperationID = ''o'', op_TraceID = ''t'', op_RequestDigest = ''d'',
     op_CPOID = ''p'', op_CMSChargerID = ''c'', op_CMSConnectorID = '''', op_ChargerOCPPIdentity = ''CP1'',
     op_OCPPConnectorNumber = 0, op_Kind = ''CHANGE_CONFIGURATION'',
     op_Parameters = [(''key'', ''LightIntensity''), (''value'', ''50'')], op_ConfigurationKeys = [], op_CorrelationID = '''',
     op_State = ''PERSISTED'', op_DeliveryAttempts = 0, op_OCPPResult = '''', op_ErrorCategory = '''',
     op_CreatedAt = 1, op_UpdatedAt = 1, op_CompletedAt = None\<rparr>"

lemma sample_request_valid: "validV1ChargerOperation Some sample_request"
  by code_simp

lemma sample_carries: "carries sample_request sample_operation"
  by (simp add: carries_def sample_request_def sample_operation_def)

theorem valid_operation_dispatched_witness:
  "\<exists>request. fst (snd (DispatchChargerOperation [] (\<lambda>_ _. Answered None (Some (StatusConfirmation ''Accepted''))) 1 sample_operation
       \<lparr>obs_byRequest = [], obs_byUnique = []\<rparr>)) = [(''CP1'', request)]
     \<and> request_action request = ''ChangeConfiguration'' \<and> \<not> request_protected request"
  using valid_operation_dispatched [OF sample_request_valid sample_carries, where W = "[]" and key = 1
      and send = "\<lambda>_ _. Answered None (Some (StatusConfirmation ''Accepted''))" and o' = "\<lparr>obs_byRequest = [], obs_byUnique = []\<rparr>"]
  by (simp add: sample_operation_def sample_request_def wireIdentityFor_def operationAction_def)

subsection \<open>The evidence of an operation\<close>

lemma TrimSpace_noop: "list_all (\<lambda>c. \<not> is_space c) s \<Longrightarrow> TrimSpace s = s"
proof -
  assume "list_all (\<lambda>c. \<not> is_space c) s"
  then have "dropWhile is_space s = s" "dropWhile is_space (rev s) = rev s"
    by (auto simp: dropWhile_eq_self_iff list_all_iff dest: last_in_set simp flip: hd_rev)
  then show ?thesis by (simp add: TrimSpace_def)
qed

lemma key_char_no_space: "key_char c \<Longrightarrow> \<not> is_space c"
  by (auto simp: key_char_def is_space_def Let_def)

lemma valid_key_safe: "validV1ConfigurationKey k \<Longrightarrow> v1SafeText (GString k) 100 = Some k"
proof -
  assume k: "validV1ConfigurationKey k"
  then have "list_all (\<lambda>c. \<not> is_space c) k"
    by (auto simp: validV1ConfigurationKey_def list_all_iff key_char_no_space)
  then have "TrimSpace k = k" by (rule TrimSpace_noop)
  then show ?thesis using k by (auto simp: v1SafeText_def validV1ConfigurationKey_def)
qed

lemma valid_keys_safe: "list_all validV1ConfigurationKey ks \<Longrightarrow> those_texts 100 (map GString ks) = Some ks"
  by (induction ks) (simp_all add: valid_key_safe)

lemma titles:
  "Title (ToLower ''SOFT'') = ''Soft''" "Title (ToLower ''HARD'') = ''Hard''"
  "Title (ToLower ''OPERATIVE'') = ''Operative''" "Title (ToLower ''INOPERATIVE'') = ''Inoperative''"
  by code_simp+

lemma trigger_text:
  assumes "m \<in> set v1TriggerMessageAllowlist"
  shows "v1SafeText (GString m) 64 = Some m"
proof -
  have "list_all (\<lambda>m. v1SafeText (GString m) 64 = Some m) v1TriggerMessageAllowlist" by code_simp
  then show ?thesis using assms by (simp add: list_all_iff)
qed

lemma kind_action:
  assumes "kind \<in> set operation_kinds"
  shows "v1OperationAction (operationAction kind)" and "v1SafeText (GString (operationAction kind)) 64 = Some (operationAction kind)"
proof -
  have "list_all (\<lambda>kind. v1OperationAction (operationAction kind)
      \<and> v1SafeText (GString (operationAction kind)) 64 = Some (operationAction kind)) operation_kinds" by code_simp
  then show "v1OperationAction (operationAction kind)" "v1SafeText (GString (operationAction kind)) 64 = Some (operationAction kind)"
    using assms by (auto simp: list_all_iff)
qed

lemma type_texts:
  "v1SafeText (GString ''Soft'') 16 = Some ''Soft''" "v1SafeText (GString ''Hard'') 16 = Some ''Hard''"
  "v1SafeText (GString ''Operative'') 16 = Some ''Operative''" "v1SafeText (GString ''Inoperative'') 16 = Some ''Inoperative''"
  by code_simp+

text \<open>The payload of the CALL as it becomes durable: the wire names, keys without surrounding space.\<close>

definition durable_call :: "V1ChargerOperation \<Rightarrow> gomap" where
  "durable_call op =
     (if op_Kind op = ''CHANGE_CONFIGURATION'' then
        [(''key'', GString (TrimSpace (string_at (op_Parameters op) ''key''))), (''redacted'', GBool True)]
      else if op_Kind op = ''GET_CONFIGURATION'' then [(''configuration_keys'', GStrings (op_ConfigurationKeys op))]
      else safeOperationCall op)"

lemma call_payload_durable:
  assumes "validV1ChargerOperation uuidParse r" and "carries r op" and "op_OCPPConnectorNumber op \<le> 999"
  shows "v1SafeOperationPayload (operationAction (op_Kind op)) ''CALL'' (safeOperationCall op) = Some (durable_call op)"
  using assms(1)
proof (cases rule: valid_kind_cases)
  case reset
  then show ?thesis using assms(2)
    by (auto simp: carries_def operationAction_def safeOperationCall_def durable_call_def v1SafeOperationPayload_def any_at_def
        titles type_texts)
next
  case availability
  then show ?thesis using assms valid_connector [OF assms(1)]
    by (auto simp: carries_def operationAction_def safeOperationCall_def durable_call_def v1SafeOperationPayload_def any_at_def
        titles type_texts v1SafeConnector_def)
next
  case change
  have "TrimSpace (string_at (op_Parameters op) ''key'') \<noteq> ''''" "length (TrimSpace (string_at (op_Parameters op) ''key'')) \<le> 100"
    using change(2) assms(2) by (auto simp: carries_def validV1ConfigurationChange_def validV1ConfigurationKey_def Let_def)
  then show ?thesis using change assms(2)
    by (simp add: carries_def operationAction_def safeOperationCall_def durable_call_def v1SafeOperationPayload_def any_at_def
        v1SafeText_def Let_def)
next
  case trigger
  then show ?thesis using assms trigger_text [OF trigger(2)]
    by (auto simp: carries_def operationAction_def safeOperationCall_def durable_call_def v1SafeOperationPayload_def any_at_def
        v1SafeConnector_def Let_def)
next
  case get
  then show ?thesis using assms(2)
    by (auto simp: carries_def operationAction_def safeOperationCall_def durable_call_def v1SafeOperationPayload_def any_at_def
        v1SafeStringList_def valid_keys_safe)
qed (use assms valid_connector [OF assms(1)] in \<open>auto simp: carries_def operationAction_def safeOperationCall_def durable_call_def
    v1SafeOperationPayload_def any_at_def v1SafeConnector_def\<close>)

text \<open>
  The CALL of a valid operation leaves complete evidence. Once the operation is registered and
  bound to the message identifier of the library, sending it yields one event for its trace whose
  durable form names the identifier and the action and has every field of the request except a
  configuration value, for connectors up to 999 and identifiers of at most 128 characters without
  surrounding space.
\<close>

theorem operation_call_evidence:
  assumes "validV1ChargerOperation uuidParse r" and "carries r op" and "op_OCPPConnectorNumber op \<le> 999"
    and "uuidParse '''' = None" and "key > 0" and "u \<noteq> ''''" and "length u \<le> 128" and "TrimSpace u = u"
  shows "\<exists>event. observer_sent now u (observer_bind key u (observer_register key op o')) = Some (oreq_TraceID r, event, None)
     \<and> sanitizeV1TraceData canon (ti_Data event) = [(''unique_id'', GString u), (''action'', GString (operationAction (op_Kind op))),
         (''message_type'', GString ''CALL''), (''payload'', GMap (durable_call op))]"
proof -
  have trace: "op_TraceID op = oreq_TraceID r" "oreq_TraceID r \<noteq> ''''"
    using assms(2) valid_trace [OF assms(1,4)] by (auto simp: carries_def)
  have kind: "op_Kind op \<in> set operation_kinds" using valid_kind [OF assms(1)] assms(2) by (simp add: carries_def)
  note action = kind_action [OF kind]
  show ?thesis
    using assms(5-8) trace action
    by (simp add: observer_register_def observer_bind_def observer_sent_def operation_event_def sanitizeV1TraceData_def
        sanitizeV1OperationEvidence_def any_at_def call_payload_durable [OF assms(1-3)] v1SafeText_def [of "GString u"]
        update_conv')
qed

theorem operation_call_evidence_witness:
  "\<exists>event. observer_sent 5 ''m1'' (observer_bind 1 ''m1'' (observer_register 1 sample_operation
       \<lparr>obs_byRequest = [], obs_byUnique = []\<rparr>)) = Some (''t'', event, None)
     \<and> sanitizeV1TraceData Some (ti_Data event) = [(''unique_id'', GString ''m1''), (''action'', GString ''ChangeConfiguration''),
         (''message_type'', GString ''CALL''), (''payload'', GMap [(''key'', GString ''LightIntensity''), (''redacted'', GBool True)])]"
proof -
  have "op_OCPPConnectorNumber sample_operation \<le> 999" "(\<lambda>s. if s = '''' then None else Some s) '''' = None" "(1::nat) > 0"
    "''m1'' \<noteq> ''''" "length ''m1'' \<le> 128" "TrimSpace ''m1'' = ''m1''"
    "durable_call sample_operation = [(''key'', GString ''LightIntensity''), (''redacted'', GBool True)]"
    "oreq_TraceID sample_request = ''t''" "operationAction (op_Kind sample_operation) = ''ChangeConfiguration''"
    "validV1ChargerOperation (\<lambda>s. if s = '''' then None else Some s) sample_request"
    by code_simp+
  then show ?thesis
    using operation_call_evidence [OF _ sample_carries, where uuidParse = "\<lambda>s. if s = '''' then None else Some s"
      and key = 1 and u = "''m1''" and now = 5 and canon = Some and o' = "\<lparr>obs_byRequest = [], obs_byUnique = []\<rparr>"]
    by simp
qed

text \<open>The observer's own reduction of a response: the values of sensitive keys are gone.\<close>

definition item_secret_free :: "goany \<Rightarrow> bool" where
  "item_secret_free item =
     (case item of
        GMap m \<Rightarrow> (case map_of m ''key'' of Some (GString key) \<Rightarrow> \<not> sensitiveConfigurationKey key \<or> map_of m ''value'' = None | _ \<Rightarrow> False)
      | _ \<Rightarrow> False)"

lemma safe_response_item_secret_free: "item_secret_free (safe_response_item raw)"
  by (simp add: safe_response_item_def item_secret_free_def Let_def)

text \<open>
  A response is evidence once, and without secrets. The response to a bound call gives one
  event for its trace and the observer then forgets the call, so a second response with the same
  identifier gives nothing; in the event of a \<^verbatim>\<open>GetConfiguration\<close> result no key that names a
  password, secret, token, private key, certificate or authorization key has a value, and a
  \<^verbatim>\<open>TriggerMessage\<close> opens a follow-on window only if the charger accepted it.
\<close>

theorem operation_response_once:
  assumes "map_of (obs_byUnique o') u = Some entry"
  shows "\<exists>event window o1. observer_received now u messageType payload o' = (Some (oo_traceID entry, event, window), o1)
     \<and> observer_received now' u messageType' payload' o1 = (None, o1)
     \<and> ti_Data event = GMap [(''unique_id'', GString (oo_uniqueID entry)), (''action'', GString (oo_action entry)),
         (''message_type'', GString messageType), (''direction'', GString (operationDirection messageType)),
         (''payload'', GMap (safeOperationResponse (oo_action entry) messageType payload))]
     \<and> (case any_at (safeOperationResponse (oo_action entry) messageType payload) ''configuration_keys'' of
          GList items \<Rightarrow> list_all item_secret_free items | _ \<Rightarrow> True)
     \<and> (window = None \<or> any_at payload ''status'' = GString ''Accepted'' \<and> window = Some (oo_requestedMessage entry))"
proof -
  have "map_of (AList.delete u (obs_byUnique o')) u = None" by (simp add: delete_conv')
  moreover have "case any_at (safeOperationResponse (oo_action entry) messageType payload) ''configuration_keys'' of
      GList items \<Rightarrow> list_all item_secret_free items | _ \<Rightarrow> True"
    by (auto simp: safeOperationResponse_def any_at_def Let_def list_all_iff safe_response_item_secret_free)
  moreover have "any_at payload ''status'' = GString ''Accepted''"
    if "any_at (safeOperationResponse a ''CALLRESULT'' payload) ''status'' = GString ''Accepted''" for a
    using that by (auto simp: safeOperationResponse_def any_at_def Let_def split: if_splits)
  ultimately show ?thesis
    using assms by (auto simp: observer_received_def operation_event_def Let_def)
qed

theorem operation_response_once_witness:
  "\<exists>event window o1. observer_received 5 ''m1'' ''CALLRESULT'' [(''status'', GString ''Accepted'')]
       (observer_bind 1 ''m1'' (observer_register 1 sample_operation \<lparr>obs_byRequest = [], obs_byUnique = []\<rparr>))
         = (Some (''t'', event, window), o1)
     \<and> observer_received 6 ''m1'' ''CALLERROR'' [] o1 = (None, o1) \<and> (window = None \<or> window = Some '''')"
proof -
  let ?o = "observer_bind 1 ''m1'' (observer_register 1 sample_operation \<lparr>obs_byRequest = [], obs_byUnique = []\<rparr>)"
  obtain entry where "map_of (obs_byUnique ?o) ''m1'' = Some entry" "oo_traceID entry = ''t''" "oo_requestedMessage entry = ''''"
    by (simp add: observer_bind_def observer_register_def sample_operation_def string_at_def)
  then show ?thesis
    using operation_response_once [of ?o "''m1''" entry 5 "''CALLRESULT''" "[(''status'', GString ''Accepted'')]" 6 "''CALLERROR''" "[]"]
    by auto
qed

text \<open>
  One valueless key discards the evidence of a whole configuration read. OCPP lets a charger
  report a configuration key without a value; the observer then records the value as nil, and the
  sanitizer refuses the complete event, so the durable data is empty.
\<close>

theorem valueless_key_drops_evidence:
  assumes "oo_action entry = ''GetConfiguration''" and "any_at payload ''configurationKey'' = GList items"
    and "GMap item \<in> set items" and "any_at item ''key'' = GString key" and "\<not> sensitiveConfigurationKey key"
    and "map_of item ''value'' = None"
  shows "sanitizeV1TraceData canon (ti_Data (operation_event entry ''CALLRESULT''
     (safeOperationResponse (oo_action entry) ''CALLRESULT'' payload) now)) = []"
proof -
  have "safe_configuration_item (safe_response_item (GMap item)) = None"
    using assms(4-6) by (simp add: safe_response_item_def safe_configuration_item_def any_at_def split: option.splits)
  then have "those_items (map safe_response_item items) = None"
    using assms(3) by (induction items) (auto split: option.splits)
  then have "v1SafeOperationPayload ''GetConfiguration'' ''CALLRESULT''
      (safeOperationResponse ''GetConfiguration'' ''CALLRESULT'' payload) = None"
    using assms(2) by (simp add: v1SafeOperationPayload_def safeOperationResponse_def v1SafeConfigurationResult_def Let_def any_at_def)
  then show ?thesis
    using assms(1) by (auto simp: operation_event_def sanitizeV1TraceData_def sanitizeV1OperationEvidence_def any_at_def v1SafeText_def
        TrimSpace_def is_space_def Let_def split: option.splits)
qed

definition sample_configuration :: "goany list" where
  "sample_configuration = [GMap [(''key'', GString ''HeartbeatInterval''), (''value'', GString ''60'')],
     GMap [(''key'', GString ''SupportedFeatureProfiles''), (''readonly'', GBool True)]]"

theorem valueless_key_drops_evidence_witness:
  "sanitizeV1TraceData Some (ti_Data (operation_event
     \<lparr>oo_traceID = ''t'', oo_cmsOperationID = ''o'', oo_halOperationID = ''h'', oo_chargerID = ''CP1'', oo_action = ''GetConfiguration'',
      oo_uniqueID = ''m1'', oo_requestedMessage = '''', oo_connector = 0, oo_sentPayload = []\<rparr> ''CALLRESULT''
     (safeOperationResponse ''GetConfiguration'' ''CALLRESULT'' [(''configurationKey'', GList sample_configuration)]) 5)) = []"
proof -
  have "\<not> sensitiveConfigurationKey ''SupportedFeatureProfiles''" by code_simp
  then show ?thesis
    using valueless_key_drops_evidence [where entry = "\<lparr>oo_traceID = ''t'', oo_cmsOperationID = ''o'', oo_halOperationID = ''h'',
        oo_chargerID = ''CP1'', oo_action = ''GetConfiguration'', oo_uniqueID = ''m1'', oo_requestedMessage = '''', oo_connector = 0,
        oo_sentPayload = []\<rparr>" and payload = "[(''configurationKey'', GList sample_configuration)]" and items = sample_configuration
        and item = "[(''key'', GString ''SupportedFeatureProfiles''), (''readonly'', GBool True)]"
        and key = "''SupportedFeatureProfiles''" and canon = Some and now = 5]
    by (simp add: any_at_def sample_configuration_def)
qed

end
