(* ===== verification/HAL_Calls.thy ===== *)
theory HAL_Calls
  imports Operation_Requests
begin

text \<open>
  The calls the HAL makes to a charger (\<^verbatim>\<open>ocpp16hal/hal.go\<close>, \<^verbatim>\<open>ocpp16hal/extra.go\<close>). Each resolves
  the wire identity, builds one typed request, hands it to the OCPP library and waits for the
  callback or the end of the context. The library is the argument \<open>send\<close>; the second component of
  a result lists the requests handed to it. RFC 3339 parsing is the argument \<open>parseTime\<close>.
\<close>

record GetDiagnosticsRequest =
  gd_Location :: string
  gd_Retries :: "int option"
  gd_RetryInterval :: "int option"
  gd_StartTime :: "gotime option"
  gd_StopTime :: "gotime option"

record UpdateFirmwareRequest =
  uf_Location :: string
  uf_RetrieveDate :: gotime
  uf_Retries :: "int option"
  uf_RetryInterval :: "int option"

datatype central_call =
    OperationCall ocpp_request
  | RemoteStartTransactionCall string "int option"
  | RemoteStopTransactionCall int
  | GetDiagnosticsCall GetDiagnosticsRequest
  | UpdateFirmwareCall UpdateFirmwareRequest

text \<open>Waiting for the callback; \<open>nilConfirmation\<close> is the error of a callback without a confirmation.\<close>

definition await_confirmation :: "string \<Rightarrow> 'c ocpp_outcome \<Rightarrow> 'c res" where
  "await_confirmation nilConfirmation outcome =
     (case outcome of
        SendFailed err \<Rightarrow> Inl err
      | Answered (Some err) _ \<Rightarrow> Inl err
      | Answered None None \<Rightarrow> Inl (ErrOther nilConfirmation)
      | Answered None (Some conf) \<Rightarrow> Inr conf
      | CtxDone err \<Rightarrow> Inl err)"

definition call_charger ::
  "wired \<Rightarrow> (string \<Rightarrow> central_call \<Rightarrow> 'c ocpp_outcome) \<Rightarrow> string \<Rightarrow> string \<Rightarrow> central_call \<Rightarrow> 'c res \<times> (string \<times> central_call) list" where
  "call_charger W send nilConfirmation chargerID request =
     (let chargerID = wireIdentityFor W chargerID
      in (await_confirmation nilConfirmation (send chargerID request), [(chargerID, request)]))"

definition positive_connector :: "int \<Rightarrow> int option" where
  "positive_connector connectorID = (if connectorID > 0 then Some connectorID else None)"

definition RemoteStartTransaction ::
  "wired \<Rightarrow> (string \<Rightarrow> central_call \<Rightarrow> string ocpp_outcome) \<Rightarrow> string \<Rightarrow> string \<Rightarrow> int \<Rightarrow> string res \<times> (string \<times> central_call) list" where
  "RemoteStartTransaction W send chargerID idTag connectorID =
     call_charger W send ''nil RemoteStartTransaction confirmation'' chargerID
       (RemoteStartTransactionCall idTag (positive_connector connectorID))"

definition RemoteStopTransaction ::
  "wired \<Rightarrow> (string \<Rightarrow> central_call \<Rightarrow> string ocpp_outcome) \<Rightarrow> string \<Rightarrow> int \<Rightarrow> string res \<times> (string \<times> central_call) list" where
  "RemoteStopTransaction W send chargerID transactionID =
     call_charger W send ''nil RemoteStopTransaction confirmation'' chargerID (RemoteStopTransactionCall transactionID)"

definition ChangeAvailability ::
  "wired \<Rightarrow> (string \<Rightarrow> central_call \<Rightarrow> string ocpp_outcome) \<Rightarrow> string \<Rightarrow> int \<Rightarrow> string \<Rightarrow> string res \<times> (string \<times> central_call) list" where
  "ChangeAvailability W send chargerID connectorID availabilityType =
     (let kind = ToLower (TrimSpace availabilityType);
          call = (\<lambda>t. call_charger W send ''nil ChangeAvailability confirmation'' chargerID
            (OperationCall (ChangeAvailabilityRequest connectorID t)))
      in if kind = ''operative'' then call ''Operative''
         else if kind = ''inoperative'' then call ''Inoperative''
         else (Inl (ErrOther ''invalid availability type''), []))"

definition ChangeConfiguration ::
  "wired \<Rightarrow> (string \<Rightarrow> central_call \<Rightarrow> string ocpp_outcome) \<Rightarrow> string \<Rightarrow> string \<Rightarrow> string \<Rightarrow> string res \<times> (string \<times> central_call) list" where
  "ChangeConfiguration W send chargerID key value =
     call_charger W send ''nil ChangeConfiguration confirmation'' chargerID (OperationCall (ChangeConfigurationRequest key value))"

definition ClearCache ::
  "wired \<Rightarrow> (string \<Rightarrow> central_call \<Rightarrow> string ocpp_outcome) \<Rightarrow> string \<Rightarrow> string res \<times> (string \<times> central_call) list" where
  "ClearCache W send chargerID = call_charger W send ''nil ClearCache confirmation'' chargerID (OperationCall ClearCacheRequest)"

definition UnlockConnector ::
  "wired \<Rightarrow> (string \<Rightarrow> central_call \<Rightarrow> string ocpp_outcome) \<Rightarrow> string \<Rightarrow> int \<Rightarrow> string res \<times> (string \<times> central_call) list" where
  "UnlockConnector W send chargerID connectorID =
     call_charger W send ''nil UnlockConnector confirmation'' chargerID (OperationCall (UnlockConnectorRequest connectorID))"

definition Reset ::
  "wired \<Rightarrow> (string \<Rightarrow> central_call \<Rightarrow> string ocpp_outcome) \<Rightarrow> string \<Rightarrow> string \<Rightarrow> string res \<times> (string \<times> central_call) list" where
  "Reset W send chargerID resetType =
     (let kind = ToLower (TrimSpace resetType);
          call = (\<lambda>t. call_charger W send ''nil Reset confirmation'' chargerID (OperationCall (ResetRequest t)))
      in if kind = ''soft'' then call ''Soft'' else if kind = ''hard'' then call ''Hard''
         else (Inl (ErrOther ''invalid reset type''), []))"

definition GetConfiguration ::
  "wired \<Rightarrow> (string \<Rightarrow> central_call \<Rightarrow> GetConfigurationConfirmation ocpp_outcome) \<Rightarrow> string \<Rightarrow> string list
   \<Rightarrow> GetConfigurationConfirmation res \<times> (string \<times> central_call) list" where
  "GetConfiguration W send chargerID keys =
     call_charger W send ''nil GetConfiguration confirmation'' chargerID (OperationCall (GetConfigurationRequest keys))"

definition TriggerMessage ::
  "wired \<Rightarrow> (string \<Rightarrow> central_call \<Rightarrow> string ocpp_outcome) \<Rightarrow> string \<Rightarrow> string \<Rightarrow> int \<Rightarrow> string res \<times> (string \<times> central_call) list" where
  "TriggerMessage W send chargerID requestedMessage connectorID =
     call_charger W send ''nil TriggerMessage confirmation'' chargerID
       (OperationCall (TriggerMessageRequest requestedMessage (positive_connector connectorID)))"

definition parseOptionalDateTime :: "(string \<Rightarrow> gotime res) \<Rightarrow> string \<Rightarrow> gotime option res" where
  "parseOptionalDateTime parseTime raw =
     (let raw = TrimSpace raw in
      if raw = '''' then Inr None else (case parseTime raw of Inl err \<Rightarrow> Inl err | Inr t \<Rightarrow> Inr (Some t)))"

definition parseRequiredDateTime :: "(string \<Rightarrow> gotime res) \<Rightarrow> string \<Rightarrow> gotime res" where
  "parseRequiredDateTime parseTime raw =
     (case parseOptionalDateTime parseTime raw of
        Inl err \<Rightarrow> Inl err
      | Inr None \<Rightarrow> Inl (ErrOther ''missing datetime'')
      | Inr (Some t) \<Rightarrow> Inr t)"

definition GetDiagnostics ::
  "wired \<Rightarrow> (string \<Rightarrow> gotime res) \<Rightarrow> (string \<Rightarrow> central_call \<Rightarrow> 'c ocpp_outcome) \<Rightarrow> string \<Rightarrow> string \<Rightarrow> string \<Rightarrow> string
   \<Rightarrow> int option \<Rightarrow> int option \<Rightarrow> 'c res \<times> (string \<times> central_call) list" where
  "GetDiagnostics W parseTime send chargerID location startTime stopTime retries retryInterval =
     (case parseOptionalDateTime parseTime startTime of
        Inl err \<Rightarrow> (Inl err, [])
      | Inr start \<Rightarrow>
          (case parseOptionalDateTime parseTime stopTime of
             Inl err \<Rightarrow> (Inl err, [])
           | Inr stop \<Rightarrow> call_charger W send ''nil GetDiagnostics confirmation'' chargerID
               (GetDiagnosticsCall \<lparr>gd_Location = location, gd_Retries = retries, gd_RetryInterval = retryInterval,
                  gd_StartTime = start, gd_StopTime = stop\<rparr>)))"

definition UpdateFirmware ::
  "wired \<Rightarrow> (string \<Rightarrow> gotime res) \<Rightarrow> (string \<Rightarrow> central_call \<Rightarrow> 'c ocpp_outcome) \<Rightarrow> string \<Rightarrow> string \<Rightarrow> string
   \<Rightarrow> int option \<Rightarrow> int option \<Rightarrow> 'c res \<times> (string \<times> central_call) list" where
  "UpdateFirmware W parseTime send chargerID location retrieveDateRaw retries retryInterval =
     (case parseRequiredDateTime parseTime retrieveDateRaw of
        Inl err \<Rightarrow> (Inl err, [])
      | Inr retrieveDate \<Rightarrow> call_charger W send ''nil UpdateFirmware confirmation'' chargerID
          (UpdateFirmwareCall \<lparr>uf_Location = location, uf_RetrieveDate = retrieveDate, uf_Retries = retries, uf_RetryInterval = retryInterval\<rparr>))"

subsection \<open>The recorded dispatch sends what the helpers send\<close>

text \<open>The requests of the helper for an operation's kind, with the operation's arguments.\<close>

definition helper_calls ::
  "wired \<Rightarrow> (string \<Rightarrow> central_call \<Rightarrow> string ocpp_outcome) \<Rightarrow> (string \<Rightarrow> central_call \<Rightarrow> GetConfigurationConfirmation ocpp_outcome)
   \<Rightarrow> V1ChargerOperation \<Rightarrow> (string \<times> central_call) list" where
  "helper_calls W send sendGet op =
     (let charger = op_ChargerOCPPIdentity op; parameters = op_Parameters op; connector = op_OCPPConnectorNumber op; kind = op_Kind op in
      if kind = ''RESET'' then snd (Reset W send charger (string_at parameters ''type''))
      else if kind = ''UNLOCK_CONNECTOR'' then snd (UnlockConnector W send charger connector)
      else if kind = ''CHANGE_AVAILABILITY'' then snd (ChangeAvailability W send charger connector (string_at parameters ''type''))
      else if kind = ''CLEAR_CACHE'' then snd (ClearCache W send charger)
      else if kind = ''CHANGE_CONFIGURATION'' then
        snd (ChangeConfiguration W send charger (string_at parameters ''key'') (string_at parameters ''value''))
      else if kind = ''TRIGGER_MESSAGE'' then snd (TriggerMessage W send charger (string_at parameters ''requested_message'') connector)
      else snd (GetConfiguration W sendGet charger (op_ConfigurationKeys op)))"

lemma operation_types:
  "ToLower (TrimSpace ''SOFT'') = ''soft''" "ToLower (TrimSpace ''HARD'') = ''hard''"
  "ToLower (TrimSpace ''OPERATIVE'') = ''operative''" "ToLower (TrimSpace ''INOPERATIVE'') = ''inoperative''"
  by code_simp+

lemmas helper_defs = Reset_def UnlockConnector_def ChangeAvailability_def ClearCache_def ChangeConfiguration_def TriggerMessage_def
  GetConfiguration_def call_charger_def positive_connector_def

text \<open>
  The durable dispatch and the direct helpers send the same request. For every valid charger
  operation, \<^verbatim>\<open>DispatchChargerOperation\<close> hands the library exactly the request that the helper of
  its kind (\<^verbatim>\<open>Reset\<close>, \<^verbatim>\<open>UnlockConnector\<close>, \<^verbatim>\<open>ChangeAvailability\<close>, \<^verbatim>\<open>ClearCache\<close>,
  \<^verbatim>\<open>ChangeConfiguration\<close>, \<^verbatim>\<open>TriggerMessage\<close>, \<^verbatim>\<open>GetConfiguration\<close>) would send for the same arguments.
\<close>

theorem dispatch_equals_helper:
  assumes "validV1ChargerOperation uuidParse r" and "carries r op"
  shows "map (map_prod id OperationCall) (fst (snd (DispatchChargerOperation W sendOp key op o'))) = helper_calls W send sendGet op"
proof -
  obtain request where req: "operation_request op = Some request" using valid_operation_request [OF assms] by blast
  have "helper_calls W send sendGet op = [(wireIdentityFor W (op_ChargerOCPPIdentity op), OperationCall request)]"
    using assms(1)
  proof (cases rule: valid_kind_cases)
    case reset
    then show ?thesis using assms(2) req
      by (auto simp: helper_calls_def operation_request_def carries_def operation_types helper_defs Let_def)
  next
    case availability
    then show ?thesis using assms(2) req
      by (auto simp: helper_calls_def operation_request_def carries_def operation_types helper_defs Let_def)
  qed (use assms(2) req in \<open>auto simp: helper_calls_def operation_request_def carries_def helper_defs Let_def\<close>)
  then show ?thesis using dispatch_sends [OF req, of W sendOp key o'] by simp
qed

theorem dispatch_equals_helper_witness:
  "map (map_prod id OperationCall) (fst (snd (DispatchChargerOperation [(''S1'', ''CP1'')] (\<lambda>_ _. CtxDone (ErrOther ''deadline'')) 1
       sample_operation \<lparr>obs_byRequest = [], obs_byUnique = []\<rparr>)))
     = helper_calls [(''S1'', ''CP1'')] (\<lambda>_ _. Answered None (Some ''Accepted'')) (\<lambda>_ _. Answered None None) sample_operation"
  by (rule dispatch_equals_helper [OF sample_request_valid sample_carries])

end
