(* ===== verification/Charger_Configuration.thy ===== *)
theory Charger_Configuration
  imports HAL_Calls
begin

text \<open>
  The configuration the HAL asks of a charger after it boots (\<^verbatim>\<open>ocpp16hal/configuration.go\<close>). A Go
  map is an association list with distinct keys. The client interface is two arguments, the
  answer to reading the keys and the answer to changing one; \<open>current k\<close> is the answer of the
  connection check made before reading (\<open>None\<close>) and before key \<open>k\<close>.
\<close>

record configuration_settings =
  cf_heartbeatIntervalSeconds :: int
  cf_configurationMeterSampleIntervalSeconds :: int
  cf_configurationReconcileTimeout :: duration
  cf_vendorConfigurationProfile :: string
  cf_vendorConfigurationVendor :: string

record ConfigurationReconciliationConfig =
  rc_MeterValueSampleIntervalSeconds :: int
  rc_Timeout :: duration
  rc_VendorProfile :: string
  rc_Vendor :: string

definition SetHeartbeatIntervalSeconds :: "int \<Rightarrow> configuration_settings \<Rightarrow> configuration_settings" where
  "SetHeartbeatIntervalSeconds seconds h = (if seconds > 0 then h\<lparr>cf_heartbeatIntervalSeconds := seconds\<rparr> else h)"

definition SetConfigurationReconciliation :: "ConfigurationReconciliationConfig \<Rightarrow> configuration_settings \<Rightarrow> configuration_settings" where
  "SetConfigurationReconciliation cfg h =
     (let h = (if rc_MeterValueSampleIntervalSeconds cfg > 0
               then h\<lparr>cf_configurationMeterSampleIntervalSeconds := rc_MeterValueSampleIntervalSeconds cfg\<rparr> else h);
          h = (if rc_Timeout cfg > 0 then h\<lparr>cf_configurationReconcileTimeout := rc_Timeout cfg\<rparr> else h)
      in h\<lparr>cf_vendorConfigurationProfile := TrimSpace (rc_VendorProfile cfg), cf_vendorConfigurationVendor := TrimSpace (rc_Vendor cfg)\<rparr>)"

definition legacyRemoteOnlyVendorProfile :: string_map where
  "legacyRemoteOnlyVendorProfile = [(''AuthorizeRemoteTxRequests'', ''true''), (''LocalAuthorizeOffline'', ''false''),
     (''LocalPreAuthorize'', ''false''), (''AuthorizationCacheEnabled'', ''false''), (''AllowOfflineTxForUnknownId'', ''false''),
     (''StopTransactionOnInvalidId'', ''true''), (''ChargePointAuthEnable'', ''true''), (''FreevendEnabled'', ''false'')]"

text \<open>\<open>vendor\<close> is the vendor of the boot notification, \<open>None\<close> without one.\<close>

definition desiredConfiguration :: "configuration_settings \<Rightarrow> string option \<Rightarrow> string_map" where
  "desiredConfiguration h vendor =
     [(''HeartbeatInterval'', FormatInt (cf_heartbeatIntervalSeconds h)),
      (''MeterValueSampleInterval'', FormatInt (cf_configurationMeterSampleIntervalSeconds h))]
     @ (if cf_vendorConfigurationProfile h = ''legacy-remote-only''
          \<and> (case vendor of None \<Rightarrow> False | Some v \<Rightarrow> EqualFold (TrimSpace v) (cf_vendorConfigurationVendor h))
        then legacyRemoteOnlyVendorProfile else [])"

record configurationOutcome =
  co_Key :: string
  co_Outcome :: string

text \<open>The later of two entries for a key wins, as the assignments to \<^verbatim>\<open>currentValues\<close> do.\<close>

definition currentValues :: "ConfigurationKey list \<Rightarrow> string \<Rightarrow> ConfigurationKey option" where
  "currentValues ks key = find (\<lambda>c. ck_Key c = key) (rev ks)"

definition reconcile_key :: "(string \<Rightarrow> string \<Rightarrow> string res) \<Rightarrow> string \<Rightarrow> string \<Rightarrow> ConfigurationKey option \<Rightarrow> string \<times> (string \<times> string) list" where
  "reconcile_key change key desired observed =
     (case observed of
        None \<Rightarrow> (''unsupported'', [])
      | Some c \<Rightarrow>
          if ck_Readonly c then (''readonly'', [])
          else if ck_Value c = Some desired then (''already_current'', [])
          else (case change key desired of
              Inl _ \<Rightarrow> (''change_failed'', [(key, desired)])
            | Inr status \<Rightarrow> (if status \<noteq> ''Accepted'' then ''rejected'' else ''changed'', [(key, desired)])))"

fun reconcile_keys ::
  "(string \<Rightarrow> string \<Rightarrow> string res) \<Rightarrow> (string option \<Rightarrow> bool) \<Rightarrow> string_map \<Rightarrow> ConfigurationKey list \<Rightarrow> string list
   \<Rightarrow> configurationOutcome list \<times> (string \<times> string) list" where
  "reconcile_keys change current desired reported [] = ([], [])"
| "reconcile_keys change current desired reported (key # keys) =
     (if \<not> current (Some key) then ([\<lparr>co_Key = key, co_Outcome = ''superseded''\<rparr>], [])
      else (let (outcome, sent) = reconcile_key change key (string_at desired key) (currentValues reported key);
                (outcomes, sent') = reconcile_keys change current desired reported keys
            in (\<lparr>co_Key = key, co_Outcome = outcome\<rparr> # outcomes, sent @ sent')))"

definition reconcileConfiguration ::
  "(string list \<Rightarrow> GetConfigurationConfirmation res) \<Rightarrow> (string \<Rightarrow> string \<Rightarrow> string res) \<Rightarrow> (string option \<Rightarrow> bool) \<Rightarrow> string_map
   \<Rightarrow> configurationOutcome list \<times> (string \<times> string) list" where
  "reconcileConfiguration get change current desired =
     (let keys = sort (map fst desired) in
      if \<not> current None then ([\<lparr>co_Key = '''', co_Outcome = ''superseded''\<rparr>], [])
      else (case get keys of
          Inl _ \<Rightarrow> ([\<lparr>co_Key = '''', co_Outcome = ''get_failed''\<rparr>], [])
        | Inr confirmation \<Rightarrow> reconcile_keys change current desired (gc_ConfigurationKey confirmation) keys))"

text \<open>
  \<^verbatim>\<open>scheduleConfigurationReconciliation\<close> with the goroutine it starts: the calls go through the
  HAL's own helpers, and the connection check compares the generation with the tracker, of which
  \<open>tracker k\<close> is the state at the check.
\<close>

definition scheduleConfigurationReconciliation ::
  "wired \<Rightarrow> (string \<Rightarrow> central_call \<Rightarrow> GetConfigurationConfirmation ocpp_outcome) \<Rightarrow> (string \<Rightarrow> central_call \<Rightarrow> string ocpp_outcome)
   \<Rightarrow> configuration_settings \<Rightarrow> (string option \<Rightarrow> connectionTracker) \<Rightarrow> connectionTracker \<Rightarrow> string \<Rightarrow> int \<Rightarrow> string option
   \<Rightarrow> configurationOutcome list \<times> (string \<times> string) list" where
  "scheduleConfigurationReconciliation W sendGet send h tracker now identity generation vendor =
     (let desired = desiredConfiguration h vendor in
      if desired = [] \<or> \<not> connectionGenerationCurrent identity generation now then ([], [])
      else reconcileConfiguration (\<lambda>keys. fst (GetConfiguration W sendGet identity keys))
        (\<lambda>key value. fst (ChangeConfiguration W send identity key value))
        (\<lambda>k. connectionGenerationCurrent identity generation (tracker k)) desired)"

subsection \<open>What is changed\<close>

text \<open>A key needs a change when the charger knows it, lets it be written and holds another value.\<close>

definition needs_change :: "string_map \<Rightarrow> ConfigurationKey list \<Rightarrow> string \<Rightarrow> bool" where
  "needs_change desired reported key =
     (case currentValues reported key of None \<Rightarrow> False | Some c \<Rightarrow> \<not> ck_Readonly c \<and> ck_Value c \<noteq> Some (string_at desired key))"

lemma reconcile_key_sent:
  "snd (reconcile_key change key (string_at desired key) (currentValues reported key))
     = (if needs_change desired reported key then [(key, string_at desired key)] else [])"
  by (auto simp: reconcile_key_def needs_change_def split: option.split sum.split)

lemma reconcile_keys_exact:
  "snd (reconcile_keys change current desired reported keys)
     = map (\<lambda>k. (k, string_at desired k)) (filter (needs_change desired reported) (takeWhile (current \<circ> Some) keys))
   \<and> map co_Key (fst (reconcile_keys change current desired reported keys)) = take (Suc (length (takeWhile (current \<circ> Some) keys))) keys"
proof (induction keys)
  case (Cons key keys)
  then show ?case
    using reconcile_key_sent [of change key desired reported] by (auto simp: split_beta Let_def)
qed simp

text \<open>
  Reconciliation changes exactly what differs. When the charger answers the read, the changes
  sent are, in the order of the sorted keys and each once, the desired values of the writable keys
  that hold another value, up to the first key at which the connection is no longer current; every
  key up to there has one outcome. Nothing is sent to a superseded connection or after a failed read.
\<close>

theorem reconcile_exact:
  "let keys = sort (map fst desired); live = takeWhile (current \<circ> Some) keys;
       (outcomes, sent) = reconcileConfiguration get change current desired
   in case (current None, get keys) of
        (True, Inr confirmation) \<Rightarrow>
          sent = map (\<lambda>k. (k, string_at desired k)) (filter (needs_change desired (gc_ConfigurationKey confirmation)) live)
          \<and> map co_Key outcomes = take (Suc (length live)) keys
      | _ \<Rightarrow> sent = []"
  using reconcile_keys_exact [of change current desired _ "sort (map fst desired)"]
  by (auto simp: reconcileConfiguration_def Let_def split_beta split: sum.split)

lemma reconciled_keys:
  "fst ` set (desiredConfiguration h vendor) \<subseteq> set (''HeartbeatInterval'' # ''MeterValueSampleInterval'' # map fst legacyRemoteOnlyVendorProfile)"
  by (auto simp: desiredConfiguration_def)

lemma reconciled_keys_owned:
  "list_all v1HALOwnedConfigurationKey (''HeartbeatInterval'' # ''MeterValueSampleInterval'' # map fst legacyRemoteOnlyVendorProfile)"
  by code_simp

text \<open>
  The CMS cannot fight the HAL over a configuration key. Every key the HAL reconciles, in
  every setting and for every vendor, is one that the validation of a CMS configuration change
  refuses, whatever the value and the surrounding space.
\<close>

theorem reconciled_key_refused:
  assumes "key \<in> fst ` set (desiredConfiguration h vendor)" and "TrimSpace (string_at parameters ''key'') = key"
  shows "\<not> validV1ConfigurationChange parameters"
proof -
  have "v1HALOwnedConfigurationKey key"
    using assms(1) reconciled_keys reconciled_keys_owned by (fastforce simp: list_all_iff)
  then show ?thesis using assms(2) by (simp add: validV1ConfigurationChange_def Let_def)
qed

theorem reconciled_key_refused_witness:
  "\<not> validV1ConfigurationChange [(''key'', '' FreevendEnabled ''), (''value'', ''true'')]"
proof (rule reconciled_key_refused)
  let ?h = "\<lparr>cf_heartbeatIntervalSeconds = 60, cf_configurationMeterSampleIntervalSeconds = 30, cf_configurationReconcileTimeout = 1,
    cf_vendorConfigurationProfile = ''legacy-remote-only'', cf_vendorConfigurationVendor = ''ACME''\<rparr>"
  show "''FreevendEnabled'' \<in> fst ` set (desiredConfiguration ?h (Some '' acme ''))" by code_simp
  show "TrimSpace (string_at [(''key'', '' FreevendEnabled ''), (''value'', ''true'')] ''key'') = ''FreevendEnabled''" by code_simp
qed

end
