(* ===== verification/Meter_Telemetry.thy ===== *)
theory Meter_Telemetry
  imports SoC_Percent
begin

text \<open>
  What a \<^verbatim>\<open>MeterValues\<close> message says of a transaction (\<^verbatim>\<open>ocpp16hal/v1.go\<close>): of all samples it
  holds, the most recent energy register in Wh and the most recent state of charge. The decimal
  grammar of \<^verbatim>\<open>big.Rat.SetString\<close> is the argument \<open>setString\<close>.
\<close>

record SampledValue =
  sv_Value :: string
  sv_Measurand :: string
  sv_Unit :: string

record MeterValue =
  mv_Timestamp :: "gotime option"
  mv_SampledValue :: "SampledValue list"

record MeterValuesRequest =
  mvr_ConnectorId :: int
  mvr_TransactionId :: "int option"
  mvr_MeterValue :: "MeterValue list"

definition parseV1EnergyWh :: "(string \<Rightarrow> rat option) \<Rightarrow> string \<Rightarrow> string \<Rightarrow> int option" where
  "parseV1EnergyWh setString raw rawUnit =
     (case setString (TrimSpace raw) of
        None \<Rightarrow> None
      | Some rational \<Rightarrow>
          (let unit = ToLower (TrimSpace rawUnit);
               rational = (if unit = ''kwh'' \<or> unit = ''kilowatthour'' then rational * 1000 else rational)
           in if \<not> rat_IsInt rational \<or> \<not> in_int64 (rat_Num rational) then None else Some (rat_Num rational)))"

definition validV1SoCUnit :: "string \<Rightarrow> bool" where
  "validV1SoCUnit raw \<longleftrightarrow> (let unit = ToLower (TrimSpace raw) in unit = '''' \<or> unit = ''percent'' \<or> unit = ''%'')"

definition energy_measurand :: "string \<Rightarrow> bool" where
  "energy_measurand measurand \<longleftrightarrow>
     EqualFold measurand ''Energy.Active.Import.Register'' \<or> EqualFold measurand ''Energy.Active.Import''"

definition extract_sample :: "(string \<Rightarrow> rat option) \<Rightarrow> gotime \<Rightarrow> SampledValue \<Rightarrow> V1MeterTelemetry \<Rightarrow> V1MeterTelemetry" where
  "extract_sample setString observedAt sample telemetry =
     (let measurand = TrimSpace (sv_Measurand sample) in
      if energy_measurand measurand then
        (case parseV1EnergyWh setString (sv_Value sample) (sv_Unit sample) of
           Some value \<Rightarrow>
             (if (case tel_EnergyObservedAt telemetry of None \<Rightarrow> True | Some t \<Rightarrow> \<not> observedAt < t)
              then telemetry\<lparr>tel_EnergyWh := Some value, tel_EnergyObservedAt := Some observedAt\<rparr> else telemetry)
         | None \<Rightarrow> telemetry)
      else if EqualFold measurand ''SoC'' \<and> validV1SoCUnit (sv_Unit sample) then
        (case ParseV1SoCPercent setString (sv_Value sample) of
           Some value \<Rightarrow>
             (if (case tel_SoCObservedAt telemetry of None \<Rightarrow> True | Some t \<Rightarrow> \<not> observedAt < t)
              then telemetry\<lparr>tel_SoCPercent := Some value, tel_SoCObservedAt := Some observedAt\<rparr> else telemetry)
         | None \<Rightarrow> telemetry)
      else telemetry)"

definition observed_at :: "gotime \<Rightarrow> gotime option \<Rightarrow> gotime" where
  "observed_at receivedAt timestamp = (case timestamp of None \<Rightarrow> receivedAt | Some t \<Rightarrow> if time_IsZero t then receivedAt else t)"

definition extractV1MeterTelemetry :: "(string \<Rightarrow> rat option) \<Rightarrow> gotime \<Rightarrow> MeterValuesRequest \<Rightarrow> V1MeterTelemetry" where
  "extractV1MeterTelemetry setString receivedAt request =
     fold (\<lambda>meterValue. fold (extract_sample setString (observed_at receivedAt (mv_Timestamp meterValue))) (mv_SampledValue meterValue))
       (mvr_MeterValue request)
       \<lparr>tel_EnergyWh = None, tel_EnergyObservedAt = None, tel_SoCPercent = None, tel_SoCObservedAt = None\<rparr>"

subsection \<open>The latest reading\<close>

text \<open>
  The specification: the readings of the message in order, each with its time, and the latest of
  them; of several at the same time the one that comes last.
\<close>

definition timed_samples :: "gotime \<Rightarrow> MeterValuesRequest \<Rightarrow> (gotime \<times> SampledValue) list" where
  "timed_samples receivedAt request =
     concat (map (\<lambda>m. map (Pair (observed_at receivedAt (mv_Timestamp m))) (mv_SampledValue m)) (mvr_MeterValue request))"

definition energy_reading :: "(string \<Rightarrow> rat option) \<Rightarrow> SampledValue \<Rightarrow> int option" where
  "energy_reading setString sample =
     (if energy_measurand (TrimSpace (sv_Measurand sample)) then parseV1EnergyWh setString (sv_Value sample) (sv_Unit sample) else None)"

definition soc_reading :: "(string \<Rightarrow> rat option) \<Rightarrow> SampledValue \<Rightarrow> V1SoCPercent option" where
  "soc_reading setString sample =
     (if EqualFold (TrimSpace (sv_Measurand sample)) ''SoC'' \<and> validV1SoCUnit (sv_Unit sample)
      then ParseV1SoCPercent setString (sv_Value sample) else None)"

definition readings :: "(SampledValue \<Rightarrow> 'a option) \<Rightarrow> (gotime \<times> SampledValue) list \<Rightarrow> (gotime \<times> 'a) list" where
  "readings f xs = List.map_filter (\<lambda>(t, s). map_option (Pair t) (f s)) xs"

definition latest :: "(gotime \<times> 'a) list \<Rightarrow> (gotime \<times> 'a) option" where
  "latest xs = (if xs = [] then None else Some (last (filter (\<lambda>x. fst x = Max (fst ` set xs)) xs)))"

lemma latest_candidates: "xs \<noteq> [] \<Longrightarrow> filter (\<lambda>x. fst x = Max (fst ` set xs)) xs \<noteq> []"
proof -
  assume "xs \<noteq> []"
  then have "Max (fst ` set xs) \<in> fst ` set xs" by (intro Max_in) auto
  then obtain x where "x \<in> set xs" "fst x = Max (fst ` set xs)" by force
  then show ?thesis by (metis (mono_tags, lifting) empty_filter_conv)
qed

lemma latest_snoc:
  "latest (xs @ [x]) = (case latest xs of None \<Rightarrow> Some x | Some y \<Rightarrow> if fst x < fst y then Some y else Some x)"
proof (cases "xs = []")
  case False
  define M where "M = Max (fst ` set xs)"
  have ne: "filter (\<lambda>y. fst y = M) xs \<noteq> []" unfolding M_def by (rule latest_candidates [OF False])
  have y: "fst (last (filter (\<lambda>y. fst y = M) xs)) = M" using last_in_set [OF ne] by simp
  have M': "Max (fst ` set (xs @ [x])) = max (fst x) M" using False by (simp add: M_def max.commute)
  have le: "fst y \<le> M" if "y \<in> set xs" for y unfolding M_def using that by (intro Max_ge) auto
  have none: "filter (\<lambda>y. fst y = fst x) xs = []" if "M < fst x"
    using le that by (intro filter_False ballI) fastforce
  have l: "latest xs = Some (last (filter (\<lambda>y. fst y = M) xs))" using False by (simp add: latest_def M_def)
  have l': "latest (xs @ [x]) = Some (last (filter (\<lambda>y. fst y = max (fst x) M) (xs @ [x])))"
    using M' by (simp add: latest_def)
  consider "fst x < M" | "fst x = M" | "M < fst x" by linarith
  then show ?thesis
    unfolding l l' using y ne none by cases (simp_all add: max_def)
qed (simp add: latest_def)

lemma readings_snoc: "readings f (xs @ [(t, s)]) = readings f xs @ (case f s of None \<Rightarrow> [] | Some v \<Rightarrow> [(t, v)])"
  by (simp add: readings_def List.map_filter_def split: option.splits)

lemma EqualFold_SoC: "EqualFold m ''SoC'' \<Longrightarrow> \<not> energy_measurand m"
  by (auto simp: EqualFold_def energy_measurand_def ToLower_def lower_char_def)

definition telemetry_of :: "(string \<Rightarrow> rat option) \<Rightarrow> (gotime \<times> SampledValue) list \<Rightarrow> V1MeterTelemetry" where
  "telemetry_of setString xs =
     (let e = latest (readings (energy_reading setString) xs); s = latest (readings (soc_reading setString) xs)
      in \<lparr>tel_EnergyWh = map_option snd e, tel_EnergyObservedAt = map_option fst e,
          tel_SoCPercent = map_option snd s, tel_SoCObservedAt = map_option fst s\<rparr>)"

lemma extract_sample_snoc: "extract_sample setString t s (telemetry_of setString xs) = telemetry_of setString (xs @ [(t, s)])"
  using EqualFold_SoC [of "TrimSpace (sv_Measurand s)"]
  by (auto simp: telemetry_of_def readings_snoc latest_snoc extract_sample_def energy_reading_def soc_reading_def Let_def
      split: option.split)

lemma extract_samples: "fold (\<lambda>(t, s). extract_sample setString t s) xs (telemetry_of setString ys) = telemetry_of setString (ys @ xs)"
  by (induction xs arbitrary: ys) (auto simp: extract_sample_snoc)

lemma extract_flat:
  "extractV1MeterTelemetry setString receivedAt request =
     fold (\<lambda>(t, s). extract_sample setString t s) (timed_samples receivedAt request) (telemetry_of setString [])"
proof -
  have "fold (\<lambda>m. fold (extract_sample setString (observed_at receivedAt (mv_Timestamp m))) (mv_SampledValue m)) ms tel
      = fold (\<lambda>(t, s). extract_sample setString t s)
          (concat (map (\<lambda>m. map (Pair (observed_at receivedAt (mv_Timestamp m))) (mv_SampledValue m)) ms)) tel" for ms tel
    by (induction ms arbitrary: tel) (simp_all add: fold_map comp_def)
  then show ?thesis
    by (simp add: extractV1MeterTelemetry_def timed_samples_def telemetry_of_def readings_def latest_def List.map_filter_simps)
qed

text \<open>
  C36: the extracted telemetry is the latest reading of each kind. Over all samples of the message,
  whatever their order, the energy register is the parsable energy reading with the greatest time
  (the last of several), the state of charge likewise, and each is missing exactly when the
  message has no parsable reading of its kind.
\<close>

theorem extract_latest: "extractV1MeterTelemetry setString receivedAt request = telemetry_of setString (timed_samples receivedAt request)"
  by (simp add: extract_flat extract_samples)

lemma latest_in: "latest xs = Some x \<Longrightarrow> x \<in> set xs"
proof -
  assume a: "latest xs = Some x"
  then have "xs \<noteq> []" by (auto simp: latest_def)
  from last_in_set [OF latest_candidates [OF this]] show "x \<in> set xs" using a by (auto simp: latest_def split: if_splits)
qed

lemma extract_in_int64: "tel_EnergyWh (extractV1MeterTelemetry setString receivedAt request) = Some w \<Longrightarrow> in_int64 w"
  unfolding extract_latest telemetry_of_def
  by (auto simp: readings_def List.map_filter_def energy_reading_def parseV1EnergyWh_def Let_def dest!: latest_in split: if_splits option.splits)

end
