(* ===== verification/Charger_Registry.thy ===== *)
theory Charger_Registry
  imports SoC_Percent "HOL-Library.AList"
begin

text \<open>
  The in-process picture of the chargers (\<^verbatim>\<open>state/registry.go\<close>, \<^verbatim>\<open>state/inactivity.go\<close>). A Go map
  is an association list with distinct keys, whose order stands for the order of iteration. A
  \<^verbatim>\<open>float64\<close> is a rational number; every operation rounds its exact result with \<open>rnd\<close>, the
  rounding of IEEE 754, an argument of the definitions (infinities and NaN do not arise: the
  inputs are converted from 64-bit integers and the only divisors are 1000 and 1000000000). Instants that
  the code formats as text are kept as instants.
\<close>

subsection \<open>State\<close>

record ConnectorState =
  cs_Status :: string
  cs_LastMeterValue :: "rat option"
  cs_LastTransactionConsumptionKWh :: rat
  cs_ErrorCode :: string
  cs_TransactionID :: "int option"
  cs_LastMeterReceived :: "gotime option"

record ChargerState =
  ch_ID :: string
  ch_Online :: bool
  ch_HasError :: bool
  ch_Status :: string
  ch_Connectors :: "(string \<times> ConnectorState) list"
  ch_LastMessageTime :: gotime

type_synonym Registry = "(string \<times> ChargerState) list"

definition NewRegistry :: Registry where
  "NewRegistry = []"

definition zero_connector :: ConnectorState where
  "zero_connector = \<lparr>cs_Status = '''', cs_LastMeterValue = None, cs_LastTransactionConsumptionKWh = 0, cs_ErrorCode = '''',
     cs_TransactionID = None, cs_LastMeterReceived = None\<rparr>"

definition connectorKey :: "int \<Rightarrow> string" where
  "connectorKey connectorID = FormatInt connectorID"

text \<open>\<open>ensureLocked\<close> returns the charger; its callers store it back, which the pointer does in Go.\<close>

definition ensureLocked :: "gotime \<Rightarrow> string \<Rightarrow> Registry \<Rightarrow> ChargerState" where
  "ensureLocked now chargerID r =
     (case map_of r chargerID of
        Some cp \<Rightarrow> cp
      | None \<Rightarrow> \<lparr>ch_ID = chargerID, ch_Online = True, ch_HasError = False, ch_Status = ''Inactive'', ch_Connectors = [],
          ch_LastMessageTime = now\<rparr>)"

definition connector_of :: "string \<Rightarrow> ChargerState \<Rightarrow> ConnectorState" where
  "connector_of key cp = (case map_of (ch_Connectors cp) key of None \<Rightarrow> zero_connector | Some conn \<Rightarrow> conn)"

definition with_error_code :: "ConnectorState \<Rightarrow> ConnectorState" where
  "with_error_code conn = (if cs_ErrorCode conn = '''' then conn\<lparr>cs_ErrorCode := ''NoError''\<rparr> else conn)"

definition with_status :: "ConnectorState \<Rightarrow> ConnectorState" where
  "with_status conn = (if cs_Status conn = '''' then conn\<lparr>cs_Status := ''Unknown''\<rparr> else conn)"

subsection \<open>Operations\<close>

definition Touch :: "gotime \<Rightarrow> string \<Rightarrow> Registry \<Rightarrow> Registry" where
  "Touch now chargerID r =
     AList.update chargerID ((ensureLocked now chargerID r)\<lparr>ch_Online := True, ch_LastMessageTime := now\<rparr>) r"

definition MarkOffline :: "gotime \<Rightarrow> string \<Rightarrow> Registry \<Rightarrow> Registry" where
  "MarkOffline now chargerID r =
     (case map_of r chargerID of
        None \<Rightarrow> r
      | Some cp \<Rightarrow> AList.update chargerID (cp\<lparr>ch_Online := False, ch_LastMessageTime := now\<rparr>) r)"

definition connector_error :: "ConnectorState \<Rightarrow> bool" where
  "connector_error conn \<longleftrightarrow> cs_ErrorCode conn \<noteq> '''' \<and> cs_ErrorCode conn \<noteq> ''NoError''"

definition ApplyStatusNotification :: "gotime \<Rightarrow> string \<Rightarrow> int \<Rightarrow> string \<Rightarrow> string \<Rightarrow> Registry \<Rightarrow> Registry" where
  "ApplyStatusNotification now chargerID connectorID status errorCode r =
     (let cp = (ensureLocked now chargerID r)\<lparr>ch_Online := True, ch_LastMessageTime := now\<rparr>;
          key = connectorKey connectorID;
          conn = with_error_code (with_status (connector_of key cp));
          conn = (if status \<noteq> '''' then conn\<lparr>cs_Status := status\<rparr> else conn);
          conn = (if errorCode \<noteq> '''' then conn\<lparr>cs_ErrorCode := errorCode\<rparr> else conn);
          connectors = AList.update key conn (ch_Connectors cp)
      in AList.update chargerID
           (cp\<lparr>ch_Connectors := connectors, ch_HasError := list_ex (connector_error \<circ> snd) connectors\<rparr>) r)"

definition ApplyStartTransaction :: "gotime \<Rightarrow> string \<Rightarrow> int \<Rightarrow> int \<Rightarrow> rat \<Rightarrow> Registry \<Rightarrow> Registry" where
  "ApplyStartTransaction now chargerID connectorID transactionID meterStart r =
     (let cp = (ensureLocked now chargerID r)\<lparr>ch_Online := True, ch_Status := ''Active'', ch_LastMessageTime := now\<rparr>;
          key = connectorKey connectorID;
          conn = (with_error_code (connector_of key cp))\<lparr>cs_Status := ''Charging'', cs_LastMeterValue := Some meterStart,
            cs_TransactionID := Some transactionID, cs_LastMeterReceived := Some now\<rparr>
      in AList.update chargerID (cp\<lparr>ch_Connectors := AList.update key conn (ch_Connectors cp)\<rparr>) r)"

definition deltaWh :: "(rat \<Rightarrow> rat) \<Rightarrow> rat \<Rightarrow> rat \<Rightarrow> rat" where
  "deltaWh rnd previous current =
     (let rollover = 4294967295; delta = rnd (current - previous) in
      if delta \<ge> 0 then delta else rnd (rnd (current + rnd (rollover - previous)) + 1))"

definition with_consumption :: "(rat \<Rightarrow> rat) \<Rightarrow> rat \<Rightarrow> ConnectorState \<Rightarrow> ConnectorState" where
  "with_consumption rnd meterWh conn =
     (case cs_LastMeterValue conn of
        None \<Rightarrow> conn
      | Some previous \<Rightarrow> conn\<lparr>cs_LastTransactionConsumptionKWh := rnd (deltaWh rnd previous meterWh / 1000)\<rparr>)"

definition ApplyMeterValue :: "(rat \<Rightarrow> rat) \<Rightarrow> gotime \<Rightarrow> string \<Rightarrow> int \<Rightarrow> int option \<Rightarrow> rat \<Rightarrow> Registry \<Rightarrow> Registry" where
  "ApplyMeterValue rnd now chargerID connectorID transactionID meterValueWh r =
     (let cp = (ensureLocked now chargerID r)\<lparr>ch_Online := True, ch_LastMessageTime := now\<rparr>;
          key = connectorKey connectorID;
          conn = with_consumption rnd meterValueWh (with_error_code (with_status (connector_of key cp)));
          conn = conn\<lparr>cs_LastMeterValue := Some meterValueWh\<rparr>;
          conn = (case transactionID of None \<Rightarrow> conn | Some t \<Rightarrow> conn\<lparr>cs_TransactionID := Some t\<rparr>);
          conn = conn\<lparr>cs_LastMeterReceived := Some now\<rparr>
      in AList.update chargerID (cp\<lparr>ch_Connectors := AList.update key conn (ch_Connectors cp)\<rparr>) r)"

definition ApplyStopTransaction :: "(rat \<Rightarrow> rat) \<Rightarrow> gotime \<Rightarrow> string \<Rightarrow> int \<Rightarrow> rat \<Rightarrow> Registry \<Rightarrow> Registry" where
  "ApplyStopTransaction rnd now chargerID connectorID meterStop r =
     (let cp = (ensureLocked now chargerID r)\<lparr>ch_Online := True, ch_Status := ''Inactive'', ch_LastMessageTime := now\<rparr>;
          key = connectorKey connectorID;
          conn = (with_consumption rnd meterStop (with_error_code (connector_of key cp)))\<lparr>cs_Status := ''Available'',
            cs_LastMeterValue := Some meterStop, cs_TransactionID := None, cs_LastMeterReceived := Some now\<rparr>
      in AList.update chargerID (cp\<lparr>ch_Connectors := AList.update key conn (ch_Connectors cp)\<rparr>) r)"

text \<open>\<^verbatim>\<open>strconv.Atoi\<close>: an optional sign and decimal digits within \<^verbatim>\<open>int64\<close>.\<close>

definition Atoi :: "string \<Rightarrow> int option" where
  "Atoi s =
     (let (sign, ds) = (case s of [] \<Rightarrow> (1, []) | c # cs \<Rightarrow> if c = CHR ''-'' then (- 1, cs) else if c = CHR ''+'' then (1, cs) else (1, s));
          n = sign * int (digits_value ds)
      in if ds \<noteq> [] \<and> list_all is_digit ds \<and> in_int64 n then Some n else None)"

definition FindConnectorByTransactionID :: "string \<Rightarrow> int \<Rightarrow> Registry \<Rightarrow> int option" where
  "FindConnectorByTransactionID chargerID transactionID r =
     (case map_of r chargerID of
        None \<Rightarrow> None
      | Some cp \<Rightarrow> (case List.map_filter (\<lambda>(connectorID, conn).
            if cs_TransactionID conn = Some transactionID then Atoi connectorID else None) (ch_Connectors cp) of
          [] \<Rightarrow> None | i # _ \<Rightarrow> Some i))"

definition TransactionIDForConnector :: "string \<Rightarrow> int \<Rightarrow> Registry \<Rightarrow> int option" where
  "TransactionIDForConnector chargerID connectorID r =
     (case map_of r chargerID of
        None \<Rightarrow> None
      | Some cp \<Rightarrow> (case map_of (ch_Connectors cp) (connectorKey connectorID) of
          None \<Rightarrow> None | Some conn \<Rightarrow> cs_TransactionID conn))"

definition Snapshot :: "string \<Rightarrow> Registry \<Rightarrow> ChargerState option" where
  "Snapshot chargerID r = map_of r chargerID"

subsection \<open>Inactivity\<close>

record InactivityResult =
  ir_ChargerID :: string
  ir_Found :: bool
  ir_Inactive :: bool
  ir_Online :: string
  ir_Status :: string
  ir_InactiveSeconds :: rat
  ir_InactivityLimitSeconds :: rat
  ir_LatestMessageReceivedTime :: "gotime option"
  ir_Action :: string

text \<open>\<^verbatim>\<open>Duration.Seconds\<close>: whole seconds plus the remaining nanoseconds.\<close>

definition Seconds :: "(rat \<Rightarrow> rat) \<Rightarrow> duration \<Rightarrow> rat" where
  "Seconds rnd d = rnd (rnd (of_int (go_div d duration_second)) + rnd (rnd (of_int (go_mod d duration_second)) / 1000000000))"

definition CheckInactivity :: "(rat \<Rightarrow> rat) \<Rightarrow> gotime \<Rightarrow> string \<Rightarrow> duration \<Rightarrow> Registry \<Rightarrow> InactivityResult \<times> Registry" where
  "CheckInactivity rnd now chargerID limit r =
     (case map_of r chargerID of
        None \<Rightarrow> (\<lparr>ir_ChargerID = chargerID, ir_Found = False, ir_Inactive = True, ir_Online = ''Offline'', ir_Status = ''Offline'',
          ir_InactiveSeconds = 0, ir_InactivityLimitSeconds = Seconds rnd limit, ir_LatestMessageReceivedTime = None,
          ir_Action = ''charger_not_found''\<rparr>, r)
      | Some cp \<Rightarrow>
          (let zero = time_IsZero (ch_LastMessageTime cp);
               inactiveSeconds = (if zero then 0 else Seconds rnd (time_Sub now (ch_LastMessageTime cp)));
               online = (if ch_Online cp \<and> ch_HasError cp then ''Online (with error)'' else if ch_Online cp then ''Online'' else ''Offline'');
               result = \<lparr>ir_ChargerID = chargerID, ir_Found = True, ir_Inactive = False, ir_Online = online, ir_Status = ch_Status cp,
                 ir_InactiveSeconds = inactiveSeconds, ir_InactivityLimitSeconds = Seconds rnd limit,
                 ir_LatestMessageReceivedTime = (if zero then None else Some (ch_LastMessageTime cp)), ir_Action = ''no_change''\<rparr>
           in if zero then (result\<lparr>ir_Action := ''no_messages''\<rparr>, r)
              else if ch_Online cp \<and> inactiveSeconds \<ge> Seconds rnd limit then
                (result\<lparr>ir_Inactive := True, ir_Online := ''Offline'', ir_Status := ''Offline'', ir_Action := ''marked_offline''\<rparr>,
                 AList.update chargerID (cp\<lparr>ch_Online := False, ch_Status := ''Offline''\<rparr>) r)
              else if \<not> ch_Online cp \<and> inactiveSeconds \<ge> Seconds rnd limit then
                (result\<lparr>ir_Inactive := True, ir_Online := ''Offline'', ir_Action := ''already_offline''\<rparr>, r)
              else (result, r)))"

subsection \<open>Keys\<close>

lemma digits_head: "digits n = c # cs \<Longrightarrow> is_digit c"
  using digits_all_digits [of n] by simp

lemma Atoi_connectorKey: "in_int64 n \<Longrightarrow> Atoi (connectorKey n) = Some n"
proof -
  assume n: "in_int64 n"
  show ?thesis
  proof (cases "n < 0")
    case True
    then show ?thesis using n digits_all_digits by (simp add: Atoi_def connectorKey_def FormatInt_def)
  next
    case False
    obtain c cs where d: "digits (nat n) = c # cs" using digits_not_Nil [of "nat n"] by (cases "digits (nat n)") auto
    have "c \<noteq> CHR ''-''" "c \<noteq> CHR ''+''" using digits_head [OF d] by (auto simp: is_digit_def)
    then show ?thesis
      using False n d digits_all_digits [of "nat n"] digits_value_digits [of "nat n"]
      by (simp add: Atoi_def connectorKey_def FormatInt_def)
  qed
qed

lemma connectorKey_inject [simp]: "connectorKey m = connectorKey n \<longleftrightarrow> m = n"
proof -
  have minus: "digits k \<noteq> CHR ''-'' # cs" for k cs using digits_head [of k "CHR ''-''" cs] by (auto simp: is_digit_def)
  have inj: "digits k = digits l \<Longrightarrow> k = l" for k l by (metis digits_value_digits)
  show ?thesis
    using minus minus [symmetric] by (auto simp: connectorKey_def FormatInt_def dest!: inj split: if_splits)
qed

subsection \<open>Histories\<close>

datatype registry_event =
    RTouch gotime string
  | ROffline gotime string
  | RStatus gotime string int string string
  | RStart gotime string int int rat
  | RMeter gotime string int "int option" rat
  | RStop gotime string int rat
  | RCheck gotime string duration

fun apply_registry :: "(rat \<Rightarrow> rat) \<Rightarrow> registry_event \<Rightarrow> Registry \<Rightarrow> Registry" where
  "apply_registry rnd (RTouch now c) r = Touch now c r"
| "apply_registry rnd (ROffline now c) r = MarkOffline now c r"
| "apply_registry rnd (RStatus now c n s e) r = ApplyStatusNotification now c n s e r"
| "apply_registry rnd (RStart now c n t m) r = ApplyStartTransaction now c n t m r"
| "apply_registry rnd (RMeter now c n t m) r = ApplyMeterValue rnd now c n t m r"
| "apply_registry rnd (RStop now c n m) r = ApplyStopTransaction rnd now c n m r"
| "apply_registry rnd (RCheck now c limit) r = snd (CheckInactivity rnd now c limit r)"

text \<open>What the transaction of a connector should be, read off the history.\<close>

fun transaction_spec :: "string \<Rightarrow> int \<Rightarrow> registry_event \<Rightarrow> int option \<Rightarrow> int option" where
  "transaction_spec c n (RStart _ c' n' t _) cur = (if c' = c \<and> n' = n then Some t else cur)"
| "transaction_spec c n (RMeter _ c' n' (Some t) _) cur = (if c' = c \<and> n' = n then Some t else cur)"
| "transaction_spec c n (RStop _ c' n' _) cur = (if c' = c \<and> n' = n then None else cur)"
| "transaction_spec c n _ cur = cur"

definition connectors_of :: "string \<Rightarrow> Registry \<Rightarrow> (string \<times> ConnectorState) list" where
  "connectors_of c r = (case map_of r c of None \<Rightarrow> [] | Some cp \<Rightarrow> ch_Connectors cp)"

lemma TransactionIDForConnector_connectors:
  "TransactionIDForConnector c n r = Option.bind (map_of (connectors_of c r) (connectorKey n)) cs_TransactionID"
  by (auto simp: TransactionIDForConnector_def connectors_of_def split: option.splits)

lemma connectors_ensure: "ch_Connectors (ensureLocked now c r) = connectors_of c r"
  by (simp add: ensureLocked_def connectors_of_def split: option.splits)

lemma connectors_update: "connectors_of c (AList.update c' cp r) = (if c = c' then ch_Connectors cp else connectors_of c r)"
  by (simp add: connectors_of_def update_conv')

text \<open>Each operation leaves the connectors alone or replaces one connector of one charger.\<close>

lemma connectors_kept:
  "connectors_of c (Touch now c' r) = connectors_of c r"
  "connectors_of c (MarkOffline now c' r) = connectors_of c r"
  "connectors_of c (snd (CheckInactivity rnd now c' limit r)) = connectors_of c r"
  by (auto simp: Touch_def MarkOffline_def CheckInactivity_def connectors_update connectors_ensure Let_def connectors_of_def [of c' r]
      split: option.split)

definition changed_connector :: "(rat \<Rightarrow> rat) \<Rightarrow> registry_event \<Rightarrow> ConnectorState \<Rightarrow> ConnectorState" where
  "changed_connector rnd ev conn =
     (case ev of
        RStatus now c n s e \<Rightarrow>
          (let conn = with_error_code (with_status conn); conn = (if s \<noteq> '''' then conn\<lparr>cs_Status := s\<rparr> else conn)
           in if e \<noteq> '''' then conn\<lparr>cs_ErrorCode := e\<rparr> else conn)
      | RStart now c n t m \<Rightarrow> (with_error_code conn)\<lparr>cs_Status := ''Charging'', cs_LastMeterValue := Some m,
          cs_TransactionID := Some t, cs_LastMeterReceived := Some now\<rparr>
      | RMeter now c n t m \<Rightarrow>
          (let conn = (with_consumption rnd m (with_error_code (with_status conn)))\<lparr>cs_LastMeterValue := Some m\<rparr>;
               conn = (case t of None \<Rightarrow> conn | Some t \<Rightarrow> conn\<lparr>cs_TransactionID := Some t\<rparr>)
           in conn\<lparr>cs_LastMeterReceived := Some now\<rparr>)
      | RStop now c n m \<Rightarrow> (with_consumption rnd m (with_error_code conn))\<lparr>cs_Status := ''Available'',
          cs_LastMeterValue := Some m, cs_TransactionID := None, cs_LastMeterReceived := Some now\<rparr>
      | _ \<Rightarrow> conn)"

fun event_connector :: "registry_event \<Rightarrow> (string \<times> int) option" where
  "event_connector (RStatus _ c n _ _) = Some (c, n)"
| "event_connector (RStart _ c n _ _) = Some (c, n)"
| "event_connector (RMeter _ c n _ _) = Some (c, n)"
| "event_connector (RStop _ c n _) = Some (c, n)"
| "event_connector _ = None"

definition connector_at :: "string \<Rightarrow> string \<Rightarrow> Registry \<Rightarrow> ConnectorState" where
  "connector_at c key r = (case map_of (connectors_of c r) key of None \<Rightarrow> zero_connector | Some conn \<Rightarrow> conn)"

lemma apply_connectors:
  "connectors_of c (apply_registry rnd ev r) =
     (case event_connector ev of
        None \<Rightarrow> connectors_of c r
      | Some (c', n) \<Rightarrow> if c' \<noteq> c then connectors_of c r
          else AList.update (connectorKey n)
            (changed_connector rnd ev (connector_at c (connectorKey n) r)) (connectors_of c r))"
  by (cases ev)
     (simp_all add: connectors_kept ApplyStatusNotification_def ApplyStartTransaction_def ApplyMeterValue_def ApplyStopTransaction_def
       connectors_update connectors_ensure changed_connector_def connector_at_def connector_of_def Let_def
       split: option.split)

lemma map_of_connectors:
  "map_of (connectors_of c (apply_registry rnd ev r)) =
     (case event_connector ev of
        None \<Rightarrow> map_of (connectors_of c r)
      | Some (c', n) \<Rightarrow> if c' \<noteq> c then map_of (connectors_of c r)
          else (map_of (connectors_of c r))(connectorKey n \<mapsto> changed_connector rnd ev (connector_at c (connectorKey n) r)))"
  by (simp add: apply_connectors update_conv' split: option.splits prod.splits)

lemma kept_fields [simp]:
  "cs_TransactionID (with_error_code conn) = cs_TransactionID conn" "cs_TransactionID (with_status conn) = cs_TransactionID conn"
  "cs_TransactionID (with_consumption rnd m conn) = cs_TransactionID conn"
  "connector_error (with_error_code conn) = connector_error conn" "connector_error (with_status conn) = connector_error conn"
  "connector_error (with_consumption rnd m conn) = connector_error conn"
  by (auto simp: with_error_code_def with_status_def with_consumption_def connector_error_def split: option.split)

lemma transaction_step:
  "TransactionIDForConnector c n (apply_registry rnd ev r) = transaction_spec c n ev (TransactionIDForConnector c n r)"
  unfolding TransactionIDForConnector_connectors map_of_connectors
  by (cases "(c, n, ev, Option.bind (map_of (connectors_of c r) (connectorKey n)) cs_TransactionID)" rule: transaction_spec.cases)
     (auto simp: changed_connector_def connector_at_def zero_connector_def Let_def split: option.splits)

text \<open>
  C35: the registry knows the transaction of every connector. After any history of messages,
  connection losses and inactivity checks, the transaction reported for a connector is the one of
  its latest StartTransaction or transaction-bound meter reading with no StopTransaction since.
\<close>

theorem registry_transactions:
  "TransactionIDForConnector c n (fold (apply_registry rnd) evs NewRegistry) = fold (transaction_spec c n) evs None"
proof -
  have "TransactionIDForConnector c n (fold (apply_registry rnd) evs r) = fold (transaction_spec c n) evs (TransactionIDForConnector c n r)" for r
    by (induction evs arbitrary: r) (simp_all add: transaction_step)
  then show ?thesis by (simp add: NewRegistry_def TransactionIDForConnector_def)
qed

subsection \<open>The error flag and the search by transaction\<close>

definition charger_ok :: "ChargerState \<Rightarrow> bool" where
  "charger_ok cp \<longleftrightarrow> distinct (map fst (ch_Connectors cp))
     \<and> fst ` set (ch_Connectors cp) \<subseteq> connectorKey ` {n. in_int64 n}
     \<and> (ch_HasError cp \<longleftrightarrow> list_ex (connector_error \<circ> snd) (ch_Connectors cp))"

definition registry_ok :: "Registry \<Rightarrow> bool" where
  "registry_ok r \<longleftrightarrow> list_all (\<lambda>(c, cp). ch_ID cp = c \<and> charger_ok cp) r"

lemma update_all: "list_all P (AList.update k v al)" if "list_all P al" "P (k, v)"
  using that by (induction al) auto

lemma update_fst_subset: "fst ` set al \<subseteq> K \<Longrightarrow> k \<in> K \<Longrightarrow> fst ` set (AList.update k v al) \<subseteq> K"
  by (induction al) auto

lemma list_ex_update:
  assumes "distinct (map fst al)" and "P v \<longleftrightarrow> (case map_of al k of None \<Rightarrow> False | Some v' \<Rightarrow> P v')"
  shows "list_ex (P \<circ> snd) (AList.update k v al) \<longleftrightarrow> list_ex (P \<circ> snd) al"
  using assms by (induction al) (auto simp: list_ex_iff split: option.splits dest: map_of_SomeD)

lemma registry_okD: "registry_ok r \<Longrightarrow> map_of r c = Some cp \<Longrightarrow> ch_ID cp = c \<and> charger_ok cp"
  by (auto simp: registry_ok_def list_all_iff dest: map_of_SomeD)

lemma ensureLocked_ok: "registry_ok r \<Longrightarrow> ch_ID (ensureLocked now c r) = c \<and> charger_ok (ensureLocked now c r)"
proof (cases "map_of r c")
  case None
  then show ?thesis by (simp add: ensureLocked_def charger_ok_def)
next
  case (Some cp)
  assume "registry_ok r"
  then show ?thesis using registry_okD [OF _ Some] Some by (simp add: ensureLocked_def)
qed

lemma registry_ok_update: "registry_ok r \<Longrightarrow> ch_ID cp = c \<Longrightarrow> charger_ok cp \<Longrightarrow> registry_ok (AList.update c cp r)"
  by (simp add: registry_ok_def update_all)

lemma charger_ok_connector:
  assumes "charger_ok cp" and "in_int64 n" and "connector_error conn = connector_error (connector_of (connectorKey n) cp)"
    and "cs = ch_Connectors cp"
  shows "charger_ok (cp\<lparr>ch_Connectors := AList.update (connectorKey n) conn cs\<rparr>)"
proof -
  have "connector_error conn \<longleftrightarrow> (case map_of (ch_Connectors cp) (connectorKey n) of None \<Rightarrow> False | Some v' \<Rightarrow> connector_error v')"
    using assms(3) by (simp add: connector_of_def zero_connector_def connector_error_def split: option.splits)
  then show ?thesis
    using assms(1,2,4) by (simp add: charger_ok_def update_fst_subset list_ex_update distinct_update)
qed

lemma charger_ok_fields [simp]:
  "charger_ok (cp\<lparr>ch_Online := x\<rparr>) = charger_ok cp" "charger_ok (cp\<lparr>ch_Status := s\<rparr>) = charger_ok cp"
  "charger_ok (cp\<lparr>ch_LastMessageTime := now\<rparr>) = charger_ok cp"
  by (simp_all add: charger_ok_def)

lemma connector_of_fields [simp]:
  "connector_of k (cp\<lparr>ch_Online := x\<rparr>) = connector_of k cp" "connector_of k (cp\<lparr>ch_Status := s\<rparr>) = connector_of k cp"
  "connector_of k (cp\<lparr>ch_LastMessageTime := now\<rparr>) = connector_of k cp"
  by (simp_all add: connector_of_def)

lemma connector_error_fields [simp]:
  "connector_error (conn\<lparr>cs_Status := s\<rparr>) = connector_error conn" "connector_error (conn\<lparr>cs_LastMeterValue := m\<rparr>) = connector_error conn"
  "connector_error (conn\<lparr>cs_TransactionID := t\<rparr>) = connector_error conn"
  "connector_error (conn\<lparr>cs_LastMeterReceived := l\<rparr>) = connector_error conn"
  by (simp_all add: connector_error_def)

definition event_ok :: "registry_event \<Rightarrow> bool" where
  "event_ok ev = (case event_connector ev of None \<Rightarrow> True | Some (_, n) \<Rightarrow> in_int64 n)"

lemma status_ok:
  assumes "registry_ok r" and "in_int64 n"
  shows "registry_ok (ApplyStatusNotification now c n s e r)"
proof -
  let ?cp = "(ensureLocked now c r)\<lparr>ch_Online := True, ch_LastMessageTime := now\<rparr>"
  have cp: "ch_ID ?cp = c" "charger_ok ?cp" using ensureLocked_ok [OF assms(1)] by simp_all
  have "charger_ok (?cp\<lparr>ch_Connectors := AList.update (connectorKey n) conn (ch_Connectors ?cp),
      ch_HasError := list_ex (connector_error \<circ> snd) (AList.update (connectorKey n) conn (ch_Connectors ?cp))\<rparr>)" for conn
    using cp(2) assms(2) by (simp add: charger_ok_def update_fst_subset distinct_update)
  then show ?thesis
    unfolding ApplyStatusNotification_def Let_def by (intro registry_ok_update assms(1)) (use cp(1) in simp_all)
qed

lemma registry_step_ok:
  assumes "registry_ok r" and "event_ok ev"
  shows "registry_ok (apply_registry rnd ev r)"
proof (cases ev)
  case (RCheck now c limit)
  then show ?thesis using assms(1)
    by (auto simp: CheckInactivity_def Let_def dest: registry_okD intro!: registry_ok_update split: option.split)
next
  case (ROffline now c)
  then show ?thesis using assms(1)
    by (auto simp: MarkOffline_def dest: registry_okD intro!: registry_ok_update split: option.split)
next
  case (RStatus now c n s e)
  then show ?thesis using assms by (simp add: status_ok event_ok_def)
next
  case (RMeter now c n t m)
  then show ?thesis using assms ensureLocked_ok [OF assms(1)]
    by (auto simp: ApplyMeterValue_def Let_def event_ok_def intro!: registry_ok_update charger_ok_connector split: option.split)
qed (use assms ensureLocked_ok [OF assms(1)] in \<open>auto simp: Touch_def ApplyStartTransaction_def ApplyStopTransaction_def Let_def event_ok_def
    intro!: registry_ok_update charger_ok_connector\<close>)

lemma registry_history_ok: "list_all event_ok evs \<Longrightarrow> registry_ok (fold (apply_registry rnd) evs NewRegistry)"
proof -
  have "list_all event_ok evs \<Longrightarrow> registry_ok r \<Longrightarrow> registry_ok (fold (apply_registry rnd) evs r)" for r
    by (induction evs arbitrary: r) (simp_all add: registry_step_ok)
  then show "list_all event_ok evs \<Longrightarrow> registry_ok (fold (apply_registry rnd) evs NewRegistry)"
    by (simp add: registry_ok_def NewRegistry_def)
qed

lemma find_sound:
  assumes ok: "registry_ok r"
  shows "(case FindConnectorByTransactionID c t r of
     Some n \<Rightarrow> TransactionIDForConnector c n r = Some t
   | None \<Rightarrow> list_all (\<lambda>(k, conn). cs_TransactionID conn \<noteq> Some t) (connectors_of c r))"
proof (cases "map_of r c")
  case None
  then show ?thesis by (simp add: FindConnectorByTransactionID_def connectors_of_def)
next
  case (Some cp)
  let ?f = "\<lambda>(connectorID, conn). if cs_TransactionID conn = Some t then Atoi connectorID else None"
  have good: "charger_ok cp" using registry_okD [OF ok Some] by simp
  have key: "\<exists>n. k = connectorKey n \<and> Atoi k = Some n" if "(k, conn) \<in> set (ch_Connectors cp)" for k conn
  proof -
    have "k \<in> connectorKey ` {n. in_int64 n}" using good that by (auto simp: charger_ok_def)
    then show ?thesis by (auto simp: Atoi_connectorKey)
  qed
  show ?thesis
  proof (cases "List.map_filter ?f (ch_Connectors cp)")
    case Nil
    have "cs_TransactionID conn \<noteq> Some t" if "(k, conn) \<in> set (ch_Connectors cp)" for k conn
      using Nil that key [OF that] by (fastforce simp: List.map_filter_def filter_empty_conv)
    then show ?thesis using Some Nil by (auto simp: FindConnectorByTransactionID_def connectors_of_def list_all_iff)
  next
    case (Cons n ns)
    have "n \<in> set (List.map_filter ?f (ch_Connectors cp))" using Cons by simp
    then obtain k conn where k: "(k, conn) \<in> set (ch_Connectors cp)" "cs_TransactionID conn = Some t" "Atoi k = Some n"
      by (auto simp: List.map_filter_def split: if_splits)
    have "k = connectorKey n" using key [OF k(1)] k(3) by auto
    then have "map_of (ch_Connectors cp) (connectorKey n) = Some conn" using k(1) good by (simp add: charger_ok_def)
    then show ?thesis using Some Cons k(2) by (simp add: FindConnectorByTransactionID_def TransactionIDForConnector_def)
  qed
qed

text \<open>
  The error flag is exact and the search by transaction is sound and complete. After any
  history with connector numbers in the range of \<^verbatim>\<open>int\<close>, a charger is flagged exactly when one of
  its connectors reports an error; the connector found for a transaction holds that transaction,
  and when none is found no connector of the charger holds it.
\<close>

theorem registry_invariant:
  assumes "list_all event_ok evs"
  shows "let r = fold (apply_registry rnd) evs NewRegistry in
     (case map_of r c of None \<Rightarrow> True | Some cp \<Rightarrow> ch_HasError cp = list_ex (connector_error \<circ> snd) (ch_Connectors cp))
     \<and> (case FindConnectorByTransactionID c t r of
          Some n \<Rightarrow> TransactionIDForConnector c n r = Some t
        | None \<Rightarrow> list_all (\<lambda>(k, conn). cs_TransactionID conn \<noteq> Some t) (connectors_of c r))"
proof -
  note ok = registry_history_ok [OF assms, of rnd]
  show ?thesis unfolding Let_def
    using find_sound [OF ok, where c = c and t = t] registry_okD [OF ok, of c] by (auto simp: charger_ok_def split: option.split)
qed

definition sample_history :: "registry_event list" where
  "sample_history = [RTouch 1 ''CP1'', RStatus 2 ''CP1'' 2 ''Faulted'' ''GroundFailure'', RStart 3 ''CP1'' 1 7 500,
     RMeter 4 ''CP1'' 1 (Some 7) 900]"

theorem registry_invariant_witness:
  "let r = fold (apply_registry id) sample_history NewRegistry in
   FindConnectorByTransactionID ''CP1'' 7 r = Some 1 \<and> TransactionIDForConnector ''CP1'' 1 r = Some 7"
proof -
  have "list_all event_ok sample_history" by code_simp
  note registry_invariant [OF this, where rnd = id and c = "''CP1''" and t = 7]
  moreover have "FindConnectorByTransactionID ''CP1'' 7 (fold (apply_registry id) sample_history NewRegistry) = Some 1" by code_simp
  ultimately show ?thesis by (simp add: Let_def del: fold_simps)
qed

subsection \<open>Rollover\<close>

text \<open>The rounding is exact on integers up to \<open>2 ^ 53\<close>, as that of \<^verbatim>\<open>float64\<close> is.\<close>

definition exact_ints :: "(rat \<Rightarrow> rat) \<Rightarrow> bool" where
  "exact_ints rnd \<longleftrightarrow> (\<forall>i. \<bar>i\<bar> \<le> 2 ^ 53 \<longrightarrow> rnd (of_int i) = of_int i)"

lemma exact_intsD: "exact_ints rnd \<Longrightarrow> \<bar>i\<bar> \<le> 2 ^ 53 \<Longrightarrow> rnd (of_int i) = of_int i"
  by (simp add: exact_ints_def)

text \<open>
  Consumption is exact across a rollover of the register. For two readings of a 32-bit Wh
  register the consumed energy is their difference modulo \<open>2 ^ 32\<close>.
\<close>

theorem deltaWh_rollover:
  assumes "exact_ints rnd" and "0 \<le> p" and "p < 2 ^ 32" and "0 \<le> c" and "c < 2 ^ 32"
  shows "deltaWh rnd (of_int p) (of_int c) = of_int ((c - p) mod 2 ^ 32)"
proof -
  note ex = exact_intsD [OF assms(1)]
  have d: "rnd (of_int c - of_int p) = of_int (c - p)" using ex [of "c - p"] assms(2-5) by simp
  show ?thesis
  proof (cases "p \<le> c")
    case True
    then show ?thesis using d assms(2-5) by (simp add: deltaWh_def)
  next
    case False
    have "rnd (4294967295 - of_int p) = of_int (4294967295 - p)" using ex [of "4294967295 - p"] assms(2,3) by simp
    moreover have "rnd (of_int c + of_int (4294967295 - p)) = of_int (c + (4294967295 - p))"
      using ex [of "c + (4294967295 - p)"] assms(2-5) by simp
    moreover have "rnd (of_int (c + (4294967295 - p)) + 1) = of_int (c + (4294967295 - p) + 1)"
      using ex [of "c + (4294967295 - p) + 1"] assms(2-5) by simp
    moreover have "(c - p) mod 2 ^ 32 = c + (4294967295 - p) + 1"
    proof -
      have "(c - p) mod 2 ^ 32 = (c - p + 2 ^ 32) mod 2 ^ 32" by (rule mod_add_self2 [symmetric])
      also have "\<dots> = c - p + 2 ^ 32" by (rule mod_pos_pos_trivial) (use False assms(2-5) in simp_all)
      finally show ?thesis by simp
    qed
    ultimately show ?thesis using d False by (simp add: deltaWh_def Let_def)
  qed
qed

theorem deltaWh_rollover_witness: "deltaWh id (of_int 4294967290) (of_int 4) = of_int ((4 - 4294967290) mod 2 ^ 32)"
  by (rule deltaWh_rollover) (simp_all add: exact_ints_def)

subsection \<open>Inactivity\<close>

lemma Seconds_mono:
  assumes "mono rnd" and "exact_ints rnd" and "0 \<le> a" and "a \<le> b" and "in_int64 b"
  shows "Seconds rnd a \<le> Seconds rnd b"
proof -
  let ?q = "\<lambda>d. d div duration_second" and ?m = "\<lambda>d. d mod duration_second"
  have s: "Seconds rnd d = rnd (rnd (of_int (?q d)) + rnd (rnd (of_int (?m d)) / 1000000000))" if "0 \<le> d" for d
    using that by (cases "d = 0") (simp_all add: Seconds_def go_div_def go_mod_def minus_mult_div_eq_mod flip: of_int_mult of_int_diff)
  have q: "rnd (of_int (?q d)) = of_int (?q d)" if "0 \<le> d" "in_int64 d" for d
    by (rule exact_intsD [OF assms(2)]) (use that in \<open>auto simp: in_int64_def\<close>)
  have m: "rnd (of_int (?m d)) = of_int (?m d)" for d
    by (rule exact_intsD [OF assms(2)]) (use pos_mod_bound [of duration_second d] pos_mod_sign [of duration_second d] in simp)
  have i: "in_int64 a" "0 \<le> b" using assms(3-5) by (auto simp: in_int64_def)
  have one: "rnd (of_int (?m a) / 1000000000) \<le> 1" and nonneg: "0 \<le> rnd (of_int (?m b) / 1000000000)"
    using monoD [OF assms(1), of "of_int (?m a) / 1000000000" 1] monoD [OF assms(1), of 0 "of_int (?m b) / 1000000000"]
      exact_intsD [OF assms(2), of 1] exact_intsD [OF assms(2), of 0] by simp_all
  have "of_int (?q a) + rnd (of_int (?m a) / 1000000000) \<le> of_int (?q b) + rnd (of_int (?m b) / 1000000000)"
  proof (cases "?q a = ?q b")
    case True
    then have "?m a \<le> ?m b" using assms(4) by (metis div_mult_mod_eq add_le_cancel_left)
    then show ?thesis using True monoD [OF assms(1), of "of_int (?m a) / 1000000000" "of_int (?m b) / 1000000000"]
      by (simp add: divide_right_mono)
  next
    case False
    then have "?q a + 1 \<le> ?q b" using zdiv_mono1 [OF assms(4), of duration_second] by simp
    then have "of_int (?q a) + 1 \<le> (of_int (?q b) :: rat)" by (metis of_int_1 of_int_add of_int_le_iff)
    then show ?thesis using one nonneg by linarith
  qed
  then show ?thesis using s q m assms(3,5) i monoD [OF assms(1)] by simp
qed

text \<open>
  A silent charger is found inactive. When at least the limit has passed since the last
  message of a known charger, the inactivity check reports it inactive and leaves it offline,
  for every monotone rounding that is exact on integers.
\<close>

theorem silent_charger_inactive:
  assumes "mono rnd" and "exact_ints rnd" and "map_of r c = Some cp" and "ch_LastMessageTime cp \<noteq> 0"
    and "0 \<le> limit" and "limit \<le> now - ch_LastMessageTime cp" and "in_int64 (now - ch_LastMessageTime cp)"
  shows "ir_Inactive (fst (CheckInactivity rnd now c limit r))
     \<and> map_option ch_Online (map_of (snd (CheckInactivity rnd now c limit r)) c) = Some False"
proof -
  have "Seconds rnd limit \<le> Seconds rnd (time_Sub now (ch_LastMessageTime cp))"
    using Seconds_mono [OF assms(1,2,5,6,7)] by (simp add: time_Sub_exact assms(7))
  then show ?thesis
    using assms(3,4) by (simp add: CheckInactivity_def Let_def time_IsZero_def update_conv')
qed

theorem silent_charger_inactive_witness:
  "let r = Touch 1000 ''CP1'' NewRegistry in
   ir_Inactive (fst (CheckInactivity id 61000000001000 ''CP1'' (60 * duration_second) r))
     \<and> map_option ch_Online (map_of (snd (CheckInactivity id 61000000001000 ''CP1'' (60 * duration_second) r)) ''CP1'') = Some False"
proof -
  have "map_of (Touch 1000 ''CP1'' NewRegistry) ''CP1'' = Some \<lparr>ch_ID = ''CP1'', ch_Online = True, ch_HasError = False,
      ch_Status = ''Inactive'', ch_Connectors = [], ch_LastMessageTime = 1000\<rparr>"
    by (simp add: Touch_def NewRegistry_def ensureLocked_def)
  then show ?thesis
    using silent_charger_inactive [where rnd = id and r = "Touch 1000 ''CP1'' NewRegistry" and c = "''CP1''"
        and now = 61000000001000 and limit = "60 * duration_second"]
    by (simp add: exact_ints_def mono_def in_int64_def Let_def)
qed

end
