(* ===== verification/HAL_Handlers.thy ===== *)
theory HAL_Handlers
  imports Remote_Dispatch Charger_Configuration Meter_Telemetry Charger_Registry
begin

text \<open>
  The HAL as the OCPP library drives it (\<^verbatim>\<open>ocpp16hal/hal.go\<close>, \<^verbatim>\<open>ocpp16hal/v1.go\<close>,
  \<^verbatim>\<open>ocpp16hal/extra.go\<close>): one function per message of a charger and per change of its physical
  connection, over the state the HAL keeps. The durable store is the PostgreSQL store.

  Diagnostic trace rows are written to tables that no handler's answer depends on, and a failed
  write is only logged; the model lists what the handlers hand to the trace store, in order. Where
  a handler looks a trace up (\<^verbatim>\<open>OnStatusNotification\<close>), the answer is an argument. Goroutines that
  a handler starts (the recovery pass after a connect, the reconciliation after a boot) run as
  steps of their own and are modelled by their own functions.
\<close>

subsection \<open>State and environment\<close>

datatype trace_request =
    TransactionTrace string V1TraceEventInput
  | ConnectorTrace string int V1TraceEventInput
  | StartTrace V1Transaction "V1TraceEventInput list"
  | StatusTrace string V1TraceEventInput
  | FollowOn string string int gotime

record HAL =
  hal_db :: PostgresStore
  hal_connections :: connectionTracker
  hal_wiredIdentity :: wired
  hal_registry :: Registry
  hal_operationObserver :: operationObserver
  hal_pendingRuntime :: runtime_queue
  hal_settings :: configuration_settings
  hal_traces :: "trace_request list"

text \<open>
  What one handler call meets: the clock, which the model reads once per call, the environment of its store calls, the library's
  \<^verbatim>\<open>RemoteStop\<close>, the float rounding and the decimal parser.
\<close>

record handler_env =
  he_now :: gotime
  he_store :: pg_env
  he_faults :: lifecycle_faults
  he_delivery :: delivery_env
  he_send :: "string \<Rightarrow> central_call \<Rightarrow> string ocpp_outcome"
  he_transactionID :: int
  he_rnd :: "rat \<Rightarrow> rat"
  he_setString :: "string \<Rightarrow> rat option"
  he_findTrace :: "string \<Rightarrow> int \<Rightarrow> V1Trace option"

definition trace_input :: "string \<Rightarrow> string \<Rightarrow> string \<Rightarrow> string \<Rightarrow> string \<Rightarrow> string \<Rightarrow> gotime \<Rightarrow> gomap \<Rightarrow> V1TraceEventInput" where
  "trace_input source target category protocol phase summary occurredAt data = \<lparr>
     ti_Source = source, ti_Target = target, ti_Category = category, ti_Protocol = protocol, ti_Phase = phase, ti_Summary = summary,
     ti_OccurredAt = occurredAt, ti_StateBefore = '''', ti_StateAfter = '''', ti_CorrelationID = '''', ti_Data = GMap data\<rparr>"

definition record_traces :: "trace_request list \<Rightarrow> HAL \<Rightarrow> HAL" where
  "record_traces ts h = h\<lparr>hal_traces := hal_traces h @ ts\<rparr>"

definition recordTriggerMessageFollowOn :: "gotime \<Rightarrow> string \<Rightarrow> string \<Rightarrow> int \<Rightarrow> gotime \<Rightarrow> HAL \<Rightarrow> HAL" where
  "recordTriggerMessageFollowOn now chargerID action connector observedAt h =
     (if \<not> V1TriggerMessageAction action \<or> (V1TriggerMessageConnectorScoped action \<and> connector < 1) then h
      else record_traces [FollowOn chargerID action connector (if time_IsZero observedAt then now else observedAt)] h)"

definition touch :: "handler_env \<Rightarrow> string \<Rightarrow> HAL \<Rightarrow> HAL" where
  "touch N chargerID h = h\<lparr>hal_registry := Touch (he_now N) chargerID (hal_registry h)\<rparr>"

definition project_runtime :: "pg_env \<Rightarrow> pendingRuntimeProjection \<Rightarrow> HAL \<Rightarrow> HAL" where
  "project_runtime E observation h =
     (let (queue, db) = persistRuntimeProjection E observation (hal_pendingRuntime h, hal_db h)
      in h\<lparr>hal_pendingRuntime := queue, hal_db := db\<rparr>)"

subsection \<open>Connections\<close>

definition onNewChargePoint :: "handler_env \<Rightarrow> string \<Rightarrow> string \<Rightarrow> string \<Rightarrow> HAL \<Rightarrow> HAL" where
  "onNewChargePoint N wireIdentity connKey remoteAddr h =
     (let chargePointID = canonicalIdentity (hal_wiredIdentity h) wireIdentity;
          ((current, _), tracker) = register_connection (he_now N) chargePointID connKey remoteAddr (hal_connections h)
      in project_runtime (he_store N)
           \<lparr>pr_identity = chargePointID, pr_generation = sint (cn_Generation current), pr_online = True, pr_observedAt = cn_ConnectedAt current\<rparr>
           (touch N chargePointID (h\<lparr>hal_connections := tracker\<rparr>)))"

definition onChargePointDisconnected :: "handler_env \<Rightarrow> string \<Rightarrow> string \<Rightarrow> HAL \<Rightarrow> HAL" where
  "onChargePointDisconnected N wireIdentity connKey h =
     (let chargePointID = canonicalIdentity (hal_wiredIdentity h) wireIdentity in
      case unregisterIfCurrent chargePointID connKey (hal_connections h) of
        ((True, Some current), tracker) \<Rightarrow>
          (let h1 = h\<lparr>hal_connections := tracker, hal_registry := MarkOffline (he_now N) chargePointID (hal_registry h)\<rparr>;
               h2 = project_runtime (he_store N) \<lparr>pr_identity = chargePointID, pr_generation = sint (cn_Generation current),
                 pr_online = False, pr_observedAt = he_now N\<rparr> h1
           in h2\<lparr>hal_wiredIdentity := forgetWireIdentity wireIdentity (hal_wiredIdentity h2),
                 hal_operationObserver := forgetCharger wireIdentity (hal_operationObserver h2)\<rparr>)
      | _ \<Rightarrow> h)"

subsection \<open>Messages without a transaction\<close>

definition OnAuthorize :: "handler_env \<Rightarrow> string \<Rightarrow> string \<Rightarrow> HAL \<Rightarrow> string \<times> HAL" where
  "OnAuthorize N wire idTag h =
     (let chargePointID = canonicalIdentity (hal_wiredIdentity h) wire;
          h1 = touch N chargePointID h;
          credential = pg_GetV1Credential idTag (hal_db h1);
          accepted = (case credential of Inl _ \<Rightarrow> False | Inr _ \<Rightarrow> pg_AuthorizeV1Credential chargePointID idTag (he_now N) (hal_db h1) = Inr ());
          outcome = (if accepted then ''Accepted'' else ''Invalid'');
          h2 = (case credential of
              Inl _ \<Rightarrow> h1
            | Inr c \<Rightarrow> record_traces
                [ConnectorTrace chargePointID (cred_OCPPConnectorNumber c) (trace_input ''CHARGER'' ''HAL'' ''OCPP_CALL'' ''OCPP1.6'' ''STARTING''
                   ''Authorize received'' (he_now N) [(''action'', GString ''Authorize'')]),
                 ConnectorTrace chargePointID (cred_OCPPConnectorNumber c) (trace_input ''HAL'' ''CHARGER'' ''OCPP_CALL'' ''OCPP1.6'' ''STARTING''
                   (''Authorize confirmation: '' @ outcome) (he_now N) [(''action'', GString ''Authorize''), (''result'', GString outcome)])] h1)
      in (outcome, h2))"

record BootNotificationRequest =
  bn_ChargeBoxSerialNumber :: string
  bn_ChargePointSerialNumber :: string
  bn_ChargePointVendor :: string
  bn_ChargePointModel :: string
  bn_FirmwareVersion :: string

text \<open>
  The second component is the reconciliation that the handler schedules: charger, generation and
  vendor of \<^verbatim>\<open>scheduleConfigurationReconciliation\<close>.
\<close>

definition OnBootNotification ::
  "handler_env \<Rightarrow> string \<Rightarrow> BootNotificationRequest \<Rightarrow> HAL \<Rightarrow> (int \<times> (string \<times> int \<times> string) option) \<times> HAL" where
  "OnBootNotification N wire request h =
     (let chargePointID = canonicalIdentity (hal_wiredIdentity h) wire;
          h1 = touch N chargePointID (recordTriggerMessageFollowOn (he_now N) chargePointID ''BootNotification'' 0 (he_now N) h);
          wireIdentity = wireIdentityFor (hal_wiredIdentity h1) chargePointID;
          evidence = \<lparr>boot_PathSerial = (if wireIdentity \<noteq> chargePointID then wireIdentity else ''''),
            boot_ChargeBoxSerialNumber = bn_ChargeBoxSerialNumber request,
            boot_ChargePointSerialNumber = bn_ChargePointSerialNumber request, boot_ChargePointVendor = bn_ChargePointVendor request,
            boot_ChargePointModel = bn_ChargePointModel request, boot_FirmwareVersion = bn_FirmwareVersion request,
            boot_ObservedAt = he_now N\<rparr>;
          h2 = h1\<lparr>hal_db := snd (pg_RecordV1BootEvidence chargePointID evidence (hal_db h1))\<rparr>;
          scheduled = map_option (\<lambda>current. (chargePointID, sint (cn_Generation current), bn_ChargePointVendor request))
            (current_connection chargePointID (hal_connections h2))
      in ((cf_heartbeatIntervalSeconds (hal_settings h2), scheduled), h2))"

definition OnDataTransfer :: "handler_env \<Rightarrow> string \<Rightarrow> HAL \<Rightarrow> string \<times> HAL" where
  "OnDataTransfer N wire h = (''Accepted'', touch N (canonicalIdentity (hal_wiredIdentity h) wire) h)"

definition OnDiagnosticsStatusNotification :: "handler_env \<Rightarrow> string \<Rightarrow> HAL \<Rightarrow> HAL" where
  "OnDiagnosticsStatusNotification N wire h =
     (let chargePointID = canonicalIdentity (hal_wiredIdentity h) wire
      in touch N chargePointID (recordTriggerMessageFollowOn (he_now N) chargePointID ''DiagnosticsStatusNotification'' 0 (he_now N) h))"

definition OnFirmwareStatusNotification :: "handler_env \<Rightarrow> string \<Rightarrow> HAL \<Rightarrow> HAL" where
  "OnFirmwareStatusNotification N wire h =
     (let chargePointID = canonicalIdentity (hal_wiredIdentity h) wire
      in touch N chargePointID (recordTriggerMessageFollowOn (he_now N) chargePointID ''FirmwareStatusNotification'' 0 (he_now N) h))"

definition OnHeartbeat :: "handler_env \<Rightarrow> string \<Rightarrow> HAL \<Rightarrow> HAL" where
  "OnHeartbeat N wire h =
     (let chargePointID = canonicalIdentity (hal_wiredIdentity h) wire;
          h1 = touch N chargePointID (recordTriggerMessageFollowOn (he_now N) chargePointID ''Heartbeat'' 0 (he_now N) h)
      in case current_connection chargePointID (hal_connections h1) of
           None \<Rightarrow> h1
         | Some current \<Rightarrow> h1\<lparr>hal_db := snd (pg_RenewCurrentV1ChargerConnection (he_store N) chargePointID (sint (cn_Generation current))
             (he_now N) (hal_db h1))\<rparr>)"

definition connectorStatusTracePhase :: "V1Trace \<Rightarrow> PostgresStore \<Rightarrow> string res" where
  "connectorStatusTracePhase trace db =
     (if tr_HALTransactionID trace = '''' then Inr ''STARTING''
      else (case pg_GetV1Transaction (tr_HALTransactionID trace) db of
          Inl err \<Rightarrow> Inl err
        | Inr transaction \<Rightarrow> Inr (if tx_CompletedAt transaction \<noteq> None then ''POST_STOP'' else ''CHARGING'')))"

record StatusNotificationRequest =
  sn_ConnectorId :: int
  sn_Status :: string
  sn_ErrorCode :: string
  sn_Info :: string
  sn_VendorId :: string
  sn_VendorErrorCode :: string

text \<open>\<open>Inr ()\<close> is a confirmation, \<open>Inl\<close> the error that becomes a CALLERROR.\<close>

definition OnStatusNotification :: "handler_env \<Rightarrow> string \<Rightarrow> StatusNotificationRequest \<Rightarrow> HAL \<Rightarrow> unit res \<times> HAL" where
  "OnStatusNotification N wire request h =
     (let chargePointID = canonicalIdentity (hal_wiredIdentity h) wire;
          h1 = recordTriggerMessageFollowOn (he_now N) chargePointID ''StatusNotification'' (sn_ConnectorId request) (he_now N) h;
          (r, db) = pg_RecordV1ConnectorStatus (he_store N) \<lparr>crt_CPOID = '''', crt_CMSChargerID = '''', crt_CMSConnectorID = '''',
            crt_ChargerOCPPIdentity = chargePointID, crt_OCPPConnectorNumber = sn_ConnectorId request,
            crt_Status = sn_Status request, crt_ErrorCode = sn_ErrorCode request, crt_Info = sn_Info request,
            crt_VendorID = sn_VendorId request, crt_VendorErrorCode = sn_VendorErrorCode request,
            crt_ObservedAt = Some (he_now N), crt_StatusSequence = 0, crt_UpdatedAt = 0\<rparr> (hal_db h1);
          h2 = h1\<lparr>hal_db := db\<rparr>
      in case r of
           Inl err \<Rightarrow>
             if err \<in> {ErrV1MappingNotFound, ErrV1CredentialRejected} then (Inr (), h2)
             else (Inl (ErrOther ''StatusNotification was not durably persisted''), h2)
         | Inr _ \<Rightarrow>
             (let h3 = (case he_findTrace N chargePointID (sn_ConnectorId request) of
                  None \<Rightarrow> h2
                | Some trace \<Rightarrow> (case connectorStatusTracePhase trace (hal_db h2) of
                    Inl _ \<Rightarrow> h2
                  | Inr phase \<Rightarrow> record_traces [StatusTrace (tr_TraceID trace) (trace_input ''CHARGER'' ''HAL'' ''STATUS'' ''OCPP1.6'' phase
                      (''Connector status: '' @ sn_Status request) (he_now N)
                      [(''status'', GString (sn_Status request)), (''connector_id'', GInt (sn_ConnectorId request))])] h2))
              in (Inr (), h3\<lparr>hal_registry := ApplyStatusNotification (he_now N) chargePointID (sn_ConnectorId request) (sn_Status request)
                    (sn_ErrorCode request) (hal_registry h3)\<rparr>)))"

subsection \<open>Transactions\<close>

record StartTransactionRequest =
  st_ConnectorId :: int
  st_IdTag :: string
  st_MeterStart :: int
  st_Timestamp :: "gotime option"

record StopTransactionRequest =
  sp_TransactionId :: int
  sp_MeterStop :: int
  sp_Reason :: string
  sp_Timestamp :: "gotime option"

text \<open>The confirmation: the authorization status and the transaction identifier.\<close>

definition OnStartTransaction :: "handler_env \<Rightarrow> string \<Rightarrow> StartTransactionRequest \<Rightarrow> HAL \<Rightarrow> (string \<times> int) \<times> HAL" where
  "OnStartTransaction N wire request h =
     (let chargePointID = canonicalIdentity (hal_wiredIdentity h) wire;
          h1 = touch N chargePointID h
      in if \<not> HasPrefix (st_IdTag request) ''appv1_'' then ((''Invalid'', 0), h1)
         else (case pg_MaterializeV1Start (he_store N) \<lparr>mat_ChargerOCPPIdentity = chargePointID,
               mat_OCPPConnectorNumber = st_ConnectorId request, mat_IDTag = st_IdTag request, mat_MeterStartWh = st_MeterStart request,
               mat_ActualStartedAt = observed_at (he_now N) (st_Timestamp request), mat_ObservedAt = he_now N,
               mat_OCPPTransactionID = he_transactionID N\<rparr> (hal_db h1) of
             (Inl err, db) \<Rightarrow> ((if err = ErrV1CredentialRejected then ''Invalid'' else ''Blocked'', 0), h1\<lparr>hal_db := db\<rparr>)
           | (Inr (tx, _), db) \<Rightarrow>
               (let fields = [(''transaction_id'', GInt (tx_OCPPTransactionID tx)), (''connector_id'', GInt (st_ConnectorId request)),
                      (''meter_wh'', GInt (st_MeterStart request))];
                    h2 = record_traces [StartTrace tx
                      [trace_input ''CHARGER'' ''HAL'' ''OCPP_CALL'' ''OCPP1.6'' ''STARTING'' ''StartTransaction received'' (he_now N)
                         ((''action'', GString ''StartTransaction'') # fields),
                       (trace_input ''HAL'' ''HAL'' ''LIFECYCLE'' ''POSTGRES'' ''STARTING'' ''Transaction materialized'' (he_now N) fields)
                         \<lparr>ti_StateAfter := ''ACTIVE''\<rparr>]] (h1\<lparr>hal_db := db\<rparr>)
                in ((''Accepted'', tx_OCPPTransactionID tx),
                    h2\<lparr>hal_registry := ApplyStartTransaction (he_now N) chargePointID (st_ConnectorId request) (tx_OCPPTransactionID tx)
                      (he_rnd N (of_int (st_MeterStart request))) (hal_registry h2)\<rparr>))))"

datatype meterPersistenceResult = meterIgnored | meterPersisted | meterPersistenceFailed

definition automaticV1StopInitiator :: "string \<Rightarrow> bool" where
  "automaticV1StopInitiator initiator \<longleftrightarrow> initiator \<in> {''ENERGY_LIMIT'', ''TIME_LIMIT'', ''MONEY_LIMIT'', ''WALLET_LIMIT''}"

definition traceMeterData :: "V1MeterTelemetry \<Rightarrow> gomap" where
  "traceMeterData telemetry = (case tel_EnergyWh telemetry of None \<Rightarrow> [] | Some w \<Rightarrow> [(''meter_wh'', GInt w)])"

definition remote_stop :: "handler_env \<Rightarrow> wired \<Rightarrow> string \<Rightarrow> int \<Rightarrow> string res" where
  "remote_stop N W charger transactionID = fst (RemoteStopTransaction W (he_send N) charger transactionID)"

text \<open>The part of \<^verbatim>\<open>HandleV1MeterValues\<close> that follows an accepted energy reading; it lists the stops sent.\<close>

definition dispatch_energy_stop :: "handler_env \<Rightarrow> string \<Rightarrow> HAL \<Rightarrow> string list \<times> HAL" where
  "dispatch_energy_stop N halTransactionID h =
     (case pg_GetV1StopWorkflow halTransactionID (hal_db h) of
        Inl _ \<Rightarrow> ([], h)
      | Inr workflow \<Rightarrow>
          if wf_State workflow \<noteq> ''PERSISTED'' then ([], h)
          else (let h1 = (if wf_DeliveryAttempts workflow = 0 \<and> automaticV1StopInitiator (wf_RequestedStopInitiator workflow)
                      then record_traces [TransactionTrace halTransactionID (trace_input ''HAL'' ''HAL'' ''LIFECYCLE'' ''POSTGRES'' ''STOPPING''
                        ''Automatic stop condition reached'' (he_now N) [(''reason'', GString (wf_RequestedStopReason workflow))])] h
                      else h);
                    ((_, sent), db) = DispatchV1Stop (he_delivery N) (remote_stop N (hal_wiredIdentity h1)) halTransactionID (hal_db h1)
                in (sent, h1\<lparr>hal_db := db\<rparr>)))"

definition HandleV1MeterValues :: "handler_env \<Rightarrow> string \<Rightarrow> MeterValuesRequest \<Rightarrow> HAL \<Rightarrow> (meterPersistenceResult \<times> string list) \<times> HAL" where
  "HandleV1MeterValues N identity request h =
     (let chargePointID = canonicalIdentity (hal_wiredIdentity h) identity in
      case mvr_TransactionId request of
        None \<Rightarrow> ((meterIgnored, []), h)
      | Some transactionID \<Rightarrow>
          if transactionID \<le> 0 then ((meterIgnored, []), h)
          else (let telemetry = extractV1MeterTelemetry (he_setString N) (he_now N) request in
                if V1MeterTelemetry_Empty telemetry then ((meterIgnored, []), h)
                else (case pg_UpdateV1TelemetryForOCPP (he_store N) chargePointID transactionID telemetry (hal_db h) of
                    (Inl err, db) \<Rightarrow>
                      ((if err \<in> {ErrV1TransactionNotFound, ErrV1InvalidEvidence} then meterIgnored else meterPersistenceFailed, []),
                       h\<lparr>hal_db := db\<rparr>)
                  | (Inr (transaction, accepted), db) \<Rightarrow>
                      (let h1 = h\<lparr>hal_db := db\<rparr>;
                           (sent, h2) = (if \<not> telres_EnergyAccepted accepted then ([], h1)
                             else dispatch_energy_stop N (tx_HALTransactionID transaction)
                               (h1\<lparr>hal_registry := ApplyMeterValue (he_rnd N) (he_now N) chargePointID (mvr_ConnectorId request)
                                 (Some (tx_OCPPTransactionID transaction))
                                 (case tel_EnergyWh telemetry of None \<Rightarrow> 0 | Some w \<Rightarrow> he_rnd N (of_int w)) (hal_registry h1)\<rparr>))
                       in if telres_EnergyAccepted accepted \<or> telres_SoCAccepted accepted
                          then ((meterPersisted, sent), record_traces [TransactionTrace (tx_HALTransactionID transaction)
                            (trace_input ''CHARGER'' ''HAL'' ''METER'' ''OCPP1.6'' ''CHARGING'' ''Accepted transaction meter observation''
                              (he_now N) (traceMeterData telemetry))] h2)
                          else ((meterIgnored, sent), h2)))))"

definition OnMeterValues :: "handler_env \<Rightarrow> string \<Rightarrow> MeterValuesRequest \<Rightarrow> HAL \<Rightarrow> (unit res \<times> string list) \<times> HAL" where
  "OnMeterValues N wire request h =
     (let chargePointID = canonicalIdentity (hal_wiredIdentity h) wire;
          h1 = touch N chargePointID (recordTriggerMessageFollowOn (he_now N) chargePointID ''MeterValues'' (mvr_ConnectorId request) (he_now N) h);
          ((r, sent), h2) = HandleV1MeterValues N chargePointID request h1
      in ((if r = meterPersistenceFailed then Inl (ErrOther ''MeterValues was not durably persisted'') else Inr (), sent), h2))"

definition HandleV1StopTransaction :: "handler_env \<Rightarrow> string \<Rightarrow> StopTransactionRequest \<Rightarrow> HAL \<Rightarrow> bool \<times> HAL" where
  "HandleV1StopTransaction N identity request h =
     (let chargePointID = canonicalIdentity (hal_wiredIdentity h) identity in
      if sp_TransactionId request \<le> 0 then (False, h)
      else (case pg_GetV1TransactionByOCPP chargePointID (sp_TransactionId request) (hal_db h) of
          Inl _ \<Rightarrow> (False, h)
        | Inr transaction \<Rightarrow>
            (let halID = tx_HALTransactionID transaction;
                 h1 = record_traces [TransactionTrace halID (trace_input ''CHARGER'' ''HAL'' ''OCPP_CALL'' ''OCPP1.6'' ''STOPPING''
                   ''StopTransaction received'' (he_now N) [(''action'', GString ''StopTransaction''),
                     (''transaction_id'', GInt (sp_TransactionId request)), (''meter_wh'', GInt (sp_MeterStop request)),
                     (''reason'', GString (sp_Reason request))])] h
             in case pg_CompleteV1Transaction (he_faults N) (he_store N) halID (sp_MeterStop request) (sp_Reason request)
                     (observed_at (he_now N) (sp_Timestamp request)) (he_now N) (hal_db h1) of
                  (Inl err, db) \<Rightarrow> (False, record_traces [TransactionTrace halID (trace_input ''HAL'' ''HAL'' ''PERSISTENCE'' ''POSTGRES'' ''STOPPING''
                      ''StopTransaction persistence failed'' (he_now N) [(''error_class'', GString ''persistence_error'')])] (h1\<lparr>hal_db := db\<rparr>))
                | (Inr completed, db) \<Rightarrow>
                    (case tx_MeterStopWh completed of
                       None \<Rightarrow> (False, h1\<lparr>hal_db := db\<rparr>)
                     | Some meterStop \<Rightarrow>
                         (True, record_traces [TransactionTrace (tx_HALTransactionID completed)
                            ((trace_input ''HAL'' ''HAL'' ''LIFECYCLE'' ''POSTGRES'' ''POST_STOP'' ''Transaction completion persisted'' (he_now N)
                              [(''transaction_id'', GInt (tx_OCPPTransactionID completed)), (''meter_wh'', GInt meterStop),
                               (''reason'', GString (tx_OCPPStopReason completed))])\<lparr>ti_StateBefore := ''ACTIVE'', ti_StateAfter := ''COMPLETED''\<rparr>)]
                            (h1\<lparr>hal_db := db, hal_registry := ApplyStopTransaction (he_rnd N) (he_now N) chargePointID
                               (tx_OCPPConnectorNumber completed) (he_rnd N (of_int meterStop)) (hal_registry h1)\<rparr>))))))"

definition OnStopTransaction :: "handler_env \<Rightarrow> string \<Rightarrow> StopTransactionRequest \<Rightarrow> HAL \<Rightarrow> unit res \<times> HAL" where
  "OnStopTransaction N wire request h =
     (let chargePointID = canonicalIdentity (hal_wiredIdentity h) wire;
          (ok, h1) = HandleV1StopTransaction N chargePointID request (touch N chargePointID h)
      in (if ok then Inr () else Inl (ErrOther ''StopTransaction was not durably persisted''), h1))"

end
