(* ===== verification/HAL_System.thy ===== *)
theory HAL_System
  imports HAL_Handlers
begin

text \<open>
  The HAL as a whole: every handler, every admission and every concurrent write of the store is a
  step, in any order. What the PostgreSQL store keeps of its lifecycle therefore holds of every
  reachable HAL, and the confirmations a charger receives say what is durable.
\<close>

subsection \<open>Store facts the handlers rest on\<close>

lemma stop_delivery_pg: "stop_delivery_step\<^sup>*\<^sup>* db db' \<Longrightarrow> pg_step\<^sup>*\<^sup>* db db'"
  by (erule rtranclp_mono [THEN predicate2D, rotated]) (auto simp: pg_step_def)

lemma DispatchV1Stop_deliveries: "stop_delivery_step\<^sup>*\<^sup>* db (snd (DispatchV1Stop D remoteStop i db))"
proof -
  obtain c db1 where c: "pg_ClaimV1StopDelivery (de_claimFaults D) (env_now (de_claim D)) i db = (c, db1)" by force
  obtain b db2 where b: "pg_BeginV1StopDelivery (de_beginFaults D) (env_now (de_begin D)) i db1 = (b, db2)" by force
  have s1: "stop_delivery_step db db1" using stop_delivery_step.claim_stop [of db "de_claimFaults D" "env_now (de_claim D)" i] c by simp
  have s2: "stop_delivery_step db1 db2" using stop_delivery_step.begin_stop [of db1 "de_beginFaults D" "env_now (de_begin D)" i] b by simp
  have s3: "stop_delivery_step db2 (snd (pg_MarkV1StopDelivery (de_markFaults D) (de_mark D) i status result detail db2))" for status result detail
    by (rule stop_delivery_step.mark_stop)
  have "snd (DispatchV1Stop D remoteStop i db) \<in> {db1, db2}
      \<or> (\<exists>status result detail. snd (DispatchV1Stop D remoteStop i db)
           = snd (pg_MarkV1StopDelivery (de_markFaults D) (de_mark D) i status result detail db2))"
    using c b by (auto simp: DispatchV1Stop_def Let_def split: sum.splits prod.splits) (metis snd_conv)+
  then show "stop_delivery_step\<^sup>*\<^sup>* db (snd (DispatchV1Stop D remoteStop i db))"
    using s1 s2 s3 by (elim disjE insertE exE emptyE) (metis rtranclp.simps)+
qed

lemma DispatchV1Stop_steps: "pg_step\<^sup>*\<^sup>* db (snd (DispatchV1Stop D remoteStop i db))"
  by (rule stop_delivery_pg [OF DispatchV1Stop_deliveries])

lemma materialize_writes_rows:
  assumes "materialize_writes E halID c command input db = (Inr u, db')"
  defines "row \<equiv> start_row (materialized_transaction halID c command input)"
  shows "halID \<notin> tx_ids db" and "db_transactions db' = db_transactions db @ [row]"
proof -
  obtain v db1 where ins: "insert_transaction row db = (Inr v, db1)"
    using assms(1) by (auto simp: row_def materialize_writes_def Let_def split: sum.splits prod.splits)
  have db1: "db1 = db\<lparr>db_transactions := db_transactions db @ [row]\<rparr>" by (rule insert_transaction_Inr(1) [OF ins])
  show "halID \<notin> tx_ids db" using insert_transaction_Inr(2) [OF ins] by (simp add: row_def)
  obtain db3 db4 p1 p2 where f: "insertV1FactTx E 1 ''transaction.started'' halID None (mat_ObservedAt input) p1 db3 = (Inr (), db4)"
    "insertV1FactTx E 2 ''command.updated'' (cmd_HALCommandID command) None (mat_ObservedAt input) p2 db4 = (Inr u, db')"
    and "db_transactions db3 = db_transactions db1"
    using assms(1) ins by (auto simp: row_def materialize_writes_def Let_def tx_bind_Inr consume_credential_def split: if_splits)
  moreover have "db_transactions db4 = db_transactions db3" "db_transactions db' = db_transactions db4"
    using insertV1FactTx_frame [OF f(1)] insertV1FactTx_frame [OF f(2)] by auto
  ultimately show "db_transactions db' = db_transactions db @ [row]" using db1 by simp
qed

lemma getV1TransactionByID_fresh:
  assumes "db_transactions db' = db_transactions db @ [row]" and "tx_HALTransactionID row \<notin> tx_ids db"
  shows "getV1TransactionByID (tx_HALTransactionID row) db' = Inr (load_transaction row)"
proof -
  have "find (\<lambda>r. tx_HALTransactionID r = tx_HALTransactionID row) (ts @ [row]) = Some row"
    if "tx_HALTransactionID row \<notin> tx_HALTransactionID ` set ts" for ts
    using that by (induction ts) auto
  then show ?thesis using assms by (simp add: getV1TransactionByID_def getV1TransactionBy_def)
qed

lemma MaterializeV1Start_Inr:
  assumes "pg_MaterializeV1Start E input db = (Inr (t, dup), db')"
  obtains row where "row \<in> set (db_transactions db')" and "t = load_transaction row"
    and "tx_ChargerOCPPIdentity t = mat_ChargerOCPPIdentity input" and "tx_OCPPConnectorNumber t = mat_OCPPConnectorNumber input"
    and "tx_IDTag t = mat_IDTag input" and "tx_MeterStartWh t = mat_MeterStartWh input"
proof -
  obtain out where m: "materialize_tx E input db = (Inr out, db')"
    and out: "out = Inl t \<or> (\<exists>halID. out = Inr halID \<and> getV1TransactionByID halID db' = Inr t)"
    using assms by (auto simp: pg_MaterializeV1Start_def tx_bind_def pg_tx_def pg_GetV1Transaction_def split: if_splits sum.splits prod.splits)
  obtain c where c: "sql_row cred_IDTag (mat_IDTag input) (db_credentials db) = Some c"
    using m by (auto simp: materialize_tx_def split: option.splits)
  show thesis
  proof (cases "cred_HALTransactionID c = ''''")
    case False
    then have "db' = db" "out = Inl t" "getV1TransactionByID (cred_HALTransactionID c) db = Inr t"
      "tx_ChargerOCPPIdentity t = mat_ChargerOCPPIdentity input" "tx_OCPPConnectorNumber t = mat_OCPPConnectorNumber input"
      "tx_IDTag t = mat_IDTag input" "tx_MeterStartWh t = mat_MeterStartWh input"
      using m c out by (auto simp: materialize_tx_def split: sum.splits if_splits)
    then show thesis using that by (auto elim: getV1TransactionByID_Inr)
  next
    case True
    obtain halID command u where w: "materialize_writes E halID c command input db = (Inr u, db')" and o: "out = Inr halID"
      and cr: "cred_ChargerOCPPIdentity c = mat_ChargerOCPPIdentity input" "cred_OCPPConnectorNumber c = mat_OCPPConnectorNumber input"
      using m c True by (auto simp: materialize_tx_def tx_bind_Inr split: if_splits sum.splits option.splits)
    let ?row = "start_row (materialized_transaction halID c command input)"
    note rows = materialize_writes_rows [OF w]
    have "t = load_transaction ?row" using out o getV1TransactionByID_fresh [OF rows(2)] rows(1) by simp
    moreover have "cred_IDTag c = mat_IDTag input" using sql_row_SomeD [OF c] by simp
    ultimately show thesis
      using that [of ?row] rows(2) cr by (simp add: start_row_def materialized_transaction_def new_transaction_def load_transaction_def)
  qed
qed

lemma MaterializeV1Start_Inl:
  assumes "pg_MaterializeV1Start E input db = (Inl err, db')"
  shows "db' = db"
proof (rule ccontr)
  assume changed: "db' \<noteq> db"
  then obtain halID where m: "materialize_tx E input db = (Inr (Inr halID), db')" and g: "pg_GetV1Transaction halID db' = Inl err"
    using assms by (auto simp: pg_MaterializeV1Start_def tx_bind_def pg_tx_def split: if_splits sum.splits prod.splits)
  obtain c command u where w: "materialize_writes E halID c command input db = (Inr u, db')"
    using m by (auto simp: materialize_tx_def tx_bind_Inr split: if_splits sum.splits option.splits)
  note rows = materialize_writes_rows [OF w]
  show False using getV1TransactionByID_fresh [OF rows(2)] rows(1) g by (simp add: pg_GetV1Transaction_def)
qed

lemma CompleteV1Transaction_Inr:
  assumes "pg_CompleteV1Transaction F E i raw reason c o' db = (Inr t, db')" and "life_inv db" and "in_int64 raw"
  shows "pg_GetV1Transaction i db' = Inr t" and "tx_CompletedAt t \<noteq> None"
proof -
  have run: "complete_tx E i raw reason c o' db = (Inr t, db')"
    using assms(1) unfolding pg_CompleteV1Transaction_def by (elim with_all_or_nothing) auto
  then obtain t0 where t0: "pg_GetV1Transaction i db = Inr t0"
    by (auto simp: complete_tx_def lockV1StopLifecycleRows_def pg_GetV1Transaction_def split: sum.splits)
  have "pg_GetV1Transaction i db' = Inr t \<and> tx_CompletedAt t \<noteq> None"
  proof (cases "tx_CompletedAt t0 = None")
    case True
    then show ?thesis using complete_tx_Inr [OF run assms(2,3) t0] by simp
  next
    case False
    then show ?thesis using run t0
      by (auto simp: complete_tx_def lockV1StopLifecycleRows_def pg_GetV1Transaction_def split: if_splits)
  qed
  then show "pg_GetV1Transaction i db' = Inr t" "tx_CompletedAt t \<noteq> None" by simp_all
qed

lemma telemetry_found:
  assumes "pg_UpdateV1TelemetryForOCPP E identity ocppID telemetry db = (Inr (t, acc), db')"
  shows "telemetry_tx E identity ocppID telemetry db = (Inr (t, acc), db')"
  using assms by (auto simp: pg_UpdateV1TelemetryForOCPP_def pg_tx_def split: if_splits prod.splits sum.splits)

lemma insert_seq_fact_frame:
  "insert_seq_fact E k factType i seq at' payload db = (Inr u, db') \<Longrightarrow> \<exists>facts keys. db' = db\<lparr>db_facts := facts, db_completion_keys := keys\<rparr>"
  by (auto elim!: insert_seq_fact_Inr dest!: insertV1FactTx_frame)

text \<open>A reading that reaches the limit of a transaction without a workflow leaves a PERSISTED one.\<close>

lemma telemetry_limit_workflow:
  assumes run: "pg_UpdateV1TelemetryForOCPP E identity ocppID telemetry db = (Inr (t, acc), db')" and inv: "life_inv db"
    and tel: "\<forall>w. tel_EnergyWh telemetry = Some w \<longrightarrow> in_int64 w"
    and "telres_EnergyAccepted acc" and "energy_limit_reached t" and "stop_state db (tx_HALTransactionID t) = None"
  shows "stop_state db' (tx_HALTransactionID t) = Some ''PERSISTED''" and "db_commands db' = db_commands db"
    and "\<exists>t'. pg_GetV1Transaction (tx_HALTransactionID t) db' = Inr t' \<and> tx_CompletedAt t' = None"
proof -
  have core: "life_core db" using inv by (simp add: life_inv_def)
  obtain row row2 db1 where r: "t = load_transaction row2" "row2 \<in> set (db_transactions db1)" and comp: "tx_CompletedAt row2 = tx_CompletedAt row"
    and db1: "db1 = db\<lparr>db_transactions := sql_update (\<lambda>r. tx_HALTransactionID r = tx_HALTransactionID row) (\<lambda>_. row2) (db_transactions db)\<rparr>"
    and facts: "telemetry_facts E (telres_EnergyAccepted acc) (telres_SoCAccepted acc) t db1 = (Inr (), db')"
    and closed: "tx_CompletedAt row \<noteq> None \<Longrightarrow> row2 = row \<and> \<not> telres_EnergyAccepted acc \<and> \<not> telres_SoCAccepted acc \<and> db1 = db"
    by (rule telemetry_rows [OF telemetry_found [OF run] core tel], rule that)
  have frame: "db_workflows db1 = db_workflows db" "db_commands db1 = db_commands db" by (simp_all add: db1)
  have open': "tx_CompletedAt row2 = None" using comp closed assms(4) by (cases "tx_CompletedAt row") auto
  let ?i = "tx_HALTransactionID t"
  obtain initiator reason where cause: "v1EnergyStopCause (tx_EnergyLimitSource t) (tx_LimitType t) = (initiator, reason)" by force
  with facts assms(4,5) obtain out db2 db3 where e: "ensureV1StopWorkflowTx E t initiator reason db1 = (Inr out, db2)"
    and m: "insert_seq_fact E 0 ''transaction.meter'' ?i (tx_MeterSequence t) (tx_MeterObservedAt t) (v1MeterFact t) db2 = (Inr (), db3)"
    and s: "(if telres_SoCAccepted acc then insert_seq_fact E 1 ''transaction.soc'' ?i (tx_SoCSequence t) (tx_SoCObservedAt t) (v1SoCFact t) db3
             else (Inr (), db3)) = (Inr (), db')"
    by (auto simp: telemetry_facts_def tx_bind_Inr)
  have no: "sql_row workflow_key ?i (db_workflows db1) = None" using assms(6) frame by (simp add: stop_state_def)
  then have db2: "db_workflows db2 = db_workflows db1 @ [\<lparr>wr_Workflow = new_workflow (env_now E) ?i initiator reason, wr_ClaimedUntil = None\<rparr>]"
    "db_transactions db2 = sql_update (\<lambda>r. tx_HALTransactionID r = ?i) (\<lambda>r. r\<lparr>tx_StopState := ''PERSISTED'',
        tx_RequestedStopInitiator := initiator, tx_RequestedStopReason := reason\<rparr>) (db_transactions db1)"
    "db_commands db2 = db_commands db1"
    using e by (auto simp: ensureV1StopWorkflowTx_def split: if_splits)
  have f1: "\<exists>facts keys. db3 = db2\<lparr>db_facts := facts, db_completion_keys := keys\<rparr>" by (rule insert_seq_fact_frame [OF m])
  have f2: "db' = db3 \<or> (\<exists>facts keys. db' = db3\<lparr>db_facts := facts, db_completion_keys := keys\<rparr>)"
    using s insert_seq_fact_frame by (fastforce split: if_splits)
  have eq: "db_workflows db' = db_workflows db2" "db_transactions db' = db_transactions db2" "db_commands db' = db_commands db2"
    using f1 f2 by auto
  show "stop_state db' ?i = Some ''PERSISTED''"
    using no by (simp add: stop_state_def eq db2 sql_row_append new_workflow_def)
  show "db_commands db' = db_commands db" using eq db2 frame by simp
  have "life_inv db'" using UpdateV1Telemetry_kept [OF tel, of db E identity ocppID] run inv by (simp add: life_kept_def)
  moreover have "row2\<lparr>tx_StopState := ''PERSISTED'', tx_RequestedStopInitiator := initiator, tx_RequestedStopReason := reason\<rparr>
      \<in> set (db_transactions db')"
    using r(1,2) eq(2) db2(2) by (force simp: set_sql_update load_transaction_def)
  ultimately show "\<exists>t'. pg_GetV1Transaction ?i db' = Inr t' \<and> tx_CompletedAt t' = None"
    using getV1TransactionByID_row [of db' "row2\<lparr>tx_StopState := ''PERSISTED'', tx_RequestedStopInitiator := initiator, tx_RequestedStopReason := reason\<rparr>"]
      open' r(1) by (simp add: pg_GetV1Transaction_def life_inv_def load_transaction_def)
qed

subsection \<open>Steps\<close>

text \<open>
  \<open>store_write\<close> is any write of the durable store that runs beside the handlers: requests of the
  CMS, the workers and the goroutines.
\<close>

inductive hal_step :: "HAL \<Rightarrow> HAL \<Rightarrow> bool" where
  admit: "hal_step h (h\<lparr>hal_wiredIdentity := snd (validateIncomingCharger wire path (hal_db h) (hal_wiredIdentity h))\<rparr>)"
| connect: "hal_step h (onNewChargePoint N wire connKey remoteAddr h)"
| disconnect: "hal_step h (onChargePointDisconnected N wire connKey h)"
| authorize: "hal_step h (snd (OnAuthorize N wire idTag h))"
| boot: "hal_step h (snd (OnBootNotification N wire bn h))"
| data_transfer: "hal_step h (snd (OnDataTransfer N wire h))"
| diagnostics: "hal_step h (OnDiagnosticsStatusNotification N wire h)"
| firmware: "hal_step h (OnFirmwareStatusNotification N wire h)"
| heartbeat: "hal_step h (OnHeartbeat N wire h)"
| status: "hal_step h (snd (OnStatusNotification N wire sn h))"
| start: "env_ok (he_store N) \<Longrightarrow> in_int64 (st_MeterStart st) \<Longrightarrow> hal_step h (snd (OnStartTransaction N wire st h))"
| meter: "hal_step h (snd (OnMeterValues N wire mvr h))"
| stop: "in_int64 (sp_MeterStop sp) \<Longrightarrow> hal_step h (snd (OnStopTransaction N wire sp h))"
| store_write: "pg_step (hal_db h) db \<Longrightarrow> hal_step h (h\<lparr>hal_db := db\<rparr>)"

lemma frames [simp]:
  "hal_db (record_traces ts h) = hal_db h" "hal_registry (record_traces ts h) = hal_registry h"
  "hal_db (touch N c h) = hal_db h" "hal_wiredIdentity (touch N c h) = hal_wiredIdentity h"
  "hal_wiredIdentity (record_traces ts h) = hal_wiredIdentity h"
  "hal_db (recordTriggerMessageFollowOn now c a n t h) = hal_db h"
  "hal_registry (recordTriggerMessageFollowOn now c a n t h) = hal_registry h"
  "hal_wiredIdentity (recordTriggerMessageFollowOn now c a n t h) = hal_wiredIdentity h"
  "hal_connections (record_traces ts h) = hal_connections h" "hal_connections (touch N c h) = hal_connections h"
  "hal_connections (recordTriggerMessageFollowOn now c a n t h) = hal_connections h"
  "hal_registry (touch N c h) = Touch (he_now N) c (hal_registry h)"
  "hal_registry (project_runtime E p h) = hal_registry h" "hal_wiredIdentity (project_runtime E p h) = hal_wiredIdentity h"
  "hal_connections (project_runtime E p h) = hal_connections h"
  by (simp_all add: record_traces_def touch_def recordTriggerMessageFollowOn_def project_runtime_def split_beta Let_def)

lemma project_runtime_step: "pg_step (hal_db h) (hal_db (project_runtime E p h))"
  using persist_step [of "(hal_pendingRuntime h, hal_db h)" E p] by (simp add: project_runtime_def pg_step_def split_beta Let_def)

lemma energy_stop_steps: "pg_step\<^sup>*\<^sup>* (hal_db h) (hal_db (snd (dispatch_energy_stop N i h)))"
  using DispatchV1Stop_steps [of "hal_db h" "he_delivery N" "remote_stop N (hal_wiredIdentity h)" i]
  by (auto simp: dispatch_energy_stop_def Let_def split_beta split: sum.split)

lemma energy_stop_registry [simp]: "hal_registry (snd (dispatch_energy_stop N i h)) = hal_registry h"
  by (auto simp: dispatch_energy_stop_def Let_def split_beta split: sum.split)

lemma meter_handled:
  fixes h N identity request defines "c \<equiv> canonicalIdentity (hal_wiredIdentity h) identity"
    and "tel \<equiv> extractV1MeterTelemetry (he_setString N) (he_now N) request"
    and "h' \<equiv> snd (HandleV1MeterValues N identity request h)"
  obtains (ignored) "h' = h"
  | (failed) i err db where "pg_UpdateV1TelemetryForOCPP (he_store N) c i tel (hal_db h) = (Inl err, db)" "h' = h\<lparr>hal_db := db\<rparr>"
  | (stored) i t acc db where "pg_UpdateV1TelemetryForOCPP (he_store N) c i tel (hal_db h) = (Inr (t, acc), db)"
      "hal_db h' = db" "hal_registry h' = hal_registry h"
  | (energy) i t acc db r where "pg_UpdateV1TelemetryForOCPP (he_store N) c i tel (hal_db h) = (Inr (t, acc), db)"
      "hal_db h' = hal_db (snd (dispatch_energy_stop N (tx_HALTransactionID t) (h\<lparr>hal_db := db, hal_registry := r\<rparr>)))"
      "hal_registry h' = r" "\<exists>w. r = ApplyMeterValue (he_rnd N) (he_now N) c (mvr_ConnectorId request) (Some (tx_OCPPTransactionID t)) w (hal_registry h)"
proof (cases "mvr_TransactionId request")
  case None
  then show thesis by (intro that(1)) (simp add: h'_def HandleV1MeterValues_def)
next
  case (Some i)
  show thesis
  proof (cases "i \<le> 0 \<or> V1MeterTelemetry_Empty tel")
    case True
    then show thesis using Some by (intro that(1)) (auto simp: h'_def HandleV1MeterValues_def tel_def Let_def)
  next
    case False
    obtain x db where u: "pg_UpdateV1TelemetryForOCPP (he_store N) c i tel (hal_db h) = (x, db)" by force
    note d = h'_def HandleV1MeterValues_def Some False u [unfolded c_def tel_def]
    show thesis
    proof (cases x)
      case (Inl err)
      show thesis by (rule that(2) [of i err db]) (use u False in \<open>simp_all add: Inl d c_def tel_def\<close>)
    next
      case (Inr ta)
      obtain t acc where ta: "ta = (t, acc)" by force
      let ?r = "ApplyMeterValue (he_rnd N) (he_now N) c (mvr_ConnectorId request) (Some (tx_OCPPTransactionID t))
          (case tel_EnergyWh tel of None \<Rightarrow> 0 | Some w \<Rightarrow> he_rnd N (of_int w)) (hal_registry h)"
      show thesis
      proof (cases "telres_EnergyAccepted acc")
        case True
        show thesis by (rule that(4) [of i t acc db ?r])
          (use u False True in \<open>auto simp: Inr ta d c_def tel_def Let_def split_beta\<close>)
      next
        case energy: False
        show thesis by (rule that(3) [of i t acc db])
          (use u False energy in \<open>auto simp: Inr ta d c_def tel_def Let_def split_beta\<close>)
      qed
    qed
  qed
qed

lemma meter_steps: "pg_step\<^sup>*\<^sup>* (hal_db h) (hal_db (snd (HandleV1MeterValues N identity request h)))"
proof -
  let ?tel = "extractV1MeterTelemetry (he_setString N) (he_now N) request" and ?c = "canonicalIdentity (hal_wiredIdentity h) identity"
  have one: "pg_step (hal_db h) (snd (pg_UpdateV1TelemetryForOCPP (he_store N) ?c i ?tel (hal_db h)))" for i
    using lifecycle_step.update_telemetry [of ?tel "hal_db h"] extract_in_int64 by (auto simp: pg_step_def)
  show ?thesis
  proof (cases rule: meter_handled [where h = h and identity = identity and N = N and request = request])
    case (failed i err db)
    then show ?thesis using one [of i] by auto
  next
    case (stored i t acc db)
    then show ?thesis using one [of i] by auto
  next
    case (energy i t acc db r)
    then show ?thesis using one [of i] energy_stop_steps [of "h\<lparr>hal_db := db, hal_registry := r\<rparr>" N "tx_HALTransactionID t"]
      by (simp add: converse_rtranclp_into_rtranclp)
  qed simp
qed

lemma stop_handled:
  fixes h N identity request defines "c \<equiv> canonicalIdentity (hal_wiredIdentity h) identity" and "h' \<equiv> snd (HandleV1StopTransaction N identity request h)"
  obtains (refused) "hal_db h' = hal_db h" "hal_registry h' = hal_registry h" "\<not> fst (HandleV1StopTransaction N identity request h)"
  | (failed) i x db where "pg_CompleteV1Transaction (he_faults N) (he_store N) i (sp_MeterStop request) (sp_Reason request)
        (observed_at (he_now N) (sp_Timestamp request)) (he_now N) (hal_db h) = (x, db)"
      "hal_db h' = db" "hal_registry h' = hal_registry h" "\<not> fst (HandleV1StopTransaction N identity request h)"
  | (completed) t t' m db where "pg_GetV1TransactionByOCPP c (sp_TransactionId request) (hal_db h) = Inr t"
      "pg_CompleteV1Transaction (he_faults N) (he_store N) (tx_HALTransactionID t) (sp_MeterStop request) (sp_Reason request)
        (observed_at (he_now N) (sp_Timestamp request)) (he_now N) (hal_db h) = (Inr t', db)"
      "fst (HandleV1StopTransaction N identity request h)" "hal_db h' = db"
      "hal_registry h' = ApplyStopTransaction (he_rnd N) (he_now N) c (tx_OCPPConnectorNumber t') m (hal_registry h)"
proof (cases "sp_TransactionId request \<le> 0")
  case True
  then show thesis by (intro that(1)) (simp_all add: h'_def HandleV1StopTransaction_def)
next
  case False
  note d = h'_def HandleV1StopTransaction_def c_def False
  show thesis
  proof (cases "pg_GetV1TransactionByOCPP c (sp_TransactionId request) (hal_db h)")
    case (Inl err)
    then show thesis by (intro that(1)) (simp_all add: d)
  next
    case (Inr t)
    obtain x db where u: "pg_CompleteV1Transaction (he_faults N) (he_store N) (tx_HALTransactionID t) (sp_MeterStop request) (sp_Reason request)
        (observed_at (he_now N) (sp_Timestamp request)) (he_now N) (hal_db h) = (x, db)" by force
    show thesis
    proof (cases "\<exists>t' m. x = Inr t' \<and> tx_MeterStopWh t' = Some m")
      case True
      then obtain t' m where x: "x = Inr t'" "tx_MeterStopWh t' = Some m" by blast
      show thesis by (rule that(3) [OF Inr u [unfolded x(1)], of "he_rnd N (of_int m)"])
        (use Inr u x in \<open>simp_all add: d Let_def\<close>)
    next
      case nil: False
      show thesis by (rule that(2) [OF u])
        (use Inr u nil in \<open>cases x; auto simp: d Let_def split: option.split\<close>)+
    qed
  qed
qed

lemma stop_transaction_steps:
  assumes "in_int64 (sp_MeterStop request)"
  shows "pg_step\<^sup>*\<^sup>* (hal_db h) (hal_db (snd (HandleV1StopTransaction N identity request h)))"
proof -
  have one: "pg_step (hal_db h) db" if "pg_CompleteV1Transaction F E i (sp_MeterStop request) reason c o' (hal_db h) = (x, db)"
    for F E i reason c o' x db
    using lifecycle_step.complete [OF assms, of "hal_db h" F E i reason c o'] that by (simp add: pg_step_def)
  show ?thesis
  proof (cases rule: stop_handled [where h = h and identity = identity and N = N and request = request])
    case (failed i x db)
    then show ?thesis using one [OF failed(1)] by simp
  next
    case (completed t t' m db)
    then show ?thesis using one [OF completed(2)] by simp
  qed simp
qed

lemma start_steps_db:
  assumes "env_ok (he_store N)" and "in_int64 (st_MeterStart st)"
  shows "pg_step\<^sup>*\<^sup>* (hal_db h) (hal_db (snd (OnStartTransaction N wire st h)))"
proof -
  have one: "pg_step (hal_db h) db"
    if "pg_MaterializeV1Start (he_store N) mat (hal_db h) = (x, db)" "mat_MeterStartWh mat = st_MeterStart st" for mat x db
    using lifecycle_step.materialize [OF assms(1), of mat "hal_db h"] assms(2) that by (simp add: pg_step_def)
  show ?thesis
    by (auto simp: OnStartTransaction_def Let_def split: sum.split prod.split dest!: one)
qed

lemma runtime_steps:
  "pg_step db (snd (pg_RecordV1BootEvidence identity evidence db))"
  "pg_step db (snd (pg_RenewCurrentV1ChargerConnection E identity generation t db))"
  "pg_step db (snd (pg_RecordV1ConnectorStatus E r db))"
  using outer_step.boot_evidence outer_step.renew_connection outer_step.connector_status by (auto simp: pg_step_def)

lemma connection_steps:
  "pg_step\<^sup>*\<^sup>* (hal_db h) (hal_db (onNewChargePoint N wire connKey remoteAddr h))"
  "pg_step\<^sup>*\<^sup>* (hal_db h) (hal_db (onChargePointDisconnected N wire connKey h))"
proof -
  have p: "pg_step\<^sup>*\<^sup>* (hal_db h) (hal_db (project_runtime E p h'))" if "hal_db h' = hal_db h" for E p h'
    using project_runtime_step [of h' E p] that by simp
  show "pg_step\<^sup>*\<^sup>* (hal_db h) (hal_db (onNewChargePoint N wire connKey remoteAddr h))"
    by (auto simp: onNewChargePoint_def Let_def split_beta intro!: p)
  show "pg_step\<^sup>*\<^sup>* (hal_db h) (hal_db (onChargePointDisconnected N wire connKey h))"
    by (auto simp: onChargePointDisconnected_def Let_def intro!: p split: prod.split bool.split option.split)
qed

lemma message_steps:
  "hal_db (snd (OnAuthorize N wire idTag h)) = hal_db h"
  "pg_step\<^sup>*\<^sup>* (hal_db h) (hal_db (snd (OnBootNotification N wire bn h)))"
  "pg_step\<^sup>*\<^sup>* (hal_db h) (hal_db (OnHeartbeat N wire h))"
  "pg_step\<^sup>*\<^sup>* (hal_db h) (hal_db (snd (OnStatusNotification N wire sn h)))"
proof -
  show "hal_db (snd (OnAuthorize N wire idTag h)) = hal_db h"
    by (auto simp: OnAuthorize_def Let_def split: sum.split)
  show "pg_step\<^sup>*\<^sup>* (hal_db h) (hal_db (snd (OnBootNotification N wire bn h)))"
    using runtime_steps(1) by (auto simp: OnBootNotification_def Let_def)
  show "pg_step\<^sup>*\<^sup>* (hal_db h) (hal_db (OnHeartbeat N wire h))"
    using runtime_steps(2) by (auto simp: OnHeartbeat_def Let_def split: option.split)
  have s: "pg_step\<^sup>*\<^sup>* db db'" if "pg_RecordV1ConnectorStatus E r db = (x, db')" for E r x db db'
    using runtime_steps(3) [of db E r] that by simp
  show "pg_step\<^sup>*\<^sup>* (hal_db h) (hal_db (snd (OnStatusNotification N wire sn h)))"
    by (auto simp: OnStatusNotification_def Let_def split: prod.split sum.split option.split dest!: s)
qed

lemma hal_step_db: "hal_step h h' \<Longrightarrow> pg_step\<^sup>*\<^sup>* (hal_db h) (hal_db h')"
proof (induction rule: hal_step.induct)
  case (meter h N wire mvr)
  then show ?case using meter_steps by (auto simp: OnMeterValues_def Let_def split_beta) (metis frames(3,6))
next
  case (stop sp h N wire)
  then show ?case using stop_transaction_steps by (auto simp: OnStopTransaction_def Let_def split_beta) (metis frames(3))
qed (simp_all add: connection_steps message_steps start_steps_db OnDataTransfer_def OnDiagnosticsStatusNotification_def
    OnFirmwareStatusNotification_def Let_def)

lemma hal_steps_db: "hal_step\<^sup>*\<^sup>* h h' \<Longrightarrow> pg_step\<^sup>*\<^sup>* (hal_db h) (hal_db h')"
  by (induction rule: rtranclp_induct) (auto dest: hal_step_db)

subsection \<open>What the registry shows is durable\<close>

definition durable_transaction :: "PostgresStore \<Rightarrow> string \<Rightarrow> int \<Rightarrow> bool" where
  "durable_transaction db charger ocppID \<longleftrightarrow>
     list_ex (\<lambda>row. tx_ChargerOCPPIdentity row = charger \<and> tx_OCPPTransactionID row = ocppID) (db_transactions db)"

definition hal_inv :: "HAL \<Rightarrow> bool" where
  "hal_inv h \<longleftrightarrow> life_inv (hal_db h)
     \<and> (\<forall>c n i. TransactionIDForConnector c n (hal_registry h) = Some i \<longrightarrow> durable_transaction (hal_db h) c i)"

lemma durable_row: "row \<in> set (db_transactions db) \<Longrightarrow> durable_transaction db (tx_ChargerOCPPIdentity row) (tx_OCPPTransactionID row)"
  by (auto simp: durable_transaction_def list_ex_iff)

lemma durable_kept:
  assumes "durable_transaction db c i" and "pg_step\<^sup>*\<^sup>* db db'" and "life_inv db"
  shows "durable_transaction db' c i"
proof -
  have "tx_progress db db'" using pg_steps_life [OF assms(2)] assms(3) by (simp add: life_kept_def)
  then show ?thesis using assms(1)
    by (auto simp: durable_transaction_def list_ex_iff tx_progress_def tx_advances_def load_transaction_def)
qed

lemma registry_transaction [simp]:
  "TransactionIDForConnector c n (Touch now c' r) = TransactionIDForConnector c n r"
  "TransactionIDForConnector c n (MarkOffline now c' r) = TransactionIDForConnector c n r"
  "TransactionIDForConnector c n (ApplyStatusNotification now c' n' s e r) = TransactionIDForConnector c n r"
  "TransactionIDForConnector c n (ApplyStartTransaction now c' n' t m r) = (if c' = c \<and> n' = n then Some t else TransactionIDForConnector c n r)"
  "TransactionIDForConnector c n (ApplyMeterValue rnd now c' n' (Some t) m r)
     = (if c' = c \<and> n' = n then Some t else TransactionIDForConnector c n r)"
  "TransactionIDForConnector c n (ApplyStopTransaction rnd now c' n' m r) = (if c' = c \<and> n' = n then None else TransactionIDForConnector c n r)"
  using transaction_step [of c n _ "RTouch now c'" r] transaction_step [of c n _ "ROffline now c'" r]
    transaction_step [of c n _ "RStatus now c' n' s e" r] transaction_step [of c n _ "RStart now c' n' t m" r]
    transaction_step [of c n rnd "RMeter now c' n' (Some t) m" r] transaction_step [of c n rnd "RStop now c' n' m" r]
  by simp_all

text \<open>A step keeps the invariant when every transaction it shows was shown before or is durable now.\<close>

lemma hal_inv_step:
  assumes "hal_inv h" and "pg_step\<^sup>*\<^sup>* (hal_db h) (hal_db h')"
    and "\<And>c n i. TransactionIDForConnector c n (hal_registry h') = Some i \<Longrightarrow>
      TransactionIDForConnector c n (hal_registry h) = Some i \<or> durable_transaction (hal_db h') c i"
  shows "hal_inv h'"
  using assms pg_steps_life [OF assms(2)] durable_kept [OF _ assms(2)] unfolding hal_inv_def life_kept_def by metis

lemma start_registry:
  assumes "TransactionIDForConnector c n (hal_registry (snd (OnStartTransaction N wire st h))) = Some i"
  shows "TransactionIDForConnector c n (hal_registry h) = Some i \<or> durable_transaction (hal_db (snd (OnStartTransaction N wire st h))) c i"
  using assms
  by (auto simp: OnStartTransaction_def Let_def split: prod.splits sum.splits if_splits
      elim!: MaterializeV1Start_Inr dest: durable_row simp: load_transaction_def)

lemma meter_registry:
  assumes "TransactionIDForConnector c n (hal_registry (snd (HandleV1MeterValues N identity request h))) = Some i" and "life_inv (hal_db h)"
  shows "TransactionIDForConnector c n (hal_registry h) = Some i
     \<or> durable_transaction (hal_db (snd (HandleV1MeterValues N identity request h))) c i"
proof (cases rule: meter_handled [where h = h and identity = identity and N = N and request = request])
  case (energy j t acc db r)
  let ?tel = "extractV1MeterTelemetry (he_setString N) (he_now N) request"
  have tel: "\<forall>w. tel_EnergyWh ?tel = Some w \<longrightarrow> in_int64 w" using extract_in_int64 by blast
  obtain row row2 where row: "row \<in> set (db_transactions (hal_db h))" "tx_ChargerOCPPIdentity row = canonicalIdentity (hal_wiredIdentity h) identity"
    "tx_OCPPTransactionID row = j" "tx_advances row row2" "t = load_transaction row2"
    by (rule telemetry_rows [OF telemetry_found [OF energy(1)] _ tel]) (use assms(2) in \<open>auto simp: life_inv_def\<close>)
  have "tx_OCPPTransactionID t = j" using row by (simp add: tx_advances_def load_transaction_def)
  then have "durable_transaction (hal_db h) (canonicalIdentity (hal_wiredIdentity h) identity) (tx_OCPPTransactionID t)"
    using durable_row [OF row(1)] row(2,3) by simp
  then have "durable_transaction (hal_db (snd (HandleV1MeterValues N identity request h)))
      (canonicalIdentity (hal_wiredIdentity h) identity) (tx_OCPPTransactionID t)"
    by (rule durable_kept [OF _ meter_steps assms(2)])
  then show ?thesis using assms(1) energy(3,4) by (auto split: if_splits)
qed (use assms(1) in auto)

lemma stop_registry:
  assumes "TransactionIDForConnector c n (hal_registry (snd (HandleV1StopTransaction N identity request h))) = Some i"
  shows "TransactionIDForConnector c n (hal_registry h) = Some i"
  by (cases rule: stop_handled [where h = h and identity = identity and N = N and request = request])
    (use assms in \<open>auto split: if_splits\<close>)

lemma hal_step_inv:
  assumes "hal_step h h'" and "hal_inv h"
  shows "hal_inv h'"
  using assms
proof (induction rule: hal_step.induct)
  case (meter h N wire mvr)
  let ?h1 = "touch N (canonicalIdentity (hal_wiredIdentity h) wire) (recordTriggerMessageFollowOn (he_now N)
      (canonicalIdentity (hal_wiredIdentity h) wire) ''MeterValues'' (mvr_ConnectorId mvr) (he_now N) h)"
  show ?case
    by (rule hal_inv_step [OF meter hal_step_db [OF hal_step.meter]])
      (use meter meter_registry [of _ _ N _ mvr ?h1] in \<open>auto simp: OnMeterValues_def Let_def split_beta hal_inv_def\<close>)
next
  case (stop sp h N wire)
  show ?case
    by (rule hal_inv_step [OF stop(2) hal_step_db [OF hal_step.stop [OF stop(1)]]])
      (auto simp: OnStopTransaction_def Let_def split_beta dest!: stop_registry)
next
  case (start N st h wire)
  show ?case
    by (rule hal_inv_step [OF start(3) hal_step_db [OF hal_step.start [OF start(1,2)]]]) (rule start_registry)
next
  case (store_write h db)
  show ?case by (rule hal_inv_step [OF store_write(2)]) (use store_write(1) in auto)
next
  case (connect h N wire connKey remoteAddr)
  show ?case by (rule hal_inv_step [OF connect connection_steps(1)]) (auto simp: onNewChargePoint_def Let_def split_beta)
next
  case (disconnect h N wire connKey)
  show ?case by (rule hal_inv_step [OF disconnect connection_steps(2)])
    (auto simp: onChargePointDisconnected_def Let_def split: prod.splits bool.splits option.splits)
next
  case (status h N wire sn)
  show ?case by (rule hal_inv_step [OF status message_steps(4)])
    (auto simp: OnStatusNotification_def Let_def split: prod.splits sum.splits option.splits if_splits)
next
  case (boot h N wire bn)
  show ?case by (rule hal_inv_step [OF boot message_steps(2)]) (auto simp: OnBootNotification_def Let_def)
next
  case (heartbeat h N wire)
  show ?case by (rule hal_inv_step [OF heartbeat message_steps(3)]) (auto simp: OnHeartbeat_def Let_def split: option.splits)
qed (auto elim!: hal_inv_step intro: message_steps simp: message_steps OnAuthorize_def OnDataTransfer_def
    OnDiagnosticsStatusNotification_def OnFirmwareStatusNotification_def Let_def split: sum.splits option.splits)

definition empty_hal :: "configuration_settings \<Rightarrow> HAL" where
  "empty_hal settings = \<lparr>hal_db = empty_db, hal_connections = newConnectionTracker, hal_wiredIdentity = [], hal_registry = NewRegistry,
     hal_operationObserver = \<lparr>obs_byRequest = [], obs_byUnique = []\<rparr>, hal_pendingRuntime = [], hal_settings = settings, hal_traces = []\<rparr>"

lemma reachable_hal_inv: "hal_step\<^sup>*\<^sup>* (empty_hal settings) h \<Longrightarrow> hal_inv h"
proof (induction rule: rtranclp_induct)
  case base
  show ?case by (simp add: hal_inv_def empty_hal_def life_inv_empty NewRegistry_def TransactionIDForConnector_def)
qed (rule hal_step_inv)

text \<open>
  C8: the live view never shows a transaction that is not durable. In every HAL that admissions,
  connections, charger messages and concurrent store writes can reach from a fresh start, a
  transaction that the in-process registry shows on a connector of a charger is a stored
  transaction of that charger.
\<close>

theorem registry_shows_durable:
  assumes "hal_step\<^sup>*\<^sup>* (empty_hal settings) h" and "TransactionIDForConnector c n (hal_registry h) = Some i"
  shows "durable_transaction (hal_db h) c i"
  using reachable_hal_inv [OF assms(1)] assms(2) by (simp add: hal_inv_def)

subsection \<open>Confirmations\<close>


text \<open>
  C6: an answered StopTransaction is durable. When the HAL confirms a StopTransaction, the
  transaction the charger named is stored as completed, and the live view no longer shows a
  transaction on its connector. The handler resolves the identity of the connection twice.
\<close>

theorem stop_confirmation_durable:
  assumes "hal_step\<^sup>*\<^sup>* (empty_hal settings) h" and "in_int64 (sp_MeterStop request)"
    and "OnStopTransaction N wire request h = (Inr (), h')"
  defines "charger \<equiv> canonicalIdentity (hal_wiredIdentity h) (canonicalIdentity (hal_wiredIdentity h) wire)"
  shows "list_ex (\<lambda>row. tx_ChargerOCPPIdentity row = charger \<and> tx_OCPPTransactionID row = sp_TransactionId request
      \<and> tx_CompletedAt row \<noteq> None \<and> TransactionIDForConnector charger (tx_OCPPConnectorNumber row) (hal_registry h') = None)
    (db_transactions (hal_db h'))"
proof -
  have inv: "life_inv (hal_db h)" using reachable_hal_inv [OF assms(1)] by (simp add: hal_inv_def)
  let ?W = "hal_wiredIdentity h" and ?c = "canonicalIdentity (hal_wiredIdentity h) wire"
  let ?h1 = "touch N ?c h"
  have run: "fst (HandleV1StopTransaction N ?c request ?h1)" "h' = snd (HandleV1StopTransaction N ?c request ?h1)"
    using assms(3) by (auto simp: OnStopTransaction_def Let_def split_beta split: if_splits)
  show ?thesis
  proof (cases rule: stop_handled [where h = ?h1 and identity = ?c and N = N and request = request])
    case (completed t t' m db)
    obtain row where row: "row \<in> set (db_transactions (hal_db h))" "tx_ChargerOCPPIdentity row = charger"
      "tx_OCPPTransactionID row = sp_TransactionId request" "tx_HALTransactionID row = tx_HALTransactionID t"
      using completed(1) by (auto simp: pg_GetV1TransactionByOCPP_def charger_def load_transaction_def split: option.splits
          dest!: find_SomeD elim!: Get_Inr)
    have life: "life_inv db" "tx_progress (hal_db h) db"
      using pg_steps_life [OF stop_transaction_steps [OF assms(2), of ?h1 N ?c]] inv completed(4) by (simp_all add: life_kept_def)
    obtain row' where row': "row' \<in> set (db_transactions db)" "tx_advances (load_transaction row) (load_transaction row')"
      using life(2) row(1) by (auto simp: tx_progress_def)
    have "load_transaction row' = t'" and "tx_CompletedAt t' \<noteq> None"
      using CompleteV1Transaction_Inr [OF completed(2) _ assms(2)] inv getV1TransactionByID_row [OF _ row'(1)] row'(2) row(4) life(1)
      by (auto simp: pg_Get_is_getByID tx_advances_def load_transaction_def life_inv_def)
    then have "tx_CompletedAt row' \<noteq> None" "tx_OCPPConnectorNumber t' = tx_OCPPConnectorNumber row'" by (auto simp: load_transaction_def)
    moreover have "tx_ChargerOCPPIdentity row' = charger" "tx_OCPPTransactionID row' = sp_TransactionId request"
      using row'(2) row(2,3) by (simp_all add: tx_advances_def load_transaction_def)
    ultimately show ?thesis using row'(1) completed(4,5) run(2)
      by (simp add: list_ex_iff charger_def) blast
  qed (use run in simp_all)
qed


text \<open>
  A disconnect forgets operations under the wrong name. The observer holds a pending operation
  under the canonical identity of its charger, and the disconnect handler forgets the operations of
  the wire identity. When the two differ, every pending operation of the charger whose connection
  ended stays in the observer.
\<close>

theorem disconnect_leaks_observer:
  assumes "canonicalIdentity (hal_wiredIdentity h) wire \<noteq> wire" and "(u, entry) \<in> set (obs_byUnique (hal_operationObserver h))"
    and "oo_chargerID entry = canonicalIdentity (hal_wiredIdentity h) wire"
  shows "(u, entry) \<in> set (obs_byUnique (hal_operationObserver (onChargePointDisconnected N wire connKey h)))"
proof -
  have "hal_operationObserver (project_runtime E p h') = hal_operationObserver h'" for E p h'
    by (simp add: project_runtime_def split_beta Let_def)
  then show ?thesis using assms
    by (auto simp: onChargePointDisconnected_def Let_def forgetCharger_def split: prod.split bool.split option.split)
qed

subsection \<open>A concrete session\<close>

text \<open>
  The session of \<open>pg_sample_commanded\<close>, as the charger's messages drive it: the start at 500 Wh, a
  reading of 900 Wh over a limit of 300 Wh, and the stop at 899 Wh.
\<close>

definition sample_hal :: "PostgresStore \<Rightarrow> HAL" where
  "sample_hal db = empty_hal \<lparr>cf_heartbeatIntervalSeconds = 60, cf_configurationMeterSampleIntervalSeconds = 60,
     cf_configurationReconcileTimeout = 20, cf_vendorConfigurationProfile = '''', cf_vendorConfigurationVendor = ''''\<rparr>\<lparr>hal_db := db\<rparr>"

definition sample_handler :: "char \<Rightarrow> gotime \<Rightarrow> handler_env" where
  "sample_handler c now = \<lparr>he_now = now, he_store = sample_call c, he_faults = no_faults, he_delivery = sample_delivery,
     he_send = (\<lambda>_ _. Answered None (Some ''Accepted'')), he_transactionID = 7, he_rnd = (\<lambda>x. x),
     he_setString = (\<lambda>s. if s = ''900'' then Some 900 else None), he_findTrace = (\<lambda>_ _. None)\<rparr>"

definition sample_start_request :: StartTransactionRequest where
  "sample_start_request = \<lparr>st_ConnectorId = 1, st_IdTag = ''appv1_tag'', st_MeterStart = 500, st_Timestamp = Some 10000\<rparr>"

definition sample_meter_request :: MeterValuesRequest where
  "sample_meter_request = \<lparr>mvr_ConnectorId = 1, mvr_TransactionId = Some 7, mvr_MeterValue = [\<lparr>mv_Timestamp = Some 20000,
     mv_SampledValue = [\<lparr>sv_Value = ''900'', sv_Measurand = ''Energy.Active.Import.Register'', sv_Unit = ''Wh''\<rparr>]\<rparr>]\<rparr>"

definition sample_stop_request :: StopTransactionRequest where
  "sample_stop_request = \<lparr>sp_TransactionId = 7, sp_MeterStop = 899, sp_Reason = ''Local'', sp_Timestamp = Some 30000\<rparr>"

definition sample_hal_started :: HAL where
  "sample_hal_started = snd (OnStartTransaction (sample_handler CHR ''b'' 11000) ''CP1'' sample_start_request (sample_hal pg_sample_commanded))"

lemma sample_hal_simps [simp]: "hal_db (sample_hal db) = db" "hal_wiredIdentity (sample_hal db) = []" "hal_registry (sample_hal db) = NewRegistry"
  by (simp_all add: sample_hal_def empty_hal_def)

lemma sample_hal_reachable:
  assumes "pg_step\<^sup>*\<^sup>* empty_db db"
  shows "\<exists>settings. hal_step\<^sup>*\<^sup>* (empty_hal settings) (sample_hal db)"
proof -
  have "hal_step\<^sup>*\<^sup>* (sample_hal empty_db) (sample_hal db)"
    using assms
  proof (induction rule: rtranclp_induct)
    case (step y z)
    have "hal_step (sample_hal y) (sample_hal z)" using hal_step.store_write [of "sample_hal y" z] step(2) by (simp add: sample_hal_def)
    then show ?case using step(3) by simp
  qed simp
  then show ?thesis unfolding sample_hal_def by (metis HAL.surjective HAL.update_convs(1) empty_hal_def)
qed

lemma sample_started: "OnStartTransaction (sample_handler CHR ''b'' 11000) ''CP1'' sample_start_request (sample_hal pg_sample_commanded)
    = ((''Accepted'', 7), sample_hal_started)"
    "hal_db sample_hal_started = pg_sample_started"
    "TransactionIDForConnector ''CP1'' 1 (hal_registry sample_hal_started) = Some 7"
proof -
  let ?run = "pg_MaterializeV1Start (sample_call CHR ''b'') pg_sample_mat pg_sample_commanded"
  have "\<exists>t. fst ?run = Inr (t, False) \<and> tx_OCPPTransactionID t = 7"
    unfolding pg_sample_commanded_eval by (simp add: pg_session_defs sequence_conflict_def)
  then obtain t where "?run = (Inr (t, False), pg_sample_started)" and t: "tx_OCPPTransactionID t = 7"
    unfolding pg_sample_started_def by (metis prod.collapse)
  then have "OnStartTransaction (sample_handler CHR ''b'' 11000) ''CP1'' sample_start_request (sample_hal pg_sample_commanded)
      = ((''Accepted'', 7), sample_hal_started) \<and> hal_db sample_hal_started = pg_sample_started
      \<and> TransactionIDForConnector ''CP1'' 1 (hal_registry sample_hal_started) = Some 7"
    unfolding sample_hal_started_def
    by (simp add: OnStartTransaction_def sample_handler_def sample_start_request_def pg_sample_mat_def observed_at_def HasPrefix_def
        canonicalIdentity_def time_IsZero_def Let_def)
  then show "OnStartTransaction (sample_handler CHR ''b'' 11000) ''CP1'' sample_start_request (sample_hal pg_sample_commanded)
      = ((''Accepted'', 7), sample_hal_started)" "hal_db sample_hal_started = pg_sample_started"
      "TransactionIDForConnector ''CP1'' 1 (hal_registry sample_hal_started) = Some 7" by simp_all
qed


theorem registry_shows_durable_witness:
  "TransactionIDForConnector ''CP1'' 1 (hal_registry sample_hal_started) = Some 7 \<and> durable_transaction (hal_db sample_hal_started) ''CP1'' 7"
proof -
  obtain settings where "hal_step\<^sup>*\<^sup>* (empty_hal settings) (sample_hal pg_sample_commanded)"
    using sample_hal_reachable [OF pg_sample_reachable(1)] by blast
  moreover have "hal_step (sample_hal pg_sample_commanded) sample_hal_started" unfolding sample_hal_started_def
    by (rule hal_step.start) (simp_all add: sample_handler_def env_ok_def sample_call_def sample_start_request_def in_int64_def)
  ultimately have "hal_step\<^sup>*\<^sup>* (empty_hal settings) sample_hal_started" by simp
  from registry_shows_durable [OF this sample_started(3)] sample_started(3) show ?thesis by simp
qed

theorem stop_confirmation_durable_witness:
  "list_ex (\<lambda>row. tx_OCPPTransactionID row = 7 \<and> tx_CompletedAt row \<noteq> None)
     (db_transactions (hal_db (snd (OnStopTransaction (sample_handler CHR ''d'' 31000) ''CP1'' sample_stop_request (sample_hal pg_sample_metered)))))"
proof -
  obtain settings where reach: "hal_step\<^sup>*\<^sup>* (empty_hal settings) (sample_hal pg_sample_metered)"
    using sample_hal_reachable [OF pg_sample_reachable(3)] by blast
  obtain t where c: "complete_tx (sample_call CHR ''d'') ''b0'' 899 ''Local'' 30000 31000 pg_sample_metered = (Inr t, pg_sample_stopped)"
    "tx_MeterStopWh t = Some 900" using pg_sample_stopped_eval by blast
  have "pg_CompleteV1Transaction no_faults (sample_call CHR ''d'') ''b0'' 899 ''Local'' 30000 31000 pg_sample_metered = (Inr t, pg_sample_stopped)"
    unfolding pg_CompleteV1Transaction_def by (rule no_faults_commit, rule c(1))
  moreover have "\<exists>t0. pg_GetV1TransactionByOCPP ''CP1'' 7 pg_sample_metered = Inr t0 \<and> tx_HALTransactionID t0 = ''b0''"
    by (simp add: pg_GetV1TransactionByOCPP_def pg_GetV1Transaction_def getV1TransactionByID_def getV1TransactionBy_def
        pg_sample_metered_eval(1) pg_session_defs pg_sample_tx_def)
  ultimately have "\<exists>h'. OnStopTransaction (sample_handler CHR ''d'' 31000) ''CP1'' sample_stop_request (sample_hal pg_sample_metered) = (Inr (), h')"
    using c(2) by (auto simp: OnStopTransaction_def HandleV1StopTransaction_def sample_handler_def sample_stop_request_def canonicalIdentity_def
        observed_at_def time_IsZero_def Let_def)
  then obtain h' where run: "OnStopTransaction (sample_handler CHR ''d'' 31000) ''CP1'' sample_stop_request (sample_hal pg_sample_metered) = (Inr (), h')"
    by blast
  have "in_int64 (sp_MeterStop sample_stop_request)" by (simp add: sample_stop_request_def in_int64_def)
  moreover have "sp_TransactionId sample_stop_request = 7" by (simp add: sample_stop_request_def)
  ultimately show ?thesis using stop_confirmation_durable [OF reach _ run] by (auto simp: run list_ex_iff)
qed


definition sample_pending :: observedOperation where
  "sample_pending = \<lparr>oo_traceID = ''t'', oo_cmsOperationID = ''o'', oo_halOperationID = ''h'', oo_chargerID = ''CP1'', oo_action = ''Reset'',
     oo_uniqueID = ''u'', oo_requestedMessage = '''', oo_connector = 0, oo_sentPayload = []\<rparr>"

definition sample_wired :: HAL where
  "sample_wired = onNewChargePoint (sample_handler CHR ''b'' 1) ''serial'' ''k'' ''addr''
     ((sample_hal empty_db)\<lparr>hal_wiredIdentity := [(''serial'', ''CP1'')],
        hal_operationObserver := \<lparr>obs_byRequest = [], obs_byUnique = [(''u'', sample_pending)]\<rparr>\<rparr>)"

theorem disconnect_leaks_observer_witness:
  "current_connection ''CP1'' (hal_connections sample_wired) \<noteq> None
   \<and> current_connection ''CP1'' (hal_connections (onChargePointDisconnected (sample_handler CHR ''c'' 2) ''serial'' ''k'' sample_wired)) = None
   \<and> (''u'', sample_pending) \<in> set (obs_byUnique (hal_operationObserver
        (onChargePointDisconnected (sample_handler CHR ''c'' 2) ''serial'' ''k'' sample_wired)))"
proof -
  have w: "hal_wiredIdentity sample_wired = [(''serial'', ''CP1'')]"
    "obs_byUnique (hal_operationObserver sample_wired) = [(''u'', sample_pending)]"
    "\<exists>c. map_of (ct_active (hal_connections sample_wired)) ''CP1'' = Some c \<and> cn_Key c = ''k''"
    by (simp_all add: sample_wired_def onNewChargePoint_def register_connection_def canonicalIdentity_def project_runtime_def touch_def
        update_conv Let_def split_beta)
  have "current_connection ''CP1'' (hal_connections (onChargePointDisconnected (sample_handler CHR ''c'' 2) ''serial'' ''k'' sample_wired)) = None"
    using w(1,3) by (auto simp: onChargePointDisconnected_def unregisterIfCurrent_def canonicalIdentity_def current_connection_def
        delete_conv Let_def)
  then show ?thesis
    using disconnect_leaks_observer [of sample_wired "''serial''" "''u''" sample_pending "sample_handler CHR ''c'' 2" "''k''"] w
    by (auto simp: canonicalIdentity_def sample_pending_def current_connection_def)
qed

end
