(* ===== verification/HTTP_Views.thy ===== *)
theory HTTP_Views
  imports V1_Types
begin

text \<open>
  The response boundary of the v1 HTTP API (\<^verbatim>\<open>httpapi/v1_response.go\<close>,
  \<^verbatim>\<open>httpapi/v1_operations_response.go\<close>): the public views of the store's records. \<^verbatim>\<open>omitempty\<close> drops
  an empty field on the wire only. A nil stop workflow has no view; the handlers map the option.
\<close>

record v1CommandResponse =
  cv_HALCommandID :: string
  cv_CMSCommandID :: string
  cv_Kind :: string
  cv_State :: string
  cv_HALTransactionID :: "string option"
  cv_OCPPTransactionID :: "int option"
  cv_UpdatedAt :: gotime

definition v1CommandView :: "V1RemoteCommand \<Rightarrow> v1CommandResponse" where
  "v1CommandView x = \<lparr>cv_HALCommandID = cmd_HALCommandID x, cv_CMSCommandID = cmd_CMSCommandID x, cv_Kind = cmd_Kind x,
     cv_State = cmd_State x,
     cv_HALTransactionID = (if cmd_HALTransactionID x = '''' then None else Some (cmd_HALTransactionID x)),
     cv_OCPPTransactionID = cmd_OCPPTransactionID x, cv_UpdatedAt = cmd_UpdatedAt x\<rparr>"

record v1ConnectorMappingResponse =
  cmv_CPOID :: string
  cmv_CMSChargerID :: string
  cmv_CMSConnectorID :: string
  cmv_ChargerOCPPIdentity :: string
  cmv_OCPPConnectorNumber :: int

definition connector_mapping_view :: "V1ConnectorMapping \<Rightarrow> v1ConnectorMappingResponse" where
  "connector_mapping_view x = \<lparr>cmv_CPOID = cm_CPOID x, cmv_CMSChargerID = cm_CMSChargerID x, cmv_CMSConnectorID = cm_CMSConnectorID x,
     cmv_ChargerOCPPIdentity = cm_ChargerOCPPIdentity x, cmv_OCPPConnectorNumber = cm_OCPPConnectorNumber x\<rparr>"

record v1MappingResponse =
  mv_CPOID :: string
  mv_CMSChargerID :: string
  mv_ChargerOCPPIdentity :: string
  mv_ExpectedSerial :: string
  mv_Enabled :: bool
  mv_Connectors :: "v1ConnectorMappingResponse list"

definition v1MappingView :: "V1ChargerMapping \<Rightarrow> v1MappingResponse" where
  "v1MappingView x = \<lparr>mv_CPOID = chm_CPOID x, mv_CMSChargerID = chm_CMSChargerID x, mv_ChargerOCPPIdentity = chm_ChargerOCPPIdentity x,
     mv_ExpectedSerial = chm_ExpectedSerial x, mv_Enabled = chm_Enabled x,
     mv_Connectors = (map connector_mapping_view (chm_Connectors x))\<rparr>"

record v1StopWorkflowResponse =
  wv_HALTransactionID :: string
  wv_RequestedStopInitiator :: string
  wv_RequestedStopReason :: string
  wv_State :: string
  wv_DeliveryAttempts :: int
  wv_LastOCPPResult :: string
  wv_LastErrorCategory :: string
  wv_CreatedAt :: gotime
  wv_UpdatedAt :: gotime
  wv_CompletedAt :: "gotime option"

definition v1StopWorkflowView :: "V1StopWorkflow \<Rightarrow> v1StopWorkflowResponse" where
  "v1StopWorkflowView x = \<lparr>wv_HALTransactionID = wf_HALTransactionID x, wv_RequestedStopInitiator = wf_RequestedStopInitiator x,
     wv_RequestedStopReason = wf_RequestedStopReason x, wv_State = wf_State x,
     wv_DeliveryAttempts = wf_DeliveryAttempts x, wv_LastOCPPResult = wf_LastOCPPResult x,
     wv_LastErrorCategory = wf_LastErrorCategory x, wv_CreatedAt = wf_CreatedAt x, wv_UpdatedAt = wf_UpdatedAt x,
     wv_CompletedAt = wf_CompletedAt x\<rparr>"

record v1TransactionResponse =
  tpv_HALTransactionID :: string
  tpv_CMSStartIntentID :: string
  tpv_CMSCommandID :: string
  tpv_CPOID :: string
  tpv_CMSChargerID :: string
  tpv_CMSConnectorID :: string
  tpv_ChargerOCPPIdentity :: string
  tpv_OCPPConnectorNumber :: int
  tpv_OCPPTransactionID :: int
  tpv_ActualStartedAt :: gotime
  tpv_ObservedStartedAt :: gotime
  tpv_MeterStartWh :: int
  tpv_LimitType :: string
  tpv_LatestMeterWh :: "int option"
  tpv_ConsumedWh :: "int option"
  tpv_MeterObservedAt :: "gotime option"
  tpv_MeterSequence :: int
  tpv_InitialSoCPercent :: "V1SoCPercent option"
  tpv_LatestSoCPercent :: "V1SoCPercent option"
  tpv_SoCObservedAt :: "gotime option"
  tpv_SoCSequence :: int
  tpv_EnergyLimitWh :: "int option"
  tpv_EnergyLimitSource :: string
  tpv_MaxDurationSeconds :: "int option"
  tpv_DurationLimitSource :: string
  tpv_StopDeadlineAt :: "gotime option"
  tpv_StopState :: string
  tpv_RequestedStopInitiator :: string
  tpv_RequestedStopReason :: string
  tpv_OCPPStopReason :: string
  tpv_CompletedAt :: "gotime option"
  tpv_ObservedCompletedAt :: "gotime option"
  tpv_MeterStopWh :: "int option"

definition v1TransactionView :: "V1Transaction \<Rightarrow> v1TransactionResponse" where
  "v1TransactionView x = \<lparr>tpv_HALTransactionID = tx_HALTransactionID x, tpv_CMSStartIntentID = tx_CMSStartIntentID x,
     tpv_CMSCommandID = tx_CMSCommandID x, tpv_CPOID = tx_CPOID x, tpv_CMSChargerID = tx_CMSChargerID x,
     tpv_CMSConnectorID = tx_CMSConnectorID x, tpv_ChargerOCPPIdentity = tx_ChargerOCPPIdentity x,
     tpv_OCPPConnectorNumber = tx_OCPPConnectorNumber x, tpv_OCPPTransactionID = tx_OCPPTransactionID x,
     tpv_ActualStartedAt = tx_ActualStartedAt x, tpv_ObservedStartedAt = tx_ObservedStartedAt x,
     tpv_MeterStartWh = tx_MeterStartWh x, tpv_LimitType = tx_LimitType x, tpv_LatestMeterWh = tx_LatestMeterWh x,
     tpv_ConsumedWh = tx_ConsumedWh x, tpv_MeterObservedAt = tx_MeterObservedAt x,
     tpv_MeterSequence = tx_MeterSequence x, tpv_InitialSoCPercent = tx_InitialSoCPercent x,
     tpv_LatestSoCPercent = tx_LatestSoCPercent x, tpv_SoCObservedAt = tx_SoCObservedAt x,
     tpv_SoCSequence = tx_SoCSequence x, tpv_EnergyLimitWh = tx_EnergyLimitWh x,
     tpv_EnergyLimitSource = tx_EnergyLimitSource x, tpv_MaxDurationSeconds = tx_MaxDurationSeconds x,
     tpv_DurationLimitSource = tx_DurationLimitSource x, tpv_StopDeadlineAt = tx_StopDeadlineAt x,
     tpv_StopState = tx_StopState x, tpv_RequestedStopInitiator = tx_RequestedStopInitiator x,
     tpv_RequestedStopReason = tx_RequestedStopReason x, tpv_OCPPStopReason = tx_OCPPStopReason x,
     tpv_CompletedAt = tx_CompletedAt x, tpv_ObservedCompletedAt = tx_ObservedCompletedAt x,
     tpv_MeterStopWh = tx_MeterStopWh x\<rparr>"

record v1ConnectorRuntimeResponse =
  crv_CPOID :: string
  crv_CMSChargerID :: string
  crv_CMSConnectorID :: string
  crv_ChargerOCPPIdentity :: string
  crv_OCPPConnectorNumber :: int
  crv_Status :: string
  crv_ErrorCode :: string
  crv_Info :: string
  crv_VendorID :: string
  crv_VendorErrorCode :: string
  crv_ObservedAt :: "gotime option"
  crv_StatusSequence :: int
  crv_UpdatedAt :: gotime

definition v1ConnectorRuntimeView :: "V1ConnectorRuntime \<Rightarrow> v1ConnectorRuntimeResponse" where
  "v1ConnectorRuntimeView x = \<lparr>crv_CPOID = crt_CPOID x, crv_CMSChargerID = crt_CMSChargerID x, crv_CMSConnectorID = crt_CMSConnectorID x,
     crv_ChargerOCPPIdentity = crt_ChargerOCPPIdentity x, crv_OCPPConnectorNumber = crt_OCPPConnectorNumber x,
     crv_Status = crt_Status x, crv_ErrorCode = crt_ErrorCode x, crv_Info = crt_Info x, crv_VendorID = crt_VendorID x,
     crv_VendorErrorCode = crt_VendorErrorCode x, crv_ObservedAt = crt_ObservedAt x,
     crv_StatusSequence = crt_StatusSequence x, crv_UpdatedAt = crt_UpdatedAt x\<rparr>"

record v1ChargerRuntimeResponse =
  rv_CPOID :: string
  rv_CMSChargerID :: string
  rv_ChargerOCPPIdentity :: string
  rv_ConnectionState :: string
  rv_ConnectionGeneration :: int
  rv_ConnectionSequence :: int
  rv_ConnectedAt :: "gotime option"
  rv_LastObservedAt :: "gotime option"
  rv_UpdatedAt :: gotime
  rv_Connectors :: "v1ConnectorRuntimeResponse list"

definition v1ChargerRuntimeView :: "V1ChargerRuntime \<Rightarrow> v1ChargerRuntimeResponse" where
  "v1ChargerRuntimeView x = \<lparr>rv_CPOID = rt_CPOID x, rv_CMSChargerID = rt_CMSChargerID x, rv_ChargerOCPPIdentity = rt_ChargerOCPPIdentity x,
     rv_ConnectionState = rt_ConnectionState x, rv_ConnectionGeneration = rt_ConnectionGeneration x,
     rv_ConnectionSequence = rt_ConnectionSequence x, rv_ConnectedAt = rt_ConnectedAt x,
     rv_LastObservedAt = rt_LastObservedAt x, rv_UpdatedAt = rt_UpdatedAt x,
     rv_Connectors = (map v1ConnectorRuntimeView (rt_Connectors x))\<rparr>"

record v1ChargerOperationResponse =
  ov_HALOperationID :: string
  ov_CMSOperationID :: string
  ov_CPOID :: string
  ov_CMSChargerID :: string
  ov_CMSConnectorID :: string
  ov_OCPPConnectorNumber :: int
  ov_Kind :: string
  ov_State :: string
  ov_OCPPResult :: string
  ov_ErrorCategory :: string
  ov_DeliveryAttempts :: int
  ov_CreatedAt :: gotime
  ov_UpdatedAt :: gotime
  ov_CompletedAt :: "gotime option"

definition v1ChargerOperationView :: "V1ChargerOperation \<Rightarrow> v1ChargerOperationResponse" where
  "v1ChargerOperationView x = \<lparr>ov_HALOperationID = op_HALOperationID x, ov_CMSOperationID = op_CMSOperationID x, ov_CPOID = op_CPOID x,
     ov_CMSChargerID = op_CMSChargerID x, ov_CMSConnectorID = op_CMSConnectorID x,
     ov_OCPPConnectorNumber = op_OCPPConnectorNumber x, ov_Kind = op_Kind x, ov_State = op_State x,
     ov_OCPPResult = op_OCPPResult x, ov_ErrorCategory = op_ErrorCategory x, ov_DeliveryAttempts = op_DeliveryAttempts x,
     ov_CreatedAt = op_CreatedAt x, ov_UpdatedAt = op_UpdatedAt x, ov_CompletedAt = op_CompletedAt x\<rparr>"

end
