(* ===== verification/Trace_Store.thy ===== *)
theory Trace_Store
  imports PG_Commands Trace_Evidence
begin

text \<open>
  The durable diagnostic traces (\<^verbatim>\<open>store/v1_trace_postgres.go\<close>, \<^verbatim>\<open>store/v1_trace_delivery.go\<close>): the
  tables of migrations 018, 019, 021 and 022, and the methods on them. They are separate from the
  tables of the charging contract, which only \<^verbatim>\<open>FindV1TraceForConnector\<close> reads; it takes the
  transactions as an argument.

  The environment of a call: \<open>tv_now\<close> is \<^verbatim>\<open>NOW()\<close>, \<open>tv_clock\<close> Go's clock, \<open>tv_uuid k\<close> the k-th
  identifier drawn, \<open>tv_digest\<close> the canonicalization and hashing of an envelope, \<open>tv_rnd\<close> the
  rounding of an integer to \<^verbatim>\<open>float64\<close>, \<open>tv_canon\<close> the RFC 3339 parser of the sanitizer and
  \<open>tv_format\<close> the RFC 3339 text of an instant.
\<close>

record trace_env =
  tv_now :: gotime
  tv_clock :: gotime
  tv_uuid :: "nat \<Rightarrow> string option"
  tv_digest :: "gomap \<Rightarrow> string res"
  tv_rnd :: "rat \<Rightarrow> rat"
  tv_canon :: "string \<Rightarrow> string option"
  tv_format :: "gotime \<Rightarrow> string"

record trace_content =
  tc_Payload :: gomap
  tc_ContentSHA256 :: string

record window_row =
  wd_Window :: V1TriggerMessageFollowOnWindow
  wd_ObservedAt :: "gotime option"
  wd_ClosedAt :: "gotime option"

record trace_tables =
  tt_traces :: "V1Trace list"
  tt_events :: "V1TraceEvent list"
  tt_outbox :: "trace_content outbox_row list"
  tt_windows :: "window_row list"

definition empty_traces :: trace_tables where
  "empty_traces = \<lparr>tt_traces = [], tt_events = [], tt_outbox = [], tt_windows = []\<rparr>"

subsection \<open>Envelopes\<close>

text \<open>
  \<^verbatim>\<open>encoding/json\<close> on the way to text and back into \<^verbatim>\<open>any\<close>: a number comes back as \<^verbatim>\<open>float64\<close>, an
  instant as its text, a slice as \<^verbatim>\<open>[]any\<close>.
\<close>

fun json_decoded :: "trace_env \<Rightarrow> goany \<Rightarrow> goany" where
  "json_decoded V GNil = GNil"
| "json_decoded V (GBool b) = GBool b"
| "json_decoded V (GInt n) = GFloat (tv_rnd V (of_int n))"
| "json_decoded V (GFloat x) = GFloat x"
| "json_decoded V (GString s) = GString s"
| "json_decoded V (GTime t) = GString (tv_format V t)"
| "json_decoded V (GStrings ss) = GList (map GString ss)"
| "json_decoded V (GList xs) = GList (map (json_decoded V) xs)"
| "json_decoded V (GMaps ms) = GList (map (\<lambda>m. GMap (map (\<lambda>(k, v). (k, json_decoded V v)) m)) ms)"
| "json_decoded V (GMap m) = GMap (map (\<lambda>(k, v). (k, json_decoded V v)) m)"

definition json_map :: "trace_env \<Rightarrow> gomap \<Rightarrow> gomap" where
  "json_map V m = map (\<lambda>(k, v). (k, json_decoded V v)) m"

record V1TraceDelivery =
  td_SchemaVersion :: int
  td_Trace :: V1Trace
  td_Event :: V1TraceEvent
  td_ContentSHA256 :: string
  td_Payload :: "gomap option"
  td_ClaimToken :: string
  td_Retries :: int

definition nullableString :: "string \<Rightarrow> goany" where
  "nullableString value = (if value = '''' then GNil else GString value)"

definition trace_envelope :: "V1TraceDelivery \<Rightarrow> gomap" where
  "trace_envelope delivery =
     (case td_Payload delivery of
        Some payload \<Rightarrow> payload
      | None \<Rightarrow>
          (let trace = td_Trace delivery; event = td_Event delivery;
               data = (case te_Data event of GMap m \<Rightarrow> m | _ \<Rightarrow> [])
           in [(''schema_version'', GInt (td_SchemaVersion delivery)), (''trace_id'', GString (tr_TraceID trace)),
               (''event_id'', GString (te_EventID event)), (''cpo_id'', GString (tr_CPOID trace)),
               (''cms_start_intent_id'', nullableString (tr_CMSStartIntentID trace)),
               (''cms_charging_session_id'', nullableString (tr_CMSChargingSessionID trace)),
               (''cms_command_id'', nullableString (tr_CMSCommandID trace)),
               (''cms_charger_operation_id'', nullableString (tr_CMSChargerOperationID trace)),
               (''hal_charger_operation_id'', nullableString (tr_HALChargerOperationID trace)),
               (''hal_transaction_id'', nullableString (tr_HALTransactionID trace)),
               (''ocpp_transaction_id'', case tr_OCPPTransactionID trace of None \<Rightarrow> GNil | Some i \<Rightarrow> GInt i),
               (''charger_ocpp_identity'', GString (tr_ChargerOCPPIdentity trace)),
               (''ocpp_connector_number'', GInt (tr_OCPPConnectorNumber trace)),
               (''source'', GString (te_Source event)), (''target'', GString (te_Target event)),
               (''category'', GString (te_Category event)), (''protocol'', GString (te_Protocol event)),
               (''phase'', GString (te_Phase event)), (''summary'', GString (te_Summary event)),
               (''occurred_at'', GTime (te_OccurredAt event)), (''state_before'', GString (te_StateBefore event)),
               (''state_after'', GString (te_StateAfter event)), (''correlation_id'', GString (te_CorrelationID event)),
               (''data'', GMap data), (''immutable_content_sha256'', GString (td_ContentSHA256 delivery))]))"

definition traceContentSHA256 :: "trace_env \<Rightarrow> V1Trace \<Rightarrow> V1TraceEvent \<Rightarrow> string res" where
  "traceContentSHA256 V trace event =
     tv_digest V (AList.delete ''immutable_content_sha256'' (trace_envelope \<lparr>td_SchemaVersion = 1, td_Trace = trace, td_Event = event,
       td_ContentSHA256 = '''', td_Payload = None, td_ClaimToken = '''', td_Retries = 0\<rparr>))"

subsection \<open>Traces\<close>

definition pg_GetV1Trace :: "string \<Rightarrow> trace_tables \<Rightarrow> V1Trace res" where
  "pg_GetV1Trace traceID T =
     (case sql_row tr_TraceID traceID (tt_traces T) of None \<Rightarrow> Inl ErrV1TransactionNotFound | Some trace \<Rightarrow> Inr trace)"

text \<open>The unique indexes and the checks of \<^verbatim>\<open>v1_charging_traces\<close>; NULL is the empty string.\<close>

definition same_key :: "(V1Trace \<Rightarrow> string) \<Rightarrow> V1Trace \<Rightarrow> V1Trace list \<Rightarrow> bool" where
  "same_key key trace ts \<longleftrightarrow> key trace \<noteq> '''' \<and> list_ex (\<lambda>t. key t = key trace) ts"

definition trace_conflict :: "V1Trace \<Rightarrow> V1Trace list \<Rightarrow> bool" where
  "trace_conflict trace ts \<longleftrightarrow> same_key tr_CMSStartIntentID trace ts \<or> same_key tr_HALTransactionID trace ts
     \<or> same_key tr_CMSChargerOperationID trace ts \<or> same_key tr_HALChargerOperationID trace ts"

definition trace_check :: "V1Trace \<Rightarrow> bool" where
  "trace_check trace \<longleftrightarrow> (tr_OCPPConnectorNumber trace > 0 \<or> tr_CMSChargerOperationID trace \<noteq> '''')
     \<and> (case tr_OCPPTransactionID trace of None \<Rightarrow> True | Some i \<Rightarrow> i > 0)"

definition pg_EnsureV1Trace :: "trace_env \<Rightarrow> V1Trace \<Rightarrow> trace_tables \<Rightarrow> V1Trace res \<times> trace_tables" where
  "pg_EnsureV1Trace V trace T =
     (let trace = (if time_IsZero (tr_CreatedAt trace) then trace\<lparr>tr_CreatedAt := tv_clock V\<rparr> else trace);
          row = trace\<lparr>tr_CreatedAt := pg_ts (tr_CreatedAt trace)\<rparr>
      in if \<not> trace_check row then (Inl check_violation, T)
         else if sql_row tr_TraceID (tr_TraceID row) (tt_traces T) \<noteq> None then (pg_GetV1Trace (tr_TraceID row) T, T)
         else if trace_conflict row (tt_traces T) then (Inl ErrUniqueViolation, T)
         else (let T' = T\<lparr>tt_traces := tt_traces T @ [row]\<rparr> in (pg_GetV1Trace (tr_TraceID row) T', T')))"

definition bindable :: "string \<Rightarrow> string \<Rightarrow> V1Trace \<Rightarrow> bool" where
  "bindable traceID halID t \<longleftrightarrow> tr_TraceID t = traceID \<and> (tr_HALTransactionID t = '''' \<or> tr_HALTransactionID t = halID)"

definition pg_BindV1TraceTransaction :: "string \<Rightarrow> V1Transaction \<Rightarrow> trace_tables \<Rightarrow> unit res \<times> trace_tables" where
  "pg_BindV1TraceTransaction traceID transaction T =
     (let halID = tx_HALTransactionID transaction;
          hit = bindable traceID halID;
          f = (\<lambda>t. t\<lparr>tr_HALTransactionID := halID, tr_OCPPTransactionID := Some (tx_OCPPTransactionID transaction)\<rparr>);
          count = sql_count hit (tt_traces T)
      in if count \<noteq> 0 \<and> \<not> tx_OCPPTransactionID transaction > 0 then (Inl check_violation, T)
         else if count \<noteq> 0 \<and> list_ex (\<lambda>t. tr_HALTransactionID t = halID \<and> \<not> hit t) (tt_traces T) then (Inl ErrUniqueViolation, T)
         else (if count \<noteq> 1 then Inl ErrV1InvalidEvidence else Inr (), T\<lparr>tt_traces := sql_update hit f (tt_traces T)\<rparr>))"

definition pg_FindV1TraceByTransaction :: "string \<Rightarrow> trace_tables \<Rightarrow> V1Trace res" where
  "pg_FindV1TraceByTransaction transactionID T =
     (case find (\<lambda>t. tr_HALTransactionID t \<noteq> '''' \<and> tr_HALTransactionID t = transactionID) (tt_traces T) of
        None \<Rightarrow> Inl ErrV1TransactionNotFound
      | Some trace \<Rightarrow> Inr trace)"

definition new_transaction_trace :: "string \<Rightarrow> V1Transaction \<Rightarrow> V1Trace" where
  "new_transaction_trace traceID t = \<lparr>tr_TraceID = traceID, tr_CPOID = tx_CPOID t, tr_CMSStartIntentID = tx_CMSStartIntentID t,
     tr_CMSChargingSessionID = '''', tr_CMSCommandID = tx_CMSCommandID t, tr_CMSChargerOperationID = '''', tr_HALChargerOperationID = '''',
     tr_HALTransactionID = tx_HALTransactionID t, tr_OCPPTransactionID = Some (tx_OCPPTransactionID t),
     tr_ChargerOCPPIdentity = tx_ChargerOCPPIdentity t, tr_OCPPConnectorNumber = tx_OCPPConnectorNumber t, tr_CreatedAt = 0\<rparr>"

definition pg_EnsureV1TraceForTransaction :: "trace_env \<Rightarrow> V1Transaction \<Rightarrow> trace_tables \<Rightarrow> V1Trace res \<times> trace_tables" where
  "pg_EnsureV1TraceForTransaction V transaction T =
     (case pg_FindV1TraceByTransaction (tx_HALTransactionID transaction) T of
        Inr trace \<Rightarrow> (Inr trace, T)
      | Inl _ \<Rightarrow>
          (case (if tx_CMSStartIntentID transaction = '''' then None
                 else find (\<lambda>t. tr_CMSStartIntentID t = tx_CMSStartIntentID transaction) (tt_traces T)) of
             Some trace \<Rightarrow>
               (case pg_BindV1TraceTransaction (tr_TraceID trace) transaction T of
                  (Inl err, T') \<Rightarrow> (Inl err, T')
                | (Inr _, T') \<Rightarrow> (pg_GetV1Trace (tr_TraceID trace) T', T'))
           | None \<Rightarrow>
               (case NewSecureUUIDString (tv_uuid V 0) of
                  Inl err \<Rightarrow> (Inl err, T)
                | Inr traceID \<Rightarrow> pg_EnsureV1Trace V (new_transaction_trace traceID transaction) T)))"

text \<open>
  The join with the transactions: a live transaction first, then a start that has not materialized,
  then the transactions completed within fifteen minutes, the newest trace first in each group.
\<close>

definition trace_transaction :: "V1Transaction list \<Rightarrow> V1Trace \<Rightarrow> V1Transaction option" where
  "trace_transaction txs t = (if tr_HALTransactionID t = '''' then None else sql_row tx_HALTransactionID (tr_HALTransactionID t) txs)"

definition trace_rank :: "V1Transaction list \<Rightarrow> V1Trace \<Rightarrow> nat" where
  "trace_rank txs t =
     (if (case trace_transaction txs t of Some x \<Rightarrow> tx_CompletedAt x = None | None \<Rightarrow> False) then 0
      else if tr_HALTransactionID t = '''' then 1 else 2)"

definition trace_eligible :: "gotime \<Rightarrow> V1Transaction list \<Rightarrow> V1Trace \<Rightarrow> bool" where
  "trace_eligible now txs t \<longleftrightarrow> tr_HALTransactionID t = ''''
     \<or> (case trace_transaction txs t of
          None \<Rightarrow> True
        | Some x \<Rightarrow> (case tx_CompletedAt x of None \<Rightarrow> True | Some c \<Rightarrow> c \<ge> now - 15 * 60 * duration_second))"

definition pg_FindV1TraceForConnector :: "gotime \<Rightarrow> string \<Rightarrow> int \<Rightarrow> V1Transaction list \<Rightarrow> trace_tables \<Rightarrow> V1Trace res" where
  "pg_FindV1TraceForConnector now identity connector txs T =
     (case sort_key (\<lambda>t. (trace_rank txs t, - tr_CreatedAt t))
        (filter (\<lambda>t. tr_ChargerOCPPIdentity t = identity \<and> tr_OCPPConnectorNumber t = connector \<and> trace_eligible now txs t) (tt_traces T)) of
        [] \<Rightarrow> Inl ErrV1TransactionNotFound
      | trace # _ \<Rightarrow> Inr trace)"

subsection \<open>Events\<close>

text \<open>The widths of the columns of \<^verbatim>\<open>v1_charging_trace_events\<close>.\<close>

definition event_fits :: "V1TraceEventInput \<Rightarrow> bool" where
  "event_fits i \<longleftrightarrow> length (ti_Source i) \<le> 32 \<and> length (ti_Target i) \<le> 32 \<and> length (ti_Category i) \<le> 48
     \<and> length (ti_Protocol i) \<le> 24 \<and> length (ti_Phase i) \<le> 24 \<and> length (ti_Summary i) \<le> 200
     \<and> length (ti_StateBefore i) \<le> 64 \<and> length (ti_StateAfter i) \<le> 64 \<and> length (ti_CorrelationID i) \<le> 128"

definition new_event :: "trace_env \<Rightarrow> string \<Rightarrow> string \<Rightarrow> V1TraceEventInput \<Rightarrow> V1TraceEvent" where
  "new_event V eventID traceID input = \<lparr>te_EventID = eventID, te_TraceID = traceID, te_Source = ti_Source input, te_Target = ti_Target input,
     te_Category = ti_Category input, te_Protocol = ti_Protocol input, te_Phase = ti_Phase input, te_Summary = ti_Summary input,
     te_OccurredAt = (if time_IsZero (ti_OccurredAt input) then tv_clock V else ti_OccurredAt input), te_RecordedAt = 0,
     te_StateBefore = ti_StateBefore input, te_StateAfter = ti_StateAfter input, te_CorrelationID = ti_CorrelationID input,
     te_Data = GMap (json_map V (sanitizeV1TraceData (tv_canon V) (ti_Data input)))\<rparr>"

definition new_delivery_row :: "trace_env \<Rightarrow> V1Trace \<Rightarrow> V1TraceEvent \<Rightarrow> string \<Rightarrow> trace_content outbox_row" where
  "new_delivery_row V trace event digest = \<lparr>ob_id = te_EventID event,
     ob_content = \<lparr>tc_Payload = json_map V (trace_envelope \<lparr>td_SchemaVersion = 1, td_Trace = trace, td_Event = event,
         td_ContentSHA256 = digest, td_Payload = None, td_ClaimToken = '''', td_Retries = 0\<rparr>), tc_ContentSHA256 = digest\<rparr>,
     ob_status = ''PENDING'', ob_retries = 0, ob_next_retry_at = tv_now V, ob_claimed_until = None, ob_claim_token = '''',
     ob_delivery_status = None, ob_last_error = '''', ob_sent_at = None, ob_created_at = tv_now V\<rparr>"

definition appendV1TraceEventTx :: "trace_env \<Rightarrow> nat \<Rightarrow> string \<Rightarrow> V1TraceEventInput \<Rightarrow> trace_tables \<Rightarrow> unit res \<times> trace_tables" where
  "appendV1TraceEventTx V k traceID input T =
     (case NewSecureUUIDString (tv_uuid V k) of
        Inl err \<Rightarrow> (Inl err, T)
      | Inr eventID \<Rightarrow>
          (case sql_row tr_TraceID traceID (tt_traces T) of
             None \<Rightarrow> (Inl ErrV1TransactionNotFound, T)
           | Some trace \<Rightarrow>
               (let event = new_event V eventID traceID input in
                case traceContentSHA256 V trace event of
                  Inl err \<Rightarrow> (Inl err, T)
                | Inr digest \<Rightarrow>
                    if \<not> event_fits input then (Inl (ErrOther ''22001''), T)
                    else if eventID \<in> te_EventID ` set (tt_events T) then (Inl ErrUniqueViolation, T)
                    else (let T1 = T\<lparr>tt_events := tt_events T @ [event\<lparr>te_OccurredAt := pg_ts (te_OccurredAt event), te_RecordedAt := tv_now V\<rparr>]\<rparr>
                          in if eventID \<in> ob_id ` set (tt_outbox T) then (Inl ErrUniqueViolation, T1)
                             else (Inr (), T1\<lparr>tt_outbox := tt_outbox T1 @ [new_delivery_row V trace event digest]\<rparr>)))))"

definition pg_AppendV1TraceEvent :: "trace_env \<Rightarrow> string \<Rightarrow> V1TraceEventInput \<Rightarrow> trace_tables \<Rightarrow> unit res \<times> trace_tables" where
  "pg_AppendV1TraceEvent V traceID input T = pg_tx (appendV1TraceEventTx V 0 traceID input) T"

text \<open>
  The cursor: the newest events first, strictly before the given position. The driver hands the column
  \<^verbatim>\<open>data\<close> over as JSON text; the model keeps the value that text stands for.
\<close>

definition event_key :: "V1TraceEvent \<Rightarrow> gotime \<times> string" where
  "event_key e = (te_OccurredAt e, te_EventID e)"

definition pg_ListV1TraceEvents :: "string \<Rightarrow> gotime \<Rightarrow> string \<Rightarrow> int \<Rightarrow> trace_tables \<Rightarrow> V1TraceEvent list" where
  "pg_ListV1TraceEvents traceID before beforeID limit T =
     (let limit = (if limit < 1 \<or> limit > 200 then 100 else limit)
      in take (nat limit) (rev (sort_key event_key
           (filter (\<lambda>e. te_TraceID e = traceID \<and> (time_IsZero before \<or> event_key e < (pg_ts before, beforeID))) (tt_events T)))))"

subsection \<open>Follow-on windows\<close>

definition v1TriggerMessageFollowOnData :: "V1TriggerMessageFollowOnWindow \<Rightarrow> string \<Rightarrow> int \<Rightarrow> gomap" where
  "v1TriggerMessageFollowOnData window action connector =
     [(''follow_on'', GBool True), (''expected_message'', GString (fw_RequestedMessage window)), (''observed_action'', GString action),
      (''charger_ocpp_identity'', GString (fw_ChargerOCPPIdentity window))]
     @ (if V1TriggerMessageConnectorScoped action then [(''connector_number'', GInt connector)] else [])"

definition v1TriggerMessageFollowOnClosureData :: "trace_env \<Rightarrow> V1TriggerMessageFollowOnWindow \<Rightarrow> gomap" where
  "v1TriggerMessageFollowOnClosureData V window =
     [(''follow_on_closed'', GBool True), (''expected_message'', GString (fw_RequestedMessage window)),
      (''charger_ocpp_identity'', GString (fw_ChargerOCPPIdentity window)), (''accepted_at'', GString (tv_format V (fw_AcceptedAt window)))]
     @ (if V1TriggerMessageConnectorScoped (fw_RequestedMessage window) then [(''connector_number'', GInt (fw_OCPPConnectorNumber window))] else [])"

definition follow_on_input :: "string \<Rightarrow> string \<Rightarrow> string \<Rightarrow> string \<Rightarrow> gotime \<Rightarrow> gomap \<Rightarrow> V1TraceEventInput" where
  "follow_on_input source target category summary at' data = \<lparr>ti_Source = source, ti_Target = target, ti_Category = category,
     ti_Protocol = ''OCPP1.6'', ti_Phase = ''CHARGING'', ti_Summary = summary, ti_OccurredAt = at', ti_StateBefore = '''', ti_StateAfter = '''',
     ti_CorrelationID = '''', ti_Data = GMap data\<rparr>"

definition window_key :: "window_row \<Rightarrow> string" where
  "window_key w = fw_TraceID (wd_Window w)"

definition window_open :: "window_row \<Rightarrow> bool" where
  "window_open w \<longleftrightarrow> fw_State (wd_Window w) = ''OPEN''"

text \<open>
  One settled window: the row moves out of \<^verbatim>\<open>OPEN\<close> and its event is appended; a row that is no
  longer open aborts the transaction. The windows of a pass settle in order; the k-th draws the
  k-th identifier.
\<close>

definition settle_window ::
  "trace_env \<Rightarrow> (window_row \<Rightarrow> window_row) \<Rightarrow> (V1TriggerMessageFollowOnWindow \<Rightarrow> V1TraceEventInput) \<Rightarrow> nat \<Rightarrow> window_row
   \<Rightarrow> trace_tables \<Rightarrow> unit res \<times> trace_tables" where
  "settle_window V move input k w T =
     (let hit = (\<lambda>r. window_key r = window_key w \<and> window_open r);
          T1 = T\<lparr>tt_windows := sql_update hit move (tt_windows T)\<rparr>
      in if sql_count hit (tt_windows T) \<noteq> 1 then (Inl ErrV1InvalidEvidence, T1)
         else appendV1TraceEventTx V k (window_key w) (input (wd_Window w)) T1)"

fun settle_windows ::
  "trace_env \<Rightarrow> (window_row \<Rightarrow> window_row) \<Rightarrow> (V1TriggerMessageFollowOnWindow \<Rightarrow> V1TraceEventInput) \<Rightarrow> nat \<Rightarrow> window_row list
   \<Rightarrow> trace_tables \<Rightarrow> unit res \<times> trace_tables" where
  "settle_windows V move input k [] T = (Inr (), T)"
| "settle_windows V move input k (w # ws) T =
     tx_bind (settle_window V move input k w T) (\<lambda>_ T1. settle_windows V move input (Suc k) ws T1)"

definition observe_row :: "gotime \<Rightarrow> window_row \<Rightarrow> window_row" where
  "observe_row at' r = r\<lparr>wd_Window := (wd_Window r)\<lparr>fw_State := ''OBSERVED''\<rparr>, wd_ObservedAt := Some at'\<rparr>"

definition close_row :: "gotime \<Rightarrow> window_row \<Rightarrow> window_row" where
  "close_row at' r = r\<lparr>wd_Window := (wd_Window r)\<lparr>fw_State := ''CLOSED''\<rparr>, wd_ClosedAt := Some at'\<rparr>"

definition window_matches :: "string \<Rightarrow> string \<Rightarrow> int \<Rightarrow> gotime \<Rightarrow> window_row \<Rightarrow> bool" where
  "window_matches identity action connector at' r \<longleftrightarrow>
     fw_ChargerOCPPIdentity (wd_Window r) = identity \<and> fw_RequestedMessage (wd_Window r) = action \<and> window_open r
     \<and> fw_AcceptedAt (wd_Window r) < at' \<and> at' \<le> fw_DeadlineAt (wd_Window r)
     \<and> (\<not> V1TriggerMessageConnectorScoped action \<or> fw_OCPPConnectorNumber (wd_Window r) = 0 \<or> fw_OCPPConnectorNumber (wd_Window r) = connector)"

definition pg_RecordV1TriggerMessageFollowOn ::
  "trace_env \<Rightarrow> string \<Rightarrow> string \<Rightarrow> int \<Rightarrow> gotime \<Rightarrow> trace_tables \<Rightarrow> nat res \<times> trace_tables" where
  "pg_RecordV1TriggerMessageFollowOn V identity action connector observedAt T =
     (if \<not> V1TriggerMessageAction action \<or> (V1TriggerMessageConnectorScoped action \<and> connector < 1) \<or> time_IsZero observedAt
      then (Inl ErrV1InvalidEvidence, T)
      else pg_tx (\<lambda>T.
        (let windows = sort_key (\<lambda>r. (fw_AcceptedAt (wd_Window r), window_key r))
               (filter (window_matches identity action connector (pg_ts observedAt)) (tt_windows T))
         in tx_bind (settle_windows V (observe_row (pg_ts observedAt))
              (\<lambda>w. follow_on_input ''CHARGER'' ''HAL'' ''CHARGER_OPERATION_FOLLOW_ON'' ''TriggerMessage follow-on observed'' observedAt
                 (v1TriggerMessageFollowOnData w action connector)) 0 windows T)
              (\<lambda>_ T'. (Inr (length windows), T')))) T)"

text \<open>\<open>locked\<close> is the set of rows that \<^verbatim>\<open>SKIP LOCKED\<close> passes over.\<close>

definition pg_CloseV1TriggerMessageFollowOnWindows ::
  "trace_env \<Rightarrow> (string \<Rightarrow> bool) \<Rightarrow> gotime \<Rightarrow> int \<Rightarrow> trace_tables \<Rightarrow> nat res \<times> trace_tables" where
  "pg_CloseV1TriggerMessageFollowOnWindows V locked now limit T =
     (if limit < 1 then (Inl ErrV1InvalidEvidence, T)
      else pg_tx (\<lambda>T.
        (let windows = take (nat limit) (sort_key (\<lambda>r. (fw_DeadlineAt (wd_Window r), window_key r))
               (filter (\<lambda>r. window_open r \<and> fw_DeadlineAt (wd_Window r) \<le> pg_ts now \<and> \<not> locked (window_key r)) (tt_windows T)))
         in tx_bind (settle_windows V (close_row (pg_ts now))
              (\<lambda>w. follow_on_input ''HAL'' ''CMS'' ''CHARGER_OPERATION_FOLLOW_ON_CLOSED'' ''TriggerMessage follow-on window closed'' now
                 (v1TriggerMessageFollowOnClosureData V w)) 0 windows T)
              (\<lambda>_ T'. (Inr (length windows), T')))) T)"

definition pg_AppendV1AcceptedTriggerMessageTrace ::
  "trace_env \<Rightarrow> string \<Rightarrow> V1TraceEventInput \<Rightarrow> string \<Rightarrow> trace_tables \<Rightarrow> unit res \<times> trace_tables" where
  "pg_AppendV1AcceptedTriggerMessageTrace V traceID input requestedMessage T =
     (if \<not> validV1AcceptedTriggerMessageTrace (tv_canon V) input requestedMessage then (Inl ErrV1InvalidEvidence, T)
      else pg_tx (\<lambda>T.
        (case sql_row tr_TraceID traceID (tt_traces T) of
           None \<Rightarrow> (Inl ErrV1TransactionNotFound, T)
         | Some trace \<Rightarrow>
             if sql_row window_key traceID (tt_windows T) \<noteq> None then (Inr (), T)
             else tx_bind (appendV1TraceEventTx V 0 traceID input T)
               (\<lambda>_ T1.
                  (let acceptedAt = pg_ts (ti_OccurredAt input) in
                   if \<not> tr_OCPPConnectorNumber trace \<ge> 0 then (Inl check_violation, T1)
                   else (Inr (), T1\<lparr>tt_windows := tt_windows T1 @ [\<lparr>wd_Window = \<lparr>fw_TraceID = traceID, fw_RequestedMessage = requestedMessage,
                     fw_ChargerOCPPIdentity = tr_ChargerOCPPIdentity trace, fw_OCPPConnectorNumber = tr_OCPPConnectorNumber trace,
                     fw_AcceptedAt = acceptedAt, fw_DeadlineAt = acceptedAt + 60 * duration_second, fw_State = ''OPEN''\<rparr>,
                     wd_ObservedAt = None, wd_ClosedAt = None\<rparr>]\<rparr>))))) T)"

subsection \<open>Delivery and retention\<close>

definition claimed_delivery :: "trace_content outbox_row \<Rightarrow> V1TraceDelivery" where
  "claimed_delivery r = \<lparr>td_SchemaVersion = 1,
     td_Trace = \<lparr>tr_TraceID = '''', tr_CPOID = '''', tr_CMSStartIntentID = '''', tr_CMSChargingSessionID = '''', tr_CMSCommandID = '''',
       tr_CMSChargerOperationID = '''', tr_HALChargerOperationID = '''', tr_HALTransactionID = '''', tr_OCPPTransactionID = None,
       tr_ChargerOCPPIdentity = '''', tr_OCPPConnectorNumber = 0, tr_CreatedAt = 0\<rparr>,
     td_Event = \<lparr>te_EventID = ob_id r, te_TraceID = '''', te_Source = '''', te_Target = '''', te_Category = '''', te_Protocol = '''',
       te_Phase = '''', te_Summary = '''', te_OccurredAt = 0, te_RecordedAt = 0, te_StateBefore = '''', te_StateAfter = '''',
       te_CorrelationID = '''', te_Data = GNil\<rparr>,
     td_ContentSHA256 = tc_ContentSHA256 (ob_content r), td_Payload = Some (tc_Payload (ob_content r)),
     td_ClaimToken = ob_claim_token r, td_Retries = ob_retries r\<rparr>"

definition pg_ClaimV1TraceDeliveries ::
  "(string \<Rightarrow> bool) \<Rightarrow> gotime \<Rightarrow> int \<Rightarrow> string option \<Rightarrow> trace_tables \<Rightarrow> V1TraceDelivery list res \<times> trace_tables" where
  "pg_ClaimV1TraceDeliveries locked now limit gen T =
     (if limit < 1 then (Inr [], T)
      else (case NewSecureUUIDString gen of
          Inl err \<Rightarrow> (Inl err, T)
        | Inr claimToken \<Rightarrow>
            (let (rows, t) = outbox_claim locked now limit claimToken (tt_outbox T)
             in if list_ex (\<lambda>r. any_at (tc_Payload (ob_content r)) ''event_id'' \<noteq> GString (ob_id r)) rows
                then (Inl (ErrOther ''persisted trace delivery payload event identity mismatch''), T)
                else (Inr (map claimed_delivery rows), T\<lparr>tt_outbox := t\<rparr>))))"

definition v1TraceDeliveryStatus :: "bool \<Rightarrow> bool \<Rightarrow> string" where
  "v1TraceDeliveryStatus success terminal =
     (let status = ''RETRY''; status = (if success then ''DELIVERED'' else status)
      in if terminal then ''RECONCILIATION_REQUIRED'' else status)"

definition pg_MarkV1TraceDelivery ::
  "gotime \<Rightarrow> string \<Rightarrow> string \<Rightarrow> int \<Rightarrow> bool \<Rightarrow> bool \<Rightarrow> string \<Rightarrow> gotime \<Rightarrow> trace_tables \<Rightarrow> unit res \<times> trace_tables" where
  "pg_MarkV1TraceDelivery now eventID claimToken statusCode success terminal detail next' T =
     (let status = v1TraceDeliveryStatus success terminal;
          count = sql_count (outbox_held eventID claimToken) (tt_outbox T);
          T' = T\<lparr>tt_outbox := outbox_mark now eventID claimToken statusCode status detail next' (tt_outbox T)\<rparr>
      in (if count = 0 then Inl (ErrOther ''trace delivery claim lost'') else Inr (), T'))"

definition delivery_pending :: "trace_content outbox_row \<Rightarrow> bool" where
  "delivery_pending r \<longleftrightarrow> ob_status r \<in> {''PENDING'', ''RETRY'', ''DELIVERING''}"

definition trace_undelivered :: "trace_tables \<Rightarrow> string \<Rightarrow> bool" where
  "trace_undelivered T traceID \<longleftrightarrow>
     list_ex (\<lambda>e. te_TraceID e = traceID \<and> list_ex (\<lambda>r. ob_id r = te_EventID e \<and> delivery_pending r) (tt_outbox T)) (tt_events T)"

text \<open>The cascades of the foreign keys: events and windows go with their trace, deliveries with their event.\<close>

definition delete_traces :: "string set \<Rightarrow> trace_tables \<Rightarrow> trace_tables" where
  "delete_traces ids T =
     (let gone = te_EventID ` set (filter (\<lambda>e. te_TraceID e \<in> ids) (tt_events T))
      in \<lparr>tt_traces = filter (\<lambda>t. tr_TraceID t \<notin> ids) (tt_traces T), tt_events = filter (\<lambda>e. te_TraceID e \<notin> ids) (tt_events T),
          tt_outbox = filter (\<lambda>r. ob_id r \<notin> gone) (tt_outbox T), tt_windows = filter (\<lambda>w. window_key w \<notin> ids) (tt_windows T)\<rparr>)"

definition pg_DeleteV1TracesBefore :: "gotime \<Rightarrow> int \<Rightarrow> trace_tables \<Rightarrow> nat res \<times> trace_tables" where
  "pg_DeleteV1TracesBefore before limit T =
     (if limit < 1 \<or> limit > 1000 then (Inl ErrV1InvalidEvidence, T)
      else (let ids = map tr_TraceID (take (nat limit) (sort_key tr_CreatedAt
              (filter (\<lambda>t. tr_CreatedAt t < pg_ts before \<and> \<not> trace_undelivered T (tr_TraceID t)) (tt_traces T))))
            in (Inr (length ids), delete_traces (set ids) T)))"

subsection \<open>The invariant\<close>

text \<open>
  Every event has exactly one delivery, under its own identifier and with that identifier in its
  payload; events and windows belong to a stored trace.
\<close>

definition trace_core :: "trace_tables \<Rightarrow> bool" where
  "trace_core T \<longleftrightarrow> distinct (map tr_TraceID (tt_traces T)) \<and> distinct (map te_EventID (tt_events T))
     \<and> map ob_id (tt_outbox T) = map te_EventID (tt_events T) \<and> te_TraceID ` set (tt_events T) \<subseteq> tr_TraceID ` set (tt_traces T)
     \<and> (\<forall>r\<in>set (tt_outbox T). any_at (tc_Payload (ob_content r)) ''event_id'' = GString (ob_id r))
     \<and> (\<forall>e\<in>set (tt_events T). pg_ts (te_OccurredAt e) = te_OccurredAt e)
     \<and> distinct (map window_key (tt_windows T)) \<and> window_key ` set (tt_windows T) \<subseteq> tr_TraceID ` set (tt_traces T)"

text \<open>A window and the verdicts on it: none while it is open, then exactly one.\<close>

definition window_wf :: "window_row \<Rightarrow> bool" where
  "window_wf w \<longleftrightarrow> fw_DeadlineAt (wd_Window w) = fw_AcceptedAt (wd_Window w) + 60 * duration_second
     \<and> V1TriggerMessageAction (fw_RequestedMessage (wd_Window w))
     \<and> (fw_State (wd_Window w), wd_ObservedAt w = None, wd_ClosedAt w = None)
         \<in> {(''OPEN'', True, True), (''OBSERVED'', False, True), (''CLOSED'', True, False)}
     \<and> (\<forall>t. wd_ObservedAt w = Some t \<longrightarrow> fw_AcceptedAt (wd_Window w) < t \<and> t \<le> fw_DeadlineAt (wd_Window w))
     \<and> (\<forall>t. wd_ClosedAt w = Some t \<longrightarrow> fw_DeadlineAt (wd_Window w) \<le> t)"

definition verdicts :: "string \<Rightarrow> string \<Rightarrow> trace_tables \<Rightarrow> nat" where
  "verdicts category traceID T = length (filter (\<lambda>e. te_TraceID e = traceID \<and> te_Category e = category) (tt_events T))"

definition window_state :: "trace_tables \<Rightarrow> string \<Rightarrow> string option" where
  "window_state T traceID = map_option (\<lambda>w. fw_State (wd_Window w)) (sql_row window_key traceID (tt_windows T))"

abbreviation observed_category :: string where "observed_category \<equiv> ''CHARGER_OPERATION_FOLLOW_ON''"
abbreviation closed_category :: string where "closed_category \<equiv> ''CHARGER_OPERATION_FOLLOW_ON_CLOSED''"

definition verdicts_match :: "trace_tables \<Rightarrow> string \<Rightarrow> bool" where
  "verdicts_match T traceID \<longleftrightarrow>
     verdicts observed_category traceID T = (if window_state T traceID = Some ''OBSERVED'' then 1 else 0)
     \<and> verdicts closed_category traceID T = (if window_state T traceID = Some ''CLOSED'' then 1 else 0)"

definition trace_inv :: "trace_tables \<Rightarrow> bool" where
  "trace_inv T \<longleftrightarrow> trace_core T \<and> list_all window_wf (tt_windows T) \<and> (\<forall>i. verdicts_match T i)"

lemma payload_event_id:
  "any_at (tc_Payload (ob_content (new_delivery_row V trace event digest))) ''event_id'' = GString (te_EventID event)"
  by (simp add: new_delivery_row_def trace_envelope_def json_map_def any_at_def Let_def)

lemma append_Inr:
  assumes "appendV1TraceEventTx V k i input T = (Inr u, T')"
  obtains e r where "T' = T\<lparr>tt_events := tt_events T @ [e], tt_outbox := tt_outbox T @ [r]\<rparr>" and "ob_id r = te_EventID e"
    and "te_TraceID e = i" and "te_Category e = ti_Category input" and "te_EventID e \<notin> te_EventID ` set (tt_events T)"
    and "i \<in> tr_TraceID ` set (tt_traces T)" and "any_at (tc_Payload (ob_content r)) ''event_id'' = GString (ob_id r)"
    and "ob_status r = ''PENDING''" and "pg_ts (te_OccurredAt e) = te_OccurredAt e"
proof -
  obtain eid trace digest where t: "sql_row tr_TraceID i (tt_traces T) = Some trace" and fresh: "eid \<notin> te_EventID ` set (tt_events T)"
    and T': "T' = T\<lparr>tt_events := tt_events T @ [(new_event V eid i input)\<lparr>te_OccurredAt := pg_ts (te_OccurredAt (new_event V eid i input)),
        te_RecordedAt := tv_now V\<rparr>], tt_outbox := tt_outbox T @ [new_delivery_row V trace (new_event V eid i input) digest]\<rparr>"
    using assms by (auto simp: appendV1TraceEventTx_def Let_def split: sum.splits option.splits if_splits)
  have "te_EventID (new_event V eid i input) = eid" by (simp add: new_event_def)
  with fresh sql_row_SomeD [OF t] payload_event_id [of V trace "new_event V eid i input" digest] show thesis
    by (intro that [OF T']) (auto simp: new_event_def new_delivery_row_def)
qed

lemma append_core:
  assumes "appendV1TraceEventTx V k i input T = (Inr u, T')" and "trace_core T"
  shows "trace_core T'"
  by (rule append_Inr [OF assms(1)]) (use assms(2) in \<open>auto simp: trace_core_def\<close>)

lemma append_verdicts:
  assumes "appendV1TraceEventTx V k i input T = (Inr u, T')"
  shows "verdicts c j T' = verdicts c j T + (if j = i \<and> ti_Category input = c then 1 else 0)"
    and "tt_windows T' = tt_windows T" and "tt_traces T' = tt_traces T"
  by (rule append_Inr [OF assms]; auto simp: verdicts_def)+

lemma append_inv:
  assumes "appendV1TraceEventTx V k i input T = (Inr u, T')" and "trace_inv T"
    and "ti_Category input \<notin> {observed_category, closed_category}"
  shows "trace_inv T'"
  using assms append_core [OF assms(1)] append_verdicts [OF assms(1)]
  by (auto simp: trace_inv_def verdicts_match_def window_state_def)

subsection \<open>Settling\<close>

lemma settle_window_inv:
  assumes run: "settle_window V move input k w T = (Inr u, T')" and inv: "trace_inv T" and w: "w \<in> set (tt_windows T)" "window_open w"
    and move: "\<And>r. window_key (move r) = window_key r" "window_wf (move w)"
    and s: "fw_State (wd_Window (move w)) = s" "ti_Category (input (wd_Window w)) = c"
      "(s, c) \<in> {(''OBSERVED'', observed_category), (''CLOSED'', closed_category)}"
  shows "trace_inv T'" and "tt_windows T' = sql_update (\<lambda>r. window_key r = window_key w) move (tt_windows T)"
proof -
  let ?k = "window_key w" and ?hit = "\<lambda>r. window_key r = window_key w \<and> window_open r"
  let ?T1 = "T\<lparr>tt_windows := sql_update ?hit move (tt_windows T)\<rparr>"
  have dist: "distinct (map window_key (tt_windows T))" using inv by (simp add: trace_inv_def trace_core_def)
  have only: "r = w" if "r \<in> set (tt_windows T)" "window_key r = ?k" for r
    using dist that w(1) by (metis (mono_tags) eq_key_imp_eq_value distinct_map inj_onD)
  have upd: "sql_update ?hit move (tt_windows T) = sql_update (\<lambda>r. window_key r = ?k) move (tt_windows T)"
    unfolding sql_update_def using only w(2) by (intro map_cong) auto
  have app: "appendV1TraceEventTx V k ?k (input (wd_Window w)) ?T1 = (Inr u, T')"
    using run by (auto simp: settle_window_def Let_def split: if_splits)
  have keys: "map window_key (tt_windows ?T1) = map window_key (tt_windows T)" by (simp add: sql_update_keys move(1))
  then have ks: "window_key ` set (tt_windows ?T1) = window_key ` set (tt_windows T)" by (metis list.set_map)
  have core: "trace_core ?T1" using inv keys ks by (simp add: trace_inv_def trace_core_def)
  show win: "tt_windows T' = sql_update (\<lambda>r. window_key r = ?k) move (tt_windows T)"
    using append_verdicts(2) [OF app] upd by simp
  have row: "sql_row window_key ?k (tt_windows T) = Some w" using sql_row_unique [OF dist w(1)] .
  have state: "window_state T' j = (if j = ?k then Some s else window_state T j)" for j
    unfolding window_state_def win using row s(1) move(1)
    by (subst sql_row_update) (auto simp: map_option_case dest: sql_row_SomeD split: option.split)
  have wf: "list_all window_wf (tt_windows T')" using inv move(2) only
    by (auto simp: win trace_inv_def list_all_iff set_sql_update)
  have "window_state T ?k = Some ''OPEN''" using row w(2) by (simp add: window_state_def window_open_def)
  moreover have "verdicts d j ?T1 = verdicts d j T" for d j by (simp add: verdicts_def)
  ultimately have "verdicts_match T' j" for j
    using inv state [of j] append_verdicts(1) [OF app] s(2,3)
    by (auto simp: trace_inv_def verdicts_match_def)
  with append_core [OF app core] wf show "trace_inv T'" by (simp add: trace_inv_def)
qed

lemma settle_windows_inv:
  assumes "settle_windows V move input k ws T = (Inr u, T')" and "trace_inv T" and "distinct (map window_key ws)"
    and "\<And>w. w \<in> set ws \<Longrightarrow> w \<in> set (tt_windows T) \<and> window_open w \<and> window_wf (move w) \<and> fw_State (wd_Window (move w)) = s
      \<and> ti_Category (input (wd_Window w)) = c"
    and "\<And>r. window_key (move r) = window_key r" and "(s, c) \<in> {(''OBSERVED'', observed_category), (''CLOSED'', closed_category)}"
  shows "trace_inv T'"
  using assms(1-4)
proof (induction ws arbitrary: k T)
  case (Cons w ws)
  obtain v T1 where w: "settle_window V move input k w T = (Inr v, T1)" and ws: "settle_windows V move input (Suc k) ws T1 = (Inr u, T')"
    using Cons.prems(1) by (auto simp: tx_bind_Inr)
  have w': "w \<in> set (tt_windows T)" "window_open w" "window_wf (move w)" "fw_State (wd_Window (move w)) = s"
    "ti_Category (input (wd_Window w)) = c" using Cons.prems(4) by simp_all
  note step = settle_window_inv [OF w Cons.prems(2) w'(1,2) assms(5) w'(3-5) assms(6)]
  have "w' \<in> set (tt_windows T1)" if "w' \<in> set ws" for w'
    using that Cons.prems(3,4) by (auto simp: step(2) set_sql_update image_iff intro!: bexI [of _ w'])
  with Cons.prems(3,4) step(1) ws show ?case by (intro Cons.IH [of "Suc k" T1]) auto
qed simp

lemma trace_tx:
  assumes "\<And>x T'. body T = (Inr x, T') \<Longrightarrow> P T'" and "P T"
  shows "P (snd (pg_tx body T))"
  using assms by (cases "body T"; cases "fst (body T)") (auto simp: pg_tx_def)

lemma record_inv: "trace_inv T \<Longrightarrow> trace_inv (snd (pg_RecordV1TriggerMessageFollowOn V identity action connector observedAt T))"
  unfolding pg_RecordV1TriggerMessageFollowOn_def
proof (split if_split, intro conjI impI, simp, rule trace_tx)
  fix x T'
  let ?f = "filter (window_matches identity action connector (pg_ts observedAt)) (tt_windows T)"
  let ?ws = "sort_key (\<lambda>r. (fw_AcceptedAt (wd_Window r), window_key r)) ?f"
  assume inv: "trace_inv T" and "(let windows = ?ws in tx_bind (settle_windows V (observe_row (pg_ts observedAt))
      (\<lambda>w. follow_on_input ''CHARGER'' ''HAL'' observed_category ''TriggerMessage follow-on observed'' observedAt
        (v1TriggerMessageFollowOnData w action connector)) 0 windows T) (\<lambda>_ T'. (Inr (length windows), T'))) = (Inr x, T')"
  then obtain u where run: "settle_windows V (observe_row (pg_ts observedAt))
      (\<lambda>w. follow_on_input ''CHARGER'' ''HAL'' observed_category ''TriggerMessage follow-on observed'' observedAt
        (v1TriggerMessageFollowOnData w action connector)) 0 ?ws T = (Inr u, T')"
    by (auto simp: tx_bind_Inr Let_def)
  have "distinct (map window_key ?f)" using inv by (simp add: trace_inv_def trace_core_def distinct_map_filter)
  then have "distinct (map window_key ?ws)" by (simp add: distinct_map distinct_sort)
  moreover have "window_wf (observe_row (pg_ts observedAt) w)" if "w \<in> set ?f" for w
    using inv that by (auto simp: trace_inv_def list_all_iff window_wf_def observe_row_def window_matches_def window_open_def)
  ultimately show "trace_inv T'"
    by (intro settle_windows_inv [OF run inv, where s = "''OBSERVED''" and c = observed_category])
      (auto simp: window_matches_def follow_on_input_def observe_row_def window_key_def)
qed

lemma close_inv: "trace_inv T \<Longrightarrow> trace_inv (snd (pg_CloseV1TriggerMessageFollowOnWindows V locked now limit T))"
  unfolding pg_CloseV1TriggerMessageFollowOnWindows_def
proof (split if_split, intro conjI impI, simp, rule trace_tx)
  fix x T'
  let ?f = "filter (\<lambda>r. window_open r \<and> fw_DeadlineAt (wd_Window r) \<le> pg_ts now \<and> \<not> locked (window_key r)) (tt_windows T)"
  let ?ws = "take (nat limit) (sort_key (\<lambda>r. (fw_DeadlineAt (wd_Window r), window_key r)) ?f)"
  assume inv: "trace_inv T" and "(let windows = ?ws in tx_bind (settle_windows V (close_row (pg_ts now))
      (\<lambda>w. follow_on_input ''HAL'' ''CMS'' closed_category ''TriggerMessage follow-on window closed'' now
        (v1TriggerMessageFollowOnClosureData V w)) 0 windows T) (\<lambda>_ T'. (Inr (length windows), T'))) = (Inr x, T')"
  then obtain u where run: "settle_windows V (close_row (pg_ts now))
      (\<lambda>w. follow_on_input ''HAL'' ''CMS'' closed_category ''TriggerMessage follow-on window closed'' now
        (v1TriggerMessageFollowOnClosureData V w)) 0 ?ws T = (Inr u, T')"
    by (auto simp: tx_bind_Inr Let_def)
  have "distinct (map window_key ?f)" using inv by (simp add: trace_inv_def trace_core_def distinct_map_filter)
  then have "distinct (map window_key (sort_key (\<lambda>r. (fw_DeadlineAt (wd_Window r), window_key r)) ?f))"
    by (simp add: distinct_map distinct_sort)
  then have dist: "distinct (map window_key ?ws)" by (simp add: take_map [symmetric])
  have sub: "w \<in> set ?f" if "w \<in> set ?ws" for w using that by (auto dest: in_set_takeD)
  have wf: "window_wf (close_row (pg_ts now) w)" if "w \<in> set ?f" for w
    using inv that by (auto simp: trace_inv_def list_all_iff window_wf_def close_row_def window_open_def)
  show "trace_inv T'"
  proof (rule settle_windows_inv [OF run inv dist, where s = "''CLOSED''" and c = closed_category])
    fix w assume "w \<in> set ?ws"
    then have w: "w \<in> set ?f" by (rule sub)
    then show "w \<in> set (tt_windows T) \<and> window_open w \<and> window_wf (close_row (pg_ts now) w)
        \<and> fw_State (wd_Window (close_row (pg_ts now) w)) = ''CLOSED''
        \<and> ti_Category (follow_on_input ''HAL'' ''CMS'' closed_category ''TriggerMessage follow-on window closed'' now
            (v1TriggerMessageFollowOnClosureData V (wd_Window w))) = closed_category"
      using wf [OF w] by (simp add: follow_on_input_def close_row_def)
  qed (simp_all add: close_row_def window_key_def)
qed

lemma accepted_inv: "trace_inv T \<Longrightarrow> trace_inv (snd (pg_AppendV1AcceptedTriggerMessageTrace V i input m T))"
  unfolding pg_AppendV1AcceptedTriggerMessageTrace_def
proof (split if_split, intro conjI impI, simp, rule trace_tx)
  fix u T'
  assume inv: "trace_inv T" and valid: "\<not> \<not> validV1AcceptedTriggerMessageTrace (tv_canon V) input m"
    and run: "(case sql_row tr_TraceID i (tt_traces T) of
           None \<Rightarrow> (Inl ErrV1TransactionNotFound, T)
         | Some trace \<Rightarrow>
             if sql_row window_key i (tt_windows T) \<noteq> None then (Inr (), T)
             else tx_bind (appendV1TraceEventTx V 0 i input T)
               (\<lambda>_ T1.
                  (let acceptedAt = pg_ts (ti_OccurredAt input) in
                   if \<not> tr_OCPPConnectorNumber trace \<ge> 0 then (Inl check_violation, T1)
                   else (Inr (), T1\<lparr>tt_windows := tt_windows T1 @ [\<lparr>wd_Window = \<lparr>fw_TraceID = i, fw_RequestedMessage = m,
                     fw_ChargerOCPPIdentity = tr_ChargerOCPPIdentity trace, fw_OCPPConnectorNumber = tr_OCPPConnectorNumber trace,
                     fw_AcceptedAt = acceptedAt, fw_DeadlineAt = acceptedAt + 60 * duration_second, fw_State = ''OPEN''\<rparr>,
                     wd_ObservedAt = None, wd_ClosedAt = None\<rparr>]\<rparr>)))) = (Inr u, T')"
  show "trace_inv T'"
  proof (cases "T' = T")
    case False
    then obtain T1 v w where app: "appendV1TraceEventTx V 0 i input T = (Inr v, T1)" and none: "sql_row window_key i (tt_windows T) = None"
      and T': "T' = T1\<lparr>tt_windows := tt_windows T1 @ [w]\<rparr>"
      and w: "window_key w = i" "fw_State (wd_Window w) = ''OPEN''" "wd_ObservedAt w = None" "wd_ClosedAt w = None"
        "fw_DeadlineAt (wd_Window w) = fw_AcceptedAt (wd_Window w) + 60 * duration_second" "fw_RequestedMessage (wd_Window w) = m"
      using run by (auto simp: tx_bind_Inr Let_def window_key_def split: option.splits if_splits)
    have T1: "trace_inv T1"
      by (rule append_inv [OF app inv]) (use valid in \<open>auto simp: validV1AcceptedTriggerMessageTrace_def\<close>)
    have i: "i \<in> tr_TraceID ` set (tt_traces T1)" by (rule append_Inr [OF app]) auto
    have none1: "sql_row window_key i (tt_windows T1) = None" using none append_verdicts(2) [OF app] by simp
    have "window_state T' j = (if j = i then Some ''OPEN'' else window_state T1 j)" for j
      using none1 w(1,2) by (auto simp: window_state_def T' sql_row_append split: option.split)
    moreover have "verdicts c j T' = verdicts c j T1" for c j by (simp add: verdicts_def T')
    moreover have "window_state T1 i = None" using none1 by (simp add: window_state_def)
    moreover have "window_wf w" using w valid by (simp add: window_wf_def validV1AcceptedTriggerMessageTrace_def)
    ultimately show ?thesis using T1 i none1 w(1)
      by (auto simp: trace_inv_def trace_core_def T' verdicts_match_def sql_row_None image_iff)
  qed (simp add: inv)
qed

lemma sql_row_filter: "sql_row key k (filter (\<lambda>r. P (key r)) t) = (if P k then sql_row key k t else None)"
  by (induction t) (auto simp: sql_row_def)

lemma subset_kept: "f ` A \<subseteq> g ` B \<Longrightarrow> f ` {x \<in> A. f x \<notin> ids} \<subseteq> g ` {x \<in> B. g x \<notin> ids}"
  by auto

lemma delete_inv: "trace_inv T \<Longrightarrow> trace_inv (delete_traces ids T)"
proof -
  assume inv: "trace_inv T"
  let ?T' = "delete_traces ids T" and ?gone = "te_EventID ` {e \<in> set (tt_events T). te_TraceID e \<in> ids}"
  have dist: "distinct (map te_EventID (tt_events T))" and zip: "map ob_id (tt_outbox T) = map te_EventID (tt_events T)"
    using inv by (auto simp: trace_inv_def trace_core_def)
  have key: "te_EventID e \<in> ?gone \<longleftrightarrow> te_TraceID e \<in> ids" if "e \<in> set (tt_events T)" for e
    using dist that by (auto simp: distinct_map inj_on_def)
  have "map ob_id (filter (\<lambda>r. ob_id r \<notin> ?gone) (tt_outbox T)) = filter (\<lambda>x. x \<notin> ?gone) (map te_EventID (tt_events T))"
    by (simp add: filter_map comp_def zip [symmetric])
  also have "\<dots> = map te_EventID (filter (\<lambda>e. te_TraceID e \<notin> ids) (tt_events T))"
    unfolding filter_map comp_def using key by (intro arg_cong [where f = "map te_EventID"] filter_cong) auto
  finally have z: "map ob_id (tt_outbox ?T') = map te_EventID (tt_events ?T')" by (simp add: delete_traces_def Let_def)
  have row: "sql_row window_key j (tt_windows ?T') = (if j \<in> ids then None else sql_row window_key j (tt_windows T))" for j
    using sql_row_filter [of window_key j "\<lambda>k. k \<notin> ids" "tt_windows T"] by (simp add: delete_traces_def Let_def)
  have "verdicts c j ?T' = (if j \<in> ids then 0 else verdicts c j T)" for c j
    by (auto simp: verdicts_def delete_traces_def Let_def filter_empty_conv intro!: arg_cong [where f = length] filter_cong)
  then have "verdicts_match ?T' j" for j
    using inv row [of j] by (auto simp: trace_inv_def verdicts_match_def window_state_def)
  then show ?thesis using inv z subset_kept [of te_TraceID "set (tt_events T)" tr_TraceID "set (tt_traces T)" ids]
      subset_kept [of window_key "set (tt_windows T)" tr_TraceID "set (tt_traces T)" ids]
    by (simp add: trace_inv_def trace_core_def list_all_iff distinct_map_filter delete_traces_def Let_def)
qed

subsection \<open>Claims and reports\<close>

lemma delivery_status: "v1TraceDeliveryStatus = delivery_state"
  by (simp add: v1TraceDeliveryStatus_def delivery_state_def fun_eq_iff)

lemma trace_core_outbox:
  assumes "map ob_id t = map ob_id (tt_outbox T)" and "map ob_content t = map ob_content (tt_outbox T)" and "trace_core T"
  shows "trace_core (T\<lparr>tt_outbox := t\<rparr>)"
proof -
  let ?ok = "\<lambda>(i, c). any_at (tc_Payload c) ''event_id'' = GString i"
  have pair: "map (\<lambda>r. (ob_id r, ob_content r)) xs = zip (map ob_id xs) (map ob_content xs)" for xs :: "trace_content outbox_row list"
    by (induction xs) auto
  have "list_all ?ok (map (\<lambda>r. (ob_id r, ob_content r)) t) = list_all ?ok (map (\<lambda>r. (ob_id r, ob_content r)) (tt_outbox T))"
    unfolding pair assms(1,2) ..
  then show ?thesis using assms(1,3) by (simp add: trace_core_def list_all_iff)
qed

lemma claim_trace_cases:
  "snd (pg_ClaimV1TraceDeliveries locked now limit gen T) = T
   \<or> (\<exists>token. snd (pg_ClaimV1TraceDeliveries locked now limit gen T)
        = T\<lparr>tt_outbox := snd (outbox_claim locked now limit token (tt_outbox T))\<rparr>)"
  by (auto simp: pg_ClaimV1TraceDeliveries_def Let_def split_beta split: sum.split)

lemma trace_outbox_contents:
  "map ob_content (snd (outbox_claim locked now limit token t)) = map ob_content t"
  "map ob_content (outbox_mark now i token code state detail next' t) = map ob_content t"
  by (simp_all add: outbox_claim_def outbox_mark_def Let_def sql_update_keys outbox_lease_row_def)

lemma delivery_core:
  assumes "trace_core T"
  shows "trace_core (snd (pg_ClaimV1TraceDeliveries locked now limit gen T))"
    and "trace_core (snd (pg_MarkV1TraceDelivery now i token code success terminal detail next' T))"
  using claim_trace_cases [of locked now limit gen T] assms
  by (auto simp: pg_MarkV1TraceDelivery_def Let_def trace_outbox_contents intro!: trace_core_outbox)

text \<open>The claim of a worker never fails on what was persisted: every payload carries its identifier.\<close>

lemma claim_payloads:
  assumes "trace_core T"
  shows "\<not> list_ex (\<lambda>r. any_at (tc_Payload (ob_content r)) ''event_id'' \<noteq> GString (ob_id r)) (fst (outbox_claim locked now limit token (tt_outbox T)))"
  using assms by (auto simp: list_ex_iff outbox_claim_def Let_def set_sql_update trace_core_def outbox_lease_row_def)

interpretation trace_deliveries: outbox tt_outbox pg_ClaimV1TraceDeliveries pg_MarkV1TraceDelivery "te_EventID \<circ> td_Event" trace_core
proof
  fix locked now limit gen T ds T'
  assume "pg_ClaimV1TraceDeliveries locked now limit gen T = (Inr ds, T')"
  then show "ds = [] \<and> T' = T \<or> (\<exists>token. gen = Some token
        \<and> map (te_EventID \<circ> td_Event) ds = map ob_id (fst (outbox_claim locked now limit token (tt_outbox T)))
        \<and> tt_outbox T' = snd (outbox_claim locked now limit token (tt_outbox T)))"
    by (auto simp: pg_ClaimV1TraceDeliveries_def Let_def split_beta claimed_delivery_def split: if_splits sum.splits)
next
  show "distinct (map ob_id (tt_outbox T))" if "trace_core T" for T using that by (simp add: trace_core_def)
qed (auto simp: pg_ClaimV1TraceDeliveries_def pg_MarkV1TraceDelivery_def Let_def split_beta delivery_status trace_outbox_contents
    split: if_splits sum.splits intro!: trace_core_outbox)

subsection \<open>Histories\<close>

inductive trace_step :: "trace_tables \<Rightarrow> trace_tables \<Rightarrow> bool" where
  ensure: "trace_step T (snd (pg_EnsureV1Trace V trace T))"
| bind: "trace_step T (snd (pg_BindV1TraceTransaction i t T))"
| for_transaction: "trace_step T (snd (pg_EnsureV1TraceForTransaction V t T))"
| append: "ti_Category input \<notin> {observed_category, closed_category} \<Longrightarrow> trace_step T (snd (pg_AppendV1TraceEvent V i input T))"
| accepted: "trace_step T (snd (pg_AppendV1AcceptedTriggerMessageTrace V i input m T))"
| observe: "trace_step T (snd (pg_RecordV1TriggerMessageFollowOn V identity action connector at' T))"
| close: "trace_step T (snd (pg_CloseV1TriggerMessageFollowOnWindows V locked now limit T))"
| claim: "trace_step T (snd (pg_ClaimV1TraceDeliveries locked now limit gen T))"
| mark: "trace_step T (snd (pg_MarkV1TraceDelivery now i token code success terminal detail next' T))"
| delete: "trace_step T (snd (pg_DeleteV1TracesBefore before limit T))"

lemma trace_inv_frame:
  assumes "trace_inv T" and "trace_core T'" and "tt_events T' = tt_events T" and "tt_windows T' = tt_windows T"
  shows "trace_inv T'"
  using assms by (simp add: trace_inv_def verdicts_match_def verdicts_def window_state_def)

lemma ensure_inv:
  assumes "trace_inv T"
  shows "trace_inv (snd (pg_EnsureV1Trace V trace T))"
proof -
  have "trace_inv (T\<lparr>tt_traces := tt_traces T @ [row]\<rparr>)" if "sql_row tr_TraceID (tr_TraceID row) (tt_traces T) = None" for row
    by (rule trace_inv_frame [OF assms]) (use assms that in \<open>auto simp: trace_inv_def trace_core_def sql_row_None\<close>)
  then show ?thesis using assms by (auto simp: pg_EnsureV1Trace_def Let_def)
qed

lemma bind_inv:
  assumes "trace_inv T"
  shows "trace_inv (snd (pg_BindV1TraceTransaction i t T))"
proof -
  have "map tr_TraceID (sql_update (bindable i (tx_HALTransactionID t))
      (\<lambda>x. x\<lparr>tr_HALTransactionID := tx_HALTransactionID t, tr_OCPPTransactionID := Some (tx_OCPPTransactionID t)\<rparr>) (tt_traces T))
      = map tr_TraceID (tt_traces T)" (is "map _ ?t = _") by (rule sql_update_keys) simp
  moreover from this have "tr_TraceID ` set ?t = tr_TraceID ` set (tt_traces T)" by (metis list.set_map)
  ultimately have "trace_core (T\<lparr>tt_traces := ?t\<rparr>)" using assms by (simp add: trace_inv_def trace_core_def)
  then have "trace_inv (T\<lparr>tt_traces := ?t\<rparr>)" by (rule trace_inv_frame [OF assms]) simp_all
  then show ?thesis using assms by (simp add: pg_BindV1TraceTransaction_def Let_def)
qed

lemma for_transaction_inv:
  assumes "trace_inv T"
  shows "trace_inv (snd (pg_EnsureV1TraceForTransaction V t T))"
proof -
  have b: "trace_inv T'" if "pg_BindV1TraceTransaction i t T = (r, T')" for i r T' using bind_inv [OF assms, of i t] that by simp
  show ?thesis
    unfolding pg_EnsureV1TraceForTransaction_def using assms ensure_inv [OF assms]
    by (simp split: sum.split option.split prod.split) (blast dest: b)
qed

lemma trace_step_inv: "trace_step T T' \<Longrightarrow> trace_inv T \<Longrightarrow> trace_inv T'"
proof (induction rule: trace_step.induct)
  case (append input T V i)
  show ?case unfolding pg_AppendV1TraceEvent_def
    by (rule trace_tx [where P = trace_inv, OF append_inv]) (use append in simp_all)
next
  case (claim T locked now limit gen)
  have "trace_core T" using claim by (simp add: trace_inv_def)
  then show ?case using claim_trace_cases [of locked now limit gen T]
    by (intro trace_inv_frame [OF claim] delivery_core) auto
next
  case (mark T now i token code success terminal detail next')
  have "trace_core T" using mark by (simp add: trace_inv_def)
  then show ?case by (intro trace_inv_frame [OF mark] delivery_core) (simp_all add: pg_MarkV1TraceDelivery_def Let_def)
next
  case (delete T before limit)
  then show ?case by (simp add: pg_DeleteV1TracesBefore_def Let_def delete_inv)
qed (simp_all add: ensure_inv bind_inv for_transaction_inv accepted_inv record_inv close_inv)

lemma trace_inv_empty: "trace_inv empty_traces"
  by (simp add: trace_inv_def trace_core_def empty_traces_def verdicts_match_def verdicts_def window_state_def)

lemma reachable_trace_inv: "trace_step\<^sup>*\<^sup>* empty_traces T \<Longrightarrow> trace_inv T"
  by (induction rule: rtranclp_induct) (auto intro: trace_inv_empty trace_step_inv)

subsection \<open>Properties\<close>

text \<open>
  C39: an accepted TriggerMessage gets exactly one verdict. In every reachable trace store a window
  is open without a verdict, or observed by one event after its acceptance and not after its
  deadline, or closed by one event at or after its deadline; it never has both, and a trace without
  a window has none.
\<close>

theorem follow_on_single_verdict:
  assumes "trace_step\<^sup>*\<^sup>* empty_traces T"
  shows "(verdicts observed_category i T, verdicts closed_category i T) =
      (case sql_row window_key i (tt_windows T) of
         None \<Rightarrow> (0, 0)
       | Some w \<Rightarrow> if fw_State (wd_Window w) = ''OBSERVED'' then (1, 0) else if fw_State (wd_Window w) = ''CLOSED'' then (0, 1) else (0, 0))
    \<and> list_all window_wf (tt_windows T)"
  using reachable_trace_inv [OF assms] by (auto simp: trace_inv_def verdicts_match_def window_state_def split: option.splits)

lemma length_removed:
  assumes "distinct (map key xs)" and "distinct ds" and "set ds \<subseteq> set xs"
  shows "length (filter (\<lambda>x. key x \<notin> key ` set ds) xs) + length ds = length xs"
proof -
  have "{x \<in> set xs. key x \<in> key ` set ds} = set ds" using assms(1,3) by (auto simp: distinct_map dest: inj_onD)
  moreover have "distinct (filter (\<lambda>x. key x \<in> key ` set ds) xs)" using assms(1) by (simp add: distinct_map)
  ultimately have "length (filter (\<lambda>x. key x \<in> key ` set ds) xs) = length ds"
    using distinct_card [OF assms(2)] distinct_card [of "filter (\<lambda>x. key x \<in> key ` set ds) xs"] by simp
  then show ?thesis using sum_length_filter_compl [of "\<lambda>x. key x \<in> key ` set ds" xs] by simp
qed


definition trace_history :: "string \<Rightarrow> trace_tables \<Rightarrow> V1TraceEvent list" where
  "trace_history traceID T = rev (sort_key event_key (filter (\<lambda>e. te_TraceID e = traceID) (tt_events T)))"

lemma strict_suffix:
  assumes "sorted_wrt (\<lambda>x y. key y < (key x :: 'b::linorder)) xs" and "0 < n" and "n \<le> length xs"
  shows "filter (\<lambda>x. key x < key (xs ! (n - 1))) xs = drop n xs"
proof -
  have "\<not> key (xs ! m) < key (xs ! (n - 1))" if "m < n" for m
    using assms that by (cases "m = n - 1") (auto simp: sorted_wrt_iff_nth_less intro!: less_imp_le simp: not_less)
  then have "filter (\<lambda>x. key x < key (xs ! (n - 1))) (take n xs) = []"
    by (auto simp: filter_empty_conv in_set_conv_nth)
  moreover have "filter (\<lambda>x. key x < key (xs ! (n - 1))) (drop n xs) = drop n xs"
    using assms by (auto simp: filter_id_conv in_set_conv_nth sorted_wrt_iff_nth_less)
  ultimately show ?thesis by (metis append_Nil append_take_drop_id filter_append)
qed

lemma history_strict:
  assumes "trace_core T"
  shows "sorted_wrt (\<lambda>x y. event_key y < event_key x) (trace_history traceID T)"
proof -
  let ?xs = "filter (\<lambda>e. te_TraceID e = traceID) (tt_events T)"
  have "distinct (map event_key ?xs)" using assms
    by (auto simp: trace_core_def distinct_map event_key_def inj_on_def distinct_filter)
  then have "distinct (map event_key (sort_key event_key ?xs))" by (simp add: distinct_map distinct_sort)
  then have "sorted_wrt (<) (map event_key (sort_key event_key ?xs))" by (simp add: strict_sorted_iff)
  then show ?thesis by (simp add: trace_history_def sorted_wrt_rev sorted_wrt_map)
qed

text \<open>
  Paging a trace reads every event once. The position of an event is its time and identifier;
  asking for the page after the \<open>n\<close>-th event of a trace, newest first, returns the next \<open>limit\<close>
  events of that order, also when several events share an instant.
\<close>

theorem trace_paging:
  assumes "trace_step\<^sup>*\<^sup>* empty_traces T" and "0 < n" and "n \<le> length (trace_history traceID T)" and "1 \<le> limit" and "limit \<le> 200"
    and "cursor = trace_history traceID T ! (n - 1)" and "\<not> time_IsZero (te_OccurredAt cursor)"
  shows "pg_ListV1TraceEvents traceID (te_OccurredAt cursor) (te_EventID cursor) limit T = take (nat limit) (drop n (trace_history traceID T))"
proof -
  have core: "trace_core T" using reachable_trace_inv [OF assms(1)] by (simp add: trace_inv_def)
  have "cursor \<in> set (trace_history traceID T)" using assms(2,3,6) by simp
  then have "pg_ts (te_OccurredAt cursor) = te_OccurredAt cursor" using core by (auto simp: trace_history_def trace_core_def)
  then have "pg_ListV1TraceEvents traceID (te_OccurredAt cursor) (te_EventID cursor) limit T
      = take (nat limit) (filter (\<lambda>e. event_key e < event_key cursor) (trace_history traceID T))"
    using assms(4,5,7) unfolding pg_ListV1TraceEvents_def trace_history_def rev_filter [symmetric] filter_sort
    by (simp add: event_key_def [of cursor] conj_commute)
  then show ?thesis using strict_suffix [OF history_strict [OF core] assms(2,3)] assms(6) by simp
qed

subsection \<open>A concrete history\<close>

text \<open>A TriggerMessage for a heartbeat is accepted at 10 s and the heartbeat arrives at 20 s.\<close>

definition sample_trace_env :: "char \<Rightarrow> trace_env" where
  "sample_trace_env c = \<lparr>tv_now = 0, tv_clock = 0, tv_uuid = (\<lambda>_. Some [c]), tv_digest = (\<lambda>_. Inr ''sha''), tv_rnd = id,
     tv_canon = Some, tv_format = (\<lambda>_. ''time'')\<rparr>"

definition sample_root :: V1Trace where
  "sample_root = \<lparr>tr_TraceID = ''t'', tr_CPOID = ''cpo'', tr_CMSStartIntentID = '''', tr_CMSChargingSessionID = '''', tr_CMSCommandID = '''',
     tr_CMSChargerOperationID = ''op'', tr_HALChargerOperationID = ''hop'', tr_HALTransactionID = '''', tr_OCPPTransactionID = None,
     tr_ChargerOCPPIdentity = ''CP1'', tr_OCPPConnectorNumber = 0, tr_CreatedAt = 1000\<rparr>"

definition sample_accept :: V1TraceEventInput where
  "sample_accept = \<lparr>ti_Source = ''CHARGER'', ti_Target = ''HAL'', ti_Category = ''CHARGER_OPERATION_OCPP'', ti_Protocol = ''OCPP1.6'',
     ti_Phase = ''CHARGING'', ti_Summary = ''accepted'', ti_OccurredAt = 10 * duration_second, ti_StateBefore = '''', ti_StateAfter = '''',
     ti_CorrelationID = '''', ti_Data = GMap [(''unique_id'', GString ''u''), (''action'', GString ''TriggerMessage''),
       (''message_type'', GString ''CALLRESULT''), (''payload'', GMap [(''status'', GString ''Accepted'')])]\<rparr>"

definition sample_traces :: trace_tables where
  "sample_traces = snd (pg_AppendV1AcceptedTriggerMessageTrace (sample_trace_env CHR ''a'') ''t'' sample_accept ''Heartbeat''
     (snd (pg_EnsureV1Trace (sample_trace_env CHR ''r'') sample_root empty_traces)))"

definition sample_observed :: trace_tables where
  "sample_observed = snd (pg_RecordV1TriggerMessageFollowOn (sample_trace_env CHR ''b'') ''CP1'' ''Heartbeat'' 0 (20 * duration_second) sample_traces)"

lemma sample_traces_reachable: "trace_step\<^sup>*\<^sup>* empty_traces sample_traces" "trace_step\<^sup>*\<^sup>* empty_traces sample_observed"
proof -
  have "trace_step empty_traces (snd (pg_EnsureV1Trace (sample_trace_env CHR ''r'') sample_root empty_traces))" (is "trace_step _ ?T")
    by (rule trace_step.ensure)
  moreover have "trace_step ?T sample_traces" unfolding sample_traces_def by (rule trace_step.accepted)
  moreover have "trace_step sample_traces sample_observed" unfolding sample_observed_def by (rule trace_step.observe)
  ultimately show "trace_step\<^sup>*\<^sup>* empty_traces sample_traces" "trace_step\<^sup>*\<^sup>* empty_traces sample_observed"
    by (auto intro: converse_rtranclp_into_rtranclp)
qed

theorem follow_on_single_verdict_witness:
  "verdicts observed_category ''t'' sample_observed = 1 \<and> verdicts closed_category ''t'' sample_observed = 0"
proof -
  have "map_option (\<lambda>w. fw_State (wd_Window w)) (sql_row window_key ''t'' (tt_windows sample_observed)) = Some ''OBSERVED''" by code_simp
  with follow_on_single_verdict [OF sample_traces_reachable(2), of "''t''"] show ?thesis by (auto split: option.splits)
qed


theorem trace_paging_witness:
  "map te_EventID (trace_history ''t'' sample_observed) = [''b'', ''a'']
   \<and> map te_EventID (pg_ListV1TraceEvents ''t'' (te_OccurredAt (trace_history ''t'' sample_observed ! 0)) ''b'' 5 sample_observed) = [''a'']"
proof -
  have h: "map te_EventID (trace_history ''t'' sample_observed) = [''b'', ''a'']" by code_simp
  then obtain x y where xy: "trace_history ''t'' sample_observed = [x, y]" "te_EventID x = ''b''" "te_EventID y = ''a''" by auto
  have "\<not> time_IsZero (te_OccurredAt (hd (trace_history ''t'' sample_observed)))" by code_simp
  then have z: "\<not> time_IsZero (te_OccurredAt x)" unfolding xy(1) list.sel .
  have "pg_ListV1TraceEvents ''t'' (te_OccurredAt x) (te_EventID x) 5 sample_observed = take (nat 5) (drop 1 (trace_history ''t'' sample_observed))"
    by (rule trace_paging [OF sample_traces_reachable(2) _ _ _ _ _ z]) (simp_all add: xy(1))
  then show ?thesis using h xy by simp
qed

end
