(* ===== verification/HAL_Operations.thy ===== *)
theory HAL_Operations
  imports HAL_System Trace_Store
begin

text \<open>
  Charger operations on the HAL (\<^verbatim>\<open>ocpp16hal/v1.go\<close>): the dispatch of one operation while its charger
  is connected, and the recovery pass of \<^verbatim>\<open>v1_charger_operation_recovery_worker.go\<close>, which advances one
  connected charger at a time. The state is the HAL with the trace tables beside it.
\<close>

record operation_env =
  oe_claim :: gotime
  oe_mark :: gotime
  oe_send :: "string \<Rightarrow> ocpp_request \<Rightarrow> ocpp_confirmation ocpp_outcome"
  oe_key :: nat
  oe_trace :: trace_env

definition operation_root :: "V1ChargerOperation \<Rightarrow> V1Trace" where
  "operation_root op = \<lparr>tr_TraceID = op_TraceID op, tr_CPOID = op_CPOID op, tr_CMSStartIntentID = '''', tr_CMSChargingSessionID = '''',
     tr_CMSCommandID = '''', tr_CMSChargerOperationID = op_CMSOperationID op, tr_HALChargerOperationID = op_HALOperationID op,
     tr_HALTransactionID = '''', tr_OCPPTransactionID = None, tr_ChargerOCPPIdentity = op_ChargerOCPPIdentity op,
     tr_OCPPConnectorNumber = op_OCPPConnectorNumber op, tr_CreatedAt = 0\<rparr>"

definition operation_connected :: "HAL \<Rightarrow> V1ChargerOperation \<Rightarrow> bool" where
  "operation_connected h op \<longleftrightarrow>
     current_connection (canonicalIdentity (hal_wiredIdentity h) (op_ChargerOCPPIdentity op)) (hal_connections h) \<noteq> None"

text \<open>
  The observer takes part in the physical call only: \<open>observed_call\<close> is its state after the call for
  the operation that the claim returned.
\<close>

definition operation_call ::
  "operation_env \<Rightarrow> HAL \<Rightarrow> V1ChargerOperation \<Rightarrow> (string \<times> GetConfigurationConfirmation option) res" where
  "operation_call N h op = fst (DispatchChargerOperation (hal_wiredIdentity h) (oe_send N) (oe_key N) op (hal_operationObserver h))"

definition observed_call :: "operation_env \<Rightarrow> HAL \<Rightarrow> string \<Rightarrow> operationObserver" where
  "observed_call N h cmsOperationID =
     (case fst (pg_ClaimV1ChargerOperationDelivery (oe_claim N) cmsOperationID (hal_db h)) of
        Inr (op, True) \<Rightarrow> snd (snd (DispatchChargerOperation (hal_wiredIdentity h) (oe_send N) (oe_key N) op (hal_operationObserver h)))
      | _ \<Rightarrow> hal_operationObserver h)"

definition DispatchV1ChargerOperation ::
  "operation_env \<Rightarrow> string \<Rightarrow> HAL \<times> trace_tables
   \<Rightarrow> (V1ChargerOperation res \<times> GetConfigurationConfirmation option \<times> bool) \<times> HAL \<times> trace_tables" where
  "DispatchV1ChargerOperation N cmsOperationID s =
     (let (h, T) = s in
      case pg_GetV1ChargerOperation cmsOperationID (hal_db h) of
        Inl err \<Rightarrow> ((Inl err, None, False), h, T)
      | Inr op \<Rightarrow>
          if \<not> operation_connected h op then ((Inr op, None, False), h, T)
          else (let T1 = (if op_TraceID op = '''' then T else snd (pg_EnsureV1Trace (oe_trace N) (operation_root op) T));
                    (r, db) = dispatchClaimedV1ChargerOperation pg_op_store (operation_call N h) (oe_claim N) (oe_mark N) cmsOperationID (hal_db h)
                in (r, h\<lparr>hal_db := db, hal_operationObserver := observed_call N h cmsOperationID\<rparr>, T1)))"

text \<open>
  The recovery pass of one charger, with the operations sent. \<open>ctxErr\<close> is the context's error before
  each operation. The answer of a call does not depend on the observer, whose registrations are left
  out of the pass.
\<close>

definition dispatchPendingV1ChargerOperationsForCharger ::
  "operation_env \<Rightarrow> (V1ChargerOperation \<Rightarrow> v1_error option) \<Rightarrow> string \<Rightarrow> HAL \<Rightarrow> string list \<times> v1_error option \<times> PostgresStore" where
  "dispatchPendingV1ChargerOperationsForCharger N ctxErr chargerOCPPIdentity h =
     recoverDispatchableV1ChargerOperations pg_op_store (operation_call N h) ctxErr (operation_connected h) (oe_claim N) (oe_mark N)
       (canonicalIdentity (hal_wiredIdentity h) chargerOCPPIdentity) (hal_db h)"

definition DispatchPendingV1ChargerOperations ::
  "operation_env \<Rightarrow> (V1ChargerOperation \<Rightarrow> v1_error option) \<Rightarrow> 64 word \<Rightarrow> HAL
   \<Rightarrow> (string list \<times> v1_error option \<times> PostgresStore) \<times> 64 word" where
  "DispatchPendingV1ChargerOperations N ctxErr cursor h =
     (case nextV1ChargerOperationRecoveryIdentity (hal_connections h) cursor of
        (None, cursor') \<Rightarrow> (([], None, hal_db h), cursor')
      | (Some chargerOCPPIdentity, cursor') \<Rightarrow> (dispatchPendingV1ChargerOperationsForCharger N ctxErr chargerOCPPIdentity h, cursor'))"

end
