(* ===== verification/HTTP_API.thy ===== *)
theory HTTP_API
  imports HTTP_Views HAL_Operations
begin

text \<open>
  The authenticated HTTP boundary between the CMS and the HAL (\<^verbatim>\<open>httpapi/server.go\<close>,
  \<^verbatim>\<open>httpapi/v1.go\<close>, \<^verbatim>\<open>httpapi/v1_operations.go\<close>). A handler takes a request and the server's state to a
  response, the calls made to chargers, and the state afterwards.

  Parameters of a request (\<open>http_env\<close>): the clock, read once; \<^verbatim>\<open>uuid.Parse\<close>; SHA-256 with its hexadecimal
  text; \<^verbatim>\<open>encoding/json\<close> both ways, where decoding includes the rejection of unknown fields and
  trailing data (\<^verbatim>\<open>decodeJSON\<close>); the environments of the store calls, of the delivery and of the trace
  calls, numbered in order; the OCPP library. Paths are clean, as \<^verbatim>\<open>http.ServeMux\<close> hands them over.
\<close>

subsection \<open>Requests\<close>

record v1MappingConnector =
  mqc_CMSConnectorID :: string
  mqc_OCPPConnectorNumber :: int

record v1MappingRequest =
  mq_CPOID :: string
  mq_CMSChargerID :: string
  mq_ChargerOCPPIdentity :: string
  mq_ExpectedSerial :: string
  mq_Enabled :: bool
  mq_Connectors :: "v1MappingConnector list"

record v1StartRequest =
  sq_TraceID :: string
  sq_CMSCommandID :: string
  sq_CMSStartIntentID :: string
  sq_CPOID :: string
  sq_CustomerID :: string
  sq_CMSChargerID :: string
  sq_CMSConnectorID :: string
  sq_ChargerOCPPIdentity :: string
  sq_OCPPConnectorNumber :: int
  sq_IDTag :: string
  sq_CredentialExpiresAt :: gotime
  sq_CommandExpiresAt :: gotime
  sq_LimitType :: string
  sq_EnergyLimitWh :: int
  sq_EnergyLimitSource :: string
  sq_MaxDurationSeconds :: int
  sq_DurationLimitSource :: string

record v1StopRequest =
  pq_TraceID :: string
  pq_CMSCommandID :: string
  pq_CMSChargingSessionID :: string
  pq_CPOID :: string
  pq_CustomerID :: string
  pq_CMSChargerID :: string
  pq_CMSConnectorID :: string
  pq_ChargerOCPPIdentity :: string
  pq_OCPPConnectorNumber :: int
  pq_HALTransactionID :: string
  pq_OCPPTransactionID :: int
  pq_RequestedStopInitiator :: string
  pq_RequestedStopReason :: string
  pq_CommandExpiresAt :: gotime

record v1ConfigurationReadRequest =
  cq_CPOID :: string
  cq_CMSChargerID :: string
  cq_ChargerOCPPIdentity :: string
  cq_Keys :: "string list"

record http_request =
  hr_Method :: string
  hr_Path :: string
  hr_Header :: "string \<Rightarrow> string"
  hr_Query :: "string \<Rightarrow> string"
  hr_Body :: string

record http_env =
  hn_now :: gotime
  hn_uuidParse :: "string \<Rightarrow> string option"
  hn_sha256 :: "string \<Rightarrow> string"
  hn_mapping :: "string \<Rightarrow> v1MappingRequest option"
  hn_start :: "string \<Rightarrow> v1StartRequest option"
  hn_stop :: "string \<Rightarrow> v1StopRequest option"
  hn_operation :: "string \<Rightarrow> v1ChargerOperationRequest option"
  hn_configuration :: "string \<Rightarrow> v1ConfigurationReadRequest option"
  hn_mappingJSON :: "v1MappingRequest \<Rightarrow> string"
  hn_startJSON :: "v1StartRequest \<Rightarrow> string"
  hn_stopJSON :: "v1StopRequest \<Rightarrow> string"
  hn_operationJSON :: "v1ChargerOperationRequest \<Rightarrow> string"
  hn_store :: pg_env
  hn_faults :: lifecycle_faults
  hn_delivery :: delivery_env
  hn_dispatch :: operation_env
  hn_trace :: "nat \<Rightarrow> trace_env"
  hn_updated :: "V1ConnectorMapping \<Rightarrow> gotime"
  hn_send :: "string \<Rightarrow> central_call \<Rightarrow> string ocpp_outcome"
  hn_getConfiguration :: "string \<Rightarrow> central_call \<Rightarrow> GetConfigurationConfirmation ocpp_outcome"

subsection \<open>Server and responses\<close>

record Server =
  sv_V1CMSBearerToken :: string
  sv_APIDocsEnabled :: bool
  sv_hal :: HAL
  sv_traces :: trace_tables

record configuration_item =
  ci_key :: string
  ci_readonly :: bool
  ci_value :: "string option"
  ci_redacted :: bool

datatype http_body =
    NoBody
  | ErrorBody string
  | MappingBody v1MappingResponse string string
  | StartBody v1CommandResponse string bool
  | StopBody v1CommandResponse "v1StopWorkflowResponse option" string bool
  | CommandBody v1CommandResponse
  | TransactionBody v1TransactionResponse "v1StopWorkflowResponse option"
  | ChargerRuntimeBody v1ChargerRuntimeResponse bool
  | ConnectorRuntimeBody v1ConnectorRuntimeResponse bool
  | RequeueBody string
  | OperationBody v1ChargerOperationResponse
  | OperationAcceptedBody v1ChargerOperationResponse string bool "(configuration_item list \<times> string list) option"
  | ConfigurationBody "configuration_item list" "string list"
  | OpenAPIBody
  | DocsBody

record http_response =
  rs_Status :: int
  rs_Body :: http_body

datatype http_call = SentStart string | SentStop string | SentOperation string | SentGetConfiguration string

type_synonym http_result = "(http_response \<times> http_call list) \<times> Server"

definition writeJSON :: "int \<Rightarrow> http_body \<Rightarrow> http_response" where
  "writeJSON statusCode body = \<lparr>rs_Status = statusCode, rs_Body = body\<rparr>"

abbreviation answer :: "int \<Rightarrow> http_body \<Rightarrow> Server \<Rightarrow> http_result" where
  "answer statusCode body S \<equiv> ((writeJSON statusCode body, []), S)"

definition with_db :: "PostgresStore \<Rightarrow> Server \<Rightarrow> Server" where
  "with_db db S = S\<lparr>sv_hal := (sv_hal S)\<lparr>hal_db := db\<rparr>\<rparr>"

abbreviation server_db :: "Server \<Rightarrow> PostgresStore" where
  "server_db S \<equiv> hal_db (sv_hal S)"

definition writeV1StoreError :: "v1_error \<Rightarrow> http_response" where
  "writeV1StoreError err =
     (if err \<in> {ErrV1MappingNotFound, ErrV1CommandNotFound, ErrV1OperationNotFound, ErrV1TransactionNotFound, ErrV1FactNotFound}
      then writeJSON 404 (ErrorBody ''v1 resource not found'')
      else if err \<in> {ErrV1MappingConflict, ErrV1IdempotencyConflict, ErrV1FactNotReconciliable}
      then writeJSON 409 (ErrorBody ''v1 idempotency or mapping conflict'')
      else if err = ErrV1CredentialRejected
      then writeJSON 422 (ErrorBody ''v1 request is not permitted by current mapping state'')
      else if err = ErrV1InvalidEvidence then writeJSON 422 (ErrorBody ''invalid v1 transaction evidence'')
      else writeJSON 500 (ErrorBody ''v1 persistence operation failed''))"

abbreviation store_error :: "v1_error \<Rightarrow> Server \<Rightarrow> http_result" where
  "store_error err S \<equiv> ((writeV1StoreError err, []), S)"

definition v1MutationHeaders :: "http_env \<Rightarrow> http_request \<Rightarrow> (string \<times> string) option" where
  "v1MutationHeaders N r =
     (let idempotency = TrimSpace (hr_Header r ''Idempotency-Key''); correlation = TrimSpace (hr_Header r ''X-Correlation-ID'') in
      if \<not> validUUID (hn_uuidParse N) idempotency \<or> \<not> validUUID (hn_uuidParse N) correlation then None
      else Some (correlation, idempotency))"

abbreviation bad_headers :: http_body where
  "bad_headers \<equiv> ErrorBody ''Idempotency-Key and X-Correlation-ID must be canonical UUIDs''"

definition digestJSON :: "http_env \<Rightarrow> string \<Rightarrow> string \<Rightarrow> string" where
  "digestJSON N data idempotency = hn_sha256 N (data @ [CHR 0x0A] @ idempotency)"

definition appendV1Trace :: "trace_env \<Rightarrow> string \<Rightarrow> V1TraceEventInput \<Rightarrow> trace_tables \<Rightarrow> trace_tables" where
  "appendV1Trace V traceID input T = snd (pg_AppendV1TraceEvent V traceID input T)"

definition sanitizedTraceData :: "gomap \<Rightarrow> gomap" where
  "sanitizedTraceData input = List.map_filter (\<lambda>key. map_option (Pair key) (map_of input key))
     [''action'', ''result'', ''status'', ''transaction_id'', ''connector_id'', ''meter_wh'', ''reason'', ''error_class'']"

definition http_trace :: "string \<Rightarrow> string \<Rightarrow> string \<Rightarrow> string \<Rightarrow> string \<Rightarrow> string \<Rightarrow> gotime \<Rightarrow> string \<Rightarrow> goany \<Rightarrow> V1TraceEventInput" where
  "http_trace source target category protocol phase summary occurredAt correlation data = \<lparr>
     ti_Source = source, ti_Target = target, ti_Category = category, ti_Protocol = protocol, ti_Phase = phase, ti_Summary = summary,
     ti_OccurredAt = occurredAt, ti_StateBefore = '''', ti_StateAfter = '''', ti_CorrelationID = correlation, ti_Data = data\<rparr>"

subsection \<open>Mappings\<close>

definition validIdentityEvidence :: "string \<Rightarrow> bool" where
  "validIdentityEvidence value =
     (let value = TrimSpace value in
      length value \<le> 100 \<and> list_all (\<lambda>r. let n = of_char r :: nat in 0x21 \<le> n \<and> n \<le> 0x7e \<and> r \<noteq> CHR ''/'') value)"

text \<open>The loop over the connectors; \<open>seen\<close> are the numbers met so far.\<close>

fun mapping_connectors :: "(string \<Rightarrow> string option) \<Rightarrow> int list \<Rightarrow> v1MappingConnector list \<Rightarrow> V1ConnectorMappingInput list option" where
  "mapping_connectors uuidParse seen [] = Some []"
| "mapping_connectors uuidParse seen (c # cs) =
     (if \<not> validUUID uuidParse (mqc_CMSConnectorID c) \<or> mqc_OCPPConnectorNumber c \<le> 0 \<or> mqc_OCPPConnectorNumber c \<in> set seen then None
      else map_option ((#) \<lparr>cmin_CMSConnectorID = mqc_CMSConnectorID c, cmin_OCPPConnectorNumber = mqc_OCPPConnectorNumber c\<rparr>)
             (mapping_connectors uuidParse (mqc_OCPPConnectorNumber c # seen) cs))"

definition valid_mapping :: "http_env \<Rightarrow> http_request \<Rightarrow> v1MappingRequest \<Rightarrow> bool" where
  "valid_mapping N r req \<longleftrightarrow>
     (let pathID = TrimPrefix ''/v1/mappings/chargers/'' (hr_Path r) in
      pathID \<noteq> '''' \<and> pathID = mq_CMSChargerID req \<and> validUUID (hn_uuidParse N) (mq_CPOID req)
      \<and> validUUID (hn_uuidParse N) (mq_CMSChargerID req) \<and> TrimSpace (mq_ChargerOCPPIdentity req) \<noteq> ''''
      \<and> length (mq_ChargerOCPPIdentity req) \<le> 255 \<and> validIdentityEvidence (mq_ExpectedSerial req) \<and> mq_Connectors req \<noteq> [])"

definition v1Mapping :: "http_env \<Rightarrow> http_request \<Rightarrow> Server \<Rightarrow> http_result" where
  "v1Mapping N r S =
     (if hr_Method r \<noteq> ''PUT'' then answer 405 NoBody S
      else (case v1MutationHeaders N r of
          None \<Rightarrow> answer 400 bad_headers S
        | Some (correlation, idempotency) \<Rightarrow>
            (case hn_mapping N (hr_Body r) of
               None \<Rightarrow> answer 400 (ErrorBody ''invalid JSON request'') S
             | Some req \<Rightarrow>
                 if \<not> valid_mapping N r req then answer 422 (ErrorBody ''invalid immutable charger mapping'') S
                 else (case mapping_connectors (hn_uuidParse N) [] (mq_Connectors req) of
                     None \<Rightarrow> answer 422 (ErrorBody ''invalid connector mapping'') S
                   | Some connectors \<Rightarrow>
                       (case pg_SyncV1Mapping (hn_store N) \<lparr>mapin_CPOID = mq_CPOID req, mapin_CMSChargerID = mq_CMSChargerID req,
                             mapin_ChargerOCPPIdentity = mq_ChargerOCPPIdentity req, mapin_ExpectedSerial = TrimSpace (mq_ExpectedSerial req),
                             mapin_Enabled = mq_Enabled req, mapin_Connectors = connectors, mapin_CorrelationID = correlation,
                             mapin_RequestDigest = digestJSON N (hn_mappingJSON N req) idempotency\<rparr> (server_db S) of
                          (Inl err, db) \<Rightarrow> store_error err (with_db db S)
                        | (Inr (mapping, existed), db) \<Rightarrow>
                            answer (if existed then 200 else 201) (MappingBody (v1MappingView mapping) idempotency correlation)
                              (with_db db S))))))"

subsection \<open>Remote commands\<close>

definition validV1LimitType :: "string \<Rightarrow> bool" where
  "validV1LimitType value \<longleftrightarrow> value \<in> {''AUTO'', ''ENERGY'', ''TIME'', ''MONEY''}"

definition validV1LimitSource :: "string \<Rightarrow> bool" where
  "validV1LimitSource value \<longleftrightarrow> value \<in> {''NONE'', ''CUSTOMER_ENERGY'', ''CUSTOMER_TIME'', ''CUSTOMER_MONEY'', ''WALLET''}"

definition normalizeV1LimitSource :: "string \<Rightarrow> string \<Rightarrow> int \<Rightarrow> bool \<Rightarrow> string \<times> bool" where
  "normalizeV1LimitSource limitType source threshold energy =
     (if threshold = 0 then (''NONE'', source = '''' \<or> source = ''NONE'')
      else (let source = (if source \<noteq> '''' then source
                else if limitType = ''AUTO'' then ''WALLET''
                else if limitType = ''MONEY'' then ''CUSTOMER_MONEY''
                else if limitType = ''ENERGY'' \<and> energy then ''CUSTOMER_ENERGY''
                else if limitType = ''TIME'' \<and> \<not> energy then ''CUSTOMER_TIME''
                else source)
            in if \<not> validV1LimitSource source \<or> source = ''NONE'' then ('''', False)
               else if energy \<and> source = ''CUSTOMER_TIME'' then ('''', False)
               else if \<not> energy \<and> source = ''CUSTOMER_ENERGY'' then ('''', False)
               else (source, True)))"

text \<open>The request as the checks see it: the defaults of older CMS versions filled in.\<close>

definition normalize_start :: "v1StartRequest \<Rightarrow> v1StartRequest \<times> bool" where
  "normalize_start req =
     (let req = (if sq_LimitType req = '''' then req\<lparr>sq_LimitType := ''AUTO''\<rparr> else req);
          (energySource, valid) = normalizeV1LimitSource (sq_LimitType req) (sq_EnergyLimitSource req) (sq_EnergyLimitWh req) True;
          req = req\<lparr>sq_EnergyLimitSource := energySource\<rparr>
      in if \<not> valid then (req, False)
         else (let (durationSource, valid) =
                 normalizeV1LimitSource (sq_LimitType req) (sq_DurationLimitSource req) (sq_MaxDurationSeconds req) False
               in (req\<lparr>sq_DurationLimitSource := durationSource\<rparr>, valid)))"

definition valid_start :: "http_env \<Rightarrow> http_request \<Rightarrow> v1StartRequest \<Rightarrow> bool \<Rightarrow> bool" where
  "valid_start N r req sourcesValid \<longleftrightarrow>
     (let uuid = validUUID (hn_uuidParse N) in
      hr_Header r ''Idempotency-Key'' = sq_CMSCommandID req \<and> (sq_TraceID req = '''' \<or> uuid (sq_TraceID req))
      \<and> uuid (sq_CMSCommandID req) \<and> uuid (sq_CMSStartIntentID req) \<and> uuid (sq_CPOID req) \<and> uuid (sq_CustomerID req)
      \<and> uuid (sq_CMSChargerID req) \<and> uuid (sq_CMSConnectorID req) \<and> sq_OCPPConnectorNumber req > 0
      \<and> HasPrefix (sq_IDTag req) ''appv1_'' \<and> length (sq_IDTag req) \<le> 20 \<and> validV1LimitType (sq_LimitType req)
      \<and> sq_EnergyLimitWh req \<ge> 0 \<and> sq_MaxDurationSeconds req \<ge> 0 \<and> sourcesValid
      \<and> hn_now N < sq_CredentialExpiresAt req \<and> sq_CredentialExpiresAt req < sq_CommandExpiresAt req)"

definition start_input :: "http_env \<Rightarrow> string \<Rightarrow> string \<Rightarrow> v1StartRequest \<Rightarrow> V1StartCommandInput" where
  "start_input N correlation idempotency req = \<lparr>stin_CMSCommandID = sq_CMSCommandID req,
     stin_RequestDigest = digestJSON N (hn_startJSON N req) idempotency, stin_CPOID = sq_CPOID req, stin_CustomerID = sq_CustomerID req,
     stin_CorrelationID = correlation, stin_CMSStartIntentID = sq_CMSStartIntentID req, stin_CMSChargerID = sq_CMSChargerID req,
     stin_CMSConnectorID = sq_CMSConnectorID req, stin_ChargerOCPPIdentity = sq_ChargerOCPPIdentity req,
     stin_OCPPConnectorNumber = sq_OCPPConnectorNumber req, stin_IDTag = sq_IDTag req,
     stin_CredentialExpiresAt = sq_CredentialExpiresAt req, stin_CommandExpiresAt = sq_CommandExpiresAt req,
     stin_LimitType = sq_LimitType req, stin_EnergyLimitWh = (if sq_EnergyLimitWh req > 0 then Some (sq_EnergyLimitWh req) else None),
     stin_EnergyLimitSource = sq_EnergyLimitSource req,
     stin_MaxDurationSeconds = (if sq_MaxDurationSeconds req > 0 then Some (sq_MaxDurationSeconds req) else None),
     stin_DurationLimitSource = sq_DurationLimitSource req\<rparr>"

definition start_root :: "v1StartRequest \<Rightarrow> V1Trace" where
  "start_root req = \<lparr>tr_TraceID = sq_TraceID req, tr_CPOID = sq_CPOID req, tr_CMSStartIntentID = sq_CMSStartIntentID req,
     tr_CMSChargingSessionID = '''', tr_CMSCommandID = sq_CMSCommandID req, tr_CMSChargerOperationID = '''', tr_HALChargerOperationID = '''',
     tr_HALTransactionID = '''', tr_OCPPTransactionID = None, tr_ChargerOCPPIdentity = sq_ChargerOCPPIdentity req,
     tr_OCPPConnectorNumber = sq_OCPPConnectorNumber req, tr_CreatedAt = 0\<rparr>"

text \<open>The trace events of a start: its acceptance, and the call with its confirmation when it was sent.\<close>

definition trace_start_accepted :: "http_env \<Rightarrow> string \<Rightarrow> v1StartRequest \<Rightarrow> trace_tables \<Rightarrow> trace_tables" where
  "trace_start_accepted N correlation req T =
     (if sq_TraceID req = '''' then T
      else (case pg_EnsureV1Trace (hn_trace N 0) (start_root req) T of
          (Inl _, T1) \<Rightarrow> T1
        | (Inr _, T1) \<Rightarrow> appendV1Trace (hn_trace N 1) (sq_TraceID req)
            (http_trace ''CMS'' ''HAL'' ''COMMAND'' ''HTTP'' ''STARTING'' ''CMS start command accepted by HAL'' (hn_now N) correlation GNil) T1))"

definition trace_start_sent :: "http_env \<Rightarrow> string \<Rightarrow> v1StartRequest \<Rightarrow> string res \<Rightarrow> trace_tables \<Rightarrow> trace_tables" where
  "trace_start_sent N correlation req result T =
     (if sq_TraceID req = '''' then T
      else (let event = (\<lambda>source target summary data. http_trace source target ''OCPP_CALL'' ''OCPP1.6'' ''STARTING'' summary (hn_now N)
                  correlation (GMap (sanitizedTraceData data)));
                T1 = appendV1Trace (hn_trace N 2) (sq_TraceID req)
                  (event ''HAL'' ''CHARGER'' ''RemoteStartTransaction'' [(''action'', GString ''RemoteStartTransaction'')]) T
            in (case result of
                  Inl _ \<Rightarrow> T1
                | Inr status \<Rightarrow> appendV1Trace (hn_trace N 3) (sq_TraceID req)
                    (event ''CHARGER'' ''HAL'' (''RemoteStartTransaction confirmation: '' @ status)
                      [(''action'', GString ''RemoteStartTransaction''), (''result'', GString status)]) T1)))"

definition v1Start :: "http_env \<Rightarrow> http_request \<Rightarrow> Server \<Rightarrow> http_result" where
  "v1Start N r S =
     (if hr_Method r \<noteq> ''POST'' then answer 405 NoBody S
      else (case v1MutationHeaders N r of
          None \<Rightarrow> answer 400 bad_headers S
        | Some (correlation, idempotency) \<Rightarrow>
            (case hn_start N (hr_Body r) of
               None \<Rightarrow> answer 400 (ErrorBody ''invalid JSON request'') S
             | Some request \<Rightarrow>
                 (let (req, sourcesValid) = normalize_start request in
                  if \<not> valid_start N r req sourcesValid then answer 422 (ErrorBody ''invalid start command'') S
                  else (case pg_ValidateV1Mapping (sq_CPOID req) (sq_CMSChargerID req) (sq_CMSConnectorID req)
                              (sq_ChargerOCPPIdentity req) (sq_OCPPConnectorNumber req) (server_db S) of
                      Inl err \<Rightarrow> store_error err S
                    | Inr _ \<Rightarrow>
                        (let input = start_input N correlation idempotency req in
                         case pg_CreateV1StartCommand (hn_store N) input (server_db S) of
                           (Inl err, db) \<Rightarrow> store_error err (with_db db S)
                         | (Inr (_, existed), db) \<Rightarrow>
                             (let remoteStart = (\<lambda>chargerID idTag connectorID.
                                    fst (RemoteStartTransaction (hal_wiredIdentity (sv_hal S)) (hn_send N) chargerID idTag connectorID));
                                  T1 = trace_start_accepted N correlation req (sv_traces S);
                                  ((result, sent), db2) = v1Start_deliver (hn_delivery N) remoteStart input db;
                                  T2 = (if sent = [] then T1 else trace_start_sent N correlation req
                                    (remoteStart (sq_ChargerOCPPIdentity req) (sq_IDTag req) (sq_OCPPConnectorNumber req)) T1);
                                  S' = (with_db db2 S)\<lparr>sv_traces := T2\<rparr>
                              in ((case result of
                                     Inl err \<Rightarrow> writeV1StoreError err
                                   | Inr command \<Rightarrow> writeJSON 202 (StartBody (v1CommandView command) correlation existed),
                                   map SentStart sent), S'))))))))"

definition validV1StopInitiator :: "string \<Rightarrow> bool" where
  "validV1StopInitiator value \<longleftrightarrow> value \<in> {''CUSTOMER'', ''CPO''}"

definition valid_stop :: "http_env \<Rightarrow> http_request \<Rightarrow> v1StopRequest \<Rightarrow> bool" where
  "valid_stop N r req \<longleftrightarrow>
     (let uuid = validUUID (hn_uuidParse N) in
      hr_Header r ''Idempotency-Key'' = pq_CMSCommandID req \<and> (pq_TraceID req = '''' \<or> uuid (pq_TraceID req))
      \<and> uuid (pq_CMSCommandID req) \<and> uuid (pq_CMSChargingSessionID req) \<and> uuid (pq_CPOID req) \<and> uuid (pq_CMSChargerID req)
      \<and> uuid (pq_CMSConnectorID req) \<and> uuid (pq_HALTransactionID req) \<and> pq_OCPPTransactionID req > 0 \<and> pq_OCPPConnectorNumber req > 0
      \<and> hn_now N < pq_CommandExpiresAt req \<and> validV1StopInitiator (pq_RequestedStopInitiator req)
      \<and> TrimSpace (pq_RequestedStopReason req) \<noteq> '''')"

definition stop_input :: "http_env \<Rightarrow> string \<Rightarrow> string \<Rightarrow> v1StopRequest \<Rightarrow> V1StopCommandInput" where
  "stop_input N correlation idempotency req = \<lparr>spin_CMSCommandID = pq_CMSCommandID req,
     spin_RequestDigest = digestJSON N (hn_stopJSON N req) idempotency, spin_CPOID = pq_CPOID req, spin_CustomerID = pq_CustomerID req,
     spin_CorrelationID = correlation, spin_CMSChargingSessionID = pq_CMSChargingSessionID req, spin_CMSChargerID = pq_CMSChargerID req,
     spin_CMSConnectorID = pq_CMSConnectorID req, spin_ChargerOCPPIdentity = pq_ChargerOCPPIdentity req,
     spin_OCPPConnectorNumber = pq_OCPPConnectorNumber req, spin_HALTransactionID = pq_HALTransactionID req,
     spin_OCPPTransactionID = pq_OCPPTransactionID req, spin_RequestedStopInitiator = pq_RequestedStopInitiator req,
     spin_RequestedStopReason = pq_RequestedStopReason req, spin_CommandExpiresAt = pq_CommandExpiresAt req\<rparr>"

text \<open>The transaction literal that carries only the two identifiers a trace is bound to.\<close>

definition stop_transaction :: "v1StopRequest \<Rightarrow> V1Transaction" where
  "stop_transaction req = \<lparr>tx_HALTransactionID = pq_HALTransactionID req, tx_CMSStartIntentID = '''', tx_CMSCommandID = '''', tx_CPOID = '''',
     tx_CustomerID = '''', tx_CMSChargerID = '''', tx_CMSConnectorID = '''', tx_ChargerOCPPIdentity = '''', tx_OCPPConnectorNumber = 0,
     tx_IDTag = '''', tx_OCPPTransactionID = pq_OCPPTransactionID req, tx_ActualStartedAt = 0, tx_ObservedStartedAt = 0, tx_MeterStartWh = 0,
     tx_LimitType = '''', tx_LatestMeterWh = None, tx_ConsumedWh = None, tx_MeterObservedAt = None, tx_MeterSequence = 0,
     tx_InitialSoCPercent = None, tx_LatestSoCPercent = None, tx_SoCObservedAt = None, tx_SoCSequence = 0, tx_EnergyLimitWh = None,
     tx_EnergyLimitSource = '''', tx_MaxDurationSeconds = None, tx_DurationLimitSource = '''', tx_StopDeadlineAt = None, tx_StopState = '''',
     tx_RequestedStopInitiator = '''', tx_RequestedStopReason = '''', tx_OCPPStopReason = '''', tx_CompletedAt = None,
     tx_ObservedCompletedAt = None, tx_MeterStopWh = None, tx_RawMeterStopWh = None, tx_MeterStopAdjustmentWh = None,
     tx_MeterStopEvidence = '''', tx_MeterQuantizationAnomalyCount = 0\<rparr>"

definition trace_stop_accepted :: "http_env \<Rightarrow> string \<Rightarrow> v1StopRequest \<Rightarrow> trace_tables \<Rightarrow> trace_tables" where
  "trace_stop_accepted N correlation req T =
     (if pq_TraceID req = '''' then T
      else appendV1Trace (hn_trace N 0) (pq_TraceID req)
        (http_trace ''CMS'' ''HAL'' ''COMMAND'' ''HTTP'' ''STOPPING'' ''CMS stop command accepted by HAL'' (hn_now N) correlation GNil)
        (snd (pg_BindV1TraceTransaction (pq_TraceID req) (stop_transaction req) T)))"

definition v1Stop :: "http_env \<Rightarrow> http_request \<Rightarrow> Server \<Rightarrow> http_result" where
  "v1Stop N r S =
     (if hr_Method r \<noteq> ''POST'' then answer 405 NoBody S
      else (case v1MutationHeaders N r of
          None \<Rightarrow> answer 400 bad_headers S
        | Some (correlation, idempotency) \<Rightarrow>
            (case hn_stop N (hr_Body r) of
               None \<Rightarrow> answer 400 (ErrorBody ''invalid JSON request'') S
             | Some req \<Rightarrow>
                 if \<not> valid_stop N r req then answer 422 (ErrorBody ''invalid stop command'') S
                 else (case pg_CreateV1StopCommand (hn_faults N) (hn_store N) (stop_input N correlation idempotency req) (server_db S) of
                     (Inl err, db) \<Rightarrow> store_error err (with_db db S)
                   | (Inr (command, duplicate), db) \<Rightarrow>
                       (let remoteStop = (\<lambda>chargerID transactionID.
                              fst (RemoteStopTransaction (hal_wiredIdentity (sv_hal S)) (hn_send N) chargerID transactionID));
                            ((workflow, sent), db2) = DispatchV1Stop (hn_delivery N) remoteStop (pq_HALTransactionID req) db;
                            view = (case workflow of Inl _ \<Rightarrow> None | Inr w \<Rightarrow> Some (v1StopWorkflowView w))
                        in ((writeJSON 202 (StopBody (v1CommandView command) view correlation duplicate), map SentStop sent),
                            (with_db db2 S)\<lparr>sv_traces := trace_stop_accepted N correlation req (sv_traces S)\<rparr>))))))"

subsection \<open>Reads\<close>

definition v1Command :: "http_env \<Rightarrow> http_request \<Rightarrow> Server \<Rightarrow> http_result" where
  "v1Command N r S =
     (let id' = hr_Query r ''cms_command_id'' in
      if hr_Method r \<noteq> ''GET'' then answer 405 NoBody S
      else if \<not> validUUID (hn_uuidParse N) id' then answer 422 (ErrorBody ''cms_command_id UUID required'') S
      else (case pg_GetV1Command id' (server_db S) of
          Inl err \<Rightarrow> store_error err S
        | Inr c \<Rightarrow> answer 200 (CommandBody (v1CommandView c)) S))"

definition transaction_answer :: "V1Transaction res \<Rightarrow> Server \<Rightarrow> http_result" where
  "transaction_answer found S =
     (case found of
        Inl err \<Rightarrow> store_error err S
      | Inr t \<Rightarrow> answer 200 (TransactionBody (v1TransactionView t)
          (case pg_GetV1StopWorkflow (tx_HALTransactionID t) (server_db S) of Inl _ \<Rightarrow> None | Inr w \<Rightarrow> Some (v1StopWorkflowView w))) S)"

definition v1Transactions :: "http_env \<Rightarrow> http_request \<Rightarrow> Server \<Rightarrow> http_result" where
  "v1Transactions N r S =
     (let id' = hr_Query r ''cms_start_intent_id'' in
      if hr_Method r \<noteq> ''GET'' then answer 405 NoBody S
      else if \<not> validUUID (hn_uuidParse N) id' then answer 422 (ErrorBody ''cms_start_intent_id UUID required'') S
      else transaction_answer (pg_GetV1TransactionByStartIntent id' (server_db S)) S)"

definition v1Transaction :: "http_env \<Rightarrow> http_request \<Rightarrow> Server \<Rightarrow> http_result" where
  "v1Transaction N r S =
     (let id' = TrimPrefix ''/v1/transactions/'' (hr_Path r) in
      if hr_Method r \<noteq> ''GET'' then answer 405 NoBody S
      else if \<not> validUUID (hn_uuidParse N) id' then answer 422 (ErrorBody ''hal_transaction_id UUID required'') S
      else transaction_answer (pg_GetV1Transaction id' (server_db S)) S)"

definition v1ChargerRuntime :: "http_env \<Rightarrow> http_request \<Rightarrow> Server \<Rightarrow> http_result" where
  "v1ChargerRuntime N r S =
     (let identity = TrimPrefix ''/v1/runtime/chargers/'' (hr_Path r) in
      if hr_Method r \<noteq> ''GET'' then answer 405 NoBody S
      else if identity = '''' then answer 422 (ErrorBody ''charger identity required'') S
      else (case pg_GetV1ChargerRuntime identity (server_db S) of
          Inl err \<Rightarrow> store_error err S
        | Inr state \<Rightarrow> answer 200 (ChargerRuntimeBody (v1ChargerRuntimeView state) (rt_ConnectionState state = ''ONLINE'')) S))"

definition v1ConnectorRuntime :: "http_env \<Rightarrow> http_request \<Rightarrow> Server \<Rightarrow> http_result" where
  "v1ConnectorRuntime N r S =
     (let id' = TrimPrefix ''/v1/runtime/connectors/'' (hr_Path r) in
      if hr_Method r \<noteq> ''GET'' then answer 405 NoBody S
      else if \<not> validUUID (hn_uuidParse N) id' then answer 422 (ErrorBody ''cms_connector_id UUID required'') S
      else (case pg_GetV1ConnectorRuntime (hn_updated N) id' (server_db S) of
          Inl err \<Rightarrow> store_error err S
        | Inr state \<Rightarrow>
            (case pg_GetV1ChargerRuntime (crt_ChargerOCPPIdentity state) (server_db S) of
               Inl err \<Rightarrow> store_error err S
             | Inr charger \<Rightarrow> answer 200 (ConnectorRuntimeBody (v1ConnectorRuntimeView state) (rt_ConnectionState charger = ''ONLINE'')) S)))"

subsection \<open>Facts\<close>

definition HasSuffix :: "string \<Rightarrow> string \<Rightarrow> bool" where
  "HasSuffix s p \<longleftrightarrow> suffix p s"

definition TrimSuffix :: "string \<Rightarrow> string \<Rightarrow> string" where
  "TrimSuffix s p = (if suffix p s then take (length s - length p) s else s)"

definition v1FactRequeue :: "http_env \<Rightarrow> http_request \<Rightarrow> Server \<Rightarrow> http_result" where
  "v1FactRequeue N r S =
     (let factID = TrimSuffix (TrimPrefix ''/v1/facts/'' (hr_Path r)) ''/requeue'';
          correlationID = TrimSpace (hr_Header r ''X-Correlation-ID'')
      in if hr_Method r \<noteq> ''POST'' then answer 405 NoBody S
         else if \<not> HasSuffix (hr_Path r) ''/requeue'' \<or> \<not> validUUID (hn_uuidParse N) factID then answer 422 (ErrorBody ''fact_id UUID required'') S
         else if \<not> validUUID (hn_uuidParse N) correlationID then answer 400 (ErrorBody ''X-Correlation-ID must be a canonical UUID'') S
         else (case pg_RequeueV1Fact (hn_store N) factID correlationID (server_db S) of
             (Inl err, db) \<Rightarrow> store_error err (with_db db S)
           | (Inr _, db) \<Rightarrow> answer 202 (RequeueBody factID) (with_db db S)))"

subsection \<open>Charger operations\<close>

text \<open>An item of a configuration as the API shows it; both endpoints build it the same way.\<close>

definition configuration_view :: "ConfigurationKey \<Rightarrow> configuration_item" where
  "configuration_view item =
     (let redacted = v1SensitiveConfigurationKey (ck_Key item)
      in \<lparr>ci_key = ck_Key item, ci_readonly = ck_Readonly item, ci_value = (if redacted then None else ck_Value item), ci_redacted = redacted\<rparr>)"

definition v1SafeConfigurationView :: "GetConfigurationConfirmation \<Rightarrow> configuration_item list \<times> string list" where
  "v1SafeConfigurationView confirmation = (map configuration_view (gc_ConfigurationKey confirmation), gc_UnknownKey confirmation)"

definition v1ChargerOperation :: "http_env \<Rightarrow> http_request \<Rightarrow> Server \<Rightarrow> http_result" where
  "v1ChargerOperation N r S =
     (let id' = hr_Query r ''cms_operation_id'' in
      if \<not> validUUID (hn_uuidParse N) id' then answer 422 (ErrorBody ''cms_operation_id UUID required'') S
      else (case pg_GetV1ChargerOperation id' (server_db S) of
          Inl err \<Rightarrow> store_error err S
        | Inr op \<Rightarrow> answer 200 (OperationBody (v1ChargerOperationView op)) S))"

definition operation_input :: "http_env \<Rightarrow> string \<Rightarrow> string \<Rightarrow> v1ChargerOperationRequest \<Rightarrow> V1ChargerOperationInput" where
  "operation_input N correlation idempotency request = \<lparr>opin_CMSOperationID = oreq_CMSOperationID request, opin_TraceID = oreq_TraceID request,
     opin_RequestDigest = digestJSON N (hn_operationJSON N request) idempotency, opin_CPOID = oreq_CPOID request,
     opin_CMSChargerID = oreq_CMSChargerID request, opin_CMSConnectorID = oreq_CMSConnectorID request,
     opin_ChargerOCPPIdentity = oreq_ChargerOCPPIdentity request, opin_OCPPConnectorNumber = oreq_OCPPConnectorNumber request,
     opin_Kind = oreq_Kind request, opin_Parameters = oreq_Parameters request, opin_ConfigurationKeys = oreq_ConfigurationKeys request,
     opin_CorrelationID = correlation\<rparr>"

definition v1ChargerOperations :: "http_env \<Rightarrow> http_request \<Rightarrow> Server \<Rightarrow> http_result" where
  "v1ChargerOperations N r S =
     (if hr_Method r = ''GET'' then v1ChargerOperation N r S
      else if hr_Method r \<noteq> ''POST'' then answer 405 NoBody S
      else (case v1MutationHeaders N r of
          None \<Rightarrow> answer 400 bad_headers S
        | Some (correlation, idempotency) \<Rightarrow>
            (case hn_operation N (hr_Body r) of
               None \<Rightarrow> answer 400 (ErrorBody ''invalid JSON request'') S
             | Some request \<Rightarrow>
                 if idempotency \<noteq> oreq_CMSOperationID request \<or> \<not> validV1ChargerOperation (hn_uuidParse N) request
                 then answer 422 (ErrorBody ''invalid charger operation'') S
                 else (case pg_ValidateV1ChargerOperationMapping (oreq_CPOID request) (oreq_CMSChargerID request) (oreq_CMSConnectorID request)
                             (oreq_ChargerOCPPIdentity request) (oreq_OCPPConnectorNumber request) (server_db S) of
                     Inl err \<Rightarrow> store_error err S
                   | Inr _ \<Rightarrow>
                       (case pg_CreateV1ChargerOperation (env_now (hn_store N)) (env_uuid (hn_store N) 0)
                               (operation_input N correlation idempotency request) (server_db S) of
                          (Inl err, db) \<Rightarrow> store_error err (with_db db S)
                        | (Inr (op, duplicate), db) \<Rightarrow>
                            if \<not> shouldDispatchV1ChargerOperation duplicate (Some op)
                            then answer 202 (OperationAcceptedBody (v1ChargerOperationView op) correlation duplicate None) (with_db db S)
                            else (let ((result, configuration, dispatched), h, T) =
                                       DispatchV1ChargerOperation (hn_dispatch N) (oreq_CMSOperationID request) (sv_hal (with_db db S), sv_traces S);
                                      sent = (if dispatched then [SentOperation (oreq_CMSOperationID request)] else []);
                                      S' = S\<lparr>sv_hal := h, sv_traces := T\<rparr>
                                  in ((case result of
                                         Inl err \<Rightarrow> writeV1StoreError err
                                       | Inr op' \<Rightarrow> writeJSON 202 (OperationAcceptedBody (v1ChargerOperationView op') correlation duplicate
                                           (map_option v1SafeConfigurationView configuration)), sent), S')))))))"

definition v1ConfigurationRead :: "http_env \<Rightarrow> http_request \<Rightarrow> Server \<Rightarrow> http_result" where
  "v1ConfigurationRead N r S =
     (if hr_Method r \<noteq> ''POST'' then answer 405 NoBody S
      else (case hn_configuration N (hr_Body r) of
          None \<Rightarrow> answer 400 (ErrorBody ''invalid JSON request'') S
        | Some request \<Rightarrow>
            if \<not> validUUID (hn_uuidParse N) (cq_CPOID request) \<or> \<not> validUUID (hn_uuidParse N) (cq_CMSChargerID request)
               \<or> TrimSpace (cq_ChargerOCPPIdentity request) = '''' \<or> length (cq_Keys request) > 64
               \<or> \<not> list_all validV1ConfigurationKey (cq_Keys request)
            then answer 422 (ErrorBody ''invalid configuration read'') S
            else (case pg_ValidateV1ChargerOperationMapping (cq_CPOID request) (cq_CMSChargerID request) ''''
                        (cq_ChargerOCPPIdentity request) 0 (server_db S) of
                Inl err \<Rightarrow> store_error err S
              | Inr _ \<Rightarrow>
                  (let (result, calls) = GetConfiguration (hal_wiredIdentity (sv_hal S)) (hn_getConfiguration N)
                         (cq_ChargerOCPPIdentity request) (cq_Keys request)
                   in ((case result of
                          Inl _ \<Rightarrow> writeJSON 503 (ErrorBody ''charger configuration unavailable'')
                        | Inr confirmation \<Rightarrow> (case v1SafeConfigurationView confirmation of (items, unknown) \<Rightarrow>
                            writeJSON 200 (ConfigurationBody items unknown)),
                        map (SentGetConfiguration \<circ> fst) calls), S)))))"

subsection \<open>Authentication and routes\<close>

definition requireV1Service :: "(http_env \<Rightarrow> http_request \<Rightarrow> Server \<Rightarrow> http_result) \<Rightarrow> http_env \<Rightarrow> http_request \<Rightarrow> Server \<Rightarrow> http_result" where
  "requireV1Service next' N r S =
     (let header = hr_Header r ''Authorization'' in
      if \<not> HasPrefix header ''Bearer '' \<or> sv_V1CMSBearerToken S = '''' then answer 401 (ErrorBody ''v1 service authentication required'') S
      else (let provided = TrimPrefix ''Bearer '' header in
            if provided \<noteq> sv_V1CMSBearerToken S then answer 401 (ErrorBody ''v1 service authentication required'') S
            else next' N r S))"

text \<open>
  The routes of \<^verbatim>\<open>registerV1Routes\<close>. A pattern that ends in a slash matches the paths below it; such a
  path without its slash is redirected; any other path is not found.
\<close>

definition v1_route :: "string \<Rightarrow> (http_env \<Rightarrow> http_request \<Rightarrow> Server \<Rightarrow> http_result) option" where
  "v1_route path =
     (if HasPrefix path ''/v1/mappings/chargers/'' then Some v1Mapping
      else if path = ''/v1/remote-commands/start'' then Some v1Start
      else if path = ''/v1/remote-commands/stop'' then Some v1Stop
      else if path = ''/v1/remote-commands'' then Some v1Command
      else if path = ''/v1/charger-operations'' then Some v1ChargerOperations
      else if path = ''/v1/charger-configurations/read'' then Some v1ConfigurationRead
      else if path = ''/v1/transactions'' then Some v1Transactions
      else if HasPrefix path ''/v1/transactions/'' then Some v1Transaction
      else if HasPrefix path ''/v1/facts/'' then Some v1FactRequeue
      else if HasPrefix path ''/v1/runtime/chargers/'' then Some v1ChargerRuntime
      else if HasPrefix path ''/v1/runtime/connectors/'' then Some v1ConnectorRuntime
      else None)"

text \<open>The two pages of \<^verbatim>\<open>httpapi/v1_docs.go\<close>; their fixed texts are the bodies \<open>OpenAPIBody\<close> and \<open>DocsBody\<close>.\<close>

definition registerAPIDocs :: "string \<Rightarrow> http_body option" where
  "registerAPIDocs path = (if path = ''/openapi.json'' then Some OpenAPIBody else if path = ''/docs'' then Some DocsBody else None)"

definition Routes :: "http_env \<Rightarrow> http_request \<Rightarrow> Server \<Rightarrow> http_result" where
  "Routes N r S =
     (case v1_route (hr_Path r) of
        Some handler \<Rightarrow> requireV1Service handler N r S
      | None \<Rightarrow>
          (case if sv_APIDocsEnabled S then registerAPIDocs (hr_Path r) else None of
             Some page \<Rightarrow> if hr_Method r \<noteq> ''GET'' then answer 405 NoBody S else answer 200 page S
           | None \<Rightarrow> if hr_Path r \<in> {''/v1/mappings/chargers'', ''/v1/facts'', ''/v1/runtime/chargers'', ''/v1/runtime/connectors''}
                then answer 301 NoBody S else answer 404 NoBody S))"

end
