(* ===== verification/HTTP_System.thy ===== *)
theory HTTP_System
  imports HTTP_API
begin

text \<open>
  What the HTTP boundary guarantees: a request that is refused changes nothing, every request is a
  run of the lifecycle of the store, an accepted start is durable with consistent limits, one
  command reaches a charger at most once over any history of requests, and secrets stay in the
  charger.
\<close>

subsection \<open>Store calls of the handlers\<close>

lemma with_db [simp]: "with_db (server_db S) S = S" "server_db (with_db db S) = db" "sv_traces (with_db db S) = sv_traces S"
  "sv_V1CMSBearerToken (with_db db S) = sv_V1CMSBearerToken S" "with_db db (with_db db0 S) = with_db db S"
  by (simp_all add: with_db_def)

lemma start_command_row_key [simp]: "command_key (start_command_row now i input) = stin_CMSCommandID input"
  by (simp add: start_command_row_def new_start_command_def)

lemma create_start_committed:
  assumes "pg_tx (create_start_tx E input) db = (Inr x, db')"
  obtains (replay) c where "x = Some c" "db' = db" "pg_GetV1Command (stin_CMSCommandID input) db' = Inr c"
      "cmd_RequestDigest c = stin_RequestDigest input"
  | (fresh) i where "x = None" "pg_GetV1Command (stin_CMSCommandID input) db' = Inr (cr_Command (start_command_row (env_now E) i input))"
proof -
  have run: "create_start_tx E input db = (Inr x, db')" using assms by (simp only: pg_tx_Inr)
  show thesis
  proof (cases x)
    case None
    with run obtain i rows db1 where "insert_command (start_command_row (env_now E) i input) db = (Inr rows, db1)" "rows \<noteq> 0"
        "db_commands db' = db_commands db1" unfolding create_start_tx_def
      by (auto simp: tx_bind_Inr insert_credential_def split: sum.splits if_splits prod.splits)
    then have "pg_GetV1Command (stin_CMSCommandID input) db' = Inr (cr_Command (start_command_row (env_now E) i input))"
      by (auto simp: insert_command_def Let_def pg_GetV1Command_def getV1CommandWith_def sql_row_append sql_row_None [symmetric]
          split: if_splits option.splits)
    with None show thesis by (intro that(2))
  next
    case (Some c)
    with run show thesis unfolding create_start_tx_def
      by (intro that(1)) (auto simp: tx_bind_Inr insert_command_def Let_def pg_GetV1Command_def
          split: sum.splits if_splits prod.splits)
  qed
qed

lemma create_start_error: "pg_CreateV1StartCommand E input db = (Inl e, db') \<Longrightarrow> db' = db"
  by (cases "pg_tx (create_start_tx E input) db"; cases "fst (pg_tx (create_start_tx E input) db)")
    (auto simp: pg_CreateV1StartCommand_def elim!: create_start_committed elim: pg_tx_cases split: option.splits)

lemma create_start_found:
  assumes "pg_CreateV1StartCommand E input db = (Inr (c, existed), db')"
  obtains (replay) "existed" "db' = db" "pg_GetV1Command (stin_CMSCommandID input) db' = Inr c" "cmd_RequestDigest c = stin_RequestDigest input"
  | (fresh) i where "\<not> existed" "pg_GetV1Command (stin_CMSCommandID input) db' = Inr c" "c = cr_Command (start_command_row (env_now E) i input)"
  using assms
  by (cases "pg_tx (create_start_tx E input) db"; cases "fst (pg_tx (create_start_tx E input) db)")
    (auto simp: pg_CreateV1StartCommand_def elim!: create_start_committed split: option.splits)

lemma sync_mapping_error: "pg_SyncV1Mapping E input db = (Inl e, db') \<Longrightarrow> db' = db"
proof -
  assume a: "pg_SyncV1Mapping E input db = (Inl e, db')"
  obtain x db1 where t: "pg_tx (sync_mapping_tx E input) db = (x, db1)" by force
  show ?thesis using t
  proof (cases rule: pg_tx_cases)
    case error
    then show ?thesis using a t by (simp add: pg_SyncV1Mapping_def)
  next
    case (commit c)
    then have "sql_row mr_CMSChargerID (mapin_CMSChargerID input) (db_mappings db1) \<noteq> None"
      by (auto simp: sync_mapping_tx_def Let_def insert_mapping_def update_mapping_def audit_mapping_def seed_runtime_def
          sql_row_append sql_row_update touch_mapping_def new_mapping_def split: if_splits option.splits sum.splits prod.splits)
    then show ?thesis using a t commit(1) by (auto simp: pg_SyncV1Mapping_def loadV1Mapping_def split: option.splits)
  qed
qed

lemma create_stop_error: "pg_CreateV1StopCommand F E input db = (Inl e, db') \<Longrightarrow> db' = db"
  unfolding pg_CreateV1StopCommand_def by (erule with_all_or_nothing) simp_all

lemma requeue_error: "pg_RequeueV1Fact E i correlationID db = (Inl e, db') \<Longrightarrow> db' = db"
  by (auto simp: pg_RequeueV1Fact_def elim: pg_tx_cases split: sum.splits)

lemma create_operation_error: "pg_CreateV1ChargerOperation now gen input db = (Inl e, db') \<Longrightarrow> db' = db"
  by (auto simp: pg_CreateV1ChargerOperation_def pg_GetV1ChargerOperation_def Let_def sql_row_append split: sum.splits option.splits if_splits)

lemma create_operation_found:
  "pg_CreateV1ChargerOperation now gen input db = (Inr (op, duplicate), db') \<Longrightarrow> op_row db' (opin_CMSOperationID input) = Some op"
  by (auto simp: pg_CreateV1ChargerOperation_def pg_GetV1ChargerOperation_def Let_def sql_row_append split: sum.splits option.splits if_splits)

lemma claim_operation_found: "op_row db i \<noteq> None \<Longrightarrow> \<exists>op claimed. fst (pg_ClaimV1ChargerOperationDelivery now i db) = Inr (op, claimed)"
  by (auto simp: pg_ClaimV1ChargerOperationDelivery_def pg_GetV1ChargerOperation_def Let_def sql_row_update split: sum.splits option.splits)

lemma mark_operation_found: "op_row db i \<noteq> None \<Longrightarrow> \<exists>op. fst (pg_MarkV1ChargerOperationDelivery now i state result category db) = Inr op"
  by (auto simp: pg_MarkV1ChargerOperationDelivery_def pg_GetV1ChargerOperation_def Let_def sql_row_update split: sum.splits option.splits)

lemma dispatch_operation_found:
  assumes "op_row (hal_db h) i \<noteq> None" and "DispatchV1ChargerOperation N i (h, T) = ((r, c, sent), h', T')"
  shows "\<exists>op. r = Inr op"
proof -
  obtain x db1 where claim: "pg_ClaimV1ChargerOperationDelivery (oe_claim N) i (hal_db h) = (x, db1)" by force
  then obtain op claimed where x: "x = Inr (op, claimed)" using claim_operation_found [OF assms(1), where now = "oe_claim N"] by auto
  have "op_row db1 i \<noteq> None" using pg_claim_row [where now = "oe_claim N" and i = i and db = "hal_db h" and j = i] claim assms(1) by auto
  then have "\<exists>op. fst (pg_MarkV1ChargerOperationDelivery now i state result category db1) = Inr op" for now state result category
    by (rule mark_operation_found)
  then show ?thesis using assms claim x
    by (auto simp: DispatchV1ChargerOperation_def dispatchClaimedV1ChargerOperation_def pg_op_store_def pg_GetV1ChargerOperation_def
        Let_def split_beta split: if_splits option.splits)
qed

text \<open>
  A start whose command is stored never fails for want of a row: its delivery can only fail on the
  fact that records the outcome.
\<close>

lemma command_found_update:
  assumes "pg_GetV1Command i db = Inr c" and "\<And>r. command_key (f r) = command_key r"
  shows "\<exists>c'. pg_GetV1Command i (db\<lparr>db_commands := sql_update P f (db_commands db)\<rparr>) = Inr c'"
  using assms by (auto simp: pg_GetV1Command_def getV1CommandWith_def sql_row_update split: option.splits)

lemma update_keys [simp]: "command_key (command_update now state until r) = command_key r"
  "command_key (mark_command now state result category detail r) = command_key r"
  by (simp_all add: command_update_def mark_command_def)

definition hashing_errors_internal :: "pg_env \<Rightarrow> bool" where
  "hashing_errors_internal E \<longleftrightarrow> (\<forall>x e. env_digest E x = Inl e \<longrightarrow> rs_Status (writeV1StoreError e) = 500)"

lemma fact_insert_error:
  assumes "hashing_errors_internal E" and "insertV1FactTx E k factType aggregate sequence occurredAt payload db = (Inl e, db')"
  shows "rs_Status (writeV1StoreError e) = 500"
  using assms
  by (auto simp: insertV1FactTx_def insert_fact_row_def hashing_errors_internal_def NewSecureUUIDString_def Let_def writeV1StoreError_def writeJSON_def
      split: sum.splits option.splits if_splits prod.splits)

lemma mark_command_result:
  assumes "hashing_errors_internal E" and "pg_GetV1Command i db = Inr c" and "pg_MarkV1CommandDelivery E i status result detail db = (r, db')"
  shows "(\<exists>c'. r = Inr c') \<or> (\<exists>e. r = Inl e \<and> rs_Status (writeV1StoreError e) = 500)"
proof -
  obtain state category where o: "delivery_outcome status = (state, category)" by force
  let ?db1 = "db\<lparr>db_commands := sql_update (\<lambda>r. command_key r = i \<and> cmd_State (cr_Command r) \<notin> {''MATERIALIZED'', ''SUPERSEDED''})
    (mark_command (env_now E) state result category detail) (db_commands db)\<rparr>"
  have "\<exists>c'. pg_GetV1Command i ?db1 = Inr c'" by (rule command_found_update [OF assms(2) update_keys(2)])
  then obtain c' where c': "getV1CommandWith ?db1 i = Inr c'" unfolding pg_GetV1Command_def ..
  obtain y db2 where f: "insertV1FactTx E 0 ''command.updated'' (cmd_HALCommandID c') None (cmd_UpdatedAt c') (v1CommandFact c') ?db1 = (y, db2)"
    by force
  show ?thesis
    using assms(3) fact_insert_error [OF assms(1)] f unfolding pg_MarkV1CommandDelivery_def pg_tx_def o Let_def case_prod_conv c'
    by (cases y) (auto split: if_splits)
qed

lemma claim_start_rows:
  assumes "pg_ClaimV1StartDelivery now i db = (x, db1)"
  shows "\<exists>P until. db1 = db\<lparr>db_commands := sql_update P (command_update now ''PENDING_DELIVERY'' until) (db_commands db)\<rparr>"
proof -
  have "\<exists>P until. snd (pg_ClaimV1StartDelivery now i db)
      = db\<lparr>db_commands := sql_update P (command_update now ''PENDING_DELIVERY'' until) (db_commands db)\<rparr>"
    by (auto simp: pg_ClaimV1StartDelivery_def Let_def split: sum.split)
  then show ?thesis unfolding assms snd_conv .
qed

lemma start_deliver_result:
  assumes "hashing_errors_internal (de_mark D)" and "pg_GetV1Command (stin_CMSCommandID req) db = Inr c"
    and "v1Start_deliver D remoteStart req db = ((r, sent), db')"
  shows "(\<exists>c'. r = Inr c') \<or> (\<exists>e. r = Inl e \<and> rs_Status (writeV1StoreError e) = 500)"
proof -
  let ?i = "stin_CMSCommandID req"
  obtain x db1 where c: "pg_ClaimV1StartDelivery (env_now (de_claim D)) ?i db = (x, db1)" by force
  obtain y db2 where b: "pg_BeginV1CommandDelivery (env_now (de_begin D)) ?i db1 = (y, db2)" by force
  have 1: "\<exists>c'. pg_GetV1Command ?i db1 = Inr c'" using claim_start_rows [OF c] command_found_update [OF assms(2) update_keys(1)] by auto
  then obtain c1 where "pg_GetV1Command ?i db1 = Inr c1" ..
  then have 2: "\<exists>c'. pg_GetV1Command ?i db2 = Inr c'" using b
    by (auto simp: pg_BeginV1CommandDelivery_def Let_def intro!: command_found_update)
  then obtain c2 where c2: "pg_GetV1Command ?i db2 = Inr c2" ..
  obtain w claimed where "x = Inr (w, claimed)" using c 1 by (auto simp: pg_ClaimV1StartDelivery_def Let_def split: sum.splits)
  moreover obtain v where "y = Inr v" using b 2 by (auto simp: pg_BeginV1CommandDelivery_def Let_def)
  ultimately show ?thesis using assms(3) c b mark_command_result [OF assms(1) c2]
    by (auto simp: v1Start_deliver_def Let_def split: sum.splits if_splits prod.splits)
qed

subsection \<open>What each handler does\<close>

lemma rs_writeJSON [simp]: "rs_Status (writeJSON status body) = status" "rs_Body (writeJSON status body) = body"
  by (simp_all add: writeJSON_def)

lemma store_error_status: "rs_Status (writeV1StoreError e) \<in> {404, 409, 422, 500}"
  by (simp add: writeV1StoreError_def)

lemma store_error_not_ok [simp]: "rs_Status (writeV1StoreError e) \<noteq> 200" "rs_Status (writeV1StoreError e) \<noteq> 201" "rs_Status (writeV1StoreError e) \<noteq> 202"
  by (simp_all add: writeV1StoreError_def)

abbreviation remote_start :: "http_env \<Rightarrow> Server \<Rightarrow> string \<Rightarrow> string \<Rightarrow> int \<Rightarrow> string res" where
  "remote_start N S \<equiv> (\<lambda>chargerID idTag connectorID.
     fst (RemoteStartTransaction (hal_wiredIdentity (sv_hal S)) (hn_send N) chargerID idTag connectorID))"

lemma v1Start_cases:
  obtains (refused) response where "v1Start N r S = ((response, []), S)" "rs_Status response \<noteq> 202"
  | (run) correlation idempotency request req c existed db result sent db2 T where
      "hr_Method r = ''POST''" "v1MutationHeaders N r = Some (correlation, idempotency)" "hn_start N (hr_Body r) = Some request"
      "normalize_start request = (req, True)" "valid_start N r req True"
      "pg_ValidateV1Mapping (sq_CPOID req) (sq_CMSChargerID req) (sq_CMSConnectorID req) (sq_ChargerOCPPIdentity req)
         (sq_OCPPConnectorNumber req) (server_db S) = Inr ()"
      "pg_CreateV1StartCommand (hn_store N) (start_input N correlation idempotency req) (server_db S) = (Inr (c, existed), db)"
      "v1Start_deliver (hn_delivery N) (remote_start N S) (start_input N correlation idempotency req) db = ((result, sent), db2)"
      "v1Start N r S = ((case result of Inl err \<Rightarrow> writeV1StoreError err
         | Inr command \<Rightarrow> writeJSON 202 (StartBody (v1CommandView command) correlation existed), map SentStart sent),
         (with_db db2 S)\<lparr>sv_traces := T\<rparr>)"
proof (cases "hr_Method r = ''POST'' \<and> v1MutationHeaders N r \<noteq> None \<and> hn_start N (hr_Body r) \<noteq> None")
  case False
  then show thesis by (intro that(1) [of "fst (fst (v1Start N r S))"]) (auto simp: v1Start_def split: option.splits)
next
  case True
  then obtain correlation idempotency request where h: "hr_Method r = ''POST''"
    "v1MutationHeaders N r = Some (correlation, idempotency)" "hn_start N (hr_Body r) = Some request" by auto
  obtain req valid where n: "normalize_start request = (req, valid)" by force
  note d = v1Start_def h n
  show thesis
  proof (cases "valid_start N r req valid")
    case False
    then show thesis by (intro that(1) [of "writeJSON 422 (ErrorBody ''invalid start command'')"]) (simp_all add: d)
  next
    case True
    then have valid: "valid" by (simp add: valid_start_def Let_def)
    let ?input = "start_input N correlation idempotency req"
    obtain m where m: "pg_ValidateV1Mapping (sq_CPOID req) (sq_CMSChargerID req) (sq_CMSConnectorID req) (sq_ChargerOCPPIdentity req)
         (sq_OCPPConnectorNumber req) (server_db S) = m" by simp
    obtain x db where c: "pg_CreateV1StartCommand (hn_store N) ?input (server_db S) = (x, db)" by force
    obtain result sent db2 where v: "v1Start_deliver (hn_delivery N) (remote_start N S) ?input db = ((result, sent), db2)"
      by (metis prod.exhaust)
    show thesis
    proof (cases m)
      case (Inl err)
      then show thesis using True by (intro that(1) [of "writeV1StoreError err"]) (simp_all add: d m)
    next
      case ok: (Inr u)
      show thesis
      proof (cases x)
        case (Inl err)
        then have "db = server_db S" using c create_start_error by blast
        then show thesis using True ok Inl by (intro that(1) [of "writeV1StoreError err"]) (simp_all add: d m c)
      next
        case (Inr ce)
        then show thesis using True ok valid c n
          by (cases ce, intro that(2) [OF h(1,2,3) _ _ _ _ v]) (simp_all add: d m v Let_def)
      qed
    qed
  qed
qed

abbreviation remote_stop_call :: "http_env \<Rightarrow> Server \<Rightarrow> string \<Rightarrow> int \<Rightarrow> string res" where
  "remote_stop_call N S \<equiv> (\<lambda>chargerID transactionID.
     fst (RemoteStopTransaction (hal_wiredIdentity (sv_hal S)) (hn_send N) chargerID transactionID))"

lemma v1Stop_cases:
  obtains (refused) response where "v1Stop N r S = ((response, []), S)" "rs_Status response \<noteq> 202"
  | (run) correlation idempotency req c duplicate db workflow sent db2 T body where
      "hr_Method r = ''POST''" "v1MutationHeaders N r = Some (correlation, idempotency)" "hn_stop N (hr_Body r) = Some req" "valid_stop N r req"
      "pg_CreateV1StopCommand (hn_faults N) (hn_store N) (stop_input N correlation idempotency req) (server_db S) = (Inr (c, duplicate), db)"
      "DispatchV1Stop (hn_delivery N) (remote_stop_call N S) (pq_HALTransactionID req) db = ((workflow, sent), db2)"
      "v1Stop N r S = ((writeJSON 202 body, map SentStop sent), (with_db db2 S)\<lparr>sv_traces := T\<rparr>)"
      "body = StopBody (v1CommandView c) (case workflow of Inl _ \<Rightarrow> None | Inr w \<Rightarrow> Some (v1StopWorkflowView w)) correlation duplicate"
proof (cases "hr_Method r = ''POST'' \<and> v1MutationHeaders N r \<noteq> None \<and> (\<exists>req. hn_stop N (hr_Body r) = Some req \<and> valid_stop N r req)")
  case False
  then show thesis by (intro that(1) [of "fst (fst (v1Stop N r S))"]) (auto simp: v1Stop_def split: option.splits)
next
  case True
  then obtain correlation idempotency req where h: "hr_Method r = ''POST''"
    "v1MutationHeaders N r = Some (correlation, idempotency)" "hn_stop N (hr_Body r) = Some req" "valid_stop N r req" by auto
  obtain x db where c: "pg_CreateV1StopCommand (hn_faults N) (hn_store N) (stop_input N correlation idempotency req) (server_db S) = (x, db)" by force
  obtain workflow sent db2 where v: "DispatchV1Stop (hn_delivery N) (remote_stop_call N S) (pq_HALTransactionID req) db = ((workflow, sent), db2)"
    by (metis prod.exhaust)
  show thesis
  proof (cases x)
    case (Inl err)
    then have "db = server_db S" using c create_stop_error by blast
    then show thesis using Inl by (intro that(1) [of "writeV1StoreError err"]) (simp_all add: v1Stop_def h c)
  next
    case (Inr cd)
    then show thesis using c
      by (cases cd, intro that(2) [OF h _ v]) (simp_all add: v1Stop_def h v Let_def)
  qed
qed

lemma v1Mapping_cases:
  obtains (refused) response where "v1Mapping N r S = ((response, []), S)" "rs_Status response \<noteq> 200" "rs_Status response \<noteq> 201"
  | (run) input mapping existed db body where "hr_Method r = ''PUT''"
      "pg_SyncV1Mapping (hn_store N) input (server_db S) = (Inr (mapping, existed), db)"
      "v1Mapping N r S = ((writeJSON (if existed then 200 else 201) body, []), with_db db S)"
proof (cases "hr_Method r = ''PUT'' \<and> v1MutationHeaders N r \<noteq> None
    \<and> (\<exists>req. hn_mapping N (hr_Body r) = Some req \<and> valid_mapping N r req \<and> mapping_connectors (hn_uuidParse N) [] (mq_Connectors req) \<noteq> None)")
  case False
  then show thesis by (intro that(1) [of "fst (fst (v1Mapping N r S))"]) (auto simp: v1Mapping_def split: option.splits)
next
  case True
  then obtain correlation idempotency req connectors where h: "hr_Method r = ''PUT''"
    "v1MutationHeaders N r = Some (correlation, idempotency)" "hn_mapping N (hr_Body r) = Some req" "valid_mapping N r req"
    "mapping_connectors (hn_uuidParse N) [] (mq_Connectors req) = Some connectors" by auto
  let ?input = "\<lparr>mapin_CPOID = mq_CPOID req, mapin_CMSChargerID = mq_CMSChargerID req,
    mapin_ChargerOCPPIdentity = mq_ChargerOCPPIdentity req, mapin_ExpectedSerial = TrimSpace (mq_ExpectedSerial req),
    mapin_Enabled = mq_Enabled req, mapin_Connectors = connectors, mapin_CorrelationID = correlation,
    mapin_RequestDigest = digestJSON N (hn_mappingJSON N req) idempotency\<rparr>"
  obtain x db where s: "pg_SyncV1Mapping (hn_store N) ?input (server_db S) = (x, db)" by force
  show thesis
  proof (cases x)
    case (Inl err)
    then have "db = server_db S" using s sync_mapping_error by blast
    then show thesis using Inl by (intro that(1) [of "writeV1StoreError err"]) (simp_all add: v1Mapping_def h s)
  next
    case (Inr me)
    then show thesis using s by (cases me, intro that(2) [OF h(1)]) (simp_all add: v1Mapping_def h)
  qed
qed

lemma v1FactRequeue_cases:
  obtains (refused) response where "v1FactRequeue N r S = ((response, []), S)" "rs_Status response \<noteq> 202"
  | (run) factID correlationID db where "hr_Method r = ''POST''" "pg_RequeueV1Fact (hn_store N) factID correlationID (server_db S) = (Inr (), db)"
      "v1FactRequeue N r S = ((writeJSON 202 (RequeueBody factID), []), with_db db S)"
proof -
  let ?i = "TrimSuffix (TrimPrefix ''/v1/facts/'' (hr_Path r)) ''/requeue''" and ?c = "TrimSpace (hr_Header r ''X-Correlation-ID'')"
  obtain x db where q: "pg_RequeueV1Fact (hn_store N) ?i ?c (server_db S) = (x, db)" by force
  consider "hr_Method r \<noteq> ''POST'' \<or> \<not> HasSuffix (hr_Path r) ''/requeue'' \<or> \<not> validUUID (hn_uuidParse N) ?i \<or> \<not> validUUID (hn_uuidParse N) ?c"
    | "hr_Method r = ''POST''" "HasSuffix (hr_Path r) ''/requeue''" "validUUID (hn_uuidParse N) ?i" "validUUID (hn_uuidParse N) ?c" by blast
  then show thesis
  proof cases
    case 1
    then show thesis by (intro that(1) [of "fst (fst (v1FactRequeue N r S))"]) (auto simp: v1FactRequeue_def Let_def)
  next
    case 2
    show thesis
    proof (cases x)
      case (Inl err)
      then have "db = server_db S" using q requeue_error by blast
      then show thesis using Inl 2 by (intro that(1) [of "writeV1StoreError err"]) (simp_all add: v1FactRequeue_def Let_def q)
    next
      case (Inr u)
      then show thesis using q 2 by (intro that(2) [OF 2(1)]) (simp_all add: v1FactRequeue_def Let_def)
    qed
  qed
qed

lemma reads_pure [simp]:
  "snd (v1Command N r S) = S" "snd (fst (v1Command N r S)) = []"
  "snd (v1Transactions N r S) = S" "snd (fst (v1Transactions N r S)) = []"
  "snd (v1Transaction N r S) = S" "snd (fst (v1Transaction N r S)) = []"
  "snd (v1ChargerRuntime N r S) = S" "snd (fst (v1ChargerRuntime N r S)) = []"
  "snd (v1ConnectorRuntime N r S) = S" "snd (fst (v1ConnectorRuntime N r S)) = []"
  "snd (v1ChargerOperation N r S) = S" "snd (fst (v1ChargerOperation N r S)) = []"
  "snd (v1ConfigurationRead N r S) = S"
  by (simp_all add: v1Command_def v1Transactions_def v1Transaction_def transaction_answer_def v1ChargerRuntime_def v1ConnectorRuntime_def
      v1ChargerOperation_def v1ConfigurationRead_def Let_def split: sum.split option.split prod.split)

lemma v1ChargerOperations_cases:
  obtains (refused) response where "v1ChargerOperations N r S = ((response, []), S)" "hr_Method r = ''GET'' \<or> rs_Status response \<noteq> 202"
      "\<And>op c d items. rs_Body response \<noteq> OperationAcceptedBody op c d items" "\<And>items unknown. rs_Body response \<noteq> ConfigurationBody items unknown"
  | (known) input op duplicate db body where "hr_Method r = ''POST''"
      "pg_CreateV1ChargerOperation (env_now (hn_store N)) (env_uuid (hn_store N) 0) input (server_db S) = (Inr (op, duplicate), db)"
      "v1ChargerOperations N r S = ((writeJSON 202 body, []), with_db db S)" "\<exists>op c d. body = OperationAcceptedBody op c d None"
  | (dispatched) input op duplicate db op' configuration sent h T body where "hr_Method r = ''POST''"
      "pg_CreateV1ChargerOperation (env_now (hn_store N)) (env_uuid (hn_store N) 0) input (server_db S) = (Inr (op, duplicate), db)"
      "DispatchV1ChargerOperation (hn_dispatch N) (opin_CMSOperationID input) (sv_hal (with_db db S), sv_traces S)
         = ((Inr op', configuration, sent), h, T)"
      "v1ChargerOperations N r S = ((writeJSON 202 body, if sent then [SentOperation (opin_CMSOperationID input)] else []),
         S\<lparr>sv_hal := h, sv_traces := T\<rparr>)"
      "\<exists>op c d. body = OperationAcceptedBody op c d (map_option v1SafeConfigurationView configuration)"
proof -
  have e: "rs_Body (writeV1StoreError e) \<noteq> OperationAcceptedBody op c d items" "rs_Body (writeV1StoreError e) \<noteq> ConfigurationBody xs ys"
    for e op c d items xs ys by (simp_all add: writeV1StoreError_def)
  consider (get) "hr_Method r = ''GET''"
    | (bad) "hr_Method r \<noteq> ''GET''" "hr_Method r \<noteq> ''POST'' \<or> v1MutationHeaders N r = None \<or> hn_operation N (hr_Body r) = None"
    | (ok) correlation idempotency request where "hr_Method r = ''POST''" "v1MutationHeaders N r = Some (correlation, idempotency)"
        "hn_operation N (hr_Body r) = Some request" by (metis not_None_eq prod.exhaust)
  then show thesis
  proof cases
    case get
    then show thesis by (intro that(1) [of "fst (fst (v1ChargerOperation N r S))"])
      (auto simp: v1ChargerOperations_def v1ChargerOperation_def Let_def e split: sum.splits)
  next
    case bad
    then show thesis by (intro that(1) [of "fst (fst (v1ChargerOperations N r S))"]) (auto simp: v1ChargerOperations_def split: option.splits)
  next
    case ok
    let ?i = "oreq_CMSOperationID request"
    let ?input = "operation_input N correlation ?i request"
    obtain m where m: "pg_ValidateV1ChargerOperationMapping (oreq_CPOID request) (oreq_CMSChargerID request) (oreq_CMSConnectorID request)
      (oreq_ChargerOCPPIdentity request) (oreq_OCPPConnectorNumber request) (server_db S) = m" by simp
    obtain x db where c: "pg_CreateV1ChargerOperation (env_now (hn_store N)) (env_uuid (hn_store N) 0) ?input (server_db S) = (x, db)" by force
    obtain result configuration sent h T where v: "DispatchV1ChargerOperation (hn_dispatch N) ?i (sv_hal (with_db db S), sv_traces S)
      = ((result, configuration, sent), h, T)" by (metis prod.exhaust)
    have i: "opin_CMSOperationID ?input = ?i" by (simp add: operation_input_def)
    note d = v1ChargerOperations_def ok m c
    show thesis
    proof (cases "idempotency \<noteq> ?i \<or> \<not> validV1ChargerOperation (hn_uuidParse N) request \<or> (\<exists>err. m = Inl err) \<or> (\<exists>err. x = Inl err)")
      case True
      have "db = server_db S" if "x = Inl err" for err using that c create_operation_error by blast
      then show thesis using True by (intro that(1) [of "fst (fst (v1ChargerOperations N r S))"])
        (auto simp: d e split: sum.split)
    next
      case False
      then obtain op duplicate where x: "x = Inr (op, duplicate)" and ok': "idempotency = ?i" "validV1ChargerOperation (hn_uuidParse N) request" "m = Inr ()"
        by (metis prod.exhaust sum.exhaust old.unit.exhaust)
      show thesis
      proof (cases "shouldDispatchV1ChargerOperation duplicate (Some op)")
        case False
        then show thesis using x ok' c by (intro that(2) [OF ok(1), of ?input]) (auto simp: d)
      next
        case True
        have "op_row (hal_db (sv_hal (with_db db S))) ?i \<noteq> None" using create_operation_found c x i by (metis option.distinct(1) with_db(2))
        from dispatch_operation_found [OF this v] obtain op' where "result = Inr op'" ..
        then show thesis using x ok' c v True i by (intro that(3) [OF ok(1), of ?input]) (auto simp: d)
      qed
    qed
  qed
qed

subsection \<open>Properties\<close>

text \<open>
  \<open>client_error\<close>: the request was refused. \<open>authenticated\<close>: it carries the configured bearer token.
\<close>

definition client_error :: "http_response \<Rightarrow> bool" where
  "client_error response \<longleftrightarrow> 400 \<le> rs_Status response \<and> rs_Status response < 500"

definition authenticated :: "http_request \<Rightarrow> Server \<Rightarrow> bool" where
  "authenticated r S \<longleftrightarrow> sv_V1CMSBearerToken S \<noteq> '''' \<and> hr_Header r ''Authorization'' = ''Bearer '' @ sv_V1CMSBearerToken S"

lemma requireV1Service_authenticated:
  "requireV1Service handler N r S =
     (if authenticated r S then handler N r S else answer 401 (ErrorBody ''v1 service authentication required'') S)"
proof -
  have 1: "HasPrefix h p \<longleftrightarrow> (\<exists>t. h = p @ t)" for h p :: string
    by (metis HasPrefix_def append_eq_conv_conj append_take_drop_id)
  show ?thesis by (auto simp: requireV1Service_def authenticated_def 1 TrimPrefix_def Let_def)
qed

text \<open>The handlers that only read the server, and the configuration read, which calls the charger.\<close>

lemma read_handlers:
  assumes "handler \<in> {v1Command, v1Transactions, v1Transaction, v1ChargerRuntime, v1ConnectorRuntime, v1ConfigurationRead}"
  shows "\<exists>response calls. handler N r S = ((response, calls), S) \<and> (calls = [] \<or> \<not> client_error response)
    \<and> list_all (\<lambda>c. \<exists>i. c = SentGetConfiguration i) calls"
proof -
  have "snd (handler N r S) = S" using assms reads_pure [of N r S] by blast
  moreover have "snd (fst (handler N r S)) = [] \<or> \<not> client_error (fst (fst (handler N r S)))
      \<and> list_all (\<lambda>c. \<exists>i. c = SentGetConfiguration i) (snd (fst (handler N r S)))"
  proof (cases "handler = v1ConfigurationRead")
    case True
    then show ?thesis
      by (auto simp: v1ConfigurationRead_def client_error_def Let_def list_all_iff split: option.split sum.split prod.split)
  next
    case False
    then show ?thesis using assms reads_pure [of N r S] by blast
  qed
  ultimately show ?thesis by (cases "handler N r S") (auto intro: exI [of _ "[]"])
qed

lemma Routes_cases:
  obtains (mapping) "authenticated r S" "Routes N r S = v1Mapping N r S" | (start) "authenticated r S" "Routes N r S = v1Start N r S"
  | (stop) "authenticated r S" "Routes N r S = v1Stop N r S" | (requeue) "authenticated r S" "Routes N r S = v1FactRequeue N r S"
  | (operations) "authenticated r S" "Routes N r S = v1ChargerOperations N r S"
  | (read) response calls where "authenticated r S" "Routes N r S = ((response, calls), S)" "calls = [] \<or> \<not> client_error response"
      "list_all (\<lambda>c. \<exists>i. c = SentGetConfiguration i) calls"
  | (refused) status body where "Routes N r S = answer status body S" "status \<in> {200, 301, 401, 404, 405}"
proof -
  consider (known) handler where "v1_route (hr_Path r) = Some handler" "authenticated r S" "Routes N r S = handler N r S"
    | (other) status body where "Routes N r S = answer status body S" "status \<in> {200, 301, 401, 404, 405}"
  proof (cases "v1_route (hr_Path r)")
    case None
    then have "\<exists>status body. Routes N r S = answer status body S \<and> status \<in> {200, 301, 401, 404, 405}"
      unfolding Routes_def by (auto split: option.split)
    then show thesis using that(2) by blast
  next
    case (Some handler)
    then show thesis using that by (cases "authenticated r S") (auto simp: Routes_def requireV1Service_authenticated)
  qed
  then show thesis
  proof cases
    case (known handler)
    have "handler \<in> {v1Mapping, v1Start, v1Stop, v1FactRequeue, v1ChargerOperations}
      \<or> handler \<in> {v1Command, v1Transactions, v1Transaction, v1ChargerRuntime, v1ConnectorRuntime, v1ConfigurationRead}"
      using known(1) by (auto simp: v1_route_def split: if_splits)
    then show thesis using known(2,3) that(1-5) read_handlers [of handler N r S] that(6) by fastforce
  qed (rule that(7))
qed

lemma start_client_error:
  assumes "hashing_errors_internal (de_mark (hn_delivery N))" and "client_error (fst (fst (v1Start N r S)))"
  shows "v1Start N r S = ((fst (fst (v1Start N r S)), []), S)"
proof (cases rule: v1Start_cases [of N r S])
  case (run correlation idempotency request req c existed db result sent db2 T)
  let ?input = "start_input N correlation idempotency req"
  have "\<exists>c. pg_GetV1Command (stin_CMSCommandID ?input) db = Inr c" using run(7) by (cases rule: create_start_found) auto
  then obtain c' where "pg_GetV1Command (stin_CMSCommandID ?input) db = Inr c'" ..
  from start_deliver_result [OF assms(1) this run(8)] show ?thesis
    using assms(2) run(9) by (auto simp: client_error_def)
qed simp

text \<open>
  C11: a refused request changes nothing. When the API answers with a 4xx status, whatever the route,
  the body and the authentication, the durable store, the HAL and the trace tables are as before
  and no charger was called.
\<close>

theorem client_error_inert:
  assumes "hashing_errors_internal (de_mark (hn_delivery N))" and "Routes N r S = ((response, calls), S')" and "client_error response"
  shows "S' = S \<and> calls = []"
proof (cases rule: Routes_cases [of r S N])
  case mapping
  then show ?thesis using assms(2,3) by (cases rule: v1Mapping_cases [of N r S]) (auto simp: client_error_def split: if_splits)
next
  case start
  then show ?thesis using start_client_error [OF assms(1), of r S] assms(2,3) by (metis fst_conv prod.inject)
next
  case stop
  then show ?thesis using assms(2,3) by (cases rule: v1Stop_cases [of N r S]) (auto simp: client_error_def)
next
  case requeue
  then show ?thesis using assms(2,3) by (cases rule: v1FactRequeue_cases [of N r S]) (auto simp: client_error_def)
next
  case operations
  then show ?thesis using assms(2,3) by (cases rule: v1ChargerOperations_cases [of N r S]) (auto simp: client_error_def)
qed (use assms(2,3) in auto)

primrec sent_start :: "http_call \<Rightarrow> string option" where
  "sent_start (SentStart i) = Some i" | "sent_start (SentStop i) = None" | "sent_start (SentOperation i) = None"
| "sent_start (SentGetConfiguration i) = None"

primrec sent_stop :: "http_call \<Rightarrow> string option" where
  "sent_stop (SentStart i) = None" | "sent_stop (SentStop i) = Some i" | "sent_stop (SentOperation i) = None"
| "sent_stop (SentGetConfiguration i) = None"

abbreviation starts_of :: "http_call list \<Rightarrow> string list" where
  "starts_of wire \<equiv> List.map_filter sent_start wire"

abbreviation stops_of :: "http_call list \<Rightarrow> string list" where
  "stops_of wire \<equiv> List.map_filter sent_stop wire"

lemma sent_maps [simp]: "starts_of (map SentStart xs) = xs" "stops_of (map SentStart xs) = []"
  "starts_of (map SentStop xs) = []" "stops_of (map SentStop xs) = xs"
  by (induction xs) (auto simp: List.map_filter_def)

lemma map_filter_append [simp]: "List.map_filter f (xs @ ys) = List.map_filter f xs @ List.map_filter f ys"
  by (simp add: List.map_filter_def)

lemma store_steps: "lifecycle_step db db' \<Longrightarrow> pg_step\<^sup>*\<^sup>* db db'" "outer_step db db' \<Longrightarrow> pg_step\<^sup>*\<^sup>* db db'"
  by (auto simp: pg_step_def)

lemma steps_mono: "R\<^sup>*\<^sup>* a b \<Longrightarrow> (\<And>x y. R x y \<Longrightarrow> Q\<^sup>*\<^sup>* x y) \<Longrightarrow> Q\<^sup>*\<^sup>* a b"
  by (induction rule: rtranclp_induct) (auto intro: rtranclp_trans)

lemma v1Start_deliver_deliveries: "start_delivery_step\<^sup>*\<^sup>* db (snd (v1Start_deliver D remoteStart req db))"
proof -
  let ?i = "stin_CMSCommandID req"
  obtain c db1 where c: "pg_ClaimV1StartDelivery (env_now (de_claim D)) ?i db = (c, db1)" by force
  obtain b db2 where b: "pg_BeginV1CommandDelivery (env_now (de_begin D)) ?i db1 = (b, db2)" by force
  have 1: "start_delivery_step\<^sup>*\<^sup>* db db1" using start_delivery_step.claim_start [of db "env_now (de_claim D)" ?i] c by auto
  have 2: "start_delivery_step\<^sup>*\<^sup>* db db2"
    using rtranclp.rtrancl_into_rtrancl [OF 1 start_delivery_step.begin_start, of "env_now (de_begin D)" ?i] b by simp
  have 3: "start_delivery_step\<^sup>*\<^sup>* db (snd (pg_MarkV1CommandDelivery (de_mark D) ?i status result detail db2))" for status result detail
    by (rule rtranclp.rtrancl_into_rtrancl [OF 2 start_delivery_step.mark_start])
  show ?thesis using 1 2 3 by (auto simp: v1Start_deliver_def c b Let_def split: sum.split prod.split) (metis snd_conv)+
qed

lemma dispatch_operation_steps:
  assumes "DispatchV1ChargerOperation N i (h, T) = (r, h', T')"
  shows "outer_step\<^sup>*\<^sup>* (hal_db h) (hal_db h') \<and> hal_registry h' = hal_registry h \<and> hal_connections h' = hal_connections h"
proof -
  obtain x db1 where c: "pg_ClaimV1ChargerOperationDelivery (oe_claim N) i (hal_db h) = (x, db1)" by force
  have 1: "outer_step\<^sup>*\<^sup>* (hal_db h) db1" using outer_step.claim_operation [of "hal_db h" "oe_claim N" i] c by auto
  have 2: "outer_step\<^sup>*\<^sup>* (hal_db h) (snd (pg_MarkV1ChargerOperationDelivery (oe_mark N) i state result category db1))" for state result category
    by (rule rtranclp.rtrancl_into_rtrancl [OF 1 outer_step.mark_operation])
  have "outer_step\<^sup>*\<^sup>* (hal_db h) (snd (dispatchClaimedV1ChargerOperation pg_op_store dispatcher (oe_claim N) (oe_mark N) i (hal_db h)))" for dispatcher
    using 1 2 by (auto simp: dispatchClaimedV1ChargerOperation_def pg_op_store_def c Let_def split_beta split: sum.split)
  then show ?thesis using assms by (auto simp: DispatchV1ChargerOperation_def Let_def split_beta split: sum.splits if_splits)
qed

text \<open>
  The store under a request, by what the request sends: nothing to a charger's transactions, or a
  start or a stop, which is one lifecycle step and a delivery. The live view and the connections stay.
\<close>

abbreviation quiet_step :: "PostgresStore \<Rightarrow> PostgresStore \<Rightarrow> bool" where
  "quiet_step db db' \<equiv> lifecycle_step db db' \<or> outer_step db db'"

inductive store_run :: "PostgresStore \<Rightarrow> http_call list \<Rightarrow> PostgresStore \<Rightarrow> bool" where
  quiet: "quiet_step\<^sup>*\<^sup>* db db' \<Longrightarrow> starts_of calls = [] \<Longrightarrow> stops_of calls = [] \<Longrightarrow> store_run db calls db'"
| start: "lifecycle_step db db1 \<Longrightarrow> v1Start_deliver D remoteStart req db1 = ((result, sent), db2) \<Longrightarrow> store_run db (map SentStart sent) db2"
| stop: "lifecycle_step db db1 \<Longrightarrow> DispatchV1Stop D remoteStop i db1 = ((workflow, sent), db2) \<Longrightarrow> store_run db (map SentStop sent) db2"

definition request_run :: "Server \<Rightarrow> http_result \<Rightarrow> bool" where
  "request_run S result \<longleftrightarrow> store_run (server_db S) (snd (fst result)) (server_db (snd result))
     \<and> hal_registry (sv_hal (snd result)) = hal_registry (sv_hal S) \<and> hal_connections (sv_hal (snd result)) = hal_connections (sv_hal S)"

lemma no_calls [simp]: "starts_of [] = []" "stops_of [] = []" "starts_of [SentOperation i] = []" "stops_of [SentOperation i] = []"
  by (simp_all add: List.map_filter_def)

lemma configuration_calls: "list_all (\<lambda>c. \<exists>i. c = SentGetConfiguration i) calls \<Longrightarrow> starts_of calls = [] \<and> stops_of calls = []"
  by (induction calls) (auto simp: List.map_filter_def)

lemma request_run_inert: "list_all (\<lambda>c. \<exists>i. c = SentGetConfiguration i) calls \<Longrightarrow> request_run S ((response, calls), S)"
  using configuration_calls [of calls] by (auto simp: request_run_def intro!: store_run.quiet)

lemma request_run_quiet: "quiet_step (server_db S) db \<Longrightarrow> request_run S ((response, []), with_db db S)"
  by (auto simp: request_run_def with_db_def intro!: store_run.quiet)

lemma v1Mapping_run: "request_run S (v1Mapping N r S)"
proof (cases rule: v1Mapping_cases [of N r S])
  case (run input mp existed db body)
  then show ?thesis using outer_step.sync_mapping [of "server_db S" "hn_store N" input] by (simp add: request_run_quiet)
qed (simp add: request_run_inert)

lemma v1FactRequeue_run: "request_run S (v1FactRequeue N r S)"
proof (cases rule: v1FactRequeue_cases [of N r S])
  case (run factID correlationID db)
  then show ?thesis using outer_step.requeue_fact [of "server_db S" "hn_store N" factID correlationID] by (simp add: request_run_quiet)
qed (simp add: request_run_inert)

lemma v1Start_run: "request_run S (v1Start N r S)"
proof (cases rule: v1Start_cases [of N r S])
  case (run correlation idempotency request req c existed db result sent db2 T)
  have "lifecycle_step (server_db S) db"
    using lifecycle_step.create_start [of "server_db S" "hn_store N" "start_input N correlation idempotency req"] run(7) by simp
  from store_run.start [OF this run(8)] show ?thesis using run(9) by (simp add: request_run_def with_db_def)
qed (simp add: request_run_inert)

lemma v1Stop_run: "request_run S (v1Stop N r S)"
proof (cases rule: v1Stop_cases [of N r S])
  case (run correlation idempotency req c duplicate db workflow sent db2 T body)
  have "lifecycle_step (server_db S) db"
    using lifecycle_step.create_stop [of "server_db S" "hn_faults N" "hn_store N" "stop_input N correlation idempotency req"] run(5) by simp
  from store_run.stop [OF this run(6)] show ?thesis using run(7) by (simp add: request_run_def with_db_def)
qed (simp add: request_run_inert)

lemma v1ChargerOperations_run: "request_run S (v1ChargerOperations N r S)"
proof (cases rule: v1ChargerOperations_cases [of N r S])
  case (known input op duplicate db body)
  then show ?thesis using outer_step.create_operation [of "server_db S" "env_now (hn_store N)" "env_uuid (hn_store N) 0" input]
    by (simp add: request_run_quiet)
next
  case (dispatched input op duplicate db op' configuration sent h T body)
  have "outer_step (server_db S) db"
    using outer_step.create_operation [of "server_db S" "env_now (hn_store N)" "env_uuid (hn_store N) 0" input] dispatched(2) by simp
  moreover have "outer_step\<^sup>*\<^sup>* db (hal_db h)" using dispatch_operation_steps [OF dispatched(3)] by simp
  ultimately have "outer_step\<^sup>*\<^sup>* (server_db S) (hal_db h)" by (rule converse_rtranclp_into_rtranclp)
  then have "quiet_step\<^sup>*\<^sup>* (server_db S) (hal_db h)" by (rule steps_mono) auto
  then show ?thesis using dispatched(4) dispatch_operation_steps [OF dispatched(3)]
    by (auto simp: request_run_def with_db_def intro!: store_run.quiet)
qed (simp add: request_run_inert)

lemma Routes_run: "request_run S (Routes N r S)"
  by (cases rule: Routes_cases [of r S N])
    (simp_all add: v1Mapping_run v1FactRequeue_run v1Start_run v1Stop_run v1ChargerOperations_run request_run_inert)

lemma store_run_steps: "store_run db calls db' \<Longrightarrow> pg_step\<^sup>*\<^sup>* db db'"
proof (induction rule: store_run.induct)
  case (quiet db db' calls)
  from quiet(1) show ?case by (rule steps_mono) (auto simp: pg_step_def)
next
  case (start db db1 D remoteStart req result sent db2)
  have "start_delivery_step\<^sup>*\<^sup>* db1 db2" using v1Start_deliver_deliveries [of db1 D remoteStart req] start(2) by simp
  then have "pg_step\<^sup>*\<^sup>* db1 db2" by (rule steps_mono) (auto simp: pg_step_def)
  then show ?case using store_steps(1) [OF start(1)] by (rule rtranclp_trans [rotated])
next
  case (stop db db1 D remoteStop i workflow sent db2)
  have "pg_step\<^sup>*\<^sup>* db1 db2" using DispatchV1Stop_steps [of db1 D remoteStop i] stop(2) by simp
  then show ?case using store_steps(1) [OF stop(1)] by (rule rtranclp_trans [rotated])
qed

text \<open>
  C12: every request is a run of the store's lifecycle. Whatever is asked, the durable state after a
  request is reached from the one before by the steps of \<open>pg_step\<close>, so that every invariant of the
  lifecycle holds between requests; the charger registry and the connections are not touched, and
  only an authenticated request changes the server at all.
\<close>

theorem requests_refine_lifecycle:
  assumes "Routes N r S = ((response, calls), S')"
  shows "pg_step\<^sup>*\<^sup>* (server_db S) (server_db S') \<and> hal_registry (sv_hal S') = hal_registry (sv_hal S)
    \<and> hal_connections (sv_hal S') = hal_connections (sv_hal S) \<and> (S' = S \<or> authenticated r S)"
proof -
  have "snd (Routes N r S) = S \<or> authenticated r S" by (cases rule: Routes_cases [of r S N]) simp_all
  then show ?thesis using assms Routes_run [of S N r] store_run_steps by (auto simp: request_run_def)
qed

subsection \<open>Accepted starts\<close>

lemma normalizeV1LimitSource_sound:
  assumes "normalizeV1LimitSource limitType source threshold energy = (source', True)"
  shows "(threshold = 0 \<and> source' = ''NONE'' \<or> threshold \<noteq> 0 \<and> source' \<in> {''CUSTOMER_MONEY'', ''WALLET'', if energy then ''CUSTOMER_ENERGY'' else ''CUSTOMER_TIME''})
    \<and> normalizeV1LimitSource limitType source' threshold energy = (source', True)"
  using assms by (auto simp: normalizeV1LimitSource_def validV1LimitSource_def Let_def split: if_splits)

lemma normalize_start_sound:
  assumes "normalize_start request = (req, True)"
  shows "normalizeV1LimitSource (sq_LimitType req) (sq_EnergyLimitSource req) (sq_EnergyLimitWh req) True = (sq_EnergyLimitSource req, True)
    \<and> normalizeV1LimitSource (sq_LimitType req) (sq_DurationLimitSource req) (sq_MaxDurationSeconds req) False = (sq_DurationLimitSource req, True)
    \<and> sq_LimitType req \<noteq> ''''"
  using assms normalizeV1LimitSource_sound by (auto simp: normalize_start_def Let_def split: prod.splits if_splits)

text \<open>
  Validation implies the constraints of the table. A start that passes the API's checks, with
  the sources filled in for older CMS versions, satisfies every check of \<^verbatim>\<open>v1_remote_commands\<close>: a limit
  is positive and has a source that fits it, an absent limit has the source \<^verbatim>\<open>NONE\<close>. Normalizing it
  again changes nothing, so the digest of a replay is the digest of the original.
\<close>

theorem valid_start_satisfies_checks:
  assumes "normalize_start request = (req, True)" and "valid_start N r req True"
  shows "start_command_check (start_input N correlation idempotency req) \<and> normalize_start req = (req, True)"
proof -
  note n = normalize_start_sound [OF assms(1)]
  have v: "sq_OCPPConnectorNumber req > 0" "sq_LimitType req \<in> {''AUTO'', ''ENERGY'', ''TIME'', ''MONEY''}"
    "sq_EnergyLimitWh req \<ge> 0" "sq_MaxDurationSeconds req \<ge> 0"
    using assms(2) unfolding valid_start_def validV1LimitType_def Let_def by blast+
  have e: "sq_EnergyLimitWh req = 0 \<and> sq_EnergyLimitSource req = ''NONE''
      \<or> sq_EnergyLimitWh req \<noteq> 0 \<and> sq_EnergyLimitSource req \<in> {''CUSTOMER_ENERGY'', ''CUSTOMER_MONEY'', ''WALLET''}"
    using n normalizeV1LimitSource_sound [of "sq_LimitType req" "sq_EnergyLimitSource req" "sq_EnergyLimitWh req" True] by force
  have d: "sq_MaxDurationSeconds req = 0 \<and> sq_DurationLimitSource req = ''NONE''
      \<or> sq_MaxDurationSeconds req \<noteq> 0 \<and> sq_DurationLimitSource req \<in> {''CUSTOMER_TIME'', ''CUSTOMER_MONEY'', ''WALLET''}"
    using n normalizeV1LimitSource_sound [of "sq_LimitType req" "sq_DurationLimitSource req" "sq_MaxDurationSeconds req" False] by force
  have "start_command_check (start_input N correlation idempotency req)"
    unfolding start_command_check_def start_input_def using v e d by (intro conjI) auto
  moreover have "normalize_start req = (req, True)" using n by (simp add: normalize_start_def Let_def)
  ultimately show ?thesis ..
qed

text \<open>What a command keeps from its creation on.\<close>

definition command_content :: "V1RemoteCommand \<Rightarrow> string \<times> string \<times> string \<times> string \<times> int option \<times> string \<times> int option \<times> string" where
  "command_content c = (cmd_CMSCommandID c, cmd_RequestDigest c, cmd_IDTag c, cmd_LimitType c, cmd_EnergyLimitWh c, cmd_EnergyLimitSource c,
     cmd_MaxDurationSeconds c, cmd_DurationLimitSource c)"

definition input_content :: "V1StartCommandInput \<Rightarrow> string \<times> string \<times> string \<times> string \<times> int option \<times> string \<times> int option \<times> string" where
  "input_content i = (stin_CMSCommandID i, stin_RequestDigest i, stin_IDTag i, stin_LimitType i, stin_EnergyLimitWh i, stin_EnergyLimitSource i,
     stin_MaxDurationSeconds i, stin_DurationLimitSource i)"

lemma content_update [simp]: "command_content (cr_Command (command_update now state until r)) = command_content (cr_Command r)"
  "command_content (cr_Command (mark_command now state result category detail r)) = command_content (cr_Command r)"
  "command_content (c\<lparr>cmd_DeliveryAttempts := n\<rparr>) = command_content c"
  by (simp_all add: command_update_def mark_command_def command_content_def)

lemma content_update_row:
  assumes "pg_GetV1Command i db = Inr c" and "\<And>r. command_key (f r) = command_key r" and "\<And>r. command_content (cr_Command (f r)) = command_content (cr_Command r)"
    and "pg_GetV1Command i db' = Inr c'" and "db_commands db' = sql_update P f (db_commands db)"
  shows "command_content c' = command_content c"
  using assms by (auto simp: pg_GetV1Command_def getV1CommandWith_def sql_row_update split: option.splits if_splits)

lemma mark_command_stored:
  assumes "pg_GetV1Command i db = Inr c" and "pg_MarkV1CommandDelivery E i status result detail db = (Inr c', db')"
  shows "pg_GetV1Command i db' = Inr c' \<and> command_content c' = command_content c"
proof -
  obtain state category where o: "delivery_outcome status = (state, category)" by force
  let ?db1 = "db\<lparr>db_commands := sql_update (\<lambda>r. command_key r = i \<and> cmd_State (cr_Command r) \<notin> {''MATERIALIZED'', ''SUPERSEDED''})
    (mark_command (env_now E) state result category detail) (db_commands db)\<rparr>"
  have "\<exists>d. getV1CommandWith ?db1 i = Inr d" using command_found_update [OF assms(1) update_keys(2)] unfolding pg_GetV1Command_def .
  then obtain d where d: "getV1CommandWith ?db1 i = Inr d" ..
  have "c' = d \<and> db_commands db' = db_commands ?db1"
    using assms(2) unfolding pg_MarkV1CommandDelivery_def pg_tx_Inr o Let_def case_prod_conv d
    by (auto simp: tx_bind_Inr dest: insertV1FactTx_frame split: if_splits)
  then show ?thesis using d content_update_row [OF assms(1), of "mark_command (env_now E) state result category detail" ?db1 d]
    by (auto simp: pg_GetV1Command_def getV1CommandWith_def)
qed

lemma begin_start_content:
  assumes "pg_GetV1Command i db = Inr c" and "pg_BeginV1CommandDelivery now i db = (Inr c', db')"
  shows "command_content c' = command_content c"
proof -
  let ?f = "\<lambda>r. command_update now ''DELIVERY_ATTEMPTED'' (Some (now + 2 * duration_minute))
    (r\<lparr>cr_Command := (cr_Command r)\<lparr>cmd_DeliveryAttempts := cmd_DeliveryAttempts (cr_Command r) + 1\<rparr>\<rparr>)"
  have "pg_GetV1Command i db' = Inr c'" "db_commands db' = sql_update (start_in i ''PENDING_DELIVERY'') ?f (db_commands db)"
    using assms(2) by (auto simp: pg_BeginV1CommandDelivery_def Let_def)
  then show ?thesis by (intro content_update_row [where f = ?f, OF assms(1)]) (auto simp: content_update)
qed

lemma start_deliver_stored:
  assumes "pg_GetV1Command (stin_CMSCommandID req) db = Inr c" and "v1Start_deliver D remoteStart req db = ((Inr c', sent), db')"
  shows "pg_GetV1Command (stin_CMSCommandID req) db' = Inr c' \<and> command_content c' = command_content c \<and> sent \<in> {[], [stin_CMSCommandID req]}"
proof -
  let ?i = "stin_CMSCommandID req"
  obtain x db1 where c: "pg_ClaimV1StartDelivery (env_now (de_claim D)) ?i db = (x, db1)" by force
  obtain y db2 where b: "pg_BeginV1CommandDelivery (env_now (de_begin D)) ?i db1 = (y, db2)" by force
  obtain w claimed where x: "x = Inr (w, claimed)" using assms(2) c by (auto simp: v1Start_deliver_def Let_def split: sum.splits)
  then have w: "pg_GetV1Command ?i db1 = Inr w" using c by (auto simp: pg_ClaimV1StartDelivery_def Let_def split: sum.splits)
  have cw: "command_content w = command_content c" 
    using claim_start_rows [OF c] content_update_row [OF assms(1) update_keys(1) content_update(1) w] by auto
  show ?thesis
  proof (cases claimed)
    case False
    then show ?thesis using assms(2) c x w cw by (auto simp: v1Start_deliver_def Let_def)
  next
    case True
    then obtain v where v: "y = Inr v" using assms(2) c x b by (auto simp: v1Start_deliver_def Let_def split: sum.splits)
    then have v2: "pg_GetV1Command ?i db2 = Inr v" using b by (auto simp: pg_BeginV1CommandDelivery_def Let_def)
    have "command_content v = command_content w"
      by (rule begin_start_content [OF w b [unfolded v]])
    moreover obtain status result detail where "pg_MarkV1CommandDelivery (de_mark D) ?i status result detail db2 = (Inr c', db')" "sent = [?i]"
      using assms(2) c x b v True by (auto simp: v1Start_deliver_def Let_def split: sum.splits prod.splits)
    ultimately show ?thesis using mark_command_stored [OF v2] cw by auto
  qed
qed


subsection \<open>Histories of requests\<close>

text \<open>
  The server over time: HTTP requests, with the calls they make to chargers appended to a log; writes
  of the store by anything else (charger messages, workers, mappings); and restarts, which recover
  the interrupted deliveries.
\<close>

inductive server_step :: "Server \<times> http_call list \<Rightarrow> Server \<times> http_call list \<Rightarrow> bool" where
  request: "Routes N r S = ((response, calls), S') \<Longrightarrow> server_step (S, wire) (S', wire @ calls)"
| store_change: "lifecycle_step (server_db S) db \<or> outer_step (server_db S) db \<Longrightarrow> server_step (S, wire) (with_db db S, wire)"
| restart: "server_step (S, wire) (with_db (pg_RecoverV1ChargerOperationDelivery now (pg_RecoverV1StopDelivery now
    (pg_RecoverV1CommandDelivery now (server_db S)))) S, wire)"

lemma beside_run: "R\<^sup>*\<^sup>* db db' \<Longrightarrow> (\<And>a b. R a b \<Longrightarrow> other a b) \<Longrightarrow> (delivery_step St other)\<^sup>*\<^sup>* (db, hs, wire) (db', hs, wire)"
  by (induction rule: rtranclp_induct) (auto intro: rtranclp.rtrancl_into_rtrancl delivery_step.other)

lemma delivery_beside:
  "stop_delivery_step\<^sup>*\<^sup>* db db' \<Longrightarrow> start_steps (db, {#}, wire) (db', {#}, wire)"
  "start_delivery_step\<^sup>*\<^sup>* db db' \<Longrightarrow> stop_steps (db, {#}, wire) (db', {#}, wire)"
  "quiet_step\<^sup>*\<^sup>* db db' \<Longrightarrow> start_steps (db, {#}, wire) (db', {#}, wire)"
  "quiet_step\<^sup>*\<^sup>* db db' \<Longrightarrow> stop_steps (db, {#}, wire) (db', {#}, wire)"
  by (erule beside_run; simp add: beside_start_def beside_stop_def; blast)+

lemma quiet_lifecycle: "lifecycle_step db db' \<Longrightarrow> quiet_step\<^sup>*\<^sup>* db db'"
  by (rule r_into_rtranclp) simp

lemma store_run_starts: "store_run db calls db' \<Longrightarrow> start_steps (db, {#}, wire) (db', {#}, wire @ starts_of calls)"
proof (induction rule: store_run.induct)
  case (start db db1 D remoteStart req result sent db2)
  then show ?case using rtranclp_trans [OF delivery_beside(3) [OF quiet_lifecycle, of db db1 wire] v1Start_deliver_run [OF start(2)]] by simp
next
  case (stop db db1 D remoteStop i workflow sent db2)
  then show ?case using rtranclp_trans [OF delivery_beside(3) [OF quiet_lifecycle, of db db1 wire] delivery_beside(1) [of db1 db2 wire]]
    DispatchV1Stop_deliveries [of db1 D remoteStop i] by simp
qed (simp add: delivery_beside)

lemma store_run_stops: "store_run db calls db' \<Longrightarrow> stop_steps (db, {#}, wire) (db', {#}, wire @ stops_of calls)"
proof (induction rule: store_run.induct)
  case (start db db1 D remoteStart req result sent db2)
  then show ?case using rtranclp_trans [OF delivery_beside(4) [OF quiet_lifecycle, of db db1 wire] delivery_beside(2) [of db1 db2 wire]]
    v1Start_deliver_deliveries [of db1 D remoteStart req] by simp
next
  case (stop db db1 D remoteStop i workflow sent db2)
  then show ?case using rtranclp_trans [OF delivery_beside(4) [OF quiet_lifecycle, of db db1 wire] DispatchV1Stop_run [OF stop(2)]] by simp
qed (simp add: delivery_beside)

lemma restart_runs:
  fixes db now defines "db' \<equiv> pg_RecoverV1ChargerOperationDelivery now (pg_RecoverV1StopDelivery now (pg_RecoverV1CommandDelivery now db))"
  shows "start_steps (db, {#}, wire) (db', {#}, wire)" and "stop_steps (db, {#}, wire) (db', {#}, wire)"
proof -
  obtain e :: mark_env where e: "env_now (de_claim (me_delivery e)) = now"
    by (metis delivery_env.select_convs(1) mark_env.select_convs(1) pg_env.select_convs(1))
  let ?a = "pg_RecoverV1CommandDelivery now db" and ?b = "pg_RecoverV1StopDelivery now (pg_RecoverV1CommandDelivery now db)"
  have ops: "outer_step ?b db'" unfolding db'_def by (rule outer_step.recover_operations)
  have "delivery_step start_store beside_start (db, {#}, wire) (?a, {#}, wire)"
    using delivery_step.restart [of start_store beside_start db "{#}" wire e] e by (simp add: start_store_def)
  moreover have "start_steps (?a, {#}, wire) (?b, {#}, wire)" using stop_delivery_step.recover_stops by (intro delivery_beside(1)) auto
  moreover have "start_steps (?b, {#}, wire) (db', {#}, wire)" using ops by (intro delivery_beside(3)) auto
  ultimately show "start_steps (db, {#}, wire) (db', {#}, wire)" by (meson converse_rtranclp_into_rtranclp rtranclp_trans)
  have "stop_steps (db, {#}, wire) (?a, {#}, wire)" using start_delivery_step.recover_commands by (intro delivery_beside(2)) auto
  moreover have "delivery_step stop_store beside_stop (?a, {#}, wire) (?b, {#}, wire)"
    using delivery_step.restart [of stop_store beside_stop ?a "{#}" wire e] e by (simp add: stop_store_def)
  moreover have "stop_steps (?b, {#}, wire) (db', {#}, wire)" using ops by (intro delivery_beside(4)) auto
  ultimately show "stop_steps (db, {#}, wire) (db', {#}, wire)" by (meson converse_rtranclp_into_rtranclp rtranclp_trans)
qed

lemma server_steps_runs:
  assumes "server_step\<^sup>*\<^sup>* (S, []) (S', wire)"
  shows "start_steps (server_db S, {#}, []) (server_db S', {#}, starts_of wire) \<and> stop_steps (server_db S, {#}, []) (server_db S', {#}, stops_of wire)"
  using assms
proof (induction "(S', wire)" arbitrary: S' wire rule: rtranclp_induct)
  case (step y)
  obtain S1 w1 where y: "y = (S1, w1)" by force
  have "start_steps (server_db S1, {#}, starts_of w1) (server_db S', {#}, starts_of wire)
      \<and> stop_steps (server_db S1, {#}, stops_of w1) (server_db S', {#}, stops_of wire)"
    using step(2) unfolding y
  proof (cases rule: server_step.cases)
    case (request N r response calls)
    then have "store_run (server_db S1) calls (server_db S')" using Routes_run [of S1 N r] by (simp add: request_run_def)
    then show ?thesis using store_run_starts store_run_stops request(1) by auto
  next
    case (store_change db)
    then show ?thesis by (auto intro!: delivery_beside)
  next
    case (restart now)
    then show ?thesis using restart_runs by auto
  qed
  then show ?case using step(3) [OF y] by (meson rtranclp_trans)
qed simp


subsection \<open>Secrets\<close>

text \<open>The configuration values a response shows.\<close>

fun shown_items :: "http_body \<Rightarrow> configuration_item list" where
  "shown_items (ConfigurationBody items unknown) = items"
| "shown_items (OperationAcceptedBody v c d (Some (items, unknown))) = items"
| "shown_items _ = []"

definition redacted_item :: "configuration_item \<Rightarrow> bool" where
  "redacted_item item \<longleftrightarrow> ci_redacted item = v1SensitiveConfigurationKey (ci_key item) \<and> (ci_redacted item \<longrightarrow> ci_value item = None)"

lemma safe_view_redacted [simp]: "v1SafeConfigurationView confirmation = (items, unknown) \<Longrightarrow> list_all redacted_item items"
  by (auto simp: v1SafeConfigurationView_def list_all_iff redacted_item_def configuration_view_def Let_def)

lemma error_items [simp]: "shown_items (rs_Body (writeV1StoreError e)) = []"
  by (simp add: writeV1StoreError_def)

abbreviation items_redacted :: "http_result \<Rightarrow> bool" where
  "items_redacted result \<equiv> list_all redacted_item (shown_items (rs_Body (fst (fst result))))"

lemma plain_handlers [simp]: "items_redacted (v1Command N r S)" "items_redacted (v1Transactions N r S)" "items_redacted (v1Transaction N r S)"
  "items_redacted (v1ChargerRuntime N r S)" "items_redacted (v1ConnectorRuntime N r S)"
  by (simp_all add: v1Command_def v1Transactions_def v1Transaction_def transaction_answer_def v1ChargerRuntime_def v1ConnectorRuntime_def
      Let_def split: sum.split)

lemma mutation_handlers [simp]: "items_redacted (v1Mapping N r S)" "items_redacted (v1Start N r S)" "items_redacted (v1Stop N r S)"
  "items_redacted (v1FactRequeue N r S)"
  by (simp_all add: v1Mapping_def v1Start_def v1Stop_def v1FactRequeue_def Let_def split: option.split sum.split prod.split)

lemma v1ConfigurationRead_redacted [simp]: "items_redacted (v1ConfigurationRead N r S)"
  by (simp add: v1ConfigurationRead_def Let_def split: option.split sum.split prod.split)

lemma v1ChargerOperations_redacted [simp]: "items_redacted (v1ChargerOperations N r S)"
proof (cases rule: v1ChargerOperations_cases [of N r S])
  case (refused response)
  then have "shown_items (rs_Body response) = []" by (cases "rs_Body response" rule: shown_items.cases) auto
  with refused(1) show ?thesis by simp
next
  case (known input op duplicate db body)
  then show ?thesis by auto
next
  case (dispatched input op duplicate db op' configuration sent h T body)
  then show ?thesis by (cases configuration; cases "v1SafeConfigurationView (the configuration)") auto
qed

text \<open>
  C27: the API never shows a secret of a charger. In every response, to whatever request, the
  configuration values are marked redacted exactly for the sensitive keys, and a redacted key comes
  without its value.
\<close>

theorem configuration_secrets_redacted:
  assumes "Routes N r S = ((response, calls), S')"
  shows "list_all redacted_item (shown_items (rs_Body response))"
proof -
  have "items_redacted (requireV1Service handler N r S)" if "v1_route (hr_Path r) = Some handler" for handler
    using that by (auto simp: requireV1Service_authenticated v1_route_def split: if_splits)
  then have "items_redacted (Routes N r S)" by (auto simp: Routes_def registerAPIDocs_def split: option.split)
  with assms show ?thesis by simp
qed

subsection \<open>A concrete exchange\<close>

text \<open>The CMS starts a charge on the enrolled charger with a limit of 300 Wh and no source, as older versions do.\<close>

definition sample_http_start :: v1StartRequest where
  "sample_http_start = \<lparr>sq_TraceID = '''', sq_CMSCommandID = ''cmd'', sq_CMSStartIntentID = ''intent'', sq_CPOID = ''cpo'', sq_CustomerID = ''cust'',
     sq_CMSChargerID = ''ch'', sq_CMSConnectorID = ''con'', sq_ChargerOCPPIdentity = ''CP1'', sq_OCPPConnectorNumber = 1, sq_IDTag = ''appv1_tag'',
     sq_CredentialExpiresAt = 100000, sq_CommandExpiresAt = 200000, sq_LimitType = ''ENERGY'', sq_EnergyLimitWh = 300,
     sq_EnergyLimitSource = '''', sq_MaxDurationSeconds = 0, sq_DurationLimitSource = ''''\<rparr>"

definition sample_confirmation :: GetConfigurationConfirmation where
  "sample_confirmation = \<lparr>gc_ConfigurationKey = [\<lparr>ck_Key = ''AuthorizationKey'', ck_Readonly = False, ck_Value = Some ''hunter2''\<rparr>,
     \<lparr>ck_Key = ''HeartbeatInterval'', ck_Readonly = False, ck_Value = Some ''60''\<rparr>], gc_UnknownKey = []\<rparr>"

definition sample_http_env :: http_env where
  "sample_http_env = \<lparr>hn_now = 9000, hn_uuidParse = Some, hn_sha256 = (\<lambda>s. s), hn_mapping = (\<lambda>_. None),
     hn_start = (\<lambda>body. if body = ''start'' then Some sample_http_start else None), hn_stop = (\<lambda>_. None), hn_operation = (\<lambda>_. None),
     hn_configuration = (\<lambda>_. Some \<lparr>cq_CPOID = ''cpo'', cq_CMSChargerID = ''ch'', cq_ChargerOCPPIdentity = ''CP1'', cq_Keys = []\<rparr>),
     hn_mappingJSON = (\<lambda>_. ''''), hn_startJSON = (\<lambda>_. ''json''), hn_stopJSON = (\<lambda>_. ''''), hn_operationJSON = (\<lambda>_. ''''),
     hn_store = sample_call CHR ''a'', hn_faults = no_faults, hn_delivery = sample_delivery,
     hn_dispatch = \<lparr>oe_claim = 9000, oe_mark = 9000, oe_send = (\<lambda>_ _. SendFailed ErrV1InvalidEvidence), oe_key = 0, oe_trace = sample_trace_env CHR ''t''\<rparr>,
     hn_trace = (\<lambda>_. sample_trace_env CHR ''t''), hn_updated = (\<lambda>_. 0), hn_send = (\<lambda>_ _. Answered None (Some ''Accepted'')),
     hn_getConfiguration = (\<lambda>_ _. Answered None (Some sample_confirmation))\<rparr>"

definition sample_http_request :: "string \<Rightarrow> string \<Rightarrow> string \<Rightarrow> http_request" where
  "sample_http_request token path body = \<lparr>hr_Method = ''POST'', hr_Path = path,
     hr_Header = (\<lambda>h. if h = ''Authorization'' then ''Bearer '' @ token else if h = ''Idempotency-Key'' then ''cmd'' else ''corr''),
     hr_Query = (\<lambda>_. ''''), hr_Body = body\<rparr>"

definition sample_server :: "PostgresStore \<Rightarrow> Server" where
  "sample_server db = \<lparr>sv_V1CMSBearerToken = ''token'', sv_APIDocsEnabled = False, sv_hal = sample_hal db, sv_traces = empty_traces\<rparr>"

abbreviation sample_start_call :: http_request where
  "sample_start_call \<equiv> sample_http_request ''token'' ''/v1/remote-commands/start'' ''start''"

lemmas http_sample_defs = sample_http_start_def sample_http_env_def sample_http_request_def sample_server_def Routes_def v1_route_def
  requireV1Service_def HasPrefix_def TrimPrefix_def TrimSpace_def is_space_def validUUID_def nil_uuid_def

lemma sample_normalized: "normalize_start sample_http_start
    = (sample_http_start\<lparr>sq_EnergyLimitSource := ''CUSTOMER_ENERGY'', sq_DurationLimitSource := ''NONE''\<rparr>, True)"
  by (simp add: normalize_start_def sample_http_start_def normalizeV1LimitSource_def validV1LimitSource_def)

lemma sample_valid: "valid_start sample_http_env sample_start_call (fst (normalize_start sample_http_start)) True"
  unfolding sample_normalized by (simp add: valid_start_def http_sample_defs validV1LimitType_def)

lemma sample_enrolled_valid: "pg_ValidateV1Mapping ''cpo'' ''ch'' ''con'' ''CP1'' 1 sample_enrolled = Inr ()"
  "db_commands sample_enrolled = []" "db_credentials sample_enrolled = []" "db_facts sample_enrolled = []"
  by (simp_all add: pg_ValidateV1Mapping_def sample_enrolled_def pg_SyncV1Mapping_def pg_tx_def sync_mapping_tx_def sample_mapping_def sample_env_def
      empty_db_def insert_mapping_def serial_check_def is_space_def sql_row_def seed_runtime_def audit_mapping_def
      NewSecureUUIDString_def nil_uuid_def loadV1Mapping_def new_mapping_def Let_def)

lemma sample_http_simps [simp]:
  "hn_start sample_http_env (hr_Body sample_start_call) = Some sample_http_start" "hr_Method sample_start_call = ''POST''"
  "hn_store sample_http_env = sample_call CHR ''a''" "hn_delivery sample_http_env = sample_delivery" "hn_send sample_http_env = (\<lambda>_ _. Answered None (Some ''Accepted''))"
  "server_db (sample_server db) = db" "hal_wiredIdentity (sv_hal (sample_server db)) = []"
  by (simp_all add: http_sample_defs)

lemma sample_start_routed: "Routes N sample_start_call (sample_server db) = v1Start N sample_start_call (sample_server db)"
  by (simp add: http_sample_defs)

lemma sample_wire: "(\<lambda>chargerID idTag connectorID. fst (RemoteStartTransaction [] (\<lambda>_ _. Answered None (Some ''Accepted''))
    chargerID idTag connectorID)) = (\<lambda>_ _ _. Inr ''Accepted'')"
  by (simp add: fun_eq_iff RemoteStartTransaction_def call_charger_def await_confirmation_def Let_def)

lemma sample_start_accepted:
  "\<exists>response S'. v1Start sample_http_env sample_start_call (sample_server sample_enrolled) = ((response, [SentStart ''cmd'']), S') \<and> rs_Status response = 202"
proof -
  obtain req where n: "normalize_start sample_http_start = (req, True)" and
    req: "req = sample_http_start\<lparr>sq_EnergyLimitSource := ''CUSTOMER_ENERGY'', sq_DurationLimitSource := ''NONE''\<rparr>" by (simp add: sample_normalized)
  define input where "input = start_input sample_http_env ''corr'' ''cmd'' req"
  have i: "input = pg_sample_start\<lparr>stin_RequestDigest := ''json'' @ [CHR 0x0A] @ ''cmd'', stin_CommandExpiresAt := 200000\<rparr>"
    unfolding input_def req by (simp add: start_input_def http_sample_defs digestJSON_def pg_sample_start_def)
  define db where "db = sample_enrolled\<lparr>db_commands := [start_command_row 9000 ''a0'' input], db_credentials := [new_credential input]\<rparr>"
  have "\<exists>c. pg_CreateV1StartCommand (sample_call CHR ''a'') input sample_enrolled = (Inr (c, False), db)"
    unfolding i db_def by (simp add: pg_session_defs sample_enrolled_valid)
  then obtain c where c: "pg_CreateV1StartCommand (sample_call CHR ''a'') input sample_enrolled = (Inr (c, False), db)" ..
  have "\<exists>c db'. v1Start_deliver sample_delivery (\<lambda>_ _ _. Inr ''Accepted'') input db = ((Inr c, [''cmd'']), db')"
    unfolding i db_def
    by (simp add: v1Start_deliver_def sample_delivery_def pg_ClaimV1StartDelivery_def pg_BeginV1CommandDelivery_def
      pg_MarkV1CommandDelivery_def delivery_outcome_def sql_count_def start_in_def command_update_def mark_command_def pg_session_defs sample_enrolled_valid)
  then obtain c' db' where d: "v1Start_deliver sample_delivery (\<lambda>_ _ _. Inr ''Accepted'') input db = ((Inr c', [''cmd'']), db')" by blast
  have h: "v1MutationHeaders sample_http_env sample_start_call = Some (''corr'', ''cmd'')"
    by (simp add: v1MutationHeaders_def http_sample_defs)
  have v: "pg_ValidateV1Mapping (sq_CPOID req) (sq_CMSChargerID req) (sq_CMSConnectorID req) (sq_ChargerOCPPIdentity req)
      (sq_OCPPConnectorNumber req) sample_enrolled = Inr ()"
    using sample_enrolled_valid(1) unfolding req by (simp add: sample_http_start_def)
  show ?thesis using sample_valid
    by (simp add: v1Start_def n h v c d Let_def sample_wire writeJSON_def flip: input_def)
qed

theorem client_error_inert_witness:
  "Routes sample_http_env (sample_http_request ''guess'' ''/v1/remote-commands/start'' ''start'') (sample_server sample_enrolled)
     = ((writeJSON 401 (ErrorBody ''v1 service authentication required''), []), sample_server sample_enrolled)"
proof -
  let ?r = "sample_http_request ''guess'' ''/v1/remote-commands/start'' ''start''"
  obtain response calls S' where run: "Routes sample_http_env ?r (sample_server sample_enrolled) = ((response, calls), S')"
    by (metis prod.exhaust)
  moreover from run have "response = writeJSON 401 (ErrorBody ''v1 service authentication required'')" by (simp add: http_sample_defs)
  moreover have "hashing_errors_internal (de_mark (hn_delivery sample_http_env))"
    by (simp add: hashing_errors_internal_def sample_http_env_def sample_delivery_def sample_call_def)
  ultimately show ?thesis using client_error_inert [OF _ run] by (simp add: client_error_def writeJSON_def)
qed

theorem requests_refine_lifecycle_witness:
  "pg_step\<^sup>*\<^sup>* sample_enrolled (server_db (snd (Routes sample_http_env sample_start_call (sample_server sample_enrolled))))"
proof -
  obtain response calls S' where run: "Routes sample_http_env sample_start_call (sample_server sample_enrolled) = ((response, calls), S')"
    by (metis prod.exhaust)
  from requests_refine_lifecycle [OF run] run show ?thesis by (simp add: sample_server_def)
qed

theorem valid_start_satisfies_checks_witness:
  "start_command_check (start_input sample_http_env ''corr'' ''cmd'' (fst (normalize_start sample_http_start)))"
  using valid_start_satisfies_checks [of sample_http_start _ sample_http_env sample_start_call "''corr''" "''cmd''"] sample_valid
  by (simp add: sample_normalized)



theorem configuration_secrets_redacted_witness:
  "list_all redacted_item (shown_items (rs_Body (fst (fst (Routes sample_http_env
     (sample_http_request ''token'' ''/v1/charger-configurations/read'' '''') (sample_server sample_enrolled))))))"
proof -
  let ?run = "Routes sample_http_env (sample_http_request ''token'' ''/v1/charger-configurations/read'' '''') (sample_server sample_enrolled)"
  obtain response calls S' where run: "?run = ((response, calls), S')" by (metis prod.exhaust)
  from configuration_secrets_redacted [OF run] run show ?thesis by simp
qed

end
