(* ===== verification/Service_Config.thy ===== *)
theory Service_Config
  imports Charger_Registry HAL_Identity Operation_Requests
begin

text \<open>
  The runtime configuration (\<^verbatim>\<open>config/config.go\<close>): where the settings come from, how each is parsed,
  and the checks that stand between an operator's mistake and a running service. Parameters: the
  process environment as \<^verbatim>\<open>os.Environ\<close> lists it, the local \<^verbatim>\<open>.env\<close> file, and \<^verbatim>\<open>url.Parse\<close>. An error names
  what its message names.
\<close>

datatype config_error = ReadLocalEnv | InvalidLine nat | InvalidSetting string | RequiredSetting string

type_synonym 'a config_res = "config_error + 'a"

type_synonym setting_values = "string \<Rightarrow> string option"

record url =
  url_Scheme :: string
  url_User :: "string option"
  url_Host :: string
  url_Path :: string
  url_Fragment :: string

record Config =
  cfg_Environment :: string
  cfg_RESTHost :: string
  cfg_RESTPort :: string
  cfg_OCPPListenPort :: int
  cfg_OCPPListenPath :: string
  cfg_OCPPHeartbeatIntervalSeconds :: int
  cfg_OCPPMeterSampleIntervalSeconds :: int
  cfg_OCPPConfigurationReconcileTimeoutSeconds :: int
  cfg_OCPPVendorConfigurationProfile :: string
  cfg_OCPPVendorConfigurationVendor :: string
  cfg_LogLevel :: int
  cfg_DatabaseURL :: string
  cfg_DBName :: string
  cfg_DBUser :: string
  cfg_DBPassword :: string
  cfg_DBHost :: string
  cfg_DBPort :: int
  cfg_DBSSLMode :: string
  cfg_V1CMSBearerToken :: string
  cfg_V1FactDeliveryEnabled :: bool
  cfg_V1CMSFactsURL :: string
  cfg_V1CMSFactsBearerToken :: string
  cfg_V1TraceDeliveryEnabled :: bool
  cfg_V1CMSTraceURL :: string
  cfg_V1CMSTraceBearerToken :: string
  cfg_V1TraceRetentionDays :: int
  cfg_V1TraceRetentionIntervalSeconds :: int
  cfg_MigrationApplicationRole :: string
  cfg_APIDocsEnabled :: bool

text \<open>An early return on an error.\<close>

definition checked :: "'a config_res \<Rightarrow> ('a \<Rightarrow> 'b config_res) \<Rightarrow> 'b config_res" where
  "checked r k = (case r of Inl e \<Rightarrow> Inl e | Inr x \<Rightarrow> k x)"

lemma checked_Inr [simp]: "checked r k = Inr y \<longleftrightarrow> (\<exists>x. r = Inr x \<and> k x = Inr y)"
  by (simp add: checked_def split: sum.split)

subsection \<open>Sources\<close>

fun Cut :: "char \<Rightarrow> string \<Rightarrow> (string \<times> string) option" where
  "Cut sep [] = None"
| "Cut sep (c # s) = (if c = sep then Some ([], s) else map_option (apfst ((#) c)) (Cut sep s))"

definition Trim :: "string \<Rightarrow> string \<Rightarrow> string" where
  "Trim s cutset = rev (dropWhile (\<lambda>c. c \<in> set cutset) (rev (dropWhile (\<lambda>c. c \<in> set cutset) s)))"

definition parseEnvironment :: "string \<Rightarrow> string config_res" where
  "parseEnvironment raw =
     (let parsed = ToLower (TrimSpace raw) in
      if parsed \<in> {''development'', ''test'', ''production''} then Inr parsed else Inl (InvalidSetting ''HAL_ENVIRONMENT''))"

fun readLocalEnv_lines :: "nat \<Rightarrow> string list \<Rightarrow> setting_values \<Rightarrow> setting_values config_res" where
  "readLocalEnv_lines n [] values = Inr values"
| "readLocalEnv_lines n (line # lines) values =
     (let line = TrimSpace line in
      if line = '''' \<or> HasPrefix line ''#'' then readLocalEnv_lines (n + 1) lines values
      else (case Cut (CHR ''='') line of
          None \<Rightarrow> Inl (InvalidLine (n + 1))
        | Some (key, raw) \<Rightarrow>
            (let key = TrimSpace key in
             if key = '''' then Inl (InvalidLine (n + 1))
             else readLocalEnv_lines (n + 1) lines (values(key \<mapsto> Trim (TrimSpace raw) [CHR 0x22, CHR 0x27])))))"

text \<open>The file: \<open>None\<close> when it does not exist, an error when it cannot be read.\<close>

definition readLocalEnv :: "string option config_res \<Rightarrow> setting_values config_res" where
  "readLocalEnv file =
     (case file of
        Inl _ \<Rightarrow> Inl ReadLocalEnv
      | Inr None \<Rightarrow> Inr (\<lambda>_. None)
      | Inr (Some data) \<Rightarrow> readLocalEnv_lines 0 (Split (CHR 0x0A) data) (\<lambda>_. None))"

definition process_values :: "string list \<Rightarrow> setting_values" where
  "process_values environ = fold (\<lambda>pair values. case Cut (CHR ''='') pair of None \<Rightarrow> values | Some (key, raw) \<Rightarrow> values(key \<mapsto> raw)) environ (\<lambda>_. None)"

definition merge_local :: "setting_values \<Rightarrow> setting_values \<Rightarrow> setting_values" where
  "merge_local values local = (\<lambda>key. if key = ''HAL_ENVIRONMENT'' then values key else case values key of Some raw \<Rightarrow> Some raw | None \<Rightarrow> local key)"

definition loadValues :: "string list \<Rightarrow> string option config_res \<Rightarrow> setting_values config_res" where
  "loadValues environ file =
     (let values = process_values environ;
          local = checked (readLocalEnv file) (\<lambda>local. Inr (merge_local values local))
      in case values ''HAL_ENVIRONMENT'' of
           None \<Rightarrow> local
         | Some raw \<Rightarrow> checked (parseEnvironment raw) (\<lambda>environment. if environment = ''production'' then Inr values else local))"

subsection \<open>Single settings\<close>

definition setting :: "setting_values \<Rightarrow> string \<Rightarrow> string \<Rightarrow> string" where
  "setting values key fallback = (case values key of Some raw \<Rightarrow> TrimSpace raw | None \<Rightarrow> fallback)"

definition parseBoundedInt :: "string \<Rightarrow> string \<Rightarrow> int \<Rightarrow> int \<Rightarrow> int config_res" where
  "parseBoundedInt key raw minimum maximum =
     (case Atoi (TrimSpace raw) of
        None \<Rightarrow> Inl (InvalidSetting key)
      | Some parsed \<Rightarrow> if parsed < minimum \<or> parsed > maximum then Inl (InvalidSetting key) else Inr parsed)"

definition parsePort :: "string \<Rightarrow> string \<Rightarrow> string config_res" where
  "parsePort key raw = checked (parseBoundedInt key raw 1 65535) (\<lambda>value. Inr (FormatInt value))"

text \<open>\<^verbatim>\<open>strconv.ParseBool\<close>.\<close>

definition ParseBool :: "string \<Rightarrow> bool option" where
  "ParseBool s =
     (if s \<in> {''1'', ''t'', ''T'', ''true'', ''TRUE'', ''True''} then Some True
      else if s \<in> {''0'', ''f'', ''F'', ''false'', ''FALSE'', ''False''} then Some False
      else None)"

definition parseBool :: "string \<Rightarrow> string \<Rightarrow> bool config_res" where
  "parseBool key raw = (case ParseBool (TrimSpace raw) of None \<Rightarrow> Inl (InvalidSetting key) | Some parsed \<Rightarrow> Inr parsed)"

definition parseLogLevel :: "string \<Rightarrow> int config_res" where
  "parseLogLevel raw =
     (let level = ToLower (TrimSpace raw) in
      if level = ''debug'' then Inr (- 4) else if level = ''info'' then Inr 0
      else if level = ''warn'' \<or> level = ''warning'' then Inr 4 else if level = ''error'' then Inr 8
      else Inl (InvalidSetting ''LOG_LEVEL''))"

definition validateHTTPURL :: "(string \<Rightarrow> url option) \<Rightarrow> string \<Rightarrow> string \<Rightarrow> unit config_res" where
  "validateHTTPURL urlParse key raw =
     (case urlParse (TrimSpace raw) of
        None \<Rightarrow> Inl (InvalidSetting key)
      | Some parsed \<Rightarrow> if url_Host parsed = '''' \<or> (url_Scheme parsed \<noteq> ''http'' \<and> url_Scheme parsed \<noteq> ''https'')
            \<or> url_User parsed \<noteq> None \<or> url_Fragment parsed \<noteq> '''' then Inl (InvalidSetting key) else Inr ())"

definition validatePostgresURL :: "(string \<Rightarrow> url option) \<Rightarrow> string \<Rightarrow> unit config_res" where
  "validatePostgresURL urlParse raw =
     (case urlParse (TrimSpace raw) of
        None \<Rightarrow> Inl (InvalidSetting ''DATABASE_URL'')
      | Some parsed \<Rightarrow> if (url_Scheme parsed \<noteq> ''postgres'' \<and> url_Scheme parsed \<noteq> ''postgresql'') \<or> url_Host parsed = ''''
            \<or> Trim (url_Path parsed) ''/'' = '''' then Inl (InvalidSetting ''DATABASE_URL'') else Inr ())"

subsection \<open>The whole configuration\<close>

definition require :: "bool \<Rightarrow> config_error \<Rightarrow> unit config_res" where
  "require ok e = (if ok then Inr () else Inl e)"

lemma require_Inr [simp]: "require ok e = Inr u \<longleftrightarrow> ok"
  by (simp add: require_def)

text \<open>The checks for one kind of delivery to the CMS.\<close>

definition validate_delivery :: "(string \<Rightarrow> url option) \<Rightarrow> bool \<Rightarrow> string \<Rightarrow> string \<Rightarrow> string \<Rightarrow> string \<Rightarrow> unit config_res" where
  "validate_delivery urlParse enabled urlKey target tokenKey token =
     (if enabled then checked (validateHTTPURL urlParse urlKey target) (\<lambda>_. require (TrimSpace token \<noteq> '''') (RequiredSetting tokenKey))
      else Inr ())"

definition validate :: "(string \<Rightarrow> url option) \<Rightarrow> Config \<Rightarrow> unit config_res" where
  "validate urlParse c =
     checked (require (TrimSpace (cfg_RESTHost c) \<noteq> '''') (InvalidSetting ''F_SERVER_HOST'')) (\<lambda>_.
     checked (require (HasPrefix (cfg_OCPPListenPath c) ''/'') (InvalidSetting ''OCPP_LISTEN_PATH'')) (\<lambda>_.
     checked (require (TrimSpace (cfg_V1CMSBearerToken c) \<noteq> '''') (RequiredSetting ''HAL_V1_CMS_BEARER_TOKEN'')) (\<lambda>_.
     checked (validate_delivery urlParse (cfg_V1FactDeliveryEnabled c) ''HAL_V1_CMS_FACTS_URL'' (cfg_V1CMSFactsURL c)
       ''HAL_V1_CMS_FACT_BEARER_TOKEN'' (cfg_V1CMSFactsBearerToken c)) (\<lambda>_.
     checked (validate_delivery urlParse (cfg_V1TraceDeliveryEnabled c) ''HAL_V1_CMS_TRACE_URL'' (cfg_V1CMSTraceURL c)
       ''HAL_V1_CMS_TRACE_BEARER_TOKEN'' (cfg_V1CMSTraceBearerToken c)) (\<lambda>_.
     checked (if TrimSpace (cfg_DatabaseURL c) \<noteq> '''' then validatePostgresURL urlParse (cfg_DatabaseURL c)
        else require (TrimSpace (cfg_DBName c) \<noteq> '''' \<and> TrimSpace (cfg_DBUser c) \<noteq> '''' \<and> TrimSpace (cfg_DBPassword c) \<noteq> ''''
          \<and> TrimSpace (cfg_DBHost c) \<noteq> '''') (RequiredSetting ''DATABASE_URL'')) (\<lambda>_.
     require (cfg_DBSSLMode c \<in> {''disable'', ''allow'', ''prefer'', ''require'', ''verify-ca'', ''verify-full''})
       (InvalidSetting ''DB_SSLMODE'')))))))"

definition bounded :: "setting_values \<Rightarrow> string \<Rightarrow> string \<Rightarrow> int \<Rightarrow> int \<Rightarrow> int config_res" where
  "bounded values key fallback minimum maximum = parseBoundedInt key (setting values key fallback) minimum maximum"

definition parse_vendor :: "setting_values \<Rightarrow> (string \<times> string) config_res" where
  "parse_vendor values =
     (let profile = TrimSpace (setting values ''OCPP_VENDOR_CONFIGURATION_PROFILE'' '''');
          vendor = TrimSpace (setting values ''OCPP_VENDOR_CONFIGURATION_VENDOR'' '''')
      in if profile \<noteq> '''' \<and> profile \<noteq> ''legacy-remote-only'' then Inl (InvalidSetting ''OCPP_VENDOR_CONFIGURATION_PROFILE'')
         else if profile \<noteq> '''' \<and> vendor = '''' then Inl (RequiredSetting ''OCPP_VENDOR_CONFIGURATION_VENDOR'')
         else Inr (profile, vendor))"

definition parse_config :: "(string \<Rightarrow> url option) \<Rightarrow> setting_values \<Rightarrow> Config config_res" where
  "parse_config urlParse values =
     checked (parseEnvironment (setting values ''HAL_ENVIRONMENT'' ''development'')) (\<lambda>environment.
     checked (parsePort ''F_SERVER_PORT'' (setting values ''F_SERVER_PORT'' ''18080'')) (\<lambda>restPort.
     checked (parsePort ''OCPP_LISTEN_PORT'' (setting values ''OCPP_LISTEN_PORT'' (FormatInt 18081))) (\<lambda>ocppPortString.
     let ocppPort = (case Atoi ocppPortString of Some p \<Rightarrow> p | None \<Rightarrow> 0) in
     checked (bounded values ''OCPP_HEARTBEAT_INTERVAL_SECONDS'' (FormatInt 300) 1 86400) (\<lambda>heartbeat.
     checked (bounded values ''OCPP_METER_VALUE_SAMPLE_INTERVAL_SECONDS'' (FormatInt 15) 1 3600) (\<lambda>meterSampleInterval.
     checked (bounded values ''OCPP_CONFIGURATION_RECONCILE_TIMEOUT_SECONDS'' (FormatInt 20) 1 120) (\<lambda>reconcileTimeout.
     checked (bounded values ''HAL_V1_TRACE_RETENTION_DAYS'' ''30'' 1 3650) (\<lambda>traceRetentionDays.
     checked (bounded values ''HAL_V1_TRACE_RETENTION_INTERVAL_SECONDS'' ''3600'' 60 86400) (\<lambda>traceRetentionInterval.
     checked (parse_vendor values) (\<lambda>(vendorProfile, vendorProfileVendor).
     checked (parsePort ''DB_PORT'' (setting values ''DB_PORT'' (FormatInt 5432))) (\<lambda>dbPortString.
     let dbPort = (case Atoi dbPortString of Some p \<Rightarrow> p | None \<Rightarrow> 0) in
     checked (parseBool ''HAL_V1_FACT_DELIVERY_ENABLED'' (setting values ''HAL_V1_FACT_DELIVERY_ENABLED'' ''false'')) (\<lambda>factDelivery.
     checked (parseBool ''HAL_V1_TRACE_DELIVERY_ENABLED'' (setting values ''HAL_V1_TRACE_DELIVERY_ENABLED'' ''false'')) (\<lambda>traceDelivery.
     checked (parseBool ''API_DOCS_ENABLED'' (setting values ''API_DOCS_ENABLED'' ''false'')) (\<lambda>docsEnabled.
     checked (parseLogLevel (setting values ''LOG_LEVEL'' ''info'')) (\<lambda>level.
     let cfg = \<lparr>cfg_Environment = environment, cfg_RESTHost = setting values ''F_SERVER_HOST'' ''127.0.0.1'', cfg_RESTPort = restPort,
       cfg_OCPPListenPort = ocppPort, cfg_OCPPListenPath = setting values ''OCPP_LISTEN_PATH'' ''/{ws:.*}'',
       cfg_OCPPHeartbeatIntervalSeconds = heartbeat, cfg_OCPPMeterSampleIntervalSeconds = meterSampleInterval,
       cfg_OCPPConfigurationReconcileTimeoutSeconds = reconcileTimeout, cfg_OCPPVendorConfigurationProfile = vendorProfile,
       cfg_OCPPVendorConfigurationVendor = vendorProfileVendor, cfg_LogLevel = level,
       cfg_DatabaseURL = setting values ''DATABASE_URL'' '''', cfg_DBName = setting values ''DB_NAME'' '''',
       cfg_DBUser = setting values ''DB_USER'' '''', cfg_DBPassword = setting values ''DB_PASSWORD'' '''',
       cfg_DBHost = setting values ''DB_HOST'' ''127.0.0.1'', cfg_DBPort = dbPort, cfg_DBSSLMode = setting values ''DB_SSLMODE'' ''disable'',
       cfg_V1CMSBearerToken = setting values ''HAL_V1_CMS_BEARER_TOKEN'' '''', cfg_V1FactDeliveryEnabled = factDelivery,
       cfg_V1CMSFactsURL = setting values ''HAL_V1_CMS_FACTS_URL'' '''',
       cfg_V1CMSFactsBearerToken = setting values ''HAL_V1_CMS_FACT_BEARER_TOKEN'' '''', cfg_V1TraceDeliveryEnabled = traceDelivery,
       cfg_V1CMSTraceURL = setting values ''HAL_V1_CMS_TRACE_URL'' '''',
       cfg_V1CMSTraceBearerToken = setting values ''HAL_V1_CMS_TRACE_BEARER_TOKEN'' '''', cfg_V1TraceRetentionDays = traceRetentionDays,
       cfg_V1TraceRetentionIntervalSeconds = traceRetentionInterval,
       cfg_MigrationApplicationRole = TrimSpace (setting values ''HAL_MIGRATION_APPLICATION_ROLE'' ''''), cfg_APIDocsEnabled = docsEnabled\<rparr>
     in checked (validate urlParse cfg) (\<lambda>_. Inr cfg)))))))))))))))"

definition Load :: "(string \<Rightarrow> url option) \<Rightarrow> string list \<Rightarrow> string option config_res \<Rightarrow> Config config_res" where
  "Load urlParse environ file = checked (loadValues environ file) (parse_config urlParse)"

text \<open>\<^verbatim>\<open>net.JoinHostPort\<close>: a host with a colon, an IPv6 address, is put in brackets.\<close>

definition JoinHostPort :: "string \<Rightarrow> string \<Rightarrow> string" where
  "JoinHostPort host port = (if CHR '':'' \<in> set host then ''['' @ host @ '']:'' @ port else host @ '':'' @ port)"

definition RESTListenAddr :: "Config \<Rightarrow> string" where
  "RESTListenAddr c = JoinHostPort (cfg_RESTHost c) (cfg_RESTPort c)"

definition HasDatabase :: "Config \<Rightarrow> bool" where
  "HasDatabase c \<longleftrightarrow> TrimSpace (cfg_DatabaseURL c) \<noteq> '''' \<or> (TrimSpace (cfg_DBName c) \<noteq> '''' \<and> TrimSpace (cfg_DBUser c) \<noteq> ''''
     \<and> TrimSpace (cfg_DBHost c) \<noteq> '''' \<and> cfg_DBPort c > 0)"

text \<open>The connection target; \<open>urlString\<close> is \<^verbatim>\<open>url.URL.String\<close> of the assembled parts.\<close>

definition PostgresURL :: "(string \<Rightarrow> string \<Rightarrow> string \<Rightarrow> string \<Rightarrow> string \<Rightarrow> string) \<Rightarrow> Config \<Rightarrow> string" where
  "PostgresURL urlString c =
     (if TrimSpace (cfg_DatabaseURL c) \<noteq> '''' then TrimSpace (cfg_DatabaseURL c)
      else urlString (cfg_DBUser c) (cfg_DBPassword c) (JoinHostPort (cfg_DBHost c) (FormatInt (cfg_DBPort c))) (cfg_DBName c) (cfg_DBSSLMode c))"

subsection \<open>What a loaded configuration is\<close>

lemma dropWhile_idem: "dropWhile P (dropWhile P xs) = dropWhile P xs"
  by (induction xs) auto

lemma dropWhile_rev_head: "dropWhile P xs = xs \<Longrightarrow> dropWhile P (rev (dropWhile P (rev xs))) = rev (dropWhile P (rev xs))"
  by (metis (no_types, lifting) dropWhile_eq_self_iff dropWhile_idem hd_append2 prefix_def rev_is_Nil_conv rev_rev_ident suffix_dropWhile suffix_to_prefix)

lemma TrimSpace_idem [simp]: "TrimSpace (TrimSpace s) = TrimSpace s"
  unfolding TrimSpace_def by (simp add: dropWhile_rev_head dropWhile_idem)

text \<open>The numeric settings with their defaults, their bounds and their fields.\<close>

definition numeric_settings :: "(string \<times> int \<times> int \<times> int \<times> (Config \<Rightarrow> int)) list" where
  "numeric_settings = [
     (''OCPP_LISTEN_PORT'', 18081, 1, 65535, cfg_OCPPListenPort), (''DB_PORT'', 5432, 1, 65535, cfg_DBPort),
     (''OCPP_HEARTBEAT_INTERVAL_SECONDS'', 300, 1, 86400, cfg_OCPPHeartbeatIntervalSeconds),
     (''OCPP_METER_VALUE_SAMPLE_INTERVAL_SECONDS'', 15, 1, 3600, cfg_OCPPMeterSampleIntervalSeconds),
     (''OCPP_CONFIGURATION_RECONCILE_TIMEOUT_SECONDS'', 20, 1, 120, cfg_OCPPConfigurationReconcileTimeoutSeconds),
     (''HAL_V1_TRACE_RETENTION_DAYS'', 30, 1, 3650, cfg_V1TraceRetentionDays),
     (''HAL_V1_TRACE_RETENTION_INTERVAL_SECONDS'', 3600, 60, 86400, cfg_V1TraceRetentionIntervalSeconds)]"

definition setting_exact :: "setting_values \<Rightarrow> Config \<Rightarrow> string \<times> int \<times> int \<times> int \<times> (Config \<Rightarrow> int) \<Rightarrow> bool" where
  "setting_exact values c = (\<lambda>(key, fallback, minimum, maximum, field).
     minimum \<le> field c \<and> field c \<le> maximum
     \<and> (case values key of None \<Rightarrow> field c = fallback | Some raw \<Rightarrow> Atoi (TrimSpace raw) = Some (field c)))"

lemma Atoi_FormatInt: "in_int64 n \<Longrightarrow> Atoi (FormatInt n) = Some n"
  using Atoi_connectorKey [of n] by (simp add: connectorKey_def)

lemma FormatInt_no_space: "TrimSpace (FormatInt n) = FormatInt n"
proof (rule TrimSpace_noop)
  have "is_digit c \<Longrightarrow> \<not> is_space c" for c by (auto simp: is_digit_def is_space_def)
  then show "list_all (\<lambda>c. \<not> is_space c) (FormatInt n)"
    using digits_all_digits by (auto simp: FormatInt_def list_all_iff is_space_def)
qed

lemma bounded_exact:
  assumes "bounded values key fallback minimum maximum = Inr n"
  shows "minimum \<le> n \<and> n \<le> maximum \<and> (case values key of None \<Rightarrow> Atoi (TrimSpace fallback) = Some n | Some raw \<Rightarrow> Atoi (TrimSpace raw) = Some n)"
  using assms by (auto simp: bounded_def parseBoundedInt_def setting_def split: option.splits if_splits)

lemma parsePort_exact:
  assumes "parsePort key (setting values key' fallback) = Inr s"
  obtains n where "s = FormatInt n" "Atoi s = Some n" "1 \<le> n" "n \<le> 65535"
    "case values key' of None \<Rightarrow> Atoi (TrimSpace fallback) = Some n | Some raw \<Rightarrow> Atoi (TrimSpace raw) = Some n"
  using assms that
  by (auto simp: parsePort_def parseBoundedInt_def setting_def Atoi_FormatInt in_int64_def split: option.splits if_splits)


lemma Load_values:
  assumes "Load urlParse environ file = Inr c"
  obtains vs where "loadValues environ file = Inr vs" "parse_config urlParse vs = Inr c"
  using assms by (auto simp: Load_def)

lemma parse_config_validated: "parse_config urlParse values = Inr c \<Longrightarrow> validate urlParse c = Inr ()"
  by (auto simp: parse_config_def Let_def)

lemma parse_config_numbers:
  assumes "parse_config urlParse vs = Inr c"
  shows "\<exists>s. parsePort ''OCPP_LISTEN_PORT'' (setting vs ''OCPP_LISTEN_PORT'' (FormatInt 18081)) = Inr s \<and> cfg_OCPPListenPort c = (case Atoi s of Some p \<Rightarrow> p | None \<Rightarrow> 0)"
    and "\<exists>s. parsePort ''DB_PORT'' (setting vs ''DB_PORT'' (FormatInt 5432)) = Inr s \<and> cfg_DBPort c = (case Atoi s of Some p \<Rightarrow> p | None \<Rightarrow> 0)"
    and "bounded vs ''OCPP_HEARTBEAT_INTERVAL_SECONDS'' (FormatInt 300) 1 86400 = Inr (cfg_OCPPHeartbeatIntervalSeconds c)"
    and "bounded vs ''OCPP_METER_VALUE_SAMPLE_INTERVAL_SECONDS'' (FormatInt 15) 1 3600 = Inr (cfg_OCPPMeterSampleIntervalSeconds c)"
    and "bounded vs ''OCPP_CONFIGURATION_RECONCILE_TIMEOUT_SECONDS'' (FormatInt 20) 1 120 = Inr (cfg_OCPPConfigurationReconcileTimeoutSeconds c)"
    and "bounded vs ''HAL_V1_TRACE_RETENTION_DAYS'' ''30'' 1 3650 = Inr (cfg_V1TraceRetentionDays c)"
    and "bounded vs ''HAL_V1_TRACE_RETENTION_INTERVAL_SECONDS'' ''3600'' 60 86400 = Inr (cfg_V1TraceRetentionIntervalSeconds c)"
    and "parseEnvironment (setting vs ''HAL_ENVIRONMENT'' ''development'') = Inr (cfg_Environment c)"
    and "cfg_V1CMSBearerToken c = setting vs ''HAL_V1_CMS_BEARER_TOKEN'' ''''"
  using assms unfolding parse_config_def Let_def checked_Inr by (clarsimp; blast?)+

lemma port_exact:
  assumes "parsePort key (setting vs key (FormatInt n)) = Inr s" and "p = (case Atoi s of Some p \<Rightarrow> p | None \<Rightarrow> 0)" and "in_int64 n"
  shows "1 \<le> p \<and> p \<le> 65535 \<and> (case vs key of None \<Rightarrow> p = n | Some raw \<Rightarrow> Atoi (TrimSpace raw) = Some p)"
  by (rule parsePort_exact [OF assms(1)]) (use assms(2,3) in \<open>auto simp: FormatInt_no_space Atoi_FormatInt split: option.splits\<close>)

lemma number_exact:
  assumes "bounded vs key fallback minimum maximum = Inr p" and "Atoi (TrimSpace fallback) = Some n"
  shows "minimum \<le> p \<and> p \<le> maximum \<and> (case vs key of None \<Rightarrow> p = n | Some raw \<Rightarrow> Atoi (TrimSpace raw) = Some p)"
  using bounded_exact [OF assms(1)] assms(2) by (auto split: option.splits)

lemma default_numbers: "in_int64 n \<Longrightarrow> Atoi (TrimSpace (FormatInt n)) = Some n" "Atoi (TrimSpace ''30'') = Some 30" "Atoi (TrimSpace ''3600'') = Some 3600"
proof -
  show n: "in_int64 n \<Longrightarrow> Atoi (TrimSpace (FormatInt n)) = Some n" for n by (simp add: FormatInt_no_space Atoi_FormatInt)
  have "FormatInt 30 = ''30''" "FormatInt 3600 = ''3600''" by (simp_all add: FormatInt_def digits.simps char_of_def bit_Suc_0_iff)
  then show "Atoi (TrimSpace ''30'') = Some 30" "Atoi (TrimSpace ''3600'') = Some 3600"
    using n [of 30] n [of 3600] by (simp_all add: in_int64_def)
qed

lemma parsed_numbers_exact:
  assumes p: "parse_config urlParse vs = Inr c"
  shows "list_all (setting_exact vs c) numeric_settings"
proof -
  note n = parse_config_numbers [OF p]
  obtain s s' where ports: "parsePort ''OCPP_LISTEN_PORT'' (setting vs ''OCPP_LISTEN_PORT'' (FormatInt 18081)) = Inr s"
    "cfg_OCPPListenPort c = (case Atoi s of Some p \<Rightarrow> p | None \<Rightarrow> 0)"
    "parsePort ''DB_PORT'' (setting vs ''DB_PORT'' (FormatInt 5432)) = Inr s'" "cfg_DBPort c = (case Atoi s' of Some p \<Rightarrow> p | None \<Rightarrow> 0)"
    using n(1,2) by blast
  have i: "in_int64 18081" "in_int64 5432" "in_int64 300" "in_int64 15" "in_int64 20" by (simp_all add: in_int64_def)
  show ?thesis unfolding numeric_settings_def list_all_iff list.set setting_exact_def prod.case
    using port_exact [OF ports(1,2) i(1)] port_exact [OF ports(3,4) i(2)] number_exact [OF n(3) default_numbers(1) [OF i(3)]]
      number_exact [OF n(4) default_numbers(1) [OF i(4)]] number_exact [OF n(5) default_numbers(1) [OF i(5)]]
      number_exact [OF n(6) default_numbers(2)] number_exact [OF n(7) default_numbers(3)]
    by (simp only: ball_simps prod.case simp_thms)
qed


lemma process_wins: "loadValues environ file = Inr vs \<Longrightarrow> process_values environ key = Some raw \<Longrightarrow> vs key = Some raw"
  by (auto simp: loadValues_def merge_local_def Let_def split: option.splits if_splits)

lemma environment_from_process: "loadValues environ file = Inr vs \<Longrightarrow> vs ''HAL_ENVIRONMENT'' = process_values environ ''HAL_ENVIRONMENT''"
  by (auto simp: loadValues_def merge_local_def Let_def split: option.splits if_splits)

lemma parseEnvironment_trim [simp]: "parseEnvironment (TrimSpace raw) = parseEnvironment raw"
  by (simp add: parseEnvironment_def)

lemma parseEnvironment_Inr: "parseEnvironment raw = Inr e \<longleftrightarrow> e = ToLower (TrimSpace raw) \<and> e \<in> {''development'', ''test'', ''production''}"
  by (auto simp: parseEnvironment_def Let_def)

text \<open>
  Only the process environment makes a production service, and nothing local reaches it. A
  loaded configuration is for production exactly when the process says so, and then the local file
  has no influence, whatever it holds; otherwise the file only fills in what the process left out.
\<close>

theorem production_ignores_local_file:
  assumes "Load urlParse environ file = Inr c"
  shows "(cfg_Environment c = ''production'' \<longleftrightarrow> (\<exists>raw. process_values environ ''HAL_ENVIRONMENT'' = Some raw \<and> ToLower (TrimSpace raw) = ''production''))
    \<and> (cfg_Environment c = ''production'' \<longrightarrow> Load urlParse environ file' = Inr c)
    \<and> (\<exists>vs. loadValues environ file = Inr vs \<and> (\<forall>key raw. process_values environ key = Some raw \<longrightarrow> vs key = Some raw))"
proof -
  obtain vs where vs: "loadValues environ file = Inr vs" and p: "parse_config urlParse vs = Inr c" using assms by (rule Load_values)
  have e: "parseEnvironment (setting vs ''HAL_ENVIRONMENT'' ''development'') = Inr (cfg_Environment c)" using parse_config_numbers(8) [OF p] .
  have d: "ToLower (TrimSpace ''development'') \<noteq> ''production''"
    by (simp add: TrimSpace_def is_space_def ToLower_def lower_char_def)
  have 1: "cfg_Environment c = ''production'' \<longleftrightarrow> (\<exists>raw. process_values environ ''HAL_ENVIRONMENT'' = Some raw \<and> ToLower (TrimSpace raw) = ''production'')"
    using e d unfolding setting_def environment_from_process [OF vs] parseEnvironment_Inr by (auto split: option.splits)
  have 2: "Load urlParse environ file' = Inr c" if "cfg_Environment c = ''production''"
  proof -
    obtain raw where "process_values environ ''HAL_ENVIRONMENT'' = Some raw" "ToLower (TrimSpace raw) = ''production''" using 1 \<open>cfg_Environment c = ''production''\<close> by blast
    then have "loadValues environ f = Inr (process_values environ)" for f
      by (simp add: loadValues_def checked_def parseEnvironment_def)
    then show ?thesis using vs p by (simp add: Load_def checked_def)
  qed
  show ?thesis using 1 2 process_wins [OF vs] vs by blast
qed

text \<open>
  What the checks guarantee to the rest of the program, for a \<^verbatim>\<open>url.Parse\<close> that finds no host in the
  empty string.
\<close>

definition empty_url_hostless :: "(string \<Rightarrow> url option) \<Rightarrow> bool" where
  "empty_url_hostless urlParse \<longleftrightarrow> (case urlParse '''' of None \<Rightarrow> True | Some u \<Rightarrow> url_Host u = '''')"

lemma validate_delivery_Inr:
  assumes "empty_url_hostless urlParse" and "validate_delivery urlParse enabled urlKey target tokenKey token = Inr u" and enabled
  shows "TrimSpace target \<noteq> '''' \<and> TrimSpace token \<noteq> ''''"
  using assms by (auto simp: validate_delivery_def validateHTTPURL_def empty_url_hostless_def split: option.splits if_splits)

lemma validate_Inr:
  assumes "validate urlParse c = Inr ()"
  shows "TrimSpace (cfg_V1CMSBearerToken c) \<noteq> ''''"
    and "validate_delivery urlParse (cfg_V1FactDeliveryEnabled c) ''HAL_V1_CMS_FACTS_URL'' (cfg_V1CMSFactsURL c)
       ''HAL_V1_CMS_FACT_BEARER_TOKEN'' (cfg_V1CMSFactsBearerToken c) = Inr ()"
    and "validate_delivery urlParse (cfg_V1TraceDeliveryEnabled c) ''HAL_V1_CMS_TRACE_URL'' (cfg_V1CMSTraceURL c)
       ''HAL_V1_CMS_TRACE_BEARER_TOKEN'' (cfg_V1CMSTraceBearerToken c) = Inr ()"
    and "TrimSpace (cfg_DatabaseURL c) = '''' \<longrightarrow> TrimSpace (cfg_DBName c) \<noteq> '''' \<and> TrimSpace (cfg_DBUser c) \<noteq> '''' \<and> TrimSpace (cfg_DBHost c) \<noteq> ''''"
  using assms unfolding validate_def by (simp_all split: if_splits)

lemma loaded_validated:
  assumes "Load urlParse environ file = Inr c" and "empty_url_hostless urlParse"
  shows "TrimSpace (cfg_V1CMSBearerToken c) \<noteq> '''' \<and> HasDatabase c
    \<and> (cfg_V1FactDeliveryEnabled c \<longrightarrow> TrimSpace (cfg_V1CMSFactsURL c) \<noteq> '''' \<and> TrimSpace (cfg_V1CMSFactsBearerToken c) \<noteq> '''')
    \<and> (cfg_V1TraceDeliveryEnabled c \<longrightarrow> TrimSpace (cfg_V1CMSTraceURL c) \<noteq> '''' \<and> TrimSpace (cfg_V1CMSTraceBearerToken c) \<noteq> '''')"
proof -
  obtain vs where vs: "loadValues environ file = Inr vs" and p: "parse_config urlParse vs = Inr c" using assms(1) by (rule Load_values)
  note v = validate_Inr [OF parse_config_validated [OF p]]
  have "0 < cfg_DBPort c" using parsed_numbers_exact [OF p] by (simp add: numeric_settings_def setting_exact_def)
  then show ?thesis using v(1,4) validate_delivery_Inr [OF assms(2) v(2)] validate_delivery_Inr [OF assms(2) v(3)]
    unfolding HasDatabase_def by blast
qed

text \<open>A production process with its own port, and a local file that asks for another.\<close>

definition sample_url :: "string \<Rightarrow> url option" where
  "sample_url s = Some \<lparr>url_Scheme = ''postgres'', url_User = None, url_Host = (if s = '''' then '''' else ''db''), url_Path = ''/hal'', url_Fragment = ''''\<rparr>"

definition sample_environ :: "string list" where
  "sample_environ = [''HAL_ENVIRONMENT=Production '', ''DATABASE_URL=postgres://db/hal'', ''HAL_V1_CMS_BEARER_TOKEN=token'', ''OCPP_LISTEN_PORT= 9000'']"

definition sample_config :: Config where
  "sample_config = \<lparr>cfg_Environment = ''production'', cfg_RESTHost = ''127.0.0.1'', cfg_RESTPort = FormatInt 18080, cfg_OCPPListenPort = 9000,
     cfg_OCPPListenPath = ''/{ws:.*}'', cfg_OCPPHeartbeatIntervalSeconds = 300, cfg_OCPPMeterSampleIntervalSeconds = 15,
     cfg_OCPPConfigurationReconcileTimeoutSeconds = 20, cfg_OCPPVendorConfigurationProfile = '''', cfg_OCPPVendorConfigurationVendor = '''',
     cfg_LogLevel = 0, cfg_DatabaseURL = ''postgres://db/hal'', cfg_DBName = '''', cfg_DBUser = '''', cfg_DBPassword = '''',
     cfg_DBHost = ''127.0.0.1'', cfg_DBPort = 5432, cfg_DBSSLMode = ''disable'', cfg_V1CMSBearerToken = ''token'',
     cfg_V1FactDeliveryEnabled = False, cfg_V1CMSFactsURL = '''', cfg_V1CMSFactsBearerToken = '''', cfg_V1TraceDeliveryEnabled = False,
     cfg_V1CMSTraceURL = '''', cfg_V1CMSTraceBearerToken = '''', cfg_V1TraceRetentionDays = 30, cfg_V1TraceRetentionIntervalSeconds = 3600,
     cfg_MigrationApplicationRole = '''', cfg_APIDocsEnabled = False\<rparr>"

lemma sample_values: "process_values sample_environ = [''HAL_ENVIRONMENT'' \<mapsto> ''Production '', ''DATABASE_URL'' \<mapsto> ''postgres://db/hal'',
     ''HAL_V1_CMS_BEARER_TOKEN'' \<mapsto> ''token'', ''OCPP_LISTEN_PORT'' \<mapsto> '' 9000'']"
  by (simp add: process_values_def sample_environ_def)

lemma sample_production: "ToLower (TrimSpace ''Production '') = ''production''"
  by code_simp

lemma sample_loadValues: "loadValues sample_environ file = Inr (process_values sample_environ)"
  unfolding loadValues_def Let_def by (simp add: sample_values checked_def parseEnvironment_def sample_production)

lemma parseBoundedInt_FormatInt: "in_int64 n \<Longrightarrow> minimum \<le> n \<Longrightarrow> n \<le> maximum \<Longrightarrow> parseBoundedInt key (FormatInt n) minimum maximum = Inr n"
  by (simp add: parseBoundedInt_def FormatInt_no_space Atoi_FormatInt)

lemma literal_numbers: "''18080'' = FormatInt 18080" "TrimSpace '' 9000'' = FormatInt 9000" "''30'' = FormatInt 30" "''3600'' = FormatInt 3600"
  by (simp_all add: FormatInt_def digits.simps char_of_def bit_Suc_0_iff TrimSpace_def is_space_def)

lemma sample_literals: "ParseBool (TrimSpace ''false'') = Some False" "parseLogLevel ''info'' = Inr 0" "TrimSpace ''token'' = ''token''"
  "TrimSpace ''postgres://db/hal'' = ''postgres://db/hal''" "TrimSpace ''127.0.0.1'' = ''127.0.0.1''" "Trim ''/hal'' ''/'' = ''hal''" "TrimSpace '''' = ''''"
  by code_simp+

lemma sample_Load: "Load sample_url sample_environ (Inr (Some ''OCPP_LISTEN_PORT=1'')) = Inr sample_config"
proof -
  have n: "in_int64 18080" "in_int64 9000" "in_int64 30" "in_int64 3600" "in_int64 300" "in_int64 15" "in_int64 20" "in_int64 5432"
    by (simp_all add: in_int64_def)
  have p: "parsePort key (FormatInt n) = Inr (FormatInt n)" if "in_int64 n" "1 \<le> n" "n \<le> 65535" for key n
    using that by (simp add: parsePort_def parseBoundedInt_FormatInt)
  let ?vs = "process_values sample_environ"
  have s: "setting ?vs ''HAL_ENVIRONMENT'' ''development'' = TrimSpace ''Production ''" "setting ?vs ''DATABASE_URL'' '''' = ''postgres://db/hal''"
    "setting ?vs ''HAL_V1_CMS_BEARER_TOKEN'' '''' = ''token''" "setting ?vs ''OCPP_LISTEN_PORT'' (FormatInt 18081) = FormatInt 9000"
    by (simp_all add: setting_def sample_values sample_literals literal_numbers)
  have d: "setting ?vs key fallback = fallback"
    if "key \<notin> {''HAL_ENVIRONMENT'', ''DATABASE_URL'', ''HAL_V1_CMS_BEARER_TOKEN'', ''OCPP_LISTEN_PORT''}" for key fallback
    using that by (simp add: setting_def sample_values)
  have e: "parseEnvironment ''Production '' = Inr ''production''" by (simp add: parseEnvironment_def sample_production)
  have v: "validate sample_url sample_config = Inr ()"
    by (simp add: validate_def validate_delivery_def validatePostgresURL_def sample_config_def sample_literals sample_url_def HasPrefix_def)
  show ?thesis
    unfolding Load_def sample_loadValues
    by (simp add: parse_config_def s d e n p v [unfolded sample_config_def] bounded_def parse_vendor_def literal_numbers parseBool_def sample_literals
        Let_def parseBoundedInt_FormatInt Atoi_FormatInt sample_config_def ex_bool_eq)
qed


theorem production_ignores_local_file_witness:
  "Load sample_url sample_environ (Inr None) = Inr sample_config"
  using production_ignores_local_file [OF sample_Load, of "Inr None"] by (simp add: sample_config_def)

end
