(* ===== verification/Delivery_Workers.thy ===== *)
theory Delivery_Workers
  imports PG_Facts Trace_Store
begin

text \<open>
  The two delivery workers: \<^verbatim>\<open>v1facts/worker.go\<close> posts authoritative facts to the CMS,
  \<^verbatim>\<open>v1trace/worker.go\<close> diagnostic trace events. A pass claims one row, posts it and reports the
  outcome under the lease. The HTTP client is the argument \<open>post\<close>: what became of the request for a
  delivery. The two packages have the same backoff, the same reading of the receiver's error code
  and the same classification of answers, which are modelled once. \<^verbatim>\<open>Start\<close> repeats the pass every
  two seconds; a pass at a later tick is another call with another environment.
\<close>

subsection \<open>Answers of the receiver\<close>

text \<open>
  The body of an answer is the string at \<^verbatim>\<open>error.code\<close> of the JSON in its first 4096 bytes, \<open>None\<close>
  when that does not decode.
\<close>

datatype post_result = EncodeFailed | RequestInvalid | TransportFailed | Responded int "string option"

definition code_char :: "char \<Rightarrow> bool" where
  "code_char r \<longleftrightarrow> CHR ''a'' \<le> r \<and> r \<le> CHR ''z'' \<or> CHR ''0'' \<le> r \<and> r \<le> CHR ''9'' \<or> r = CHR ''_''"

definition readReceiverErrorCode :: "string option \<Rightarrow> string" where
  "readReceiverErrorCode body =
     (case body of
        None \<Rightarrow> ''''
      | Some raw \<Rightarrow> (let code = TrimSpace raw in if length code > 64 \<or> \<not> list_all code_char code then '''' else code))"

definition receiverDeliveryDetail :: "int \<Rightarrow> string \<Rightarrow> string" where
  "receiverDeliveryDetail status code =
     (if code = '''' then ''receiver HTTP '' @ FormatInt status else ''receiver HTTP '' @ FormatInt status @ '' ('' @ code @ '')'')"

text \<open>\<open>retries\<close> is a column that starts at 0 and grows, so the shift count is not negative.\<close>

definition retryAt :: "gotime \<Rightarrow> int \<Rightarrow> gotime" where
  "retryAt now retries =
     (let delay = duration_second * 2 ^ nat (min retries 6);
          delay = (if delay > duration_minute then duration_minute else delay)
      in now + delay)"

definition transient_status :: "int \<Rightarrow> bool" where
  "transient_status code \<longleftrightarrow> code \<in> {429, 500, 502, 503, 504}"

record delivery_report =
  rp_status :: int
  rp_success :: bool
  rp_terminal :: bool
  rp_detail :: string
  rp_next :: gotime

definition report_of :: "string \<Rightarrow> string \<Rightarrow> gotime \<Rightarrow> int \<Rightarrow> post_result \<Rightarrow> delivery_report" where
  "report_of badPayload badDestination now retries outcome =
     (case outcome of
        EncodeFailed \<Rightarrow> \<lparr>rp_status = 0, rp_success = False, rp_terminal = True, rp_detail = badPayload, rp_next = now\<rparr>
      | RequestInvalid \<Rightarrow> \<lparr>rp_status = 0, rp_success = False, rp_terminal = True, rp_detail = badDestination, rp_next = now\<rparr>
      | TransportFailed \<Rightarrow> \<lparr>rp_status = 0, rp_success = False, rp_terminal = False, rp_detail = ''transport failure'', rp_next = retryAt now retries\<rparr>
      | Responded status body \<Rightarrow>
          if status = 204 then \<lparr>rp_status = status, rp_success = True, rp_terminal = False, rp_detail = '''', rp_next = now\<rparr>
          else (let detail = receiverDeliveryDetail status (readReceiverErrorCode body) in
                if transient_status status
                then \<lparr>rp_status = status, rp_success = False, rp_terminal = False, rp_detail = detail, rp_next = retryAt now retries\<rparr>
                else \<lparr>rp_status = status, rp_success = False, rp_terminal = True, rp_detail = detail, rp_next = now\<rparr>))"

subsection \<open>The fact worker\<close>

text \<open>
  One pass: \<open>wk_now\<close> is the clock of the claim, \<open>wk_token\<close> the claim token drawn, \<open>wk_locked\<close> the rows
  locked elsewhere, \<open>wk_clock\<close> the clock when the answer is in, \<open>wk_sql\<close> \<^verbatim>\<open>NOW()\<close> of the report, and
  \<open>wk_trace\<close> the environment of the trace event.
  \<^verbatim>\<open>cmd/ocpphal/main.go\<close> always gives the worker a trace store, so the guard for a missing one is left out.
\<close>

record worker_env =
  wk_locked :: "string \<Rightarrow> bool"
  wk_now :: gotime
  wk_token :: "string option"
  wk_clock :: gotime
  wk_sql :: gotime
  wk_trace :: trace_env

definition recordDeliveredLifecycleFact :: "worker_env \<Rightarrow> V1Fact \<Rightarrow> trace_tables \<Rightarrow> trace_tables" where
  "recordDeliveredLifecycleFact N f T =
     (if fact_FactType f \<notin> {''transaction.started'', ''transaction.completed''} then T
      else (case any_at (fact_Payload f) ''hal_transaction_id'' of
          GString halTransactionID \<Rightarrow>
            if halTransactionID = '''' then T
            else (case pg_FindV1TraceByTransaction halTransactionID T of
                Inl _ \<Rightarrow> T
              | Inr trace \<Rightarrow>
                  snd (pg_AppendV1TraceEvent (wk_trace N) (tr_TraceID trace) \<lparr>ti_Source = ''HAL'', ti_Target = ''CMS'', ti_Category = ''FACT'',
                    ti_Protocol = ''HTTP'', ti_Phase = (if fact_FactType f = ''transaction.completed'' then ''POST_STOP'' else ''STARTING''),
                    ti_Summary = fact_FactType f @ '' fact delivered to CMS'', ti_OccurredAt = wk_clock N, ti_StateBefore = '''',
                    ti_StateAfter = '''', ti_CorrelationID = fact_FactID f,
                    ti_Data = GMap [(''action'', GString (fact_FactType f))]\<rparr> T))
        | _ \<Rightarrow> T))"

definition fact_mark :: "worker_env \<Rightarrow> V1Fact \<Rightarrow> delivery_report \<Rightarrow> PostgresStore \<times> trace_tables \<Rightarrow> unit res \<times> PostgresStore \<times> trace_tables" where
  "fact_mark N f report s =
     (case pg_MarkV1FactDelivery (wk_sql N) (fact_FactID f) (fact_ClaimToken f) (rp_status report) (rp_success report)
             (rp_terminal report) (rp_detail report) (rp_next report) (fst s) of
        (Inl err, db) \<Rightarrow> (Inl (ErrOther ''record fact delivery state''), db, snd s)
      | (Inr _, db) \<Rightarrow> (Inr (), db, if rp_success report then recordDeliveredLifecycleFact N f (snd s) else snd s))"

definition fact_deliver ::
  "worker_env \<Rightarrow> (V1FactEnvelope \<Rightarrow> post_result) \<Rightarrow> V1Fact \<Rightarrow> PostgresStore \<times> trace_tables \<Rightarrow> unit res \<times> PostgresStore \<times> trace_tables" where
  "fact_deliver N post f s =
     fact_mark N f (report_of ''invalid durable fact payload'' ''invalid fact destination'' (wk_clock N) (fact_Retries f)
       (post (Envelope f))) s"

text \<open>The errors of a pass; \<^verbatim>\<open>errors.Join\<close> of none is nil.\<close>

fun deliver_all :: "('d \<Rightarrow> 's \<Rightarrow> unit res \<times> 's) \<Rightarrow> 'd list \<Rightarrow> 's \<Rightarrow> v1_error list \<times> 's" where
  "deliver_all f [] s = ([], s)"
| "deliver_all f (d # ds) s =
     (let (r, s1) = f d s; (errs, s2) = deliver_all f ds s1
      in ((case r of Inl err \<Rightarrow> [err] | Inr _ \<Rightarrow> []) @ errs, s2))"

definition fact_RunOnce ::
  "worker_env \<Rightarrow> (V1FactEnvelope \<Rightarrow> post_result) \<Rightarrow> PostgresStore \<times> trace_tables \<Rightarrow> v1_error list \<times> PostgresStore \<times> trace_tables" where
  "fact_RunOnce N post s =
     (case pg_ClaimV1Facts (wk_locked N) (wk_now N) 1 (wk_token N) (fst s) of
        (Inl err, db) \<Rightarrow> ([err], db, snd s)
      | (Inr facts, db) \<Rightarrow> deliver_all (fact_deliver N post) facts (db, snd s))"

subsection \<open>The trace worker\<close>

definition trace_mark :: "worker_env \<Rightarrow> V1TraceDelivery \<Rightarrow> delivery_report \<Rightarrow> trace_tables \<Rightarrow> unit res \<times> trace_tables" where
  "trace_mark N delivery report T =
     pg_MarkV1TraceDelivery (wk_sql N) (te_EventID (td_Event delivery)) (td_ClaimToken delivery) (rp_status report) (rp_success report)
       (rp_terminal report) (rp_detail report) (rp_next report) T"

definition trace_deliver :: "worker_env \<Rightarrow> (gomap \<Rightarrow> post_result) \<Rightarrow> V1TraceDelivery \<Rightarrow> trace_tables \<Rightarrow> unit res \<times> trace_tables" where
  "trace_deliver N post delivery T =
     trace_mark N delivery (report_of ''invalid durable trace envelope'' ''invalid trace destination'' (wk_clock N) (td_Retries delivery)
       (post (trace_envelope delivery))) T"

definition trace_RunOnce :: "worker_env \<Rightarrow> (gomap \<Rightarrow> post_result) \<Rightarrow> trace_tables \<Rightarrow> v1_error list \<times> trace_tables" where
  "trace_RunOnce N post T =
     (case pg_CloseV1TriggerMessageFollowOnWindows (wk_trace N) (wk_locked N) (wk_now N) 32 T of
        (Inl err, T1) \<Rightarrow> ([err], T1)
      | (Inr _, T1) \<Rightarrow>
          (case pg_ClaimV1TraceDeliveries (wk_locked N) (wk_now N) 1 (wk_token N) T1 of
             (Inl err, T2) \<Rightarrow> ([err], T2)
           | (Inr deliveries, T2) \<Rightarrow> deliver_all (trace_deliver N post) deliveries T2))"

text \<open>The constructors: disabled, misconfigured, or the destination and its token.\<close>

definition worker_New :: "string \<Rightarrow> bool \<Rightarrow> string \<Rightarrow> string \<Rightarrow> (string \<times> string) option res" where
  "worker_New missing enabled url token =
     (if \<not> enabled then Inr None
      else if TrimSpace url = '''' \<or> TrimSpace token = '''' then Inl (ErrOther missing)
      else Inr (Some (url, token)))"

subsection \<open>One pass over an outbox\<close>

definition next_due :: "(string \<Rightarrow> bool) \<Rightarrow> gotime \<Rightarrow> 'p outbox_row list \<Rightarrow> 'p outbox_row option" where
  "next_due locked now t =
     (case sort_key (\<lambda>r. (ob_next_retry_at r, ob_created_at r)) (filter (\<lambda>r. outbox_due now r \<and> \<not> locked (ob_id r)) t) of
        [] \<Rightarrow> None
      | r # _ \<Rightarrow> Some r)"

definition reported :: "gotime \<Rightarrow> delivery_report \<Rightarrow> 'p outbox_row \<Rightarrow> 'p outbox_row" where
  "reported now rp r =
     (let state = delivery_state (rp_success rp) (rp_terminal rp)
      in r\<lparr>ob_status := state, ob_retries := (if state = ''DELIVERED'' then ob_retries r else ob_retries r + 1),
           ob_next_retry_at := pg_ts (rp_next rp), ob_claimed_until := None, ob_claim_token := '''',
           ob_delivery_status := Some (rp_status rp), ob_last_error := rp_detail rp,
           ob_sent_at := (if state = ''DELIVERED'' then Some now else ob_sent_at r)\<rparr>)"

lemma reported_id [simp]: "ob_id (reported now rp r) = ob_id r"
  by (simp add: reported_def Let_def)

lemma next_due_Some:
  assumes "next_due locked now t = Some r"
  shows "r \<in> set t \<and> outbox_due now r \<and> \<not> locked (ob_id r)"
proof -
  let ?xs = "sort_key (\<lambda>r. (ob_next_retry_at r, ob_created_at r)) (filter (\<lambda>r. outbox_due now r \<and> \<not> locked (ob_id r)) t)"
  have "r \<in> set ?xs" using assms unfolding next_due_def by (cases ?xs) simp_all
  then show ?thesis by simp
qed

lemma next_due_None: "next_due locked now t = None \<longleftrightarrow> \<not> (\<exists>r\<in>set t. outbox_due now r \<and> \<not> locked (ob_id r))"
proof -
  let ?xs = "sort_key (\<lambda>r. (ob_next_retry_at r, ob_created_at r)) (filter (\<lambda>r. outbox_due now r \<and> \<not> locked (ob_id r)) t)"
  have "next_due locked now t = None \<longleftrightarrow> set ?xs = {}" unfolding next_due_def by (cases ?xs) simp_all
  then show ?thesis by auto
qed

lemma claim_one:
  assumes "distinct (map ob_id t)"
  shows "outbox_claim locked now 1 token t =
    (case next_due locked (pg_ts now) t of
       None \<Rightarrow> ([], t)
     | Some r \<Rightarrow> ([outbox_lease_row (pg_ts now) token r], sql_update (\<lambda>x. ob_id x = ob_id r) (outbox_lease_row (pg_ts now) token) t))"
proof (cases "next_due locked (pg_ts now) t")
  case None
  then have "outbox_due_ids locked (pg_ts now) 1 t = []" by (simp add: outbox_due_ids_def next_due_def split: list.splits)
  then show ?thesis using None by (simp add: outbox_claim_def sql_update_none)
next
  case (Some r)
  then have ids: "outbox_due_ids locked (pg_ts now) 1 t = [ob_id r]"
    by (auto simp: outbox_due_ids_def next_due_def split: list.splits)
  have r: "r \<in> set t" using next_due_Some [OF Some] by simp
  have "filter (\<lambda>x. ob_id x = ob_id r) (sql_update (\<lambda>x. ob_id x = ob_id r) (outbox_lease_row (pg_ts now) token) t)
      = [outbox_lease_row (pg_ts now) token r]"
    using assms r
  proof (induction t)
    case (Cons a t)
    then show ?case by (cases "ob_id a = ob_id r")
      (auto simp: sql_update_def outbox_lease_row_def filter_empty_conv image_iff dest: eq_key_imp_eq_value)
  qed simp
  then show ?thesis using Some ids by (simp add: outbox_claim_def Let_def)
qed

lemma mark_claimed:
  fixes now
  assumes "distinct (map ob_id t)" and "r \<in> set t" and "token \<noteq> ''''"
  defines "t1 \<equiv> sql_update (\<lambda>x. ob_id x = ob_id r) (outbox_lease_row now token) t"
  shows "outbox_mark now' (ob_id r) token (rp_status rp) (delivery_state (rp_success rp) (rp_terminal rp)) (rp_detail rp) (rp_next rp) t1
      = sql_update (\<lambda>x. ob_id x = ob_id r) (reported now' rp) t"
    and "sql_count (outbox_held (ob_id r) token) t1 \<noteq> 0"
proof -
  show "outbox_mark now' (ob_id r) token (rp_status rp) (delivery_state (rp_success rp) (rp_terminal rp)) (rp_detail rp) (rp_next rp) t1
      = sql_update (\<lambda>x. ob_id x = ob_id r) (reported now' rp) t"
    using assms(3) by (auto simp: t1_def outbox_mark_def sql_update_def outbox_held_def outbox_lease_row_def reported_def Let_def)
  have "outbox_lease_row now token r \<in> set t1" using assms(2) by (force simp: t1_def set_sql_update)
  moreover have "outbox_held (ob_id r) token (outbox_lease_row now token r)" using assms(3) by (simp add: outbox_held_def outbox_lease_row_def)
  ultimately show "sql_count (outbox_held (ob_id r) token) t1 \<noteq> 0" unfolding sql_count_0 by blast
qed

text \<open>
  What a delivery worker relies on: a claim with a fresh token leases the next due rows, and each
  delivery it returns carries the identifier and the token of its row.
\<close>

locale delivery_worker = outbox rows clm mrk did invar
  for rows :: "'s \<Rightarrow> 'p outbox_row list"
    and clm :: "('d, 's) outbox_claim_op"
    and mrk :: "'s outbox_mark_op"
    and did :: "'d \<Rightarrow> string"
    and invar :: "'s \<Rightarrow> bool" +
  fixes scan :: "'p outbox_row \<Rightarrow> 'd"
    and dtoken :: "'d \<Rightarrow> string"
  assumes claim_live: "invar s \<Longrightarrow> 1 \<le> limit \<Longrightarrow> token \<noteq> nil_uuid \<Longrightarrow>
      \<exists>s'. clm locked now limit (Some token) s = (Inr (map scan (fst (outbox_claim locked now limit token (rows s)))), s')
        \<and> rows s' = snd (outbox_claim locked now limit token (rows s))"
    and scan_id: "did (scan r) = ob_id r"
    and scan_token: "dtoken (scan r) = ob_claim_token r"
begin

text \<open>
  A claim of one row returns nothing, and then nothing is due, or the delivery of the next due row;
  the report on it under its token then succeeds and changes that row only.
\<close>

lemma pass_one:
  assumes "invar s" and "token \<noteq> nil_uuid" and "token \<noteq> ''''"
  obtains (idle) s1 where "clm locked now 1 (Some token) s = (Inr [], s1)" and "rows s1 = rows s" and "next_due locked (pg_ts now) (rows s) = None"
      and "invar s1"
  | (claimed) r s1 where "next_due locked (pg_ts now) (rows s) = Some r"
      and "clm locked now 1 (Some token) s = (Inr [scan (outbox_lease_row (pg_ts now) token r)], s1)"
      and "\<And>now' rp. \<exists>s2. mrk now' (ob_id r) token (rp_status rp) (rp_success rp) (rp_terminal rp) (rp_detail rp) (rp_next rp) s1 = (Inr (), s2)
        \<and> rows s2 = sql_update (\<lambda>x. ob_id x = ob_id r) (reported now' rp) (rows s) \<and> invar s2"
proof -
  have dist: "distinct (map ob_id (rows s))" using distinct_ids [OF assms(1)] .
  obtain s1 where c: "clm locked now 1 (Some token) s = (Inr (map scan (fst (outbox_claim locked now 1 token (rows s)))), s1)"
    and r1: "rows s1 = snd (outbox_claim locked now 1 token (rows s))"
    using claim_live [OF assms(1) _ assms(2), of 1 locked now] by auto
  show thesis
  proof (cases "next_due locked (pg_ts now) (rows s)")
    case None
    then show thesis using c r1 invar_claim [OF assms(1), of locked now 1 "Some token"]
      by (intro idle [of s1]) (simp_all add: claim_one [OF dist])
  next
    case (Some r)
    have rin: "r \<in> set (rows s)" using next_due_Some [OF Some] by simp
    have rows1: "rows s1 = sql_update (\<lambda>x. ob_id x = ob_id r) (outbox_lease_row (pg_ts now) token) (rows s)"
      using r1 Some by (simp add: claim_one [OF dist])
    have inv1: "invar s1" using invar_claim [OF assms(1), of locked now 1 "Some token"] c by simp
    show thesis
    proof (rule claimed [OF Some])
      show "clm locked now 1 (Some token) s = (Inr [scan (outbox_lease_row (pg_ts now) token r)], s1)"
        using c Some by (simp add: claim_one [OF dist])
    next
      fix now' and rp :: delivery_report
      let ?m = "mrk now' (ob_id r) token (rp_status rp) (rp_success rp) (rp_terminal rp) (rp_detail rp) (rp_next rp) s1"
      have "\<not> isl (fst ?m)" using mark_claimed(2) [OF dist rin assms(3), of "pg_ts now"] by (simp add: mark_result rows1)
      then have "fst ?m = Inr ()" by (cases "fst ?m") auto
      moreover have "rows (snd ?m) = sql_update (\<lambda>x. ob_id x = ob_id r) (reported now' rp) (rows s)"
        using mark_claimed(1) [OF dist rin assms(3), of now' rp "pg_ts now"] by (simp add: mark_rows rows1)
      ultimately show "\<exists>s2. ?m = (Inr (), s2) \<and> rows s2 = sql_update (\<lambda>x. ob_id x = ob_id r) (reported now' rp) (rows s) \<and> invar s2"
        using invar_mark [OF inv1] by (metis prod.collapse)
    qed
  qed
qed

end

interpretation fact_worker: delivery_worker db_facts pg_ClaimV1Facts pg_MarkV1FactDelivery fact_FactID fact_inv scan_fact fact_ClaimToken
  by unfold_locales (auto simp: pg_ClaimV1Facts_def NewSecureUUIDString_def scan_fact_def split_beta)

interpretation trace_worker: delivery_worker tt_outbox pg_ClaimV1TraceDeliveries pg_MarkV1TraceDelivery "te_EventID \<circ> td_Event" trace_core
  claimed_delivery td_ClaimToken
  by unfold_locales (auto simp: pg_ClaimV1TraceDeliveries_def NewSecureUUIDString_def claimed_delivery_def split_beta claim_payloads)

subsection \<open>What a pass does\<close>

text \<open>The state an answer leads to.\<close>

definition answer_state :: "post_result \<Rightarrow> string" where
  "answer_state outcome =
     (case outcome of
        Responded status _ \<Rightarrow> if status = 204 then ''DELIVERED'' else if transient_status status then ''RETRY'' else ''RECONCILIATION_REQUIRED''
      | TransportFailed \<Rightarrow> ''RETRY''
      | _ \<Rightarrow> ''RECONCILIATION_REQUIRED'')"

lemma reported_state: "ob_status (reported now (report_of a b t n outcome) r) = answer_state outcome"
  by (auto simp: reported_def report_of_def answer_state_def delivery_state_def transient_status_def Let_def split: post_result.split)

lemma fact_pass:
  assumes "fact_inv db" and "wk_token N = Some token" and "token \<noteq> nil_uuid" and "token \<noteq> ''''"
  obtains (idle) db' where "fact_RunOnce N post (db, T) = ([], db', T)" and "db_facts db' = db_facts db"
      and "next_due (wk_locked N) (pg_ts (wk_now N)) (db_facts db) = None" and "fact_inv db'"
  | (claimed) r db' T' rp where "next_due (wk_locked N) (pg_ts (wk_now N)) (db_facts db) = Some r"
      and "fact_RunOnce N post (db, T) = ([], db', T')" and "fact_inv db'"
      and "rp = report_of ''invalid durable fact payload'' ''invalid fact destination'' (wk_clock N) (ob_retries r) (post (Envelope (scan_fact r)))"
      and "db_facts db' = sql_update (\<lambda>x. ob_id x = ob_id r) (reported (wk_sql N) rp) (db_facts db)"
      and "T' = (if rp_success rp then recordDeliveredLifecycleFact N (scan_fact (outbox_lease_row (pg_ts (wk_now N)) token r)) T else T)"
proof (cases rule: fact_worker.pass_one [OF assms(1,3,4), of "wk_locked N" "wk_now N", case_names idle claimed])
  case (idle s1)
  with assms(2) show thesis by (intro that(1) [of s1]) (auto simp: fact_RunOnce_def)
next
  case (claimed r s1)
  let ?f = "scan_fact (outbox_lease_row (pg_ts (wk_now N)) token r)"
  have env: "Envelope ?f = Envelope (scan_fact r)" "fact_Retries ?f = ob_retries r" "fact_FactID ?f = ob_id r" "fact_ClaimToken ?f = token"
    by (simp_all add: Envelope_def scan_fact_def outbox_lease_row_def)
  let ?rp = "report_of ''invalid durable fact payload'' ''invalid fact destination'' (wk_clock N) (ob_retries r) (post (Envelope (scan_fact r)))"
  obtain s2 where m: "pg_MarkV1FactDelivery (wk_sql N) (ob_id r) token (rp_status ?rp) (rp_success ?rp) (rp_terminal ?rp) (rp_detail ?rp) (rp_next ?rp) s1
      = (Inr (), s2)" "db_facts s2 = sql_update (\<lambda>x. ob_id x = ob_id r) (reported (wk_sql N) ?rp) (db_facts db)" "fact_inv s2"
    using claimed(3) by blast
  show thesis
    by (rule that(2) [OF claimed(1) _ m(3) refl m(2) refl])
      (use claimed(2) assms(2) m(1) in \<open>simp add: fact_RunOnce_def fact_deliver_def fact_mark_def env\<close>)
qed

text \<open>
  C37: a pass of the fact worker settles one fact by the answer it got. With a store whose facts are
  well formed and a fresh claim token, a pass has no error; when an unlocked fact is due, the first
  one by retry time is posted and ends \<^verbatim>\<open>DELIVERED\<close> exactly after a 204, in \<^verbatim>\<open>RETRY\<close> after a transport
  failure or a 429, 500, 502, 503 or 504, and in \<^verbatim>\<open>RECONCILIATION_REQUIRED\<close> after anything else. No
  other fact changes, and a trace event is written only for a delivered fact.
\<close>

theorem fact_worker_pass:
  assumes "fact_inv db" and "wk_token N = Some token" and "token \<noteq> nil_uuid" and "token \<noteq> ''''"
  shows "case (fact_RunOnce N post (db, T), next_due (wk_locked N) (pg_ts (wk_now N)) (db_facts db)) of
      ((errs, db', T'), None) \<Rightarrow> errs = [] \<and> db_facts db' = db_facts db \<and> T' = T
    | ((errs, db', T'), Some r) \<Rightarrow> errs = []
        \<and> map_option ob_status (sql_row ob_id (ob_id r) (db_facts db')) = Some (answer_state (post (Envelope (scan_fact r))))
        \<and> filter (\<lambda>x. ob_id x \<noteq> ob_id r) (db_facts db') = filter (\<lambda>x. ob_id x \<noteq> ob_id r) (db_facts db)
        \<and> (answer_state (post (Envelope (scan_fact r))) = ''DELIVERED'' \<or> T' = T)"
proof (cases rule: fact_pass [OF assms, where T = T and post = post, case_names idle claimed])
  case (claimed r db' T' rp)
  have dist: "distinct (map ob_id (db_facts db))" using assms(1) by (simp add: fact_inv_def)
  have "sql_row ob_id (ob_id r) (db_facts db) = Some r" using sql_row_unique [OF dist] next_due_Some [OF claimed(1)] by blast
  then have "map_option ob_status (sql_row ob_id (ob_id r) (db_facts db')) = Some (answer_state (post (Envelope (scan_fact r))))"
    unfolding claimed(5) by (simp add: sql_row_update claimed(4) reported_state)
  moreover have "filter (\<lambda>x. ob_id x \<noteq> ob_id r) (sql_update (\<lambda>x. ob_id x = ob_id r) (reported n rp) t) = filter (\<lambda>x. ob_id x \<noteq> ob_id r) t"
    for n t by (induction t) (auto simp: sql_update_def reported_def Let_def)
  moreover have "rp_success rp \<Longrightarrow> answer_state (post (Envelope (scan_fact r))) = ''DELIVERED''"
    by (auto simp: claimed(4) report_of_def answer_state_def Let_def split: post_result.splits if_splits)
  ultimately show ?thesis using claimed(1,2,5,6) by auto
qed auto

text \<open>
  A pass of the trace worker, after its closing of due windows, settles the next due delivery in
  the same way.
\<close>

theorem trace_worker_pass:
  assumes "trace_inv T" and "pg_CloseV1TriggerMessageFollowOnWindows (wk_trace N) (wk_locked N) (wk_now N) 32 T = (Inr n, T1)"
    and "wk_token N = Some token" and "token \<noteq> nil_uuid" and "token \<noteq> ''''"
  shows "case (trace_RunOnce N post T, next_due (wk_locked N) (pg_ts (wk_now N)) (tt_outbox T1)) of
      ((errs, T'), None) \<Rightarrow> errs = [] \<and> tt_outbox T' = tt_outbox T1
    | ((errs, T'), Some r) \<Rightarrow> errs = []
        \<and> map_option ob_status (sql_row ob_id (ob_id r) (tt_outbox T')) = Some (answer_state (post (tc_Payload (ob_content r))))"
proof -
  have "trace_inv T1" using close_inv [OF assms(1), of "wk_trace N" "wk_locked N" "wk_now N" 32] assms(2) by simp
  then have core: "trace_core T1" by (simp add: trace_inv_def)
  show ?thesis
  proof (cases rule: trace_worker.pass_one [OF core assms(4,5), of "wk_locked N" "wk_now N", case_names idle claimed])
    case (idle T2)
    then show ?thesis using assms(2,3) by (simp add: trace_RunOnce_def)
  next
    case (claimed r T2)
    let ?d = "claimed_delivery (outbox_lease_row (pg_ts (wk_now N)) token r)"
    have d: "te_EventID (td_Event ?d) = ob_id r" "td_ClaimToken ?d = token" "trace_envelope ?d = tc_Payload (ob_content r)" "td_Retries ?d = ob_retries r"
      by (simp_all add: claimed_delivery_def outbox_lease_row_def trace_envelope_def)
    let ?rp = "report_of ''invalid durable trace envelope'' ''invalid trace destination'' (wk_clock N) (ob_retries r) (post (tc_Payload (ob_content r)))"
    obtain T3 where m: "pg_MarkV1TraceDelivery (wk_sql N) (ob_id r) token (rp_status ?rp) (rp_success ?rp) (rp_terminal ?rp) (rp_detail ?rp) (rp_next ?rp) T2
        = (Inr (), T3)" "tt_outbox T3 = sql_update (\<lambda>x. ob_id x = ob_id r) (reported (wk_sql N) ?rp) (tt_outbox T1)"
      using claimed(3) by blast
    have "trace_RunOnce N post T = ([], T3)"
      using assms(2,3) claimed(2) m(1) by (simp add: trace_RunOnce_def trace_deliver_def trace_mark_def d)
    moreover have "sql_row ob_id (ob_id r) (tt_outbox T1) = Some r"
      using sql_row_unique [OF trace_deliveries.distinct_ids [OF core]] next_due_Some [OF claimed(1)] by blast
    ultimately show ?thesis using claimed(1) m(2) by (simp add: sql_row_update reported_state)
  qed
qed

definition due_count :: "gotime \<Rightarrow> 'p outbox_row list \<Rightarrow> nat" where
  "due_count now t = length (filter (outbox_due now) t)"

lemma due_count_reported:
  assumes "distinct (map ob_id t)" and "r \<in> set t" and "outbox_due now r" and "\<not> outbox_due now (f r)"
  shows "Suc (due_count now (sql_update (\<lambda>x. ob_id x = ob_id r) f t)) = due_count now t"
  using assms(1,2)
proof (induction t)
  case (Cons a t)
  show ?case
  proof (cases "a = r")
    case True
    then have "sql_update (\<lambda>x. ob_id x = ob_id r) f t = t" using Cons.prems(1) by (intro sql_update_none) (auto simp: image_iff)
    then show ?thesis using True assms(3,4) by (simp add: due_count_def sql_update_def)
  next
    case False
    then have "ob_id a \<noteq> ob_id r" using Cons.prems by (auto simp: image_iff)
    then show ?thesis using Cons False by (simp add: due_count_def sql_update_def)
  qed
qed simp

definition acknowledging :: "gotime \<Rightarrow> worker_env \<Rightarrow> bool" where
  "acknowledging now N \<longleftrightarrow> wk_now N = now \<and> wk_locked N = (\<lambda>_. False) \<and> wk_token N \<notin> {None, Some nil_uuid, Some ''''}"

lemma drain_step:
  assumes "fact_inv db" and "acknowledging now N" and "\<And>e. \<exists>body. post e = Responded 204 body"
    and "fact_RunOnce N post (db, T) = (errs, db', T')"
  shows "fact_inv db'" and "due_count (pg_ts now) (db_facts db') = due_count (pg_ts now) (db_facts db) - 1"
    and "\<And>i. map_option ob_status (sql_row ob_id i (db_facts db)) = Some ''DELIVERED'' \<Longrightarrow>
      map_option ob_status (sql_row ob_id i (db_facts db')) = Some ''DELIVERED''"
    and "\<And>r. r \<in> set (db_facts db) \<Longrightarrow> outbox_due (pg_ts now) r \<Longrightarrow> r \<in> set (db_facts db')
      \<or> map_option ob_status (sql_row ob_id (ob_id r) (db_facts db')) = Some ''DELIVERED''"
proof -
  obtain token where tk: "wk_token N = Some token" "token \<noteq> nil_uuid" "token \<noteq> ''''" using assms(2) by (auto simp: acknowledging_def)
  have dist: "distinct (map ob_id (db_facts db))" using assms(1) by (simp add: fact_inv_def)
  have "fact_inv db' \<and> due_count (pg_ts now) (db_facts db') = due_count (pg_ts now) (db_facts db) - 1
    \<and> (\<forall>i. map_option ob_status (sql_row ob_id i (db_facts db)) = Some ''DELIVERED'' \<longrightarrow>
        map_option ob_status (sql_row ob_id i (db_facts db')) = Some ''DELIVERED'')
    \<and> (\<forall>r\<in>set (db_facts db). outbox_due (pg_ts now) r \<longrightarrow> r \<in> set (db_facts db')
      \<or> map_option ob_status (sql_row ob_id (ob_id r) (db_facts db')) = Some ''DELIVERED'')"
  proof (cases rule: fact_pass [OF assms(1) tk, where T = T and post = post, case_names idle claimed])
    case (idle db1)
    then have "due_count (pg_ts now) (db_facts db) = 0"
      using assms(2) by (simp add: acknowledging_def next_due_None due_count_def filter_empty_conv)
    then show ?thesis using idle assms(4) by simp
  next
    case (claimed r db1 T1 rp)
    have r: "r \<in> set (db_facts db)" "outbox_due (pg_ts now) r" using next_due_Some [OF claimed(1)] assms(2) by (simp_all add: acknowledging_def)
    obtain body where "post (Envelope (scan_fact r)) = Responded 204 body" using assms(3) by blast
    then have st: "ob_status (reported (wk_sql N) rp x) = ''DELIVERED''" for x :: fact_row
      by (simp add: claimed(4) reported_state answer_state_def)
    have db': "db' = db1" using claimed(2) assms(4) by simp
    have row: "map_option ob_status (sql_row ob_id i (db_facts db')) = (if i = ob_id r then Some ''DELIVERED''
        else map_option ob_status (sql_row ob_id i (db_facts db)))" for i
      unfolding db' claimed(5) using sql_row_unique [OF dist r(1)] st
      by (cases "sql_row ob_id i (db_facts db)") (auto simp: sql_row_update dest: sql_row_SomeD)
    have "\<not> outbox_due (pg_ts now) (reported (wk_sql N) rp r)" using st by (simp add: outbox_due_def)
    then have "Suc (due_count (pg_ts now) (db_facts db')) = due_count (pg_ts now) (db_facts db)"
      unfolding db' claimed(5) by (rule due_count_reported [OF dist r])
    moreover have "x \<in> set (db_facts db')" if "x \<in> set (db_facts db)" "ob_id x \<noteq> ob_id r" for x
      unfolding db' claimed(5) using that by (force simp: set_sql_update)
    ultimately show ?thesis using row claimed(3) db' by (auto split: if_splits)
  qed
  then show "fact_inv db'" "due_count (pg_ts now) (db_facts db') = due_count (pg_ts now) (db_facts db) - 1"
    "\<And>i. map_option ob_status (sql_row ob_id i (db_facts db)) = Some ''DELIVERED'' \<Longrightarrow>
      map_option ob_status (sql_row ob_id i (db_facts db')) = Some ''DELIVERED''"
    "\<And>r. r \<in> set (db_facts db) \<Longrightarrow> outbox_due (pg_ts now) r \<Longrightarrow> r \<in> set (db_facts db')
      \<or> map_option ob_status (sql_row ob_id (ob_id r) (db_facts db')) = Some ''DELIVERED''" by blast+
qed

definition fact_passes :: "(V1FactEnvelope \<Rightarrow> post_result) \<Rightarrow> worker_env list \<Rightarrow> PostgresStore \<times> trace_tables \<Rightarrow> PostgresStore \<times> trace_tables" where
  "fact_passes post Ns s = fold (\<lambda>N s. snd (fact_RunOnce N post s)) Ns s"

definition fact_delivered :: "string \<Rightarrow> PostgresStore \<Rightarrow> bool" where
  "fact_delivered i db \<longleftrightarrow> map_option ob_status (sql_row ob_id i (db_facts db)) = Some ''DELIVERED''"

lemma fact_passes_Cons:
  "fact_RunOnce N post (db, T) = (errs, db1, T1) \<Longrightarrow> fact_passes post (N # Ns) (db, T) = fact_passes post Ns (db1, T1)"
  by (simp add: fact_passes_def)

lemma delivered_stays:
  assumes "fact_delivered i db" and "fact_inv db" and "list_all (acknowledging now) Ns" and post: "\<And>e. \<exists>body. post e = Responded 204 body"
  shows "fact_delivered i (fst (fact_passes post Ns (db, T)))"
  using assms(1-3)
proof (induction Ns arbitrary: db T)
  case (Cons N Ns)
  obtain errs db1 T1 where run: "fact_RunOnce N post (db, T) = (errs, db1, T1)" by (cases "fact_RunOnce N post (db, T)")
  have N: "acknowledging now N" using Cons.prems(3) by simp
  have "fact_delivered i db1" using drain_step(3) [OF Cons.prems(2) N post run] Cons.prems(1) unfolding fact_delivered_def by blast
  then show ?case unfolding fact_passes_Cons [OF run] using drain_step(1) [OF Cons.prems(2) N post run] Cons.prems(3)
    by (intro Cons.IH) simp_all
qed (simp add: fact_passes_def)


text \<open>
  The backoff is bounded. A delivery is tried again after a power of two of seconds that grows
  with its retries, at least one second and at most one minute later.
\<close>

theorem retry_backoff:
  assumes "0 \<le> retries"
  shows "retryAt now retries = now + min (2 ^ nat retries * duration_second) duration_minute"
proof (cases "retries \<le> 5")
  case True
  then have "retries \<in> {0, 1, 2, 3, 4, 5}" using assms by auto
  then show ?thesis by (auto simp: retryAt_def Let_def)
next
  case False
  then have "(2::int) ^ 6 \<le> 2 ^ nat retries" by (intro power_increasing) auto
  then show ?thesis using False by (simp add: retryAt_def Let_def min_def)
qed

theorem retry_backoff_witness: "retryAt 0 9 = 60 * duration_second"
  using retry_backoff [of 9 0] by simp

subsection \<open>A concrete pass\<close>

definition sample_pass :: worker_env where
  "sample_pass = \<lparr>wk_locked = (\<lambda>_. False), wk_now = 10000, wk_token = Some ''tok'', wk_clock = 12000, wk_sql = 12000,
     wk_trace = sample_trace_env CHR ''w''\<rparr>"

lemma sample_due:
  "next_due (\<lambda>_. False) (pg_ts 10000) (db_facts sample_fact_db) = Some (hd (db_facts sample_fact_db))"
  "due_count (pg_ts 10000) (db_facts sample_fact_db) = 1" "outbox_due (pg_ts 10000) (hd (db_facts sample_fact_db))"
  by (simp_all add: next_due_def due_count_def sample_fact_db_facts outbox_due_def new_fact_row_def pg_ts_def truncate_us_def)

theorem fact_worker_pass_witness:
  "case fact_RunOnce sample_pass (\<lambda>_. Responded 503 None) (sample_fact_db, empty_traces) of
     (errs, db', T') \<Rightarrow> errs = [] \<and> map_option ob_status (sql_row ob_id ''u0'' (db_facts db')) = Some ''RETRY'' \<and> T' = empty_traces"
  using fact_worker_pass [OF sample_fact_inv, where N = sample_pass and token = "''tok''" and post = "\<lambda>_. Responded 503 None" and T = empty_traces] sample_due(1)
  by (auto simp: sample_pass_def nil_uuid_def answer_state_def transient_status_def sample_fact_db_facts split: prod.splits)




end
