(* ===== verification/Service_Start.thy ===== *)
theory Service_Start
  imports Service_Config HTTP_System Delivery_Workers
begin

text \<open>
  The process from its configuration to its first requests (\<^verbatim>\<open>cmd/ocpphal/main.go\<close>, the constructor of
  the store in \<^verbatim>\<open>store/postgres.go\<close>, \<^verbatim>\<open>New\<close> of \<^verbatim>\<open>ocpp16hal/hal.go\<close>), and one pass of each of its periodic
  workers. Parameters: opening and pinging the database, its answer about privileges, the
  environments of the store calls, and the OCPP library. Listening sockets, signals, tickers and
  logging are outside the model.
\<close>

subsection \<open>The store\<close>

text \<open>The target the runtime connects to; \<open>urlString\<close> is as for \<open>PostgresURL\<close>.\<close>

definition postgresURL :: "(string \<Rightarrow> string \<Rightarrow> string \<Rightarrow> string \<Rightarrow> string \<Rightarrow> string) \<Rightarrow> Config \<Rightarrow> string" where
  "postgresURL urlString c = urlString (cfg_DBUser c) (cfg_DBPassword c) (cfg_DBHost c @ '':'' @ FormatInt (cfg_DBPort c)) (cfg_DBName c) (cfg_DBSSLMode c)"

definition required_relations :: "string list" where
  "required_relations = [''v1_transactions'', ''v1_remote_commands'', ''v1_fact_outbox'', ''v1_transaction_completion_fact_keys'']"

text \<open>The rows of the privilege query: for each required relation, whether it exists and is permitted.\<close>

definition verifyV1RuntimePrivileges :: "(string \<Rightarrow> (bool \<times> bool) res) \<Rightarrow> unit res" where
  "verifyV1RuntimePrivileges privileges =
     (case those (map (\<lambda>name. case privileges name of Inl _ \<Rightarrow> None | Inr (exists, permitted) \<Rightarrow> Some (name, exists \<and> permitted)) required_relations) of
        None \<Rightarrow> Inl (ErrOther ''inspect HAL runtime relation privileges'')
      | Some rows \<Rightarrow> if list_all snd rows then Inr () else Inl (ErrOther ''HAL runtime role lacks required relation privilege or relation is missing''))"

record start_env =
  se_urlString :: "string \<Rightarrow> string \<Rightarrow> string \<Rightarrow> string \<Rightarrow> string \<Rightarrow> string"
  se_open :: "string \<Rightarrow> unit res"
  se_ping :: "string \<Rightarrow> unit res"
  se_privileges :: "string \<Rightarrow> (bool \<times> bool) res"
  se_reset :: pg_env
  se_now :: gotime
  se_dispatch :: "string \<Rightarrow> delivery_env"
  se_enforce :: enforce_env
  se_send :: "string \<Rightarrow> central_call \<Rightarrow> string ocpp_outcome"

definition NewPostgresStore :: "start_env \<Rightarrow> Config \<Rightarrow> unit res" where
  "NewPostgresStore V c =
     (let dsn = TrimSpace (cfg_DatabaseURL c);
          dsn = (if dsn = '''' then postgresURL (se_urlString V) c else dsn)
      in case se_open V dsn of
           Inl err \<Rightarrow> Inl err
         | Inr _ \<Rightarrow> (case se_ping V dsn of Inl err \<Rightarrow> Inl err | Inr _ \<Rightarrow> verifyV1RuntimePrivileges (se_privileges V)))"

definition chooseV1Store :: "start_env \<Rightarrow> Config \<Rightarrow> PostgresStore \<Rightarrow> unit res \<times> PostgresStore" where
  "chooseV1Store V c db =
     (if cfg_V1CMSBearerToken c = '''' then (Inl (ErrOther ''HAL_V1_CMS_BEARER_TOKEN is required''), db)
      else (case NewPostgresStore V c of
          Inl err \<Rightarrow> (Inl err, db)
        | Inr _ \<Rightarrow> pg_ResetV1ConnectionRuntime (se_reset V) db))"

subsection \<open>The process\<close>

definition HAL_New :: "PostgresStore \<Rightarrow> HAL" where
  "HAL_New db = \<lparr>hal_db = db, hal_connections = newConnectionTracker, hal_wiredIdentity = [], hal_registry = NewRegistry,
     hal_operationObserver = \<lparr>obs_byRequest = [], obs_byUnique = []\<rparr>, hal_pendingRuntime = [],
     hal_settings = \<lparr>cf_heartbeatIntervalSeconds = 300, cf_configurationMeterSampleIntervalSeconds = 15,
       cf_configurationReconcileTimeout = 20 * duration_second, cf_vendorConfigurationProfile = '''', cf_vendorConfigurationVendor = ''''\<rparr>,
     hal_traces = []\<rparr>"

definition configure_HAL :: "Config \<Rightarrow> HAL \<Rightarrow> HAL" where
  "configure_HAL c h = h\<lparr>hal_settings := SetConfigurationReconciliation
     \<lparr>rc_MeterValueSampleIntervalSeconds = cfg_OCPPMeterSampleIntervalSeconds c,
       rc_Timeout = cfg_OCPPConfigurationReconcileTimeoutSeconds c * duration_second,
       rc_VendorProfile = cfg_OCPPVendorConfigurationProfile c, rc_Vendor = cfg_OCPPVendorConfigurationVendor c\<rparr>
     (SetHeartbeatIntervalSeconds (cfg_OCPPHeartbeatIntervalSeconds c) (hal_settings h))\<rparr>"

text \<open>What runs after a successful start: the server and the two delivery workers with their target and token.\<close>

record hal_process =
  pr_server :: Server
  pr_facts :: "(string \<times> string) option"
  pr_traces :: "(string \<times> string) option"

definition start_process ::
  "start_env \<Rightarrow> Config \<Rightarrow> trace_tables \<Rightarrow> PostgresStore \<Rightarrow> ((hal_process res \<times> string list) \<times> PostgresStore)" where
  "start_process V c T db =
     (case chooseV1Store V c db of
        (Inl err, db1) \<Rightarrow> ((Inl err, []), db1)
      | (Inr _, db1) \<Rightarrow>
          (let h = configure_HAL c (HAL_New db1);
               remoteStop = (\<lambda>chargerID transactionID. fst (RemoteStopTransaction (hal_wiredIdentity h) (se_send V) chargerID transactionID));
               ((err, sent), queue, db2) = RecoverV1Lifecycle (se_now V) (se_dispatch V) (se_enforce V) remoteStop (hal_pendingRuntime h, db1)
           in case err of
                Some e \<Rightarrow> ((Inl e, sent), db2)
              | None \<Rightarrow>
                  (case worker_New ''HAL_V1_CMS_FACTS_URL and HAL_V1_CMS_FACT_BEARER_TOKEN are required when HAL_V1_FACT_DELIVERY_ENABLED=true'' (cfg_V1FactDeliveryEnabled c) (cfg_V1CMSFactsURL c) (cfg_V1CMSFactsBearerToken c) of
                     Inl e \<Rightarrow> ((Inl e, sent), db2)
                   | Inr facts \<Rightarrow>
                       (case worker_New ''HAL_V1_CMS_TRACE_URL and HAL_V1_CMS_TRACE_BEARER_TOKEN are required when HAL_V1_TRACE_DELIVERY_ENABLED=true'' (cfg_V1TraceDeliveryEnabled c) (cfg_V1CMSTraceURL c) (cfg_V1CMSTraceBearerToken c) of
                          Inl e \<Rightarrow> ((Inl e, sent), db2)
                        | Inr traces \<Rightarrow>
                            ((Inr \<lparr>pr_server = \<lparr>sv_V1CMSBearerToken = cfg_V1CMSBearerToken c, sv_APIDocsEnabled = cfg_APIDocsEnabled c,
                                 sv_hal = h\<lparr>hal_db := db2, hal_pendingRuntime := queue\<rparr>, sv_traces = T\<rparr>,
                               pr_facts = facts, pr_traces = traces\<rparr>, sent), db2)))))"

subsection \<open>Periodic passes\<close>

text \<open>One pass of \<^verbatim>\<open>runTraceRetention\<close>: \<^verbatim>\<open>AddDate\<close> in UTC subtracts whole days.\<close>

definition runTraceRetention :: "gotime \<Rightarrow> int \<Rightarrow> trace_tables \<Rightarrow> trace_tables" where
  "runTraceRetention now retentionDays T =
     (let retentionDays = (if retentionDays < 1 then 30 else retentionDays)
      in snd (pg_DeleteV1TracesBefore (now - retentionDays * (24 * 60 * duration_minute)) 500 T))"

subsection \<open>A configured process\<close>

lemma worker_New_configured:
  assumes "enabled \<longrightarrow> TrimSpace url \<noteq> '''' \<and> TrimSpace token \<noteq> ''''"
  shows "worker_New missing enabled url token = Inr (if enabled then Some (url, token) else None)"
  using assms by (auto simp: worker_New_def)

lemma start_process_cases:
  assumes "start_process V c T db = ((r, sent), db')"
  obtains (store) e where "chooseV1Store V c db = (Inl e, db')" "r = Inl e" "sent = []"
  | (recovery) db1 remoteStop queue e where "chooseV1Store V c db = (Inr (), db1)"
      "RecoverV1Lifecycle (se_now V) (se_dispatch V) (se_enforce V) remoteStop ([], db1) = ((Some e, sent), queue, db')" "r = Inl e"
  | (workers) db1 remoteStop queue e where "chooseV1Store V c db = (Inr (), db1)"
      "RecoverV1Lifecycle (se_now V) (se_dispatch V) (se_enforce V) remoteStop ([], db1) = ((None, sent), queue, db')" "r = Inl e"
      "(\<exists>missing. worker_New missing (cfg_V1FactDeliveryEnabled c) (cfg_V1CMSFactsURL c) (cfg_V1CMSFactsBearerToken c) = Inl e)
       \<or> (\<exists>missing. worker_New missing (cfg_V1TraceDeliveryEnabled c) (cfg_V1CMSTraceURL c) (cfg_V1CMSTraceBearerToken c) = Inl e)"
  | (running) db1 remoteStop queue facts traces missing missing' where "chooseV1Store V c db = (Inr (), db1)"
      "RecoverV1Lifecycle (se_now V) (se_dispatch V) (se_enforce V) remoteStop ([], db1) = ((None, sent), queue, db')"
      "worker_New missing (cfg_V1FactDeliveryEnabled c) (cfg_V1CMSFactsURL c) (cfg_V1CMSFactsBearerToken c) = Inr facts"
      "worker_New missing' (cfg_V1TraceDeliveryEnabled c) (cfg_V1CMSTraceURL c) (cfg_V1CMSTraceBearerToken c) = Inr traces"
      "r = Inr \<lparr>pr_server = \<lparr>sv_V1CMSBearerToken = cfg_V1CMSBearerToken c, sv_APIDocsEnabled = cfg_APIDocsEnabled c,
           sv_hal = (configure_HAL c (HAL_New db1))\<lparr>hal_db := db', hal_pendingRuntime := queue\<rparr>, sv_traces = T\<rparr>,
         pr_facts = facts, pr_traces = traces\<rparr>"
proof -
  have [simp]: "hal_pendingRuntime (configure_HAL c (HAL_New db1)) = []" for db1 by (simp add: configure_HAL_def HAL_New_def)
  obtain u db1 where ch: "chooseV1Store V c db = (u, db1)" by force
  define remoteStop where "remoteStop = (\<lambda>chargerID transactionID.
    fst (RemoteStopTransaction (hal_wiredIdentity (configure_HAL c (HAL_New db1))) (se_send V) chargerID transactionID))"
  obtain err s queue db2 where rec: "RecoverV1Lifecycle (se_now V) (se_dispatch V) (se_enforce V) remoteStop ([], db1) = ((err, s), queue, db2)"
    by (metis prod.exhaust)
  note run = assms [unfolded start_process_def, folded remoteStop_def]
  show thesis
  proof (cases u)
    case (Inl e)
    then show thesis using store [of e] run ch by simp
  next
    case (Inr x)
    note run = run [unfolded ch Inr prod.case sum.case Let_def, folded remoteStop_def]
    have u: "chooseV1Store V c db = (Inr (), db1)" using ch Inr by simp
    show thesis
    proof (cases err)
      case (Some e)
      have "((r, sent), db') = ((Inl e, s), db2)" using run rec Some by simp
      then show thesis using recovery [OF u] rec Some by simp
    next
      case None
      then have d: "sent = s \<and> db' = db2" using run rec by (auto split: sum.splits)
      note rec = rec [unfolded None d [THEN conjunct1, symmetric] d [THEN conjunct2, symmetric]]
      show thesis using workers [OF u rec] running [OF u rec] run rec by (auto split: sum.splits)
    qed
  qed
qed


subsection \<open>Restarts\<close>

lemma recovered_delivery:
  "stop_steps (db, hs, wire)
     (pg_RecoverV1ChargerOperationDelivery now (pg_RecoverV1StopDelivery now (pg_RecoverV1CommandDelivery now db)), {#}, wire)"
proof -
  obtain e :: mark_env where e: "env_now (de_claim (me_delivery e)) = now"
    by (metis delivery_env.select_convs(1) mark_env.select_convs(1) pg_env.select_convs(1))
  let ?a = "pg_RecoverV1CommandDelivery now db"
  have "beside_stop db ?a" using start_delivery_step.recover_commands by (simp add: beside_stop_def)
  then have "stop_steps (db, hs, wire) (?a, hs, wire)" by (rule beside_stop_step)
  moreover have "delivery_step stop_store beside_stop (?a, hs, wire) (pg_RecoverV1StopDelivery now ?a, {#}, wire)"
    using delivery_step.restart [of stop_store beside_stop ?a hs wire e] e by (simp add: stop_store_def)
  moreover have "beside_stop (pg_RecoverV1StopDelivery now ?a) (pg_RecoverV1ChargerOperationDelivery now (pg_RecoverV1StopDelivery now ?a))"
    using outer_step.recover_operations by (simp add: beside_stop_def)
  then have "stop_steps (pg_RecoverV1StopDelivery now ?a, {#}, wire) (pg_RecoverV1ChargerOperationDelivery now (pg_RecoverV1StopDelivery now ?a), {#}, wire)"
    by (rule beside_stop_step)
  ultimately show ?thesis by (meson rtranclp.rtrancl_into_rtrancl rtranclp_trans)
qed

lemma RecoverV1Lifecycle_run:
  assumes "RecoverV1Lifecycle now D N remoteStop (queue, db) = ((err, sent), queue', db')"
  shows "stop_steps (db, hs, wire) (db', {#}, wire @ sent)"
proof -
  let ?db1 = "pg_RecoverV1ChargerOperationDelivery now (pg_RecoverV1StopDelivery now (pg_RecoverV1CommandDelivery now db))"
  obtain s1 db2 where p: "DispatchPendingV1Stops D remoteStop ?db1 = (s1, db2)" by force
  obtain err' s2 q db3 where e: "EnforceV1Deadlines N remoteStop (queue, db2) = ((err', s2), q, db3)" by (metis prod.exhaust)
  have r: "sent = s1 @ s2" "db' = db3" using assms p e by (simp_all add: RecoverV1Lifecycle_def Let_def)
  have "stop_steps (?db1, {#}, wire) (db2, {#}, wire @ s1)" using dispatch_stops_run [OF p [unfolded DispatchPendingV1Stops_def]] .
  moreover have "stop_steps (db2, {#}, wire @ s1) (db', {#}, wire @ sent)" using EnforceV1Deadlines_run [OF e, of "{#}" "wire @ s1"] r by simp
  ultimately show ?thesis using recovered_delivery [of db hs wire now] by (meson rtranclp_trans)
qed

lemma chooseV1Store_run: "stop_steps (db, hs, wire) (snd (chooseV1Store V c db), hs, wire)"
proof -
  have "beside_stop db (snd (pg_ResetV1ConnectionRuntime (se_reset V) db))" using outer_step.reset_runtime by (simp add: beside_stop_def)
  then have "stop_steps (db, hs, wire) (snd (pg_ResetV1ConnectionRuntime (se_reset V) db), hs, wire)" by (rule beside_stop_step)
  then show ?thesis by (auto simp: chooseV1Store_def split: sum.split)
qed

lemma chosen_recovery_run:
  assumes "chooseV1Store V c db = (Inr (), db1)" and "RecoverV1Lifecycle now D N remoteStop ([], db1) = ((err, sent), queue, db')"
  shows "\<exists>hs'. stop_steps (db, hs, wire) (db', hs', wire @ sent)"
  using rtranclp_trans [OF chooseV1Store_run [of db hs wire V c] RecoverV1Lifecycle_run [of now D N remoteStop "[]" _ err sent queue db' hs wire]] assms
  by auto

text \<open>
  C13: a restart never repeats a stop. Whatever was sent before the process went down, at whatever
  point of a delivery, the stops that a new process sends while it starts are ones that were never
  sent; together each transaction is stopped at most once. A start that fails half way counts as well.
\<close>

theorem restart_stops_once:
  assumes "stop_steps (empty_db, {#}, []) (db, hs, wire)" and "start_process V c T db = ((r, sent), db')"
  shows "count_list (wire @ sent) i \<le> 1"
proof -
  have "\<exists>hs'. stop_steps (db, hs, wire) (db', hs', wire @ sent)"
    using assms(2)
  proof (cases rule: start_process_cases)
    case (store e)
    then show ?thesis using chooseV1Store_run [of db hs wire V c] by auto
  qed (rule chosen_recovery_run, assumption, assumption)+
  then show ?thesis using assms(1) stop_delivery.sent_at_most_once [OF life_inv_empty] by (meson rtranclp_trans)
qed

text \<open>The runtime and the migration tool disagree about an IPv6 database host.\<close>

lemma runtime_target_differs:
  assumes "CHR '':'' \<in> set (cfg_DBHost c)" and "TrimSpace (cfg_DatabaseURL c) = ''''" and "\<And>u p h n m h'. urlString u p h n m = urlString u p h' n m \<Longrightarrow> h = h'"
  shows "postgresURL urlString c \<noteq> PostgresURL urlString c"
proof
  assume "postgresURL urlString c = PostgresURL urlString c"
  then have "cfg_DBHost c @ '':'' @ FormatInt (cfg_DBPort c) = JoinHostPort (cfg_DBHost c) (FormatInt (cfg_DBPort c))"
    using assms(2,3) by (auto simp: postgresURL_def PostgresURL_def)
  then have "length (cfg_DBHost c @ '':'' @ FormatInt (cfg_DBPort c)) = length (''['' @ cfg_DBHost c @ '']:'' @ FormatInt (cfg_DBPort c))"
    using assms(1) by (simp add: JoinHostPort_def)
  then show False by simp
qed

text \<open>A start over an empty database, and a restart of the sample session with its stop already sent.\<close>

definition sample_start_env :: start_env where
  "sample_start_env = \<lparr>se_urlString = (\<lambda>u p h n m. h), se_open = (\<lambda>_. Inr ()), se_ping = (\<lambda>_. Inr ()), se_privileges = (\<lambda>_. Inr (True, True)),
     se_reset = sample_env, se_now = 9000, se_dispatch = (\<lambda>_. sample_delivery), se_enforce = sample_enforce,
     se_send = (\<lambda>_ _. ocpp_outcome.Answered None (Some ''Accepted''))\<rparr>"

lemma sample_process: "\<exists>P. start_process sample_start_env sample_config empty_traces empty_db = ((Inr P, []), empty_db)"
proof -
  have privileges: "verifyV1RuntimePrivileges (\<lambda>_. Inr (True, True)) = Inr ()"
    by (simp add: verifyV1RuntimePrivileges_def required_relations_def)
  have reset: "pg_ResetV1ConnectionRuntime E empty_db = (Inr (), empty_db)" for E
    by (simp add: pg_ResetV1ConnectionRuntime_def empty_db_def pg_tx_def sql_update_def)
  have chosen: "chooseV1Store sample_start_env sample_config empty_db = (Inr (), empty_db)"
    by (simp add: chooseV1Store_def NewPostgresStore_def sample_start_env_def privileges reset) (simp add: sample_config_def)
  have "pg_RecoverV1ChargerOperationDelivery now (pg_RecoverV1StopDelivery now (pg_RecoverV1CommandDelivery now empty_db)) = empty_db" for now
    by (simp add: empty_db_def pg_RecoverV1ChargerOperationDelivery_def pg_RecoverV1StopDelivery_def pg_RecoverV1CommandDelivery_def sql_update_def)
  moreover have "pg_ListV1DispatchableStops 100 empty_db = []" "pg_ListV1OverdueTransactions now 100 empty_db = Inr []" for now
    by (simp_all add: pg_ListV1DispatchableStops_def pg_ListV1OverdueTransactions_def empty_db_def)
  ultimately have "RecoverV1Lifecycle now D sample_enforce remoteStop ([], empty_db) = ((None, []), [], empty_db)" for now D remoteStop
    by (simp add: RecoverV1Lifecycle_def EnforceV1Deadlines_def DispatchPendingV1Stops_def Let_def)
  then show ?thesis
    by (simp add: start_process_def chosen Let_def) (simp add: sample_start_env_def sample_config_def configure_HAL_def HAL_New_def worker_New_def)
qed


theorem restart_stops_once_witness:
  "\<exists>db r sent db'. stop_steps (empty_db, {#}, []) (db, {#}, [''b0'']) \<and> start_process sample_start_env sample_config empty_traces db = ((r, sent), db')
    \<and> ''b0'' \<notin> set sent"
proof -
  obtain w db where run: "DispatchV1Stop sample_delivery (\<lambda>_ _. Inr ''Accepted'') ''b0'' pg_sample_metered = ((Inr w, [''b0'']), db)"
    by (rule sample_stop_sent)
  have "stop_steps (empty_db, {#}, []) (pg_sample_metered, {#}, [])"
    using sample_lifecycle by (intro rtranclp_trans [OF beside_stop_step rtranclp_trans [OF beside_stop_step beside_stop_step]])
      (auto simp: beside_stop_def)
  then have steps: "stop_steps (empty_db, {#}, []) (db, {#}, [''b0''])" using DispatchV1Stop_run [OF run, of "{#}" "[]"] by (simp add: rtranclp_trans)
  obtain r sent db' where s: "start_process sample_start_env sample_config empty_traces db = ((r, sent), db')" by (metis prod.exhaust)
  have "count_list ([''b0''] @ sent) ''b0'' \<le> 1" by (rule restart_stops_once [OF steps s])
  then have "''b0'' \<notin> set sent" by (auto simp: count_list_0_iff)
  with steps s show ?thesis by blast
qed

end
