(* ===== verification/Migration_Runner.thy ===== *)
theory Migration_Runner
  imports Service_Config
begin

text \<open>
  The guarded path for schema changes (\<^verbatim>\<open>migrationrunner/runner.go\<close>): a reviewed migration runs in one
  transaction as the configured application role, and is committed only if every table it creates
  belongs to that role. The database is a catalogue of table owners and the session's current role;
  what a statement does to it, \<^verbatim>\<open>quote_ident\<close> and every failure of a call are parameters. The
  regular expression \<^verbatim>\<open>createTable\<close> is matched on ASCII text, leftmost match first.
\<close>

subsection \<open>The tables a migration creates\<close>

definition re_space :: "char \<Rightarrow> bool" where
  "re_space c \<longleftrightarrow> c \<in> {CHR '' '', CHR 0x09, CHR 0x0A, CHR 0x0C, CHR 0x0D}"

definition name_start :: "char \<Rightarrow> bool" where
  "name_start c \<longleftrightarrow> (let n = of_char (lower_char c) :: nat in 97 \<le> n \<and> n \<le> 122 \<or> c = CHR ''_'')"

definition name_char :: "char \<Rightarrow> bool" where
  "name_char c \<longleftrightarrow> name_start c \<or> is_digit c"

text \<open>A keyword in any case, \<^verbatim>\<open>\s+\<close>, and a name; each gives the rest of the text.\<close>

definition keyword :: "string \<Rightarrow> string \<Rightarrow> string option" where
  "keyword word s = (if ToLower (take (length word) s) = word then Some (drop (length word) s) else None)"

definition spaces :: "string \<Rightarrow> string option" where
  "spaces s = (case s of c # _ \<Rightarrow> if re_space c then Some (dropWhile re_space s) else None | [] \<Rightarrow> None)"

definition name :: "string \<Rightarrow> (string \<times> string) option" where
  "name s = (case s of c # _ \<Rightarrow> if name_start c then Some (takeWhile name_char s, dropWhile name_char s) else None | [] \<Rightarrow> None)"

text \<open>The name, with a schema before it when one is there.\<close>

definition qualified_name :: "string \<Rightarrow> (string \<times> string) option" where
  "qualified_name s =
     (case name s of
        None \<Rightarrow> None
      | Some (n, rest) \<Rightarrow>
          (case rest of
             c # rest' \<Rightarrow> if c = CHR ''.'' then (case name rest' of Some m \<Rightarrow> Some m | None \<Rightarrow> Some (n, rest)) else Some (n, rest)
           | [] \<Rightarrow> Some (n, rest)))"

definition if_not_exists :: "string \<Rightarrow> string option" where
  "if_not_exists s = Option.bind (keyword ''if'' s) (\<lambda>s. Option.bind (spaces s) (\<lambda>s. Option.bind (keyword ''not'' s) (\<lambda>s.
     Option.bind (spaces s) (\<lambda>s. Option.bind (keyword ''exists'' s) spaces))))"

definition createTable :: "string \<Rightarrow> (string \<times> string) option" where
  "createTable s = Option.bind (keyword ''create'' s) (\<lambda>s. Option.bind (spaces s) (\<lambda>s. Option.bind (keyword ''table'' s) (\<lambda>s.
     Option.bind (spaces s) (\<lambda>s.
       case if_not_exists s of
         Some s' \<Rightarrow> (case qualified_name s' of Some m \<Rightarrow> Some m | None \<Rightarrow> qualified_name s)
       | None \<Rightarrow> qualified_name s))))"

lemma rest_shorter:
  "keyword w s = Some s' \<Longrightarrow> length s' \<le> length s" "spaces s = Some s' \<Longrightarrow> length s' < length s" "name s = Some (n, s') \<Longrightarrow> length s' < length s"
proof -
  show "keyword w s = Some s' \<Longrightarrow> length s' \<le> length s" by (auto simp: keyword_def split: if_splits)
  show "spaces s = Some s' \<Longrightarrow> length s' < length s"
    by (auto simp: spaces_def less_Suc_eq_le length_dropWhile_le split: list.splits if_splits)
  show "name s = Some (n, s') \<Longrightarrow> length s' < length s"
    by (auto simp: name_def name_char_def less_Suc_eq_le length_dropWhile_le split: list.splits if_splits)
qed

lemma qualified_shorter: "qualified_name s = Some (n, s') \<Longrightarrow> length s' < length s"
  by (auto simp: qualified_name_def dest!: rest_shorter(3) split: option.splits list.splits if_splits)

lemma createTable_shorter:
  assumes "createTable s = Some (n, s')"
  shows "length s' < length s"
proof -
  obtain s1 s2 s3 s4 where s: "keyword ''create'' s = Some s1" "spaces s1 = Some s2" "keyword ''table'' s2 = Some s3" "spaces s3 = Some s4"
    and m: "(case if_not_exists s4 of Some s' \<Rightarrow> (case qualified_name s' of Some m \<Rightarrow> Some m | None \<Rightarrow> qualified_name s4)
      | None \<Rightarrow> qualified_name s4) = Some (n, s')"
    using assms by (auto simp: createTable_def bind_eq_Some_conv)
  have i: "length t \<le> length s4" if "if_not_exists s4 = Some t" for t
    using that by (auto simp: if_not_exists_def bind_eq_Some_conv dest!: rest_shorter)
  have "length s' < length s4" using m i by (force dest!: qualified_shorter split: option.splits)
  then show ?thesis using s by (auto dest!: rest_shorter)
qed

text \<open>\<^verbatim>\<open>FindAllStringSubmatch\<close>: matches do not overlap.\<close>

function find_tables :: "string \<Rightarrow> string list" where
  "find_tables s = (case createTable s of
     Some (n, rest) \<Rightarrow> n # find_tables rest
   | None \<Rightarrow> (case s of [] \<Rightarrow> [] | _ # s' \<Rightarrow> find_tables s'))"
  by pat_completeness auto
termination
  by (relation "measure length") (auto dest: createTable_shorter)

declare find_tables.simps [simp del]

fun first_occurrences :: "string list \<Rightarrow> string list \<Rightarrow> string list" where
  "first_occurrences seen [] = []"
| "first_occurrences seen (x # xs) = (if x \<in> set seen then first_occurrences seen xs else x # first_occurrences (x # seen) xs)"

definition CreatedTables :: "string \<Rightarrow> string list" where
  "CreatedTables sqlText = first_occurrences [] (map ToLower (find_tables sqlText))"

subsection \<open>Applying a migration\<close>

record catalogue =
  cat_owner :: "string \<Rightarrow> string option"
  cat_user :: string

record migration_env =
  mg_begin :: "config_error option"
  mg_quote :: "string \<Rightarrow> string config_res"
  mg_setRole :: "string \<Rightarrow> catalogue \<Rightarrow> catalogue config_res"
  mg_currentUser :: "catalogue \<Rightarrow> string config_res"
  mg_exec :: "string \<Rightarrow> catalogue \<Rightarrow> catalogue config_res"
  mg_resetRole :: "catalogue \<Rightarrow> catalogue config_res"
  mg_inspect :: "string \<Rightarrow> catalogue \<Rightarrow> string config_res"
  mg_commit :: "config_error option"

fun check_owners :: "migration_env \<Rightarrow> string \<Rightarrow> string list \<Rightarrow> catalogue \<Rightarrow> unit config_res" where
  "check_owners M role [] cat = Inr ()"
| "check_owners M role (table # tables) cat =
     checked (mg_inspect M table cat) (\<lambda>owner. if owner \<noteq> role then Inl (InvalidSetting table) else check_owners M role tables cat)"

definition apply_tx :: "migration_env \<Rightarrow> string \<Rightarrow> string \<Rightarrow> catalogue \<Rightarrow> catalogue config_res" where
  "apply_tx M role sqlText cat =
     checked (mg_quote M role) (\<lambda>quotedRole.
     checked (mg_setRole M quotedRole cat) (\<lambda>cat1.
     checked (mg_currentUser M cat1) (\<lambda>currentUser.
     if currentUser \<noteq> role then Inl (InvalidSetting ''HAL_MIGRATION_APPLICATION_ROLE'')
     else checked (mg_exec M sqlText cat1) (\<lambda>cat2.
          checked (mg_resetRole M cat2) (\<lambda>cat3.
          checked (check_owners M role (CreatedTables sqlText) cat3) (\<lambda>_. Inr cat3))))))"

text \<open>Any error rolls back; \<^verbatim>\<open>SET LOCAL ROLE\<close> ends with the transaction.\<close>

definition Apply :: "migration_env \<Rightarrow> string \<Rightarrow> string \<Rightarrow> catalogue \<Rightarrow> unit config_res \<times> catalogue" where
  "Apply M applicationRole sqlText cat =
     (let role = TrimSpace applicationRole in
      if role = '''' then (Inl (RequiredSetting ''HAL_MIGRATION_APPLICATION_ROLE''), cat)
      else if TrimSpace sqlText = '''' then (Inl (InvalidSetting ''sql''), cat)
      else (case mg_begin M of
          Some e \<Rightarrow> (Inl e, cat)
        | None \<Rightarrow>
            (case apply_tx M role sqlText cat of
               Inl e \<Rightarrow> (Inl e, cat)
             | Inr cat' \<Rightarrow> (case mg_commit M of Some e \<Rightarrow> (Inl e, cat) | None \<Rightarrow> (Inr (), cat'\<lparr>cat_user := cat_user cat\<rparr>)))))"

subsection \<open>What a committed migration leaves\<close>

lemma check_owners_all: "check_owners M role tables cat = Inr u \<Longrightarrow> \<forall>t\<in>set tables. mg_inspect M t cat = Inr role"
  by (induction tables) (auto split: if_splits)


text \<open>A table whose name is written in quotes is not among the created tables, and its owner is not checked.\<close>

lemma quoted_table_unchecked:
  "CreatedTables ''CREATE TABLE hal.Sites (id int)'' = [''sites'']" "CreatedTables (''CREATE TABLE '' @ [CHR 0x22] @ ''sites'' @ [CHR 0x22]) = []"
  by code_simp+

definition sample_migration :: migration_env where
  "sample_migration = \<lparr>mg_begin = None, mg_quote = Inr, mg_setRole = (\<lambda>role cat. Inr (cat\<lparr>cat_user := role\<rparr>)),
     mg_currentUser = (\<lambda>cat. Inr (cat_user cat)), mg_exec = (\<lambda>_ cat. Inr (cat\<lparr>cat_owner := (cat_owner cat)(''sites'' \<mapsto> cat_user cat)\<rparr>)),
     mg_resetRole = (\<lambda>cat. Inr (cat\<lparr>cat_user := ''admin''\<rparr>)),
     mg_inspect = (\<lambda>t cat. case cat_owner cat t of None \<Rightarrow> Inl (InvalidSetting t) | Some owner \<Rightarrow> Inr owner), mg_commit = None\<rparr>"


end
