(* ===== verification/Transaction_Store.thy ===== *)
theory Transaction_Store
  imports Charger_Registry SQL_Table Trace_Evidence
begin

text \<open>
  The transaction store of the first protocol version (\<^verbatim>\<open>store/store.go\<close>): one interface,
  \<^verbatim>\<open>TransactionStore\<close>, implemented in memory (\<^verbatim>\<open>memory.go\<close>, \<^verbatim>\<open>limit_stop_memory.go\<close>,
  \<^verbatim>\<open>outbox_memory.go\<close>, \<^verbatim>\<open>callback_reconcile_memory.go\<close>) and on PostgreSQL (\<^verbatim>\<open>postgres.go\<close>,
  \<^verbatim>\<open>limit_stop_postgres.go\<close>, \<^verbatim>\<open>outbox_postgres.go\<close>, \<^verbatim>\<open>callback_reconcile_postgres.go\<close>). This theory holds
  the data and the operations of both; \<open>Transaction_System\<close> shows what they share.

  \<^verbatim>\<open>float64\<close> values are rationals, and every operation rounds with \<open>rnd\<close> as in the registry. The order
  of a list stands for the order in which Go iterates a map or PostgreSQL stores a table. Parameters
  are the clock, the random identifiers, the secure UUIDs, \<^verbatim>\<open>json.Marshal\<close> and the rows other sessions
  have locked; failures of the database itself are outside the model.
\<close>

datatype tx_error = ErrTransactionNotFound | ErrNoUniqueTransactionID | ErrGenerateUUID | ErrMarshal

type_synonym 'a tres = "tx_error + 'a"

record Transaction =
  t_ID :: int
  t_UUIDDB :: string
  t_ChargerID :: string
  t_ConnectorID :: int
  t_MeterStart :: rat
  t_MeterStop :: "rat option"
  t_TotalConsumption :: "rat option"
  t_StartTime :: gotime
  t_StopTime :: "gotime option"
  t_IDTag :: string
  t_TransactionID :: int
  t_IsSingleSession :: bool
  t_MaxKWh :: "rat option"
  t_LimitStopRequested :: bool

record CreateTransactionInput =
  ct_ChargerID :: string
  ct_ConnectorID :: int
  ct_MeterStart :: rat
  ct_IDTag :: string
  ct_IsSingleSession :: bool

text \<open>\<^verbatim>\<open>UpdateLiveMeterInput\<close> and \<^verbatim>\<open>StopTransactionInput\<close> have the same fields; the reason of a forced close is not used.\<close>

record StopTransactionInput =
  si_ChargerID :: string
  si_TransactionID :: int
  si_MeterStop :: rat

record EnqueueCallbackInput =
  eq_Kind :: string
  eq_DedupeKey :: string
  eq_TransactionID :: "int option"
  eq_UUIDDB :: string
  eq_TargetURL :: string
  eq_Payload :: gomap
  eq_MaxRetries :: int

record CallbackTask =
  ta_ID :: int
  ta_Kind :: string
  ta_DedupeKey :: string
  ta_TransactionID :: "int option"
  ta_UUIDDB :: string
  ta_TargetURL :: string
  ta_Payload :: string
  ta_Retries :: int
  ta_MaxRetries :: int

text \<open>A row of the outbox: the task with its delivery state; the memory store has no update time.\<close>

record callback_row =
  cb_Task :: CallbackTask
  cb_Status :: string
  cb_NextRetryAt :: gotime
  cb_LastError :: "string option"
  cb_UpdatedAt :: gotime
  cb_SentAt :: "gotime option"

abbreviation cb_ID :: "callback_row \<Rightarrow> int" where
  "cb_ID r \<equiv> ta_ID (cb_Task r)"

abbreviation cb_DedupeKey :: "callback_row \<Rightarrow> string" where
  "cb_DedupeKey r \<equiv> ta_DedupeKey (cb_Task r)"

subsection \<open>Shared expressions\<close>

definition DeltaWh :: "(rat \<Rightarrow> rat) \<Rightarrow> rat \<Rightarrow> rat \<Rightarrow> rat" where
  "DeltaWh rnd previous current =
     (let rollover = 4294967295; delta = rnd (current - previous) in
      if delta \<ge> 0 then delta else rnd (rnd (current + rnd (rollover - previous)) + 1))"

definition consumption :: "(rat \<Rightarrow> rat) \<Rightarrow> Transaction \<Rightarrow> rat \<Rightarrow> rat" where
  "consumption rnd t meterStop = rnd (DeltaWh rnd (t_MeterStart t) meterStop / 1000)"

definition with_meter :: "(rat \<Rightarrow> rat) \<Rightarrow> rat \<Rightarrow> Transaction \<Rightarrow> Transaction" where
  "with_meter rnd meterStop t = t\<lparr>t_MeterStop := Some meterStop, t_TotalConsumption := Some (consumption rnd t meterStop)\<rparr>"

definition created_transaction :: "int \<Rightarrow> string \<Rightarrow> int \<Rightarrow> gotime \<Rightarrow> CreateTransactionInput \<Rightarrow> Transaction" where
  "created_transaction rowID uuiddb tid now input = \<lparr>t_ID = rowID, t_UUIDDB = uuiddb, t_ChargerID = ct_ChargerID input,
     t_ConnectorID = ct_ConnectorID input, t_MeterStart = ct_MeterStart input, t_MeterStop = None, t_TotalConsumption = None,
     t_StartTime = now, t_StopTime = None, t_IDTag = ct_IDTag input, t_TransactionID = tid,
     t_IsSingleSession = ct_IsSingleSession input, t_MaxKWh = None, t_LimitStopRequested = False\<rparr>"

definition new_task :: "int \<Rightarrow> string \<Rightarrow> EnqueueCallbackInput \<Rightarrow> CallbackTask" where
  "new_task i payload input = \<lparr>ta_ID = i, ta_Kind = eq_Kind input, ta_DedupeKey = eq_DedupeKey input, ta_TransactionID = eq_TransactionID input,
     ta_UUIDDB = eq_UUIDDB input, ta_TargetURL = eq_TargetURL input, ta_Payload = payload, ta_Retries = 0, ta_MaxRetries = eq_MaxRetries input\<rparr>"

definition callback_key :: "string \<Rightarrow> Transaction \<Rightarrow> string" where
  "callback_key kind t = kind @ '':'' @ FormatInt (t_TransactionID t)"

record create_env =
  ce_now :: gotime
  ce_tid :: "nat \<Rightarrow> int"
  ce_uuid :: "nat \<Rightarrow> string option"

subsection \<open>In memory\<close>

record MemoryStore =
  ms_nextRowID :: int
  ms_transactions :: "Transaction list"
  ms_outbox :: "callback_row list"
  ms_outboxID :: int

definition NewMemoryStore :: MemoryStore where
  "NewMemoryStore = \<lparr>ms_nextRowID = 1, ms_transactions = [], ms_outbox = [], ms_outboxID = 0\<rparr>"

abbreviation mem_transaction :: "int \<Rightarrow> MemoryStore \<Rightarrow> Transaction option" where
  "mem_transaction tid s \<equiv> sql_row t_TransactionID tid (ms_transactions s)"

text \<open>The attempts \<open>k, ..., 99\<close> of the allocation loop.\<close>

function mem_create_attempts :: "create_env \<Rightarrow> CreateTransactionInput \<Rightarrow> nat \<Rightarrow> MemoryStore \<Rightarrow> Transaction tres \<times> MemoryStore" where
  "mem_create_attempts E input k s =
     (if k < 100 then
        (let tid = ce_tid E k in
         if mem_transaction tid s \<noteq> None then mem_create_attempts E input (k + 1) s
         else (case ce_uuid E k of
             None \<Rightarrow> (Inl ErrGenerateUUID, s)
           | Some uuiddb \<Rightarrow>
               (let t = created_transaction (ms_nextRowID s) uuiddb tid (ce_now E) input
                in (Inr t, s\<lparr>ms_nextRowID := ms_nextRowID s + 1, ms_transactions := ms_transactions s @ [t]\<rparr>))))
      else (Inl ErrNoUniqueTransactionID, s))"
  by pat_completeness auto
termination by (relation "measure (\<lambda>(E, input, k, s). 100 - k)") auto

declare mem_create_attempts.simps [simp del]

definition mem_CreateTransaction :: "create_env \<Rightarrow> CreateTransactionInput \<Rightarrow> MemoryStore \<Rightarrow> Transaction tres \<times> MemoryStore" where
  "mem_CreateTransaction E input s = mem_create_attempts E input 0 s"

text \<open>A write to the entry of one identifier.\<close>

definition mem_set :: "int \<Rightarrow> (Transaction \<Rightarrow> Transaction) \<Rightarrow> MemoryStore \<Rightarrow> MemoryStore" where
  "mem_set tid f s = s\<lparr>ms_transactions := sql_update (\<lambda>t. t_TransactionID t = tid) f (ms_transactions s)\<rparr>"

definition mem_UpdateLiveMeter :: "(rat \<Rightarrow> rat) \<Rightarrow> StopTransactionInput \<Rightarrow> MemoryStore \<Rightarrow> Transaction tres \<times> MemoryStore" where
  "mem_UpdateLiveMeter rnd input s =
     (case mem_transaction (si_TransactionID input) s of
        None \<Rightarrow> (Inl ErrTransactionNotFound, s)
      | Some t \<Rightarrow>
          if t_ChargerID t \<noteq> si_ChargerID input then (Inl ErrTransactionNotFound, s)
          else (Inr (with_meter rnd (si_MeterStop input) t), mem_set (si_TransactionID input) (with_meter rnd (si_MeterStop input)) s))"

definition mem_StopTransaction :: "(rat \<Rightarrow> rat) \<Rightarrow> gotime \<Rightarrow> StopTransactionInput \<Rightarrow> MemoryStore \<Rightarrow> Transaction tres \<times> MemoryStore" where
  "mem_StopTransaction rnd now input s =
     (case mem_transaction (si_TransactionID input) s of
        None \<Rightarrow> (Inl ErrTransactionNotFound, s)
      | Some t \<Rightarrow>
          if t_ChargerID t \<noteq> si_ChargerID input then (Inl ErrTransactionNotFound, s)
          else if t_StopTime t \<noteq> None then (Inr t, s)
          else (let stop = (\<lambda>t. (with_meter rnd (si_MeterStop input) t)\<lparr>t_StopTime := Some now\<rparr>)
                in (Inr (stop t), mem_set (si_TransactionID input) stop s)))"

definition mem_ForceCloseTransaction :: "(rat \<Rightarrow> rat) \<Rightarrow> gotime \<Rightarrow> StopTransactionInput \<Rightarrow> MemoryStore \<Rightarrow> Transaction tres \<times> MemoryStore" where
  "mem_ForceCloseTransaction = mem_StopTransaction"

definition mem_GetByTransactionID :: "string \<Rightarrow> int \<Rightarrow> MemoryStore \<Rightarrow> Transaction tres" where
  "mem_GetByTransactionID chargerID tid s =
     (case mem_transaction tid s of
        None \<Rightarrow> Inl ErrTransactionNotFound
      | Some t \<Rightarrow> if t_ChargerID t \<noteq> chargerID then Inl ErrTransactionNotFound else Inr t)"

definition mem_GetByTransactionIDAndIDTag :: "int \<Rightarrow> string \<Rightarrow> MemoryStore \<Rightarrow> Transaction tres" where
  "mem_GetByTransactionIDAndIDTag tid idTag s =
     (case mem_transaction tid s of
        None \<Rightarrow> Inl ErrTransactionNotFound
      | Some t \<Rightarrow> if t_IDTag t \<noteq> idTag then Inl ErrTransactionNotFound else Inr t)"

definition mem_ListOpenTransactionsByCharger :: "string \<Rightarrow> MemoryStore \<Rightarrow> Transaction list" where
  "mem_ListOpenTransactionsByCharger chargerID s = filter (\<lambda>t. t_ChargerID t = chargerID \<and> t_StopTime t = None) (ms_transactions s)"

definition mem_UpdateTransactionMaxKWh :: "int \<Rightarrow> rat \<Rightarrow> MemoryStore \<Rightarrow> MemoryStore" where
  "mem_UpdateTransactionMaxKWh tid maxKWh s = mem_set tid (\<lambda>t. t\<lparr>t_MaxKWh := Some maxKWh\<rparr>) s"

definition mem_CheckAndMarkLimitStop :: "string \<Rightarrow> int \<Rightarrow> MemoryStore \<Rightarrow> bool \<times> MemoryStore" where
  "mem_CheckAndMarkLimitStop chargerID tid s =
     (case mem_transaction tid s of
        None \<Rightarrow> (False, s)
      | Some t \<Rightarrow>
          if t_ChargerID t \<noteq> chargerID then (False, s)
          else if t_StopTime t \<noteq> None then (False, s)
          else if t_LimitStopRequested t then (False, s)
          else (case (t_MaxKWh t, t_TotalConsumption t) of
              (Some maxKWh, Some used) \<Rightarrow>
                if used < maxKWh then (False, s) else (True, mem_set tid (\<lambda>t. t\<lparr>t_LimitStopRequested := True\<rparr>) s)
            | _ \<Rightarrow> (False, s)))"

definition mem_ReleaseLimitStopRequest :: "string \<Rightarrow> int \<Rightarrow> MemoryStore \<Rightarrow> MemoryStore" where
  "mem_ReleaseLimitStopRequest chargerID tid s =
     (case mem_transaction tid s of
        None \<Rightarrow> s
      | Some t \<Rightarrow> if t_ChargerID t = chargerID \<and> t_StopTime t = None then mem_set tid (\<lambda>t. t\<lparr>t_LimitStopRequested := False\<rparr>) s else s)"

definition mem_EnqueueCallback :: "(gomap \<Rightarrow> string option) \<Rightarrow> gotime \<Rightarrow> EnqueueCallbackInput \<Rightarrow> MemoryStore \<Rightarrow> unit tres \<times> MemoryStore" where
  "mem_EnqueueCallback marshal now input s =
     (if list_ex (\<lambda>r. cb_DedupeKey r = eq_DedupeKey input) (ms_outbox s) then (Inr (), s)
      else (case marshal (eq_Payload input) of
          None \<Rightarrow> (Inl ErrMarshal, s)
        | Some payload \<Rightarrow>
            (let i = ms_outboxID s + 1 in
             (Inr (), s\<lparr>ms_outboxID := i, ms_outbox := ms_outbox s @ [\<lparr>cb_Task = new_task i payload input, cb_Status = ''pending'',
                cb_NextRetryAt = now, cb_LastError = None, cb_UpdatedAt = now, cb_SentAt = None\<rparr>]\<rparr>))))"

definition mem_due :: "gotime \<Rightarrow> callback_row \<Rightarrow> bool" where
  "mem_due now r \<longleftrightarrow> cb_Status r = ''pending'' \<and> cb_NextRetryAt r \<le> now"

definition mem_ClaimDueCallbacks :: "gotime \<Rightarrow> nat \<Rightarrow> MemoryStore \<Rightarrow> CallbackTask list \<times> MemoryStore" where
  "mem_ClaimDueCallbacks now limit s =
     (let claimed = take limit (filter (mem_due now) (ms_outbox s))
      in (map cb_Task claimed, s\<lparr>ms_outbox := sql_update (\<lambda>r. cb_ID r \<in> set (map cb_ID claimed)) (\<lambda>r. r\<lparr>cb_Status := ''processing''\<rparr>) (ms_outbox s)\<rparr>))"

definition mem_mark :: "int \<Rightarrow> (callback_row \<Rightarrow> callback_row) \<Rightarrow> MemoryStore \<Rightarrow> MemoryStore" where
  "mem_mark i f s = s\<lparr>ms_outbox := sql_update (\<lambda>r. cb_ID r = i) f (ms_outbox s)\<rparr>"

definition mem_MarkCallbackSent :: "int \<Rightarrow> MemoryStore \<Rightarrow> MemoryStore" where
  "mem_MarkCallbackSent i = mem_mark i (\<lambda>r. r\<lparr>cb_Status := ''sent''\<rparr>)"

definition mem_MarkCallbackRetry :: "int \<Rightarrow> int \<Rightarrow> gotime \<Rightarrow> string \<Rightarrow> MemoryStore \<Rightarrow> MemoryStore" where
  "mem_MarkCallbackRetry i retries nextRetryAt lastError = mem_mark i (\<lambda>r. r\<lparr>cb_Task := (cb_Task r)\<lparr>ta_Retries := retries\<rparr>,
     cb_Status := ''pending'', cb_NextRetryAt := nextRetryAt, cb_LastError := Some lastError\<rparr>)"

definition mem_MarkCallbackFatal :: "int \<Rightarrow> string \<Rightarrow> MemoryStore \<Rightarrow> MemoryStore" where
  "mem_MarkCallbackFatal i lastError = mem_mark i (\<lambda>r. r\<lparr>cb_Status := ''fatal'', cb_LastError := Some lastError\<rparr>)"

definition mem_missing_callback :: "string \<Rightarrow> bool \<Rightarrow> nat \<Rightarrow> MemoryStore \<Rightarrow> Transaction list" where
  "mem_missing_callback kind completedOnly limit s =
     take limit (filter (\<lambda>t. (\<not> completedOnly \<or> t_StopTime t \<noteq> None) \<and> callback_key kind t \<notin> cb_DedupeKey ` set (ms_outbox s)) (ms_transactions s))"

definition mem_ListTransactionsMissingStartCallbacks :: "nat \<Rightarrow> MemoryStore \<Rightarrow> Transaction list" where
  "mem_ListTransactionsMissingStartCallbacks = mem_missing_callback ''start_transaction'' False"

definition mem_ListTransactionsMissingCompletedCallbacks :: "nat \<Rightarrow> MemoryStore \<Rightarrow> Transaction list" where
  "mem_ListTransactionsMissingCompletedCallbacks = mem_missing_callback ''completed_transaction'' True"

subsection \<open>On PostgreSQL\<close>

text \<open>
  The tables \<^verbatim>\<open>transactions\<close>, unique on \<^verbatim>\<open>transaction_id\<close>, and \<^verbatim>\<open>callback_outbox\<close>, unique on \<^verbatim>\<open>dedupe_key\<close>,
  with their sequences. A column the query does not select is the zero value in the loaded struct.
\<close>

record transaction_tables =
  pt_transactions :: "Transaction list"
  pt_nextID :: int
  pt_outbox :: "callback_row list"
  pt_nextCallbackID :: int

definition empty_tables :: transaction_tables where
  "empty_tables = \<lparr>pt_transactions = [], pt_nextID = 1, pt_outbox = [], pt_nextCallbackID = 1\<rparr>"

definition load_base :: "Transaction \<Rightarrow> Transaction" where
  "load_base r = r\<lparr>t_MaxKWh := None, t_LimitStopRequested := False\<rparr>"

text \<open>A sequence value is used up by a failed insert as well.\<close>

function pgt_create_attempts :: "create_env \<Rightarrow> CreateTransactionInput \<Rightarrow> nat \<Rightarrow> transaction_tables \<Rightarrow> Transaction tres \<times> transaction_tables" where
  "pgt_create_attempts E input k s =
     (if k < 100 then
        (case ce_uuid E k of
           None \<Rightarrow> (Inl ErrGenerateUUID, s)
         | Some uuiddb \<Rightarrow>
             (let t = created_transaction (pt_nextID s) uuiddb (ce_tid E k) (ce_now E) input;
                  s1 = s\<lparr>pt_nextID := pt_nextID s + 1\<rparr>
              in if t_TransactionID t \<in> t_TransactionID ` set (pt_transactions s) then pgt_create_attempts E input (k + 1) s1
                 else (Inr t, s1\<lparr>pt_transactions := pt_transactions s @ [t\<lparr>t_StartTime := pg_ts (ce_now E)\<rparr>]\<rparr>)))
      else (Inl ErrNoUniqueTransactionID, s))"
  by pat_completeness auto
termination by (relation "measure (\<lambda>(E, input, k, s). 100 - k)") auto

declare pgt_create_attempts.simps [simp del]

definition pgt_CreateTransaction :: "create_env \<Rightarrow> CreateTransactionInput \<Rightarrow> transaction_tables \<Rightarrow> Transaction tres \<times> transaction_tables" where
  "pgt_CreateTransaction E input s = pgt_create_attempts E input 0 s"

definition pgt_GetByTransactionID :: "string \<Rightarrow> int \<Rightarrow> transaction_tables \<Rightarrow> Transaction tres" where
  "pgt_GetByTransactionID chargerID tid s =
     (case find (\<lambda>t. t_ChargerID t = chargerID \<and> t_TransactionID t = tid) (pt_transactions s) of
        None \<Rightarrow> Inl ErrTransactionNotFound
      | Some t \<Rightarrow> Inr (load_base t))"

definition pgt_GetByTransactionIDAndIDTag :: "int \<Rightarrow> string \<Rightarrow> transaction_tables \<Rightarrow> Transaction tres" where
  "pgt_GetByTransactionIDAndIDTag tid idTag s =
     (case find (\<lambda>t. t_TransactionID t = tid \<and> t_IDTag t = idTag) (pt_transactions s) of
        None \<Rightarrow> Inl ErrTransactionNotFound
      | Some t \<Rightarrow> Inr t)"

definition pgt_update :: "(Transaction \<Rightarrow> bool) \<Rightarrow> (Transaction \<Rightarrow> Transaction) \<Rightarrow> transaction_tables \<Rightarrow> transaction_tables" where
  "pgt_update P f s = s\<lparr>pt_transactions := sql_update P f (pt_transactions s)\<rparr>"

definition pgt_UpdateLiveMeter :: "(rat \<Rightarrow> rat) \<Rightarrow> StopTransactionInput \<Rightarrow> transaction_tables \<Rightarrow> Transaction tres \<times> transaction_tables" where
  "pgt_UpdateLiveMeter rnd input s =
     (case pgt_GetByTransactionID (si_ChargerID input) (si_TransactionID input) s of
        Inl err \<Rightarrow> (Inl err, s)
      | Inr t \<Rightarrow>
          (let used = consumption rnd t (si_MeterStop input);
               set_meter = (\<lambda>r. r\<lparr>t_MeterStop := Some (si_MeterStop input), t_TotalConsumption := Some used\<rparr>)
           in (Inr (set_meter t), pgt_update (\<lambda>r. t_ChargerID r = si_ChargerID input \<and> t_TransactionID r = si_TransactionID input) set_meter s)))"

definition open_row :: "string \<Rightarrow> int \<Rightarrow> Transaction \<Rightarrow> bool" where
  "open_row chargerID tid r \<longleftrightarrow> t_ChargerID r = chargerID \<and> t_TransactionID r = tid \<and> t_StopTime r = None"

definition set_stopped :: "rat \<Rightarrow> rat \<Rightarrow> gotime \<Rightarrow> Transaction \<Rightarrow> Transaction" where
  "set_stopped meterStop used stopTime r = r\<lparr>t_MeterStop := Some meterStop, t_TotalConsumption := Some used, t_StopTime := Some stopTime\<rparr>"

definition pgt_StopTransaction :: "(rat \<Rightarrow> rat) \<Rightarrow> gotime \<Rightarrow> StopTransactionInput \<Rightarrow> transaction_tables \<Rightarrow> Transaction tres \<times> transaction_tables" where
  "pgt_StopTransaction rnd now input s =
     (case pgt_GetByTransactionID (si_ChargerID input) (si_TransactionID input) s of
        Inl err \<Rightarrow> (Inl err, s)
      | Inr t \<Rightarrow>
          if t_StopTime t \<noteq> None then (Inr t, s)
          else (let used = consumption rnd t (si_MeterStop input);
                    P = open_row (si_ChargerID input) (si_TransactionID input);
                    s' = pgt_update P (set_stopped (si_MeterStop input) used (pg_ts now)) s
                in if sql_count P (pt_transactions s) = 0 then (pgt_GetByTransactionID (si_ChargerID input) (si_TransactionID input) s', s')
                   else (Inr (set_stopped (si_MeterStop input) used now t), s')))"

definition pgt_ForceCloseTransaction :: "(rat \<Rightarrow> rat) \<Rightarrow> gotime \<Rightarrow> StopTransactionInput \<Rightarrow> transaction_tables \<Rightarrow> Transaction tres \<times> transaction_tables" where
  "pgt_ForceCloseTransaction rnd now input s =
     (case pgt_GetByTransactionID (si_ChargerID input) (si_TransactionID input) s of
        Inl err \<Rightarrow> (Inl err, s)
      | Inr t \<Rightarrow>
          (let used = consumption rnd t (si_MeterStop input)
           in (Inr (set_stopped (si_MeterStop input) used now t),
               pgt_update (open_row (si_ChargerID input) (si_TransactionID input)) (set_stopped (si_MeterStop input) used (pg_ts now)) s)))"

definition pgt_ListOpenTransactionsByCharger :: "string \<Rightarrow> transaction_tables \<Rightarrow> Transaction list" where
  "pgt_ListOpenTransactionsByCharger chargerID s =
     map load_base (sort_key (\<lambda>t. - t_StartTime t) (filter (\<lambda>t. t_ChargerID t = chargerID \<and> t_StopTime t = None) (pt_transactions s)))"

definition pgt_UpdateTransactionMaxKWh :: "int \<Rightarrow> rat \<Rightarrow> transaction_tables \<Rightarrow> transaction_tables" where
  "pgt_UpdateTransactionMaxKWh tid maxKWh = pgt_update (\<lambda>r. t_TransactionID r = tid) (\<lambda>r. r\<lparr>t_MaxKWh := Some maxKWh\<rparr>)"

definition limit_reached :: "string \<Rightarrow> int \<Rightarrow> Transaction \<Rightarrow> bool" where
  "limit_reached chargerID tid r \<longleftrightarrow> open_row chargerID tid r \<and> \<not> t_LimitStopRequested r
     \<and> (case (t_MaxKWh r, t_TotalConsumption r) of (Some maxKWh, Some used) \<Rightarrow> used \<ge> maxKWh | _ \<Rightarrow> False)"

definition pgt_CheckAndMarkLimitStop :: "string \<Rightarrow> int \<Rightarrow> transaction_tables \<Rightarrow> bool \<times> transaction_tables" where
  "pgt_CheckAndMarkLimitStop chargerID tid s =
     (sql_count (limit_reached chargerID tid) (pt_transactions s) > 0,
      pgt_update (limit_reached chargerID tid) (\<lambda>r. r\<lparr>t_LimitStopRequested := True\<rparr>) s)"

definition pgt_ReleaseLimitStopRequest :: "string \<Rightarrow> int \<Rightarrow> transaction_tables \<Rightarrow> transaction_tables" where
  "pgt_ReleaseLimitStopRequest chargerID tid = pgt_update (open_row chargerID tid) (\<lambda>r. r\<lparr>t_LimitStopRequested := False\<rparr>)"

definition pgt_EnqueueCallback :: "(gomap \<Rightarrow> string option) \<Rightarrow> gotime \<Rightarrow> EnqueueCallbackInput \<Rightarrow> transaction_tables \<Rightarrow> unit tres \<times> transaction_tables" where
  "pgt_EnqueueCallback marshal now input s =
     (case marshal (eq_Payload input) of
        None \<Rightarrow> (Inl ErrMarshal, s)
      | Some payload \<Rightarrow>
          (let i = pt_nextCallbackID s; s1 = s\<lparr>pt_nextCallbackID := i + 1\<rparr> in
           if eq_DedupeKey input \<in> cb_DedupeKey ` set (pt_outbox s) then (Inr (), s1)
           else (Inr (), s1\<lparr>pt_outbox := pt_outbox s @ [\<lparr>cb_Task = new_task i payload input, cb_Status = ''pending'',
              cb_NextRetryAt = now, cb_LastError = None, cb_UpdatedAt = now, cb_SentAt = None\<rparr>]\<rparr>)))"

text \<open>Due are pending callbacks whose time has come and claims that were left for two minutes.\<close>

definition pgt_due :: "gotime \<Rightarrow> callback_row \<Rightarrow> bool" where
  "pgt_due now r \<longleftrightarrow> cb_Status r = ''pending'' \<and> cb_NextRetryAt r \<le> now \<or> cb_Status r = ''processing'' \<and> cb_UpdatedAt r \<le> now - 2 * duration_minute"

definition pgt_ClaimDueCallbacks :: "(int \<Rightarrow> bool) \<Rightarrow> gotime \<Rightarrow> nat \<Rightarrow> transaction_tables \<Rightarrow> CallbackTask list \<times> transaction_tables" where
  "pgt_ClaimDueCallbacks locked now limit s =
     (let claimed = take limit (filter (\<lambda>r. \<not> locked (cb_ID r)) (sort_key cb_ID (filter (pgt_due now) (pt_outbox s))))
      in (map cb_Task claimed, s\<lparr>pt_outbox := sql_update (\<lambda>r. cb_ID r \<in> set (map cb_ID claimed))
            (\<lambda>r. r\<lparr>cb_Status := ''processing'', cb_UpdatedAt := now\<rparr>) (pt_outbox s)\<rparr>))"

definition pgt_mark :: "int \<Rightarrow> (callback_row \<Rightarrow> callback_row) \<Rightarrow> transaction_tables \<Rightarrow> transaction_tables" where
  "pgt_mark i f s = s\<lparr>pt_outbox := sql_update (\<lambda>r. cb_ID r = i) f (pt_outbox s)\<rparr>"

definition pgt_MarkCallbackSent :: "gotime \<Rightarrow> int \<Rightarrow> transaction_tables \<Rightarrow> transaction_tables" where
  "pgt_MarkCallbackSent now i = pgt_mark i (\<lambda>r. r\<lparr>cb_Status := ''sent'', cb_SentAt := Some now, cb_UpdatedAt := now, cb_LastError := None\<rparr>)"

definition pgt_MarkCallbackRetry :: "gotime \<Rightarrow> int \<Rightarrow> int \<Rightarrow> gotime \<Rightarrow> string \<Rightarrow> transaction_tables \<Rightarrow> transaction_tables" where
  "pgt_MarkCallbackRetry now i retries nextRetryAt lastError = pgt_mark i (\<lambda>r. r\<lparr>cb_Task := (cb_Task r)\<lparr>ta_Retries := retries\<rparr>,
     cb_Status := ''pending'', cb_NextRetryAt := pg_ts nextRetryAt, cb_LastError := Some lastError, cb_UpdatedAt := now\<rparr>)"

definition pgt_MarkCallbackFatal :: "gotime \<Rightarrow> int \<Rightarrow> string \<Rightarrow> transaction_tables \<Rightarrow> transaction_tables" where
  "pgt_MarkCallbackFatal now i lastError = pgt_mark i (\<lambda>r. r\<lparr>cb_Status := ''fatal'', cb_LastError := Some lastError, cb_UpdatedAt := now\<rparr>)"

definition pgt_missing_callback :: "string \<Rightarrow> bool \<Rightarrow> nat \<Rightarrow> transaction_tables \<Rightarrow> Transaction list" where
  "pgt_missing_callback kind completedOnly limit s =
     take limit (sort_key t_ID (filter (\<lambda>t. callback_key kind t \<notin> cb_DedupeKey ` set (pt_outbox s) \<and> (\<not> completedOnly \<or> t_StopTime t \<noteq> None))
       (pt_transactions s)))"

definition pgt_ListTransactionsMissingStartCallbacks :: "nat \<Rightarrow> transaction_tables \<Rightarrow> Transaction list" where
  "pgt_ListTransactionsMissingStartCallbacks = pgt_missing_callback ''start_transaction'' False"

definition pgt_ListTransactionsMissingCompletedCallbacks :: "nat \<Rightarrow> transaction_tables \<Rightarrow> Transaction list" where
  "pgt_ListTransactionsMissingCompletedCallbacks = pgt_missing_callback ''completed_transaction'' True"

subsection \<open>Notifications\<close>

text \<open>
  \<^verbatim>\<open>TransactionUpdates\<close> (\<^verbatim>\<open>transaction_updates.go\<close>): subscribers by transaction, each with a channel of
  capacity one; \<open>ch_signal\<close> is whether a signal waits in it. A cancelled subscription is gone.
\<close>

record subscription =
  su_transaction :: int
  su_id :: nat
  su_signal :: bool

record TransactionUpdates =
  tu_nextID :: nat
  tu_subscribers :: "subscription list"

definition NewTransactionUpdates :: TransactionUpdates where
  "NewTransactionUpdates = \<lparr>tu_nextID = 0, tu_subscribers = []\<rparr>"

definition Subscribe :: "int \<Rightarrow> TransactionUpdates \<Rightarrow> nat \<times> TransactionUpdates" where
  "Subscribe tid u =
     (let i = tu_nextID u + 1
      in (i, \<lparr>tu_nextID = i, tu_subscribers = tu_subscribers u @ [\<lparr>su_transaction = tid, su_id = i, su_signal = False\<rparr>]\<rparr>))"

definition cancel_subscription :: "nat \<Rightarrow> TransactionUpdates \<Rightarrow> TransactionUpdates" where
  "cancel_subscription i u = u\<lparr>tu_subscribers := filter (\<lambda>x. su_id x \<noteq> i) (tu_subscribers u)\<rparr>"

definition Publish :: "int \<Rightarrow> TransactionUpdates \<Rightarrow> TransactionUpdates" where
  "Publish tid u = u\<lparr>tu_subscribers := map (\<lambda>x. if su_transaction x = tid then x\<lparr>su_signal := True\<rparr> else x) (tu_subscribers u)\<rparr>"

text \<open>A receive from the channel.\<close>

definition receive_signal :: "nat \<Rightarrow> TransactionUpdates \<Rightarrow> TransactionUpdates" where
  "receive_signal i u = u\<lparr>tu_subscribers := map (\<lambda>x. if su_id x = i then x\<lparr>su_signal := False\<rparr> else x) (tu_subscribers u)\<rparr>"

end
