(* ===== verification/Transaction_System.thy ===== *)
theory Transaction_System
  imports Transaction_Store
begin

text \<open>
  What the two implementations of \<^verbatim>\<open>TransactionStore\<close> promise. The specification is a map from
  transaction identifiers to transactions and what each operation may do to it; the locale
  \<open>transaction_store\<close> is the interface, with the consequences a client relies on; both stores are
  interpretations, the PostgreSQL one with times cut to microseconds.
\<close>

subsection \<open>The specification\<close>

type_synonym transactions = "int \<Rightarrow> Transaction option"

datatype ts_op =
    TCreate create_env CreateTransactionInput
  | TMeter StopTransactionInput
  | TStop gotime StopTransactionInput
  | TForceClose gotime StopTransactionInput
  | TMaxKWh int rat
  | TLimit string int
  | TRelease string int

definition spec_at :: "int \<Rightarrow> (Transaction \<Rightarrow> Transaction) \<Rightarrow> transactions \<Rightarrow> transactions" where
  "spec_at tid f m = m(tid := map_option f (m tid))"

definition spec_stop :: "(rat \<Rightarrow> rat) \<Rightarrow> gotime \<Rightarrow> StopTransactionInput \<Rightarrow> transactions \<Rightarrow> transactions" where
  "spec_stop rnd now input = spec_at (si_TransactionID input) (\<lambda>t. if open_row (si_ChargerID input) (si_TransactionID input) t
     then (with_meter rnd (si_MeterStop input) t)\<lparr>t_StopTime := Some now\<rparr> else t)"

definition spec_created :: "gotime \<Rightarrow> CreateTransactionInput \<Rightarrow> transactions \<Rightarrow> transactions \<Rightarrow> bool" where
  "spec_created now input m m' \<longleftrightarrow> m' = m \<or> (\<exists>tid rowID uuiddb. m tid = None \<and> m' = m(tid \<mapsto> created_transaction rowID uuiddb tid now input))"

definition spec_step :: "(rat \<Rightarrow> rat) \<Rightarrow> (gotime \<Rightarrow> gotime) \<Rightarrow> ts_op \<Rightarrow> transactions \<Rightarrow> transactions \<Rightarrow> bool" where
  "spec_step rnd stamp op m m' = (case op of
     TCreate E input \<Rightarrow> spec_created (stamp (ce_now E)) input m m'
   | TMeter input \<Rightarrow> m' = spec_at (si_TransactionID input) (\<lambda>t. if t_ChargerID t = si_ChargerID input then with_meter rnd (si_MeterStop input) t else t) m
   | TStop now input \<Rightarrow> m' = spec_stop rnd (stamp now) input m
   | TForceClose now input \<Rightarrow> m' = spec_stop rnd (stamp now) input m
   | TMaxKWh tid maxKWh \<Rightarrow> m' = spec_at tid (\<lambda>t. t\<lparr>t_MaxKWh := Some maxKWh\<rparr>) m
   | TLimit chargerID tid \<Rightarrow> m' = spec_at tid (\<lambda>t. if limit_reached chargerID tid t then t\<lparr>t_LimitStopRequested := True\<rparr> else t) m
   | TRelease chargerID tid \<Rightarrow> m' = spec_at tid (\<lambda>t. if open_row chargerID tid t then t\<lparr>t_LimitStopRequested := False\<rparr> else t) m)"

text \<open>Whether an operation claims the limit stop of \<open>tid\<close>.\<close>

definition spec_claims :: "ts_op \<Rightarrow> transactions \<Rightarrow> bool" where
  "spec_claims op m = (case op of TLimit chargerID tid \<Rightarrow> (case m tid of None \<Rightarrow> False | Some t \<Rightarrow> limit_reached chargerID tid t) | _ \<Rightarrow> False)"

fun count_claims :: "(ts_op \<Rightarrow> 's \<Rightarrow> bool \<times> 's) \<Rightarrow> int \<Rightarrow> ts_op list \<Rightarrow> 's \<Rightarrow> nat" where
  "count_claims step tid [] s = 0"
| "count_claims step tid (op # ops) s =
     (let (claimed, s') = step op s
      in (if claimed \<and> (case op of TLimit _ i \<Rightarrow> i = tid | _ \<Rightarrow> False) then 1 else 0) + count_claims step tid ops s')"

definition run_ops :: "(ts_op \<Rightarrow> 's \<Rightarrow> bool \<times> 's) \<Rightarrow> ts_op list \<Rightarrow> 's \<Rightarrow> 's" where
  "run_ops step ops s = fold (\<lambda>op. snd \<circ> step op) ops s"

text \<open>What stays of a transaction, and what is consistent in it.\<close>

definition same_session :: "Transaction \<Rightarrow> Transaction \<Rightarrow> bool" where
  "same_session t t' \<longleftrightarrow> t_ID t' = t_ID t \<and> t_UUIDDB t' = t_UUIDDB t \<and> t_ChargerID t' = t_ChargerID t \<and> t_ConnectorID t' = t_ConnectorID t
     \<and> t_MeterStart t' = t_MeterStart t \<and> t_StartTime t' = t_StartTime t \<and> t_IDTag t' = t_IDTag t \<and> t_TransactionID t' = t_TransactionID t
     \<and> t_IsSingleSession t' = t_IsSingleSession t \<and> (t_StopTime t \<noteq> None \<longrightarrow> t_StopTime t' = t_StopTime t)"

definition metered :: "(rat \<Rightarrow> rat) \<Rightarrow> Transaction \<Rightarrow> bool" where
  "metered rnd t \<longleftrightarrow> t_TotalConsumption t = map_option (consumption rnd t) (t_MeterStop t) \<and> (t_StopTime t \<noteq> None \<longrightarrow> t_MeterStop t \<noteq> None)"

lemma same_session_refl [simp]: "same_session t t"
  by (simp add: same_session_def)

lemma same_session_trans: "same_session t u \<Longrightarrow> same_session u v \<Longrightarrow> same_session t v"
  by (auto simp: same_session_def)

lemma consumption_cong [simp]: "consumption rnd (t\<lparr>t_MeterStop := a\<rparr>) m = consumption rnd t m" "consumption rnd (t\<lparr>t_TotalConsumption := b\<rparr>) m = consumption rnd t m"
  "consumption rnd (t\<lparr>t_StopTime := c\<rparr>) m = consumption rnd t m" "consumption rnd (t\<lparr>t_MaxKWh := d\<rparr>) m = consumption rnd t m"
  "consumption rnd (t\<lparr>t_LimitStopRequested := e\<rparr>) m = consumption rnd t m"
  by (simp_all add: consumption_def)

lemma metered_new [simp]: "metered rnd (created_transaction rowID uuiddb tid now input)"
  by (simp add: metered_def created_transaction_def)

lemma metered_update [simp]:
  "metered rnd (with_meter rnd v t)" "metered rnd ((with_meter rnd v t)\<lparr>t_StopTime := Some now\<rparr>)"
  "metered rnd (t\<lparr>t_MaxKWh := d\<rparr>) = metered rnd t" "metered rnd (t\<lparr>t_LimitStopRequested := e\<rparr>) = metered rnd t"
  by (simp_all add: metered_def with_meter_def map_option_case split: option.splits)

lemma same_session_update [simp]:
  "same_session t (with_meter rnd v t)" "t_StopTime t = None \<Longrightarrow> same_session t ((with_meter rnd v t)\<lparr>t_StopTime := Some now\<rparr>)"
  "same_session t (t\<lparr>t_MaxKWh := d\<rparr>)" "same_session t (t\<lparr>t_LimitStopRequested := e\<rparr>)"
  by (simp_all add: same_session_def with_meter_def)

lemma with_meter_requested [simp]: "t_LimitStopRequested (with_meter rnd v t) = t_LimitStopRequested t"
  by (simp add: with_meter_def)

lemma spec_at_Some: "m tid = Some t \<Longrightarrow> spec_at i f m tid = Some (if i = tid then f t else t)"
  by (auto simp: spec_at_def)

lemma spec_step_kept:
  assumes "spec_step rnd stamp op m m'" and "m tid = Some t"
  shows "\<exists>t'. m' tid = Some t' \<and> same_session t t' \<and> (metered rnd t \<longrightarrow> metered rnd t')
    \<and> (t_LimitStopRequested t \<and> (\<forall>c. op \<noteq> TRelease c tid) \<longrightarrow> t_LimitStopRequested t')"
proof (cases op)
  case (TCreate E input)
  then show ?thesis using assms by (auto simp: spec_step_def spec_created_def)
qed (use assms in \<open>auto simp: spec_step_def spec_stop_def spec_at_Some open_row_def\<close>)

lemma spec_step_new:
  assumes "spec_step rnd stamp op m m'" and "m tid = None" and "m' tid = Some t"
  shows "metered rnd t"
  using assms by (cases op) (auto simp: spec_step_def spec_created_def spec_stop_def spec_at_def fun_upd_def split: if_splits)

subsection \<open>The interface\<close>

locale transaction_store =
  fixes step :: "ts_op \<Rightarrow> 's \<Rightarrow> bool \<times> 's" and abs :: "'s \<Rightarrow> transactions" and ok :: "'s \<Rightarrow> bool"
    and rnd :: "rat \<Rightarrow> rat" and stamp :: "gotime \<Rightarrow> gotime"
  assumes step_ok: "ok s \<Longrightarrow> ok (snd (step op s))"
    and step_spec: "ok s \<Longrightarrow> spec_step rnd stamp op (abs s) (abs (snd (step op s)))"
    and step_claims: "ok s \<Longrightarrow> fst (step op s) = spec_claims op (abs s)"
begin

lemma run_ok: "ok s \<Longrightarrow> ok (run_ops step ops s)"
  by (induction ops arbitrary: s) (auto simp: run_ops_def step_ok)

text \<open>A session is never lost or rebound, and its stop is final.\<close>

lemma session_kept:
  assumes "ok s" and "abs s tid = Some t"
  shows "\<exists>t'. abs (run_ops step ops s) tid = Some t' \<and> same_session t t'"
  using assms
proof (induction ops arbitrary: s t)
  case (Cons op ops)
  obtain t1 where t1: "abs (snd (step op s)) tid = Some t1" "same_session t t1"
    using spec_step_kept [OF step_spec [OF Cons.prems(1)] Cons.prems(2)] by metis
  from Cons.IH [OF step_ok [OF Cons.prems(1)] t1(1)] t1(2) same_session_trans show ?case by (fastforce simp: run_ops_def)
qed (simp add: run_ops_def)

lemma run_metered:
  assumes "ok s" and "\<And>tid t. abs s tid = Some t \<Longrightarrow> metered rnd t" and "abs (run_ops step ops s) tid = Some t"
  shows "metered rnd t"
  using assms
proof (induction ops arbitrary: s)
  case (Cons op ops)
  have "metered rnd u" if "abs (snd (step op s)) i = Some u" for i u
  proof (cases "abs s i")
    case None
    then show ?thesis using spec_step_new [OF step_spec [OF Cons.prems(1)]] that by blast
  next
    case (Some v)
    then show ?thesis using spec_step_kept [OF step_spec [OF Cons.prems(1)] Some] Cons.prems(2) that by (metis option.inject)
  qed
  then show ?case using Cons.IH [OF step_ok [OF Cons.prems(1), of op]] Cons.prems(3) by (simp add: run_ops_def)
qed (simp add: run_ops_def)

text \<open>Without a release the stop for a limit is claimed once.\<close>

lemma requested_no_claim:
  assumes "ok s" and "\<forall>c. TRelease c tid \<notin> set ops" and "abs s tid = Some t" and "t_LimitStopRequested t"
  shows "count_claims step tid ops s = 0"
  using assms
proof (induction ops arbitrary: s t)
  case (Cons op ops)
  obtain t1 where t1: "abs (snd (step op s)) tid = Some t1" "t_LimitStopRequested t1"
    using spec_step_kept [OF step_spec [OF Cons.prems(1)] Cons.prems(3)] Cons.prems(2,4) by (metis list.set_intros(1))
  have "\<not> (fst (step op s) \<and> (case op of TLimit _ i \<Rightarrow> i = tid | _ \<Rightarrow> False))"
    using step_claims [OF Cons.prems(1)] Cons.prems(3,4) by (cases op) (auto simp: spec_claims_def limit_reached_def)
  then show ?case using Cons.IH [OF step_ok [OF Cons.prems(1)] _ t1] Cons.prems(2) by (auto simp: split_beta)
qed simp

lemma claims_once:
  assumes "ok s" and "\<forall>c. TRelease c tid \<notin> set ops"
  shows "count_claims step tid ops s \<le> 1"
  using assms
proof (induction ops arbitrary: s)
  case (Cons op ops)
  note rest = Cons.IH [OF step_ok [OF Cons.prems(1)], of op]
  show ?case
  proof (cases "fst (step op s) \<and> (case op of TLimit _ i \<Rightarrow> i = tid | _ \<Rightarrow> False)")
    case True
    then obtain c where op: "op = TLimit c tid" by (cases op) auto
    with True obtain t where t: "abs s tid = Some t" "limit_reached c tid t"
      using step_claims [OF Cons.prems(1)] by (auto simp: spec_claims_def split: option.splits)
    have "abs (snd (step op s)) tid = Some (t\<lparr>t_LimitStopRequested := True\<rparr>)"
      using step_spec [OF Cons.prems(1), of op] t unfolding op by (simp add: spec_step_def spec_at_def)
    from requested_no_claim [OF step_ok [OF Cons.prems(1)] _ this] Cons.prems(2) True show ?thesis by (auto simp: split_beta)
  next
    case False
    then show ?thesis using rest Cons.prems(2) by (auto simp: split_beta)
  qed
qed simp

end

subsection \<open>Both stores\<close>

definition mem_op :: "(rat \<Rightarrow> rat) \<Rightarrow> ts_op \<Rightarrow> MemoryStore \<Rightarrow> bool \<times> MemoryStore" where
  "mem_op rnd op s = (case op of
     TCreate E input \<Rightarrow> (False, snd (mem_CreateTransaction E input s))
   | TMeter input \<Rightarrow> (False, snd (mem_UpdateLiveMeter rnd input s))
   | TStop now input \<Rightarrow> (False, snd (mem_StopTransaction rnd now input s))
   | TForceClose now input \<Rightarrow> (False, snd (mem_ForceCloseTransaction rnd now input s))
   | TMaxKWh tid maxKWh \<Rightarrow> (False, mem_UpdateTransactionMaxKWh tid maxKWh s)
   | TLimit chargerID tid \<Rightarrow> mem_CheckAndMarkLimitStop chargerID tid s
   | TRelease chargerID tid \<Rightarrow> (False, mem_ReleaseLimitStopRequest chargerID tid s))"

definition pgt_op :: "(rat \<Rightarrow> rat) \<Rightarrow> ts_op \<Rightarrow> transaction_tables \<Rightarrow> bool \<times> transaction_tables" where
  "pgt_op rnd op s = (case op of
     TCreate E input \<Rightarrow> (False, snd (pgt_CreateTransaction E input s))
   | TMeter input \<Rightarrow> (False, snd (pgt_UpdateLiveMeter rnd input s))
   | TStop now input \<Rightarrow> (False, snd (pgt_StopTransaction rnd now input s))
   | TForceClose now input \<Rightarrow> (False, snd (pgt_ForceCloseTransaction rnd now input s))
   | TMaxKWh tid maxKWh \<Rightarrow> (False, pgt_UpdateTransactionMaxKWh tid maxKWh s)
   | TLimit chargerID tid \<Rightarrow> pgt_CheckAndMarkLimitStop chargerID tid s
   | TRelease chargerID tid \<Rightarrow> (False, pgt_ReleaseLimitStopRequest chargerID tid s))"

definition table_of :: "Transaction list \<Rightarrow> transactions" where
  "table_of ts = (\<lambda>tid. sql_row t_TransactionID tid ts)"

abbreviation mem_abs :: "MemoryStore \<Rightarrow> transactions" where
  "mem_abs s \<equiv> table_of (ms_transactions s)"

abbreviation pgt_abs :: "transaction_tables \<Rightarrow> transactions" where
  "pgt_abs s \<equiv> table_of (pt_transactions s)"

definition unique_ids :: "Transaction list \<Rightarrow> bool" where
  "unique_ids ts \<longleftrightarrow> distinct (map t_TransactionID ts)"

lemma row_updates [simp]: "t_TransactionID (with_meter rnd v t) = t_TransactionID t" "t_TransactionID (set_stopped v u now t) = t_TransactionID t"
  by (simp_all add: with_meter_def set_stopped_def)

lemma table_of_append: "table_of ts (t_TransactionID t) = None \<Longrightarrow> table_of (ts @ [t]) = (table_of ts)(t_TransactionID t \<mapsto> t)"
  by (auto simp: table_of_def sql_row_append fun_eq_iff split: option.split)

lemma table_of_update:
  assumes "\<And>t. P t \<Longrightarrow> t_TransactionID t = tid" and "\<And>t. t_TransactionID (f t) = t_TransactionID t"
  shows "table_of (sql_update P f ts) = spec_at tid (\<lambda>t. if P t then f t else t) (table_of ts)"
proof
  fix i
  have "table_of (sql_update P f ts) i = map_option (\<lambda>t. if P t then f t else t) (table_of ts i)"
    unfolding table_of_def by (rule sql_row_update) (simp add: assms(2))
  moreover have "\<not> P t" if "table_of ts i = Some t" "i \<noteq> tid" for t
    using that assms(1) sql_row_SomeD [of t_TransactionID i ts t] by (auto simp: table_of_def)
  ultimately show "table_of (sql_update P f ts) i = spec_at tid (\<lambda>t. if P t then f t else t) (table_of ts) i"
    by (cases "table_of ts i") (auto simp: spec_at_def)
qed

lemma unique_ids_update: "(\<And>t. t_TransactionID (f t) = t_TransactionID t) \<Longrightarrow> unique_ids (sql_update P f ts) = unique_ids ts"
  by (simp add: unique_ids_def sql_update_keys)

lemma unique_ids_append: "unique_ids (ts @ [t]) \<longleftrightarrow> unique_ids ts \<and> table_of ts (t_TransactionID t) = None"
  by (auto simp: unique_ids_def table_of_def sql_row_None)

lemma spec_at_unchanged: "(\<And>t. m tid = Some t \<Longrightarrow> f t = t) \<Longrightarrow> spec_at tid f m = m"
  by (cases "m tid") (auto simp: spec_at_def fun_upd_idem)

lemma table_of_key: "table_of ts tid = Some t \<Longrightarrow> t_TransactionID t = tid"
  by (auto simp: table_of_def dest: sql_row_SomeD)

lemma created_transaction_id [simp]: "t_TransactionID (created_transaction a b c d e) = c"
  by (simp add: created_transaction_def)

lemma spec_created_simps [simp]: "spec_created now input m m"
  "table_of ts tid = None \<Longrightarrow> spec_created now input (table_of ts) (table_of (ts @ [created_transaction rowID uuiddb tid now input]))"
  using table_of_append [of ts "created_transaction rowID uuiddb tid now input"] by (auto simp: spec_created_def)

lemma mem_create_spec:
  "unique_ids (ms_transactions s) \<Longrightarrow> snd (mem_create_attempts E input k s) = s' \<Longrightarrow>
   unique_ids (ms_transactions s') \<and> spec_created (ce_now E) input (mem_abs s) (mem_abs s')"
proof (induction E input k s rule: mem_create_attempts.induct)
  case (1 E input k s)
  show ?case
  proof (cases "k < 100 \<and> mem_transaction (ce_tid E k) s \<noteq> None")
    case True
    then have "mem_create_attempts E input k s = mem_create_attempts E input (k + 1) s"
      by (subst mem_create_attempts.simps) (simp add: Let_def)
    then show ?thesis using 1 True by simp
  next
    case False
    moreover have "mem_transaction tid s = table_of (ms_transactions s) tid" for tid by (simp add: table_of_def)
    ultimately show ?thesis using 1(2,3)
      by (subst (asm) (1) mem_create_attempts.simps) (auto simp: Let_def unique_ids_append split: option.splits if_splits)
  qed
qed

lemma pgt_create_spec:
  "unique_ids (pt_transactions s) \<Longrightarrow> snd (pgt_create_attempts E input k s) = s' \<Longrightarrow>
   unique_ids (pt_transactions s') \<and> spec_created (pg_ts (ce_now E)) input (pgt_abs s) (pgt_abs s')"
proof (induction E input k s rule: pgt_create_attempts.induct)
  case (1 E input k s)
  show ?case
  proof (cases "k < 100 \<and> ce_uuid E k \<noteq> None \<and> ce_tid E k \<in> t_TransactionID ` set (pt_transactions s)")
    case True
    then have "pgt_create_attempts E input k s = pgt_create_attempts E input (k + 1) (s\<lparr>pt_nextID := pt_nextID s + 1\<rparr>)"
      by (subst pgt_create_attempts.simps) (auto simp: Let_def)
    then show ?thesis using 1 True by auto
  next
    case False
    have stored: "(created_transaction a b c d e)\<lparr>t_StartTime := d'\<rparr> = created_transaction a b c d' e" for a b c d e d' by (simp add: created_transaction_def)
    have fresh: "table_of (pt_transactions s) tid = None \<longleftrightarrow> tid \<notin> t_TransactionID ` set (pt_transactions s)" for tid
      by (simp add: table_of_def sql_row_None)
    show ?thesis using False 1(2,3)
      by (subst (asm) (1) pgt_create_attempts.simps) (auto simp: Let_def unique_ids_append stored fresh split: option.splits if_splits)
  qed
qed

lemma mem_meter_spec: "mem_abs (snd (mem_UpdateLiveMeter rnd input s))
    = spec_at (si_TransactionID input) (\<lambda>t. if t_ChargerID t = si_ChargerID input then with_meter rnd (si_MeterStop input) t else t) (mem_abs s)"
  using table_of_update [of "\<lambda>t. t_TransactionID t = si_TransactionID input" "si_TransactionID input" "with_meter rnd (si_MeterStop input)" "ms_transactions s"]
  by (auto simp: mem_UpdateLiveMeter_def mem_set_def spec_at_def table_of_def fun_eq_iff dest: sql_row_SomeD split: option.split)

lemma mem_stop_spec: "mem_abs (snd (mem_StopTransaction rnd now input s)) = spec_stop rnd now input (mem_abs s)"
  using table_of_update [of "\<lambda>t. t_TransactionID t = si_TransactionID input" "si_TransactionID input"
      "\<lambda>t. (with_meter rnd (si_MeterStop input) t)\<lparr>t_StopTime := Some now\<rparr>" "ms_transactions s"]
  by (auto simp: mem_StopTransaction_def spec_stop_def open_row_def mem_set_def spec_at_def table_of_def fun_eq_iff Let_def dest: sql_row_SomeD split: option.split)

lemma mem_limit_spec:
  "fst (mem_CheckAndMarkLimitStop c tid s) = spec_claims (TLimit c tid) (mem_abs s)"
  "mem_abs (snd (mem_CheckAndMarkLimitStop c tid s)) = spec_at tid (\<lambda>t. if limit_reached c tid t then t\<lparr>t_LimitStopRequested := True\<rparr> else t) (mem_abs s)"
  using table_of_update [of "\<lambda>t. t_TransactionID t = tid" tid "\<lambda>t. t\<lparr>t_LimitStopRequested := True\<rparr>" "ms_transactions s"]
  by (auto simp: mem_CheckAndMarkLimitStop_def spec_claims_def limit_reached_def open_row_def mem_set_def spec_at_def table_of_def fun_eq_iff
      dest: sql_row_SomeD split: option.split)

lemma mem_release_spec: "mem_abs (mem_ReleaseLimitStopRequest c tid s)
    = spec_at tid (\<lambda>t. if open_row c tid t then t\<lparr>t_LimitStopRequested := False\<rparr> else t) (mem_abs s)"
  using table_of_update [of "\<lambda>t. t_TransactionID t = tid" tid "\<lambda>t. t\<lparr>t_LimitStopRequested := False\<rparr>" "ms_transactions s"]
  by (auto simp: mem_ReleaseLimitStopRequest_def open_row_def mem_set_def spec_at_def table_of_def fun_eq_iff dest: sql_row_SomeD split: option.split)

lemma mem_max_spec: "mem_abs (mem_UpdateTransactionMaxKWh tid v s) = spec_at tid (\<lambda>t. t\<lparr>t_MaxKWh := Some v\<rparr>) (mem_abs s)"
  using table_of_update [of "\<lambda>t. t_TransactionID t = tid" tid "\<lambda>t. t\<lparr>t_MaxKWh := Some v\<rparr>" "ms_transactions s"]
  by (auto simp: mem_UpdateTransactionMaxKWh_def mem_set_def spec_at_def table_of_def fun_eq_iff dest: sql_row_SomeD intro!: option.map_cong)

lemma mem_op_unique: "unique_ids (ms_transactions s) \<Longrightarrow> unique_ids (ms_transactions (snd (mem_op rnd op s)))"
  using mem_create_spec [of s _ _ 0]
  by (cases op) (auto simp: mem_op_def mem_CreateTransaction_def mem_UpdateLiveMeter_def mem_StopTransaction_def mem_ForceCloseTransaction_def
      mem_UpdateTransactionMaxKWh_def mem_CheckAndMarkLimitStop_def mem_ReleaseLimitStopRequest_def mem_set_def unique_ids_update Let_def split: option.split)

interpretation mem_store: transaction_store "mem_op rnd" mem_abs "\<lambda>s. unique_ids (ms_transactions s)" rnd "\<lambda>t. t"
proof
  fix s :: MemoryStore and op
  assume ok: "unique_ids (ms_transactions s)"
  show "unique_ids (ms_transactions (snd (mem_op rnd op s)))" using ok by (rule mem_op_unique)
  show "spec_step rnd (\<lambda>t. t) op (mem_abs s) (mem_abs (snd (mem_op rnd op s)))"
    using mem_create_spec [OF ok, of _ _ 0]
    by (cases op) (auto simp: mem_op_def spec_step_def mem_CreateTransaction_def mem_ForceCloseTransaction_def mem_meter_spec mem_stop_spec
        mem_limit_spec mem_release_spec mem_max_spec)
  show "fst (mem_op rnd op s) = spec_claims op (mem_abs s)"
    by (cases op) (simp_all add: mem_op_def mem_limit_spec spec_claims_def)
qed

lemma pgt_find: "unique_ids ts \<Longrightarrow> find (\<lambda>t. t_ChargerID t = c \<and> t_TransactionID t = tid) ts
    = (case table_of ts tid of None \<Rightarrow> None | Some t \<Rightarrow> if t_ChargerID t = c then Some t else None)"
proof (induction ts)
  case (Cons t ts)
  have "table_of ts tid = None" if "t_TransactionID t = tid"
    using Cons.prems that by (auto simp: unique_ids_def table_of_def sql_row_None)
  then show ?case using Cons by (auto simp: table_of_def sql_row_Cons unique_ids_def)
qed (simp add: table_of_def)

lemma load_base_simps [simp]: "t_StopTime (load_base t) = t_StopTime t" "consumption rnd (load_base t) = consumption rnd t"
  by (simp_all add: load_base_def fun_eq_iff)

lemma pgt_get: "unique_ids (pt_transactions s) \<Longrightarrow> pgt_GetByTransactionID c tid s
    = (case pgt_abs s tid of None \<Rightarrow> Inl ErrTransactionNotFound | Some t \<Rightarrow> if t_ChargerID t = c then Inr (load_base t) else Inl ErrTransactionNotFound)"
  by (auto simp: pgt_GetByTransactionID_def pgt_find split: option.split)

lemma pgt_update_abs:
  assumes "\<And>t. P t \<Longrightarrow> t_TransactionID t = tid" and "\<And>t. t_TransactionID (f t) = t_TransactionID t"
    and "\<And>t. pgt_abs s tid = Some t \<Longrightarrow> (if P t then f t else t) = g t"
  shows "pgt_abs (pgt_update P f s) = spec_at tid g (pgt_abs s)"
  using table_of_update [of P tid f "pt_transactions s"] assms
  by (auto simp: pgt_update_def spec_at_def fun_eq_iff intro!: option.map_cong)

lemma pgt_meter_spec:
  assumes "unique_ids (pt_transactions s)"
  shows "pgt_abs (snd (pgt_UpdateLiveMeter rnd input s))
    = spec_at (si_TransactionID input) (\<lambda>t. if t_ChargerID t = si_ChargerID input then with_meter rnd (si_MeterStop input) t else t) (pgt_abs s)"
proof (cases "pgt_GetByTransactionID (si_ChargerID input) (si_TransactionID input) s")
  case (Inl e)
  then show ?thesis using assms by (auto simp: pgt_UpdateLiveMeter_def pgt_get split: option.splits if_splits intro!: spec_at_unchanged [symmetric])
next
  case (Inr u)
  then obtain t where "pgt_abs s (si_TransactionID input) = Some t" "t_ChargerID t = si_ChargerID input" "u = load_base t"
    using assms by (auto simp: pgt_get split: option.splits if_splits)
  then show ?thesis using Inr
    by (auto simp: pgt_UpdateLiveMeter_def Let_def with_meter_def table_of_key intro!: pgt_update_abs)
qed

lemma pgt_stop_update:
  assumes "pgt_abs s (si_TransactionID input) = Some t" and "t_ChargerID t = si_ChargerID input"
  shows "pgt_abs (pgt_update (open_row (si_ChargerID input) (si_TransactionID input)) (set_stopped (si_MeterStop input) (consumption rnd t (si_MeterStop input)) now) s)
    = spec_stop rnd now input (pgt_abs s)"
  unfolding spec_stop_def using assms
  by (intro pgt_update_abs) (auto simp: open_row_def set_stopped_def with_meter_def)

lemma pgt_stop_spec:
  assumes "unique_ids (pt_transactions s)"
  shows "pgt_abs (snd (pgt_StopTransaction rnd now input s)) = spec_stop rnd (pg_ts now) input (pgt_abs s)"
    and "pgt_abs (snd (pgt_ForceCloseTransaction rnd now input s)) = spec_stop rnd (pg_ts now) input (pgt_abs s)"
proof -
  consider (none) "pgt_GetByTransactionID (si_ChargerID input) (si_TransactionID input) s = Inl ErrTransactionNotFound"
      "spec_stop rnd (pg_ts now) input (pgt_abs s) = pgt_abs s"
    | (some) t where "pgt_abs s (si_TransactionID input) = Some t" "t_ChargerID t = si_ChargerID input"
      "pgt_GetByTransactionID (si_ChargerID input) (si_TransactionID input) s = Inr (load_base t)"
  proof (cases "pgt_GetByTransactionID (si_ChargerID input) (si_TransactionID input) s")
    case (Inl e)
    then have "spec_stop rnd (pg_ts now) input (pgt_abs s) = pgt_abs s"
      unfolding spec_stop_def using assms by (intro spec_at_unchanged) (auto simp: pgt_get open_row_def split: option.splits if_splits)
    then show thesis using assms none Inl by (auto simp: pgt_get split: option.splits if_splits)
  next
    case (Inr u)
    then show thesis using assms some by (auto simp: pgt_get split: option.splits if_splits)
  qed
  then have "pgt_abs (snd (pgt_StopTransaction rnd now input s)) = spec_stop rnd (pg_ts now) input (pgt_abs s)
    \<and> pgt_abs (snd (pgt_ForceCloseTransaction rnd now input s)) = spec_stop rnd (pg_ts now) input (pgt_abs s)"
  proof cases
    case (some t)
    have "spec_stop rnd (pg_ts now) input (pgt_abs s) = pgt_abs s" if "t_StopTime t \<noteq> None"
      using that some(1) by (auto simp: spec_stop_def open_row_def intro!: spec_at_unchanged)
    then show ?thesis using some pgt_stop_update [OF some(1,2)]
      by (auto simp: pgt_StopTransaction_def pgt_ForceCloseTransaction_def Let_def)
  qed (simp add: pgt_StopTransaction_def pgt_ForceCloseTransaction_def)
  then show "pgt_abs (snd (pgt_StopTransaction rnd now input s)) = spec_stop rnd (pg_ts now) input (pgt_abs s)"
    "pgt_abs (snd (pgt_ForceCloseTransaction rnd now input s)) = spec_stop rnd (pg_ts now) input (pgt_abs s)" by simp_all
qed

lemma pgt_limit_claims:
  assumes "unique_ids (pt_transactions s)"
  shows "fst (pgt_CheckAndMarkLimitStop c tid s) = spec_claims (TLimit c tid) (pgt_abs s)"
proof -
  have "sql_count (limit_reached c tid) (pt_transactions s) = sql_count (\<lambda>r. t_TransactionID r = tid \<and> limit_reached c tid r) (pt_transactions s)"
    by (rule arg_cong [where f = "\<lambda>P. sql_count P _"]) (auto simp: limit_reached_def open_row_def)
  also have "\<dots> = (case pgt_abs s tid of None \<Rightarrow> 0 | Some r \<Rightarrow> if limit_reached c tid r then 1 else 0)"
    using sql_count_key assms by (auto simp: unique_ids_def table_of_def)
  finally show ?thesis by (auto simp: pgt_CheckAndMarkLimitStop_def spec_claims_def split: option.split)
qed

lemma pgt_op_unique: "unique_ids (pt_transactions s) \<Longrightarrow> unique_ids (pt_transactions (snd (pgt_op rnd op s)))"
  using pgt_create_spec [of s _ _ 0]
  by (cases op) (auto simp: pgt_op_def pgt_CreateTransaction_def pgt_UpdateLiveMeter_def pgt_StopTransaction_def pgt_ForceCloseTransaction_def
      pgt_UpdateTransactionMaxKWh_def pgt_CheckAndMarkLimitStop_def pgt_ReleaseLimitStopRequest_def pgt_update_def unique_ids_update Let_def split: sum.split)

interpretation pg_store: transaction_store "pgt_op rnd" pgt_abs "\<lambda>s. unique_ids (pt_transactions s)" rnd pg_ts
proof
  fix s :: transaction_tables and op
  assume ok: "unique_ids (pt_transactions s)"
  show "unique_ids (pt_transactions (snd (pgt_op rnd op s)))" using ok by (rule pgt_op_unique)
  show "spec_step rnd pg_ts op (pgt_abs s) (pgt_abs (snd (pgt_op rnd op s)))"
    using pgt_create_spec [OF ok, of _ _ 0]
    by (cases op) (auto simp: pgt_op_def spec_step_def pgt_CreateTransaction_def pgt_meter_spec [OF ok] pgt_stop_spec [OF ok]
        pgt_CheckAndMarkLimitStop_def pgt_ReleaseLimitStopRequest_def pgt_UpdateTransactionMaxKWh_def limit_reached_def open_row_def table_of_key intro!: pgt_update_abs)
  show "fst (pgt_op rnd op s) = spec_claims op (pgt_abs s)"
    by (cases op) (simp_all add: pgt_op_def pgt_limit_claims [OF ok], simp_all add: spec_claims_def)
qed

subsection \<open>What a client may rely on\<close>



lemma fresh_stores [simp]: "unique_ids (pt_transactions empty_tables)" "unique_ids (ms_transactions NewMemoryStore)"
  "pgt_abs empty_tables = (\<lambda>_. None)" "mem_abs NewMemoryStore = (\<lambda>_. None)"
  by (simp_all add: empty_tables_def NewMemoryStore_def unique_ids_def table_of_def)

text \<open>
  C23: a limit stops a session once. Whatever happened before and whatever calls are interleaved, the
  check for the energy limit tells at most one caller to stop a transaction until the request is
  released, in both stores.
\<close>

theorem limit_stop_claimed_once:
  assumes "\<forall>c. TRelease c tid \<notin> set ops"
  shows "count_claims (pgt_op rnd) tid ops (run_ops (pgt_op rnd) before empty_tables) \<le> 1
    \<and> count_claims (mem_op rnd) tid ops (run_ops (mem_op rnd) before NewMemoryStore) \<le> 1"
  using assms pg_store.claims_once [OF pg_store.run_ok] mem_store.claims_once [OF mem_store.run_ok] by simp

definition sample_session :: "ts_op list" where
  "sample_session = [TCreate \<lparr>ce_now = 0, ce_tid = (\<lambda>_. 7), ce_uuid = (\<lambda>_. Some ''u'')\<rparr>
       \<lparr>ct_ChargerID = ''CP1'', ct_ConnectorID = 1, ct_MeterStart = 500, ct_IDTag = ''tag'', ct_IsSingleSession = False\<rparr>,
     TMaxKWh 7 1, TMeter \<lparr>si_ChargerID = ''CP1'', si_TransactionID = 7, si_MeterStop = 1500\<rparr>]"

theorem limit_stop_claimed_once_witness:
  "count_claims (pgt_op (\<lambda>x. x)) 7 [TLimit ''CP1'' 7, TLimit ''CP1'' 7] (run_ops (pgt_op (\<lambda>x. x)) sample_session empty_tables) = 1"
proof -
  let ?s = "run_ops (pgt_op (\<lambda>x. x)) sample_session empty_tables"
  have "fst (pgt_op (\<lambda>x. x) (TLimit ''CP1'' 7) ?s)"
    by (simp add: run_ops_def sample_session_def pgt_op_def pgt_CreateTransaction_def pgt_create_attempts.simps created_transaction_def empty_tables_def
        pgt_UpdateTransactionMaxKWh_def pgt_update_def sql_update_def pgt_UpdateLiveMeter_def pgt_GetByTransactionID_def load_base_def consumption_def
        DeltaWh_def pgt_CheckAndMarkLimitStop_def sql_count_def limit_reached_def open_row_def Let_def)
  then have "1 \<le> count_claims (pgt_op (\<lambda>x. x)) 7 [TLimit ''CP1'' 7, TLimit ''CP1'' 7] ?s" by (auto simp: Let_def split_beta)
  moreover have "count_claims (pgt_op (\<lambda>x. x)) 7 [TLimit ''CP1'' 7, TLimit ''CP1'' 7] ?s \<le> 1"
    using limit_stop_claimed_once [of 7 "[TLimit ''CP1'' 7, TLimit ''CP1'' 7]" "\<lambda>x. x" sample_session] by simp
  ultimately show ?thesis by simp
qed

text \<open>
  Whatever happens later, a session keeps its identity, its consumption is that of its last meter
  reading, and its stop time never changes once it is set.
\<close>

lemma sessions_final:
  assumes "pgt_abs (run_ops (pgt_op rnd) before empty_tables) tid = Some t"
  shows "metered rnd t \<and> (\<exists>t'. pgt_abs (run_ops (pgt_op rnd) (before @ after) empty_tables) tid = Some t' \<and> same_session t t')"
proof -
  have "run_ops (pgt_op rnd) (before @ after) empty_tables = run_ops (pgt_op rnd) after (run_ops (pgt_op rnd) before empty_tables)"
    by (simp add: run_ops_def)
  moreover have "metered rnd t" using assms by (rule pg_store.run_metered [where ops = before, rotated 2]) simp_all
  moreover note pg_store.session_kept [OF pg_store.run_ok [where ops = before and rnd = rnd, OF fresh_stores(1)] assms, where ops = after]
  ultimately show ?thesis by simp
qed

text \<open>A forced close of a transaction that is already stopped reports a stop that is not stored.\<close>

lemma force_close_reports_unstored:
  assumes "unique_ids (pt_transactions s)" and "pgt_abs s (si_TransactionID input) = Some t" and "t_ChargerID t = si_ChargerID input" and "t_StopTime t = Some stopTime"
  shows "\<exists>r s'. pgt_ForceCloseTransaction rnd now input s = (Inr r, s') \<and> t_StopTime r = Some now \<and> pgt_abs s' (si_TransactionID input) = Some t"
proof -
  have "pgt_abs (snd (pgt_ForceCloseTransaction rnd now input s)) (si_TransactionID input) = Some t"
    unfolding pgt_stop_spec(2) [OF assms(1)] using assms(2,4) by (auto simp: spec_stop_def spec_at_def open_row_def)
  then show ?thesis using assms by (auto simp: pgt_ForceCloseTransaction_def pgt_get Let_def set_stopped_def)
qed

subsection \<open>Callbacks\<close>


definition sample_callback :: EnqueueCallbackInput where
  "sample_callback = \<lparr>eq_Kind = ''start_transaction'', eq_DedupeKey = ''start_transaction:7'', eq_TransactionID = Some 7, eq_UUIDDB = ''u'',
     eq_TargetURL = ''http://cms'', eq_Payload = [], eq_MaxRetries = 10\<rparr>"


text \<open>Reconciliation lists a transaction until its callback is enqueued, and never afterwards.\<close>

lemma enqueued_not_missing:
  assumes "marshal (eq_Payload input) = Some payload" and "eq_DedupeKey input = callback_key kind t"
  shows "t \<notin> set (pgt_missing_callback kind completedOnly limit (snd (pgt_EnqueueCallback marshal now input s)))"
  using assms by (auto simp: pgt_missing_callback_def pgt_EnqueueCallback_def new_task_def Let_def dest!: in_set_takeD)

subsection \<open>Notifications\<close>

text \<open>
  The observable store (\<^verbatim>\<open>transaction_updates.go\<close>): a change that succeeded is published. Reads and
  callbacks pass through.
\<close>

definition published :: "Transaction tres \<times> 's \<Rightarrow> (Transaction \<Rightarrow> int) \<Rightarrow> TransactionUpdates \<Rightarrow> TransactionUpdates" where
  "published r tid u = (case fst r of Inl _ \<Rightarrow> u | Inr t \<Rightarrow> Publish (tid t) u)"

definition observable_op :: "(rat \<Rightarrow> rat) \<Rightarrow> ts_op \<Rightarrow> transaction_tables \<times> TransactionUpdates \<Rightarrow> transaction_tables \<times> TransactionUpdates" where
  "observable_op rnd op st = (case st of (s, u) \<Rightarrow>
     (snd (pgt_op rnd op s), case op of
        TCreate E input \<Rightarrow> published (pgt_CreateTransaction E input s) t_TransactionID u
      | TMeter input \<Rightarrow> published (pgt_UpdateLiveMeter rnd input s) (\<lambda>_. si_TransactionID input) u
      | TStop now input \<Rightarrow> published (pgt_StopTransaction rnd now input s) (\<lambda>_. si_TransactionID input) u
      | TForceClose now input \<Rightarrow> published (pgt_ForceCloseTransaction rnd now input s) (\<lambda>_. si_TransactionID input) u
      | TMaxKWh tid maxKWh \<Rightarrow> Publish tid u
      | TLimit chargerID tid \<Rightarrow> if fst (pgt_CheckAndMarkLimitStop chargerID tid s) then Publish tid u else u
      | TRelease chargerID tid \<Rightarrow> Publish tid u))"

lemma Publish_signals: "x \<in> set (tu_subscribers (Publish tid u)) \<Longrightarrow> su_transaction x = tid \<Longrightarrow> su_signal x"
proof -
  assume "x \<in> set (tu_subscribers (Publish tid u))" "su_transaction x = tid"
  from \<open>x \<in> set (tu_subscribers (Publish tid u))\<close>
  have "x \<in> (\<lambda>y. if su_transaction y = tid then y\<lparr>su_signal := True\<rparr> else y) ` set (tu_subscribers u)" by (simp add: Publish_def)
  then obtain y where "x = (if su_transaction y = tid then y\<lparr>su_signal := True\<rparr> else y)" by blast
  with \<open>su_transaction x = tid\<close> show ?thesis by (simp split: if_splits)
qed

lemma pgt_update_none: "sql_count P (pt_transactions s) = 0 \<Longrightarrow> pgt_update P f s = s"
  by (simp add: pgt_update_def sql_count_0 sql_update_none)

lemma pgt_create_result:
  "pgt_create_attempts E input k s = (r, s') \<Longrightarrow> case r of Inl _ \<Rightarrow> pt_transactions s' = pt_transactions s
     | Inr t \<Rightarrow> \<exists>t'. pt_transactions s' = pt_transactions s @ [t'] \<and> t_TransactionID t' = t_TransactionID t"
proof (induction E input k s rule: pgt_create_attempts.induct)
  case (1 E input k s)
  show ?case
  proof (cases "k < 100 \<and> ce_uuid E k \<noteq> None \<and> ce_tid E k \<in> t_TransactionID ` set (pt_transactions s)")
    case True
    then have "pgt_create_attempts E input k s = pgt_create_attempts E input (k + 1) (s\<lparr>pt_nextID := pt_nextID s + 1\<rparr>)"
      by (subst pgt_create_attempts.simps) (auto simp: Let_def)
    then show ?thesis using 1 True by (cases r) auto
  next
    case False
    then show ?thesis using 1(2) by (subst (asm) pgt_create_attempts.simps) (auto simp: Let_def split: option.splits if_splits)
  qed
qed

text \<open>
  No change is missed. When an operation of the observable store changes what is stored of a
  transaction, every subscriber of that transaction has a signal waiting, so that a stream that
  reads the store after each signal ends with the latest state.
\<close>

theorem changes_are_signalled:
  assumes "unique_ids (pt_transactions s)" and "observable_op rnd op (s, u) = (s', u')" and "pgt_abs s' tid \<noteq> pgt_abs s tid"
    and "x \<in> set (tu_subscribers u')" and "su_transaction x = tid"
  shows "su_signal x"
proof -
  have s': "s' = snd (pgt_op rnd op s)" using assms(2) by (simp add: observable_op_def)
  have spec: "spec_step rnd pg_ts op (pgt_abs s) (pgt_abs s')" unfolding s' using assms(1) by (rule pg_store.step_spec)
  have at: "u' = Publish tid u \<Longrightarrow> su_signal x" using assms(4,5) Publish_signals by blast
  have kept: "spec_at i f m tid \<noteq> m tid \<Longrightarrow> i = tid" for i f m by (auto simp: spec_at_def split: if_splits)
  show ?thesis
  proof (cases op)
    case (TCreate E input)
    obtain r where r: "pgt_create_attempts E input 0 s = (r, s')" using s' TCreate by (auto simp: pgt_op_def pgt_CreateTransaction_def prod_eq_iff)
    have u': "u' = published (r, s') t_TransactionID u" using assms(2) r TCreate by (simp add: observable_op_def pgt_CreateTransaction_def)
    show ?thesis
    proof (cases r)
      case (Inl e)
      then show ?thesis using pgt_create_result [OF r] assms(3) by simp
    next
      case (Inr t)
      then obtain t' where "pt_transactions s' = pt_transactions s @ [t']" "t_TransactionID t' = t_TransactionID t"
        using pgt_create_result [OF r] by auto
      then have "t_TransactionID t = tid" using assms(3) by (auto simp: table_of_def sql_row_append split: option.splits if_splits)
      then show ?thesis using at u' Inr by (simp add: published_def)
    qed
  next
    case (TMeter input)
    have "si_TransactionID input = tid" using spec assms(3) kept unfolding TMeter spec_step_def spec_stop_def by auto
    moreover have "s' = s \<or> u' = Publish (si_TransactionID input) u"
      using assms(2) s' TMeter by (simp add: observable_op_def published_def pgt_UpdateLiveMeter_def pgt_op_def Let_def pgt_update_none split: sum.splits if_splits)
    ultimately show ?thesis using at assms(3) by auto
  next
    case (TStop now input)
    have "si_TransactionID input = tid" using spec assms(3) kept unfolding TStop spec_step_def spec_stop_def by auto
    moreover have "s' = s \<or> u' = Publish (si_TransactionID input) u"
      using assms(2) s' TStop by (simp add: observable_op_def published_def pgt_StopTransaction_def pgt_op_def Let_def pgt_update_none split: sum.splits if_splits)
    ultimately show ?thesis using at assms(3) by auto
  next
    case (TForceClose now input)
    have "si_TransactionID input = tid" using spec assms(3) kept unfolding TForceClose spec_step_def spec_stop_def by auto
    moreover have "s' = s \<or> u' = Publish (si_TransactionID input) u"
      using assms(2) s' TForceClose by (simp add: observable_op_def published_def pgt_ForceCloseTransaction_def pgt_op_def Let_def pgt_update_none split: sum.splits if_splits)
    ultimately show ?thesis using at assms(3) by auto
  next
    case (TLimit c i)
    then show ?thesis using spec assms(1,2,3) at kept pgt_limit_claims [OF assms(1), of c i]
      by (auto simp: spec_step_def observable_op_def spec_claims_def spec_at_def split: option.splits if_splits)
  qed (use spec assms(2,3) at kept in \<open>auto simp: spec_step_def observable_op_def\<close>)
qed

theorem changes_are_signalled_witness:
  "\<forall>x\<in>set (tu_subscribers (snd (observable_op (\<lambda>x. x) (TMaxKWh 7 2)
      (run_ops (pgt_op (\<lambda>x. x)) sample_session empty_tables, snd (Subscribe 7 NewTransactionUpdates))))). su_signal x"
proof
  let ?s = "run_ops (pgt_op (\<lambda>x. x)) sample_session empty_tables" and ?u = "snd (Subscribe 7 NewTransactionUpdates)"
  fix x
  assume x: "x \<in> set (tu_subscribers (snd (observable_op (\<lambda>x. x) (TMaxKWh 7 2) (?s, ?u))))"
  obtain s' u' where run: "observable_op (\<lambda>x. x) (TMaxKWh 7 2) (?s, ?u) = (s', u')" by force
  have "unique_ids (pt_transactions ?s)" by (rule pg_store.run_ok) simp
  moreover have "pgt_abs s' 7 \<noteq> pgt_abs ?s 7" using run
    by (auto simp: observable_op_def run_ops_def sample_session_def pgt_op_def pgt_CreateTransaction_def pgt_create_attempts.simps created_transaction_def
        empty_tables_def pgt_UpdateTransactionMaxKWh_def pgt_update_def sql_update_def pgt_UpdateLiveMeter_def pgt_GetByTransactionID_def load_base_def
        table_of_def sql_row_Cons Let_def)
  moreover have "su_transaction x = 7" using x by (auto simp: observable_op_def Publish_def Subscribe_def NewTransactionUpdates_def Let_def)
  ultimately show "su_signal x" using changes_are_signalled [OF _ run, of 7 x] x run by auto
qed

end
