(* ===== verification/Charger_Analytics.thy ===== *)
theory Charger_Analytics
  imports Transaction_System
begin

text \<open>
  Usage figures per charger (\<^verbatim>\<open>analytics_types.go\<close>, \<^verbatim>\<open>analytics_memory.go\<close>, \<^verbatim>\<open>analytics_postgres.go\<close>):
  the memory store computes them in a loop over its transactions, the PostgreSQL store in SQL
  aggregates. \<^verbatim>\<open>float64\<close> is as in the transaction store; \<^verbatim>\<open>SUM\<close> of a double precision column adds and
  rounds row by row, \<^verbatim>\<open>EXTRACT(EPOCH FROM ...)\<close> is exact until it is scanned. The hour that
  \<^verbatim>\<open>EXTRACT(HOUR FROM ...)\<close> gives depends on the session's time zone and is a parameter.
\<close>

record AnalyticsInput =
  ai_ChargerID :: string
  ai_StartTime :: "gotime option"
  ai_EndTime :: "gotime option"

record ChargerAnalytics =
  ca_ChargerID :: string
  ca_Timestamp :: gotime
  ca_TotalUptime :: string
  ca_UptimePercentage :: rat
  ca_TotalTransactions :: int
  ca_TotalElectricityUsedKWh :: rat
  ca_OccupancyRatePercentage :: rat
  ca_AverageSessionDuration :: string
  ca_PeakUsageTimes :: string
  ca_TotalTimeOccupied :: string
  ca_TotalTimeOccupiedSeconds :: rat
  ca_TotalPossibleSeconds :: rat
  ca_TotalUptimeSeconds :: rat

record AnalyticsOutput =
  ao_Analytics :: "(string \<times> ChargerAnalytics) list option"
  ao_TotalUptime :: string
  ao_TotalTransactions :: int
  ao_TotalElectricityUsedKWh :: rat
  ao_TotalTimeOccupied :: string
  ao_TotalTimeOccupiedSeconds :: rat
  ao_TotalUptimeSeconds :: rat

subsection \<open>Texts\<close>

text \<open>\<^verbatim>\<open>math.Round\<close>: halves away from zero.\<close>

definition Round :: "rat \<Rightarrow> int" where
  "Round x = (if x \<ge> 0 then \<lfloor>x + 1 / 2\<rfloor> else - \<lfloor>1 / 2 - x\<rfloor>)"

definition round3 :: "(rat \<Rightarrow> rat) \<Rightarrow> rat \<Rightarrow> rat" where
  "round3 rnd v = rnd (of_int (Round (rnd (v * 1000))) / 1000)"

definition duration_parts :: "int \<Rightarrow> (int \<times> string) list" where
  "duration_parts seconds =
     (let years = seconds div 31536000; seconds = seconds mod 31536000;
          days = seconds div 86400; seconds = seconds mod 86400;
          hours = seconds div 3600; seconds = seconds mod 3600;
          minutes = seconds div 60; seconds = seconds mod 60
      in [(years, ''years''), (days, ''days''), (hours, ''hours''), (minutes, ''minutes''), (seconds, ''seconds'')])"

fun join_comma :: "string list \<Rightarrow> string" where
  "join_comma [] = ''''"
| "join_comma [x] = x"
| "join_comma (x # y # xs) = x @ '', '' @ join_comma (y # xs)"

definition FormatDuration :: "rat \<Rightarrow> string" where
  "FormatDuration secondsFloat =
     (let seconds = max 0 (Round secondsFloat);
          out = join_comma (List.map_filter (\<lambda>(value, name). if value \<le> 0 then None else Some (FormatInt value @ '' '' @ name)) (duration_parts seconds))
      in if out = '''' then ''0 seconds'' else out)"

definition clock_hour :: "nat \<Rightarrow> string" where
  "clock_hour hour = (let h = hour mod 24 in (if h < 10 then ''0'' else '''') @ digits h @ '':00'')"

definition formatPeakHour :: "nat \<Rightarrow> string" where
  "formatPeakHour hour = clock_hour hour @ '' - '' @ clock_hour (hour + 1)"

text \<open>\<^verbatim>\<open>sort.Strings\<close> leaves the hours as they are: their texts are in order.\<close>

definition PeakUsageTimes :: "int list \<Rightarrow> string" where
  "PeakUsageTimes peak =
     (if length peak \<noteq> 24 then ''No data available''
      else (let maxCount = foldl max 0 peak in
            if maxCount = 0 then ''No peak usage times - charger was not used during this period.''
            else join_comma (map formatPeakHour (filter (\<lambda>hour. peak ! hour = maxCount) [0..<24]))))"

subsection \<open>Figures of one charger\<close>

text \<open>The struct that both stores fill in at the end.\<close>

definition charger_figures :: "(rat \<Rightarrow> rat) \<Rightarrow> gotime \<Rightarrow> string \<Rightarrow> gotime \<Rightarrow> gotime \<Rightarrow> int \<Rightarrow> rat \<Rightarrow> rat \<Rightarrow> int list \<Rightarrow> ChargerAnalytics" where
  "charger_figures rnd now chargerID start end' n kwh occupied peak =
     (let totalPossible = max 0 (Seconds rnd (time_Sub end' start));
          avgSeconds = (if n > 0 then rnd (occupied / of_int n) else 0);
          occupancy = (if totalPossible > 0 \<and> occupied > 0 then round3 rnd (rnd (rnd (occupied / totalPossible) * 100)) else 0)
      in \<lparr>ca_ChargerID = chargerID, ca_Timestamp = now, ca_TotalUptime = FormatDuration 0, ca_UptimePercentage = 0,
          ca_TotalTransactions = n, ca_TotalElectricityUsedKWh = kwh, ca_OccupancyRatePercentage = occupancy,
          ca_AverageSessionDuration = FormatDuration avgSeconds, ca_PeakUsageTimes = PeakUsageTimes peak,
          ca_TotalTimeOccupied = FormatDuration occupied, ca_TotalTimeOccupiedSeconds = occupied,
          ca_TotalPossibleSeconds = totalPossible, ca_TotalUptimeSeconds = 0\<rparr>)"

definition end_time :: "Transaction \<Rightarrow> gotime" where
  "end_time t = (case t_StopTime t of None \<Rightarrow> t_StartTime t | Some stop \<Rightarrow> stop)"

definition utc_hour :: "gotime \<Rightarrow> nat" where
  "utc_hour t = nat ((t div (60 * duration_minute)) mod 24)"

text \<open>The loop of the memory store over the transactions of the charger in the window.\<close>

definition mem_min :: "Transaction list \<Rightarrow> gotime option" where
  "mem_min ts = foldl (\<lambda>m t. case m of None \<Rightarrow> Some (t_StartTime t) | Some x \<Rightarrow> if t_StartTime t < x then Some (t_StartTime t) else m) None ts"

definition mem_max :: "Transaction list \<Rightarrow> gotime option" where
  "mem_max ts = foldl (\<lambda>m t. case m of None \<Rightarrow> Some (end_time t) | Some x \<Rightarrow> if x < end_time t then Some (end_time t) else m) None ts"

definition mem_window :: "gotime \<Rightarrow> AnalyticsInput \<Rightarrow> Transaction list \<Rightarrow> gotime \<times> gotime" where
  "mem_window now input own =
     (let start = (case ai_StartTime input of Some v \<Rightarrow> Some v | None \<Rightarrow> mem_min own);
          end' = (case ai_EndTime input of Some v \<Rightarrow> Some v | None \<Rightarrow> mem_max own)
      in (case start of Some v \<Rightarrow> v | None \<Rightarrow> now, case end' of Some v \<Rightarrow> v | None \<Rightarrow> now))"

record mem_figures =
  mf_count :: int
  mf_kwh :: rat
  mf_occupied :: rat
  mf_peak :: "int list"

definition count_transaction :: "(rat \<Rightarrow> rat) \<Rightarrow> mem_figures \<Rightarrow> Transaction \<Rightarrow> mem_figures" where
  "count_transaction rnd f t = \<lparr>mf_count = mf_count f + 1,
     mf_kwh = (case t_TotalConsumption t of None \<Rightarrow> mf_kwh f | Some v \<Rightarrow> rnd (mf_kwh f + v)),
     mf_occupied = (case t_StopTime t of None \<Rightarrow> mf_occupied f | Some stop \<Rightarrow> rnd (mf_occupied f + Seconds rnd (time_Sub stop (t_StartTime t)))),
     mf_peak = (mf_peak f)[utc_hour (t_StartTime t) := mf_peak f ! utc_hour (t_StartTime t) + 1]\<rparr>"

definition computeMemoryAnalytics :: "(rat \<Rightarrow> rat) \<Rightarrow> gotime \<Rightarrow> string \<Rightarrow> AnalyticsInput \<Rightarrow> Transaction list \<Rightarrow> ChargerAnalytics" where
  "computeMemoryAnalytics rnd now chargerID input transactions =
     (let own = filter (\<lambda>t. t_ChargerID t = chargerID) transactions;
          (start, end') = mem_window now input own;
          f = foldl (count_transaction rnd) \<lparr>mf_count = 0, mf_kwh = 0, mf_occupied = 0, mf_peak = replicate 24 0\<rparr>
                (filter (\<lambda>t. start \<le> t_StartTime t \<and> t_StartTime t \<le> end') own)
      in charger_figures rnd now chargerID start end' (mf_count f) (mf_kwh f) (mf_occupied f) (mf_peak f))"

text \<open>The aggregates of the PostgreSQL store.\<close>

definition pgt_window :: "gotime \<Rightarrow> AnalyticsInput \<Rightarrow> Transaction list \<Rightarrow> gotime \<times> gotime" where
  "pgt_window now input own =
     (let start = (case ai_StartTime input of Some v \<Rightarrow> v | None \<Rightarrow> if own = [] then now else Min (t_StartTime ` set own));
          end' = (case ai_EndTime input of Some v \<Rightarrow> v | None \<Rightarrow> if own = [] then now else Max (end_time ` set own))
      in (start, end'))"

definition pgt_occupied :: "(rat \<Rightarrow> rat) \<Rightarrow> Transaction list \<Rightarrow> rat" where
  "pgt_occupied rnd rows = rnd (sum_list (map (\<lambda>t. case t_StopTime t of None \<Rightarrow> 0 | Some stop \<Rightarrow> of_int (stop - t_StartTime t) / 1000000000) rows))"

definition pgt_kwh :: "(rat \<Rightarrow> rat) \<Rightarrow> Transaction list \<Rightarrow> rat" where
  "pgt_kwh rnd rows = foldl (\<lambda>a v. rnd (a + v)) 0 (List.map_filter t_TotalConsumption rows)"

definition pgt_peak :: "(gotime \<Rightarrow> nat) \<Rightarrow> Transaction list \<Rightarrow> int list" where
  "pgt_peak hourOf rows = map (\<lambda>hour. int (length (filter (\<lambda>t. hourOf (t_StartTime t) = hour) rows))) [0..<24]"

definition analyticsForCharger :: "(rat \<Rightarrow> rat) \<Rightarrow> (gotime \<Rightarrow> nat) \<Rightarrow> gotime \<Rightarrow> string \<Rightarrow> AnalyticsInput \<Rightarrow> Transaction list \<Rightarrow> ChargerAnalytics" where
  "analyticsForCharger rnd hourOf now chargerID input transactions =
     (let own = filter (\<lambda>t. t_ChargerID t = chargerID) transactions;
          (start, end') = pgt_window now input own;
          rows = filter (\<lambda>t. start \<le> t_StartTime t \<and> t_StartTime t \<le> end') own
      in charger_figures rnd now chargerID start end' (int (length rows)) (pgt_kwh rnd rows) (pgt_occupied rnd rows) (pgt_peak hourOf rows))"

subsection \<open>All chargers\<close>

definition every_charger :: "string \<Rightarrow> bool" where
  "every_charger chargerID \<longleftrightarrow> chargerID \<in> {'''', ''all'', ''cumulative''}"

definition collect_analytics :: "(rat \<Rightarrow> rat) \<Rightarrow> AnalyticsInput \<Rightarrow> (string \<times> ChargerAnalytics) list \<Rightarrow> AnalyticsOutput" where
  "collect_analytics rnd input figures =
     (let occupied = foldl (\<lambda>a (_, c). rnd (a + ca_TotalTimeOccupiedSeconds c)) 0 figures;
          uptime = foldl (\<lambda>a (_, c). rnd (a + ca_TotalUptimeSeconds c)) 0 figures
      in \<lparr>ao_Analytics = (if ai_ChargerID input = ''cumulative'' then None else Some figures),
          ao_TotalUptime = FormatDuration uptime, ao_TotalTransactions = sum_list (map (ca_TotalTransactions \<circ> snd) figures),
          ao_TotalElectricityUsedKWh = foldl (\<lambda>a (_, c). rnd (a + ca_TotalElectricityUsedKWh c)) 0 figures,
          ao_TotalTimeOccupied = FormatDuration occupied, ao_TotalTimeOccupiedSeconds = occupied, ao_TotalUptimeSeconds = uptime\<rparr>)"

text \<open>The order of \<open>chargers\<close> is the order in which Go iterates the set of identifiers.\<close>

definition mem_ChargerAnalytics :: "(rat \<Rightarrow> rat) \<Rightarrow> gotime \<Rightarrow> AnalyticsInput \<Rightarrow> MemoryStore \<Rightarrow> AnalyticsOutput" where
  "mem_ChargerAnalytics rnd now input s =
     (let chargers = remdups (map t_ChargerID (filter (\<lambda>t. every_charger (ai_ChargerID input) \<or> t_ChargerID t = ai_ChargerID input) (ms_transactions s)));
          chargers = (if chargers = [] \<and> \<not> every_charger (ai_ChargerID input) then [ai_ChargerID input] else chargers)
      in collect_analytics rnd input (map (\<lambda>c. (c, computeMemoryAnalytics rnd now c input (ms_transactions s))) chargers))"

text \<open>\<open>collate\<close> is the order that \<^verbatim>\<open>ORDER BY charger_id\<close> has in the database.\<close>

definition analyticsChargerIDs :: "(string list \<Rightarrow> string list) \<Rightarrow> string \<Rightarrow> transaction_tables \<Rightarrow> string list" where
  "analyticsChargerIDs collate chargerID s =
     (if \<not> every_charger chargerID then [chargerID] else collate (remdups (map t_ChargerID (pt_transactions s))))"

definition pgt_ChargerAnalytics :: "(rat \<Rightarrow> rat) \<Rightarrow> (gotime \<Rightarrow> nat) \<Rightarrow> (string list \<Rightarrow> string list) \<Rightarrow> gotime \<Rightarrow> AnalyticsInput \<Rightarrow> transaction_tables \<Rightarrow> AnalyticsOutput" where
  "pgt_ChargerAnalytics rnd hourOf collate now input s =
     (let chargers = analyticsChargerIDs collate (ai_ChargerID input) s;
          chargers = (if chargers = [] \<and> \<not> every_charger (ai_ChargerID input) then [ai_ChargerID input] else chargers)
      in collect_analytics rnd input (map (\<lambda>c. (c, analyticsForCharger rnd hourOf now c input (pt_transactions s))) chargers))"

subsection \<open>The loop computes the aggregates\<close>

lemma keep_min: "(if a < b then Some a else Some b) = Some (min a (b :: int))"
  by (simp add: min_def)

lemma keep_max: "(if b < a then Some a else Some b) = Some (max a (b :: int))"
  by (simp add: max_def)

lemma mem_min_eq: "mem_min ts = (if ts = [] then None else Some (Min (t_StartTime ` set ts)))"
proof (induction ts rule: rev_induct)
  case (snoc t ts)
  then show ?case
    by (cases "ts = []") (simp_all add: mem_min_def keep_min del: Min_gr_iff Min_less_iff)
qed (simp add: mem_min_def)

lemma mem_max_eq: "mem_max ts = (if ts = [] then None else Some (Max (end_time ` set ts)))"
proof (induction ts rule: rev_induct)
  case (snoc t ts)
  then show ?case
    by (cases "ts = []") (simp_all add: mem_max_def keep_max del: Max_gr_iff Max_less_iff)
qed (simp add: mem_max_def)

lemma window_eq: "mem_window now input own = pgt_window now input own"
  by (simp add: mem_window_def pgt_window_def mem_min_eq mem_max_eq Let_def split: option.split)

lemma Seconds_exact: "in_int64 (t - u) \<Longrightarrow> Seconds (\<lambda>x. x) (time_Sub t u) = of_int (t - u) / 1000000000"
proof -
  assume "in_int64 (t - u)"
  moreover have "of_int (go_div d duration_second) + of_int (go_mod d duration_second) / 1000000000 = (of_int d :: rat) / 1000000000" for d
  proof -
    have "d = go_div d duration_second * 1000000000 + go_mod d duration_second"
      by (simp add: go_div_def go_mod_def)
    then have "(of_int d :: rat) = of_int (go_div d duration_second) * 1000000000 + of_int (go_mod d duration_second)"
      by (metis of_int_add of_int_mult of_int_numeral)
    then show ?thesis by (simp add: add_divide_distrib)
  qed
  ultimately show ?thesis by (simp add: Seconds_def time_Sub_exact del: of_int_diff)
qed

lemma utc_hour_less: "utc_hour t < 24"
  by (simp add: utc_hour_def nat_less_iff)

definition measured :: "Transaction list \<Rightarrow> bool" where
  "measured ts \<longleftrightarrow> list_all (\<lambda>t. case t_StopTime t of None \<Rightarrow> True | Some stop \<Rightarrow> in_int64 (stop - t_StartTime t)) ts"

definition mem_sum :: "Transaction list \<Rightarrow> mem_figures" where
  "mem_sum rows = foldl (count_transaction (\<lambda>x. x)) \<lparr>mf_count = 0, mf_kwh = 0, mf_occupied = 0, mf_peak = replicate 24 0\<rparr> rows"

lemma map_filter_snoc: "List.map_filter f (xs @ [x]) = List.map_filter f xs @ (case f x of None \<Rightarrow> [] | Some y \<Rightarrow> [y])"
  by (simp add: List.map_filter_def split: option.split)

lemma pgt_peak_snoc:
  assumes "hourOf (t_StartTime t) < 24"
  shows "pgt_peak hourOf (rows @ [t]) = (pgt_peak hourOf rows)[hourOf (t_StartTime t) := pgt_peak hourOf rows ! hourOf (t_StartTime t) + 1]"
  using assms by (intro nth_equalityI) (auto simp: pgt_peak_def nth_list_update)

lemma mem_sum_eq:
  "measured rows \<Longrightarrow> mem_sum rows = \<lparr>mf_count = int (length rows), mf_kwh = pgt_kwh (\<lambda>x. x) rows,
     mf_occupied = pgt_occupied (\<lambda>x. x) rows, mf_peak = pgt_peak utc_hour rows\<rparr>"
proof (induction rows rule: rev_induct)
  case Nil
  then show ?case by (simp add: mem_sum_def pgt_kwh_def pgt_occupied_def pgt_peak_def List.map_filter_def map_replicate_const)
next
  case (snoc t rows)
  then have IH: "mem_sum rows = \<lparr>mf_count = int (length rows), mf_kwh = pgt_kwh (\<lambda>x. x) rows,
     mf_occupied = pgt_occupied (\<lambda>x. x) rows, mf_peak = pgt_peak utc_hour rows\<rparr>"
    and m: "case t_StopTime t of None \<Rightarrow> True | Some stop \<Rightarrow> in_int64 (stop - t_StartTime t)"
    by (simp_all add: measured_def)
  have "mem_sum (rows @ [t]) = count_transaction (\<lambda>x. x) (mem_sum rows) t"
    by (simp add: mem_sum_def)
  with IH m show ?case
    by (simp add: count_transaction_def pgt_peak_snoc utc_hour_less pgt_kwh_def map_filter_snoc pgt_occupied_def Seconds_exact
        del: of_int_diff split: option.splits)
qed

lemma memory_analytics_eq:
  assumes "measured ts"
  shows "computeMemoryAnalytics (\<lambda>x. x) now c input ts = analyticsForCharger (\<lambda>x. x) utc_hour now c input ts"
proof -
  have "measured (filter P (filter Q ts))" for P Q
    using assms by (simp add: measured_def list_all_iff)
  then show ?thesis
    by (simp add: computeMemoryAnalytics_def analyticsForCharger_def window_eq mem_sum_def [symmetric] mem_sum_eq Let_def
        del: filter_filter split: prod.split)
qed

subsection \<open>The order of the rows does not matter\<close>

lemma pgt_kwh_mset: "pgt_kwh (\<lambda>x. x) rows = (\<Sum>t\<in>#mset rows. case t_TotalConsumption t of None \<Rightarrow> 0 | Some v \<Rightarrow> v)"
proof -
  have "foldl (\<lambda>a v. a + v) (x :: rat) ys = x + sum_list ys" for x ys
    by (induction ys arbitrary: x) (simp_all add: add.assoc)
  moreover have "sum_list (List.map_filter t_TotalConsumption rows) = sum_list (map (\<lambda>t. case t_TotalConsumption t of None \<Rightarrow> 0 | Some v \<Rightarrow> v) rows)"
    by (induction rows) (simp_all add: List.map_filter_def split: option.split)
  ultimately show ?thesis
    by (simp add: pgt_kwh_def sum_mset_sum_list [symmetric] mset_map [symmetric] del: mset_map)
qed

lemma analyticsForCharger_mset:
  assumes "mset ts = mset us"
  shows "analyticsForCharger (\<lambda>x. x) hourOf now c input ts = analyticsForCharger (\<lambda>x. x) hourOf now c input us"
proof -
  have flt: "mset (filter P ts) = mset (filter P us)" for P
    using assms by simp
  have len: "length (filter P ts) = length (filter P us)" for P
    by (rule mset_eq_length [OF flt])
  have window: "pgt_window now input (filter P ts) = pgt_window now input (filter P us)" for P
    unfolding pgt_window_def mset_eq_setD [OF flt [of P]] length_0_conv [symmetric] len ..
  have kwh: "pgt_kwh (\<lambda>x. x) (filter P ts) = pgt_kwh (\<lambda>x. x) (filter P us)" for P
    unfolding pgt_kwh_mset flt ..
  have occupied: "pgt_occupied (\<lambda>x. x) (filter P ts) = pgt_occupied (\<lambda>x. x) (filter P us)" for P
    unfolding pgt_occupied_def sum_mset_sum_list [symmetric] mset_map flt ..
  have peak: "pgt_peak hourOf (filter P ts) = pgt_peak hourOf (filter P us)" for P
    unfolding pgt_peak_def filter_filter len ..
  show ?thesis
    unfolding analyticsForCharger_def Let_def filter_filter window len kwh occupied peak ..
qed

lemma distinct_singleton_list: "xs \<noteq> [] \<Longrightarrow> distinct xs \<Longrightarrow> (\<And>x. x \<in> set xs \<Longrightarrow> x = a) \<Longrightarrow> xs = [a]"
  by (cases xs; cases "tl xs") auto

definition same_figures :: "AnalyticsOutput \<Rightarrow> AnalyticsOutput \<Rightarrow> bool" where
  "same_figures a b \<longleftrightarrow> map_option map_of (ao_Analytics a) = map_option map_of (ao_Analytics b) \<and>
     AnalyticsOutput.truncate (a\<lparr>ao_Analytics := None\<rparr>) = AnalyticsOutput.truncate (b\<lparr>ao_Analytics := None\<rparr>)"

lemma collect_analytics_perm:
  assumes "mset cs = mset ds" "distinct cs"
  shows "same_figures (collect_analytics (\<lambda>x. x) input (map (\<lambda>c. (c, f c)) cs)) (collect_analytics (\<lambda>x. x) input (map (\<lambda>c. (c, f c)) ds))"
proof -
  have add: "foldl (\<lambda>a (_, c). a + g c) (x :: rat) (map (\<lambda>c. (c, f c)) es) = x + (\<Sum>e\<in>#mset es. g (f e))" for g x es
    by (induction es arbitrary: x) (simp_all add: add.assoc)
  have trans: "sum_list (map (g \<circ> snd) (map (\<lambda>c. (c, f c)) es)) = (\<Sum>e\<in>#mset es. g (f e))" for g :: "_ \<Rightarrow> int" and es
    by (induction es) simp_all
  have "map_of (map (\<lambda>c. (c, f c)) cs) = map_of (map (\<lambda>c. (c, f c)) ds)"
    using mset_eq_setD [OF assms(1)] by (auto simp: map_of_map_restrict)
  then show ?thesis
    by (simp add: same_figures_def collect_analytics_def Let_def add trans assms(1) AnalyticsOutput.defs del: map_map)
qed

lemma mset_remdups_eq: "set xs = set ys \<Longrightarrow> mset (remdups xs) = mset (remdups ys)"
  by (metis mset_set_set distinct_remdups set_remdups)


definition short_session :: Transaction where
  "short_session = \<lparr>t_ID = 1, t_UUIDDB = ''u1'', t_ChargerID = ''CP1'', t_ConnectorID = 1, t_MeterStart = 0, t_MeterStop = Some 1500,
     t_TotalConsumption = Some (3 / 2), t_StartTime = 1000 * duration_minute, t_StopTime = Some (1030 * duration_minute),
     t_IDTag = ''tag'', t_TransactionID = 11, t_IsSingleSession = False, t_MaxKWh = None, t_LimitStopRequested = False\<rparr>"

definition running_session :: Transaction where
  "running_session = short_session\<lparr>t_ID := 2, t_TransactionID := 12, t_StartTime := 1010 * duration_minute, t_StopTime := None, t_TotalConsumption := None\<rparr>"


subsection \<open>Readings of the figures\<close>

text \<open>The parts a duration is printed in add up to it, and no smaller part reaches the next larger unit.\<close>

lemma duration_parts_exact:
  assumes "0 \<le> s"
  shows "sum_list (map2 (\<lambda>(v, _) u. v * u) (duration_parts s) [31536000, 86400, 3600, 60, 1]) = s"
    and "list_all2 (\<lambda>(v, _) bound. 0 \<le> v \<and> v < bound) (tl (duration_parts s)) [365, 24, 60, 60]"
proof -
  show "sum_list (map2 (\<lambda>(v, _) u. v * u) (duration_parts s) [31536000, 86400, 3600, 60, 1]) = s"
    by (simp add: duration_parts_def Let_def)
next
  have "0 \<le> a div b \<and> a div b < n" if "0 \<le> a" "a < n * b" "0 < b" for a b n :: int
  proof -
    have "a div b * b < n * b"
      using div_mult_mod_eq [of a b] pos_mod_sign [OF that(3), of a] that(2) by linarith
    then show ?thesis using that by (simp add: pos_imp_zdiv_nonneg_iff)
  qed
  from this [of "s mod 31536000" 365 86400] this [of "s mod 31536000 mod 86400" 24 3600] this [of "s mod 31536000 mod 86400 mod 3600" 60 60]
  show "list_all2 (\<lambda>(v, _) bound. 0 \<le> v \<and> v < bound) (tl (duration_parts s)) [365, 24, 60, 60]"
    by (simp add: duration_parts_def Let_def)
qed

text \<open>
  \<^verbatim>\<open>EXTRACT(HOUR FROM start_time)\<close> reads a \<^verbatim>\<open>TIMESTAMPTZ\<close> in the time zone of the session: in a database
  five and a half hours ahead of UTC the same session is reported in another hour than from memory.
\<close>

lemma session_hours:
  "utc_hour (t_StartTime short_session + 330 * duration_minute) = 22" "utc_hour (t_StartTime short_session) = 16"
  by (simp_all add: utc_hour_def short_session_def)

lemma peak_hour_follows_session_zone:
  "pgt_peak (\<lambda>t. utc_hour (t + 330 * duration_minute)) [short_session] ! 16 = 0"
  "mf_peak (mem_sum [short_session]) ! 16 = 1"
  by (simp_all add: pgt_peak_def mem_sum_def count_transaction_def session_hours [simplified])

end
