(* ===== verification/Spec2Isabelle.thy ===== *)
theory Spec2Isabelle
  imports Meter_Evidence SoC_Percent V1_Memory HAL_System HTTP_System Service_Start Migration_Runner Charger_Analytics
begin

text \<open>
  A verification development of the OCPP HAL.
\<close>

end
